(* ===== verification/Prelude.thy ===== *)
theory Prelude
  imports Main "HOL-Library.Char_ord" "HOL-Library.List_Lexorder" "HOL-Library.Product_Lexorder"
begin

text \<open>
  Shared vocabulary of the Hermes development: results that may carry a Python exception, the
  guard tables in which every model validator is written, the ordered collection of reason
  codes, and the generic lemmas on them that carry the component proofs.
\<close>

section \<open>Lemma collections\<close>

named_theorems wf_defs \<open>unfolding of the well-formedness predicates of the model records\<close>
named_theorems gate_defs \<open>unfolding of the gate functions\<close>

section \<open>Results\<close>

text \<open>A computation that may raise: \<open>Inl\<close> carries the exception.\<close>

definition bind_res :: "'e + 'a \<Rightarrow> ('a \<Rightarrow> 'e + 'b) \<Rightarrow> 'e + 'b" where
  "bind_res r f = (case r of Inl e \<Rightarrow> Inl e | Inr a \<Rightarrow> f a)"

definition map_res :: "('a \<Rightarrow> 'b) \<Rightarrow> 'e + 'a \<Rightarrow> 'e + 'b" where
  "map_res f r = (case r of Inl e \<Rightarrow> Inl e | Inr a \<Rightarrow> Inr (f a))"

definition is_ok :: "'e + 'a \<Rightarrow> bool" where
  "is_ok r = (case r of Inl _ \<Rightarrow> False | Inr _ \<Rightarrow> True)"

text \<open>\<open>require b e r\<close>: raise \<open>e\<close> unless \<open>b\<close>, then continue with \<open>r\<close>.\<close>

definition require :: "bool \<Rightarrow> 'e \<Rightarrow> 'e + 'a \<Rightarrow> 'e + 'a" where
  "require b e r = (if b then r else Inl e)"

text \<open>The guards of a validator in the order of the code: each pair holds the condition under
  which the code raises and the message; the first violated guard decides.\<close>

fun first_violation :: "(bool \<times> string) list \<Rightarrow> string option" where
  "first_violation [] = None"
| "first_violation ((bad, msg) # gs) = (if bad then Some msg else first_violation gs)"

text \<open>Order-preserving collection without duplicates: \<open>add\<close>, \<open>add_all\<close> and
  \<open>dict.fromkeys\<close> of the Python sources.\<close>

definition add_code :: "'a list \<Rightarrow> 'a \<Rightarrow> 'a list" where
  "add_code codes c = (if c \<in> set codes then codes else codes @ [c])"

fun add_all :: "'a list \<Rightarrow> 'a list \<Rightarrow> 'a list" where
  "add_all codes [] = codes"
| "add_all codes (c # cs) = add_all (add_code codes c) cs"

definition dict_fromkeys :: "'a list \<Rightarrow> 'a list" where
  "dict_fromkeys xs = add_all [] xs"

definition opt_list :: "'a option \<Rightarrow> 'a list" where
  "opt_list x = (case x of None \<Rightarrow> [] | Some a \<Rightarrow> [a])"

text \<open>Upper case of an ASCII string (\<open>str.upper\<close>) and white space trimming with lower
  case (\<open>str.strip().lower()\<close>).\<close>

definition char_upper :: "char \<Rightarrow> char" where
  "char_upper c = (let n = of_char c :: nat in if 97 \<le> n \<and> n \<le> 122 then char_of (n - 32) else c)"

definition char_lower :: "char \<Rightarrow> char" where
  "char_lower c = (let n = of_char c :: nat in if 65 \<le> n \<and> n \<le> 90 then char_of (n + 32) else c)"

definition str_upper :: "string \<Rightarrow> string" where
  "str_upper s = map char_upper s"

definition str_lower :: "string \<Rightarrow> string" where
  "str_lower s = map char_lower s"

text \<open>\<open>str.strip()\<close> and \<open>str.split(sep)\<close> for ASCII text.\<close>

definition is_space :: "char \<Rightarrow> bool" where
  "is_space c = (let n = of_char c :: nat in 9 \<le> n \<and> n \<le> 13 \<or> 28 \<le> n \<and> n \<le> 32)"

definition str_strip :: "string \<Rightarrow> string" where
  "str_strip s = rev (dropWhile is_space (rev (dropWhile is_space s)))"

fun str_split :: "char \<Rightarrow> string \<Rightarrow> string list" where
  "str_split sep [] = [[]]"
| "str_split sep (c # cs) =
     (if c = sep then [] # str_split sep cs
      else case str_split sep cs of [] \<Rightarrow> [[c]] | w # ws \<Rightarrow> (c # w) # ws)"

text \<open>\<open>int(s)\<close> of an ASCII string: surrounding white space, an optional sign, digits with
  single underscores between them.\<close>

definition is_digit :: "char \<Rightarrow> bool" where
  "is_digit c = (let n = of_char c :: nat in 48 \<le> n \<and> n \<le> 57)"

fun parse_digits :: "bool \<Rightarrow> int \<Rightarrow> string \<Rightarrow> int option" where
  "parse_digits after_digit acc [] = (if after_digit then Some acc else None)"
| "parse_digits after_digit acc (c # cs) =
     (if is_digit c then parse_digits True (acc * 10 + (of_char c - 48)) cs
      else if c = CHR ''_'' \<and> after_digit then parse_digits False acc cs
      else None)"

definition py_int :: "string \<Rightarrow> int option" where
  "py_int s =
     (case str_strip s of
        [] \<Rightarrow> None
      | c # cs \<Rightarrow>
          if c = CHR ''-'' then map_option uminus (parse_digits False 0 cs)
          else if c = CHR ''+'' then parse_digits False 0 cs
          else parse_digits False 0 (c # cs))"

text \<open>Decimal digits of a number (\<open>str(n)\<close>) and joining with a separator.\<close>

definition digit_char :: "int \<Rightarrow> char" where
  "digit_char d = char_of (48 + nat d)"

function nat_str :: "int \<Rightarrow> string" where
  "nat_str n = (if n < 10 then [digit_char n] else nat_str (n div 10) @ [digit_char (n mod 10)])"
  by pat_completeness auto
termination
  by (relation "measure nat") auto

declare nat_str.simps [simp del]

definition int_str :: "int \<Rightarrow> string" where
  "int_str i = (if i < 0 then ''-'' @ nat_str (- i) else nat_str i)"

fun str_join :: "string \<Rightarrow> string list \<Rightarrow> string" where
  "str_join sep [] = []"
| "str_join sep [s] = s"
| "str_join sep (s # t # ts) = s @ sep @ str_join sep (t # ts)"

section \<open>Lemmas on results\<close>

lemma bind_res_simps [simp]:
  "bind_res (Inl e) f = Inl e"
  "bind_res (Inr a) f = f a"
  by (simp_all add: bind_res_def)

lemma map_res_simps [simp]:
  "map_res g (Inl e) = Inl e"
  "map_res g (Inr a) = Inr (g a)"
  by (simp_all add: map_res_def)

lemma is_ok_simps [simp]:
  "is_ok (Inl e) = False"
  "is_ok (Inr a) = True"
  by (simp_all add: is_ok_def)

lemma is_ok_iff: "is_ok r \<longleftrightarrow> (\<exists>a. r = Inr a)"
  by (cases r) simp_all

lemma bind_res_eq_Inr: "bind_res r f = Inr b \<longleftrightarrow> (\<exists>a. r = Inr a \<and> f a = Inr b)"
  by (cases r) simp_all

lemma map_res_eq_Inr: "map_res f r = Inr b \<longleftrightarrow> (\<exists>a. r = Inr a \<and> b = f a)"
  by (cases r) auto

lemma require_eq_Inr: "require b e r = Inr a \<longleftrightarrow> b \<and> r = Inr a"
  by (simp add: require_def)

lemma require_True [simp]: "require True e r = r"
  by (simp add: require_def)

lemma require_False [simp]: "require False e r = Inl e"
  by (simp add: require_def)

lemmas res_iffs = bind_res_eq_Inr map_res_eq_Inr require_eq_Inr

section \<open>Lemmas on guard tables\<close>

lemma first_violation_None: "first_violation gs = None \<longleftrightarrow> (\<forall>g\<in>set gs. \<not> fst g)"
  by (induction gs rule: first_violation.induct) auto

lemma first_violation_Some_mem: "first_violation gs = Some m \<Longrightarrow> (True, m) \<in> set gs"
  by (induction gs rule: first_violation.induct) (auto split: if_splits)

section \<open>Lemmas on ordered collection\<close>

lemma set_add_code [simp]: "set (add_code cs c) = insert c (set cs)"
  by (auto simp: add_code_def)

lemma distinct_add_code: "distinct cs \<Longrightarrow> distinct (add_code cs c)"
  by (auto simp: add_code_def)

lemma set_add_all [simp]: "set (add_all cs ds) = set cs \<union> set ds"
  by (induction ds arbitrary: cs) auto

lemma distinct_add_all: "distinct cs \<Longrightarrow> distinct (add_all cs ds)"
  by (induction ds arbitrary: cs) (auto simp: distinct_add_code)

lemma add_all_append: "add_all cs (ds @ es) = add_all (add_all cs ds) es"
  by (induction ds arbitrary: cs) auto

lemma add_all_eq_Nil [simp]: "add_all cs ds = [] \<longleftrightarrow> cs = [] \<and> ds = []"
  using set_add_all [of cs ds] by (metis Un_empty set_empty)

lemma add_all_distinct: "distinct (cs @ ds) \<Longrightarrow> add_all cs ds = cs @ ds"
  by (induction ds arbitrary: cs) (auto simp: add_code_def)

lemma dict_fromkeys_distinct: "distinct xs \<Longrightarrow> dict_fromkeys xs = xs"
  by (simp add: dict_fromkeys_def add_all_distinct)

lemma dict_fromkeys_add_all: "dict_fromkeys (add_all [] ds) = add_all [] ds"
  by (simp add: dict_fromkeys_distinct distinct_add_all)

lemma dict_fromkeys_simps [simp]:
  "set (dict_fromkeys xs) = set xs"
  "distinct (dict_fromkeys xs)"
  "dict_fromkeys xs = [] \<longleftrightarrow> xs = []"
  by (simp_all add: dict_fromkeys_def distinct_add_all)

lemma opt_list_simps [simp]:
  "opt_list None = []"
  "opt_list (Some a) = [a]"
  "opt_list x = [] \<longleftrightarrow> x = None"
  by (simp_all add: opt_list_def split: option.splits)

lemma opt_list_mem [simp]: "c \<in> set (opt_list x) \<longleftrightarrow> x = Some c"
  by (cases x) auto

lemma if_Some_iff:
  "(if b then None else Some x) = Some c \<longleftrightarrow> \<not> b \<and> c = x"
  "(if b then Some x else None) = Some c \<longleftrightarrow> b \<and> c = x"
  by auto

lemma if_list_mem: "c \<in> set (if b then [] else [x]) \<longleftrightarrow> \<not> b \<and> c = x"
  by auto

section \<open>Lemmas on strings\<close>

lemma nat_str_neq_Nil [simp]: "nat_str n \<noteq> []"
  by (subst nat_str.simps) simp

lemma int_str_neq_Nil [simp]: "int_str i \<noteq> []"
  by (simp add: int_str_def)

definition digits_val :: "string \<Rightarrow> int" where
  "digits_val s = foldl (\<lambda>a c. a * 10 + (of_char c - 48)) 0 s"

lemma digits_val_nat_str: "0 \<le> n \<Longrightarrow> digits_val (nat_str n) = n"
proof (induction n rule: nat_str.induct)
  case (1 n)
  have d: "of_char (digit_char k) = k + 48" if "0 \<le> k" "k < 10" for k :: int
  proof -
    have "of_char (digit_char k) = int (of_char (digit_char k))" by (simp add: of_nat_of_char)
    also have "\<dots> = k + 48" using that by (simp add: digit_char_def of_char_of del: of_nat_of_char)
    finally show ?thesis .
  qed
  show ?case
  proof (cases "n < 10")
    case True
    then show ?thesis using 1 d by (subst nat_str.simps) (simp add: digits_val_def)
  next
    case False
    have "digits_val (nat_str n) = digits_val (nat_str (n div 10)) * 10 + n mod 10"
      using False d [of "n mod 10"] by (subst nat_str.simps) (simp add: digits_val_def)
    then show ?thesis using False 1 by simp
  qed
qed

lemma int_str_inj: "0 \<le> a \<Longrightarrow> 0 \<le> b \<Longrightarrow> int_str a = int_str b \<longleftrightarrow> a = b"
  by (simp add: int_str_def) (metis digits_val_nat_str)

end
