(* ===== verification/Numerics.thy ===== *)
theory Numerics
  imports Complex_Main Prelude
begin

text \<open>
  The arithmetic the Python sources compute with. A result of \<open>decimal.Decimal\<close> arithmetic
  is the exact result rounded to the 28 significant digits of the default context, half to even;
  a result of \<open>float\<close> arithmetic is the exact result rounded to 53 binary digits, half to
  even. Both are instances of one rounding function, and the facts about thresholds that the
  gates need are proved once, in the locale \<open>rounding\<close>. Comparisons of decimals are exact.
  The exponent limits of the two formats are not modelled.
\<close>

section \<open>Rounding to significant digits\<close>

function ndigits :: "int \<Rightarrow> int \<Rightarrow> nat" where
  "ndigits b n = (if b < 2 \<or> n \<le> 0 then 0 else Suc (ndigits b (n div b)))"
  by pat_completeness auto
termination
  by (relation "measure (\<lambda>(b, n). nat n)") (auto simp: int_div_less_self)

declare ndigits.simps [simp del]

definition half_even :: "rat \<Rightarrow> int" where
  "half_even x =
     (let f = \<lfloor>x\<rfloor>; r = x - of_int f in
      if r < 1 / 2 then f else if 1 / 2 < r then f + 1 else if even f then f else f + 1)"

definition scale_exp :: "nat \<Rightarrow> nat \<Rightarrow> rat \<Rightarrow> int" where
  "scale_exp b p x =
     (let (n, d) = quotient_of \<bar>x\<bar>;
          k = int (ndigits (int b) n) - int (ndigits (int b) d)
      in if \<bar>x\<bar> < of_nat b powi k then k - int p else k - int p + 1)"

definition rnd :: "nat \<Rightarrow> nat \<Rightarrow> rat \<Rightarrow> rat" where
  "rnd b p x =
     (if x = 0 then 0
      else let u = of_nat b powi scale_exp b p x in of_int (half_even (x / u)) * u)"

definition representable :: "nat \<Rightarrow> nat \<Rightarrow> rat \<Rightarrow> bool" where
  "representable b p x \<longleftrightarrow> (\<exists>m e. x = of_int m * of_nat b powi e \<and> \<bar>m\<bar> \<le> int b ^ p)"

section \<open>The contract of a rounding\<close>

locale rounding =
  fixes rd :: "rat \<Rightarrow> rat"
    and repr :: "rat \<Rightarrow> bool"
    and eps :: rat
  assumes rd_mono: "x \<le> y \<Longrightarrow> rd x \<le> rd y"
    and rd_repr: "repr x \<Longrightarrow> rd x = x"
    and rd_err: "\<bar>rd x - x\<bar> \<le> eps * \<bar>x\<bar>"
    and repr_0: "repr 0"
    and eps_pos: "0 < eps"
    and eps_lt_1: "eps < 1"
begin

lemma rd_0: "rd 0 = 0"
  by (simp add: rd_repr repr_0)

lemma rd_nonneg: "0 \<le> x \<Longrightarrow> 0 \<le> rd x"
  using rd_mono [of 0 x] by (simp add: rd_0)

lemma rd_le_cap: "repr c \<Longrightarrow> x \<le> c \<Longrightarrow> rd x \<le> c"
  using rd_mono [of x c] by (simp add: rd_repr)

lemma cap_le_rd: "repr c \<Longrightarrow> c \<le> x \<Longrightarrow> c \<le> rd x"
  using rd_mono [of c x] by (simp add: rd_repr)

lemma le_cap_exact:
  assumes "0 \<le> x" and "rd x \<le> c"
  shows "x * (1 - eps) \<le> c"
  using rd_err [of x] assms by (simp add: algebra_simps abs_if split: if_splits)

lemma ge_of_rd:
  assumes "0 \<le> x"
  shows "rd x \<le> x * (1 + eps)"
  using rd_err [of x] assms by (simp add: algebra_simps abs_if split: if_splits)

lemma le_of_rd:
  assumes "0 \<le> x"
  shows "x * (1 - eps) \<le> rd x"
  using rd_err [of x] assms by (simp add: algebra_simps abs_if split: if_splits)

lemma rd_pos: assumes "0 < x" shows "0 < rd x"
proof -
  have "0 < x * (1 - eps)" using assms eps_lt_1 by simp
  also have "\<dots> \<le> rd x" using assms by (simp add: le_of_rd)
  finally show ?thesis .
qed

text \<open>A percentage as the code computes it: the rounded quotient, scaled and rounded again.\<close>

lemma pct_le_cap_exact:
  assumes "0 \<le> a" and "0 < b" and "rd (rd (a / b) * s) \<le> c" and "0 \<le> s"
  shows "a * s * (1 - eps) ^ 2 \<le> c * b"
proof -
  have q: "0 \<le> a / b" using assms(1,2) by simp
  have "rd (a / b) * s * (1 - eps) \<le> c"
    using assms(3,4) q by (intro le_cap_exact) (simp_all add: rd_nonneg)
  moreover have "a / b * (1 - eps) * (s * (1 - eps)) \<le> rd (a / b) * (s * (1 - eps))"
    using le_of_rd [OF q] assms(4) eps_lt_1 by (intro mult_right_mono) simp_all
  ultimately have "a / b * (1 - eps) * (s * (1 - eps)) \<le> c"
    by (simp add: mult.assoc)
  then have "a / b * (1 - eps) * (s * (1 - eps)) * b \<le> c * b"
    using assms(2) by (intro mult_right_mono) simp_all
  moreover have "a / b * (1 - eps) * (s * (1 - eps)) * b = a * s * (1 - eps) ^ 2"
    using assms(2) by (simp add: power2_eq_square field_simps)
  ultimately show ?thesis by simp
qed

lemma pct_le_cap:
  assumes "0 < b" and "a \<le> q * b" and "repr q" and "repr (q * s)" and "0 \<le> s"
  shows "rd (rd (a / b) * s) \<le> q * s"
proof -
  have "a / b \<le> q" using assms(1,2) by (simp add: field_simps)
  then have "rd (a / b) \<le> q" using assms(3) by (rule rd_le_cap [rotated])
  then have "rd (a / b) * s \<le> q * s" using assms(5) by (rule mult_right_mono)
  then show ?thesis using assms(4) by (rule rd_le_cap [rotated])
qed

end

section \<open>The rounding function satisfies the contract\<close>

lemma half_even_close: "\<bar>of_int (half_even x) - x\<bar> \<le> 1 / 2"
proof -
  have "of_int \<lfloor>x\<rfloor> \<le> x" "x < of_int \<lfloor>x\<rfloor> + 1" using floor_correct [of x] by simp_all
  then show ?thesis by (auto simp: half_even_def Let_def abs_le_iff)
qed

lemma half_even_of_int [simp]: "half_even (of_int n) = n"
  by (simp add: half_even_def)

lemma half_even_bounds: "\<lfloor>x\<rfloor> \<le> half_even x" "half_even x \<le> \<lfloor>x\<rfloor> + 1"
  by (simp_all add: half_even_def Let_def)

lemma half_even_mono:
  assumes "x \<le> y" shows "half_even x \<le> half_even y"
proof (cases "\<lfloor>x\<rfloor> = \<lfloor>y\<rfloor>")
  case True
  then show ?thesis using assms by (auto simp: half_even_def Let_def)
next
  case False
  then have "\<lfloor>x\<rfloor> + 1 \<le> \<lfloor>y\<rfloor>" using floor_mono [OF assms] by linarith
  then show ?thesis using half_even_bounds [of x] half_even_bounds [of y] by linarith
qed

lemma half_even_minus: "half_even (- x) = - half_even x"
proof (cases "x = of_int \<lfloor>x\<rfloor>")
  case True
  have "half_even (- x) = half_even (of_int (- \<lfloor>x\<rfloor>))" by (subst True) simp
  also have "\<dots> = - half_even (of_int \<lfloor>x\<rfloor>)" by (simp only: half_even_of_int)
  also have "\<dots> = - half_even x" by (subst (2) True) (rule refl)
  finally show ?thesis .
next
  case False
  then have "of_int \<lfloor>x\<rfloor> < x" using of_int_floor_le [of x] by linarith
  moreover have "x < of_int \<lfloor>x\<rfloor> + 1" by linarith
  ultimately have "\<lfloor>- x\<rfloor> = - \<lfloor>x\<rfloor> - 1" by (intro floor_unique) simp_all
  then show ?thesis by (auto simp: half_even_def Let_def)
qed

lemma ndigits_bounds:
  assumes "2 \<le> b" and "0 < n"
  shows "b ^ (ndigits b n - 1) \<le> n \<and> n < b ^ ndigits b n \<and> 0 < ndigits b n"
  using assms
proof (induction b n rule: ndigits.induct)
  case (1 b n)
  show ?case
  proof (cases "n < b")
    case True
    then have "ndigits b n = 1"
      using "1.prems" by (simp add: ndigits.simps [of b n] ndigits.simps [of b 0] div_pos_pos_trivial)
    then show ?thesis using True "1.prems" by simp
  next
    case False
    let ?k = "ndigits b (n div b)"
    have "0 < n div b" using False "1.prems" by (simp add: pos_imp_zdiv_pos_iff)
    then have IH: "b ^ (?k - 1) \<le> n div b" "n div b < b ^ ?k" "0 < ?k"
      using "1.IH" "1.prems" by auto
    have k: "ndigits b n = Suc ?k" using "1.prems" by (simp add: ndigits.simps [of b n])
    have dm: "n = b * (n div b) + n mod b" "0 \<le> n mod b" "n mod b < b"
      using "1.prems" by simp_all
    have "b ^ ?k = b * b ^ (?k - 1)" using IH(3) by (metis power_eq_if neq0_conv)
    also have "\<dots> \<le> b * (n div b)" using IH(1) "1.prems" by (intro mult_left_mono) simp_all
    finally have lo: "b ^ ?k \<le> n" using dm by linarith
    have "b * (n div b) + b \<le> b * b ^ ?k"
      using mult_left_mono [of "n div b + 1" "b ^ ?k" b] IH(2) "1.prems" by (simp add: algebra_simps)
    then have "n < b * b ^ ?k" using dm by linarith
    with lo k show ?thesis by simp
  qed
qed

lemma ndigits_powi:
  assumes "2 \<le> b" and "0 < n"
  shows "(of_nat b :: rat) powi (int (ndigits (int b) n) - 1) \<le> of_int n"
    and "of_int n < (of_nat b :: rat) powi int (ndigits (int b) n)"
proof -
  let ?k = "ndigits (int b) n"
  have *: "int b ^ (?k - 1) \<le> n" "n < int b ^ ?k" "0 < ?k"
    using ndigits_bounds [of "int b" n] assms by simp_all
  have "(of_int (int b ^ (?k - 1)) :: rat) \<le> of_int n" using *(1) by (simp only: of_int_le_iff)
  moreover have "int ?k - 1 = int (?k - 1)" using *(3) by linarith
  ultimately show "(of_nat b :: rat) powi (int ?k - 1) \<le> of_int n"
    by (simp only: power_int_of_nat of_int_power of_int_of_nat_eq)
  have "(of_int n :: rat) < of_int (int b ^ ?k)" using *(2) by (simp only: of_int_less_iff)
  then show "of_int n < (of_nat b :: rat) powi int ?k" by simp
qed

lemma powi_add: "1 < (c :: rat) \<Longrightarrow> c powi m * c powi n = c powi (m + n)"
  by (simp add: power_int_add)

lemma powi_le_D: "1 < (c :: rat) \<Longrightarrow> c powi m \<le> c powi n \<Longrightarrow> m \<le> n"
  using power_int_strict_increasing [of n m c] by (meson not_le)

lemma powi_less_D: "1 < (c :: rat) \<Longrightarrow> c powi m < c powi n \<Longrightarrow> m < n"
  using power_int_increasing [of n m c] by (meson less_imp_le not_le)

lemma scale_exp_spec:
  assumes b: "2 \<le> b" and x: "x \<noteq> 0"
  shows "of_nat b powi (scale_exp b p x + int p - 1) \<le> \<bar>x\<bar>"
    and "\<bar>x\<bar> < of_nat b powi (scale_exp b p x + int p)"
proof -
  obtain n d where nd: "quotient_of \<bar>x\<bar> = (n, d)" by force
  then have d: "0 < d" by (rule quotient_of_denom_pos)
  have xq: "\<bar>x\<bar> = of_int n / of_int d" using nd by (rule quotient_of_div)
  have n: "0 < n"
  proof -
    have "0 < \<bar>x\<bar>" using x by simp
    then have "0 < (of_int n / of_int d :: rat)" by (simp only: xq)
    then show ?thesis using d by (simp add: zero_less_divide_iff)
  qed
  let ?N = "ndigits (int b) n" and ?D = "ndigits (int b) d"
  let ?B = "of_nat b :: rat"
  have B: "1 < ?B" using b by simp
  have N': "?B powi (int ?N - 1) \<le> of_int n" "of_int n < ?B powi int ?N"
    using ndigits_powi [OF b n] by simp_all
  have D': "?B powi (int ?D - 1) \<le> of_int d" "of_int d < ?B powi int ?D"
    using ndigits_powi [OF b d] by simp_all
  let ?k = "int ?N - int ?D"
  have lo: "?B powi (?k - 1) \<le> \<bar>x\<bar>"
  proof -
    have "?B powi (?k - 1) * of_int d \<le> ?B powi (?k - 1) * ?B powi int ?D"
      using D'(2) B by (intro mult_left_mono) simp_all
    also have "\<dots> = ?B powi (int ?N - 1)"
      using B by (simp add: powi_add del: power_int_of_nat)
    also have "\<dots> \<le> of_int n" by (rule N'(1))
    finally show ?thesis using d by (simp add: xq pos_le_divide_eq)
  qed
  have hi: "\<bar>x\<bar> < ?B powi (?k + 1)"
  proof -
    have "of_int n < ?B powi int ?N" by (rule N'(2))
    also have "\<dots> = ?B powi (?k + 1) * ?B powi (int ?D - 1)"
      using B by (simp add: powi_add del: power_int_of_nat)
    also have "\<dots> \<le> ?B powi (?k + 1) * of_int d"
      using D'(1) B by (intro mult_left_mono) simp_all
    finally show ?thesis using d by (simp add: xq pos_divide_less_eq)
  qed
  have s: "scale_exp b p x = (if \<bar>x\<bar> < ?B powi ?k then ?k - int p else ?k - int p + 1)"
    by (simp add: scale_exp_def nd)
  show "?B powi (scale_exp b p x + int p - 1) \<le> \<bar>x\<bar>"
    using lo by (simp add: s)
  show "\<bar>x\<bar> < ?B powi (scale_exp b p x + int p)"
    using hi by (simp add: s algebra_simps)
qed


lemma scale_exp_minus [simp]: "scale_exp b p (- x) = scale_exp b p x"
  by (simp add: scale_exp_def)

lemma rnd_minus: "rnd b p (- x) = - rnd b p x"
  by (simp add: rnd_def Let_def half_even_minus)

lemma rnd_0 [simp]: "rnd b p 0 = 0"
  by (simp add: rnd_def)

lemma scale_exp_mono:
  assumes b: "2 \<le> b" and "0 < x" and "x \<le> y"
  shows "scale_exp b p x \<le> scale_exp b p y"
proof -
  have "(of_nat b :: rat) powi (scale_exp b p x + int p - 1) \<le> x"
    using scale_exp_spec(1) [OF b, of x p] assms(2) by simp
  also have "x \<le> y" by (rule assms(3))
  also have "y < of_nat b powi (scale_exp b p y + int p)"
    using scale_exp_spec(2) [OF b, of y p] assms(2,3) by simp
  finally have "scale_exp b p x + int p - 1 < scale_exp b p y + int p"
    using b by (intro powi_less_D [of "of_nat b"]) simp_all
  then show ?thesis by simp
qed

lemma rnd_pos_bounds:
  assumes b: "2 \<le> b" and x: "0 < x" and p: "0 < p"
  shows "of_nat b powi (scale_exp b p x + int p - 1) \<le> rnd b p x"
    and "rnd b p x \<le> of_nat b powi (scale_exp b p x + int p)"
proof -
  let ?e = "scale_exp b p x" and ?B = "of_nat b :: rat"
  let ?y = "x / ?B powi ?e"
  have B: "1 < ?B" using b by simp
  have u: "0 < ?B powi ?e" using B by simp
  have split: "?B powi (?e + int p - 1) = ?B powi int (p - 1) * ?B powi ?e"
    "?B powi (?e + int p) = ?B powi int p * ?B powi ?e"
    using B p by (simp_all add: power_int_add [symmetric] algebra_simps of_nat_diff del: power_int_of_nat)
  have ylo: "of_int (int b ^ (p - 1)) \<le> ?y"
    using scale_exp_spec(1) [OF b, of x p] x u by (simp add: split pos_le_divide_eq)
  have yhi: "?y \<le> of_int (int b ^ p)"
    using scale_exp_spec(2) [OF b, of x p] x u by (simp add: split pos_divide_le_eq)
  have lo: "int b ^ (p - 1) \<le> half_even ?y"
    using half_even_mono [OF ylo] by (simp only: half_even_of_int)
  have hi: "half_even ?y \<le> int b ^ p"
    using half_even_mono [OF yhi] by (simp only: half_even_of_int)
  have "(of_int (int b ^ (p - 1)) :: rat) \<le> of_int (half_even ?y)" using lo by (simp only: of_int_le_iff)
  then show "?B powi (?e + int p - 1) \<le> rnd b p x"
    using x u by (simp add: rnd_def Let_def split mult_right_mono)
  have "(of_int (half_even ?y) :: rat) \<le> of_int (int b ^ p)" using hi by (simp only: of_int_le_iff)
  then show "rnd b p x \<le> ?B powi (?e + int p)"
    using x u by (simp add: rnd_def Let_def split mult_right_mono)
qed

lemma rnd_mono_pos:
  assumes b: "2 \<le> b" and p: "0 < p" and x: "0 < x" and xy: "x \<le> y"
  shows "rnd b p x \<le> rnd b p y"
proof (cases "scale_exp b p x = scale_exp b p y")
  case True
  have "0 < (of_nat b :: rat) powi scale_exp b p y" using b by simp
  then show ?thesis
    using x xy by (simp add: rnd_def Let_def True mult_right_mono half_even_mono divide_right_mono)
next
  case False
  let ?B = "of_nat b :: rat"
  have "scale_exp b p x + int p \<le> scale_exp b p y + int p - 1"
    using scale_exp_mono [OF b x xy, of p] False by simp
  then have "?B powi (scale_exp b p x + int p) \<le> ?B powi (scale_exp b p y + int p - 1)"
    using b by (intro power_int_increasing) simp_all
  then show ?thesis
    using rnd_pos_bounds(2) [OF b x p] rnd_pos_bounds(1) [OF b _ p, of y] x xy by linarith
qed

lemma rnd_nonneg_gen:
  assumes "2 \<le> b" and "0 < p" and "0 \<le> x" shows "0 \<le> rnd b p x"
proof (cases "x = 0")
  case False
  then have "0 < x" using assms(3) by simp
  then have "of_nat b powi (scale_exp b p x + int p - 1) \<le> rnd b p x"
    using rnd_pos_bounds(1) [OF assms(1) _ assms(2)] by blast
  moreover have "0 < (of_nat b :: rat) powi (scale_exp b p x + int p - 1)" using assms(1) by simp
  ultimately show ?thesis by linarith
qed simp

lemma rnd_mono_gen:
  assumes b: "2 \<le> b" and p: "0 < p" and xy: "x \<le> y"
  shows "rnd b p x \<le> rnd b p y"
proof -
  consider "0 < x" | "x \<le> 0" "0 \<le> y" | "y < 0" by linarith
  then show ?thesis
  proof cases
    case 1
    then show ?thesis using rnd_mono_pos [OF b p] xy by blast
  next
    case 2
    then have "0 \<le> rnd b p (- x)" "0 \<le> rnd b p y" using rnd_nonneg_gen [OF b p] by simp_all
    then show ?thesis by (simp add: rnd_minus)
  next
    case 3
    then have "rnd b p (- y) \<le> rnd b p (- x)" using rnd_mono_pos [OF b p] xy by simp
    then show ?thesis by (simp add: rnd_minus)
  qed
qed

lemma rnd_err_gen:
  assumes b: "2 \<le> b"
  shows "\<bar>rnd b p x - x\<bar> \<le> of_nat b powi (1 - int p) / 2 * \<bar>x\<bar>"
proof (cases "x = 0")
  case False
  let ?e = "scale_exp b p x" and ?B = "of_nat b :: rat"
  let ?u = "?B powi ?e"
  have B: "1 < ?B" and u: "0 < ?u" using b by simp_all
  have "x / ?u * ?u = x" using B by simp
  then have "rnd b p x - x = (of_int (half_even (x / ?u)) - x / ?u) * ?u"
    using False by (simp add: rnd_def Let_def left_diff_distrib del: times_divide_eq_left)
  then have "\<bar>rnd b p x - x\<bar> = \<bar>of_int (half_even (x / ?u)) - x / ?u\<bar> * ?u"
    using u by (simp add: abs_mult)
  also have "\<dots> \<le> 1 / 2 * ?u"
    using half_even_close [of "x / ?u"] u by (intro mult_right_mono) simp_all
  also have "?u = ?B powi (1 - int p) * ?B powi (?e + int p - 1)"
    using B by (simp add: power_int_add [symmetric])
  also have "1 / 2 * (?B powi (1 - int p) * ?B powi (?e + int p - 1))
      \<le> 1 / 2 * (?B powi (1 - int p) * \<bar>x\<bar>)"
    using scale_exp_spec(1) [OF b False, of p] B by (intro mult_left_mono) simp_all
  finally show ?thesis by simp
qed simp

lemma rnd_representable:
  assumes b: "2 \<le> b" and p: "0 < p" and r: "representable b p x"
  shows "rnd b p x = x"
proof (cases "x = 0")
  case False
  let ?e = "scale_exp b p x" and ?B = "of_nat b :: rat"
  have B: "1 < ?B" and u: "0 < ?B powi ?e" using b by simp_all
  obtain m e' where x: "x = of_int m * ?B powi e'" and m: "\<bar>m\<bar> \<le> int b ^ p"
    using r by (auto simp: representable_def)
  have u': "0 < ?B powi e'" using b by simp
  have mr: "\<bar>of_int m :: rat\<bar> \<le> ?B ^ p"
    using m by (metis of_int_abs of_int_le_iff of_int_of_nat_eq of_int_power)
  have absx: "\<bar>x\<bar> = \<bar>of_int m\<bar> * ?B powi e'" using u' by (simp add: x abs_mult)
  have "?B powi (?e + int p - 1) \<le> \<bar>x\<bar>" by (rule scale_exp_spec(1) [OF b False])
  also have "\<dots> \<le> ?B ^ p * ?B powi e'" using mr u' by (simp add: absx mult_right_mono)
  also have "\<dots> = ?B powi (int p + e')" using B by (simp add: power_int_add)
  finally have le: "?e + int p - 1 \<le> int p + e'"
    using B by (intro powi_le_D [of ?B]) simp_all
  have "\<exists>n. x / ?B powi ?e = of_int n"
  proof (cases "?e \<le> e'")
    case True
    then have "e' = ?e + int (nat (e' - ?e))" by simp
    then have "?B powi e' = ?B powi ?e * ?B ^ nat (e' - ?e)"
      using B by (metis power_int_of_nat powi_add)
    then have "x / ?B powi ?e = of_int (m * int b ^ nat (e' - ?e))"
      using B by (simp add: x [symmetric]) (simp add: x field_simps)
    then show ?thesis ..
  next
    case False
    then have e: "?e = e' + 1" using le by linarith
    have "?B powi (int p + e') \<le> \<bar>of_int m\<bar> * ?B powi e'"
      using scale_exp_spec(1) [OF b \<open>x \<noteq> 0\<close>, of p] by (simp add: e absx algebra_simps)
    then have "?B ^ p \<le> \<bar>of_int m\<bar>" using u' B by (simp add: power_int_add)
    then have "\<bar>of_int m :: rat\<bar> = ?B ^ p" using mr by simp
    then have "\<bar>m\<bar> = int b ^ p" by (metis of_int_abs of_int_eq_iff of_int_of_nat_eq of_int_power)
    then have "m = sgn m * int b ^ (p - 1) * int b"
      using p by (metis abs_mult_sgn mult.assoc mult.commute power_minus_mult)
    then have "(of_int m :: rat) = of_int (sgn m * int b ^ (p - 1)) * ?B"
      by (metis of_int_mult of_int_of_nat_eq)
    moreover have "?B * ?B powi e' = ?B powi ?e"
      using B powi_add [of ?B 1 e'] by (simp add: e add.commute)
    ultimately have "x = of_int (sgn m * int b ^ (p - 1)) * ?B powi ?e"
      by (simp add: x mult.assoc)
    then have "x / ?B powi ?e = of_int (sgn m * int b ^ (p - 1))"
      using B by (simp add: field_simps)
    then show ?thesis ..
  qed
  then obtain n where n: "x / ?B powi ?e = of_int n" ..
  then have "rnd b p x = of_int n * ?B powi ?e" using False by (simp add: rnd_def Let_def)
  also have "\<dots> = x" using B by (simp add: n [symmetric])
  finally show ?thesis .
qed simp

lemma representableI: "x = of_int m * of_nat b powi e \<Longrightarrow> \<bar>m\<bar> \<le> int b ^ p \<Longrightarrow> representable b p x"
  by (auto simp: representable_def)

text \<open>For evaluation: a number with at most six digits after the point and within the precision
  is its own rounding, which spares the large quotients of the general case.\<close>

definition short_fraction :: "nat \<Rightarrow> nat \<Rightarrow> rat \<Rightarrow> bool" where
  "short_fraction b p x \<longleftrightarrow>
     (let (n, d) = quotient_of x; m = int b ^ 6 in
      2 \<le> b \<and> 0 < p \<and> m mod d = 0 \<and> \<bar>n\<bar> * (m div d) \<le> int b ^ p)"

lemma short_fraction_representable:
  assumes "short_fraction b p x" shows "representable b p x"
proof -
  obtain n d where nd: "quotient_of x = (n, d)" by force
  let ?k = "int b ^ 6 div d"
  have b: "2 \<le> b" and dvd: "d dvd int b ^ 6" and le: "\<bar>n\<bar> * ?k \<le> int b ^ p"
    using assms by (auto simp: short_fraction_def nd Let_def dvd_eq_mod_eq_0)
  have d: "0 < d" using nd by (rule quotient_of_denom_pos)
  have "d * ?k = int b ^ 6" using dvd by simp
  then have "of_int d * of_int ?k = (of_nat b :: rat) ^ 6"
    by (metis of_int_mult of_int_of_nat_eq of_int_power)
  then have "of_int (n * ?k) * (of_nat b :: rat) powi (- 6) = of_int n / of_int d"
    using d b by (simp add: power_int_minus field_simps)
  then have x: "x = of_int (n * ?k) * of_nat b powi (- 6)" using quotient_of_div [OF nd] by simp
  have "0 \<le> ?k" using d by (simp add: pos_imp_zdiv_nonneg_iff)
  then have "\<bar>n * ?k\<bar> \<le> int b ^ p" using le by (simp add: abs_mult)
  then show ?thesis by (rule representableI [OF x])
qed

lemma rnd_code [code]:
  "rnd b p x =
     (if x = 0 \<or> short_fraction b p x then x
      else let u = of_nat b powi scale_exp b p x in of_int (half_even (x / u)) * u)"
proof (cases "short_fraction b p x")
  case True
  moreover from True have "2 \<le> b" "0 < p"
    by (auto simp: short_fraction_def Let_def split: prod.splits)
  ultimately show ?thesis by (simp add: rnd_representable short_fraction_representable)
qed (simp add: rnd_def)

section \<open>Decimal numbers\<close>

text \<open>A finite \<open>Decimal\<close>: signed coefficient and exponent, as \<open>Decimal("0.50")\<close> is
  \<open>Dec 50 (- 2)\<close>. Two decimals with the same value and different exponents compare equal
  in Python and print differently, so the representation is kept for the fields and the value
  \<open>dval\<close> is what comparisons and arithmetic use. The sign of a zero is not kept. A value
  that the code only computes with and compares is a \<open>rat\<close>.\<close>

datatype decimal = Dec (coeff: int) (dexp: int)

definition dval :: "decimal \<Rightarrow> rat" where
  "dval d = of_int (coeff d) * 10 powi dexp d"

definition dec_rnd :: "rat \<Rightarrow> rat" where
  "dec_rnd x = rnd 10 28 x"

definition dec_add :: "rat \<Rightarrow> rat \<Rightarrow> rat" where
  "dec_add x y = dec_rnd (x + y)"

definition dec_sub :: "rat \<Rightarrow> rat \<Rightarrow> rat" where
  "dec_sub x y = dec_rnd (x - y)"

definition dec_mul :: "rat \<Rightarrow> rat \<Rightarrow> rat" where
  "dec_mul x y = dec_rnd (x * y)"

definition dec_div :: "rat \<Rightarrow> rat \<Rightarrow> rat" where
  "dec_div x y = dec_rnd (x / y)"

text \<open>\<open>abs\<close> and unary minus of a \<open>Decimal\<close> round to the context too.\<close>

definition dec_abs :: "rat \<Rightarrow> rat" where
  "dec_abs x = dec_rnd \<bar>x\<bar>"

definition dec_neg :: "rat \<Rightarrow> rat" where
  "dec_neg x = dec_rnd (- x)"

text \<open>\<open>str\<close> of a decimal: plain notation while the exponent is not positive and the
  adjusted exponent is at least \<open>-6\<close>, scientific notation otherwise.\<close>

definition dec_str :: "decimal \<Rightarrow> string" where
  "dec_str d =
     (let ds = nat_str \<bar>coeff d\<bar>; n = int (length ds);
          left = dexp d + n;
          dot = (if dexp d \<le> 0 \<and> - 6 < left then left else 1);
          whole = (if dot \<le> 0 then ''0'' else take (nat dot) ds @ replicate (nat (dot - n)) (CHR ''0''));
          frac = (if dot \<le> 0 then ''.'' @ replicate (nat (- dot)) (CHR ''0'') @ ds
                  else if n \<le> dot then [] else ''.'' @ drop (nat dot) ds);
          ex = (if left = dot then [] else
                  ''E'' @ (if left < dot then [] else ''+'') @ int_str (left - dot))
      in (if coeff d < 0 then ''-'' else []) @ whole @ frac @ ex)"

section \<open>Floating point\<close>

definition fl :: "rat \<Rightarrow> rat" where
  "fl x = rnd 2 53 x"

section \<open>Both arithmetics satisfy the rounding contract\<close>

lemma rounding_rnd:
  assumes "2 \<le> b" and "1 < p"
  shows "rounding (rnd b p) (representable b p) (of_nat b powi (1 - int p) / 2)"
proof
  show "of_nat b powi (1 - int p) / 2 < (1 :: rat)"
  proof -
    have "(of_nat b :: rat) powi (1 - int p) < of_nat b powi 0"
      using assms by (intro power_int_strict_increasing) simp_all
    then show ?thesis by simp
  qed
  show "representable b p 0"
    unfolding representable_def by (intro exI [of _ 0]) simp
  show "\<bar>rnd b p x - x\<bar> \<le> of_nat b powi (1 - int p) / 2 * \<bar>x\<bar>" for x
    by (rule rnd_err_gen [OF assms(1)])
qed (use assms in \<open>auto intro: rnd_mono_gen rnd_representable\<close>)

interpretation dec: rounding dec_rnd "representable 10 28" "1 / (2 * 10 ^ 27)"
  using rounding_rnd [of 10 28] by (simp add: dec_rnd_def [abs_def] power_int_minus field_simps)

interpretation fl: rounding fl "representable 2 53" "1 / 2 ^ 53"
  using rounding_rnd [of 2 53] by (simp add: fl_def [abs_def] power_int_minus field_simps)

lemma representable_of_int: "\<bar>m\<bar> \<le> int b ^ p \<Longrightarrow> representable b p (of_int m)"
  by (rule representableI [of _ m b 0]) simp_all

lemma dval_representable: "\<bar>coeff d\<bar> \<le> 10 ^ 28 \<Longrightarrow> representable 10 28 (dval d)"
  by (rule representableI [of _ "coeff d" 10 "dexp d"]) (simp_all add: dval_def)

lemma dec_rnd_minus: "dec_rnd (- x) = - dec_rnd x"
  by (simp add: dec_rnd_def rnd_minus)

lemma dec_abs_nonneg [simp]: "0 \<le> dec_abs x"
  by (simp add: dec_abs_def dec.rd_nonneg)

end
