(* ===== verification/Enums.thy ===== *)
theory Enums
  imports Prelude
begin

text \<open>
  The closed enumerations of \<open>schemas/enums.py\<close>, with the member names of the source,
  and the string each member carries (its \<open>.value\<close>, which \<open>str\<close> and an f-string
  print). Members of different enumerations that share a name are written with their type, as
  in \<open>emergency_state.NORMAL\<close>.
\<close>

datatype underlying =
    XSP
  | SPX

primrec underlying_value :: "underlying \<Rightarrow> string" where
  "underlying_value underlying.XSP = ''XSP''"
| "underlying_value underlying.SPX = ''SPX''"

datatype exercise_style =
    EUROPEAN
  | AMERICAN

primrec exercise_style_value :: "exercise_style \<Rightarrow> string" where
  "exercise_style_value exercise_style.EUROPEAN = ''EUROPEAN''"
| "exercise_style_value exercise_style.AMERICAN = ''AMERICAN''"

datatype settlement_style =
    CASH
  | PHYSICAL

primrec settlement_style_value :: "settlement_style \<Rightarrow> string" where
  "settlement_style_value settlement_style.CASH = ''CASH''"
| "settlement_style_value settlement_style.PHYSICAL = ''PHYSICAL''"

datatype option_type =
    PUT
  | CALL

primrec option_type_value :: "option_type \<Rightarrow> string" where
  "option_type_value option_type.PUT = ''PUT''"
| "option_type_value option_type.CALL = ''CALL''"

datatype strategy_stage =
    HYPOTHESIS
  | RESEARCH
  | SHADOW
  | PAPER
  | LIVE

primrec strategy_stage_value :: "strategy_stage \<Rightarrow> string" where
  "strategy_stage_value strategy_stage.HYPOTHESIS = ''hypothesis''"
| "strategy_stage_value strategy_stage.RESEARCH = ''research''"
| "strategy_stage_value strategy_stage.SHADOW = ''shadow''"
| "strategy_stage_value strategy_stage.PAPER = ''paper''"
| "strategy_stage_value strategy_stage.LIVE = ''live''"

datatype strategy_name =
    CATASTROPHE_PREMIUM_CAPTURE
  | ZERO_DTE_TIME_DECAY

primrec strategy_name_value :: "strategy_name \<Rightarrow> string" where
  "strategy_name_value strategy_name.CATASTROPHE_PREMIUM_CAPTURE = ''catastrophe_premium_capture''"
| "strategy_name_value strategy_name.ZERO_DTE_TIME_DECAY = ''zero_dte_time_decay''"

datatype order_type =
    LIMIT
  | MARKET

primrec order_type_value :: "order_type \<Rightarrow> string" where
  "order_type_value order_type.LIMIT = ''LIMIT''"
| "order_type_value order_type.MARKET = ''MARKET''"

datatype emergency_state =
    NORMAL
  | BROKEN_SPREAD
  | EMERGENCY_RISK_REDUCTION
  | FORCED_LIQUIDATION

primrec emergency_state_value :: "emergency_state \<Rightarrow> string" where
  "emergency_state_value emergency_state.NORMAL = ''NORMAL''"
| "emergency_state_value emergency_state.BROKEN_SPREAD = ''BROKEN_SPREAD''"
| "emergency_state_value emergency_state.EMERGENCY_RISK_REDUCTION = ''EMERGENCY_RISK_REDUCTION''"
| "emergency_state_value emergency_state.FORCED_LIQUIDATION = ''FORCED_LIQUIDATION''"

datatype drawdown_tier =
    NONE
  | DAILY
  | WEEKLY
  | TRAILING

primrec drawdown_tier_value :: "drawdown_tier \<Rightarrow> string" where
  "drawdown_tier_value drawdown_tier.NONE = ''none''"
| "drawdown_tier_value drawdown_tier.DAILY = ''daily''"
| "drawdown_tier_value drawdown_tier.WEEKLY = ''weekly''"
| "drawdown_tier_value drawdown_tier.TRAILING = ''trailing_high_water''"

datatype rearm_mode_enum =
    AUTO_NEXT_SESSION
  | HUMAN_ONLY
  | HUMAN_ONLY_AFTER_REVIEW

primrec rearm_mode_enum_value :: "rearm_mode_enum \<Rightarrow> string" where
  "rearm_mode_enum_value rearm_mode_enum.AUTO_NEXT_SESSION = ''AUTO_NEXT_SESSION''"
| "rearm_mode_enum_value rearm_mode_enum.HUMAN_ONLY = ''HUMAN_ONLY''"
| "rearm_mode_enum_value rearm_mode_enum.HUMAN_ONLY_AFTER_REVIEW = ''HUMAN_ONLY_AFTER_REVIEW''"

datatype account_type =
    MARGIN
  | PORTFOLIO_MARGIN
  | MULTI_ACCOUNT

primrec account_type_value :: "account_type \<Rightarrow> string" where
  "account_type_value account_type.MARGIN = ''margin''"
| "account_type_value account_type.PORTFOLIO_MARGIN = ''portfolio_margin''"
| "account_type_value account_type.MULTI_ACCOUNT = ''multi_account''"

datatype broker_mode =
    PAPER
  | NONE
  | LIVE_READONLY

primrec broker_mode_value :: "broker_mode \<Rightarrow> string" where
  "broker_mode_value broker_mode.PAPER = ''paper''"
| "broker_mode_value broker_mode.NONE = ''none''"
| "broker_mode_value broker_mode.LIVE_READONLY = ''live_readonly''"

datatype reason_code =
    PRICE_STALE
  | IVR_STALE
  | ACCOUNT_TYPE_NOT_PERMITTED
  | MINIMUM_EQUITY_BREACH
  | DRAWDOWN_HALT_ACTIVE
  | SECONDARY_FEED_MISMATCH
  | HEAT_LIMIT_EXCEEDED
  | BUYING_POWER_LIMIT_EXCEEDED
  | DELTA_BAND_VIOLATION
  | ENTRY_WINDOW_CLOSED
  | EVENT_BLACKOUT_ACTIVE
  | CONTRACT_METADATA_INVALID
  | LIQUIDITY_GATE_FAILED
  | BROKEN_SPREAD_STATE
  | HUMAN_REARM_REQUIRED
  | ANTI_MARTINGALE_VIOLATION
  | CONCENTRATION_LIMIT_EXCEEDED
  | PROTECTION_HIERARCHY_VIOLATION
  | SECONDARY_FEED_NOT_CERTIFIED
  | EXECUTION_QUALITY_SUSPENDED
  | STRATEGY_NOT_LIVE_APPROVED
  | INSTRUMENT_NOT_PERMITTED
  | INTERNAL_CONTRADICTION
  | DATA_TIMESTAMP_INVALID
  | DTE_MISMATCH
  | CONTRACT_SPREAD_MISMATCH
  | RECONCILIATION_MISMATCH
  | OPERATOR_HALT_COMMAND
  | OPERATOR_RESUME_COMMAND
  | OPERATOR_CANCEL_COMMAND
  | OPERATOR_FLATTEN_COMMAND

primrec reason_code_value :: "reason_code \<Rightarrow> string" where
  "reason_code_value reason_code.PRICE_STALE = ''PRICE_STALE''"
| "reason_code_value reason_code.IVR_STALE = ''IVR_STALE''"
| "reason_code_value reason_code.ACCOUNT_TYPE_NOT_PERMITTED = ''ACCOUNT_TYPE_NOT_PERMITTED''"
| "reason_code_value reason_code.MINIMUM_EQUITY_BREACH = ''MINIMUM_EQUITY_BREACH''"
| "reason_code_value reason_code.DRAWDOWN_HALT_ACTIVE = ''DRAWDOWN_HALT_ACTIVE''"
| "reason_code_value reason_code.SECONDARY_FEED_MISMATCH = ''SECONDARY_FEED_MISMATCH''"
| "reason_code_value reason_code.HEAT_LIMIT_EXCEEDED = ''HEAT_LIMIT_EXCEEDED''"
| "reason_code_value reason_code.BUYING_POWER_LIMIT_EXCEEDED = ''BUYING_POWER_LIMIT_EXCEEDED''"
| "reason_code_value reason_code.DELTA_BAND_VIOLATION = ''DELTA_BAND_VIOLATION''"
| "reason_code_value reason_code.ENTRY_WINDOW_CLOSED = ''ENTRY_WINDOW_CLOSED''"
| "reason_code_value reason_code.EVENT_BLACKOUT_ACTIVE = ''EVENT_BLACKOUT_ACTIVE''"
| "reason_code_value reason_code.CONTRACT_METADATA_INVALID = ''CONTRACT_METADATA_INVALID''"
| "reason_code_value reason_code.LIQUIDITY_GATE_FAILED = ''LIQUIDITY_GATE_FAILED''"
| "reason_code_value reason_code.BROKEN_SPREAD_STATE = ''BROKEN_SPREAD_STATE''"
| "reason_code_value reason_code.HUMAN_REARM_REQUIRED = ''HUMAN_REARM_REQUIRED''"
| "reason_code_value reason_code.ANTI_MARTINGALE_VIOLATION = ''ANTI_MARTINGALE_VIOLATION''"
| "reason_code_value reason_code.CONCENTRATION_LIMIT_EXCEEDED = ''CONCENTRATION_LIMIT_EXCEEDED''"
| "reason_code_value reason_code.PROTECTION_HIERARCHY_VIOLATION = ''PROTECTION_HIERARCHY_VIOLATION''"
| "reason_code_value reason_code.SECONDARY_FEED_NOT_CERTIFIED = ''SECONDARY_FEED_NOT_CERTIFIED''"
| "reason_code_value reason_code.EXECUTION_QUALITY_SUSPENDED = ''EXECUTION_QUALITY_SUSPENDED''"
| "reason_code_value reason_code.STRATEGY_NOT_LIVE_APPROVED = ''STRATEGY_NOT_LIVE_APPROVED''"
| "reason_code_value reason_code.INSTRUMENT_NOT_PERMITTED = ''INSTRUMENT_NOT_PERMITTED''"
| "reason_code_value reason_code.INTERNAL_CONTRADICTION = ''INTERNAL_CONTRADICTION''"
| "reason_code_value reason_code.DATA_TIMESTAMP_INVALID = ''DATA_TIMESTAMP_INVALID''"
| "reason_code_value reason_code.DTE_MISMATCH = ''DTE_MISMATCH''"
| "reason_code_value reason_code.CONTRACT_SPREAD_MISMATCH = ''CONTRACT_SPREAD_MISMATCH''"
| "reason_code_value reason_code.RECONCILIATION_MISMATCH = ''RECONCILIATION_MISMATCH''"
| "reason_code_value reason_code.OPERATOR_HALT_COMMAND = ''OPERATOR_HALT_COMMAND''"
| "reason_code_value reason_code.OPERATOR_RESUME_COMMAND = ''OPERATOR_RESUME_COMMAND''"
| "reason_code_value reason_code.OPERATOR_CANCEL_COMMAND = ''OPERATOR_CANCEL_COMMAND''"
| "reason_code_value reason_code.OPERATOR_FLATTEN_COMMAND = ''OPERATOR_FLATTEN_COMMAND''"

datatype halt_action =
    HALT_NEW_ENTRIES_REMAINDER_OF_DAY
  | HALT_NEW_ENTRIES_AND_MANAGE_EXITS
  | SYSTEM_HALT_AND_MANAGED_FLATTEN

primrec halt_action_value :: "halt_action \<Rightarrow> string" where
  "halt_action_value halt_action.HALT_NEW_ENTRIES_REMAINDER_OF_DAY = ''HALT_NEW_ENTRIES_REMAINDER_OF_DAY''"
| "halt_action_value halt_action.HALT_NEW_ENTRIES_AND_MANAGE_EXITS = ''HALT_NEW_ENTRIES_AND_MANAGE_EXITS''"
| "halt_action_value halt_action.SYSTEM_HALT_AND_MANAGED_FLATTEN = ''SYSTEM_HALT_AND_MANAGED_FLATTEN''"

datatype spread_direction =
    PUT_CREDIT
  | CALL_CREDIT

primrec spread_direction_value :: "spread_direction \<Rightarrow> string" where
  "spread_direction_value spread_direction.PUT_CREDIT = ''PUT_CREDIT''"
| "spread_direction_value spread_direction.CALL_CREDIT = ''CALL_CREDIT''"

datatype leg_side =
    SHORT
  | LONG

primrec leg_side_value :: "leg_side \<Rightarrow> string" where
  "leg_side_value leg_side.SHORT = ''SHORT''"
| "leg_side_value leg_side.LONG = ''LONG''"

datatype macro_event =
    FOMC_RATE_DECISION
  | CPI_RELEASE
  | NFP_RELEASE
  | FED_CHAIR_SPEECH
  | UNSCHEDULED_MARKET_HALT

primrec macro_event_value :: "macro_event \<Rightarrow> string" where
  "macro_event_value macro_event.FOMC_RATE_DECISION = ''FOMC_RATE_DECISION''"
| "macro_event_value macro_event.CPI_RELEASE = ''CPI_RELEASE''"
| "macro_event_value macro_event.NFP_RELEASE = ''NFP_RELEASE''"
| "macro_event_value macro_event.FED_CHAIR_SPEECH = ''FED_CHAIR_SPEECH''"
| "macro_event_value macro_event.UNSCHEDULED_MARKET_HALT = ''UNSCHEDULED_MARKET_HALT''"

datatype feed_provider =
    POLYGON

primrec feed_provider_value :: "feed_provider \<Rightarrow> string" where
  "feed_provider_value feed_provider.POLYGON = ''polygon''"

datatype certification_status =
    CERTIFIED
  | NOT_CERTIFIED
  | EXPIRED

primrec certification_status_value :: "certification_status \<Rightarrow> string" where
  "certification_status_value certification_status.CERTIFIED = ''CERTIFIED''"
| "certification_status_value certification_status.NOT_CERTIFIED = ''NOT_CERTIFIED''"
| "certification_status_value certification_status.EXPIRED = ''EXPIRED''"

datatype intent_status =
    CANDIDATE
  | VALIDATED
  | TICKETED

primrec intent_status_value :: "intent_status \<Rightarrow> string" where
  "intent_status_value intent_status.CANDIDATE = ''candidate''"
| "intent_status_value intent_status.VALIDATED = ''validated''"
| "intent_status_value intent_status.TICKETED = ''ticketed''"

datatype execution_status =
    FILLED
  | PARTIAL
  | REJECTED
  | CANCELLED
  | WORKING

primrec execution_status_value :: "execution_status \<Rightarrow> string" where
  "execution_status_value execution_status.FILLED = ''FILLED''"
| "execution_status_value execution_status.PARTIAL = ''PARTIAL''"
| "execution_status_value execution_status.REJECTED = ''REJECTED''"
| "execution_status_value execution_status.CANCELLED = ''CANCELLED''"
| "execution_status_value execution_status.WORKING = ''WORKING''"

datatype submit_mode =
    LIVE
  | PAPER

primrec submit_mode_value :: "submit_mode \<Rightarrow> string" where
  "submit_mode_value submit_mode.LIVE = ''LIVE''"
| "submit_mode_value submit_mode.PAPER = ''PAPER''"

datatype order_lifecycle_state =
    PENDING_SUBMIT
  | SUBMITTED
  | WORKING
  | PARTIAL_FILL
  | FILLED
  | CANCELLED
  | REJECTED
  | EXPIRED

primrec order_lifecycle_state_value :: "order_lifecycle_state \<Rightarrow> string" where
  "order_lifecycle_state_value order_lifecycle_state.PENDING_SUBMIT = ''PENDING_SUBMIT''"
| "order_lifecycle_state_value order_lifecycle_state.SUBMITTED = ''SUBMITTED''"
| "order_lifecycle_state_value order_lifecycle_state.WORKING = ''WORKING''"
| "order_lifecycle_state_value order_lifecycle_state.PARTIAL_FILL = ''PARTIAL_FILL''"
| "order_lifecycle_state_value order_lifecycle_state.FILLED = ''FILLED''"
| "order_lifecycle_state_value order_lifecycle_state.CANCELLED = ''CANCELLED''"
| "order_lifecycle_state_value order_lifecycle_state.REJECTED = ''REJECTED''"
| "order_lifecycle_state_value order_lifecycle_state.EXPIRED = ''EXPIRED''"

datatype human_required_kind =
    DRAWDOWN_HALT
  | EXECUTION_QUALITY_SUSPENSION
  | SECONDARY_FEED_NOT_CERTIFIED
  | BROKEN_SPREAD
  | RECONCILIATION_MISMATCH
  | STRATEGY_PROMOTION_REQUEST

primrec human_required_kind_value :: "human_required_kind \<Rightarrow> string" where
  "human_required_kind_value human_required_kind.DRAWDOWN_HALT = ''DRAWDOWN_HALT''"
| "human_required_kind_value human_required_kind.EXECUTION_QUALITY_SUSPENSION = ''EXECUTION_QUALITY_SUSPENSION''"
| "human_required_kind_value human_required_kind.SECONDARY_FEED_NOT_CERTIFIED = ''SECONDARY_FEED_NOT_CERTIFIED''"
| "human_required_kind_value human_required_kind.BROKEN_SPREAD = ''BROKEN_SPREAD''"
| "human_required_kind_value human_required_kind.RECONCILIATION_MISMATCH = ''RECONCILIATION_MISMATCH''"
| "human_required_kind_value human_required_kind.STRATEGY_PROMOTION_REQUEST = ''STRATEGY_PROMOTION_REQUEST''"

datatype promotion_drill =
    BROKER_DISCONNECT
  | STALE_DATA
  | BROKEN_SPREAD
  | COMBO_ORDER_PARTIAL_FILL
  | WORKER_CRASH_WITH_OPEN_SHORT_LEG
  | CANCEL_ALL_ORDERS
  | KILL_TEMPORAL_WORKER_MID_ORDER
  | RECONCILIATION_MISMATCH
  | DRAWDOWN_HALT

primrec promotion_drill_value :: "promotion_drill \<Rightarrow> string" where
  "promotion_drill_value promotion_drill.BROKER_DISCONNECT = ''broker_disconnect_drill''"
| "promotion_drill_value promotion_drill.STALE_DATA = ''stale_data_drill''"
| "promotion_drill_value promotion_drill.BROKEN_SPREAD = ''broken_spread_drill''"
| "promotion_drill_value promotion_drill.COMBO_ORDER_PARTIAL_FILL = ''combo_order_partial_fill_drill''"
| "promotion_drill_value promotion_drill.WORKER_CRASH_WITH_OPEN_SHORT_LEG = ''worker_crash_with_open_short_leg_drill''"
| "promotion_drill_value promotion_drill.CANCEL_ALL_ORDERS = ''cancel_all_orders_drill''"
| "promotion_drill_value promotion_drill.KILL_TEMPORAL_WORKER_MID_ORDER = ''kill_temporal_worker_mid_order_drill''"
| "promotion_drill_value promotion_drill.RECONCILIATION_MISMATCH = ''reconciliation_mismatch_drill''"
| "promotion_drill_value promotion_drill.DRAWDOWN_HALT = ''drawdown_halt_drill''"

text \<open>\<open>EmergencyState.market_orders_allowed\<close>.\<close>

definition market_orders_allowed :: "emergency_state \<Rightarrow> bool" where
  "market_orders_allowed st \<longleftrightarrow> st \<noteq> emergency_state.NORMAL"

text \<open>\<open>_STAGE_ORDER\<close> of \<open>schemas/strategy_stage.py\<close>: the promotion order of the
  stages, which makes them a linear order.\<close>

primrec stage_order :: "strategy_stage \<Rightarrow> int" where
  "stage_order strategy_stage.HYPOTHESIS = 0"
| "stage_order strategy_stage.RESEARCH = 1"
| "stage_order strategy_stage.SHADOW = 2"
| "stage_order strategy_stage.PAPER = 3"
| "stage_order strategy_stage.LIVE = 4"

definition stage_at_least :: "strategy_stage \<Rightarrow> strategy_stage \<Rightarrow> bool" where
  "stage_at_least current minimum \<longleftrightarrow> stage_order minimum \<le> stage_order current"

lemma stage_order_inj: "stage_order a = stage_order b \<longleftrightarrow> a = b"
  by (cases a; cases b) simp_all

instantiation strategy_stage :: linorder
begin

definition less_eq_strategy_stage :: "strategy_stage \<Rightarrow> strategy_stage \<Rightarrow> bool" where
  "less_eq_strategy_stage a b \<longleftrightarrow> stage_order a \<le> stage_order b"

definition less_strategy_stage :: "strategy_stage \<Rightarrow> strategy_stage \<Rightarrow> bool" where
  "less_strategy_stage a b \<longleftrightarrow> stage_order a < stage_order b"

instance
  by standard (auto simp: less_eq_strategy_stage_def less_strategy_stage_def stage_order_inj)

end

lemma stage_at_least_iff: "stage_at_least a b \<longleftrightarrow> b \<le> a"
  by (simp add: stage_at_least_def less_eq_strategy_stage_def)

lemma stage_le_LIVE [simp]: "a \<le> strategy_stage.LIVE"
  by (cases a) (simp_all add: less_eq_strategy_stage_def)

lemma stage_at_least_LIVE: "stage_at_least a strategy_stage.LIVE \<longleftrightarrow> a = strategy_stage.LIVE"
  by (cases a) (simp_all add: stage_at_least_def)

end
