(* ===== verification/Errors.thy ===== *)
theory Errors
  imports Enums
begin

text \<open>
  The exceptions of the program as values. A constraint or a model validator of a Pydantic model
  that fails surfaces as \<open>ValidationError\<close>; a method that raises directly gives the
  exception of the source. The message kept is the constant prefix of the f-string. The broker
  and storage families carry the class as a kind.
\<close>

datatype broker_error_kind =
    BrokerRejectedError
  | BrokerDisconnectError
  | BrokerTimeoutError
  | LiveSubmitNotPermittedError
  | PaperSubmissionDisabledError
  | PaperPolicyViolationError
  | HumanConfirmationRequiredError
  | UnknownOrderError
  | OrderNotCancellableError

datatype storage_error_kind =
    DuplicateIdempotencyKeyError
  | AppendOnlyViolationError
  | UnrehydratableRecordError
  | UnverifiedProvenanceError
  | PayloadIntegrityError
  | SecretPersistenceError

text \<open>\<open>BrokerError\<close> carries the reason code and the detail, which is the message when
  no detail is given.\<close>

record broker_error =
  be_kind :: broker_error_kind
  be_message :: string
  be_reason_code :: reason_code
  be_detail :: string

definition mk_broker_error ::
  "broker_error_kind \<Rightarrow> string \<Rightarrow> reason_code \<Rightarrow> string \<Rightarrow> broker_error" where
  "mk_broker_error k message code detail =
     \<lparr>be_kind = k, be_message = message, be_reason_code = code,
      be_detail = (if detail = [] then message else detail)\<rparr>"

datatype py_error =
    ValueError string
  | ValidationError string
  | TypeError string
  | KeyError string
  | AttributeError string
  | AssertionError string
  | FileError string
  | BrokerError broker_error
  | StorageError storage_error_kind string
  | StrategyError string
  | OperatorError string string
  | ConfigError string string
  | MarketDataError string string
  | AgentError string string
  | PaperOperatorError string string
  | AuditDbUnavailableError string

type_synonym 'a res = "py_error + 'a"

text \<open>Construction of a model: the guard table decides, in the order of the field constraints
  and then of the validators.\<close>

definition construct :: "(bool \<times> string) list \<Rightarrow> 'a \<Rightarrow> 'a res" where
  "construct guards x =
     (case first_violation guards of None \<Rightarrow> Inr x | Some msg \<Rightarrow> Inl (ValidationError msg))"

definition passes_guards :: "(bool \<times> string) list \<Rightarrow> bool" where
  "passes_guards guards \<longleftrightarrow> first_violation guards = None"

lemma construct_eq_Inr: "construct gs x = Inr y \<longleftrightarrow> y = x \<and> passes_guards gs"
  by (auto simp: construct_def passes_guards_def split: option.splits)

lemma is_ok_construct: "is_ok (construct gs x) \<longleftrightarrow> passes_guards gs"
  by (auto simp: is_ok_iff construct_eq_Inr)

lemma construct_ok [simp]: "passes_guards gs \<Longrightarrow> construct gs x = Inr x"
  by (simp add: construct_eq_Inr)

lemma construct_Inl: "construct gs x = Inl e \<Longrightarrow> \<exists>m. e = ValidationError m"
  by (auto simp: construct_def split: option.splits)

lemma passes_guards_simps [simp]:
  "passes_guards []"
  "passes_guards ((b, m) # gs) \<longleftrightarrow> \<not> b \<and> passes_guards gs"
  by (simp_all add: passes_guards_def)

lemma passes_guards_append [simp]:
  "passes_guards (gs @ hs) \<longleftrightarrow> passes_guards gs \<and> passes_guards hs"
  by (auto simp: passes_guards_def first_violation_None)

end
