(* ===== verification/Clock.thy ===== *)
theory Clock
  imports Numerics Errors
begin

text \<open>
  Python \<open>datetime\<close> values. An aware datetime is an instant, in microseconds since the
  epoch, together with its UTC offset in microseconds: comparisons and differences use the
  instant, \<open>.date()\<close> uses the wall clock of the offset. A field typed
  \<open>AwareDatetime\<close> is an \<open>aware\<close>; an argument typed \<open>datetime\<close> may
  also be naive, and the methods that check \<open>tzinfo\<close> raise on it. The last section
  holds the age of a quote in milliseconds, computed in floating point as the code does.
\<close>

section \<open>Datetimes\<close>

record aware =
  at_us :: int
  at_off :: int

datatype datetime = Aware aware | Naive int

definition us_per_s :: int where "us_per_s = 1000000"

definition us_per_min :: int where "us_per_min = 60000000"

definition us_per_day :: int where "us_per_day = 86400000000"

definition utc :: "int \<Rightarrow> aware" where
  "utc us = \<lparr>at_us = us, at_off = 0\<rparr>"

definition at_le :: "aware \<Rightarrow> aware \<Rightarrow> bool" where
  "at_le a b \<longleftrightarrow> at_us a \<le> at_us b"

definition at_lt :: "aware \<Rightarrow> aware \<Rightarrow> bool" where
  "at_lt a b \<longleftrightarrow> at_us a < at_us b"

definition at_eq :: "aware \<Rightarrow> aware \<Rightarrow> bool" where
  "at_eq a b \<longleftrightarrow> at_us a = at_us b"

text \<open>Adding a \<open>timedelta\<close> keeps the offset.\<close>

definition at_plus :: "aware \<Rightarrow> int \<Rightarrow> aware" where
  "at_plus a us = a\<lparr>at_us := at_us a + us\<rparr>"

text \<open>The day number of \<open>.date()\<close>, in the wall clock of the datetime.\<close>

definition at_date :: "aware \<Rightarrow> int" where
  "at_date a = (at_us a + at_off a) div us_per_day"

definition require_aware :: "string \<Rightarrow> datetime \<Rightarrow> aware res" where
  "require_aware msg d = (case d of Aware a \<Rightarrow> Inr a | Naive _ \<Rightarrow> Inl (ValueError msg))"

lemma require_aware_simps [simp]:
  "require_aware msg (Aware a) = Inr a"
  "require_aware msg (Naive n) = Inl (ValueError msg)"
  by (simp_all add: require_aware_def)

lemmas at_defs = at_le_def at_lt_def at_eq_def

lemma at_plus_simps [simp]: "at_us (at_plus a d) = at_us a + d" "at_off (at_plus a d) = at_off a"
  by (simp_all add: at_plus_def)

section \<open>Wall clock of a zone\<close>

text \<open>Minutes since midnight of \<open>astimezone(zone)\<close>, for the offset that the zone data
  gives at the instant.\<close>

definition minutes_since_midnight :: "(int \<Rightarrow> int) \<Rightarrow> aware \<Rightarrow> int" where
  "minutes_since_midnight zone_offset a =
     (let w = (at_us a + zone_offset (at_us a)) mod us_per_day;
          hour = w div (60 * us_per_min); minute = (w mod (60 * us_per_min)) div us_per_min
      in hour * 60 + minute)"

lemma minutes_since_midnight_div:
  "minutes_since_midnight z a = ((at_us a + z (at_us a)) mod us_per_day) div us_per_min"
proof -
  have "w div (60 * us_per_min) * 60 + (w mod (60 * us_per_min)) div us_per_min = w div us_per_min"
    for w :: int
  proof -
    have "w div (us_per_min * 60) = w div us_per_min div 60"
      by (simp add: zdiv_zmult2_eq)
    moreover have "w mod (us_per_min * 60) = us_per_min * (w div us_per_min mod 60) + w mod us_per_min"
      by (simp add: zmod_zmult2_eq)
    moreover have "(us_per_min * k + w mod us_per_min) div us_per_min = k" for k
      by (simp add: us_per_min_def)
    ultimately show ?thesis by (simp add: mult.commute [of 60 us_per_min])
  qed
  then show ?thesis by (simp add: minutes_since_midnight_def Let_def)
qed

lemma minutes_since_midnight_range:
  "0 \<le> minutes_since_midnight z a" "minutes_since_midnight z a < 1440"
proof -
  let ?w = "(at_us a + z (at_us a)) mod us_per_day"
  have "0 \<le> ?w" "?w < us_per_day" by (simp_all add: us_per_day_def)
  then show "0 \<le> minutes_since_midnight z a" "minutes_since_midnight z a < 1440"
    unfolding minutes_since_midnight_div us_per_min_def us_per_day_def by linarith+
qed

section \<open>Age of a timestamp\<close>

text \<open>\<open>timedelta.total_seconds\<close> is a correctly rounded quotient; the product with
  1000 rounds again; \<open>int\<close> truncates towards zero.\<close>

definition total_seconds :: "int \<Rightarrow> rat" where
  "total_seconds us = fl (of_int us / 1000000)"

definition float_mul :: "rat \<Rightarrow> rat \<Rightarrow> rat" where
  "float_mul x y = fl (x * y)"

definition trunc :: "rat \<Rightarrow> int" where
  "trunc x = (if x < 0 then \<lceil>x\<rceil> else \<lfloor>x\<rfloor>)"

definition age_ms :: "datetime \<Rightarrow> datetime \<Rightarrow> int res" where
  "age_ms ts as_of =
     bind_res (require_aware ''timestamps must be timezone-aware (UTC)'' ts) (\<lambda>t.
     bind_res (require_aware ''timestamps must be timezone-aware (UTC)'' as_of) (\<lambda>n.
       let age = trunc (float_mul (total_seconds (at_us n - at_us t)) 1000)
       in if age < 0 then Inl (ValueError ''future timestamp'') else Inr age))"

definition is_future :: "datetime \<Rightarrow> datetime \<Rightarrow> bool res" where
  "is_future ts as_of =
     bind_res (require_aware ''timestamps must be timezone-aware (UTC)'' ts) (\<lambda>t.
     bind_res (require_aware ''timestamps must be timezone-aware (UTC)'' as_of) (\<lambda>n.
       Inr (at_lt n t)))"

definition elapsed_ms :: "int \<Rightarrow> int" where
  "elapsed_ms us = trunc (float_mul (total_seconds us) 1000)"

lemma elapsed_ms_nonneg: "0 \<le> us \<Longrightarrow> 0 \<le> elapsed_ms us"
proof -
  assume "0 \<le> us"
  then have "0 \<le> fl (of_int us / 1000000) * 1000" by (simp add: fl.rd_nonneg)
  then have "0 \<le> fl (fl (of_int us / 1000000) * 1000)" by (rule fl.rd_nonneg)
  then show ?thesis by (simp add: elapsed_ms_def float_mul_def total_seconds_def trunc_def)
qed

lemma age_ms_Aware:
  "age_ms (Aware t) (Aware n) =
     (if elapsed_ms (at_us n - at_us t) < 0 then Inl (ValueError ''future timestamp'')
      else Inr (elapsed_ms (at_us n - at_us t)))"
  by (simp add: age_ms_def elapsed_ms_def Let_def)

lemma age_ms_past:
  "at_us t \<le> at_us n \<Longrightarrow> age_ms (Aware t) (Aware n) = Inr (elapsed_ms (at_us n - at_us t))"
  using elapsed_ms_nonneg [of "at_us n - at_us t"] by (simp add: age_ms_Aware)

lemma is_future_Aware [simp]: "is_future (Aware t) (Aware n) = Inr (at_us n < at_us t)"
  by (simp add: is_future_def at_defs)

lemma elapsed_ms_mono: "0 \<le> a \<Longrightarrow> a \<le> b \<Longrightarrow> elapsed_ms a \<le> elapsed_ms b"
proof -
  assume ab: "0 \<le> a" "a \<le> b"
  have 1: "total_seconds a \<le> total_seconds b"
    unfolding total_seconds_def using ab by (intro fl.rd_mono) (simp add: divide_right_mono)
  have 0: "0 \<le> total_seconds a" using ab by (simp add: total_seconds_def fl.rd_nonneg)
  have 2: "float_mul (total_seconds a) 1000 \<le> float_mul (total_seconds b) 1000"
    unfolding float_mul_def using 1 by (intro fl.rd_mono) simp
  have "0 \<le> float_mul (total_seconds a) 1000"
    unfolding float_mul_def using 0 by (intro fl.rd_nonneg) simp
  then show ?thesis unfolding elapsed_ms_def trunc_def using 2 by (simp add: floor_mono not_less)
qed

lemma shrink_less:
  fixes y e :: rat
  assumes "0 \<le> y" and "0 \<le> e" and "(y + 1) * (2 * e) < 1"
  shows "y < (y + 1) * ((1 - e) * (1 - e))"
proof -
  have "(y + 1) * ((1 - e) * (1 - e)) = (y + 1) - (y + 1) * (2 * e) + (y + 1) * (e * e)"
    by (simp add: algebra_simps)
  moreover have "0 \<le> (y + 1) * (e * e)" using assms by simp
  ultimately show ?thesis using assms(3) by linarith
qed

text \<open>Truncation and the two roundings lose less than one millisecond and one microsecond: an
  age of at most \<open>L\<close> means that at most \<open>L + 1\<close> milliseconds have passed.\<close>

lemma elapsed_ms_le_imp:
  assumes "0 \<le> us" and "elapsed_ms us \<le> L" and L: "0 \<le> L" "L \<le> 1000000"
  shows "us \<le> (L + 1) * 1000"
proof (rule ccontr)
  let ?e = "1 / 2 ^ 53 :: rat" and ?x = "of_int us / 1000000 :: rat"
  assume "\<not> us \<le> (L + 1) * 1000"
  then have u: "(L + 1) * 1000 + 1 \<le> us" by simp
  have x0: "0 \<le> ?x" using assms(1) by simp
  then have f0: "0 \<le> fl ?x * 1000" by (simp add: fl.rd_nonneg)
  have "elapsed_ms us = \<lfloor>fl (fl ?x * 1000)\<rfloor>"
    using fl.rd_nonneg [OF f0] by (simp add: elapsed_ms_def trunc_def float_mul_def total_seconds_def)
  then have lt: "fl (fl ?x * 1000) < of_int L + 1" using assms(2) by linarith
  have "of_int us / 1000 * (1 - ?e) * (1 - ?e) \<le> fl ?x * 1000 * (1 - ?e)"
    using fl.le_of_rd [OF x0] by (intro mult_right_mono) (simp_all add: field_simps)
  also have "\<dots> \<le> fl (fl ?x * 1000)" by (rule fl.le_of_rd [OF f0])
  also note lt
  finally have A: "of_int us * ((1 - ?e) * (1 - ?e)) < of_int (L + 1) * (1000 :: rat)"
    by (simp add: field_simps)
  have "of_int ((L + 1) * 1000 + 1) * ((1 - ?e) * (1 - ?e)) \<le> of_int us * ((1 - ?e) * (1 - ?e))"
    using u by (intro mult_right_mono) (simp_all only: of_int_le_iff, simp)
  then have B: "(of_int (L + 1) * 1000 + 1) * ((1 - ?e) * (1 - ?e)) < of_int (L + 1) * (1000 :: rat)"
    using A by simp
  moreover have "of_int (L + 1) * (1000 :: rat) \<le> 1000001000" using L(2) by simp
  moreover have "0 \<le> of_int (L + 1) * (1000 :: rat)" using L(1) by simp
  ultimately show False
    using shrink_less [of "of_int (L + 1) * 1000" ?e] by force
qed

text \<open>Comparing \<open>total_seconds\<close> with zero or with a whole number of seconds is
  exact, in spite of the rounding.\<close>

lemma total_seconds_neg: "total_seconds us < 0 \<longleftrightarrow> us < 0"
proof
  assume "us < 0"
  then have "0 < fl (- (of_int us / 1000000))" by (intro fl.rd_pos) simp
  then show "total_seconds us < 0" by (simp add: total_seconds_def fl_def rnd_minus)
next
  assume "total_seconds us < 0"
  then show "us < 0"
    using fl.rd_nonneg [of "of_int us / 1000000"] by (force simp: total_seconds_def)
qed

lemma total_seconds_gt:
  assumes S: "0 \<le> S" "S \<le> 1000000"
  shows "of_int S < total_seconds us \<longleftrightarrow> S * 1000000 < us"
proof
  assume *: "of_int S < total_seconds us"
  show "S * 1000000 < us"
  proof (rule ccontr)
    assume "\<not> S * 1000000 < us"
    then have "(of_int us :: rat) \<le> of_int (S * 1000000)" by (simp only: of_int_le_iff)
    then have "of_int us / 1000000 \<le> (of_int S :: rat)" by simp
    moreover have "representable 2 53 (of_int S :: rat)" using S by (intro representable_of_int) simp
    ultimately have "total_seconds us \<le> of_int S"
      unfolding total_seconds_def by (intro fl.rd_le_cap)
    then show False using * by simp
  qed
next
  let ?e = "1 / 2 ^ 53 :: rat" and ?x = "of_int us / 1000000 :: rat"
  assume "S * 1000000 < us"
  then have "of_int (S * 1000000 + 1) \<le> (of_int us :: rat)" by (simp only: of_int_le_iff)
  then have x: "of_int S + 1 / 1000000 \<le> ?x" by simp
  have S': "(0 :: rat) \<le> of_int S" "(of_int S :: rat) \<le> 1000000" using S by simp_all
  have "of_int S < (of_int S + 1 / 1000000) * (1 - ?e)"
    using S' by (simp add: field_simps)
  also have "\<dots> \<le> ?x * (1 - ?e)" using x by (intro mult_right_mono) simp_all
  also have "\<dots> \<le> fl ?x" using x S' by (intro fl.le_of_rd) simp
  finally show "of_int S < total_seconds us" by (simp add: total_seconds_def)
qed

end
