(* ===== verification/SafetyState.thy ===== *)
theory SafetyState
  imports Clock
begin

text \<open>
  The safety-state schemas that the gateway reads, one section per module of
  \<open>schemas/\<close>. Each Pydantic model is a record; \<open>X_guards\<close> lists its field
  constraints and validators in the order of the code, and \<open>wf_X\<close> says that the record
  is a constructed instance. Properties and methods keep their names, with the class as prefix
  where several classes share one.
\<close>

section \<open>Account state\<close>

definition MINIMUM_EQUITY_USD :: rat where "MINIMUM_EQUITY_USD = 20000"

definition PERMITTED_ACCOUNT_TYPES :: "account_type set" where
  "PERMITTED_ACCOUNT_TYPES = {account_type.MARGIN}"

record account_state =
  ac_account_type :: account_type
  ac_net_liquidating_value :: decimal
  ac_cash_balance :: decimal
  ac_buying_power :: decimal
  ac_day_pnl :: decimal
  ac_week_pnl :: decimal
  ac_trailing_high_water_value :: decimal

definition account_state_guards :: "account_state \<Rightarrow> (bool \<times> string) list" where
  "account_state_guards a =
     [(dval (ac_net_liquidating_value a) \<le> 0, ''net_liquidating_value''),
      (dval (ac_buying_power a) < 0, ''buying_power''),
      (dval (ac_trailing_high_water_value a) \<le> 0, ''trailing_high_water_value''),
      (dval (ac_trailing_high_water_value a) < dval (ac_net_liquidating_value a),
       ''trailing_high_water_value cannot be below net_liquidating_value'')]"

definition wf_account_state :: "account_state \<Rightarrow> bool" where
  [wf_defs]: "wf_account_state a \<longleftrightarrow> passes_guards (account_state_guards a)"

definition account_type_permitted :: "account_state \<Rightarrow> bool" where
  "account_type_permitted a \<longleftrightarrow> ac_account_type a \<in> PERMITTED_ACCOUNT_TYPES"

definition below_minimum_equity :: "account_state \<Rightarrow> bool" where
  "below_minimum_equity a \<longleftrightarrow> dval (ac_net_liquidating_value a) < MINIMUM_EQUITY_USD"

definition new_entries_allowed_by_account_state :: "account_state \<Rightarrow> bool" where
  "new_entries_allowed_by_account_state a \<longleftrightarrow>
     account_type_permitted a \<and> \<not> below_minimum_equity a"

section \<open>Instrument\<close>

definition PHASE_1_UNDERLYINGS :: "underlying set" where
  "PHASE_1_UNDERLYINGS = {underlying.XSP}"

definition ALL_PERMITTED_UNDERLYINGS :: "underlying set" where
  "ALL_PERMITTED_UNDERLYINGS = {underlying.XSP, underlying.SPX}"

record instrument =
  in_underlying :: underlying

definition is_phase_1_eligible :: "instrument \<Rightarrow> bool" where
  "is_phase_1_eligible i \<longleftrightarrow> in_underlying i \<in> PHASE_1_UNDERLYINGS"

definition is_permitted :: "instrument \<Rightarrow> bool" where
  "is_permitted i \<longleftrightarrow> in_underlying i \<in> ALL_PERMITTED_UNDERLYINGS"

section \<open>Allowed-underlying policy\<close>

datatype policy_source = CONSTITUTION_CONFIG | HUMAN_APPROVED_CONFIG

record allowed_underlying_policy =
  up_xsp_enabled :: bool
  up_spx_phase_2_enabled :: bool
  up_policy_version :: string
  up_source :: policy_source
  up_approved_by :: "string option"
  up_effective_at :: aware
  up_expires_at :: "aware option"

text \<open>Truth value of an optional string: present and not empty.\<close>

definition truthy :: "string option \<Rightarrow> bool" where
  "truthy s \<longleftrightarrow> (case s of None \<Rightarrow> False | Some t \<Rightarrow> t \<noteq> [])"

definition allowed_underlying_policy_guards :: "allowed_underlying_policy \<Rightarrow> (bool \<times> string) list" where
  "allowed_underlying_policy_guards p =
     [(up_policy_version p = [], ''policy_version''),
      (up_source p = HUMAN_APPROVED_CONFIG \<and> \<not> truthy (up_approved_by p),
       ''HUMAN_APPROVED_CONFIG policy must carry approved_by''),
      (up_spx_phase_2_enabled p \<and> up_source p \<noteq> HUMAN_APPROVED_CONFIG,
       ''spx_phase_2_enabled requires source=HUMAN_APPROVED_CONFIG''),
      (case up_expires_at p of None \<Rightarrow> False | Some e \<Rightarrow> at_le e (up_effective_at p),
       ''expires_at must be after effective_at'')]"

definition wf_allowed_underlying_policy :: "allowed_underlying_policy \<Rightarrow> bool" where
  [wf_defs]: "wf_allowed_underlying_policy p \<longleftrightarrow>
     passes_guards (allowed_underlying_policy_guards p)"

definition policy_is_active_as_of :: "allowed_underlying_policy \<Rightarrow> datetime \<Rightarrow> bool res" where
  "policy_is_active_as_of p as_of =
     bind_res (require_aware ''as_of must be timezone-aware (UTC)'' as_of) (\<lambda>t.
       if at_lt t (up_effective_at p) then Inr False
       else case up_expires_at p of
           None \<Rightarrow> Inr True
         | Some e \<Rightarrow> if at_lt e t then Inr False else Inr True)"

definition permission_reason ::
  "allowed_underlying_policy \<Rightarrow> underlying \<Rightarrow> datetime \<Rightarrow> reason_code option res" where
  "permission_reason p u as_of =
     bind_res (policy_is_active_as_of p as_of) (\<lambda>active.
       if \<not> active then Inr (Some INSTRUMENT_NOT_PERMITTED)
       else case u of
           underlying.XSP \<Rightarrow> Inr (if up_xsp_enabled p then None else Some INSTRUMENT_NOT_PERMITTED)
         | underlying.SPX \<Rightarrow>
             Inr (if up_spx_phase_2_enabled p then None else Some INSTRUMENT_NOT_PERMITTED))"

section \<open>Entry window\<close>

definition ENTRY_WINDOW_OPEN_CT_MIN :: int where "ENTRY_WINDOW_OPEN_CT_MIN = 9 * 60 + 45"

definition ENTRY_WINDOW_CLOSE_CT_MIN :: int where "ENTRY_WINDOW_CLOSE_CT_MIN = 13 * 60"

section \<open>Drawdown ladder\<close>

definition DAILY_THRESHOLD_PCT :: rat where "DAILY_THRESHOLD_PCT = 25 / 10"

definition WEEKLY_THRESHOLD_PCT :: rat where "WEEKLY_THRESHOLD_PCT = 50 / 10"

definition TRAILING_THRESHOLD_PCT :: rat where "TRAILING_THRESHOLD_PCT = 80 / 10"

primrec tier_rules :: "drawdown_tier \<Rightarrow> (rat \<times> halt_action \<times> rearm_mode_enum) option" where
  "tier_rules drawdown_tier.NONE = None"
| "tier_rules drawdown_tier.DAILY =
     Some (DAILY_THRESHOLD_PCT, HALT_NEW_ENTRIES_REMAINDER_OF_DAY, AUTO_NEXT_SESSION)"
| "tier_rules drawdown_tier.WEEKLY =
     Some (WEEKLY_THRESHOLD_PCT, HALT_NEW_ENTRIES_AND_MANAGE_EXITS, HUMAN_ONLY)"
| "tier_rules drawdown_tier.TRAILING =
     Some (TRAILING_THRESHOLD_PCT, SYSTEM_HALT_AND_MANAGED_FLATTEN, HUMAN_ONLY_AFTER_REVIEW)"

definition required_rearm_mode :: "drawdown_tier \<Rightarrow> rearm_mode_enum option" where
  "required_rearm_mode tier =
     (if tier = drawdown_tier.NONE then None
      else case tier_rules tier of None \<Rightarrow> None | Some (_, _, r) \<Rightarrow> Some r)"

record drawdown_halt_state =
  dd_active_tier :: drawdown_tier
  dd_triggered_action :: "halt_action option"
  dd_rearm_mode :: "rearm_mode_enum option"
  dd_human_rearm_granted :: bool

definition new_entries_allowed :: "drawdown_halt_state \<Rightarrow> bool" where
  "new_entries_allowed d \<longleftrightarrow> dd_active_tier d = drawdown_tier.NONE"

definition dd_requires_human_rearm :: "drawdown_halt_state \<Rightarrow> bool" where
  "dd_requires_human_rearm d \<longleftrightarrow>
     dd_rearm_mode d \<in> {Some HUMAN_ONLY, Some HUMAN_ONLY_AFTER_REVIEW}"

definition drawdown_halt_state_guards :: "drawdown_halt_state \<Rightarrow> (bool \<times> string) list" where
  "drawdown_halt_state_guards d =
     (case tier_rules (dd_active_tier d) of
        None \<Rightarrow>
          [(dd_triggered_action d \<noteq> None \<or> dd_rearm_mode d \<noteq> None \<or> dd_human_rearm_granted d,
            ''NONE tier must not carry action, rearm_mode, or human_rearm_granted'')]
      | Some (_, action, rearm) \<Rightarrow>
          [(dd_triggered_action d \<noteq> Some action, ''tier requires action''),
           (dd_rearm_mode d \<noteq> Some rearm, ''tier requires rearm''),
           (dd_human_rearm_granted d \<and> \<not> dd_requires_human_rearm d,
            ''human_rearm_granted is only valid for human-rearm tiers'')])"

definition wf_drawdown_halt_state :: "drawdown_halt_state \<Rightarrow> bool" where
  [wf_defs]: "wf_drawdown_halt_state d \<longleftrightarrow> passes_guards (drawdown_halt_state_guards d)"

section \<open>Macro-event blackouts\<close>

definition POST_RELEASE_BLOCK_MIN :: "macro_event \<Rightarrow> int option" where
  "POST_RELEASE_BLOCK_MIN e =
     (if e = CPI_RELEASE then Some 30 else if e = NFP_RELEASE then Some 30 else None)"

definition FED_SPEECH_TRAILING_MIN :: int where "FED_SPEECH_TRAILING_MIN = 15"

record event_blackout =
  eb_event :: macro_event
  eb_window_start :: aware
  eb_window_end :: aware

definition wf_event_blackout :: "event_blackout \<Rightarrow> bool" where
  [wf_defs]: "wf_event_blackout b \<longleftrightarrow> passes_guards
     [(at_lt (eb_window_end b) (eb_window_start b), ''window_end cannot be before window_start'')]"

definition effective_block_end :: "event_blackout \<Rightarrow> aware" where
  "effective_block_end b =
     (case POST_RELEASE_BLOCK_MIN (eb_event b) of
        Some m \<Rightarrow> at_plus (eb_window_end b) (m * us_per_min)
      | None \<Rightarrow>
          if eb_event b = FED_CHAIR_SPEECH
          then at_plus (eb_window_end b) (FED_SPEECH_TRAILING_MIN * us_per_min)
          else eb_window_end b)"

definition blackout_is_active_as_of :: "event_blackout \<Rightarrow> datetime \<Rightarrow> bool res" where
  "blackout_is_active_as_of b as_of =
     bind_res (require_aware ''as_of must be timezone-aware (UTC)'' as_of) (\<lambda>t.
       Inr (at_le (eb_window_start b) t \<and> at_le t (effective_block_end b)))"

definition blackout_rejection_reason_as_of :: "event_blackout \<Rightarrow> datetime \<Rightarrow> reason_code option res" where
  "blackout_rejection_reason_as_of b as_of =
     map_res (\<lambda>act. if act then Some EVENT_BLACKOUT_ACTIVE else None) (blackout_is_active_as_of b as_of)"

record event_blackout_calendar =
  ec_blackouts :: "event_blackout list"

fun blackouts_reason :: "event_blackout list \<Rightarrow> datetime \<Rightarrow> reason_code option res" where
  "blackouts_reason [] as_of = Inr None"
| "blackouts_reason (b # bs) as_of =
     bind_res (blackout_is_active_as_of b as_of) (\<lambda>active.
       if active then Inr (Some EVENT_BLACKOUT_ACTIVE) else blackouts_reason bs as_of)"

definition active_reason_as_of :: "event_blackout_calendar \<Rightarrow> datetime \<Rightarrow> reason_code option res" where
  "active_reason_as_of c as_of = blackouts_reason (ec_blackouts c) as_of"

definition entries_allowed_as_of :: "event_blackout_calendar \<Rightarrow> datetime \<Rightarrow> bool res" where
  "entries_allowed_as_of c as_of = map_res (\<lambda>r. r = None) (active_reason_as_of c as_of)"

definition wf_event_blackout_calendar :: "event_blackout_calendar \<Rightarrow> bool" where
  [wf_defs]: "wf_event_blackout_calendar c \<longleftrightarrow> list_all wf_event_blackout (ec_blackouts c)"

section \<open>Broker data freshness\<close>

definition MAX_QUOTE_AGE_MS_NORMAL :: int where "MAX_QUOTE_AGE_MS_NORMAL = 1000"

definition MAX_QUOTE_AGE_MS_0DTE_AFTER_2PM_CT :: int where "MAX_QUOTE_AGE_MS_0DTE_AFTER_2PM_CT = 500"

definition MAX_UNDERLYING_PRICE_AGE_MS :: int where "MAX_UNDERLYING_PRICE_AGE_MS = 500"

definition MAX_VIX_AGE_MS :: int where "MAX_VIX_AGE_MS = 5000"

definition MAX_IV_RANK_AGE_MS :: int where "MAX_IV_RANK_AGE_MS = 10000"

record broker_data_snapshot =
  ds_option_quote_ts :: aware
  ds_underlying_price_ts :: aware
  ds_vix_ts :: aware
  ds_iv_rank_ts :: aware
  ds_iv_rank_inputs_fresh :: bool
  ds_iv_rank_value :: decimal

definition wf_broker_data_snapshot :: "broker_data_snapshot \<Rightarrow> bool" where
  [wf_defs]: "wf_broker_data_snapshot s \<longleftrightarrow> passes_guards
     [(dval (ds_iv_rank_value s) < 0, ''iv_rank_value''),
      (100 < dval (ds_iv_rank_value s), ''iv_rank_value'')]"

fun any_future :: "aware list \<Rightarrow> datetime \<Rightarrow> bool res" where
  "any_future [] as_of = Inr False"
| "any_future (ts # rest) as_of =
     bind_res (is_future (Aware ts) as_of) (\<lambda>f. if f then Inr True else any_future rest as_of)"

definition freshness_reason ::
  "broker_data_snapshot \<Rightarrow> datetime \<Rightarrow> bool \<Rightarrow> reason_code option res" where
  "freshness_reason s as_of zero_dte_after_2pm_ct =
     bind_res (any_future [ds_option_quote_ts s, ds_underlying_price_ts s, ds_vix_ts s,
                           ds_iv_rank_ts s] as_of) (\<lambda>future.
     if future then Inr (Some DATA_TIMESTAMP_INVALID)
     else
       let quote_limit = (if zero_dte_after_2pm_ct then MAX_QUOTE_AGE_MS_0DTE_AFTER_2PM_CT
                          else MAX_QUOTE_AGE_MS_NORMAL)
       in
       bind_res (age_ms (Aware (ds_option_quote_ts s)) as_of) (\<lambda>q.
       if quote_limit < q then Inr (Some PRICE_STALE) else
       bind_res (age_ms (Aware (ds_underlying_price_ts s)) as_of) (\<lambda>u.
       if MAX_UNDERLYING_PRICE_AGE_MS < u then Inr (Some PRICE_STALE) else
       bind_res (age_ms (Aware (ds_vix_ts s)) as_of) (\<lambda>v.
       if MAX_VIX_AGE_MS < v then Inr (Some IVR_STALE) else
       bind_res (age_ms (Aware (ds_iv_rank_ts s)) as_of) (\<lambda>i.
       if MAX_IV_RANK_AGE_MS < i then Inr (Some IVR_STALE) else
       if \<not> ds_iv_rank_inputs_fresh s then Inr (Some IVR_STALE) else Inr None)))))"

definition is_fresh :: "broker_data_snapshot \<Rightarrow> datetime \<Rightarrow> bool \<Rightarrow> bool res" where
  "is_fresh s as_of z = map_res (\<lambda>r. r = None) (freshness_reason s as_of z)"

section \<open>Liquidity and execution quality\<close>

definition MAX_BID_ASK_WIDTH_USD :: rat where "MAX_BID_ASK_WIDTH_USD = 10 / 100"

definition MAX_BID_ASK_WIDTH_PCT_MID :: rat where "MAX_BID_ASK_WIDTH_PCT_MID = 150 / 10"

definition MIN_BID_USD :: rat where "MIN_BID_USD = 5 / 100"

definition MIN_OPEN_INTEREST :: int where "MIN_OPEN_INTEREST = 100"

definition MIN_TOP_OF_BOOK_SIZE :: int where "MIN_TOP_OF_BOOK_SIZE = 5"

definition MAX_SLIPPAGE_VS_MID_USD :: rat where "MAX_SLIPPAGE_VS_MID_USD = 5 / 100"

definition MAX_FAILED_FILL_ATTEMPTS :: int where "MAX_FAILED_FILL_ATTEMPTS = 3"

definition ROLLING_WINDOW_TRADES :: int where "ROLLING_WINDOW_TRADES = 20"

record liquidity_gate =
  lg_bid :: decimal
  lg_ask :: decimal
  lg_open_interest :: int
  lg_top_of_book_size :: int

definition liquidity_gate_guards :: "liquidity_gate \<Rightarrow> (bool \<times> string) list" where
  "liquidity_gate_guards l =
     [(dval (lg_bid l) < 0, ''bid''),
      (dval (lg_ask l) \<le> 0, ''ask''),
      (lg_open_interest l < 0, ''open_interest''),
      (lg_top_of_book_size l < 0, ''top_of_book_size''),
      (dval (lg_ask l) < dval (lg_bid l), ''inverted market'')]"

definition wf_liquidity_gate :: "liquidity_gate \<Rightarrow> bool" where
  [wf_defs]: "wf_liquidity_gate l \<longleftrightarrow> passes_guards (liquidity_gate_guards l)"

definition mid :: "liquidity_gate \<Rightarrow> rat" where
  "mid l = dec_div (dec_add (dval (lg_bid l)) (dval (lg_ask l))) 2"

definition width_usd :: "liquidity_gate \<Rightarrow> rat" where
  "width_usd l = dec_sub (dval (lg_ask l)) (dval (lg_bid l))"

text \<open>\<open>None\<close> stands for \<open>Decimal("Infinity")\<close>.\<close>

definition width_pct_mid :: "liquidity_gate \<Rightarrow> rat option" where
  "width_pct_mid l = (if mid l = 0 then None else Some (dec_mul (dec_div (width_usd l) (mid l)) 100))"

definition liquidity_passes :: "liquidity_gate \<Rightarrow> bool" where
  "liquidity_passes l \<longleftrightarrow>
     width_usd l \<le> MAX_BID_ASK_WIDTH_USD \<and>
     (case width_pct_mid l of None \<Rightarrow> False | Some w \<Rightarrow> w \<le> MAX_BID_ASK_WIDTH_PCT_MID) \<and>
     MIN_BID_USD \<le> dval (lg_bid l) \<and>
     MIN_OPEN_INTEREST \<le> lg_open_interest l \<and>
     MIN_TOP_OF_BOOK_SIZE \<le> lg_top_of_book_size l"

definition liquidity_rejection_reason :: "liquidity_gate \<Rightarrow> reason_code option" where
  "liquidity_rejection_reason l = (if liquidity_passes l then None else Some LIQUIDITY_GATE_FAILED)"

record execution_quality_rearm_token =
  rt_broker_fill_report_reviewed :: bool
  rt_review_artifact_id :: string

definition wf_execution_quality_rearm_token :: "execution_quality_rearm_token \<Rightarrow> bool" where
  [wf_defs]: "wf_execution_quality_rearm_token t \<longleftrightarrow> passes_guards
     [(rt_review_artifact_id t = [], ''review_artifact_id''),
      (\<not> rt_broker_fill_report_reviewed t,
       ''execution-quality re-arm requires broker_fill_report_reviewed=True'')]"

record execution_quality_state =
  eq_rolling_avg_slippage_usd :: decimal
  eq_failed_fill_attempts :: int
  eq_trades_in_window :: int
  eq_rearm_token :: "execution_quality_rearm_token option"

definition wf_execution_quality_state :: "execution_quality_state \<Rightarrow> bool" where
  [wf_defs]: "wf_execution_quality_state e \<longleftrightarrow>
     passes_guards
       [(dval (eq_rolling_avg_slippage_usd e) < 0, ''rolling_avg_slippage_usd''),
        (eq_failed_fill_attempts e < 0, ''failed_fill_attempts''),
        (eq_trades_in_window e < 0, ''trades_in_window'')] \<and>
     (case eq_rearm_token e of None \<Rightarrow> True | Some t \<Rightarrow> wf_execution_quality_rearm_token t)"

definition should_suspend :: "execution_quality_state \<Rightarrow> bool" where
  "should_suspend e \<longleftrightarrow>
     MAX_SLIPPAGE_VS_MID_USD < dval (eq_rolling_avg_slippage_usd e) \<or>
     MAX_FAILED_FILL_ATTEMPTS < eq_failed_fill_attempts e"

definition suspended :: "execution_quality_state \<Rightarrow> bool" where
  "suspended e \<longleftrightarrow> should_suspend e \<and> eq_rearm_token e = None"

definition quality_rejection_reason :: "execution_quality_state \<Rightarrow> reason_code option" where
  "quality_rejection_reason e = (if suspended e then Some EXECUTION_QUALITY_SUSPENDED else None)"

section \<open>Concentration limits\<close>

definition MAX_CONCURRENT_SPREADS_TOTAL :: int where "MAX_CONCURRENT_SPREADS_TOTAL = 4"

definition MAX_OPEN_SPREADS_SAME_EXPIRY :: int where "MAX_OPEN_SPREADS_SAME_EXPIRY = 2"

definition MAX_SAME_DIRECTION_SPREADS :: int where "MAX_SAME_DIRECTION_SPREADS = 2"

definition ZERO_DTE_MAX_CONCURRENT_SPREADS :: int where "ZERO_DTE_MAX_CONCURRENT_SPREADS = 2"

definition ZERO_DTE_MAX_SAME_DIRECTION_SPREADS :: int where "ZERO_DTE_MAX_SAME_DIRECTION_SPREADS = 1"

definition MAX_AGGREGATE_SHORT_DELTA_ABS :: rat where "MAX_AGGREGATE_SHORT_DELTA_ABS = 30 / 100"

definition MAX_AGGREGATE_GAMMA_NOTIONAL_PCT_EQUITY :: rat where
  "MAX_AGGREGATE_GAMMA_NOTIONAL_PCT_EQUITY = 20 / 10"

record concentration_snapshot =
  cn_concurrent_spreads_total :: int
  cn_open_spreads_same_expiry :: int
  cn_same_direction_spreads :: int
  cn_is_zero_dte :: bool
  cn_zero_dte_concurrent_spreads :: int
  cn_zero_dte_same_direction_spreads :: int
  cn_aggregate_short_delta_abs :: decimal
  cn_aggregate_gamma_notional_pct_equity :: decimal

definition wf_concentration_snapshot :: "concentration_snapshot \<Rightarrow> bool" where
  [wf_defs]: "wf_concentration_snapshot c \<longleftrightarrow> passes_guards
     [(cn_concurrent_spreads_total c < 0, ''concurrent_spreads_total''),
      (cn_open_spreads_same_expiry c < 0, ''open_spreads_same_expiry''),
      (cn_same_direction_spreads c < 0, ''same_direction_spreads''),
      (cn_zero_dte_concurrent_spreads c < 0, ''zero_dte_concurrent_spreads''),
      (cn_zero_dte_same_direction_spreads c < 0, ''zero_dte_same_direction_spreads''),
      (dval (cn_aggregate_short_delta_abs c) < 0, ''aggregate_short_delta_abs''),
      (dval (cn_aggregate_gamma_notional_pct_equity c) < 0, ''aggregate_gamma_notional_pct_equity'')]"

definition concentration_passes :: "concentration_snapshot \<Rightarrow> bool" where
  "concentration_passes c \<longleftrightarrow>
     (let base_ok =
        (cn_concurrent_spreads_total c \<le> MAX_CONCURRENT_SPREADS_TOTAL \<and>
         cn_open_spreads_same_expiry c \<le> MAX_OPEN_SPREADS_SAME_EXPIRY \<and>
         cn_same_direction_spreads c \<le> MAX_SAME_DIRECTION_SPREADS \<and>
         dval (cn_aggregate_short_delta_abs c) \<le> MAX_AGGREGATE_SHORT_DELTA_ABS \<and>
         dval (cn_aggregate_gamma_notional_pct_equity c) \<le> MAX_AGGREGATE_GAMMA_NOTIONAL_PCT_EQUITY)
      in if \<not> cn_is_zero_dte c then base_ok
         else base_ok \<and>
           cn_zero_dte_concurrent_spreads c \<le> ZERO_DTE_MAX_CONCURRENT_SPREADS \<and>
           cn_zero_dte_same_direction_spreads c \<le> ZERO_DTE_MAX_SAME_DIRECTION_SPREADS)"

definition concentration_rejection_reason :: "concentration_snapshot \<Rightarrow> reason_code option" where
  "concentration_rejection_reason c =
     (if concentration_passes c then None else Some CONCENTRATION_LIMIT_EXCEEDED)"

section \<open>Protection hierarchy\<close>

record protection_state =
  ps_long_leg_confirmed :: bool
  ps_broker_native_stop_present :: bool
  ps_agent_managed_stop_only :: bool
  ps_is_emergency_close :: bool

definition wf_protection_state :: "protection_state \<Rightarrow> bool" where
  [wf_defs]: "wf_protection_state p \<longleftrightarrow> passes_guards
     [(ps_agent_managed_stop_only p \<and> \<not> ps_long_leg_confirmed p \<and> \<not> ps_is_emergency_close p,
       ''agent-managed-stop-only without a confirmed long leg is forbidden'')]"

definition is_protected :: "protection_state \<Rightarrow> bool" where
  "is_protected p \<longleftrightarrow> ps_long_leg_confirmed p"

definition protection_rejection_reason :: "protection_state \<Rightarrow> reason_code option" where
  "protection_rejection_reason p =
     (if ps_is_emergency_close p then None
      else if \<not> ps_long_leg_confirmed p then Some PROTECTION_HIERARCHY_VIOLATION
      else if ps_agent_managed_stop_only p then Some PROTECTION_HIERARCHY_VIOLATION
      else None)"

record multi_leg_plan =
  ml_broker_confirms_atomic_combo :: bool
  ml_legging :: bool
  ml_long_leg_first :: bool

definition wf_multi_leg_plan :: "multi_leg_plan \<Rightarrow> bool" where
  [wf_defs]: "wf_multi_leg_plan m \<longleftrightarrow> passes_guards
     [(\<not> ml_broker_confirms_atomic_combo m \<and> ml_legging m \<and> \<not> ml_long_leg_first m,
       ''legging a non-atomic combo requires long_leg_first=True'')]"

definition multi_leg_rejection_reason :: "multi_leg_plan \<Rightarrow> reason_code option" where
  "multi_leg_rejection_reason m =
     (if \<not> ml_broker_confirms_atomic_combo m \<and> ml_legging m \<and> \<not> ml_long_leg_first m
      then Some PROTECTION_HIERARCHY_VIOLATION else None)"

section \<open>Approval policy\<close>

record approval_policy =
  pol_is_money_movement :: bool
  pol_is_strategy_promotion :: bool
  pol_requires_human_rearm :: bool
  pol_risk_payload_clean :: bool

definition human_required :: "approval_policy \<Rightarrow> bool" where
  "human_required p \<longleftrightarrow>
     pol_is_money_movement p \<or> pol_is_strategy_promotion p \<or> pol_requires_human_rearm p \<or>
     \<not> pol_risk_payload_clean p"

definition policy_rejection_reason :: "approval_policy \<Rightarrow> reason_code option" where
  "policy_rejection_reason p =
     (if pol_requires_human_rearm p then Some HUMAN_REARM_REQUIRED
      else if pol_is_strategy_promotion p then Some STRATEGY_NOT_LIVE_APPROVED
      else None)"

definition approval_policy_guards :: "approval_policy \<Rightarrow> (bool \<times> string) list" where
  "approval_policy_guards p =
     [(pol_is_money_movement p \<and> \<not> human_required p, ''money movement must always be human_required'')]"

section \<open>Strategy gate\<close>

record strategy_promotion_requirements =
  pr_fill_quality_verified :: bool
  pr_forced_exit_drill_passed :: bool
  pr_no_gamma_hot_path_llm_management :: bool
  pr_paper_trading_sessions_completed :: int
  pr_paper_trading_minimum_sessions :: int
  pr_human_approval :: bool

definition all_satisfied :: "strategy_promotion_requirements \<Rightarrow> bool" where
  "all_satisfied r \<longleftrightarrow>
     pr_fill_quality_verified r \<and> pr_forced_exit_drill_passed r \<and>
     pr_no_gamma_hot_path_llm_management r \<and>
     pr_paper_trading_minimum_sessions r \<le> pr_paper_trading_sessions_completed r \<and>
     pr_human_approval r"

record strategy_gate =
  sg_name :: strategy_name
  sg_stage :: strategy_stage
  sg_iv_rank_min :: decimal
  sg_dte_min :: int
  sg_dte_max :: int
  sg_first_live_candidate :: bool
  sg_promotion :: strategy_promotion_requirements
  sg_human_live_amendment :: bool

definition strategy_gate_guards :: "strategy_gate \<Rightarrow> (bool \<times> string) list" where
  "strategy_gate_guards g =
     [(dval (sg_iv_rank_min g) < 0, ''iv_rank_min''),
      (100 < dval (sg_iv_rank_min g), ''iv_rank_min''),
      (sg_dte_min g < 0, ''dte_min''),
      (sg_dte_max g < 0, ''dte_max''),
      (sg_dte_max g < sg_dte_min g, ''dte_min cannot exceed dte_max''),
      (sg_name g = ZERO_DTE_TIME_DECAY \<and> sg_first_live_candidate g,
       ''zero_dte_time_decay may not be a first_live_candidate''),
      (sg_name g = ZERO_DTE_TIME_DECAY \<and> sg_stage g = strategy_stage.LIVE \<and>
         \<not> sg_human_live_amendment g,
       ''zero_dte_time_decay cannot be LIVE without an explicit human_live_amendment''),
      (sg_first_live_candidate g \<and> sg_stage g = strategy_stage.LIVE \<and>
         \<not> all_satisfied (sg_promotion g),
       ''first_live_candidate at LIVE stage requires all promotion requirements'')]"

definition wf_strategy_promotion_requirements :: "strategy_promotion_requirements \<Rightarrow> bool" where
  [wf_defs]: "wf_strategy_promotion_requirements r \<longleftrightarrow> passes_guards
     [(pr_paper_trading_sessions_completed r < 0, ''paper_trading_sessions_completed''),
      (pr_paper_trading_minimum_sessions r < 0, ''paper_trading_minimum_sessions'')]"

definition wf_strategy_gate :: "strategy_gate \<Rightarrow> bool" where
  [wf_defs]: "wf_strategy_gate g \<longleftrightarrow>
     passes_guards (strategy_gate_guards g) \<and> wf_strategy_promotion_requirements (sg_promotion g)"

definition live_eligible :: "strategy_gate \<Rightarrow> bool" where
  "live_eligible g \<longleftrightarrow> sg_stage g = strategy_stage.LIVE \<and> all_satisfied (sg_promotion g)"

definition gate_rejection_reason_if_not_live :: "strategy_gate \<Rightarrow> reason_code option" where
  "gate_rejection_reason_if_not_live g =
     (if live_eligible g then None else Some STRATEGY_NOT_LIVE_APPROVED)"

definition iv_rank_satisfied :: "strategy_gate \<Rightarrow> decimal \<Rightarrow> bool" where
  "iv_rank_satisfied g observed \<longleftrightarrow> dval (sg_iv_rank_min g) \<le> dval observed"

definition dte_allowed :: "strategy_gate \<Rightarrow> int \<Rightarrow> bool" where
  "dte_allowed g dte \<longleftrightarrow> sg_dte_min g \<le> dte \<and> dte \<le> sg_dte_max g"

section \<open>Promotion drills and human-required events\<close>

record promotion_drill_result =
  pd_drill :: promotion_drill
  pd_ran_at :: aware
  pd_system_halts_new_orders :: bool
  pd_working_orders_cancel_or_native_managed :: bool
  pd_human_required_event_emitted :: bool
  pd_audit_artifact_created :: bool

definition drill_passed :: "promotion_drill_result \<Rightarrow> bool" where
  "drill_passed d \<longleftrightarrow>
     pd_system_halts_new_orders d \<and> pd_working_orders_cancel_or_native_managed d \<and>
     pd_human_required_event_emitted d \<and> pd_audit_artifact_created d"

record human_required_event =
  hr_kind :: human_required_kind
  hr_reason_code :: reason_code
  hr_created_at :: aware
  hr_audit_artifact_id :: string
  hr_resolved :: bool

definition wf_human_required_event :: "human_required_event \<Rightarrow> bool" where
  [wf_defs]: "wf_human_required_event e \<longleftrightarrow>
     passes_guards [(hr_audit_artifact_id e = [], ''audit_artifact_id'')]"

record daily_rationale =
  dr_date :: aware
  dr_summary :: string
  dr_referenced_audit_artifact_ids :: "string list"

definition wf_daily_rationale :: "daily_rationale \<Rightarrow> bool" where
  [wf_defs]: "wf_daily_rationale r \<longleftrightarrow> passes_guards [(dr_summary r = [], ''summary'')]"

section \<open>Lemmas on the policy and the calendar\<close>

lemma permission_reason_Aware:
  "permission_reason p u (Aware t) = Inr (
     if at_us (up_effective_at p) \<le> at_us t \<and>
        (\<forall>e. up_expires_at p = Some e \<longrightarrow> at_us t \<le> at_us e) \<and>
        (case u of underlying.XSP \<Rightarrow> up_xsp_enabled p | underlying.SPX \<Rightarrow> up_spx_phase_2_enabled p)
     then None else Some INSTRUMENT_NOT_PERMITTED)"
  by (auto simp: permission_reason_def policy_is_active_as_of_def at_defs
      split: option.splits underlying.splits)

lemma spx_needs_human:
  assumes "wf_allowed_underlying_policy p" and "permission_reason p underlying.SPX d = Inr None"
  shows "up_source p = HUMAN_APPROVED_CONFIG" "truthy (up_approved_by p)"
  using assms by (cases d; auto simp: wf_allowed_underlying_policy_def allowed_underlying_policy_guards_def
      permission_reason_def bind_res_eq_Inr split: if_splits)+

lemma active_reason_as_of_Aware:
  "active_reason_as_of c (Aware t) = Inr (
     if \<exists>b\<in>set (ec_blackouts c).
          at_us (eb_window_start b) \<le> at_us t \<and> at_us t \<le> at_us (effective_block_end b)
     then Some EVENT_BLACKOUT_ACTIVE else None)"
proof -
  have "blackouts_reason bs (Aware t) = Inr (
     if \<exists>b\<in>set bs. at_us (eb_window_start b) \<le> at_us t \<and> at_us t \<le> at_us (effective_block_end b)
     then Some EVENT_BLACKOUT_ACTIVE else None)" for bs
    by (induction bs) (auto simp: blackout_is_active_as_of_def at_defs)
  then show ?thesis by (simp add: active_reason_as_of_def)
qed

lemma effective_block_end_extends: "at_us (eb_window_end b) \<le> at_us (effective_block_end b)"
  by (auto simp: effective_block_end_def POST_RELEASE_BLOCK_MIN_def FED_SPEECH_TRAILING_MIN_def
      us_per_min_def split: option.splits)

section \<open>Lemmas on freshness\<close>

definition elapsed :: "aware \<Rightarrow> aware \<Rightarrow> int" where
  "elapsed ts as_of = at_us as_of - at_us ts"

lemma any_future_Aware:
  "any_future ts (Aware n) = Inr (\<exists>t\<in>set ts. at_us n < at_us t)"
  by (induction ts) auto

lemma freshness_reason_total: "\<exists>r. freshness_reason s (Aware n) z = Inr r"
  by (auto simp: freshness_reason_def any_future_Aware age_ms_past Let_def)

lemma freshness_reason_None_iff:
  "freshness_reason s (Aware n) z = Inr None \<longleftrightarrow>
     (\<forall>t\<in>{ds_option_quote_ts s, ds_underlying_price_ts s, ds_vix_ts s, ds_iv_rank_ts s}.
        0 \<le> elapsed t n) \<and>
     elapsed_ms (elapsed (ds_option_quote_ts s) n) \<le> (if z then 500 else 1000) \<and>
     elapsed_ms (elapsed (ds_underlying_price_ts s) n) \<le> 500 \<and>
     elapsed_ms (elapsed (ds_vix_ts s) n) \<le> 5000 \<and>
     elapsed_ms (elapsed (ds_iv_rank_ts s) n) \<le> 10000 \<and> ds_iv_rank_inputs_fresh s"
proof (cases "\<exists>t\<in>set [ds_option_quote_ts s, ds_underlying_price_ts s, ds_vix_ts s, ds_iv_rank_ts s].
                at_us n < at_us t")
  case True
  then show ?thesis
    by (auto simp: freshness_reason_def any_future_Aware elapsed_def)
next
  case False
  then show ?thesis
    by (simp add: freshness_reason_def any_future_Aware elapsed_def age_ms_past Let_def not_less
        MAX_QUOTE_AGE_MS_NORMAL_def MAX_QUOTE_AGE_MS_0DTE_AFTER_2PM_CT_def
        MAX_UNDERLYING_PRICE_AGE_MS_def MAX_VIX_AGE_MS_def MAX_IV_RANK_AGE_MS_def)
qed

section \<open>Lemmas on liquidity\<close>

lemma mid_pos: "wf_liquidity_gate l \<Longrightarrow> 0 < mid l"
  by (auto simp: wf_liquidity_gate_def liquidity_gate_guards_def mid_def dec_div_def dec_add_def
      intro!: dec.rd_pos divide_pos_pos add_nonneg_pos)

lemma width_pct_mid_Some:
  "wf_liquidity_gate l \<Longrightarrow> width_pct_mid l = Some (dec_mul (dec_div (width_usd l) (mid l)) 100)"
  using mid_pos [of l] by (simp add: width_pct_mid_def)

end
