(* ===== verification/Capabilities.thy ===== *)
theory Capabilities
  imports SafetyState
begin

text \<open>
  The three capability tokens of the live path and the state they are minted from: portfolio heat
  (\<open>schemas/portfolio_heat.py\<close>), secondary-feed certification
  (\<open>schemas/secondary_feed_certification.py\<close>) and strategy stage
  (\<open>schemas/strategy_stage.py\<close>), with the price check that takes a feed token
  (\<open>schemas/price_reconciliation.py\<close>) and the aggregate risk verdict
  (\<open>schemas/risk_payload.py\<close>). The contract that the gateway relies on, namely that the
  gate and the mint agree, is the locale \<open>capability_token\<close>; each of the three sources
  is an interpretation of it.
\<close>

section \<open>The contract of a capability token\<close>

text \<open>\<open>cleared s\<close>: the gate over the state \<open>s\<close> reports no reason code;
  \<open>mint s\<close>: the call that builds the token; \<open>granted s t\<close>: what the token
  certifies of the state it came from.\<close>

locale capability_token =
  fixes wf :: "'s \<Rightarrow> bool"
    and cleared :: "'s \<Rightarrow> bool"
    and mint :: "'s \<Rightarrow> 't res"
    and granted :: "'s \<Rightarrow> 't \<Rightarrow> bool"
  assumes mint_cleared: "wf s \<Longrightarrow> cleared s \<Longrightarrow> is_ok (mint s)"
    and mint_refused: "\<not> cleared s \<Longrightarrow> \<not> is_ok (mint s)"
    and mint_grants: "wf s \<Longrightarrow> mint s = Inr t \<Longrightarrow> granted s t"
begin

lemma mint_iff_cleared: "wf s \<Longrightarrow> is_ok (mint s) \<longleftrightarrow> cleared s"
  using mint_cleared mint_refused by blast

lemma mint_Inr_cleared: "mint s = Inr t \<Longrightarrow> cleared s"
  using mint_refused [of s] by auto

lemma cleared_obtains:
  assumes "wf s" and "cleared s"
  obtains t where "mint s = Inr t" and "granted s t"
  using mint_cleared [OF assms] mint_grants [OF assms(1)] by (auto simp: is_ok_iff)

end

section \<open>Portfolio heat\<close>

definition RISK_HEAT_CAP_PCT :: rat where "RISK_HEAT_CAP_PCT = 6"

definition BUYING_POWER_HEAT_CAP_PCT :: rat where "BUYING_POWER_HEAT_CAP_PCT = 35"

record portfolio_heat_check =
  ph_sum_defined_max_loss :: decimal
  ph_broker_margin_requirement :: decimal
  ph_net_liquidating_value :: decimal

definition wf_portfolio_heat_check :: "portfolio_heat_check \<Rightarrow> bool" where
  [wf_defs]: "wf_portfolio_heat_check h \<longleftrightarrow> passes_guards
     [(dval (ph_sum_defined_max_loss h) < 0, ''sum_defined_max_loss''),
      (dval (ph_broker_margin_requirement h) < 0, ''broker_margin_requirement''),
      (dval (ph_net_liquidating_value h) \<le> 0, ''net_liquidating_value'')]"

definition risk_heat_pct :: "portfolio_heat_check \<Rightarrow> rat" where
  "risk_heat_pct h =
     dec_mul (dec_div (dval (ph_sum_defined_max_loss h)) (dval (ph_net_liquidating_value h))) 100"

definition buying_power_heat_pct :: "portfolio_heat_check \<Rightarrow> rat" where
  "buying_power_heat_pct h =
     dec_mul (dec_div (dval (ph_broker_margin_requirement h)) (dval (ph_net_liquidating_value h))) 100"

definition risk_heat_ok :: "portfolio_heat_check \<Rightarrow> bool" where
  "risk_heat_ok h \<longleftrightarrow> risk_heat_pct h \<le> RISK_HEAT_CAP_PCT"

definition buying_power_heat_ok :: "portfolio_heat_check \<Rightarrow> bool" where
  "buying_power_heat_ok h \<longleftrightarrow> buying_power_heat_pct h \<le> BUYING_POWER_HEAT_CAP_PCT"

definition heat_passes :: "portfolio_heat_check \<Rightarrow> bool" where
  "heat_passes h \<longleftrightarrow> risk_heat_ok h \<and> buying_power_heat_ok h"

definition heat_rejection_reason :: "portfolio_heat_check \<Rightarrow> reason_code option" where
  "heat_rejection_reason h =
     (if \<not> risk_heat_ok h then Some HEAT_LIMIT_EXCEEDED
      else if \<not> buying_power_heat_ok h then Some BUYING_POWER_LIMIT_EXCEEDED
      else None)"

text \<open>The fields of the approval token are computed decimals, kept by value.\<close>

record approved_portfolio_heat =
  ah_risk_heat_pct :: rat
  ah_buying_power_heat_pct :: rat

definition approved_portfolio_heat_guards :: "approved_portfolio_heat \<Rightarrow> (bool \<times> string) list" where
  "approved_portfolio_heat_guards t =
     [(ah_risk_heat_pct t < 0, ''risk_heat_pct''),
      (ah_buying_power_heat_pct t < 0, ''buying_power_heat_pct''),
      (RISK_HEAT_CAP_PCT < ah_risk_heat_pct t, ''risk_heat_pct exceeds cap''),
      (BUYING_POWER_HEAT_CAP_PCT < ah_buying_power_heat_pct t, ''buying_power_heat_pct exceeds cap'')]"

definition mk_approved_portfolio_heat :: "approved_portfolio_heat \<Rightarrow> approved_portfolio_heat res" where
  "mk_approved_portfolio_heat t = construct (approved_portfolio_heat_guards t) t"

definition wf_approved_portfolio_heat :: "approved_portfolio_heat \<Rightarrow> bool" where
  [wf_defs]: "wf_approved_portfolio_heat t \<longleftrightarrow> passes_guards (approved_portfolio_heat_guards t)"

definition approve :: "portfolio_heat_check \<Rightarrow> approved_portfolio_heat res" where
  "approve h =
     (if \<not> heat_passes h then Inl (ValueError ''portfolio heat over cap'')
      else mk_approved_portfolio_heat
        \<lparr>ah_risk_heat_pct = risk_heat_pct h, ah_buying_power_heat_pct = buying_power_heat_pct h\<rparr>)"

section \<open>Secondary-feed certification\<close>

definition CERTIFICATION_VALID_DAYS :: int where "CERTIFICATION_VALID_DAYS = 30"

definition RECERTIFICATION_TRIGGERS :: "string list" where
  "RECERTIFICATION_TRIGGERS =
     [''broker_api_change'', ''data_provider_api_change'', ''symbol_mapping_change'',
      ''observed_latency_breach'', ''missing_contract_event'', ''new_underlying_added'']"

record feed_coverage_status =
  fc_covers_xsp :: bool
  fc_covers_spx :: bool
  fc_symbol_mapping_consistent :: bool

record feed_latency_check =
  fl_option_quote_latency_ms :: int
  fl_underlying_quote_latency_ms :: int
  fl_option_latency_threshold_ms :: int
  fl_underlying_latency_threshold_ms :: int

definition wf_feed_latency_check :: "feed_latency_check \<Rightarrow> bool" where
  [wf_defs]: "wf_feed_latency_check l \<longleftrightarrow> passes_guards
     [(fl_option_quote_latency_ms l < 0, ''option_quote_latency_ms''),
      (fl_underlying_quote_latency_ms l < 0, ''underlying_quote_latency_ms''),
      (fl_option_latency_threshold_ms l \<le> 0, ''option_latency_threshold_ms''),
      (fl_underlying_latency_threshold_ms l \<le> 0, ''underlying_latency_threshold_ms'')]"

definition within_thresholds :: "feed_latency_check \<Rightarrow> bool" where
  "within_thresholds l \<longleftrightarrow>
     fl_option_quote_latency_ms l \<le> fl_option_latency_threshold_ms l \<and>
     fl_underlying_quote_latency_ms l \<le> fl_underlying_latency_threshold_ms l"

record secondary_feed_certification =
  sf_feed :: feed_provider
  sf_status :: certification_status
  sf_certified_at :: aware
  sf_coverage :: feed_coverage_status
  sf_latency :: feed_latency_check
  sf_pending_recertification_triggers :: "string list"

definition secondary_feed_certification_guards ::
  "secondary_feed_certification \<Rightarrow> (bool \<times> string) list" where
  "secondary_feed_certification_guards c =
     [(sf_pending_recertification_triggers c \<noteq> [] \<and> sf_status c = CERTIFIED,
       ''pending recertification triggers are incompatible with CERTIFIED status''),
      (\<not> list_all (\<lambda>t. t \<in> set RECERTIFICATION_TRIGGERS) (sf_pending_recertification_triggers c),
       ''unknown recertification trigger'')]"

definition wf_secondary_feed_certification :: "secondary_feed_certification \<Rightarrow> bool" where
  [wf_defs]: "wf_secondary_feed_certification c \<longleftrightarrow>
     passes_guards (secondary_feed_certification_guards c) \<and> wf_feed_latency_check (sf_latency c)"

definition sf_expires_at :: "secondary_feed_certification \<Rightarrow> aware" where
  "sf_expires_at c = at_plus (sf_certified_at c) (CERTIFICATION_VALID_DAYS * us_per_day)"

definition is_expired_as_of :: "secondary_feed_certification \<Rightarrow> datetime \<Rightarrow> bool res" where
  "is_expired_as_of c as_of =
     bind_res (require_aware ''as_of must be timezone-aware (UTC)'' as_of) (\<lambda>t.
       Inr (at_lt (sf_expires_at c) t))"

definition is_valid_for_live_as_of ::
  "secondary_feed_certification \<Rightarrow> datetime \<Rightarrow> bool \<Rightarrow> bool res" where
  "is_valid_for_live_as_of c as_of require_spx =
     bind_res (require_aware ''as_of must be timezone-aware (UTC)'' as_of) (\<lambda>t.
       let coverage_ok0 = (fc_covers_xsp (sf_coverage c) \<and> fc_symbol_mapping_consistent (sf_coverage c));
           coverage_ok = (if require_spx then coverage_ok0 \<and> fc_covers_spx (sf_coverage c)
                          else coverage_ok0)
       in
       if sf_status c \<noteq> CERTIFIED then Inr False
       else bind_res (is_expired_as_of c as_of) (\<lambda>expired.
         Inr (\<not> expired \<and> sf_pending_recertification_triggers c = [] \<and>
              within_thresholds (sf_latency c) \<and> coverage_ok)))"

definition feed_rejection_reason_as_of ::
  "secondary_feed_certification \<Rightarrow> datetime \<Rightarrow> bool \<Rightarrow> reason_code option res" where
  "feed_rejection_reason_as_of c as_of require_spx =
     map_res (\<lambda>ok. if ok then None else Some reason_code.SECONDARY_FEED_NOT_CERTIFIED)
       (is_valid_for_live_as_of c as_of require_spx)"

record certified_feed_token =
  cf_feed :: feed_provider

definition feed_to_live_token ::
  "secondary_feed_certification \<Rightarrow> datetime \<Rightarrow> bool \<Rightarrow> certified_feed_token res" where
  "feed_to_live_token c as_of require_spx =
     bind_res (is_valid_for_live_as_of c as_of require_spx) (\<lambda>ok.
       if \<not> ok then Inl (ValueError ''feed not valid for live'') else Inr \<lparr>cf_feed = sf_feed c\<rparr>)"

section \<open>Strategy stage\<close>

record strategy_stage_state =
  ss_stage :: strategy_stage

definition is_live :: "strategy_stage_state \<Rightarrow> bool" where
  "is_live s \<longleftrightarrow> ss_stage s = strategy_stage.LIVE"

definition stage_rejection_reason_if_not_live :: "strategy_stage_state \<Rightarrow> reason_code option" where
  "stage_rejection_reason_if_not_live s = (if is_live s then None else Some STRATEGY_NOT_LIVE_APPROVED)"

record live_strategy_token =
  lt_stage :: strategy_stage

definition live_strategy_token_guards :: "live_strategy_token \<Rightarrow> (bool \<times> string) list" where
  "live_strategy_token_guards t =
     [(lt_stage t \<noteq> strategy_stage.LIVE, ''LiveStrategyToken requires stage=LIVE'')]"

definition mk_live_strategy_token :: "live_strategy_token \<Rightarrow> live_strategy_token res" where
  "mk_live_strategy_token t = construct (live_strategy_token_guards t) t"

definition wf_live_strategy_token :: "live_strategy_token \<Rightarrow> bool" where
  [wf_defs]: "wf_live_strategy_token t \<longleftrightarrow> passes_guards (live_strategy_token_guards t)"

definition stage_to_live_token :: "strategy_stage_state \<Rightarrow> live_strategy_token res" where
  "stage_to_live_token s = mk_live_strategy_token \<lparr>lt_stage = ss_stage s\<rparr>"

section \<open>Price reconciliation\<close>

definition MAX_OPTION_MID_DIVERGENCE_PCT :: rat where "MAX_OPTION_MID_DIVERGENCE_PCT = 20 / 10"

definition MAX_OPTION_MID_DIVERGENCE_USD :: rat where "MAX_OPTION_MID_DIVERGENCE_USD = 3 / 100"

definition MAX_UNDERLYING_DIVERGENCE_PCT :: rat where "MAX_UNDERLYING_DIVERGENCE_PCT = 25 / 100"

record price_reconciliation_check =
  pc_broker_option_mid :: decimal
  pc_secondary_option_mid :: decimal
  pc_broker_underlying :: decimal
  pc_secondary_underlying :: decimal

definition wf_price_reconciliation_check :: "price_reconciliation_check \<Rightarrow> bool" where
  [wf_defs]: "wf_price_reconciliation_check p \<longleftrightarrow> passes_guards
     [(dval (pc_broker_option_mid p) \<le> 0, ''broker_option_mid''),
      (dval (pc_secondary_option_mid p) \<le> 0, ''secondary_option_mid''),
      (dval (pc_broker_underlying p) \<le> 0, ''broker_underlying''),
      (dval (pc_secondary_underlying p) \<le> 0, ''secondary_underlying'')]"

definition option_divergence_usd :: "price_reconciliation_check \<Rightarrow> rat" where
  "option_divergence_usd p =
     dec_abs (dec_sub (dval (pc_broker_option_mid p)) (dval (pc_secondary_option_mid p)))"

definition option_divergence_pct :: "price_reconciliation_check \<Rightarrow> rat" where
  "option_divergence_pct p =
     dec_mul (dec_div (option_divergence_usd p) (dval (pc_broker_option_mid p))) 100"

definition underlying_divergence_pct :: "price_reconciliation_check \<Rightarrow> rat" where
  "underlying_divergence_pct p =
     dec_mul (dec_div (dec_abs (dec_sub (dval (pc_broker_underlying p)) (dval (pc_secondary_underlying p))))
                      (dval (pc_broker_underlying p))) 100"

definition within_tolerance :: "price_reconciliation_check \<Rightarrow> bool" where
  "within_tolerance p \<longleftrightarrow>
     (let option_ok = (option_divergence_pct p \<le> MAX_OPTION_MID_DIVERGENCE_PCT \<and>
                       option_divergence_usd p \<le> MAX_OPTION_MID_DIVERGENCE_USD);
          underlying_ok = (underlying_divergence_pct p \<le> MAX_UNDERLYING_DIVERGENCE_PCT)
      in option_ok \<and> underlying_ok)"

text \<open>The \<open>isinstance\<close> test of \<open>passes_live\<close> is the type of the argument.\<close>

definition passes_live :: "price_reconciliation_check \<Rightarrow> certified_feed_token \<Rightarrow> bool" where
  "passes_live p feed_token \<longleftrightarrow> within_tolerance p"

definition reconciliation_rejection_reason :: "price_reconciliation_check \<Rightarrow> reason_code option" where
  "reconciliation_rejection_reason p =
     (if within_tolerance p then None else Some SECONDARY_FEED_MISMATCH)"

section \<open>Risk payload\<close>

record risk_payload =
  rp_heat :: portfolio_heat_check
  rp_concentration :: concentration_snapshot
  rp_liquidity :: liquidity_gate
  rp_execution_quality :: execution_quality_state

definition risk_payload_rejection_reason :: "risk_payload \<Rightarrow> reason_code option" where
  "risk_payload_rejection_reason r =
     (if \<not> heat_passes (rp_heat r) then heat_rejection_reason (rp_heat r)
      else if \<not> concentration_passes (rp_concentration r) then Some CONCENTRATION_LIMIT_EXCEEDED
      else if \<not> liquidity_passes (rp_liquidity r) then Some LIQUIDITY_GATE_FAILED
      else if suspended (rp_execution_quality r) then Some EXECUTION_QUALITY_SUSPENDED
      else None)"

definition risk_payload_approved :: "risk_payload \<Rightarrow> bool" where
  "risk_payload_approved r \<longleftrightarrow> risk_payload_rejection_reason r = None"

section \<open>Lemmas on heat\<close>

lemma heat_rejection_reason_None: "heat_rejection_reason h = None \<longleftrightarrow> heat_passes h"
  by (simp add: heat_rejection_reason_def heat_passes_def)

lemma pct_nonneg:
  assumes "0 \<le> a" and "0 \<le> b" shows "0 \<le> dec_mul (dec_div a b) 100"
  unfolding dec_mul_def dec_div_def using assms by (intro dec.rd_nonneg mult_nonneg_nonneg) simp_all

lemma heat_pct_nonneg:
  assumes "wf_portfolio_heat_check h"
  shows "0 \<le> risk_heat_pct h" "0 \<le> buying_power_heat_pct h"
  using assms by (simp_all add: wf_portfolio_heat_check_def risk_heat_pct_def buying_power_heat_pct_def pct_nonneg)

lemma approve_Inr:
  assumes "wf_portfolio_heat_check h"
  shows "approve h = Inr t \<longleftrightarrow> heat_passes h \<and>
    t = \<lparr>ah_risk_heat_pct = risk_heat_pct h, ah_buying_power_heat_pct = buying_power_heat_pct h\<rparr>"
  using heat_pct_nonneg [OF assms]
  by (auto simp: approve_def mk_approved_portfolio_heat_def construct_eq_Inr
      approved_portfolio_heat_guards_def heat_passes_def risk_heat_ok_def buying_power_heat_ok_def)

text \<open>The caps in exact arithmetic: the two roundings of a percentage change the bound by a
  relative error below \<open>10 ^ -27\<close>, and an exact ratio within the cap always passes.\<close>

definition slack :: rat where "slack = (1 - 1 / (2 * 10 ^ 27)) ^ 2"

lemma dec_pct_bound:
  assumes "0 \<le> a" and "0 < b" and "dec_mul (dec_div a b) 100 \<le> c"
  shows "a * 100 * slack \<le> c * b"
  using dec.pct_le_cap_exact [of a b 100 c] assms by (simp only: slack_def dec_mul_def dec_div_def)

lemma dec_pct_within:
  assumes "0 < b" and "a * 100 \<le> of_int n * b" and "0 \<le> n" and "n \<le> 10 ^ 28"
  shows "dec_mul (dec_div a b) 100 \<le> of_int n"
proof -
  have "representable 10 28 (of_int n / 100 :: rat)"
    using assms(3,4) by (intro representableI [of _ n 10 "- 2"]) (simp_all add: power_int_minus)
  moreover have "representable 10 28 (of_int n :: rat)"
    using assms(3,4) by (intro representable_of_int) simp_all
  ultimately have "dec_mul (dec_div a b) 100 \<le> of_int n / 100 * 100"
    unfolding dec_mul_def dec_div_def using assms(1,2) by (intro dec.pct_le_cap) simp_all
  then show ?thesis by simp
qed

lemmas heat_ok_defs = heat_passes_def risk_heat_ok_def buying_power_heat_ok_def risk_heat_pct_def
  buying_power_heat_pct_def RISK_HEAT_CAP_PCT_def BUYING_POWER_HEAT_CAP_PCT_def

lemma heat_passes_bounds:
  assumes "wf_portfolio_heat_check h" and "heat_passes h"
  shows "dval (ph_sum_defined_max_loss h) * 100 * slack \<le> 6 * dval (ph_net_liquidating_value h)"
    and "dval (ph_broker_margin_requirement h) * 100 * slack \<le> 35 * dval (ph_net_liquidating_value h)"
  using assms by (simp_all only: heat_ok_defs wf_portfolio_heat_check_def) (simp_all add: dec_pct_bound)

lemma heat_within_caps_passes:
  assumes "wf_portfolio_heat_check h"
    and "dval (ph_sum_defined_max_loss h) * 100 \<le> 6 * dval (ph_net_liquidating_value h)"
    and "dval (ph_broker_margin_requirement h) * 100 \<le> 35 * dval (ph_net_liquidating_value h)"
  shows "heat_passes h"
  using assms dec_pct_within [of "dval (ph_net_liquidating_value h)" _ 6]
    dec_pct_within [of "dval (ph_net_liquidating_value h)" _ 35]
  by (simp add: heat_ok_defs wf_portfolio_heat_check_def)

section \<open>Lemmas on feed certification\<close>

lemma is_valid_for_live_Aware:
  "is_valid_for_live_as_of c (Aware t) r = Inr (
     sf_status c = CERTIFIED \<and> at_us t \<le> at_us (sf_certified_at c) + 30 * us_per_day \<and>
     sf_pending_recertification_triggers c = [] \<and> within_thresholds (sf_latency c) \<and>
     fc_covers_xsp (sf_coverage c) \<and> fc_symbol_mapping_consistent (sf_coverage c) \<and>
     (r \<longrightarrow> fc_covers_spx (sf_coverage c)))"
  by (auto simp: is_valid_for_live_as_of_def is_expired_as_of_def sf_expires_at_def at_defs Let_def
      CERTIFICATION_VALID_DAYS_def)

section \<open>The three sources satisfy the token contract\<close>

interpretation heat: capability_token wf_portfolio_heat_check
  "\<lambda>h. heat_rejection_reason h = None" approve
  "\<lambda>h t. wf_approved_portfolio_heat t \<and> ah_risk_heat_pct t = risk_heat_pct h \<and>
     ah_buying_power_heat_pct t = buying_power_heat_pct h"
proof
  fix h t
  assume wf: "wf_portfolio_heat_check h"
  show "heat_rejection_reason h = None \<Longrightarrow> is_ok (approve h)"
    using wf by (simp add: is_ok_iff approve_Inr heat_rejection_reason_None)
  show "approve h = Inr t \<Longrightarrow> wf_approved_portfolio_heat t \<and> ah_risk_heat_pct t = risk_heat_pct h \<and>
     ah_buying_power_heat_pct t = buying_power_heat_pct h"
    by (auto simp: approve_def mk_approved_portfolio_heat_def construct_eq_Inr wf_defs split: if_splits)
qed (simp add: approve_def heat_rejection_reason_None)

interpretation feed: capability_token "\<lambda>_. True"
  "\<lambda>(c, t, r). feed_rejection_reason_as_of c (Aware t) r = Inr None"
  "\<lambda>(c, t, r). feed_to_live_token c (Aware t) r"
  "\<lambda>(c, t, r) k. cf_feed k = sf_feed c \<and> sf_status c = CERTIFIED \<and>
     at_us t \<le> at_us (sf_certified_at c) + 30 * us_per_day"
  by standard (auto simp: feed_rejection_reason_as_of_def feed_to_live_token_def
      is_valid_for_live_Aware split: if_splits)

interpretation stage: capability_token "\<lambda>_. True"
  "\<lambda>s. stage_rejection_reason_if_not_live s = None" stage_to_live_token
  "\<lambda>s t. lt_stage t = strategy_stage.LIVE \<and> ss_stage s = strategy_stage.LIVE"
  by standard (auto simp: stage_rejection_reason_if_not_live_def stage_to_live_token_def is_live_def
      mk_live_strategy_token_def is_ok_construct construct_eq_Inr live_strategy_token_guards_def
      split: if_splits)

end
