(* ===== verification/TradeIntent.thy ===== *)
theory TradeIntent
  imports Capabilities
begin

text \<open>
  The trade intents (\<open>schemas/trade_intent.py\<close>) and the contract metadata they are
  matched against (\<open>schemas/contract_metadata.py\<close>): a candidate is a vertical credit
  spread with defined risk, a validated intent is a candidate with the three capability tokens.
\<close>

section \<open>Candidate intents\<close>

definition SHORT_DELTA_ABS_CAP :: rat where "SHORT_DELTA_ABS_CAP = 10 / 100"

record spread_leg =
  sl_side :: leg_side
  sl_option_type :: option_type
  sl_strike :: decimal
  sl_delta :: decimal
  sl_contracts :: int

definition spread_leg_guards :: "spread_leg \<Rightarrow> (bool \<times> string) list" where
  "spread_leg_guards l =
     [(dval (sl_strike l) \<le> 0, ''strike''),
      (sl_contracts l \<le> 0, ''contracts''),
      (sl_option_type l = PUT \<and> 0 < dval (sl_delta l), ''PUT leg delta must be <= 0''),
      (sl_option_type l = CALL \<and> dval (sl_delta l) < 0, ''CALL leg delta must be >= 0'')]"

definition mk_spread_leg :: "spread_leg \<Rightarrow> spread_leg res" where
  "mk_spread_leg l = construct (spread_leg_guards l) l"

definition wf_spread_leg :: "spread_leg \<Rightarrow> bool" where
  [wf_defs]: "wf_spread_leg l \<longleftrightarrow> passes_guards (spread_leg_guards l)"

record candidate_trade_intent =
  ci_status :: intent_status
  ci_underlying :: underlying
  ci_direction :: spread_direction
  ci_short_leg :: spread_leg
  ci_long_leg :: spread_leg
  ci_net_credit :: decimal
  ci_multiplier :: int
  ci_dte :: int
  ci_rationale_id :: string

definition spread_width :: "candidate_trade_intent \<Rightarrow> rat" where
  "spread_width c = dec_abs (dec_sub (dval (sl_strike (ci_short_leg c))) (dval (sl_strike (ci_long_leg c))))"

definition max_loss :: "candidate_trade_intent \<Rightarrow> rat" where
  "max_loss c =
     dec_mul (dec_mul (dec_sub (spread_width c) (dval (ci_net_credit c))) (of_int (ci_multiplier c)))
             (of_int (sl_contracts (ci_short_leg c)))"

definition short_delta_within_cap :: "candidate_trade_intent \<Rightarrow> bool" where
  "short_delta_within_cap c \<longleftrightarrow> dec_abs (dval (sl_delta (ci_short_leg c))) \<le> SHORT_DELTA_ABS_CAP"

definition delta_rejection_reason :: "candidate_trade_intent \<Rightarrow> reason_code option" where
  "delta_rejection_reason c = (if short_delta_within_cap c then None else Some DELTA_BAND_VIOLATION)"

definition expected_option_type :: "spread_direction \<Rightarrow> option_type" where
  "expected_option_type d = (if d = PUT_CREDIT then PUT else CALL)"

definition candidate_trade_intent_guards :: "candidate_trade_intent \<Rightarrow> (bool \<times> string) list" where
  "candidate_trade_intent_guards c =
     [(dval (ci_net_credit c) \<le> 0, ''net_credit''),
      (ci_multiplier c \<le> 0, ''multiplier''),
      (ci_dte c < 0, ''dte''),
      (ci_rationale_id c = [], ''rationale_id''),
      (ci_status c \<noteq> CANDIDATE, ''CandidateTradeIntent.status must be CANDIDATE''),
      (sl_side (ci_short_leg c) \<noteq> SHORT \<or> sl_side (ci_long_leg c) \<noteq> LONG,
       ''a spread requires exactly one SHORT and one LONG leg''),
      (sl_option_type (ci_short_leg c) \<noteq> sl_option_type (ci_long_leg c),
       ''both legs must be the same option_type (vertical spread)''),
      (sl_contracts (ci_short_leg c) \<noteq> sl_contracts (ci_long_leg c),
       ''short_leg.contracts must equal long_leg.contracts''),
      (sl_option_type (ci_short_leg c) \<noteq> expected_option_type (ci_direction c),
       ''direction requires legs of its option type''),
      (spread_width c \<le> dval (ci_net_credit c),
       ''net_credit must be less than spread_width (defined risk)''),
      (ci_direction c = PUT_CREDIT \<and>
         dval (sl_strike (ci_short_leg c)) \<le> dval (sl_strike (ci_long_leg c)),
       ''put credit spread: long strike must be below short strike''),
      (ci_direction c \<noteq> PUT_CREDIT \<and>
         dval (sl_strike (ci_long_leg c)) \<le> dval (sl_strike (ci_short_leg c)),
       ''call credit spread: long strike must be above short strike'')]"

definition mk_candidate_trade_intent :: "candidate_trade_intent \<Rightarrow> candidate_trade_intent res" where
  "mk_candidate_trade_intent c = construct (candidate_trade_intent_guards c) c"

definition wf_candidate_trade_intent :: "candidate_trade_intent \<Rightarrow> bool" where
  [wf_defs]: "wf_candidate_trade_intent c \<longleftrightarrow>
     passes_guards (candidate_trade_intent_guards c) \<and>
     wf_spread_leg (ci_short_leg c) \<and> wf_spread_leg (ci_long_leg c)"

section \<open>Validated intents\<close>

record validated_trade_intent =
  vi_status :: intent_status
  vi_candidate :: candidate_trade_intent
  vi_approved_heat :: approved_portfolio_heat
  vi_certified_feed :: certified_feed_token
  vi_live_strategy :: live_strategy_token

definition validated_trade_intent_guards :: "validated_trade_intent \<Rightarrow> (bool \<times> string) list" where
  "validated_trade_intent_guards v =
     [(vi_status v \<noteq> VALIDATED, ''ValidatedTradeIntent.status must be VALIDATED''),
      (\<not> short_delta_within_cap (vi_candidate v), ''short delta exceeds cap'')]"

definition mk_validated_trade_intent :: "validated_trade_intent \<Rightarrow> validated_trade_intent res" where
  "mk_validated_trade_intent v = construct (validated_trade_intent_guards v) v"

definition wf_validated_trade_intent :: "validated_trade_intent \<Rightarrow> bool" where
  [wf_defs]: "wf_validated_trade_intent v \<longleftrightarrow>
     passes_guards (validated_trade_intent_guards v) \<and>
     wf_candidate_trade_intent (vi_candidate v) \<and>
     wf_approved_portfolio_heat (vi_approved_heat v) \<and>
     wf_live_strategy_token (vi_live_strategy v)"

section \<open>Contract metadata\<close>

record contract_metadata =
  cm_underlying :: underlying
  cm_option_symbol :: string
  cm_expiration_date :: aware
  cm_expiration_time :: aware
  cm_last_trading_time :: aware
  cm_settlement_style :: settlement_style
  cm_exercise_style :: exercise_style
  cm_multiplier :: int
  cm_strike :: decimal
  cm_option_type :: option_type

definition contract_metadata_guards :: "contract_metadata \<Rightarrow> (bool \<times> string) list" where
  "contract_metadata_guards m =
     [(cm_option_symbol m = [], ''option_symbol''),
      (cm_multiplier m \<le> 0, ''multiplier''),
      (dval (cm_strike m) \<le> 0, ''strike''),
      (at_lt (cm_expiration_time m) (cm_last_trading_time m),
       ''last_trading_time cannot be after expiration_time''),
      (at_date (cm_expiration_date m) \<noteq> at_date (cm_expiration_time m),
       ''expiration_date.date() must equal expiration_time.date()'')]"

definition wf_contract_metadata :: "contract_metadata \<Rightarrow> bool" where
  [wf_defs]: "wf_contract_metadata m \<longleftrightarrow> passes_guards (contract_metadata_guards m)"

definition mandate_compliant :: "contract_metadata \<Rightarrow> bool" where
  "mandate_compliant m \<longleftrightarrow> cm_exercise_style m = EUROPEAN \<and> cm_settlement_style m = CASH"

definition contract_rejection_reason :: "contract_metadata \<Rightarrow> reason_code option" where
  "contract_rejection_reason m = (if mandate_compliant m then None else Some CONTRACT_METADATA_INVALID)"

definition contract_is_tradable_as_of :: "contract_metadata \<Rightarrow> datetime \<Rightarrow> bool res" where
  "contract_is_tradable_as_of m as_of =
     bind_res (require_aware ''as_of must be timezone-aware (UTC)'' as_of) (\<lambda>t.
       Inr (mandate_compliant m \<and> at_le t (cm_last_trading_time m)))"

record spread_contract_metadata =
  sc_short_contract :: contract_metadata
  sc_long_contract :: contract_metadata

definition spread_contract_metadata_guards :: "spread_contract_metadata \<Rightarrow> (bool \<times> string) list" where
  "spread_contract_metadata_guards s =
     (let a = sc_short_contract s; b = sc_long_contract s in
     [(cm_underlying a \<noteq> cm_underlying b, ''spread legs must share the same underlying''),
      (cm_option_type a \<noteq> cm_option_type b, ''spread legs must share the same option_type (vertical)''),
      (\<not> at_eq (cm_expiration_time a) (cm_expiration_time b),
       ''spread legs must share the same expiration_time (vertical)''),
      (\<not> at_eq (cm_expiration_date a) (cm_expiration_date b),
       ''spread legs must share the same expiration_date''),
      (\<not> at_eq (cm_last_trading_time a) (cm_last_trading_time b),
       ''spread legs must share the same last_trading_time'')])"

definition wf_spread_contract_metadata :: "spread_contract_metadata \<Rightarrow> bool" where
  [wf_defs]: "wf_spread_contract_metadata s \<longleftrightarrow>
     passes_guards (spread_contract_metadata_guards s) \<and>
     wf_contract_metadata (sc_short_contract s) \<and> wf_contract_metadata (sc_long_contract s)"

definition spread_rejection_reason :: "spread_contract_metadata \<Rightarrow> reason_code option" where
  "spread_rejection_reason s =
     (case contract_rejection_reason (sc_short_contract s) of
        Some r \<Rightarrow> Some r
      | None \<Rightarrow> (case contract_rejection_reason (sc_long_contract s) of
                   Some r \<Rightarrow> Some r | None \<Rightarrow> None))"

definition spread_derived_dte :: "spread_contract_metadata \<Rightarrow> datetime \<Rightarrow> int res" where
  "spread_derived_dte s as_of =
     bind_res (require_aware ''as_of must be timezone-aware (UTC)'' as_of) (\<lambda>t.
       Inr (at_date (cm_expiration_time (sc_short_contract s)) - at_date t))"

definition spread_is_tradable_as_of :: "spread_contract_metadata \<Rightarrow> datetime \<Rightarrow> bool res" where
  "spread_is_tradable_as_of s as_of =
     bind_res (contract_is_tradable_as_of (sc_short_contract s) as_of) (\<lambda>short_ok.
       if short_ok then contract_is_tradable_as_of (sc_long_contract s) as_of else Inr False)"

definition matches_candidate_reason ::
  "spread_contract_metadata \<Rightarrow> candidate_trade_intent \<Rightarrow> reason_code option" where
  "matches_candidate_reason s c =
     (let sc = sc_short_contract s; lc = sc_long_contract s; cs = ci_short_leg c; cl = ci_long_leg c;
          checks = [cm_underlying sc = ci_underlying c,
                    cm_underlying lc = ci_underlying c,
                    cm_option_type sc = sl_option_type cs,
                    cm_option_type lc = sl_option_type cl,
                    dval (cm_strike sc) = dval (sl_strike cs),
                    dval (cm_strike lc) = dval (sl_strike cl),
                    cm_multiplier sc = ci_multiplier c,
                    cm_multiplier lc = ci_multiplier c]
      in if list_all id checks then None else Some CONTRACT_SPREAD_MISMATCH)"

section \<open>Lemmas\<close>

lemma wf_candidateD:
  assumes "wf_candidate_trade_intent c"
  shows "0 < dval (ci_net_credit c)" "0 < ci_multiplier c" "0 \<le> ci_dte c" "ci_rationale_id c \<noteq> []"
    "sl_side (ci_short_leg c) = SHORT" "sl_side (ci_long_leg c) = LONG"
    "sl_option_type (ci_short_leg c) = expected_option_type (ci_direction c)"
    "sl_option_type (ci_long_leg c) = expected_option_type (ci_direction c)"
    "sl_contracts (ci_long_leg c) = sl_contracts (ci_short_leg c)" "0 < sl_contracts (ci_short_leg c)"
    "dval (ci_net_credit c) < spread_width c"
    "0 < dval (sl_strike (ci_short_leg c))" "0 < dval (sl_strike (ci_long_leg c))"
  using assms by (auto simp: wf_candidate_trade_intent_def candidate_trade_intent_guards_def
      wf_spread_leg_def spread_leg_guards_def)

lemma wf_candidate_strikes:
  assumes "wf_candidate_trade_intent c"
  shows "if ci_direction c = PUT_CREDIT
         then dval (sl_strike (ci_long_leg c)) < dval (sl_strike (ci_short_leg c))
         else dval (sl_strike (ci_short_leg c)) < dval (sl_strike (ci_long_leg c))"
  using assms by (auto simp: wf_candidate_trade_intent_def candidate_trade_intent_guards_def)

lemma max_loss_pos:
  assumes "wf_candidate_trade_intent c" shows "0 < max_loss c"
  unfolding max_loss_def dec_mul_def dec_sub_def using wf_candidateD [OF assms]
  by (intro dec.rd_pos mult_pos_pos) simp_all

lemma delta_cap_exact:
  "short_delta_within_cap c \<Longrightarrow>
     \<bar>dval (sl_delta (ci_short_leg c))\<bar> * (1 - 1 / (2 * 10 ^ 27)) \<le> 1 / 10"
  using dec.le_cap_exact [of "\<bar>dval (sl_delta (ci_short_leg c))\<bar>" "1 / 10"]
  by (simp only: short_delta_within_cap_def dec_abs_def SHORT_DELTA_ABS_CAP_def)

lemma contract_is_tradable_Aware [simp]:
  "contract_is_tradable_as_of m (Aware t) =
     Inr (mandate_compliant m \<and> at_us t \<le> at_us (cm_last_trading_time m))"
  by (simp add: contract_is_tradable_as_of_def at_defs)

lemma spread_is_tradable_Aware [simp]:
  "spread_is_tradable_as_of s (Aware t) = Inr (
     mandate_compliant (sc_short_contract s) \<and> mandate_compliant (sc_long_contract s) \<and>
     at_us t \<le> at_us (cm_last_trading_time (sc_short_contract s)) \<and>
     at_us t \<le> at_us (cm_last_trading_time (sc_long_contract s)))"
  by (auto simp: spread_is_tradable_as_of_def)

lemma spread_rejection_reason_None:
  "spread_rejection_reason s = None \<longleftrightarrow>
     mandate_compliant (sc_short_contract s) \<and> mandate_compliant (sc_long_contract s)"
  by (simp add: spread_rejection_reason_def contract_rejection_reason_def)

end
