(* ===== verification/Gateway.thy ===== *)
theory Gateway
  imports TradeIntent Sha256
begin

text \<open>
  The execution gateway: the request bundle (\<open>gateway/request.py\<close>), the gates
  (\<open>gateway/gates.py\<close>), the audit artifact (\<open>schemas/audit_artifact.py\<close>) and
  \<open>ExecutionGateway.validate\<close> (\<open>gateway/gateway.py\<close>). Two parameters stand for
  code outside the repository: \<open>ct_offset\<close>, the UTC offset of America/Chicago at an
  instant (time-zone data), and \<open>dump\<close>, Pydantic's \<open>model_dump_json\<close>.
\<close>

section \<open>Audit artifacts\<close>

record audit_artifact =
  aa_artifact_id :: string
  aa_created_at :: aware
  aa_decision :: string
  aa_reason_codes :: "reason_code list"
  aa_detail :: string

definition audit_artifact_guards :: "audit_artifact \<Rightarrow> (bool \<times> string) list" where
  "audit_artifact_guards a =
     [(aa_artifact_id a = [], ''artifact_id''),
      (aa_decision a = [], ''decision''),
      (str_upper (aa_decision a) \<in> {''REJECT'', ''HALT''} \<and> aa_reason_codes a = [],
       ''artifact must carry >=1 reason_code'')]"

definition mk_audit_artifact :: "audit_artifact \<Rightarrow> audit_artifact res" where
  "mk_audit_artifact a = construct (audit_artifact_guards a) a"

definition wf_audit_artifact :: "audit_artifact \<Rightarrow> bool" where
  [wf_defs]: "wf_audit_artifact a \<longleftrightarrow> passes_guards (audit_artifact_guards a)"

text \<open>\<open>brokers/errors.py\<close>: the artifact of a broker failure.\<close>

definition audit_artifact_from_broker_error ::
  "broker_error \<Rightarrow> string \<Rightarrow> aware \<Rightarrow> audit_artifact res" where
  "audit_artifact_from_broker_error err artifact_id created_at =
     mk_audit_artifact
       \<lparr>aa_artifact_id = artifact_id, aa_created_at = created_at, aa_decision = ''REJECT'',
        aa_reason_codes = [be_reason_code err], aa_detail = be_detail err\<rparr>"

section \<open>The request\<close>

record gateway_request =
  gr_candidate :: candidate_trade_intent
  gr_as_of :: aware
  gr_account :: account_state
  gr_heat :: portfolio_heat_check
  gr_drawdown :: drawdown_halt_state
  gr_instrument :: instrument
  gr_spread_contract :: spread_contract_metadata
  gr_underlying_policy :: allowed_underlying_policy
  gr_data_snapshot :: broker_data_snapshot
  gr_reconciliation :: price_reconciliation_check
  gr_liquidity :: liquidity_gate
  gr_execution_quality :: execution_quality_state
  gr_concentration :: concentration_snapshot
  gr_protection :: protection_state
  gr_multi_leg :: multi_leg_plan
  gr_strategy_stage :: strategy_stage_state
  gr_feed_certification :: secondary_feed_certification
  gr_event_calendar :: event_blackout_calendar

definition AFTER_2PM_CT_MIN :: int where "AFTER_2PM_CT_MIN = 14 * 60"

definition derived_dte :: "gateway_request \<Rightarrow> int res" where
  "derived_dte r = spread_derived_dte (gr_spread_contract r) (Aware (gr_as_of r))"

definition ct_minutes_since_midnight :: "(int \<Rightarrow> int) \<Rightarrow> gateway_request \<Rightarrow> int" where
  "ct_minutes_since_midnight ct_offset r = minutes_since_midnight ct_offset (gr_as_of r)"

definition require_spx_feed_coverage :: "gateway_request \<Rightarrow> bool" where
  "require_spx_feed_coverage r \<longleftrightarrow> ci_underlying (gr_candidate r) = underlying.SPX"

definition is_zero_dte_after_2pm_ct :: "(int \<Rightarrow> int) \<Rightarrow> gateway_request \<Rightarrow> bool res" where
  "is_zero_dte_after_2pm_ct ct_offset r =
     map_res (\<lambda>d. d = 0 \<and> AFTER_2PM_CT_MIN \<le> ct_minutes_since_midnight ct_offset r) (derived_dte r)"

definition dte_matches_claim :: "gateway_request \<Rightarrow> bool res" where
  "dte_matches_claim r = map_res (\<lambda>d. ci_dte (gr_candidate r) = d) (derived_dte r)"

definition gateway_request_guards :: "gateway_request \<Rightarrow> (bool \<times> string) list" where
  "gateway_request_guards r =
     [(in_underlying (gr_instrument r) \<noteq> ci_underlying (gr_candidate r),
       ''instrument.underlying must match candidate.underlying'')]"

definition mk_gateway_request :: "gateway_request \<Rightarrow> gateway_request res" where
  "mk_gateway_request r = construct (gateway_request_guards r) r"

definition wf_gateway_request :: "gateway_request \<Rightarrow> bool" where
  "wf_gateway_request r \<longleftrightarrow>
     passes_guards (gateway_request_guards r) \<and>
     wf_candidate_trade_intent (gr_candidate r) \<and> wf_account_state (gr_account r) \<and>
     wf_portfolio_heat_check (gr_heat r) \<and> wf_drawdown_halt_state (gr_drawdown r) \<and>
     wf_spread_contract_metadata (gr_spread_contract r) \<and>
     wf_allowed_underlying_policy (gr_underlying_policy r) \<and>
     wf_broker_data_snapshot (gr_data_snapshot r) \<and>
     wf_price_reconciliation_check (gr_reconciliation r) \<and> wf_liquidity_gate (gr_liquidity r) \<and>
     wf_execution_quality_state (gr_execution_quality r) \<and>
     wf_concentration_snapshot (gr_concentration r) \<and> wf_protection_state (gr_protection r) \<and>
     wf_multi_leg_plan (gr_multi_leg r) \<and>
     wf_secondary_feed_certification (gr_feed_certification r) \<and>
     wf_event_blackout_calendar (gr_event_calendar r)"

section \<open>The gates\<close>

definition gate_account_mode :: "account_state \<Rightarrow> reason_code list" where
  "gate_account_mode a =
     (if \<not> account_type_permitted a then [ACCOUNT_TYPE_NOT_PERMITTED] else []) @
     (if below_minimum_equity a then [MINIMUM_EQUITY_BREACH] else [])"

definition gate_instrument_permitted ::
  "instrument \<Rightarrow> candidate_trade_intent \<Rightarrow> allowed_underlying_policy \<Rightarrow> datetime \<Rightarrow> reason_code option res" where
  "gate_instrument_permitted i c p as_of =
     (if in_underlying i \<noteq> ci_underlying c then Inr (Some INSTRUMENT_NOT_PERMITTED)
      else permission_reason p (ci_underlying c) as_of)"

definition gate_contract_metadata ::
  "spread_contract_metadata \<Rightarrow> candidate_trade_intent \<Rightarrow> datetime \<Rightarrow> reason_code list res" where
  "gate_contract_metadata s c as_of =
     (let codes1 = opt_list (spread_rejection_reason s) in
      bind_res (spread_is_tradable_as_of s as_of) (\<lambda>tradable.
        let codes2 = (if \<not> tradable
                      then (if CONTRACT_METADATA_INVALID \<notin> set codes1
                            then codes1 @ [CONTRACT_METADATA_INVALID] else codes1)
                      else codes1)
        in Inr (codes2 @ opt_list (matches_candidate_reason s c))))"

definition gate_dte_match :: "bool \<Rightarrow> reason_code option" where
  "gate_dte_match matches = (if matches then None else Some DTE_MISMATCH)"

definition gate_delta_band :: "candidate_trade_intent \<Rightarrow> reason_code option" where
  "gate_delta_band c = delta_rejection_reason c"

definition gate_portfolio_heat :: "portfolio_heat_check \<Rightarrow> reason_code option" where
  "gate_portfolio_heat h = heat_rejection_reason h"

definition gate_concentration :: "concentration_snapshot \<Rightarrow> reason_code option" where
  "gate_concentration c = concentration_rejection_reason c"

definition gate_liquidity :: "liquidity_gate \<Rightarrow> reason_code option" where
  "gate_liquidity l = liquidity_rejection_reason l"

definition gate_execution_quality :: "execution_quality_state \<Rightarrow> reason_code option" where
  "gate_execution_quality e = quality_rejection_reason e"

definition gate_drawdown :: "drawdown_halt_state \<Rightarrow> reason_code list" where
  "gate_drawdown d =
     (if new_entries_allowed d then []
      else [DRAWDOWN_HALT_ACTIVE] @
        (if dd_requires_human_rearm d \<and> \<not> dd_human_rearm_granted d then [HUMAN_REARM_REQUIRED] else []))"

definition gate_protection :: "protection_state \<Rightarrow> reason_code option" where
  "gate_protection p = protection_rejection_reason p"

definition gate_multi_leg :: "multi_leg_plan \<Rightarrow> reason_code option" where
  "gate_multi_leg m = multi_leg_rejection_reason m"

definition gate_entry_window :: "int \<Rightarrow> reason_code option" where
  "gate_entry_window ct_min =
     (if \<not> (ENTRY_WINDOW_OPEN_CT_MIN \<le> ct_min \<and> ct_min < ENTRY_WINDOW_CLOSE_CT_MIN)
      then Some ENTRY_WINDOW_CLOSED else None)"

definition gate_event_blackout :: "event_blackout_calendar \<Rightarrow> datetime \<Rightarrow> reason_code option res" where
  "gate_event_blackout c as_of = active_reason_as_of c as_of"

definition gate_data_freshness ::
  "broker_data_snapshot \<Rightarrow> datetime \<Rightarrow> bool \<Rightarrow> reason_code option res" where
  "gate_data_freshness s as_of zero_dte_after_2pm_ct = freshness_reason s as_of zero_dte_after_2pm_ct"

definition gate_reconciliation :: "price_reconciliation_check \<Rightarrow> reason_code option" where
  "gate_reconciliation p = reconciliation_rejection_reason p"

definition gate_feed_certification ::
  "secondary_feed_certification \<Rightarrow> datetime \<Rightarrow> bool \<Rightarrow> reason_code option res" where
  "gate_feed_certification f as_of require_spx = feed_rejection_reason_as_of f as_of require_spx"

definition gate_strategy_live :: "strategy_stage_state \<Rightarrow> reason_code option" where
  "gate_strategy_live s = stage_rejection_reason_if_not_live s"

section \<open>The decision\<close>

record gateway_decision =
  gd_approved :: "validated_trade_intent option"
  gd_rejection :: "audit_artifact option"
  gd_reason_codes :: "reason_code list"

definition is_approved :: "gateway_decision \<Rightarrow> bool" where
  "is_approved d \<longleftrightarrow> gd_approved d \<noteq> None"

definition artifact_id :: "(gateway_request \<Rightarrow> string) \<Rightarrow> gateway_request \<Rightarrow> reason_code list \<Rightarrow> string" where
  "artifact_id dump r codes =
     (let payload = dump r;
          codes_str = str_join '','' (map reason_code_value codes);
          digest = take 16 (sha256_hexdigest (payload @ ''|'' @ codes_str));
          c = gr_candidate r
      in ''gw-reject-'' @ underlying_value (ci_underlying c) @ ''-'' @
         spread_direction_value (ci_direction c) @ ''-'' @ digest)"

definition reject :: "(gateway_request \<Rightarrow> string) \<Rightarrow> gateway_request \<Rightarrow> reason_code list \<Rightarrow> gateway_decision res" where
  "reject dump r codes =
     (let deduped = dict_fromkeys codes; c = gr_candidate r in
      bind_res (mk_audit_artifact
        \<lparr>aa_artifact_id = artifact_id dump r deduped, aa_created_at = gr_as_of r,
         aa_decision = ''REJECT'', aa_reason_codes = deduped,
         aa_detail = ''pre-trade validation rejected '' @ underlying_value (ci_underlying c) @ '' '' @
           spread_direction_value (ci_direction c) @ '' ('' @ int_str (int (length deduped)) @
           '' reason code(s))''\<rparr>) (\<lambda>artifact.
      Inr \<lparr>gd_approved = None, gd_rejection = Some artifact, gd_reason_codes = deduped\<rparr>))"

text \<open>\<open>try: ... except (ValueError, ValidationError)\<close>: \<open>None\<close> when the call
  raised one of the two.\<close>

definition catch_value_error :: "'a res \<Rightarrow> 'a option res" where
  "catch_value_error x =
     (case x of Inr a \<Rightarrow> Inr (Some a)
      | Inl (ValueError _) \<Rightarrow> Inr None | Inl (ValidationError _) \<Rightarrow> Inr None
      | Inl e \<Rightarrow> Inl e)"

definition approve_request ::
  "(gateway_request \<Rightarrow> string) \<Rightarrow> gateway_request \<Rightarrow> datetime \<Rightarrow> gateway_decision res" where
  "approve_request dump r as_of =
     bind_res (catch_value_error (approve (gr_heat r))) (\<lambda>approved_heat.
     bind_res (catch_value_error
       (feed_to_live_token (gr_feed_certification r) as_of (require_spx_feed_coverage r))) (\<lambda>certified_feed.
     bind_res (catch_value_error (stage_to_live_token (gr_strategy_stage r))) (\<lambda>live_strategy.
     case (approved_heat, certified_feed, live_strategy) of
       (Some heat, Some feed, Some strategy) \<Rightarrow>
         bind_res (catch_value_error (mk_validated_trade_intent
           \<lparr>vi_status = VALIDATED, vi_candidate = gr_candidate r, vi_approved_heat = heat,
            vi_certified_feed = feed, vi_live_strategy = strategy\<rparr>)) (\<lambda>validated.
         case validated of
           Some v \<Rightarrow> Inr \<lparr>gd_approved = Some v, gd_rejection = None, gd_reason_codes = []\<rparr>
         | None \<Rightarrow> reject dump r [INTERNAL_CONTRADICTION])
     | _ \<Rightarrow> reject dump r [INTERNAL_CONTRADICTION])))"

text \<open>The codes of all gates, in the order of \<open>validate\<close>, each added once.\<close>

definition gate_codes :: "(int \<Rightarrow> int) \<Rightarrow> gateway_request \<Rightarrow> reason_code list res" where
  "gate_codes ct_offset r =
     (let as_of = Aware (gr_as_of r) in
      bind_res (gate_instrument_permitted (gr_instrument r) (gr_candidate r)
                  (gr_underlying_policy r) as_of) (\<lambda>g_instrument.
      bind_res (gate_contract_metadata (gr_spread_contract r) (gr_candidate r) as_of) (\<lambda>g_contract.
      bind_res (dte_matches_claim r) (\<lambda>dte_ok.
      bind_res (gate_event_blackout (gr_event_calendar r) as_of) (\<lambda>g_blackout.
      bind_res (is_zero_dte_after_2pm_ct ct_offset r) (\<lambda>zero_dte_late.
      bind_res (gate_data_freshness (gr_data_snapshot r) as_of zero_dte_late) (\<lambda>g_fresh.
      bind_res (gate_feed_certification (gr_feed_certification r) as_of
                  (require_spx_feed_coverage r)) (\<lambda>g_feed.
      Inr (add_all [] (
        gate_account_mode (gr_account r) @
        opt_list g_instrument @
        g_contract @
        opt_list (gate_dte_match dte_ok) @
        opt_list (gate_delta_band (gr_candidate r)) @
        opt_list (gate_strategy_live (gr_strategy_stage r)) @
        opt_list (gate_portfolio_heat (gr_heat r)) @
        opt_list (gate_concentration (gr_concentration r)) @
        opt_list (gate_liquidity (gr_liquidity r)) @
        opt_list (gate_execution_quality (gr_execution_quality r)) @
        gate_drawdown (gr_drawdown r) @
        opt_list (gate_protection (gr_protection r)) @
        opt_list (gate_multi_leg (gr_multi_leg r)) @
        opt_list (gate_entry_window (ct_minutes_since_midnight ct_offset r)) @
        opt_list g_blackout @
        opt_list g_fresh @
        opt_list (gate_reconciliation (gr_reconciliation r)) @
        opt_list g_feed))))))))))"

definition validate ::
  "(int \<Rightarrow> int) \<Rightarrow> (gateway_request \<Rightarrow> string) \<Rightarrow> gateway_request \<Rightarrow> gateway_decision res" where
  "validate ct_offset dump r =
     bind_res (gate_codes ct_offset r) (\<lambda>codes.
       if codes \<noteq> [] then reject dump r codes
       else approve_request dump r (Aware (gr_as_of r)))"

section \<open>Specification of the decision\<close>

text \<open>Which rule each reason code stands for, stated over the request without reference to the
  gates: a code outside the table is never a reason to reject an entry.\<close>

definition late_zero_dte :: "(int \<Rightarrow> int) \<Rightarrow> gateway_request \<Rightarrow> bool" where
  "late_zero_dte z r \<longleftrightarrow>
     at_date (cm_expiration_time (sc_short_contract (gr_spread_contract r))) = at_date (gr_as_of r) \<and>
     840 \<le> minutes_since_midnight z (gr_as_of r)"

definition spread_matches :: "spread_contract_metadata \<Rightarrow> candidate_trade_intent \<Rightarrow> bool" where
  "spread_matches s c \<longleftrightarrow>
     (\<forall>(m, l) \<in> {(sc_short_contract s, ci_short_leg c), (sc_long_contract s, ci_long_leg c)}.
        cm_underlying m = ci_underlying c \<and> cm_option_type m = sl_option_type l \<and>
        dval (cm_strike m) = dval (sl_strike l) \<and> cm_multiplier m = ci_multiplier c)"

definition contract_tradable :: "contract_metadata \<Rightarrow> aware \<Rightarrow> bool" where
  "contract_tradable m t \<longleftrightarrow>
     cm_exercise_style m = EUROPEAN \<and> cm_settlement_style m = CASH \<and>
     at_us t \<le> at_us (cm_last_trading_time m)"

definition policy_permits :: "allowed_underlying_policy \<Rightarrow> underlying \<Rightarrow> aware \<Rightarrow> bool" where
  "policy_permits p u t \<longleftrightarrow>
     at_us (up_effective_at p) \<le> at_us t \<and>
     (\<forall>e. up_expires_at p = Some e \<longrightarrow> at_us t \<le> at_us e) \<and>
     (case u of underlying.XSP \<Rightarrow> up_xsp_enabled p | underlying.SPX \<Rightarrow> up_spx_phase_2_enabled p)"

definition feed_certified :: "secondary_feed_certification \<Rightarrow> aware \<Rightarrow> bool \<Rightarrow> bool" where
  "feed_certified f t spx \<longleftrightarrow>
     sf_status f = CERTIFIED \<and> at_us t \<le> at_us (sf_certified_at f) + 30 * us_per_day \<and>
     sf_pending_recertification_triggers f = [] \<and> within_thresholds (sf_latency f) \<and>
     fc_covers_xsp (sf_coverage f) \<and> fc_symbol_mapping_consistent (sf_coverage f) \<and>
     (spx \<longrightarrow> fc_covers_spx (sf_coverage f))"

definition entry_violation :: "(int \<Rightarrow> int) \<Rightarrow> gateway_request \<Rightarrow> reason_code \<Rightarrow> bool" where
  "entry_violation z r code \<longleftrightarrow>
     (let c = gr_candidate r; t = gr_as_of r; s = gr_spread_contract r in
      case code of
        ACCOUNT_TYPE_NOT_PERMITTED \<Rightarrow> ac_account_type (gr_account r) \<noteq> account_type.MARGIN
      | MINIMUM_EQUITY_BREACH \<Rightarrow> dval (ac_net_liquidating_value (gr_account r)) < 20000
      | INSTRUMENT_NOT_PERMITTED \<Rightarrow> \<not> policy_permits (gr_underlying_policy r) (ci_underlying c) t
      | CONTRACT_METADATA_INVALID \<Rightarrow>
          \<not> (contract_tradable (sc_short_contract s) t \<and> contract_tradable (sc_long_contract s) t)
      | CONTRACT_SPREAD_MISMATCH \<Rightarrow> \<not> spread_matches s c
      | DTE_MISMATCH \<Rightarrow> ci_dte c \<noteq> at_date (cm_expiration_time (sc_short_contract s)) - at_date t
      | DELTA_BAND_VIOLATION \<Rightarrow> \<not> short_delta_within_cap c
      | STRATEGY_NOT_LIVE_APPROVED \<Rightarrow> ss_stage (gr_strategy_stage r) \<noteq> strategy_stage.LIVE
      | HEAT_LIMIT_EXCEEDED \<Rightarrow> \<not> risk_heat_ok (gr_heat r)
      | BUYING_POWER_LIMIT_EXCEEDED \<Rightarrow> risk_heat_ok (gr_heat r) \<and> \<not> buying_power_heat_ok (gr_heat r)
      | CONCENTRATION_LIMIT_EXCEEDED \<Rightarrow> \<not> concentration_passes (gr_concentration r)
      | LIQUIDITY_GATE_FAILED \<Rightarrow> \<not> liquidity_passes (gr_liquidity r)
      | EXECUTION_QUALITY_SUSPENDED \<Rightarrow> suspended (gr_execution_quality r)
      | DRAWDOWN_HALT_ACTIVE \<Rightarrow> dd_active_tier (gr_drawdown r) \<noteq> drawdown_tier.NONE
      | HUMAN_REARM_REQUIRED \<Rightarrow>
          dd_active_tier (gr_drawdown r) \<in> {drawdown_tier.WEEKLY, drawdown_tier.TRAILING} \<and>
          \<not> dd_human_rearm_granted (gr_drawdown r)
      | PROTECTION_HIERARCHY_VIOLATION \<Rightarrow>
          \<not> ps_is_emergency_close (gr_protection r) \<and>
          (\<not> ps_long_leg_confirmed (gr_protection r) \<or> ps_agent_managed_stop_only (gr_protection r))
      | ENTRY_WINDOW_CLOSED \<Rightarrow> minutes_since_midnight z t \<notin> {585 ..< 780}
      | EVENT_BLACKOUT_ACTIVE \<Rightarrow>
          (\<exists>b\<in>set (ec_blackouts (gr_event_calendar r)).
             at_us (eb_window_start b) \<le> at_us t \<and> at_us t \<le> at_us (effective_block_end b))
      | SECONDARY_FEED_MISMATCH \<Rightarrow> \<not> within_tolerance (gr_reconciliation r)
      | reason_code.SECONDARY_FEED_NOT_CERTIFIED \<Rightarrow>
          \<not> feed_certified (gr_feed_certification r) t (ci_underlying c = underlying.SPX)
      | _ \<Rightarrow> freshness_reason (gr_data_snapshot r) (Aware t) (late_zero_dte z r) = Inr (Some code))"

section \<open>Lemmas on the gates\<close>

lemma gate_instrument_Aware:
  assumes "in_underlying i = ci_underlying c"
  shows "gate_instrument_permitted i c p (Aware t) =
    Inr (if policy_permits p (ci_underlying c) t then None else Some INSTRUMENT_NOT_PERMITTED)"
  using assms by (simp add: gate_instrument_permitted_def permission_reason_Aware policy_permits_def)

lemma gate_contract_Aware:
  "gate_contract_metadata s c (Aware t) = Inr (
     (if contract_tradable (sc_short_contract s) t \<and> contract_tradable (sc_long_contract s) t
      then [] else [CONTRACT_METADATA_INVALID]) @
     (if spread_matches s c then [] else [CONTRACT_SPREAD_MISMATCH]))"
  by (auto simp: gate_contract_metadata_def matches_candidate_reason_def spread_matches_def Let_def
      contract_tradable_def mandate_compliant_def spread_rejection_reason_def
      contract_rejection_reason_def)

lemma gate_feed_Aware:
  "gate_feed_certification f (Aware t) spx =
     Inr (if feed_certified f t spx then None else Some reason_code.SECONDARY_FEED_NOT_CERTIFIED)"
  by (simp add: gate_feed_certification_def feed_rejection_reason_as_of_def is_valid_for_live_Aware
      feed_certified_def)

lemma derived_dte_eq:
  "derived_dte r =
     Inr (at_date (cm_expiration_time (sc_short_contract (gr_spread_contract r))) - at_date (gr_as_of r))"
  by (simp add: derived_dte_def spread_derived_dte_def)

lemma is_zero_dte_after_2pm_eq: "is_zero_dte_after_2pm_ct z r = Inr (late_zero_dte z r)"
  by (simp add: is_zero_dte_after_2pm_ct_def derived_dte_eq late_zero_dte_def AFTER_2PM_CT_MIN_def
      ct_minutes_since_midnight_def)

lemma dte_matches_claim_eq:
  "dte_matches_claim r = Inr (ci_dte (gr_candidate r) =
     at_date (cm_expiration_time (sc_short_contract (gr_spread_contract r))) - at_date (gr_as_of r))"
  by (simp add: dte_matches_claim_def derived_dte_eq)

lemma freshness_reason_range:
  "freshness_reason s (Aware n) z = Inr (Some c) \<Longrightarrow>
     c \<in> {DATA_TIMESTAMP_INVALID, PRICE_STALE, IVR_STALE}"
  by (auto simp: freshness_reason_def any_future_Aware age_ms_past Let_def split: if_splits)

lemma gate_drawdown_mem:
  assumes "wf_drawdown_halt_state d"
  shows "set (gate_drawdown d) =
    {c. c = DRAWDOWN_HALT_ACTIVE \<and> dd_active_tier d \<noteq> drawdown_tier.NONE} \<union>
    {c. c = HUMAN_REARM_REQUIRED \<and>
        dd_active_tier d \<in> {drawdown_tier.WEEKLY, drawdown_tier.TRAILING} \<and> \<not> dd_human_rearm_granted d}"
  using assms
  by (cases "dd_active_tier d") (auto simp: gate_drawdown_def new_entries_allowed_def wf_drawdown_halt_state_def
      dd_requires_human_rearm_def drawdown_halt_state_guards_def)

lemmas gate_Aware_simps = gate_contract_Aware dte_matches_claim_eq gate_event_blackout_def
  active_reason_as_of_Aware is_zero_dte_after_2pm_eq gate_data_freshness_def gate_feed_Aware

lemma gate_codes_total: "\<exists>cs. gate_codes z r = Inr cs"
proof -
  obtain f where "freshness_reason (gr_data_snapshot r) (Aware (gr_as_of r)) (late_zero_dte z r) = Inr f"
    using freshness_reason_total by blast
  moreover have "\<exists>g. gate_instrument_permitted (gr_instrument r) (gr_candidate r)
      (gr_underlying_policy r) (Aware (gr_as_of r)) = Inr g"
    by (simp add: gate_instrument_permitted_def permission_reason_Aware)
  ultimately show ?thesis by (auto simp: gate_codes_def Let_def gate_Aware_simps)
qed

lemma gate_account_mode_mem:
  "c \<in> set (gate_account_mode a) \<longleftrightarrow>
     c = ACCOUNT_TYPE_NOT_PERMITTED \<and> ac_account_type a \<noteq> account_type.MARGIN \<or>
     c = MINIMUM_EQUITY_BREACH \<and> dval (ac_net_liquidating_value a) < 20000"
  by (auto simp: gate_account_mode_def account_type_permitted_def PERMITTED_ACCOUNT_TYPES_def
      below_minimum_equity_def MINIMUM_EQUITY_USD_def)

lemma gate_portfolio_heat_Some:
  "gate_portfolio_heat h = Some c \<longleftrightarrow>
     c = HEAT_LIMIT_EXCEEDED \<and> \<not> risk_heat_ok h \<or>
     c = BUYING_POWER_LIMIT_EXCEEDED \<and> risk_heat_ok h \<and> \<not> buying_power_heat_ok h"
  by (auto simp: gate_portfolio_heat_def heat_rejection_reason_def)

lemma gate_protection_Some:
  "gate_protection p = Some c \<longleftrightarrow>
     c = PROTECTION_HIERARCHY_VIOLATION \<and> \<not> ps_is_emergency_close p \<and>
     (\<not> ps_long_leg_confirmed p \<or> ps_agent_managed_stop_only p)"
  by (auto simp: gate_protection_def protection_rejection_reason_def)

lemma gate_multi_leg_None: "wf_multi_leg_plan m \<Longrightarrow> gate_multi_leg m = None"
  by (auto simp: gate_multi_leg_def multi_leg_rejection_reason_def wf_multi_leg_plan_def)

lemma gate_entry_window_Some:
  "gate_entry_window m = Some c \<longleftrightarrow> c = ENTRY_WINDOW_CLOSED \<and> m \<notin> {585 ..< 780}"
  by (auto simp: gate_entry_window_def ENTRY_WINDOW_OPEN_CT_MIN_def ENTRY_WINDOW_CLOSE_CT_MIN_def)

lemma simple_gates_Some:
  "gate_dte_match b = Some c \<longleftrightarrow> \<not> b \<and> c = DTE_MISMATCH"
  "gate_delta_band k = Some c \<longleftrightarrow> \<not> short_delta_within_cap k \<and> c = DELTA_BAND_VIOLATION"
  "gate_strategy_live s = Some c \<longleftrightarrow>
     ss_stage s \<noteq> strategy_stage.LIVE \<and> c = STRATEGY_NOT_LIVE_APPROVED"
  "gate_concentration n = Some c \<longleftrightarrow> \<not> concentration_passes n \<and> c = CONCENTRATION_LIMIT_EXCEEDED"
  "gate_liquidity l = Some c \<longleftrightarrow> \<not> liquidity_passes l \<and> c = LIQUIDITY_GATE_FAILED"
  "gate_execution_quality e = Some c \<longleftrightarrow> suspended e \<and> c = EXECUTION_QUALITY_SUSPENDED"
  "gate_reconciliation p = Some c \<longleftrightarrow> \<not> within_tolerance p \<and> c = SECONDARY_FEED_MISMATCH"
  by (simp_all add: if_Some_iff gate_dte_match_def gate_delta_band_def delta_rejection_reason_def
      gate_strategy_live_def stage_rejection_reason_if_not_live_def is_live_def gate_concentration_def
      concentration_rejection_reason_def gate_liquidity_def liquidity_rejection_reason_def
      gate_execution_quality_def quality_rejection_reason_def gate_reconciliation_def
      reconciliation_rejection_reason_def)

lemmas gate_mem_simps = gate_account_mode_mem gate_portfolio_heat_Some gate_protection_Some
  gate_entry_window_Some simple_gates_Some if_Some_iff if_list_mem

text \<open>The collected codes are exactly the violated rules.\<close>

lemma gate_codes_violations:
  assumes "wf_gateway_request r"
  obtains cs where "gate_codes z r = Inr cs" "distinct cs" "set cs = {c. entry_violation z r c}"
proof -
  obtain f where f: "freshness_reason (gr_data_snapshot r) (Aware (gr_as_of r)) (late_zero_dte z r) = Inr f"
    using freshness_reason_total by blast
  have f_range: "c \<notin> {DATA_TIMESTAMP_INVALID, PRICE_STALE, IVR_STALE} \<longrightarrow> f \<noteq> Some c" for c
    using f freshness_reason_range by blast
  have wf: "in_underlying (gr_instrument r) = ci_underlying (gr_candidate r)"
    "wf_drawdown_halt_state (gr_drawdown r)" "wf_multi_leg_plan (gr_multi_leg r)"
    using assms by (auto simp: wf_gateway_request_def gateway_request_guards_def)
  obtain cs where cs: "gate_codes z r = Inr cs" using gate_codes_total by blast
  have "distinct cs"
    using cs by (auto simp: gate_codes_def Let_def bind_res_eq_Inr distinct_add_all)
  moreover have "c \<in> set cs \<longleftrightarrow> entry_violation z r c" for c
  proof -
    have cs': "add_all [] (gate_account_mode (gr_account r) @ ds) = cs \<Longrightarrow>
        c \<in> set cs \<longleftrightarrow> c \<in> set (gate_account_mode (gr_account r)) \<or> c \<in> set ds" for ds
      by auto
    show ?thesis
      using f_range [of c]
      unfolding cs' [OF cs [unfolded gate_codes_def Let_def gate_Aware_simps
            gate_instrument_Aware [OF wf(1)] f bind_res_simps sum.inject]]
        set_append Un_iff opt_list_mem gate_mem_simps gate_drawdown_mem [OF wf(2)]
        gate_multi_leg_None [OF wf(3)]
      by (cases c) (simp_all add: entry_violation_def Let_def f require_spx_feed_coverage_def
          ct_minutes_since_midnight_def)
  qed
  ultimately show ?thesis using cs that by blast
qed

section \<open>Lemmas on the decision\<close>

lemma reject_Inr:
  assumes "cs \<noteq> []"
  obtains a where
    "reject dump r cs = Inr \<lparr>gd_approved = None, gd_rejection = Some a, gd_reason_codes = dict_fromkeys cs\<rparr>"
    "aa_reason_codes a = dict_fromkeys cs" "aa_decision a = ''REJECT''" "aa_created_at a = gr_as_of r"
    "aa_artifact_id a = artifact_id dump r (dict_fromkeys cs)" "wf_audit_artifact a"
  using assms that by (fastforce simp: reject_def Let_def mk_audit_artifact_def
      audit_artifact_guards_def artifact_id_def wf_audit_artifact_def)

lemma catch_value_error_simps [simp]:
  "catch_value_error (Inr a) = Inr (Some a)"
  "catch_value_error (Inl (ValueError m)) = Inr None"
  "catch_value_error (Inl (ValidationError m)) = Inr None"
  by (simp_all add: catch_value_error_def)

lemma catch_construct: "catch_value_error (construct gs x) = Inr (if passes_guards gs then Some x else None)"
  by (auto simp: construct_def passes_guards_def split: option.splits)

lemma catch_mints:
  "\<exists>x. catch_value_error (approve h) = Inr x"
  "\<exists>x. catch_value_error (feed_to_live_token f (Aware t) b) = Inr x"
  "\<exists>x. catch_value_error (stage_to_live_token s) = Inr x"
  by (simp_all add: approve_def mk_approved_portfolio_heat_def catch_construct feed_to_live_token_def
      is_valid_for_live_Aware stage_to_live_token_def mk_live_strategy_token_def)

text \<open>The shape of every decision: an approval without codes or a well-formed REJECT artifact
  with the same non-empty list of codes.\<close>

definition coherent_decision :: "gateway_request \<Rightarrow> gateway_decision \<Rightarrow> bool" where
  "coherent_decision r d \<longleftrightarrow>
     (case (gd_approved d, gd_rejection d) of
        (Some v, None) \<Rightarrow> gd_reason_codes d = []
      | (None, Some a) \<Rightarrow> gd_reason_codes d \<noteq> [] \<and> distinct (gd_reason_codes d) \<and>
          aa_reason_codes a = gd_reason_codes d \<and> aa_decision a = ''REJECT'' \<and>
          aa_created_at a = gr_as_of r \<and> wf_audit_artifact a
      | _ \<Rightarrow> False)"

lemma reject_coherent:
  assumes "cs \<noteq> []"
  shows "\<exists>d. reject dump r cs = Inr d \<and> coherent_decision r d \<and> gd_approved d = None \<and>
    gd_reason_codes d = dict_fromkeys cs"
  by (rule reject_Inr [OF assms, of dump r]) (simp add: coherent_decision_def assms)

lemma approve_request_coherent:
  "\<exists>d. approve_request dump r (Aware t) = Inr d \<and> coherent_decision r d"
proof -
  obtain h f s where h: "catch_value_error (approve (gr_heat r)) = Inr h"
    and f: "catch_value_error (feed_to_live_token (gr_feed_certification r) (Aware t)
      (require_spx_feed_coverage r)) = Inr f"
    and s: "catch_value_error (stage_to_live_token (gr_strategy_stage r)) = Inr s"
    using catch_mints by meson
  have ok: "coherent_decision r \<lparr>gd_approved = Some v, gd_rejection = None, gd_reason_codes = []\<rparr>" for v
    by (simp add: coherent_decision_def)
  obtain d where d: "reject dump r [INTERNAL_CONTRADICTION] = Inr d" "coherent_decision r d"
    using reject_coherent [of "[INTERNAL_CONTRADICTION]" dump r] by blast
  show ?thesis
    by (simp add: approve_request_def h f s mk_validated_trade_intent_def catch_construct d ok
        split: option.split)
qed

lemma gate_codes_Nil_cleared:
  assumes "gate_codes z r = Inr []"
  shows "heat_rejection_reason (gr_heat r) = None"
    and "feed_rejection_reason_as_of (gr_feed_certification r) (Aware (gr_as_of r))
           (require_spx_feed_coverage r) = Inr None"
    and "stage_rejection_reason_if_not_live (gr_strategy_stage r) = None"
    and "short_delta_within_cap (gr_candidate r)"
  using assms by (auto simp: gate_codes_def Let_def bind_res_eq_Inr gate_portfolio_heat_def
      gate_feed_certification_def gate_strategy_live_def gate_delta_band_def delta_rejection_reason_def
      split: if_splits)

text \<open>When every gate is clear all three tokens mint and the validated intent is built: the
  internal contradiction does not occur.\<close>

lemma approve_request_clean:
  assumes "wf_portfolio_heat_check (gr_heat r)" and clean: "gate_codes z r = Inr []"
  obtains h f s where
    "approve_request dump r (Aware (gr_as_of r)) = Inr
       \<lparr>gd_approved = Some \<lparr>vi_status = VALIDATED, vi_candidate = gr_candidate r, vi_approved_heat = h,
          vi_certified_feed = f, vi_live_strategy = s\<rparr>,
        gd_rejection = None, gd_reason_codes = []\<rparr>"
    "approve (gr_heat r) = Inr h"
    "feed_to_live_token (gr_feed_certification r) (Aware (gr_as_of r)) (require_spx_feed_coverage r) = Inr f"
    "stage_to_live_token (gr_strategy_stage r) = Inr s"
proof -
  note cl = gate_codes_Nil_cleared [OF clean]
  obtain h where h: "approve (gr_heat r) = Inr h"
    using heat.cleared_obtains [OF assms(1) cl(1)] by blast
  obtain f where f: "feed_to_live_token (gr_feed_certification r) (Aware (gr_as_of r))
      (require_spx_feed_coverage r) = Inr f"
    using feed.cleared_obtains [of "(gr_feed_certification r, gr_as_of r, require_spx_feed_coverage r)"]
      cl(2) by auto
  obtain s where s: "stage_to_live_token (gr_strategy_stage r) = Inr s"
    using stage.cleared_obtains [OF _ cl(3)] by blast
  show ?thesis
    by (rule that [OF _ h f s])
      (simp add: approve_request_def h f s mk_validated_trade_intent_def validated_trade_intent_guards_def cl(4))
qed

lemma validate_cases:
  assumes "wf_gateway_request r"
  obtains
    (approved) h f s where "gate_codes z r = Inr []"
      "validate z dump r = Inr
         \<lparr>gd_approved = Some \<lparr>vi_status = VALIDATED, vi_candidate = gr_candidate r, vi_approved_heat = h,
            vi_certified_feed = f, vi_live_strategy = s\<rparr>,
          gd_rejection = None, gd_reason_codes = []\<rparr>"
      "approve (gr_heat r) = Inr h"
      "feed_to_live_token (gr_feed_certification r) (Aware (gr_as_of r)) (require_spx_feed_coverage r) = Inr f"
      "stage_to_live_token (gr_strategy_stage r) = Inr s"
      "\<forall>c. \<not> entry_violation z r c"
  | (rejected) cs d where "gate_codes z r = Inr cs" "cs \<noteq> []" "validate z dump r = Inr d"
      "coherent_decision r d" "gd_approved d = None" "gd_reason_codes d = cs"
      "distinct cs" "set cs = {c. entry_violation z r c}" "\<exists>c. entry_violation z r c"
proof -
  obtain cs where cs: "gate_codes z r = Inr cs" "distinct cs" "set cs = {c. entry_violation z r c}"
    using gate_codes_violations [OF assms] by blast
  show ?thesis
  proof (cases "cs = []")
    case True
    have "wf_portfolio_heat_check (gr_heat r)" using assms by (simp add: wf_gateway_request_def)
    moreover have "\<forall>c. \<not> entry_violation z r c" using cs(3) True by auto
    ultimately show ?thesis
      using approve_request_clean [of r z dump] cs(1) True approved by (simp add: validate_def) blast
  next
    case False
    then obtain d where "reject dump r cs = Inr d" "coherent_decision r d" "gd_approved d = None"
      "gd_reason_codes d = dict_fromkeys cs"
      using reject_coherent [of cs dump r] by blast
    moreover have "\<exists>c. entry_violation z r c" using cs(3) False by (cases cs) auto
    ultimately show ?thesis
      using rejected [of cs d] cs False by (simp add: validate_def dict_fromkeys_distinct)
  qed
qed

section \<open>A concrete request\<close>

text \<open>A put credit spread on XSP, two days to expiry, evaluated on 10 June 2026 at 10:30 Central
  (15:30 UTC, offset minus five hours): used to show that the hypotheses of the properties can
  hold.\<close>

definition sample_as_of :: aware where "sample_as_of = utc 1781105400000000"

definition sample_ct_offset :: "int \<Rightarrow> int" where "sample_ct_offset us = - 18000000000"

definition sample_dump :: "gateway_request \<Rightarrow> string" where
  "sample_dump r = ci_rationale_id (gr_candidate r)"

definition sample_leg :: "leg_side \<Rightarrow> int \<Rightarrow> spread_leg" where
  "sample_leg side strike =
     \<lparr>sl_side = side, sl_option_type = PUT, sl_strike = Dec strike 0, sl_delta = Dec (- 8) (- 2),
      sl_contracts = 1\<rparr>"

definition sample_candidate :: candidate_trade_intent where
  "sample_candidate =
     \<lparr>ci_status = CANDIDATE, ci_underlying = underlying.XSP, ci_direction = PUT_CREDIT,
      ci_short_leg = sample_leg SHORT 560, ci_long_leg = sample_leg LONG 555,
      ci_net_credit = Dec 45 (- 2), ci_multiplier = 100, ci_dte = 2, ci_rationale_id = ''cpc-1''\<rparr>"

definition sample_contract :: "int \<Rightarrow> contract_metadata" where
  "sample_contract strike =
     \<lparr>cm_underlying = underlying.XSP, cm_option_symbol = ''XSP'', cm_expiration_date = utc 1781294400000000,
      cm_expiration_time = utc 1781294400000000, cm_last_trading_time = utc 1781294400000000,
      cm_settlement_style = CASH, cm_exercise_style = EUROPEAN, cm_multiplier = 100,
      cm_strike = Dec strike 0, cm_option_type = PUT\<rparr>"

definition sample_feed :: secondary_feed_certification where
  "sample_feed =
     \<lparr>sf_feed = POLYGON, sf_status = CERTIFIED, sf_certified_at = sample_as_of,
      sf_coverage = \<lparr>fc_covers_xsp = True, fc_covers_spx = False, fc_symbol_mapping_consistent = True\<rparr>,
      sf_latency = \<lparr>fl_option_quote_latency_ms = 50, fl_underlying_quote_latency_ms = 50,
        fl_option_latency_threshold_ms = 100, fl_underlying_latency_threshold_ms = 100\<rparr>,
      sf_pending_recertification_triggers = []\<rparr>"

definition sample_request :: gateway_request where
  "sample_request =
     \<lparr>gr_candidate = sample_candidate, gr_as_of = sample_as_of,
      gr_account = \<lparr>ac_account_type = account_type.MARGIN, ac_net_liquidating_value = Dec 50000 0,
        ac_cash_balance = Dec 50000 0, ac_buying_power = Dec 50000 0, ac_day_pnl = Dec 0 0,
        ac_week_pnl = Dec 0 0, ac_trailing_high_water_value = Dec 50000 0\<rparr>,
      gr_heat = \<lparr>ph_sum_defined_max_loss = Dec 455 0, ph_broker_margin_requirement = Dec 500 0,
        ph_net_liquidating_value = Dec 50000 0\<rparr>,
      gr_drawdown = \<lparr>dd_active_tier = drawdown_tier.NONE, dd_triggered_action = None,
        dd_rearm_mode = None, dd_human_rearm_granted = False\<rparr>,
      gr_instrument = \<lparr>in_underlying = underlying.XSP\<rparr>,
      gr_spread_contract = \<lparr>sc_short_contract = sample_contract 560, sc_long_contract = sample_contract 555\<rparr>,
      gr_underlying_policy = \<lparr>up_xsp_enabled = True, up_spx_phase_2_enabled = False,
        up_policy_version = ''v1'', up_source = CONSTITUTION_CONFIG, up_approved_by = None,
        up_effective_at = utc 0, up_expires_at = None\<rparr>,
      gr_data_snapshot = \<lparr>ds_option_quote_ts = sample_as_of, ds_underlying_price_ts = sample_as_of,
        ds_vix_ts = sample_as_of, ds_iv_rank_ts = sample_as_of, ds_iv_rank_inputs_fresh = True,
        ds_iv_rank_value = Dec 85 0\<rparr>,
      gr_reconciliation = \<lparr>pc_broker_option_mid = Dec 45 (- 2), pc_secondary_option_mid = Dec 45 (- 2),
        pc_broker_underlying = Dec 600 0, pc_secondary_underlying = Dec 600 0\<rparr>,
      gr_liquidity = \<lparr>lg_bid = Dec 49 (- 2), lg_ask = Dec 51 (- 2), lg_open_interest = 500,
        lg_top_of_book_size = 20\<rparr>,
      gr_execution_quality = \<lparr>eq_rolling_avg_slippage_usd = Dec 0 0, eq_failed_fill_attempts = 0,
        eq_trades_in_window = 0, eq_rearm_token = None\<rparr>,
      gr_concentration = \<lparr>cn_concurrent_spreads_total = 1, cn_open_spreads_same_expiry = 1,
        cn_same_direction_spreads = 1, cn_is_zero_dte = False, cn_zero_dte_concurrent_spreads = 0,
        cn_zero_dte_same_direction_spreads = 0, cn_aggregate_short_delta_abs = Dec 8 (- 2),
        cn_aggregate_gamma_notional_pct_equity = Dec 1 0\<rparr>,
      gr_protection = \<lparr>ps_long_leg_confirmed = True, ps_broker_native_stop_present = False,
        ps_agent_managed_stop_only = False, ps_is_emergency_close = False\<rparr>,
      gr_multi_leg = \<lparr>ml_broker_confirms_atomic_combo = True, ml_legging = False, ml_long_leg_first = True\<rparr>,
      gr_strategy_stage = \<lparr>ss_stage = strategy_stage.LIVE\<rparr>,
      gr_feed_certification = sample_feed,
      gr_event_calendar = \<lparr>ec_blackouts = []\<rparr>\<rparr>"

lemma sample_request_wf: "wf_gateway_request sample_request"
  unfolding wf_gateway_request_def by (intro conjI; code_simp)

lemma sample_request_clean: "gate_codes sample_ct_offset sample_request = Inr []"
  by code_simp

lemma approvedD:
  assumes "wf_gateway_request r" and "validate z dump r = Inr d" and "gd_approved d = Some v"
  shows "\<not> entry_violation z r c"
    and "vi_candidate v = gr_candidate r"
    and "approve (gr_heat r) = Inr (vi_approved_heat v)"
    and "stage_to_live_token (gr_strategy_stage r) = Inr (vi_live_strategy v)"
    and "vi_status v = VALIDATED"
  using assms(2,3)
  by (cases rule: validate_cases [OF assms(1), of z dump]; force)+

lemma approved_rules:
  assumes "wf_gateway_request r" and "validate z dump r = Inr d" and "gd_approved d = Some v"
  shows "short_delta_within_cap (gr_candidate r)" "heat_passes (gr_heat r)"
    "minutes_since_midnight z (gr_as_of r) \<in> {585 ..< 780}"
    "b \<in> set (ec_blackouts (gr_event_calendar r)) \<Longrightarrow>
       at_us (gr_as_of r) < at_us (eb_window_start b) \<or>
       at_us (effective_block_end b) < at_us (gr_as_of r)"
    "freshness_reason (gr_data_snapshot r) (Aware (gr_as_of r)) (late_zero_dte z r) = Inr None"
    "feed_certified (gr_feed_certification r) (gr_as_of r) (ci_underlying (gr_candidate r) = underlying.SPX)"
    "policy_permits (gr_underlying_policy r) (ci_underlying (gr_candidate r)) (gr_as_of r)"
proof -
  note no = approvedD(1) [OF assms]
  show "short_delta_within_cap (gr_candidate r)" "heat_passes (gr_heat r)"
    "minutes_since_midnight z (gr_as_of r) \<in> {585 ..< 780}"
    using no [of DELTA_BAND_VIOLATION] no [of HEAT_LIMIT_EXCEEDED] no [of BUYING_POWER_LIMIT_EXCEEDED]
      no [of ENTRY_WINDOW_CLOSED] by (auto simp: entry_violation_def Let_def heat_passes_def)
  show "feed_certified (gr_feed_certification r) (gr_as_of r) (ci_underlying (gr_candidate r) = underlying.SPX)"
    "policy_permits (gr_underlying_policy r) (ci_underlying (gr_candidate r)) (gr_as_of r)"
    using no [of reason_code.SECONDARY_FEED_NOT_CERTIFIED] no [of INSTRUMENT_NOT_PERMITTED]
    by (auto simp: entry_violation_def Let_def)
  show "b \<in> set (ec_blackouts (gr_event_calendar r)) \<Longrightarrow>
       at_us (gr_as_of r) < at_us (eb_window_start b) \<or> at_us (effective_block_end b) < at_us (gr_as_of r)"
    using no [of EVENT_BLACKOUT_ACTIVE] by (auto simp: entry_violation_def Let_def)
  obtain f where f: "freshness_reason (gr_data_snapshot r) (Aware (gr_as_of r)) (late_zero_dte z r) = Inr f"
    using freshness_reason_total by blast
  moreover have "f \<noteq> Some c" for c
    using f no [of c] freshness_reason_range [of "gr_data_snapshot r" "gr_as_of r" "late_zero_dte z r" c]
    by (auto simp: entry_violation_def Let_def)
  ultimately show "freshness_reason (gr_data_snapshot r) (Aware (gr_as_of r)) (late_zero_dte z r) = Inr None"
    by (cases f) auto
qed

lemma approved_wf:
  assumes "wf_gateway_request r" and "validate ct_offset dump r = Inr d" and "gd_approved d = Some v"
  shows "wf_validated_trade_intent v" "lt_stage (vi_live_strategy v) = strategy_stage.LIVE"
    "ss_stage (gr_strategy_stage r) = strategy_stage.LIVE"
proof -
  note a = approvedD [OF assms] and rules = approved_rules [OF assms]
  have wf: "wf_candidate_trade_intent (gr_candidate r)" "wf_portfolio_heat_check (gr_heat r)"
    using assms(1) by (simp_all add: wf_gateway_request_def)
  have heat: "wf_approved_portfolio_heat (vi_approved_heat v)"
    using heat.mint_grants [OF wf(2) a(3)] by simp
  show stage: "lt_stage (vi_live_strategy v) = strategy_stage.LIVE"
    "ss_stage (gr_strategy_stage r) = strategy_stage.LIVE"
    using stage.mint_grants [OF _ a(4)] by simp_all
  show "wf_validated_trade_intent v"
    using wf(1) heat stage(1) rules(1) a(2,5)
    by (simp add: wf_validated_trade_intent_def validated_trade_intent_guards_def
        wf_live_strategy_token_def live_strategy_token_guards_def)
qed

lemma sample_validate:
  obtains d v where "validate sample_ct_offset sample_dump sample_request = Inr d" "gd_approved d = Some v"
  by (cases rule: validate_cases [OF sample_request_wf, of sample_ct_offset sample_dump])
    (auto simp: sample_request_clean)

section \<open>Properties\<close>

text \<open>Every pre-trade validation returns a coherent decision and never raises: exactly one
  of an approval and a REJECT artifact, and the artifact is well formed and carries the same
  distinct, non-empty reason codes as the decision.\<close>

theorem validate_always_decides:
  "\<exists>d. validate ct_offset dump r = Inr d \<and> coherent_decision r d"
proof -
  obtain cs where "gate_codes ct_offset r = Inr cs" using gate_codes_total by blast
  then show ?thesis
    using reject_coherent [of cs dump r] approve_request_coherent [of dump r "gr_as_of r"]
    by (cases "cs = []") (auto simp: validate_def)
qed

text \<open>C1. On a well-formed request the reason codes of the decision are exactly the violated
  rules of the specification, each once, and the request is approved if and only if no rule is
  violated; in particular the internal contradiction is never reported.\<close>

theorem validate_implements_rules:
  assumes "wf_gateway_request r"
  shows "\<exists>d. validate ct_offset dump r = Inr d \<and> distinct (gd_reason_codes d) \<and>
    set (gd_reason_codes d) = {c. entry_violation ct_offset r c} \<and>
    (is_approved d \<longleftrightarrow> {c. entry_violation ct_offset r c} = {}) \<and>
    INTERNAL_CONTRADICTION \<notin> set (gd_reason_codes d)"
proof -
  have "\<not> entry_violation ct_offset r INTERNAL_CONTRADICTION"
    using freshness_reason_range [of "gr_data_snapshot r" "gr_as_of r"]
    by (auto simp: entry_violation_def Let_def)
  then show ?thesis
    by (cases rule: validate_cases [OF assms, of ct_offset dump])
      (auto simp: is_approved_def)
qed

theorem validate_implements_rules_witness:
  "\<exists>d. validate sample_ct_offset sample_dump sample_request = Inr d \<and> distinct (gd_reason_codes d) \<and>
    set (gd_reason_codes d) = {c. entry_violation sample_ct_offset sample_request c} \<and>
    (is_approved d \<longleftrightarrow> {c. entry_violation sample_ct_offset sample_request c} = {}) \<and>
    INTERNAL_CONTRADICTION \<notin> set (gd_reason_codes d)"
  by (rule validate_implements_rules [OF sample_request_wf])

text \<open>C3. An approved intent is the candidate of the request with defined risk: its tokens are
  well formed and live, the maximal loss is positive, the long leg protects the short one, the
  short delta is at most 0.10, the account's summed maximal loss is at most 6 percent and its
  margin requirement at most 35 percent of net liquidating value, up to the rounding of 28-digit
  decimals.\<close>

theorem approved_intent_bounded_risk:
  assumes "wf_gateway_request r" and "validate ct_offset dump r = Inr d" and "gd_approved d = Some v"
  shows "wf_validated_trade_intent v \<and> vi_candidate v = gr_candidate r \<and>
    ss_stage (gr_strategy_stage r) = strategy_stage.LIVE \<and> 0 < max_loss (gr_candidate r) \<and>
    (let s = dval (sl_strike (ci_short_leg (gr_candidate r)));
         l = dval (sl_strike (ci_long_leg (gr_candidate r)))
     in if ci_direction (gr_candidate r) = PUT_CREDIT then l < s else s < l) \<and>
    \<bar>dval (sl_delta (ci_short_leg (gr_candidate r)))\<bar> * (1 - 1 / (2 * 10 ^ 27)) \<le> 1 / 10 \<and>
    dval (ph_sum_defined_max_loss (gr_heat r)) * 100 * slack \<le> 6 * dval (ph_net_liquidating_value (gr_heat r)) \<and>
    dval (ph_broker_margin_requirement (gr_heat r)) * 100 * slack
      \<le> 35 * dval (ph_net_liquidating_value (gr_heat r))"
proof -
  note a = approvedD [OF assms] and rules = approved_rules [OF assms]
  have wf: "wf_candidate_trade_intent (gr_candidate r)" "wf_portfolio_heat_check (gr_heat r)"
    using assms(1) by (simp_all add: wf_gateway_request_def)
  note v = approved_wf(1) [OF assms] and stage = approved_wf(2,3) [OF assms]
  show ?thesis
    using v a(2) stage(2) max_loss_pos [OF wf(1)] wf_candidate_strikes [OF wf(1)]
      delta_cap_exact [OF rules(1)] heat_passes_bounds [OF wf(2) rules(2)]
    unfolding Let_def by (intro conjI)
qed

theorem approved_intent_bounded_risk_witness:
  "\<exists>d v. validate sample_ct_offset sample_dump sample_request = Inr d \<and> gd_approved d = Some v \<and>
     wf_validated_trade_intent v \<and> 0 < max_loss sample_candidate"
proof -
  obtain d v where dv: "validate sample_ct_offset sample_dump sample_request = Inr d" "gd_approved d = Some v"
    by (rule sample_validate)
  then show ?thesis
    using approved_intent_bounded_risk [OF sample_request_wf dv] by (auto simp: sample_request_def)
qed

text \<open>C11. An approval is never given on data from the future, nor on data older than the
  freshness limit plus one millisecond: 1000 ms for the option quote (500 ms after 14:00 Central on
  the day of expiry), 500 ms for the underlying, 5 s for VIX, 10 s for IV rank.\<close>

theorem approved_on_fresh_data:
  assumes "wf_gateway_request r" and "validate ct_offset dump r = Inr d" and "gd_approved d = Some v"
  shows "let s = gr_data_snapshot r; age = (\<lambda>ts. elapsed ts (gr_as_of r)) in
    age (ds_option_quote_ts s) \<in> {0 .. (if late_zero_dte ct_offset r then 501000 else 1001000)} \<and>
    age (ds_underlying_price_ts s) \<in> {0 .. 501000} \<and>
    age (ds_vix_ts s) \<in> {0 .. 5001000} \<and>
    age (ds_iv_rank_ts s) \<in> {0 .. 10001000} \<and> ds_iv_rank_inputs_fresh s"
proof -
  note fresh = approved_rules(5) [OF assms, unfolded freshness_reason_None_iff]
  show ?thesis
    using fresh elapsed_ms_le_imp [of _ 500] elapsed_ms_le_imp [of _ 1000]
      elapsed_ms_le_imp [of _ 5000] elapsed_ms_le_imp [of _ 10000]
    by (auto simp: Let_def split: if_splits)
qed

theorem approved_on_fresh_data_witness:
  "elapsed (ds_option_quote_ts (gr_data_snapshot sample_request)) (gr_as_of sample_request) \<in> {0 .. 1001000}"
proof -
  obtain d v where dv: "validate sample_ct_offset sample_dump sample_request = Inr d" "gd_approved d = Some v"
    by (rule sample_validate)
  then show ?thesis
    using approved_on_fresh_data [OF sample_request_wf dv] by (auto simp: Let_def split: if_splits)
qed

text \<open>An approval falls inside the entry window, outside every macro-event window and its
  trailing block, within thirty days of the feed certification, and under an active policy; an
  approval of SPX needs a policy that names a human approver and a feed that covers SPX.\<close>

theorem approved_at_permitted_time:
  assumes "wf_gateway_request r" and "validate ct_offset dump r = Inr d" and "gd_approved d = Some v"
  shows "minutes_since_midnight ct_offset (gr_as_of r) \<in> {585 ..< 780} \<and>
    list_all (\<lambda>b. at_us (gr_as_of r) < at_us (eb_window_start b) \<or>
                  at_us (eb_window_end b) < at_us (gr_as_of r) \<and>
                  (eb_event b \<in> {CPI_RELEASE, NFP_RELEASE} \<longrightarrow>
                     at_us (eb_window_end b) + 30 * us_per_min < at_us (gr_as_of r)) \<and>
                  (eb_event b = FED_CHAIR_SPEECH \<longrightarrow>
                     at_us (eb_window_end b) + 15 * us_per_min < at_us (gr_as_of r)))
             (ec_blackouts (gr_event_calendar r)) \<and>
    at_us (gr_as_of r) \<le> at_us (sf_certified_at (gr_feed_certification r)) + 30 * us_per_day \<and>
    (ci_underlying (gr_candidate r) = underlying.SPX \<longrightarrow>
       up_source (gr_underlying_policy r) = HUMAN_APPROVED_CONFIG \<and>
       truthy (up_approved_by (gr_underlying_policy r)) \<and>
       fc_covers_spx (sf_coverage (gr_feed_certification r)))"
proof -
  note rules = approved_rules [OF assms]
  have "at_us (eb_window_end b) < t \<and>
      (eb_event b \<in> {CPI_RELEASE, NFP_RELEASE} \<longrightarrow> at_us (eb_window_end b) + 30 * us_per_min < t) \<and>
      (eb_event b = FED_CHAIR_SPEECH \<longrightarrow> at_us (eb_window_end b) + 15 * us_per_min < t)"
    if "at_us (effective_block_end b) < t" for b t
    using that effective_block_end_extends [of b]
    by (auto simp: effective_block_end_def POST_RELEASE_BLOCK_MIN_def FED_SPEECH_TRAILING_MIN_def)
  moreover have "wf_allowed_underlying_policy (gr_underlying_policy r)"
    using assms(1) by (simp add: wf_gateway_request_def)
  moreover have "permission_reason (gr_underlying_policy r) (ci_underlying (gr_candidate r))
      (Aware (gr_as_of r)) = Inr None"
    using rules(7) by (simp add: permission_reason_Aware policy_permits_def)
  ultimately show ?thesis
    using rules(3,4,6) spx_needs_human [of "gr_underlying_policy r" "Aware (gr_as_of r)"]
    by (auto simp: list_all_iff feed_certified_def)
qed

theorem approved_at_permitted_time_witness:
  "minutes_since_midnight sample_ct_offset (gr_as_of sample_request) \<in> {585 ..< 780}"
proof -
  obtain d v where dv: "validate sample_ct_offset sample_dump sample_request = Inr d" "gd_approved d = Some v"
    by (rule sample_validate)
  then show ?thesis
    using approved_at_permitted_time [OF sample_request_wf dv] by blast
qed

end
