(* ===== verification/Routing.thy ===== *)
theory Routing
  imports Gateway
begin

text \<open>
  From a validated intent to an order ticket: the order-type policy
  (\<open>schemas/order_type_policy.py\<close>), the ticket and its routed legs
  (\<open>schemas/order_ticket.py\<close>) and the deterministic routing
  (\<open>gateway/order_routing.py\<close>).
\<close>

text \<open>An argument that the code tests with \<open>isinstance\<close>: an instance of the expected
  class, or some other object, of which only the type name is kept.\<close>

datatype 'a dyn = Inst 'a | NotInst string

section \<open>Order-type policy\<close>

record order_type_policy =
  op_state :: emergency_state
  op_llm_may_request_market_order :: bool

definition order_type_policy_guards :: "order_type_policy \<Rightarrow> (bool \<times> string) list" where
  "order_type_policy_guards p =
     [(op_llm_may_request_market_order p, ''llm_may_request_market_order must be False'')]"

definition wf_order_type_policy :: "order_type_policy \<Rightarrow> bool" where
  [wf_defs]: "wf_order_type_policy p \<longleftrightarrow> passes_guards (order_type_policy_guards p)"

definition policy_market_orders_allowed :: "order_type_policy \<Rightarrow> bool" where
  "policy_market_orders_allowed p \<longleftrightarrow> market_orders_allowed (op_state p)"

definition policy_resolve_order_type :: "order_type_policy \<Rightarrow> order_type" where
  "policy_resolve_order_type p =
     (if op_state p = emergency_state.NORMAL then order_type.LIMIT else order_type.MARKET)"

definition allowed_order_types :: "order_type_policy \<Rightarrow> order_type set" where
  "allowed_order_types p =
     (if op_state p = emergency_state.NORMAL then {order_type.LIMIT}
      else {order_type.LIMIT, order_type.MARKET})"

definition market_required :: "order_type_policy \<Rightarrow> bool" where
  "market_required p = False"

definition market_order_rejection_reason :: "order_type_policy \<Rightarrow> order_type \<Rightarrow> reason_code option" where
  "market_order_rejection_reason p requested =
     (if requested = order_type.MARKET \<and> \<not> policy_market_orders_allowed p
      then Some BROKEN_SPREAD_STATE else None)"

section \<open>Order tickets\<close>

datatype route_mode =
    NORMAL
  | EMERGENCY
  | BROKEN_SPREAD
  | FORCED_LIQUIDATION

datatype order_leg_role = LONG_PROTECTIVE | SHORT_RISK

record order_leg =
  ol_role :: order_leg_role
  ol_source_leg :: spread_leg
  ol_sequence :: int

definition order_leg_guards :: "order_leg \<Rightarrow> (bool \<times> string) list" where
  "order_leg_guards l =
     [(ol_sequence l \<le> 0, ''sequence''),
      (ol_role l = LONG_PROTECTIVE \<and> sl_side (ol_source_leg l) \<noteq> LONG,
       ''LONG_PROTECTIVE route leg must reference the candidate long leg''),
      (ol_role l = SHORT_RISK \<and> sl_side (ol_source_leg l) \<noteq> SHORT,
       ''SHORT_RISK route leg must reference the candidate short leg'')]"

definition mk_order_leg :: "order_leg \<Rightarrow> order_leg res" where
  "mk_order_leg l = construct (order_leg_guards l) l"

definition wf_order_leg :: "order_leg \<Rightarrow> bool" where
  [wf_defs]: "wf_order_leg l \<longleftrightarrow> passes_guards (order_leg_guards l) \<and> wf_spread_leg (ol_source_leg l)"

record order_route_decision =
  od_approved :: bool
  od_order_type :: "order_type option"
  od_route_mode :: route_mode
  od_combo_preferred :: bool
  od_broker_native_combo_required :: bool
  od_reason_codes :: "reason_code list"

definition order_route_decision_guards :: "order_route_decision \<Rightarrow> (bool \<times> string) list" where
  "order_route_decision_guards d =
     (od_broker_native_combo_required d \<and> \<not> od_combo_preferred d,
      ''broker_native_combo_required implies combo_preferred'') #
     (if od_approved d
      then [(od_order_type d = None, ''approved route decisions must resolve an order_type''),
            (od_reason_codes d \<noteq> [], ''approved route decisions cannot carry rejection reason_codes'')]
      else [(od_order_type d \<noteq> None, ''rejected route decisions cannot resolve an order_type''),
            (od_reason_codes d = [], ''rejected route decisions require at least one reason_code'')])"

definition mk_order_route_decision :: "order_route_decision \<Rightarrow> order_route_decision res" where
  "mk_order_route_decision d = construct (order_route_decision_guards d) d"

definition wf_order_route_decision :: "order_route_decision \<Rightarrow> bool" where
  [wf_defs]: "wf_order_route_decision d \<longleftrightarrow> passes_guards (order_route_decision_guards d)"

record order_ticket =
  ot_status :: intent_status
  ot_validated_intent :: validated_trade_intent
  ot_created_at :: aware
  ot_order_type :: order_type
  ot_policy :: order_type_policy
  ot_route_decision :: "order_route_decision option"
  ot_legs :: "order_leg list"

definition leg_ordering_guards :: "order_leg list \<Rightarrow> (bool \<times> string) list" where
  "leg_ordering_guards legs =
     (let roles = map ol_role legs; ordered = sort_key ol_sequence legs in
     [(legs = [], ''OrderTicket requires routed legs''),
      (count_list roles LONG_PROTECTIVE \<noteq> 1, ''OrderTicket requires exactly one LONG_PROTECTIVE leg''),
      (count_list roles SHORT_RISK \<noteq> 1, ''OrderTicket requires exactly one SHORT_RISK leg''),
      (ol_role (hd ordered) = SHORT_RISK, ''short-risk leg cannot route before long-protective leg'')])"

definition order_ticket_guards :: "order_ticket \<Rightarrow> (bool \<times> string) list" where
  "order_ticket_guards t =
     [(ot_status t \<noteq> TICKETED, ''OrderTicket.status must be TICKETED''),
      (ot_order_type t \<notin> allowed_order_types (ot_policy t), ''order_type not permitted in state''),
      (case ot_route_decision t of None \<Rightarrow> False | Some d \<Rightarrow> \<not> od_approved d, ''route_decision rejected''),
      (case ot_route_decision t of None \<Rightarrow> False | Some d \<Rightarrow> od_order_type d \<noteq> Some (ot_order_type t),
       ''OrderTicket.order_type must match route_decision.order_type'')] @
     leg_ordering_guards (ot_legs t)"

definition mk_order_ticket :: "order_ticket \<Rightarrow> order_ticket res" where
  "mk_order_ticket t = construct (order_ticket_guards t) t"

definition wf_order_ticket :: "order_ticket \<Rightarrow> bool" where
  [wf_defs]: "wf_order_ticket t \<longleftrightarrow>
     passes_guards (order_ticket_guards t) \<and> wf_validated_trade_intent (ot_validated_intent t) \<and>
     wf_order_type_policy (ot_policy t) \<and> list_all wf_order_leg (ot_legs t) \<and>
     (case ot_route_decision t of None \<Rightarrow> True | Some d \<Rightarrow> wf_order_route_decision d)"

section \<open>Routing\<close>

definition route_mode_for_state :: "emergency_state \<Rightarrow> route_mode" where
  "route_mode_for_state st =
     (if st = emergency_state.NORMAL then route_mode.NORMAL
      else if st = emergency_state.BROKEN_SPREAD then route_mode.BROKEN_SPREAD
      else if st = emergency_state.FORCED_LIQUIDATION then route_mode.FORCED_LIQUIDATION
      else EMERGENCY)"

record order_routing_state =
  rs_route_mode :: route_mode
  rs_order_type_policy :: order_type_policy
  rs_broker_native_combo_available :: bool
  rs_deterministic_market_order_allowed :: bool
  rs_requested_order_type :: "order_type option"

definition order_routing_state_guards :: "order_routing_state \<Rightarrow> (bool \<times> string) list" where
  "order_routing_state_guards s =
     [(rs_route_mode s \<noteq> route_mode_for_state (op_state (rs_order_type_policy s)),
       ''route_mode does not match policy state''),
      (rs_route_mode s = route_mode.NORMAL \<and> rs_deterministic_market_order_allowed s,
       ''deterministic_market_order_allowed requires non-NORMAL route_mode'')]"

definition mk_order_routing_state :: "order_routing_state \<Rightarrow> order_routing_state res" where
  "mk_order_routing_state s = construct (order_routing_state_guards s) s"

definition wf_order_routing_state :: "order_routing_state \<Rightarrow> bool" where
  [wf_defs]: "wf_order_routing_state s \<longleftrightarrow>
     passes_guards (order_routing_state_guards s) \<and> wf_order_type_policy (rs_order_type_policy s)"

definition resolve_order_type :: "order_routing_state \<Rightarrow> order_type" where
  "resolve_order_type s =
     (if rs_route_mode s \<noteq> route_mode.NORMAL \<and> rs_deterministic_market_order_allowed s \<and>
         policy_market_orders_allowed (rs_order_type_policy s)
      then order_type.MARKET else order_type.LIMIT)"

definition rejected_route :: "order_routing_state \<Rightarrow> reason_code \<Rightarrow> order_route_decision res" where
  "rejected_route s code = mk_order_route_decision
     \<lparr>od_approved = False, od_order_type = None, od_route_mode = rs_route_mode s,
      od_combo_preferred = rs_broker_native_combo_available s,
      od_broker_native_combo_required = False, od_reason_codes = [code]\<rparr>"

definition decide_order_route ::
  "validated_trade_intent dyn \<Rightarrow> order_routing_state \<Rightarrow> order_route_decision res" where
  "decide_order_route v s =
     (case v of
        NotInst _ \<Rightarrow> rejected_route s INTERNAL_CONTRADICTION
      | Inst _ \<Rightarrow>
          if rs_requested_order_type s = Some order_type.MARKET then rejected_route s BROKEN_SPREAD_STATE
          else
            let ty = resolve_order_type s in
            if ty \<notin> allowed_order_types (rs_order_type_policy s) then rejected_route s BROKEN_SPREAD_STATE
            else mk_order_route_decision
              \<lparr>od_approved = True, od_order_type = Some ty, od_route_mode = rs_route_mode s,
               od_combo_preferred = rs_broker_native_combo_available s,
               od_broker_native_combo_required = rs_broker_native_combo_available s,
               od_reason_codes = []\<rparr>)"

definition ordered_legs :: "validated_trade_intent \<Rightarrow> order_leg list res" where
  "ordered_legs v =
     bind_res (mk_order_leg \<lparr>ol_role = LONG_PROTECTIVE, ol_source_leg = ci_long_leg (vi_candidate v),
                             ol_sequence = 1\<rparr>) (\<lambda>a.
     bind_res (mk_order_leg \<lparr>ol_role = SHORT_RISK, ol_source_leg = ci_short_leg (vi_candidate v),
                             ol_sequence = 2\<rparr>) (\<lambda>b. Inr [a, b]))"

text \<open>\<open>now\<close> is the clock reading of \<open>datetime.now(tz=timezone.utc)\<close>, used when no
  creation time is given; a naive creation time fails the \<open>AwareDatetime\<close> field.\<close>

definition mint_order_ticket ::
  "aware \<Rightarrow> validated_trade_intent dyn \<Rightarrow> order_routing_state \<Rightarrow> datetime option \<Rightarrow> order_ticket res" where
  "mint_order_ticket now v s created_at =
     (case v of
        NotInst _ \<Rightarrow> Inl (TypeError ''OrderTicket minting requires a ValidatedTradeIntent'')
      | Inst vi \<Rightarrow>
          bind_res (decide_order_route v s) (\<lambda>decision.
          if \<not> od_approved decision then Inl (ValueError ''cannot mint OrderTicket from rejected route'')
          else case od_order_type decision of
              None \<Rightarrow> Inl (ValueError ''approved route decision must carry an order_type'')
            | Some ty \<Rightarrow>
                bind_res (ordered_legs vi) (\<lambda>legs.
                let build = (\<lambda>ts. mk_order_ticket
                  \<lparr>ot_status = TICKETED, ot_validated_intent = vi, ot_created_at = ts, ot_order_type = ty,
                   ot_policy = rs_order_type_policy s, ot_route_decision = Some decision,
                   ot_legs = legs\<rparr>)
                in case created_at of
                     None \<Rightarrow> build now
                   | Some (Aware ts) \<Rightarrow> build ts
                   | Some (Naive _) \<Rightarrow> Inl (ValidationError ''created_at''))))"

section \<open>Lemmas\<close>

lemma resolve_order_type_allowed:
  "resolve_order_type s \<in> allowed_order_types (rs_order_type_policy s)"
  by (auto simp: resolve_order_type_def allowed_order_types_def policy_market_orders_allowed_def
      market_orders_allowed_def)

lemma decide_order_route_Inst:
  "decide_order_route (Inst v) s = Inr (
     if rs_requested_order_type s = Some order_type.MARKET
     then \<lparr>od_approved = False, od_order_type = None, od_route_mode = rs_route_mode s,
           od_combo_preferred = rs_broker_native_combo_available s,
           od_broker_native_combo_required = False, od_reason_codes = [BROKEN_SPREAD_STATE]\<rparr>
     else \<lparr>od_approved = True, od_order_type = Some (resolve_order_type s), od_route_mode = rs_route_mode s,
           od_combo_preferred = rs_broker_native_combo_available s,
           od_broker_native_combo_required = rs_broker_native_combo_available s, od_reason_codes = []\<rparr>)"
  by (simp add: decide_order_route_def rejected_route_def Let_def resolve_order_type_allowed
      mk_order_route_decision_def order_route_decision_guards_def)

lemma ordered_legs_eq:
  assumes "wf_validated_trade_intent v"
  shows "ordered_legs v = Inr
    [\<lparr>ol_role = LONG_PROTECTIVE, ol_source_leg = ci_long_leg (vi_candidate v), ol_sequence = 1\<rparr>,
     \<lparr>ol_role = SHORT_RISK, ol_source_leg = ci_short_leg (vi_candidate v), ol_sequence = 2\<rparr>]"
  using assms wf_candidateD(5,6) [of "vi_candidate v"]
  by (simp add: ordered_legs_def mk_order_leg_def order_leg_guards_def wf_validated_trade_intent_def)

definition routed_ticket :: "aware \<Rightarrow> validated_trade_intent \<Rightarrow> order_routing_state \<Rightarrow> order_ticket" where
  "routed_ticket ts v s =
     \<lparr>ot_status = TICKETED, ot_validated_intent = v, ot_created_at = ts,
      ot_order_type = resolve_order_type s, ot_policy = rs_order_type_policy s,
      ot_route_decision = Some
        \<lparr>od_approved = True, od_order_type = Some (resolve_order_type s), od_route_mode = rs_route_mode s,
         od_combo_preferred = rs_broker_native_combo_available s,
         od_broker_native_combo_required = rs_broker_native_combo_available s, od_reason_codes = []\<rparr>,
      ot_legs =
        [\<lparr>ol_role = LONG_PROTECTIVE, ol_source_leg = ci_long_leg (vi_candidate v), ol_sequence = 1\<rparr>,
         \<lparr>ol_role = SHORT_RISK, ol_source_leg = ci_short_leg (vi_candidate v), ol_sequence = 2\<rparr>]\<rparr>"

lemma routed_ticket_guards: "passes_guards (order_ticket_guards (routed_ticket ts v s))"
  by (simp add: order_ticket_guards_def routed_ticket_def resolve_order_type_allowed leg_ordering_guards_def)

lemma wf_routed_ticket:
  assumes "wf_validated_trade_intent v" and "wf_order_routing_state s"
  shows "wf_order_ticket (routed_ticket ts v s)"
proof -
  have "wf_candidate_trade_intent (vi_candidate v)"
    using assms(1) by (simp add: wf_validated_trade_intent_def)
  then have "list_all wf_order_leg (ot_legs (routed_ticket ts v s))"
    using wf_candidateD(5,6) [of "vi_candidate v"]
    by (auto simp: routed_ticket_def wf_order_leg_def order_leg_guards_def wf_candidate_trade_intent_def)
  then show ?thesis
    using assms routed_ticket_guards [of ts v s] unfolding wf_order_ticket_def
    by (simp add: wf_order_routing_state_def wf_order_route_decision_def order_route_decision_guards_def
        routed_ticket_def)
qed

lemma mint_order_ticket_Inst:
  assumes "wf_validated_trade_intent v"
  shows "mint_order_ticket now (Inst v) s (Some (Aware ts)) =
    (if rs_requested_order_type s = Some order_type.MARKET
     then Inl (ValueError ''cannot mint OrderTicket from rejected route'')
     else Inr (routed_ticket ts v s))"
  using routed_ticket_guards [of ts v s]
  by (simp add: mint_order_ticket_def decide_order_route_Inst ordered_legs_eq [OF assms] mk_order_ticket_def
      routed_ticket_def Let_def)

lemma mint_order_ticket_now:
  "mint_order_ticket now v s None = mint_order_ticket now v s (Some (Aware now))"
  by (simp only: mint_order_ticket_def Let_def option.case datetime.case)

lemma resolve_order_type_exact:
  assumes "wf_order_routing_state s"
  shows "resolve_order_type s =
    (if rs_deterministic_market_order_allowed s \<and>
        op_state (rs_order_type_policy s) \<in> {emergency_state.BROKEN_SPREAD,
          emergency_state.EMERGENCY_RISK_REDUCTION, emergency_state.FORCED_LIQUIDATION}
     then order_type.MARKET else order_type.LIMIT)"
  using assms
  by (cases "op_state (rs_order_type_policy s)")
    (auto simp: resolve_order_type_def policy_market_orders_allowed_def market_orders_allowed_def
      wf_order_routing_state_def order_routing_state_guards_def route_mode_for_state_def)

section \<open>Properties\<close>

text \<open>C18. Ticket minting, exactly. From a well-formed validated intent a ticket is minted in
  every routing state unless a MARKET order was requested, which is refused. The ticket is well
  formed and carries the intent, the policy and the approved route decision of the routing state.
  Its order type is MARKET exactly when deterministic code allows market orders and the policy is
  in one of the three emergency states, and LIMIT otherwise; its legs are the candidate's two legs
  with the protective long leg sequenced before the short one and the same number of contracts.
  The legs do not depend on the order type: a MARKET ticket carries both legs, the short one
  included, in BROKEN_SPREAD as in the other emergency states. CONSTITUTION.md section 7 and
  \<open>schemas/enums.py\<close> permit a market order in BROKEN_SPREAD for the risk-reduction leg only;
  \<open>mint_order_ticket\<close> does not enforce that restriction (listed as a finding).\<close>

theorem minted_ticket_is_exact:
  assumes "wf_validated_trade_intent v" and "wf_order_routing_state s"
  shows "if rs_requested_order_type s = Some order_type.MARKET
    then mint_order_ticket now (Inst v) s (Some (Aware ts)) =
      Inl (ValueError ''cannot mint OrderTicket from rejected route'')
    else \<exists>t long short.
      mint_order_ticket now (Inst v) s (Some (Aware ts)) = Inr t \<and> wf_order_ticket t \<and>
      ot_validated_intent t = v \<and> ot_created_at t = ts \<and> ot_policy t = rs_order_type_policy s \<and>
      ot_order_type t =
        (if rs_deterministic_market_order_allowed s \<and>
            op_state (rs_order_type_policy s) \<in> {emergency_state.BROKEN_SPREAD,
              emergency_state.EMERGENCY_RISK_REDUCTION, emergency_state.FORCED_LIQUIDATION}
         then order_type.MARKET else order_type.LIMIT) \<and>
      ot_route_decision t = Some
        \<lparr>od_approved = True, od_order_type = Some (ot_order_type t), od_route_mode = rs_route_mode s,
         od_combo_preferred = rs_broker_native_combo_available s,
         od_broker_native_combo_required = rs_broker_native_combo_available s, od_reason_codes = []\<rparr> \<and>
      ot_legs t = [long, short] \<and>
      ol_role long = LONG_PROTECTIVE \<and> ol_role short = SHORT_RISK \<and> ol_sequence long < ol_sequence short \<and>
      ol_source_leg long = ci_long_leg (vi_candidate v) \<and> ol_source_leg short = ci_short_leg (vi_candidate v) \<and>
      sl_contracts (ol_source_leg long) = sl_contracts (ol_source_leg short)"
proof -
  let ?t = "routed_ticket ts v s"
  have same: "sl_contracts (ci_long_leg (vi_candidate v)) = sl_contracts (ci_short_leg (vi_candidate v))"
    using assms(1) wf_candidateD(9) by (simp add: wf_validated_trade_intent_def)
  have t: "ot_validated_intent ?t = v" "ot_created_at ?t = ts" "ot_policy ?t = rs_order_type_policy s"
    "ot_order_type ?t = resolve_order_type s"
    "ot_legs ?t = [\<lparr>ol_role = LONG_PROTECTIVE, ol_source_leg = ci_long_leg (vi_candidate v), ol_sequence = 1\<rparr>,
       \<lparr>ol_role = SHORT_RISK, ol_source_leg = ci_short_leg (vi_candidate v), ol_sequence = 2\<rparr>]"
    "ot_route_decision ?t = Some
        \<lparr>od_approved = True, od_order_type = Some (resolve_order_type s), od_route_mode = rs_route_mode s,
         od_combo_preferred = rs_broker_native_combo_available s,
         od_broker_native_combo_required = rs_broker_native_combo_available s, od_reason_codes = []\<rparr>"
    by (simp_all add: routed_ticket_def)
  show ?thesis
    by (simp add: mint_order_ticket_Inst [OF assms(1)] t same wf_routed_ticket [OF assms]
        resolve_order_type_exact [OF assms(2), symmetric] del: insert_iff)
qed

definition sample_validated :: validated_trade_intent where
  "sample_validated =
     \<lparr>vi_status = VALIDATED, vi_candidate = sample_candidate,
      vi_approved_heat = \<lparr>ah_risk_heat_pct = 1, ah_buying_power_heat_pct = 1\<rparr>,
      vi_certified_feed = \<lparr>cf_feed = POLYGON\<rparr>, vi_live_strategy = \<lparr>lt_stage = strategy_stage.LIVE\<rparr>\<rparr>"

definition sample_routing :: order_routing_state where
  "sample_routing =
     \<lparr>rs_route_mode = route_mode.NORMAL,
      rs_order_type_policy = \<lparr>op_state = emergency_state.NORMAL, op_llm_may_request_market_order = False\<rparr>,
      rs_broker_native_combo_available = True, rs_deterministic_market_order_allowed = False,
      rs_requested_order_type = None\<rparr>"

lemma sample_validated_wf: "wf_validated_trade_intent sample_validated"
  by code_simp

lemma sample_routing_wf: "wf_order_routing_state sample_routing"
  by code_simp

text \<open>A broken spread in which deterministic code allows market orders.\<close>

definition sample_broken_routing :: order_routing_state where
  "sample_broken_routing = sample_routing
     \<lparr>rs_route_mode := route_mode.BROKEN_SPREAD,
      rs_order_type_policy := \<lparr>op_state = emergency_state.BROKEN_SPREAD, op_llm_may_request_market_order = False\<rparr>,
      rs_deterministic_market_order_allowed := True\<rparr>"

lemma sample_broken_routing_wf: "wf_order_routing_state sample_broken_routing"
  by code_simp

theorem minted_ticket_is_exact_witness:
  "(\<exists>t. mint_order_ticket sample_as_of (Inst sample_validated) sample_routing (Some (Aware sample_as_of)) = Inr t
      \<and> wf_order_ticket t \<and> ot_order_type t = order_type.LIMIT) \<and>
   (\<exists>t. mint_order_ticket sample_as_of (Inst sample_validated) sample_broken_routing (Some (Aware sample_as_of)) = Inr t
      \<and> wf_order_ticket t \<and> ot_order_type t = order_type.MARKET \<and>
      map ol_role (ot_legs t) = [LONG_PROTECTIVE, SHORT_RISK])"
  using minted_ticket_is_exact [OF sample_validated_wf sample_routing_wf, of sample_as_of sample_as_of]
    minted_ticket_is_exact [OF sample_validated_wf sample_broken_routing_wf, of sample_as_of sample_as_of]
  by (fastforce simp: sample_routing_def sample_broken_routing_def)

end
