(* ===== verification/Submission.thy ===== *)
theory Submission
  imports Routing
begin

text \<open>
  Submission: the broker submit intent and its envelope (\<open>schemas/broker_submission.py\<close>),
  the execution report and result (\<open>schemas/execution_report.py\<close>,
  \<open>schemas/execution_result.py\<close>) and the two minting functions of
  \<open>gateway/broker_submission.py\<close>. The parameter \<open>dump\<close> is Pydantic's
  \<open>model_dump_json\<close> of a ticket; \<open>now\<close> is the clock reading that replaces a
  missing \<open>as_of\<close>. The context variable that locks the two protected constructors is the
  argument \<open>init_allowed\<close>.
\<close>

section \<open>Submit intents\<close>

definition TICKET_MAX_AGE_SECONDS :: int where "TICKET_MAX_AGE_SECONDS = 300"

record broker_order_id =
  bo_value :: string
  bo_broker_name :: string

definition broker_order_id_guards :: "broker_order_id \<Rightarrow> (bool \<times> string) list" where
  "broker_order_id_guards b = [(bo_value b = [], ''value''), (bo_broker_name b = [], ''broker_name'')]"

definition mk_broker_order_id :: "broker_order_id \<Rightarrow> broker_order_id res" where
  "mk_broker_order_id b = construct (broker_order_id_guards b) b"

definition wf_broker_order_id :: "broker_order_id \<Rightarrow> bool" where
  [wf_defs]: "wf_broker_order_id b \<longleftrightarrow> passes_guards (broker_order_id_guards b)"

record broker_submit_intent =
  bi_ticket :: order_ticket
  bi_order_ticket_hash :: string
  bi_idempotency_key :: string
  bi_attempt_counter :: int
  bi_submit_mode :: submit_mode
  bi_submitted_at :: aware
  bi_limit_price :: "decimal option"

definition age_seconds :: "aware \<Rightarrow> aware \<Rightarrow> rat" where
  "age_seconds now created_at = total_seconds (at_us now - at_us created_at)"

definition broker_submit_intent_guards ::
  "(order_ticket \<Rightarrow> string) \<Rightarrow> broker_submit_intent \<Rightarrow> (bool \<times> string) list" where
  "broker_submit_intent_guards dump b =
     (let t = bi_ticket b; age = age_seconds (bi_submitted_at b) (ot_created_at t) in
     [(length (bi_order_ticket_hash b) \<noteq> 64, ''order_ticket_hash''),
      (bi_idempotency_key b = [], ''idempotency_key''),
      (bi_attempt_counter b < 1, ''attempt_counter''),
      (bi_order_ticket_hash b \<noteq> sha256_hexdigest (dump t),
       ''order_ticket_hash must match SHA-256 of ticket.model_dump_json()''),
      (age < 0, ''ticket.created_at is in the future relative to submitted_at''),
      (of_int TICKET_MAX_AGE_SECONDS < age, ''OrderTicket is stale''),
      (bi_idempotency_key b \<noteq> bi_order_ticket_hash b @ '':'' @ int_str (bi_attempt_counter b),
       ''idempotency_key must equal {order_ticket_hash}:{attempt_counter}''),
      (ot_status t \<noteq> TICKETED, ''BrokerSubmitIntent requires an OrderTicket with TICKETED status''),
      (ot_legs t = [], ''ticket.legs must be defined before submit''),
      (ot_order_type t = order_type.LIMIT \<and> bi_limit_price b = None, ''LIMIT order requires a limit_price''),
      (ot_order_type t = order_type.MARKET \<and> bi_limit_price b \<noteq> None,
       ''MARKET order must not carry a limit_price''),
      (ot_order_type t = order_type.MARKET \<and> \<not> policy_market_orders_allowed (ot_policy t),
       ''MARKET order requires emergency policy state'')])"

definition init_broker_submit_intent ::
  "bool \<Rightarrow> (order_ticket \<Rightarrow> string) \<Rightarrow> broker_submit_intent \<Rightarrow> broker_submit_intent res" where
  "init_broker_submit_intent init_allowed dump b =
     (if \<not> init_allowed then Inl (TypeError ''BrokerSubmitIntent must be minted by gateway.broker_submission'')
      else construct (broker_submit_intent_guards dump b) b)"

definition submit_intent_from_gateway ::
  "(order_ticket \<Rightarrow> string) \<Rightarrow> broker_submit_intent \<Rightarrow> broker_submit_intent res" where
  "submit_intent_from_gateway dump b = init_broker_submit_intent True dump b"

text \<open>\<open>model_copy\<close>: any positional argument or an \<open>update\<close> keyword is refused.\<close>

definition submit_intent_model_copy :: "bool \<Rightarrow> broker_submit_intent \<Rightarrow> broker_submit_intent res" where
  "submit_intent_model_copy update_or_args b =
     (if update_or_args then Inl (TypeError ''BrokerSubmitIntent.model_copy(update=...) is forbidden'')
      else Inr b)"

definition wf_broker_submit_intent :: "(order_ticket \<Rightarrow> string) \<Rightarrow> broker_submit_intent \<Rightarrow> bool" where
  [wf_defs]: "wf_broker_submit_intent dump b \<longleftrightarrow>
     passes_guards (broker_submit_intent_guards dump b) \<and> wf_order_ticket (bi_ticket b)"

record broker_order_envelope =
  en_intent :: broker_submit_intent
  en_broker_order_id :: broker_order_id
  en_lifecycle_state :: order_lifecycle_state
  en_envelope_at :: aware

record rejected_submission =
  rj_intent :: broker_submit_intent
  rj_reason_codes :: "reason_code list"
  rj_rejected_at :: aware
  rj_detail :: string

definition wf_rejected_submission :: "rejected_submission \<Rightarrow> bool" where
  [wf_defs]: "wf_rejected_submission r \<longleftrightarrow> passes_guards
     [(rj_reason_codes r = [], ''RejectedSubmission must carry at least one reason_code'')]"

section \<open>Execution reports and results\<close>

record execution_report =
  er_order_ticket_hash :: string
  er_idempotency_key :: string
  er_broker_order_id :: string
  er_lifecycle_state :: order_lifecycle_state
  er_order_type :: order_type
  er_filled_contracts :: int
  er_requested_contracts :: int
  er_avg_fill_price :: "decimal option"
  er_fill_timestamp :: "aware option"
  er_submitted_at :: aware
  er_completed_at :: "aware option"

definition before_submit :: "aware option \<Rightarrow> aware \<Rightarrow> bool" where
  "before_submit x submitted = (case x of None \<Rightarrow> False | Some t \<Rightarrow> at_lt t submitted)"

definition execution_report_guards :: "execution_report \<Rightarrow> (bool \<times> string) list" where
  "execution_report_guards r =
     [(length (er_order_ticket_hash r) \<noteq> 64, ''order_ticket_hash''),
      (er_idempotency_key r = [], ''idempotency_key''),
      (er_broker_order_id r = [], ''broker_order_id''),
      (er_filled_contracts r < 0, ''filled_contracts''),
      (er_requested_contracts r \<le> 0, ''requested_contracts''),
      (er_requested_contracts r < er_filled_contracts r, ''filled_contracts cannot exceed requested_contracts''),
      (er_lifecycle_state r = order_lifecycle_state.FILLED \<and>
         er_filled_contracts r \<noteq> er_requested_contracts r,
       ''FILLED ExecutionReport requires filled_contracts == requested_contracts''),
      (er_lifecycle_state r = order_lifecycle_state.FILLED \<and> er_avg_fill_price r = None,
       ''FILLED ExecutionReport must carry avg_fill_price''),
      (er_lifecycle_state r = order_lifecycle_state.FILLED \<and> er_fill_timestamp r = None,
       ''FILLED ExecutionReport must carry fill_timestamp''),
      (before_submit (er_completed_at r) (er_submitted_at r), ''completed_at cannot precede submitted_at''),
      (before_submit (er_fill_timestamp r) (er_submitted_at r), ''fill_timestamp cannot precede submitted_at'')]"

definition init_execution_report :: "bool \<Rightarrow> execution_report \<Rightarrow> execution_report res" where
  "init_execution_report init_allowed r =
     (if \<not> init_allowed then Inl (TypeError ''ExecutionReport must be minted by deterministic gateway code'')
      else construct (execution_report_guards r) r)"

definition execution_report_from_gateway :: "execution_report \<Rightarrow> execution_report res" where
  "execution_report_from_gateway r = init_execution_report True r"

definition execution_report_model_copy :: "bool \<Rightarrow> execution_report \<Rightarrow> execution_report res" where
  "execution_report_model_copy update_or_args r =
     (if update_or_args then Inl (TypeError ''ExecutionReport.model_copy(update=...) is forbidden'')
      else Inr r)"

definition wf_execution_report :: "execution_report \<Rightarrow> bool" where
  [wf_defs]: "wf_execution_report r \<longleftrightarrow> passes_guards (execution_report_guards r)"

record execution_result =
  xr_broker_order_id :: string
  xr_status :: execution_status
  xr_order_type :: order_type
  xr_filled_contracts :: int
  xr_requested_contracts :: int
  xr_avg_fill_price :: "decimal option"
  xr_submitted_at :: aware
  xr_completed_at :: "aware option"

definition fully_filled :: "execution_result \<Rightarrow> bool" where
  "fully_filled r \<longleftrightarrow>
     xr_status r = execution_status.FILLED \<and> xr_filled_contracts r = xr_requested_contracts r"

definition wf_execution_result :: "execution_result \<Rightarrow> bool" where
  [wf_defs]: "wf_execution_result r \<longleftrightarrow> passes_guards
     [(xr_broker_order_id r = [], ''broker_order_id''),
      (xr_filled_contracts r < 0, ''filled_contracts''),
      (xr_requested_contracts r \<le> 0, ''requested_contracts''),
      (xr_requested_contracts r < xr_filled_contracts r, ''filled_contracts cannot exceed requested_contracts''),
      (xr_status r = execution_status.FILLED \<and> xr_avg_fill_price r = None,
       ''a FILLED result must carry an avg_fill_price''),
      (before_submit (xr_completed_at r) (xr_submitted_at r), ''completed_at cannot be before submitted_at'')]"

section \<open>Minting\<close>

definition compute_ticket_hash :: "(order_ticket \<Rightarrow> string) \<Rightarrow> order_ticket \<Rightarrow> string" where
  "compute_ticket_hash dump t = sha256_hexdigest (dump t)"

definition mint_broker_submit_intent ::
  "aware \<Rightarrow> (order_ticket \<Rightarrow> string) \<Rightarrow> order_ticket dyn \<Rightarrow> int \<Rightarrow> submit_mode \<Rightarrow> decimal option
     \<Rightarrow> datetime option \<Rightarrow> broker_submit_intent res" where
  "mint_broker_submit_intent clock dump order_ticket attempt_counter mode limit_price as_of =
     (case order_ticket of
        NotInst _ \<Rightarrow> Inl (TypeError ''BrokerSubmitIntent minting requires an OrderTicket'')
      | Inst t \<Rightarrow>
          require (ot_status t = TICKETED)
            (ValueError ''BrokerSubmitIntent minting requires TICKETED status'') (
          bind_res (case as_of of None \<Rightarrow> Inr clock
                    | Some d \<Rightarrow> require_aware ''as_of must be timezone-aware'' d) (\<lambda>now.
          let age = age_seconds now (ot_created_at t) in
          require (\<not> age < 0) (ValueError ''order_ticket.created_at is in the future'') (
          require (\<not> of_int TICKET_MAX_AGE_SECONDS < age) (ValueError ''OrderTicket is stale'') (
          require (\<not> attempt_counter < 1) (ValueError ''attempt_counter must be >= 1'') (
          require (\<not> (ot_order_type t = order_type.LIMIT \<and> limit_price = None))
            (ValueError ''LIMIT order requires a caller-supplied limit_price'') (
          require (\<not> (ot_order_type t = order_type.MARKET \<and> limit_price \<noteq> None))
            (ValueError ''MARKET order must not carry a limit_price'') (
          let h = compute_ticket_hash dump t in
          submit_intent_from_gateway dump
            \<lparr>bi_ticket = t, bi_order_ticket_hash = h,
             bi_idempotency_key = h @ '':'' @ int_str attempt_counter,
             bi_attempt_counter = attempt_counter, bi_submit_mode = mode,
             bi_submitted_at = now, bi_limit_price = limit_price\<rparr>))))))))"

text \<open>An optional \<open>datetime\<close> for an \<open>AwareDatetime\<close> field.\<close>

definition aware_field :: "string \<Rightarrow> datetime option \<Rightarrow> aware option res" where
  "aware_field name d =
     (case d of None \<Rightarrow> Inr None | Some (Aware a) \<Rightarrow> Inr (Some a)
      | Some (Naive _) \<Rightarrow> Inl (ValidationError name))"

definition mint_execution_report ::
  "broker_submit_intent dyn \<Rightarrow> broker_order_id dyn \<Rightarrow> order_lifecycle_state \<Rightarrow> int \<Rightarrow> decimal option
     \<Rightarrow> datetime option \<Rightarrow> datetime option \<Rightarrow> execution_report res" where
  "mint_execution_report intent broker_order_id state filled price fill_timestamp completed_at =
     (case intent of
        NotInst _ \<Rightarrow> Inl (TypeError ''ExecutionReport minting requires a BrokerSubmitIntent'')
      | Inst b \<Rightarrow>
        (case broker_order_id of
           NotInst _ \<Rightarrow> Inl (TypeError ''ExecutionReport minting requires a BrokerOrderId'')
         | Inst oid \<Rightarrow>
           bind_res (aware_field ''fill_timestamp'' fill_timestamp) (\<lambda>ft.
           bind_res (aware_field ''completed_at'' completed_at) (\<lambda>ct.
           execution_report_from_gateway
             \<lparr>er_order_ticket_hash = bi_order_ticket_hash b, er_idempotency_key = bi_idempotency_key b,
              er_broker_order_id = bo_value oid, er_lifecycle_state = state,
              er_order_type = ot_order_type (bi_ticket b), er_filled_contracts = filled,
              er_requested_contracts =
                sl_contracts (ci_short_leg (vi_candidate (ot_validated_intent (bi_ticket b)))),
              er_avg_fill_price = price, er_fill_timestamp = ft,
              er_submitted_at = bi_submitted_at b, er_completed_at = ct\<rparr>))))"

section \<open>Lemmas\<close>

lemma age_seconds_future: "age_seconds now c < 0 \<longleftrightarrow> at_us now < at_us c"
  by (simp add: age_seconds_def total_seconds_neg)

lemma age_seconds_stale:
  "of_int TICKET_MAX_AGE_SECONDS < age_seconds now c \<longleftrightarrow> 300 * us_per_s < at_us now - at_us c"
  using total_seconds_gt [of 300] by (simp add: age_seconds_def TICKET_MAX_AGE_SECONDS_def us_per_s_def)

lemma wf_ticketD:
  assumes "wf_order_ticket t"
  shows "ot_status t = TICKETED" "ot_legs t \<noteq> []"
    "ot_order_type t = order_type.MARKET \<Longrightarrow> policy_market_orders_allowed (ot_policy t)"
    "wf_validated_trade_intent (ot_validated_intent t)"
  using assms by (auto simp: wf_order_ticket_def order_ticket_guards_def leg_ordering_guards_def Let_def
      allowed_order_types_def policy_market_orders_allowed_def market_orders_allowed_def split: if_splits)

definition minted_intent ::
  "(order_ticket \<Rightarrow> string) \<Rightarrow> order_ticket \<Rightarrow> int \<Rightarrow> submit_mode \<Rightarrow> decimal option \<Rightarrow> aware \<Rightarrow> broker_submit_intent" where
  "minted_intent dump t n mode price now =
     \<lparr>bi_ticket = t, bi_order_ticket_hash = compute_ticket_hash dump t,
      bi_idempotency_key = compute_ticket_hash dump t @ '':'' @ int_str n,
      bi_attempt_counter = n, bi_submit_mode = mode, bi_submitted_at = now, bi_limit_price = price\<rparr>"

definition mintable :: "order_ticket \<Rightarrow> int \<Rightarrow> decimal option \<Rightarrow> aware \<Rightarrow> bool" where
  "mintable t n price now \<longleftrightarrow>
     0 \<le> at_us now - at_us (ot_created_at t) \<and> at_us now - at_us (ot_created_at t) \<le> 300 * us_per_s \<and>
     1 \<le> n \<and> (price = None \<longleftrightarrow> ot_order_type t = order_type.MARKET)"

lemma price_matches_type:
  "(price = None \<longleftrightarrow> ot_order_type t = order_type.MARKET) \<longleftrightarrow>
   \<not> (ot_order_type t = order_type.LIMIT \<and> price = None) \<and>
   \<not> (ot_order_type t = order_type.MARKET \<and> price \<noteq> None)"
  by (cases "ot_order_type t") auto

lemma minted_intent_guards:
  assumes "wf_order_ticket t" and "mintable t n price now"
  shows "passes_guards (broker_submit_intent_guards dump (minted_intent dump t n mode price now))"
  using assms wf_ticketD [OF assms(1)]
  by (auto simp: broker_submit_intent_guards_def minted_intent_def compute_ticket_hash_def Let_def
      age_seconds_future age_seconds_stale mintable_def)

lemma mint_submit_Inst:
  assumes "wf_order_ticket t"
  shows "mint_broker_submit_intent clock dump (Inst t) n mode price (Some (Aware now)) = Inr b \<longleftrightarrow>
    mintable t n price now \<and> b = minted_intent dump t n mode price now"
proof -
  have "mint_broker_submit_intent clock dump (Inst t) n mode price (Some (Aware now)) = Inr b \<longleftrightarrow>
    mintable t n price now \<and> submit_intent_from_gateway dump (minted_intent dump t n mode price now) = Inr b"
    unfolding mint_broker_submit_intent_def Let_def dyn.case option.case require_aware_simps bind_res_simps
      require_eq_Inr age_seconds_future age_seconds_stale mintable_def price_matches_type
      minted_intent_def
    using wf_ticketD(1) [OF assms] by auto
  then show ?thesis
    using minted_intent_guards [OF assms, of n price now dump mode]
    by (auto simp: submit_intent_from_gateway_def init_broker_submit_intent_def construct_eq_Inr)
qed

lemma mint_report_Inr:
  "mint_execution_report (Inst b) (Inst oid) state filled price ft ct = Inr r \<Longrightarrow>
     wf_execution_report r \<and> er_idempotency_key r = bi_idempotency_key b \<and>
     er_order_ticket_hash r = bi_order_ticket_hash b \<and> er_broker_order_id r = bo_value oid \<and>
     er_lifecycle_state r = state \<and> er_filled_contracts r = filled \<and>
     er_requested_contracts r =
       sl_contracts (ci_short_leg (vi_candidate (ot_validated_intent (bi_ticket b)))) \<and>
     er_submitted_at r = bi_submitted_at b \<and> er_avg_fill_price r = price"
  by (auto simp: mint_execution_report_def bind_res_eq_Inr execution_report_from_gateway_def
      init_execution_report_def construct_eq_Inr wf_execution_report_def)

section \<open>Properties\<close>

text \<open>C25. From a well-formed ticket a submit intent is minted exactly when the ticket is between
  0 and 300 seconds old, the attempt counter is positive, and a price is given for a LIMIT order
  and none for a MARKET order; the intent then passes every check of its schema and records the
  ticket, its SHA-256 and the key derived from it.\<close>

theorem submit_intent_minted_iff:
  assumes "wf_order_ticket t"
  shows "case mint_broker_submit_intent clock dump (Inst t) n mode price (Some (Aware now)) of
      Inl _ \<Rightarrow> \<not> mintable t n price now
    | Inr b \<Rightarrow> mintable t n price now \<and> wf_broker_submit_intent dump b \<and> bi_ticket b = t \<and>
        bi_order_ticket_hash b = sha256_hexdigest (dump t) \<and>
        bi_idempotency_key b = sha256_hexdigest (dump t) @ '':'' @ int_str n \<and> bi_submitted_at b = now"
proof (cases "mint_broker_submit_intent clock dump (Inst t) n mode price (Some (Aware now))")
  case (Inl e)
  then show ?thesis
    using mint_submit_Inst [OF assms, of clock dump n mode price now] by auto
next
  case (Inr b)
  then have b: "mintable t n price now" "b = minted_intent dump t n mode price now"
    using mint_submit_Inst [OF assms] by auto
  then show ?thesis
    using Inr minted_intent_guards [OF assms b(1), of dump mode] assms
    by (simp add: wf_broker_submit_intent_def) (simp add: minted_intent_def compute_ticket_hash_def)
qed

definition sample_ticket :: order_ticket where
  "sample_ticket = routed_ticket sample_as_of sample_validated sample_routing"

lemma sample_ticket_wf: "wf_order_ticket sample_ticket"
  unfolding sample_ticket_def by (rule wf_routed_ticket [OF sample_validated_wf sample_routing_wf])

definition sample_ticket_dump :: "order_ticket \<Rightarrow> string" where
  "sample_ticket_dump t = ci_rationale_id (vi_candidate (ot_validated_intent t))"

lemma sample_ticket_simps:
  "ot_created_at sample_ticket = sample_as_of" "ot_order_type sample_ticket = order_type.LIMIT"
  by (simp_all add: sample_ticket_def routed_ticket_def resolve_order_type_def sample_routing_def)

theorem submit_intent_minted_iff_witness:
  "is_ok (mint_broker_submit_intent sample_as_of sample_ticket_dump (Inst sample_ticket) 1 submit_mode.PAPER
     (Some (Dec 45 (- 2))) (Some (Aware sample_as_of)))"
  using submit_intent_minted_iff [OF sample_ticket_wf, where clock = sample_as_of
      and dump = sample_ticket_dump and n = 1 and mode = submit_mode.PAPER
      and price = "Some (Dec 45 (- 2))" and now = sample_as_of]
  by (auto simp: sample_ticket_simps us_per_s_def mintable_def is_ok_def split: sum.splits)

text \<open>Idempotency: a retry of the same submit decision gets the same key whatever the time,
  mode or price; two decisions have the same key only if the ticket digests and the attempt
  counters agree, so a re-submission with a new counter never collides with an earlier one.\<close>

theorem idempotency_key_identifies_decision:
  assumes "wf_order_ticket t" and "wf_order_ticket u"
    and "mint_broker_submit_intent clock dump (Inst t) m mode price (Some (Aware now)) = Inr a"
    and "mint_broker_submit_intent clock' dump (Inst u) n mode' price' (Some (Aware now')) = Inr b"
  shows "bi_idempotency_key a = bi_idempotency_key b \<longleftrightarrow>
    sha256_hexdigest (dump t) = sha256_hexdigest (dump u) \<and> m = n"
proof -
  have a: "bi_idempotency_key a = sha256_hexdigest (dump t) @ '':'' @ int_str m" "1 \<le> m"
    using assms(3) by (auto simp: mint_submit_Inst [OF assms(1)] minted_intent_def compute_ticket_hash_def
        mintable_def)
  have b: "bi_idempotency_key b = sha256_hexdigest (dump u) @ '':'' @ int_str n" "1 \<le> n"
    using assms(4) by (auto simp: mint_submit_Inst [OF assms(2)] minted_intent_def compute_ticket_hash_def
        mintable_def)
  show ?thesis using a(2) b(2) by (simp add: a(1) b(1) int_str_inj)
qed

lemma sample_mint:
  "1 \<le> n \<Longrightarrow> mint_broker_submit_intent sample_as_of sample_ticket_dump (Inst sample_ticket) n mode
     (Some (Dec 45 (- 2))) (Some (Aware sample_as_of)) =
   Inr (minted_intent sample_ticket_dump sample_ticket n mode (Some (Dec 45 (- 2))) sample_as_of)"
  by (simp add: mint_submit_Inst [OF sample_ticket_wf] mintable_def sample_ticket_simps us_per_s_def)

theorem idempotency_key_identifies_decision_witness:
  "bi_idempotency_key (minted_intent sample_ticket_dump sample_ticket 1 submit_mode.PAPER (Some (Dec 45 (- 2))) sample_as_of)
   \<noteq> bi_idempotency_key (minted_intent sample_ticket_dump sample_ticket 2 submit_mode.PAPER (Some (Dec 45 (- 2))) sample_as_of)"
  using idempotency_key_identifies_decision [OF sample_ticket_wf sample_ticket_wf
      sample_mint [of 1 submit_mode.PAPER] sample_mint [of 2 submit_mode.PAPER]] by simp

text \<open>An execution report never shows an overfill: it is bound to the key and hash of its
  intent, the requested quantity is that of the short leg, the filled quantity lies between zero
  and it, and a FILLED report is completely filled with a price and a time that does not precede
  the submission.\<close>

theorem execution_report_never_overfills:
  assumes "mint_execution_report (Inst b) (Inst oid) state filled price ft ct = Inr r"
  shows "er_idempotency_key r = bi_idempotency_key b \<and> er_order_ticket_hash r = bi_order_ticket_hash b \<and>
    er_requested_contracts r = sl_contracts (ci_short_leg (vi_candidate (ot_validated_intent (bi_ticket b)))) \<and>
    0 \<le> er_filled_contracts r \<and> er_filled_contracts r \<le> er_requested_contracts r \<and>
    (er_lifecycle_state r = order_lifecycle_state.FILLED \<longrightarrow>
       er_filled_contracts r = er_requested_contracts r \<and> er_avg_fill_price r \<noteq> None \<and>
       (\<exists>t. er_fill_timestamp r = Some t \<and> at_us (bi_submitted_at b) \<le> at_us t))"
  using mint_report_Inr [OF assms]
  by (auto simp: wf_execution_report_def execution_report_guards_def before_submit_def at_defs
      split: option.splits)

theorem execution_report_never_overfills_witness:
  "\<exists>r. mint_execution_report
      (Inst (minted_intent sample_ticket_dump sample_ticket 1 submit_mode.PAPER (Some (Dec 45 (- 2))) sample_as_of))
      (Inst \<lparr>bo_value = ''o-1'', bo_broker_name = ''fake''\<rparr>) order_lifecycle_state.FILLED 1
      (Some (Dec 45 (- 2))) (Some (Aware sample_as_of)) None = Inr r \<and> er_filled_contracts r = er_requested_contracts r"
proof -
  let ?b = "minted_intent sample_ticket_dump sample_ticket 1 submit_mode.PAPER (Some (Dec 45 (- 2))) sample_as_of"
  have "\<exists>r. mint_execution_report (Inst ?b) (Inst \<lparr>bo_value = ''o-1'', bo_broker_name = ''fake''\<rparr>)
      order_lifecycle_state.FILLED 1 (Some (Dec 45 (- 2))) (Some (Aware sample_as_of)) None = Inr r \<and>
      er_lifecycle_state r = order_lifecycle_state.FILLED"
    by (simp add: mint_execution_report_def aware_field_def execution_report_from_gateway_def
        init_execution_report_def execution_report_guards_def minted_intent_def compute_ticket_hash_def
        before_submit_def at_defs sample_ticket_def routed_ticket_def sample_validated_def
        sample_candidate_def sample_leg_def)
  then show ?thesis using execution_report_never_overfills by blast
qed

end
