(* ===== verification/Allocation.thy ===== *)
theory Allocation
  imports Prelude
begin

text \<open>
  Serving demands from shared capacities. \<open>can_serve\<close> is the specification: the demands
  can be served one after the other, each taking units only from the slots it is eligible for and
  never more than what is left. \<open>greedy\<close> is the allocation loop of
  \<open>schemas/position_state.py\<close> over an arbitrary eligibility. The lemmas show that
  \<open>can_serve\<close> does not depend on the order of the demands and that the greedy loop decides
  it whenever earlier demands are nested in, or disjoint from, later ones.
\<close>

section \<open>Specification\<close>

text \<open>\<open>takes n elig need s rem t\<close>: the vector \<open>t\<close> serves the demand \<open>s\<close>
  from the remaining capacities \<open>rem\<close> of the slots below \<open>n\<close>.\<close>

definition takes ::
  "nat \<Rightarrow> ('s \<Rightarrow> nat \<Rightarrow> bool) \<Rightarrow> ('s \<Rightarrow> int) \<Rightarrow> 's \<Rightarrow> (nat \<Rightarrow> int) \<Rightarrow> (nat \<Rightarrow> int) \<Rightarrow> bool" where
  "takes n elig need s rem t \<longleftrightarrow>
     (\<forall>j. 0 \<le> t j) \<and> (\<forall>j. t j \<noteq> 0 \<longrightarrow> j < n \<and> elig s j \<and> t j \<le> rem j) \<and> (\<Sum>j<n. t j) = need s"

inductive can_serve ::
  "nat \<Rightarrow> ('s \<Rightarrow> nat \<Rightarrow> bool) \<Rightarrow> ('s \<Rightarrow> int) \<Rightarrow> 's list \<Rightarrow> (nat \<Rightarrow> int) \<Rightarrow> bool"
  for n elig need where
  Nil: "can_serve n elig need [] rem"
| Cons: "takes n elig need s rem t \<Longrightarrow> can_serve n elig need ss (\<lambda>j. rem j - t j)
    \<Longrightarrow> can_serve n elig need (s # ss) rem"

inductive_cases can_serve_ConsE: "can_serve n elig need (s # ss) rem"

section \<open>The greedy loop\<close>

fun take_slots :: "nat list \<Rightarrow> int \<Rightarrow> (nat \<Rightarrow> int) \<Rightarrow> int \<times> (nat \<Rightarrow> int)" where
  "take_slots [] needed rem = (needed, rem)"
| "take_slots (i # is) needed rem =
     (if needed \<le> 0 then (needed, rem)
      else let take = min needed (rem i) in take_slots is (needed - take) (rem(i := rem i - take)))"

fun greedy :: "('s \<Rightarrow> nat list) \<Rightarrow> ('s \<Rightarrow> int) \<Rightarrow> 's list \<Rightarrow> (nat \<Rightarrow> int) \<Rightarrow> 's list" where
  "greedy slots need [] rem = []"
| "greedy slots need (s # ss) rem =
     (let (needed, rem') = take_slots (slots s) (need s) rem
      in (if 0 < needed then [s] else []) @ greedy slots need ss rem')"

section \<open>Order does not matter\<close>

lemma can_serve_Cons_iff:
  "can_serve n elig need (s # ss) rem \<longleftrightarrow>
     (\<exists>t. takes n elig need s rem t \<and> can_serve n elig need ss (\<lambda>j. rem j - t j))"
  by (auto intro: can_serve.Cons elim: can_serve_ConsE)

lemma can_serve_swap:
  "can_serve n elig need (x # y # zs) rem \<Longrightarrow> can_serve n elig need (y # x # zs) rem"
proof -
  assume "can_serve n elig need (x # y # zs) rem"
  then obtain t u where t: "takes n elig need x rem t" and u: "takes n elig need y (\<lambda>j. rem j - t j) u"
    and rest: "can_serve n elig need zs (\<lambda>j. rem j - t j - u j)"
    by (auto simp: can_serve_Cons_iff)
  have nn: "0 \<le> t j" "0 \<le> u j" for j using t u by (simp_all add: takes_def)
  have t_le: "t j \<le> rem j" if "t j \<noteq> 0" for j using t that by (simp add: takes_def)
  have u_le: "u j \<le> rem j - t j" if "u j \<noteq> 0" for j using u that by (simp add: takes_def)
  have "u j \<le> rem j" if "u j \<noteq> 0" for j using u_le [OF that] nn(1) [of j] by linarith
  then have "takes n elig need y rem u" using u by (simp add: takes_def)
  moreover have "t j \<le> rem j - u j" if "t j \<noteq> 0" for j
    using t_le [OF that] u_le [of j] by (cases "u j = 0") simp_all
  then have "takes n elig need x (\<lambda>j. rem j - u j) t" using t by (simp add: takes_def)
  moreover have "(\<lambda>j. rem j - u j - t j) = (\<lambda>j. rem j - t j - u j)" by auto
  ultimately show ?thesis using rest unfolding can_serve_Cons_iff by metis
qed

lemma can_serve_insort:
  "can_serve n elig need (insort_key f x xs) rem \<longleftrightarrow> can_serve n elig need (x # xs) rem"
proof (induction xs arbitrary: rem)
  case (Cons y ys)
  have "can_serve n elig need (y # insort_key f x ys) rem \<longleftrightarrow> can_serve n elig need (y # x # ys) rem"
    by (simp add: can_serve_Cons_iff [of _ _ _ y] Cons.IH)
  moreover have "can_serve n elig need (y # x # ys) rem \<longleftrightarrow> can_serve n elig need (x # y # ys) rem"
    by (rule iffI; erule can_serve_swap)
  ultimately show ?case by simp
qed simp

lemma can_serve_sort: "can_serve n elig need (sort_key f xs) rem \<longleftrightarrow> can_serve n elig need xs rem"
proof (induction xs arbitrary: rem)
  case (Cons x xs)
  then show ?case
    by (simp add: can_serve_insort can_serve_Cons_iff [of _ _ _ x])
qed simp

section \<open>Redistribution inside a homogeneous set\<close>

lemma exists_split:
  fixes r :: "nat \<Rightarrow> int"
  assumes "finite E" and "\<forall>j\<in>E. 0 \<le> r j" and "0 \<le> q" and "q \<le> sum r E"
  shows "\<exists>t. (\<forall>j\<in>E. 0 \<le> t j \<and> t j \<le> r j) \<and> (\<forall>j. j \<notin> E \<longrightarrow> t j = 0) \<and> sum t E = q"
  using assms
proof (induction E arbitrary: q rule: finite_induct)
  case (insert x E)
  define k where "k = min q (r x)"
  have k: "0 \<le> k" "k \<le> r x" "0 \<le> q - k" "q - k \<le> sum r E"
    using insert.prems insert.hyps by (auto simp: k_def min_def sum_nonneg)
  then obtain t where t: "\<forall>j\<in>E. 0 \<le> t j \<and> t j \<le> r j" "\<forall>j. j \<notin> E \<longrightarrow> t j = 0" "sum t E = q - k"
    using insert.IH [of "q - k"] insert.prems(1) by auto
  have "sum (t(x := k)) E = sum t E" using insert.hyps by (intro sum.cong) auto
  then have "sum (t(x := k)) (insert x E) = q"
    using insert.hyps t(3) by simp
  then show ?case using t k insert.hyps by (intro exI [of _ "t(x := k)"]) auto
next
  case empty
  then show ?case by (intro exI [of _ "\<lambda>_. 0"]) simp
qed

text \<open>\<open>E\<close> is homogeneous for a demand: the demand may use all of \<open>E\<close> or none of it.\<close>

definition homogeneous :: "('s \<Rightarrow> nat \<Rightarrow> bool) \<Rightarrow> nat set \<Rightarrow> 's \<Rightarrow> bool" where
  "homogeneous elig E s \<longleftrightarrow> (\<forall>j\<in>E. elig s j) \<or> (\<forall>j\<in>E. \<not> elig s j)"

lemma takes_redistribute:
  assumes hom: "homogeneous elig E s" and E: "E \<subseteq> {..<n}"
    and t: "takes n elig need s r t"
    and same: "\<forall>j. j \<notin> E \<longrightarrow> r' j = r j" and nn: "\<forall>j\<in>E. 0 \<le> r' j" and sum: "sum r' E = sum r E"
    and rnn: "\<forall>j\<in>E. 0 \<le> r j"
  obtains t' where "takes n elig need s r' t'" "\<forall>j. j \<notin> E \<longrightarrow> t' j = t j" "sum t' E = sum t E"
    "\<forall>j\<in>E. t' j \<le> r' j" "\<forall>j\<in>E. t j \<le> r j"
proof -
  have fin: "finite E" using E finite_subset by blast
  have tr: "t j \<le> r j" if "j \<in> E" for j
    using t rnn that by (cases "t j = 0") (auto simp: takes_def)
  have q: "0 \<le> sum t E" "sum t E \<le> sum r' E"
    using t tr sum by (auto simp: takes_def intro: sum_nonneg sum_mono)
  obtain u where u: "\<forall>j\<in>E. 0 \<le> u j \<and> u j \<le> r' j" "\<forall>j. j \<notin> E \<longrightarrow> u j = 0" "sum u E = sum t E"
    using exists_split [OF fin nn q] by blast
  define t' where "t' = (\<lambda>j. if j \<in> E then u j else t j)"
  have sE: "sum t' E = sum t E" using u(3) by (simp add: t'_def)
  have elig0: "u j = 0" if "j \<in> E" "\<not> elig s j" for j
  proof -
    have "\<forall>k\<in>E. t k = 0" using hom t that by (auto simp: homogeneous_def takes_def)
    then have "sum u E = 0" using u(3) by simp
    then show ?thesis using u(1) that(1) fin sum_nonneg_eq_0_iff [of E u] by auto
  qed
  have "sum t' {..<n} = sum t' E + sum t' ({..<n} - E)"
    by (rule sum.subset_diff [OF E finite_lessThan, THEN trans]) (simp add: add.commute)
  also have "\<dots> = sum t E + sum t ({..<n} - E)" using sE by (simp add: t'_def)
  also have "\<dots> = sum t {..<n}"
    by (rule sum.subset_diff [OF E finite_lessThan, THEN trans, symmetric]) (simp add: add.commute)
  finally have "(\<Sum>j<n. t' j) = need s" using t by (simp add: takes_def)
  moreover have "t' j \<noteq> 0 \<longrightarrow> j < n \<and> elig s j \<and> t' j \<le> r' j" for j
    using elig0 u(1) E t same by (auto simp: t'_def takes_def)
  moreover have "0 \<le> t' j" for j using u(1) t by (auto simp: t'_def takes_def)
  ultimately have "takes n elig need s r' t'" by (auto simp: takes_def)
  then show ?thesis using that [of t'] sE u(1) tr by (auto simp: t'_def)
qed

lemma can_serve_redistribute:
  assumes "can_serve n elig need ss r" and "\<forall>s\<in>set ss. homogeneous elig E s" and "E \<subseteq> {..<n}"
    and "\<forall>j. j \<notin> E \<longrightarrow> r' j = r j" and "\<forall>j\<in>E. 0 \<le> r' j" and "sum r' E = sum r E" and "\<forall>j\<in>E. 0 \<le> r j"
  shows "can_serve n elig need ss r'"
  using assms
proof (induction ss arbitrary: r r')
  case (Cons s ss)
  obtain t where t: "takes n elig need s r t" and rest: "can_serve n elig need ss (\<lambda>j. r j - t j)"
    using Cons.prems(1) by (auto simp: can_serve_Cons_iff)
  have hom: "homogeneous elig E s" using Cons.prems(2) by simp
  obtain t' where t': "takes n elig need s r' t'" "\<forall>j. j \<notin> E \<longrightarrow> t' j = t j" "sum t' E = sum t E"
    "\<forall>j\<in>E. t' j \<le> r' j" "\<forall>j\<in>E. t j \<le> r j"
    by (rule takes_redistribute [OF hom Cons.prems(3) t Cons.prems(4-7)])
  have "can_serve n elig need ss (\<lambda>j. r' j - t' j)"
    by (rule Cons.IH [OF rest]) (use Cons.prems t' in \<open>auto simp: sum_subtractf\<close>)
  then show ?case using t'(1) by (auto simp: can_serve_Cons_iff)
qed (simp add: can_serve.Nil)

section \<open>The greedy loop decides nested demands\<close>

lemma take_slots_spec:
  assumes "distinct is" and "\<forall>j. 0 \<le> rem j" and "0 \<le> needed" and "take_slots is needed rem = (left, rem')"
  shows "left = max 0 (needed - (\<Sum>j\<in>set is. rem j)) \<and> (\<forall>j. 0 \<le> rem' j \<and> rem' j \<le> rem j) \<and>
    (\<forall>j. j \<notin> set is \<longrightarrow> rem' j = rem j) \<and> (\<Sum>j\<in>set is. rem j - rem' j) = needed - left"
  using assms
proof (induction "is" needed rem rule: take_slots.induct)
  case (2 i "is" needed rem)
  show ?case
  proof (cases "needed \<le> 0")
    case True
    moreover have "0 \<le> (\<Sum>j\<in>set (i # is). rem j)" using "2.prems"(2) by (intro sum_nonneg) blast
    ultimately show ?thesis using "2.prems" by (simp add: max_def)
  next
    case False
    define k where "k = min needed (rem i)"
    define rem1 where "rem1 = rem(i := rem i - k)"
    have k: "0 \<le> k" "k \<le> needed" "k \<le> rem i" using False "2.prems"(2) by (auto simp: k_def)
    have i: "i \<notin> set is" "distinct is" using "2.prems"(1) by auto
    have eq: "take_slots is (needed - k) rem1 = (left, rem')"
      using "2.prems"(4) False by (simp add: k_def rem1_def Let_def)
    have sum1: "(\<Sum>j\<in>set is. rem1 j) = (\<Sum>j\<in>set is. rem j)"
      using i(1) by (intro sum.cong) (auto simp: rem1_def)
    have pos1: "\<forall>j. 0 \<le> rem1 j" using "2.prems"(2) k by (simp add: rem1_def)
    have IH: "left = max 0 (needed - k - (\<Sum>j\<in>set is. rem1 j))"
      "\<forall>j. 0 \<le> rem' j \<and> rem' j \<le> rem1 j" "\<forall>j. j \<notin> set is \<longrightarrow> rem' j = rem1 j"
      "(\<Sum>j\<in>set is. rem1 j - rem' j) = needed - k - left"
      using "2.IH" [OF False k_def, folded rem1_def, OF i(2) pos1 _ eq] k(2) by simp_all
    have "0 \<le> (\<Sum>j\<in>set is. rem j)" using "2.prems"(2) by (simp add: sum_nonneg)
    then have "left = max 0 (needed - (\<Sum>j\<in>set (i # is). rem j))"
      using IH(1) sum1 i(1) by (auto simp: k_def min_def max_def)
    moreover have "0 \<le> rem' j \<and> rem' j \<le> rem j" for j
      using spec [OF IH(2), of j] k by (cases "j = i") (simp_all add: rem1_def)
    moreover have "rem' i = rem i - k" using IH(3) i(1) by (simp add: rem1_def)
    moreover have "(\<Sum>j\<in>set is. rem j - rem' j) = (\<Sum>j\<in>set is. rem1 j - rem' j)"
      using i(1) by (intro sum.cong) (auto simp: rem1_def)
    moreover have "\<forall>j. j \<notin> set (i # is) \<longrightarrow> rem' j = rem j" using IH(3) by (auto simp: rem1_def)
    ultimately show ?thesis using IH(4) i(1) by simp
  qed
qed auto

text \<open>The slots of each demand are its eligible slots, without repetition.\<close>

definition slots_ok :: "nat \<Rightarrow> ('s \<Rightarrow> nat \<Rightarrow> bool) \<Rightarrow> ('s \<Rightarrow> nat list) \<Rightarrow> bool" where
  "slots_ok n elig slots \<longleftrightarrow> (\<forall>s. distinct (slots s) \<and> set (slots s) = {j. j < n \<and> elig s j})"

text \<open>Every demand of the list finds the slots of the earlier ones homogeneous.\<close>

fun nested :: "nat \<Rightarrow> ('s \<Rightarrow> nat \<Rightarrow> bool) \<Rightarrow> 's list \<Rightarrow> bool" where
  "nested n elig [] \<longleftrightarrow> True"
| "nested n elig (s # ss) \<longleftrightarrow>
     (\<forall>s'\<in>set ss. homogeneous elig {j. j < n \<and> elig s j} s') \<and> nested n elig ss"

lemma take_slots_takes:
  assumes ok: "slots_ok n elig slots" and rem: "\<forall>j. 0 \<le> rem j" and need: "0 \<le> need s"
    and ts: "take_slots (slots s) (need s) rem = (left, rem')"
  shows "left \<le> 0 \<longleftrightarrow> takes n elig need s rem (\<lambda>j. rem j - rem' j)"
    and "left \<le> 0 \<longleftrightarrow> need s \<le> (\<Sum>j | j < n \<and> elig s j. rem j)"
    and "\<forall>j. 0 \<le> rem' j" and "\<forall>j. \<not> (j < n \<and> elig s j) \<longrightarrow> rem' j = rem j"
proof -
  have sl: "distinct (slots s)" "set (slots s) = {j. j < n \<and> elig s j}"
    using ok by (simp_all add: slots_ok_def)
  note spec = take_slots_spec [OF sl(1) rem need ts, unfolded sl(2)]
  have "(\<Sum>j<n. rem j - rem' j) = (\<Sum>j | j < n \<and> elig s j. rem j - rem' j)"
    using spec by (intro sum.mono_neutral_right) auto
  then have sum: "(\<Sum>j<n. rem j - rem' j) = need s - left" using spec by simp
  have rest: "(\<forall>j. 0 \<le> rem j - rem' j) \<and>
      (\<forall>j. rem j - rem' j \<noteq> 0 \<longrightarrow> j < n \<and> elig s j \<and> rem j - rem' j \<le> rem j)"
    using spec by auto
  have left: "0 \<le> left" using spec by simp
  show "left \<le> 0 \<longleftrightarrow> takes n elig need s rem (\<lambda>j. rem j - rem' j)"
    using rest sum left by (auto simp: takes_def)
  show "left \<le> 0 \<longleftrightarrow> need s \<le> (\<Sum>j | j < n \<and> elig s j. rem j)"
    using spec by (auto simp: max_def)
  show "\<forall>j. 0 \<le> rem' j" "\<forall>j. \<not> (j < n \<and> elig s j) \<longrightarrow> rem' j = rem j"
    using spec by auto
qed

lemma takes_enough:
  assumes "takes n elig need s rem t" and "\<forall>j. 0 \<le> rem j"
  shows "need s \<le> (\<Sum>j | j < n \<and> elig s j. rem j)"
proof -
  have "need s = (\<Sum>j<n. t j)" using assms(1) by (simp add: takes_def)
  also have "\<dots> = (\<Sum>j | j < n \<and> elig s j. t j)"
    using assms(1) by (intro sum.mono_neutral_right) (auto simp: takes_def)
  also have "\<dots> \<le> (\<Sum>j | j < n \<and> elig s j. rem j)"
    using assms by (intro sum_mono) (metis takes_def)
  finally show ?thesis .
qed

lemma greedy_decides:
  assumes ok: "slots_ok n elig slots" and "nested n elig ss" and "\<forall>s\<in>set ss. 0 \<le> need s"
    and "\<forall>j. 0 \<le> rem j"
  shows "greedy slots need ss rem = [] \<longleftrightarrow> can_serve n elig need ss rem"
  using assms(2-)
proof (induction ss arbitrary: rem)
  case (Cons s ss)
  obtain left rem' where ts: "take_slots (slots s) (need s) rem = (left, rem')" by force
  let ?E = "{j. j < n \<and> elig s j}"
  have need: "0 \<le> need s" using Cons.prems(2) by simp
  note tk = take_slots_takes [where need = need and s = s, OF ok Cons.prems(3) need ts]
  have IH: "greedy slots need ss rem' = [] \<longleftrightarrow> can_serve n elig need ss rem'"
    using Cons.IH [of rem'] Cons.prems tk(3) by simp
  have eq: "(\<lambda>j. rem j - (rem j - rem' j)) = rem'" by simp
  show ?case
  proof
    assume "greedy slots need (s # ss) rem = []"
    then have "left \<le> 0" "greedy slots need ss rem' = []" by (auto simp: ts split: if_splits)
    then show "can_serve n elig need (s # ss) rem"
      using tk(1) IH eq by (auto simp: can_serve_Cons_iff intro!: exI [of _ "\<lambda>j. rem j - rem' j"])
  next
    assume "can_serve n elig need (s # ss) rem"
    then obtain t where t: "takes n elig need s rem t" and rest: "can_serve n elig need ss (\<lambda>j. rem j - t j)"
      by (auto simp: can_serve_Cons_iff)
    have l: "left \<le> 0" using tk(2) takes_enough [OF t Cons.prems(3)] by simp
    then have g: "takes n elig need s rem (\<lambda>j. rem j - rem' j)" using tk(1) by simp
    have out: "t j = 0" "rem j - rem' j = 0" if "j \<notin> ?E" for j using t g that by (auto simp: takes_def)
    have total: "sum f ?E = need s" if "takes n elig need s rem f" for f
    proof -
      have "sum f ?E = sum f {..<n}"
        using that by (intro sum.mono_neutral_left) (auto simp: takes_def)
      then show ?thesis using that by (simp add: takes_def)
    qed
    have "sum rem' ?E = sum (\<lambda>j. rem j - t j) ?E"
      using total [OF g] total [OF t] by (simp add: sum_subtractf)
    moreover have "0 \<le> rem j - t j" for j
      using t Cons.prems(3) by (cases "t j = 0") (auto simp: takes_def)
    ultimately have "can_serve n elig need ss rem'"
      using Cons.prems(1) out tk(3) by (intro can_serve_redistribute [OF rest, of ?E]) auto
    then show "greedy slots need (s # ss) rem = []" using l IH by (simp add: ts)
  qed
qed (simp add: can_serve.Nil)

end
