(* ===== verification/Positions.thy ===== *)
theory Positions
  imports Submission Allocation "HOL-Library.Multiset"
begin

text \<open>
  Position state and reconciliation: the position snapshot and the protection check of
  \<open>schemas/position_state.py\<close>, the reconciliation snapshot of
  \<open>schemas/reconciliation_state.py\<close>, and the minting and comparison of
  \<open>gateway/reconciliation.py\<close>. \<open>clock\<close> is the reading that replaces a missing
  \<open>created_at\<close>.
\<close>

section \<open>Position legs and the protection check\<close>

text \<open>A calendar date, by year, month and day, and its ISO form.\<close>

datatype date = Date (year: int) (month: int) (day: int)

definition pad :: "nat \<Rightarrow> int \<Rightarrow> string" where
  "pad w n = (let s = nat_str n in replicate (w - length s) (CHR ''0'') @ s)"

definition isoformat :: "date \<Rightarrow> string" where
  "isoformat d = pad 4 (year d) @ ''-'' @ pad 2 (month d) @ ''-'' @ pad 2 (day d)"

datatype position_snapshot_source = BROKER_REPORT | EXECUTION_LEDGER

record position_leg =
  pl_underlying :: underlying
  pl_option_symbol :: string
  pl_expiration_date :: date
  pl_option_type :: option_type
  pl_strike :: decimal
  pl_side :: leg_side
  pl_contracts :: int
  pl_average_price :: "decimal option"

definition position_leg_guards :: "position_leg \<Rightarrow> (bool \<times> string) list" where
  "position_leg_guards l =
     [(pl_option_symbol l = [], ''option_symbol''), (dval (pl_strike l) \<le> 0, ''strike''),
      (pl_contracts l \<le> 0, ''contracts'')]"

definition wf_position_leg :: "position_leg \<Rightarrow> bool" where
  [wf_defs]: "wf_position_leg l \<longleftrightarrow> passes_guards (position_leg_guards l)"

definition is_protective_long_for :: "position_leg \<Rightarrow> position_leg \<Rightarrow> bool" where
  "is_protective_long_for short long \<longleftrightarrow>
     (if pl_underlying short \<noteq> pl_underlying long then False
      else if pl_expiration_date short \<noteq> pl_expiration_date long then False
      else if pl_option_type short \<noteq> pl_option_type long then False
      else if pl_option_type short = PUT then dval (pl_strike long) < dval (pl_strike short)
      else dval (pl_strike short) < dval (pl_strike long))"

definition constraint_key :: "position_leg \<Rightarrow> rat" where
  "constraint_key l = (if pl_option_type l = PUT then dval (pl_strike l) else dec_neg (dval (pl_strike l)))"

definition shorts_most_constrained_first :: "position_leg list \<Rightarrow> position_leg list" where
  "shorts_most_constrained_first shorts = sort_key constraint_key shorts"

text \<open>Sorting in reverse keeps the order of equal keys, like sorting by the negated key.\<close>

definition eligible_longs_least_flexible_first :: "position_leg \<Rightarrow> position_leg list \<Rightarrow> nat list" where
  "eligible_longs_least_flexible_first short longs =
     (let eligible = filter (\<lambda>i. is_protective_long_for short (longs ! i)) [0 ..< length longs]
      in sort_key (\<lambda>i. if pl_option_type short = PUT then - dval (pl_strike (longs ! i))
                       else dval (pl_strike (longs ! i))) eligible)"

definition capacity :: "position_leg list \<Rightarrow> nat \<Rightarrow> int" where
  "capacity longs i = (if i < length longs then pl_contracts (longs ! i) else 0)"

definition unprotected_short_legs :: "position_leg list \<Rightarrow> position_leg list" where
  "unprotected_short_legs legs =
     (let shorts = filter (\<lambda>l. pl_side l = SHORT) legs;
          longs = filter (\<lambda>l. pl_side l = LONG) legs
      in greedy (\<lambda>s. eligible_longs_least_flexible_first s longs) pl_contracts
           (shorts_most_constrained_first shorts) (capacity longs))"

section \<open>Snapshots\<close>

record broker_position_report =
  br_report_id :: string
  br_broker_name :: string
  br_reported_at :: aware
  br_legs :: "position_leg list"

definition wf_broker_position_report :: "broker_position_report \<Rightarrow> bool" where
  [wf_defs]: "wf_broker_position_report r \<longleftrightarrow>
     passes_guards [(br_report_id r = [], ''report_id''), (br_broker_name r = [], ''broker_name'')] \<and>
     list_all wf_position_leg (br_legs r)"

record execution_position_ledger =
  ld_ledger_id :: string
  ld_as_of :: aware
  ld_legs :: "position_leg list"
  ld_execution_report_ids :: "string list"

definition wf_execution_position_ledger :: "execution_position_ledger \<Rightarrow> bool" where
  [wf_defs]: "wf_execution_position_ledger l \<longleftrightarrow>
     passes_guards
       [(ld_ledger_id l = [], ''ledger_id''),
        (ld_legs l \<noteq> [] \<and> ld_execution_report_ids l = [],
         ''internal position ledger legs require execution_report_ids evidence'')] \<and>
     list_all wf_position_leg (ld_legs l)"

record position_snapshot =
  pn_snapshot_id :: string
  pn_source :: position_snapshot_source
  pn_source_id :: string
  pn_created_at :: aware
  pn_as_of :: aware
  pn_legs :: "position_leg list"
  pn_execution_report_ids :: "string list"
  pn_broker_name :: "string option"
  pn_emergency_state :: emergency_state

definition has_unprotected_short :: "position_snapshot \<Rightarrow> bool" where
  "has_unprotected_short p \<longleftrightarrow> unprotected_short_legs (pn_legs p) \<noteq> []"

definition unprotected_short_symbols :: "position_snapshot \<Rightarrow> string list" where
  "unprotected_short_symbols p = map pl_option_symbol (unprotected_short_legs (pn_legs p))"

definition position_snapshot_guards :: "position_snapshot \<Rightarrow> (bool \<times> string) list" where
  "position_snapshot_guards p =
     [(pn_snapshot_id p = [], ''snapshot_id''),
      (pn_source_id p = [], ''source_id''),
      (pn_source p = BROKER_REPORT \<and> pn_execution_report_ids p \<noteq> [],
       ''broker-derived PositionSnapshot cannot carry execution_report_ids''),
      (pn_source p = BROKER_REPORT \<and> \<not> truthy (pn_broker_name p),
       ''broker-derived PositionSnapshot requires broker_name''),
      (pn_source p = EXECUTION_LEDGER \<and> pn_broker_name p \<noteq> None,
       ''execution-ledger PositionSnapshot cannot carry broker_name''),
      (pn_source p = EXECUTION_LEDGER \<and> pn_legs p \<noteq> [] \<and> pn_execution_report_ids p = [],
       ''execution-ledger PositionSnapshot requires execution_report_ids''),
      (at_lt (pn_created_at p) (pn_as_of p), ''position snapshot as_of cannot be after created_at''),
      (has_unprotected_short p \<and> pn_emergency_state p = emergency_state.NORMAL,
       ''open short leg without protective long requires non-NORMAL emergency_state'')]"

definition init_position_snapshot :: "bool \<Rightarrow> position_snapshot \<Rightarrow> position_snapshot res" where
  "init_position_snapshot init_allowed p =
     (if \<not> init_allowed then Inl (TypeError ''PositionSnapshot must be minted by deterministic gateway code'')
      else construct (position_snapshot_guards p) p)"

definition position_snapshot_from_gateway :: "position_snapshot \<Rightarrow> position_snapshot res" where
  "position_snapshot_from_gateway p = init_position_snapshot True p"

definition position_snapshot_model_copy :: "bool \<Rightarrow> position_snapshot \<Rightarrow> position_snapshot res" where
  "position_snapshot_model_copy update_or_args p =
     (if update_or_args then Inl (TypeError ''PositionSnapshot.model_copy(update=...) is forbidden'')
      else Inr p)"

definition wf_position_snapshot :: "position_snapshot \<Rightarrow> bool" where
  [wf_defs]: "wf_position_snapshot p \<longleftrightarrow>
     passes_guards (position_snapshot_guards p) \<and> list_all wf_position_leg (pn_legs p)"

section \<open>Minting snapshots\<close>

definition recon_aware :: "datetime \<Rightarrow> string \<Rightarrow> aware res" where
  "recon_aware d field_name = require_aware (field_name @ '' must be timezone-aware'') d"

definition or_now :: "datetime option \<Rightarrow> aware \<Rightarrow> datetime" where
  "or_now d clock = (case d of None \<Rightarrow> Aware clock | Some x \<Rightarrow> x)"

text \<open>\<open>given or default\<close> for an optional string.\<close>

definition or_default :: "string option \<Rightarrow> string \<Rightarrow> string" where
  "or_default s d = (case s of None \<Rightarrow> d | Some t \<Rightarrow> if t = [] then d else t)"

definition emergency_state_for_legs :: "position_leg list \<Rightarrow> emergency_state" where
  "emergency_state_for_legs legs =
     (if unprotected_short_legs legs \<noteq> [] then emergency_state.BROKEN_SPREAD else emergency_state.NORMAL)"

definition mint_position_snapshot_from_broker_report ::
  "aware \<Rightarrow> broker_position_report dyn \<Rightarrow> datetime option \<Rightarrow> string option \<Rightarrow> position_snapshot res" where
  "mint_position_snapshot_from_broker_report clock report created_at snapshot_id =
     (case report of
        NotInst _ \<Rightarrow> Inl (TypeError ''PositionSnapshot minting from broker requires BrokerPositionReport'')
      | Inst r \<Rightarrow>
          bind_res (recon_aware (or_now created_at clock) ''created_at'') (\<lambda>now.
          position_snapshot_from_gateway
            \<lparr>pn_snapshot_id = or_default snapshot_id (''pos-broker-'' @ br_report_id r),
             pn_source = BROKER_REPORT, pn_source_id = br_report_id r, pn_created_at = now,
             pn_as_of = br_reported_at r, pn_legs = br_legs r, pn_execution_report_ids = [],
             pn_broker_name = Some (br_broker_name r),
             pn_emergency_state = emergency_state_for_legs (br_legs r)\<rparr>))"

definition mint_position_snapshot_from_execution_ledger ::
  "aware \<Rightarrow> execution_position_ledger dyn \<Rightarrow> execution_report dyn list \<Rightarrow> datetime option
     \<Rightarrow> string option \<Rightarrow> position_snapshot res" where
  "mint_position_snapshot_from_execution_ledger clock ledger reports created_at snapshot_id =
     (case ledger of
        NotInst _ \<Rightarrow>
          Inl (TypeError ''PositionSnapshot minting from internal ledger requires ExecutionPositionLedger'')
      | Inst l \<Rightarrow>
          if list_ex (\<lambda>r. case r of Inst _ \<Rightarrow> False | NotInst _ \<Rightarrow> True) reports
          then Inl (TypeError ''execution_reports must contain only ExecutionReport objects'')
          else
            let expected_ids = concat (map (\<lambda>r. case r of Inst e \<Rightarrow> [er_idempotency_key e] | NotInst _ \<Rightarrow> []) reports) in
            require (sort (ld_execution_report_ids l) = sort expected_ids)
              (ValueError ''ExecutionPositionLedger.execution_report_ids must match supplied ExecutionReports'') (
            bind_res (recon_aware (or_now created_at clock) ''created_at'') (\<lambda>now.
            position_snapshot_from_gateway
              \<lparr>pn_snapshot_id = or_default snapshot_id (''pos-ledger-'' @ ld_ledger_id l),
               pn_source = EXECUTION_LEDGER, pn_source_id = ld_ledger_id l, pn_created_at = now,
               pn_as_of = ld_as_of l, pn_legs = ld_legs l,
               pn_execution_report_ids = ld_execution_report_ids l, pn_broker_name = None,
               pn_emergency_state = emergency_state_for_legs (ld_legs l)\<rparr>)))"

section \<open>Reconciliation\<close>

datatype reconciliation_status = MATCH | MISMATCH

datatype reconciliation_permission = NEW_ENTRIES_ALLOWED | MANAGED_EXIT_ONLY

record reconciliation_snapshot =
  rc_reconciliation_id :: string
  rc_created_at :: aware
  rc_expected :: position_snapshot
  rc_broker :: position_snapshot
  rc_status :: reconciliation_status
  rc_permission :: reconciliation_permission
  rc_reason_codes :: "reason_code list"
  rc_audit_artifact :: "audit_artifact option"
  rc_human_required_event :: "human_required_event option"
  rc_managed_exit_allowed :: bool
  rc_flatten_allowed :: bool

definition blocks_new_entries :: "reconciliation_snapshot \<Rightarrow> bool" where
  "blocks_new_entries r \<longleftrightarrow> rc_permission r = MANAGED_EXIT_ONLY"

definition reconciliation_snapshot_guards :: "reconciliation_snapshot \<Rightarrow> (bool \<times> string) list" where
  "reconciliation_snapshot_guards r =
     (rc_reconciliation_id r = [], ''reconciliation_id'') #
     (if rc_status r = MATCH
      then [(rc_permission r \<noteq> NEW_ENTRIES_ALLOWED, ''matching reconciliation must allow new entries''),
            (rc_reason_codes r \<noteq> [] \<or> rc_audit_artifact r \<noteq> None \<or> rc_human_required_event r \<noteq> None,
             ''matching reconciliation must not carry rejection artifacts''),
            (rc_managed_exit_allowed r \<or> rc_flatten_allowed r,
             ''matching reconciliation must not be exit-only'')]
      else [(rc_permission r \<noteq> MANAGED_EXIT_ONLY, ''mismatched reconciliation must block new entries''),
            (reason_code.RECONCILIATION_MISMATCH \<notin> set (rc_reason_codes r),
             ''mismatch requires RECONCILIATION_MISMATCH reason code''),
            (rc_audit_artifact r = None, ''mismatch requires an AuditArtifact''),
            (\<not> rc_managed_exit_allowed r \<or> \<not> rc_flatten_allowed r,
             ''mismatch must permit managed exit and flatten only'')])"

definition mk_reconciliation_snapshot :: "reconciliation_snapshot \<Rightarrow> reconciliation_snapshot res" where
  "mk_reconciliation_snapshot r = construct (reconciliation_snapshot_guards r) r"

definition wf_reconciliation_snapshot :: "reconciliation_snapshot \<Rightarrow> bool" where
  [wf_defs]: "wf_reconciliation_snapshot r \<longleftrightarrow> passes_guards (reconciliation_snapshot_guards r)"

type_synonym leg_key = "string \<times> string \<times> string \<times> string \<times> string \<times> string \<times> int"

definition leg_key :: "position_leg \<Rightarrow> leg_key" where
  "leg_key l =
     (underlying_value (pl_underlying l), pl_option_symbol l, isoformat (pl_expiration_date l),
      option_type_value (pl_option_type l), dec_str (pl_strike l), leg_side_value (pl_side l), pl_contracts l)"

definition normalized_legs :: "position_leg list \<Rightarrow> leg_key list" where
  "normalized_legs legs = sort (map leg_key legs)"

definition mismatch_detail :: "position_snapshot \<Rightarrow> position_snapshot \<Rightarrow> string" where
  "mismatch_detail expected broker =
     (let symbols = (\<lambda>p. let s = str_join '','' (map pl_option_symbol (pn_legs p)) in if s = [] then ''none'' else s);
          unprotected = unprotected_short_symbols expected @ unprotected_short_symbols broker;
          detail = ''expected=['' @ symbols expected @ ''] broker=['' @ symbols broker @ '']''
      in if unprotected \<noteq> [] then detail @ '' unprotected_short=['' @ str_join '','' unprotected @ '']''
         else detail)"

definition positions_mismatch :: "position_snapshot \<Rightarrow> position_snapshot \<Rightarrow> bool" where
  "positions_mismatch expected broker \<longleftrightarrow>
     normalized_legs (pn_legs expected) \<noteq> normalized_legs (pn_legs broker) \<or>
     has_unprotected_short expected \<or> has_unprotected_short broker"

definition mk_human_required_event :: "human_required_event \<Rightarrow> human_required_event res" where
  "mk_human_required_event e = construct [(hr_audit_artifact_id e = [], ''audit_artifact_id'')] e"

definition reconcile_positions ::
  "aware \<Rightarrow> position_snapshot dyn \<Rightarrow> position_snapshot dyn \<Rightarrow> datetime option \<Rightarrow> string option
     \<Rightarrow> reconciliation_snapshot res" where
  "reconcile_positions clock expected_arg broker_arg created_at reconciliation_id =
     (case expected_arg of NotInst _ \<Rightarrow> Inl (TypeError ''expected must be PositionSnapshot'')
      | Inst expected \<Rightarrow>
     (case broker_arg of NotInst _ \<Rightarrow> Inl (TypeError ''broker must be PositionSnapshot'')
      | Inst broker \<Rightarrow>
     require (pn_source expected = EXECUTION_LEDGER)
       (ValueError ''expected snapshot must be derived from the execution ledger'') (
     require (pn_source broker = BROKER_REPORT)
       (ValueError ''broker snapshot must be derived from a broker report'') (
     bind_res (recon_aware (or_now created_at clock) ''created_at'') (\<lambda>now.
     let rid = or_default reconciliation_id
                 (''recon-'' @ pn_snapshot_id expected @ ''-'' @ pn_snapshot_id broker) in
     if \<not> positions_mismatch expected broker
     then mk_reconciliation_snapshot
       \<lparr>rc_reconciliation_id = rid, rc_created_at = now, rc_expected = expected, rc_broker = broker,
        rc_status = MATCH, rc_permission = NEW_ENTRIES_ALLOWED, rc_reason_codes = [],
        rc_audit_artifact = None, rc_human_required_event = None,
        rc_managed_exit_allowed = False, rc_flatten_allowed = False\<rparr>
     else
       bind_res (mk_audit_artifact
         \<lparr>aa_artifact_id = rid @ ''-mismatch'', aa_created_at = now, aa_decision = ''HALT'',
          aa_reason_codes = [reason_code.RECONCILIATION_MISMATCH],
          aa_detail = mismatch_detail expected broker\<rparr>) (\<lambda>artifact.
       bind_res (if has_unprotected_short expected \<or> has_unprotected_short broker
                 then map_res Some (mk_human_required_event
                   \<lparr>hr_kind = human_required_kind.BROKEN_SPREAD,
                    hr_reason_code = PROTECTION_HIERARCHY_VIOLATION, hr_created_at = now,
                    hr_audit_artifact_id = rid @ ''-mismatch'', hr_resolved = False\<rparr>)
                 else Inr None) (\<lambda>human_event.
       mk_reconciliation_snapshot
         \<lparr>rc_reconciliation_id = rid, rc_created_at = now, rc_expected = expected, rc_broker = broker,
          rc_status = MISMATCH, rc_permission = MANAGED_EXIT_ONLY,
          rc_reason_codes = [reason_code.RECONCILIATION_MISMATCH],
          rc_audit_artifact = Some artifact, rc_human_required_event = human_event,
          rc_managed_exit_allowed = True, rc_flatten_allowed = True\<rparr>)))))))"

section \<open>Lemmas on protection\<close>

lemma slots_ok_eligible:
  "slots_ok (length longs) (\<lambda>s j. is_protective_long_for s (longs ! j))
     (\<lambda>s. eligible_longs_least_flexible_first s longs)"
  by (auto simp: slots_ok_def eligible_longs_least_flexible_first_def Let_def)

text \<open>The sort key orders calls by falling strike as long as the strikes fit the 28 digits to
  which the unary minus rounds.\<close>

lemma dec_neg_exact: "representable 10 28 x \<Longrightarrow> dec_neg x = - x"
  by (simp add: dec_neg_def dec_rnd_minus dec.rd_repr)

lemma protective_homogeneous:
  assumes "constraint_key s \<le> constraint_key s'"
    and "representable 10 28 (dval (pl_strike s))" "representable 10 28 (dval (pl_strike s'))"
  shows "homogeneous (\<lambda>s j. is_protective_long_for s (longs ! j))
    {j. j < n \<and> is_protective_long_for s (longs ! j)} s'"
proof (cases "pl_underlying s = pl_underlying s' \<and> pl_expiration_date s = pl_expiration_date s' \<and>
      pl_option_type s = pl_option_type s'")
  case True
  have "(pl_option_type s' = PUT \<longrightarrow> dval (pl_strike s) \<le> dval (pl_strike s')) \<and>
      (pl_option_type s' \<noteq> PUT \<longrightarrow> dval (pl_strike s') \<le> dval (pl_strike s))"
    using assms True by (auto simp: constraint_key_def dec_neg_exact)
  then have "is_protective_long_for s l \<Longrightarrow> is_protective_long_for s' l" for l
    using True by (auto simp: is_protective_long_for_def split: if_splits)
  then show ?thesis by (simp add: homogeneous_def)
next
  case False
  then have "is_protective_long_for s l \<Longrightarrow> \<not> is_protective_long_for s' l" for l
    by (auto simp: is_protective_long_for_def split: if_splits)
  then show ?thesis by (simp add: homogeneous_def)
qed

lemma nested_shorts:
  assumes "sorted (map constraint_key ss)" and "\<forall>s\<in>set ss. representable 10 28 (dval (pl_strike s))"
  shows "nested n (\<lambda>s j. is_protective_long_for s (longs ! j)) ss"
  using assms
proof (induction ss)
  case (Cons s ss)
  then show ?case by (auto intro!: protective_homogeneous)
qed simp

lemma capacity_nonneg: "list_all wf_position_leg longs \<Longrightarrow> 0 \<le> capacity longs j"
  by (force simp: capacity_def list_all_length wf_position_leg_def position_leg_guards_def)

text \<open>What it means that every short contract has its own protective long contract.\<close>

definition fully_protected :: "position_leg list \<Rightarrow> bool" where
  "fully_protected legs \<longleftrightarrow>
     (let shorts = filter (\<lambda>l. pl_side l = SHORT) legs; longs = filter (\<lambda>l. pl_side l = LONG) legs
      in can_serve (length longs) (\<lambda>s j. is_protective_long_for s (longs ! j)) pl_contracts shorts
           (capacity longs))"

lemma unprotected_short_legs_decides:
  assumes "list_all wf_position_leg legs" and "list_all (\<lambda>l. representable 10 28 (dval (pl_strike l))) legs"
  shows "unprotected_short_legs legs = [] \<longleftrightarrow> fully_protected legs"
proof -
  let ?shorts = "filter (\<lambda>l. pl_side l = SHORT) legs" and ?longs = "filter (\<lambda>l. pl_side l = LONG) legs"
  let ?elig = "\<lambda>s j. is_protective_long_for s (?longs ! j)"
  have "\<forall>s\<in>set (shorts_most_constrained_first ?shorts). 0 \<le> pl_contracts s"
    using assms(1) by (force simp: shorts_most_constrained_first_def list_all_iff wf_position_leg_def
        position_leg_guards_def)
  moreover have "nested (length ?longs) ?elig (shorts_most_constrained_first ?shorts)"
    using assms(2) by (intro nested_shorts) (auto simp: shorts_most_constrained_first_def list_all_iff)
  moreover have "\<forall>j. 0 \<le> capacity ?longs j"
    using assms(1) by (intro allI capacity_nonneg) (simp add: list_all_iff)
  ultimately have "unprotected_short_legs legs = [] \<longleftrightarrow>
      can_serve (length ?longs) ?elig pl_contracts (shorts_most_constrained_first ?shorts) (capacity ?longs)"
    unfolding unprotected_short_legs_def Let_def by (intro greedy_decides [OF slots_ok_eligible])
  then show ?thesis
    by (simp add: fully_protected_def shorts_most_constrained_first_def can_serve_sort Let_def)
qed

section \<open>Lemmas on reconciliation\<close>

lemma normalized_legs_eq: "normalized_legs xs = normalized_legs ys \<longleftrightarrow> mset (map leg_key xs) = mset (map leg_key ys)"
proof
  assume "normalized_legs xs = normalized_legs ys"
  then have "mset (sort (map leg_key xs)) = mset (sort (map leg_key ys))" by (simp only: normalized_legs_def)
  then show "mset (map leg_key xs) = mset (map leg_key ys)" by (simp only: mset_sort)
next
  assume "mset (map leg_key xs) = mset (map leg_key ys)"
  then have "sort (map leg_key xs) = sort (map leg_key ys)"
    by (intro properties_for_sort) (simp_all only: mset_sort sorted_sort)
  then show "normalized_legs xs = normalized_legs ys" by (simp only: normalized_legs_def)
qed

lemma or_default_neq_Nil [simp]: "d \<noteq> [] \<Longrightarrow> or_default s d \<noteq> []"
  by (simp add: or_default_def split: option.split)

lemma recon_aware_simps [simp]: "recon_aware (Aware a) f = Inr a"
  by (simp add: recon_aware_def)

lemma or_now_simps [simp]: "or_now (Some d) c = d" "or_now None c = Aware c"
  by (simp_all add: or_now_def)

lemma reconcile_match:
  assumes "pn_source e = EXECUTION_LEDGER" and "pn_source b = BROKER_REPORT" and "\<not> positions_mismatch e b"
  shows "\<exists>r. reconcile_positions clock (Inst e) (Inst b) (Some (Aware now)) rid = Inr r \<and>
    rc_status r = MATCH \<and> wf_reconciliation_snapshot r \<and> \<not> blocks_new_entries r"
  using assms by (simp add: reconcile_positions_def Let_def mk_reconciliation_snapshot_def
      wf_reconciliation_snapshot_def reconciliation_snapshot_guards_def blocks_new_entries_def)

lemma reconcile_mismatch:
  assumes "pn_source e = EXECUTION_LEDGER" and "pn_source b = BROKER_REPORT" and "positions_mismatch e b"
  shows "\<exists>r a. reconcile_positions clock (Inst e) (Inst b) (Some (Aware now)) rid = Inr r \<and>
    rc_status r = MISMATCH \<and> wf_reconciliation_snapshot r \<and> blocks_new_entries r \<and>
    rc_audit_artifact r = Some a \<and> wf_audit_artifact a \<and> aa_decision a = ''HALT'' \<and>
    (rc_human_required_event r \<noteq> None \<longleftrightarrow> has_unprotected_short e \<or> has_unprotected_short b)"
  using assms by (simp add: reconcile_positions_def Let_def mk_reconciliation_snapshot_def
      wf_reconciliation_snapshot_def reconciliation_snapshot_guards_def blocks_new_entries_def
      mk_audit_artifact_def audit_artifact_guards_def wf_audit_artifact_def mk_human_required_event_def)

section \<open>Properties\<close>

text \<open>C26. The greedy protection check is exact: for well-formed legs whose strikes have at most
  28 significant digits it reports no unprotected short leg if and only if the short contracts can
  all be matched to distinct protective long contracts (same underlying, expiration and type,
  further out of the money).\<close>

theorem protection_check_exact:
  assumes "list_all wf_position_leg legs" and "list_all (\<lambda>l. representable 10 28 (dval (pl_strike l))) legs"
  shows "unprotected_short_legs legs = [] \<longleftrightarrow> fully_protected legs"
  by (rule unprotected_short_legs_decides [OF assms])

definition sample_position :: "leg_side \<Rightarrow> int \<Rightarrow> int \<Rightarrow> position_leg" where
  "sample_position side strike n =
     \<lparr>pl_underlying = underlying.XSP, pl_option_symbol = ''XSP'', pl_expiration_date = Date 2026 6 12,
      pl_option_type = PUT, pl_strike = Dec strike 0, pl_side = side, pl_contracts = n,
      pl_average_price = None\<rparr>"

definition sample_legs :: "position_leg list" where
  "sample_legs =
     [sample_position SHORT 560 1, sample_position SHORT 550 1, sample_position LONG 545 1,
      sample_position LONG 555 1]"

lemma sample_legs_wf: "list_all wf_position_leg sample_legs" by code_simp

lemma sample_legs_representable: "list_all (\<lambda>l. representable 10 28 (dval (pl_strike l))) sample_legs"
  by (simp add: sample_legs_def sample_position_def dval_representable)

lemma sample_legs_protected: "unprotected_short_legs sample_legs = []" by code_simp

theorem protection_check_exact_witness: "fully_protected sample_legs"
  using protection_check_exact [OF sample_legs_wf sample_legs_representable] sample_legs_protected by simp

text \<open>C27. Reconciliation of a ledger snapshot with a broker snapshot always returns: MATCH, with
  new entries allowed, exactly when the two multisets of normalised legs agree and neither side
  has an unprotected short; otherwise MISMATCH with new entries blocked, a HALT artifact, and a
  human-required event when a short is unprotected. Its own schema never rejects the result.\<close>

theorem reconcile_positions_exact:
  assumes "pn_source e = EXECUTION_LEDGER" and "pn_source b = BROKER_REPORT"
  shows "\<exists>r. reconcile_positions clock (Inst e) (Inst b) (Some (Aware now)) rid = Inr r \<and>
    wf_reconciliation_snapshot r \<and>
    (rc_status r = MATCH \<longleftrightarrow>
       mset (map leg_key (pn_legs e)) = mset (map leg_key (pn_legs b)) \<and>
       unprotected_short_legs (pn_legs e) = [] \<and> unprotected_short_legs (pn_legs b) = []) \<and>
    (blocks_new_entries r \<longleftrightarrow> rc_status r = MISMATCH) \<and>
    (rc_status r = MISMATCH \<longrightarrow>
       (\<exists>a. rc_audit_artifact r = Some a \<and> wf_audit_artifact a \<and> aa_decision a = ''HALT'') \<and>
       (rc_human_required_event r \<noteq> None \<longleftrightarrow> has_unprotected_short e \<or> has_unprotected_short b))"
proof (cases "positions_mismatch e b")
  case True
  moreover have "\<not> (mset (map leg_key (pn_legs e)) = mset (map leg_key (pn_legs b)) \<and>
       unprotected_short_legs (pn_legs e) = [] \<and> unprotected_short_legs (pn_legs b) = [])"
    using True by (simp only: positions_mismatch_def has_unprotected_short_def normalized_legs_eq) blast
  ultimately show ?thesis using reconcile_mismatch [OF assms, of clock now rid] by force
next
  case False
  moreover have "mset (map leg_key (pn_legs e)) = mset (map leg_key (pn_legs b)) \<and>
       unprotected_short_legs (pn_legs e) = [] \<and> unprotected_short_legs (pn_legs b) = []"
    using False by (simp only: positions_mismatch_def has_unprotected_short_def normalized_legs_eq) blast
  ultimately show ?thesis using reconcile_match [OF assms, of clock now rid] by force
qed

definition sample_snapshot :: "position_snapshot_source \<Rightarrow> position_leg list \<Rightarrow> position_snapshot" where
  "sample_snapshot src legs =
     \<lparr>pn_snapshot_id = ''p'', pn_source = src, pn_source_id = ''s'', pn_created_at = sample_as_of,
      pn_as_of = sample_as_of, pn_legs = legs, pn_execution_report_ids = [''k''], pn_broker_name = None,
      pn_emergency_state = emergency_state.NORMAL\<rparr>"

theorem reconcile_positions_exact_witness:
  "\<exists>r. reconcile_positions sample_as_of (Inst (sample_snapshot EXECUTION_LEDGER sample_legs))
      (Inst (sample_snapshot BROKER_REPORT (rev sample_legs))) (Some (Aware sample_as_of)) None = Inr r \<and>
    wf_reconciliation_snapshot r"
  using reconcile_positions_exact [of "sample_snapshot EXECUTION_LEDGER sample_legs"
      "sample_snapshot BROKER_REPORT (rev sample_legs)" sample_as_of sample_as_of None]
  by (auto simp: sample_snapshot_def)

text \<open>A snapshot minted from a well-formed broker report is accepted by its schema exactly
  when the report does not postdate the creation time, and it is marked BROKEN_SPREAD exactly when
  a short leg is unprotected.\<close>

theorem broker_snapshot_marks_broken_spread:
  assumes "wf_broker_position_report r"
  shows "case mint_position_snapshot_from_broker_report clock (Inst r) (Some (Aware now)) sid of
      Inl _ \<Rightarrow> at_us now < at_us (br_reported_at r)
    | Inr p \<Rightarrow> at_us (br_reported_at r) \<le> at_us now \<and> wf_position_snapshot p \<and> pn_legs p = br_legs r \<and>
        (pn_emergency_state p = emergency_state.BROKEN_SPREAD \<longleftrightarrow> unprotected_short_legs (br_legs r) \<noteq> []) \<and>
        (pn_emergency_state p = emergency_state.NORMAL \<longleftrightarrow> unprotected_short_legs (br_legs r) = [])"
proof -
  let ?p = "\<lparr>pn_snapshot_id = or_default sid (''pos-broker-'' @ br_report_id r),
     pn_source = BROKER_REPORT, pn_source_id = br_report_id r, pn_created_at = now,
     pn_as_of = br_reported_at r, pn_legs = br_legs r, pn_execution_report_ids = [],
     pn_broker_name = Some (br_broker_name r),
     pn_emergency_state = emergency_state_for_legs (br_legs r)\<rparr>"
  have "passes_guards (position_snapshot_guards ?p) \<longleftrightarrow> at_us (br_reported_at r) \<le> at_us now"
    using assms by (auto simp: position_snapshot_guards_def truthy_def at_defs wf_broker_position_report_def
        has_unprotected_short_def emergency_state_for_legs_def)
  moreover have "list_all wf_position_leg (br_legs r)"
    using assms by (simp add: wf_broker_position_report_def)
  ultimately show ?thesis
    by (auto simp: mint_position_snapshot_from_broker_report_def position_snapshot_from_gateway_def
        init_position_snapshot_def wf_position_snapshot_def emergency_state_for_legs_def
        construct_eq_Inr is_ok_construct split: sum.split dest: construct_Inl)
qed

definition sample_report :: broker_position_report where
  "sample_report = \<lparr>br_report_id = ''r'', br_broker_name = ''fake'', br_reported_at = sample_as_of,
     br_legs = sample_legs\<rparr>"

lemma sample_report_wf: "wf_broker_position_report sample_report"
  using sample_legs_wf by (simp add: wf_broker_position_report_def sample_report_def)

theorem broker_snapshot_marks_broken_spread_witness:
  "is_ok (mint_position_snapshot_from_broker_report sample_as_of (Inst sample_report)
     (Some (Aware sample_as_of)) None)"
  using broker_snapshot_marks_broken_spread [OF sample_report_wf, of sample_as_of sample_as_of None]
  by (auto simp: is_ok_def sample_report_def split: sum.splits)

text \<open>The comparison uses the printed strike: two legs that agree in every field by value, one
  with strike \<open>500\<close> and one with \<open>500.0\<close>, are reported as a mismatch.\<close>

theorem equal_strikes_may_mismatch:
  "\<exists>l l'. l' = l\<lparr>pl_strike := pl_strike l'\<rparr> \<and> dval (pl_strike l) = dval (pl_strike l') \<and>
     normalized_legs [l] \<noteq> normalized_legs [l']"
proof -
  let ?l = "sample_position LONG 500 1"
  have "dval (Dec 500 0) = dval (Dec 5000 (- 1))" by (simp add: dval_def power_int_minus)
  moreover have "dec_str (Dec 500 0) \<noteq> dec_str (Dec 5000 (- 1))" by code_simp
  ultimately show ?thesis
    by (intro exI [of _ ?l] exI [of _ "?l\<lparr>pl_strike := Dec 5000 (- 1)\<rparr>"])
      (simp add: normalized_legs_def leg_key_def sample_position_def)
qed

end
