(* ===== verification/ReportRecords.thy ===== *)
theory ReportRecords
  imports Positions
begin

text \<open>
  Records that the audit store persists beside those of the trading pipeline: the operator kill
  switch (\<open>schemas/kill_switch_state.py\<close>) and the daily and risk reports with their embedded
  summaries (\<open>reports/records.py\<close>), each with the checks of its constructor.
\<close>

section \<open>Kill switch\<close>

record kill_switch_state =
  ks_halted :: bool
  ks_reason_code :: "reason_code option"
  ks_rearm_mode :: "rearm_mode_enum option"
  ks_command_id :: string
  ks_created_at :: aware
  ks_note :: string

definition kill_switch_state_guards :: "kill_switch_state \<Rightarrow> (bool \<times> string) list" where
  "kill_switch_state_guards k =
     [(ks_command_id k = [], ''command_id''),
      (ks_halted k \<and> (ks_reason_code k = None \<or> ks_rearm_mode k = None),
       ''a halted KillSwitchState must carry both reason_code and rearm_mode''),
      (\<not> ks_halted k \<and> (ks_reason_code k \<noteq> None \<or> ks_rearm_mode k \<noteq> None),
       ''a non-halted KillSwitchState must not carry reason_code or rearm_mode'')]"

definition init_kill_switch_state :: "bool \<Rightarrow> kill_switch_state \<Rightarrow> kill_switch_state res" where
  "init_kill_switch_state init_allowed k =
     (if \<not> init_allowed
      then Inl (TypeError ''KillSwitchState must be minted by deterministic control-plane code'')
      else construct (kill_switch_state_guards k) k)"

definition kill_switch_state_from_gateway :: "kill_switch_state \<Rightarrow> kill_switch_state res" where
  "kill_switch_state_from_gateway k = init_kill_switch_state True k"

definition kill_switch_model_copy :: "bool \<Rightarrow> kill_switch_state \<Rightarrow> kill_switch_state res" where
  "kill_switch_model_copy update_or_args k =
     (if update_or_args then Inl (TypeError ''KillSwitchState.model_copy(update=...) is forbidden'')
      else Inr k)"

definition ks_new_entries_allowed :: "kill_switch_state \<Rightarrow> bool" where
  "ks_new_entries_allowed k \<longleftrightarrow> \<not> ks_halted k"

definition ks_requires_human_rearm :: "kill_switch_state \<Rightarrow> bool" where
  "ks_requires_human_rearm k \<longleftrightarrow>
     ks_rearm_mode k \<in> {Some rearm_mode_enum.HUMAN_ONLY, Some rearm_mode_enum.HUMAN_ONLY_AFTER_REVIEW}"

definition wf_kill_switch_state :: "kill_switch_state \<Rightarrow> bool" where
  [wf_defs]: "wf_kill_switch_state k \<longleftrightarrow> passes_guards (kill_switch_state_guards k)"

section \<open>Narrative and promotion drills\<close>

text \<open>Records that no other code of the program reads.\<close>

record daily_rationale =
  ra_date :: aware
  ra_summary :: string
  ra_referenced_audit_artifact_ids :: "string list"

definition mk_daily_rationale :: "daily_rationale \<Rightarrow> daily_rationale res" where
  "mk_daily_rationale n = construct [(ra_summary n = [], ''summary'')] n"

record promotion_drill_result =
  pd_drill :: promotion_drill
  pd_ran_at :: aware
  pd_system_halts_new_orders :: bool
  pd_working_orders_cancel_or_native_managed :: bool
  pd_human_required_event_emitted :: bool
  pd_audit_artifact_created :: bool

definition drill_passed :: "promotion_drill_result \<Rightarrow> bool" where
  "drill_passed d \<longleftrightarrow>
     pd_system_halts_new_orders d \<and> pd_working_orders_cancel_or_native_managed d \<and>
     pd_human_required_event_emitted d \<and> pd_audit_artifact_created d"

section \<open>Report summaries\<close>

datatype reconciliation_report_status = RECONCILED | RECON_MISMATCH | RECON_NOT_AVAILABLE

datatype data_freshness_report_status = FRESH_OK | STALE | NOT_TRACKED

datatype kill_switch_report_status = HALTED | ARMED | UNKNOWN

record reason_code_tally =
  ry_reason_code :: reason_code
  ry_count :: int

record kill_switch_summary =
  ku_status :: kill_switch_report_status
  ku_halted :: "bool option"
  ku_reason_code :: "reason_code option"
  ku_rearm_mode :: "rearm_mode_enum option"
  ku_command_id :: "string option"

definition kill_switch_summary_guards :: "kill_switch_summary \<Rightarrow> (bool \<times> string) list" where
  "kill_switch_summary_guards k =
     (case ku_status k of
        UNKNOWN \<Rightarrow>
          [(ku_halted k \<noteq> None \<or> ku_reason_code k \<noteq> None \<or> ku_rearm_mode k \<noteq> None \<or> ku_command_id k \<noteq> None,
            ''UNKNOWN kill-switch summary must carry no state fields'')]
      | HALTED \<Rightarrow>
          [(ku_halted k \<noteq> Some True, ''HALTED kill-switch summary requires halted=True''),
           (ku_reason_code k = None \<or> ku_rearm_mode k = None,
            ''HALTED kill-switch summary requires reason_code and rearm_mode'')]
      | ARMED \<Rightarrow>
          [(ku_halted k \<noteq> Some False, ''ARMED kill-switch summary requires halted=False''),
           (ku_reason_code k \<noteq> None \<or> ku_rearm_mode k \<noteq> None,
            ''ARMED kill-switch summary must not carry reason_code/rearm_mode'')])"

definition mk_kill_switch_summary :: "kill_switch_summary \<Rightarrow> kill_switch_summary res" where
  "mk_kill_switch_summary k = construct (kill_switch_summary_guards k) k"

record human_required_summary =
  hu_kind :: human_required_kind
  hu_reason_code :: reason_code
  hu_created_at :: aware
  hu_resolved :: bool
  hu_audit_artifact_id :: string

record position_summary =
  pu_available :: bool
  pu_open_legs :: int
  pu_open_contracts :: int
  pu_snapshot_id :: "string option"
  pu_as_of :: "aware option"
  pu_emergency_state :: "emergency_state option"

definition position_summary_guards :: "position_summary \<Rightarrow> (bool \<times> string) list" where
  "position_summary_guards p =
     [(pu_open_legs p < 0, ''open_legs''), (pu_open_contracts p < 0, ''open_contracts'')] @
     (if \<not> pu_available p then
        [(pu_open_legs p \<noteq> 0 \<or> pu_open_contracts p \<noteq> 0,
          ''unavailable PositionSummary must report zero legs/contracts''),
         (pu_snapshot_id p \<noteq> None \<or> pu_as_of p \<noteq> None,
          ''unavailable PositionSummary must carry no snapshot identity'')]
      else
        [(pu_snapshot_id p = None \<or> pu_as_of p = None \<or> pu_emergency_state p = None,
          ''available PositionSummary requires snapshot_id, as_of, and emergency_state'')])"

definition mk_position_summary :: "position_summary \<Rightarrow> position_summary res" where
  "mk_position_summary p = construct (position_summary_guards p) p"

record system_identity =
  sy_commit_sha :: string
  sy_config_hash :: string
  sy_strategy_version :: string
  sy_broker_mode :: broker_mode
  sy_paper_trading :: bool

definition system_identity_guards :: "system_identity \<Rightarrow> (bool \<times> string) list" where
  "system_identity_guards i =
     [(sy_commit_sha i = [], ''commit_sha''), (sy_config_hash i = [], ''config_hash''),
      (sy_strategy_version i = [], ''strategy_version'')]"

definition from_config_json ::
  "string \<Rightarrow> broker_mode \<Rightarrow> bool \<Rightarrow> string \<Rightarrow> string \<Rightarrow> system_identity res" where
  "from_config_json config_json mode paper commit_sha strategy_version =
     (let i = \<lparr>sy_commit_sha = commit_sha, sy_config_hash = sha256_hexdigest config_json,
               sy_strategy_version = strategy_version, sy_broker_mode = mode, sy_paper_trading = paper\<rparr>
      in construct (system_identity_guards i) i)"

section \<open>Reports\<close>

record daily_report =
  dr_report_id :: string
  dr_report_date :: string
  dr_generated_at :: aware
  dr_window_start :: aware
  dr_window_end :: aware
  dr_identity :: system_identity
  dr_candidates_generated :: int
  dr_gateway_approvals :: int
  dr_gateway_rejections :: int
  dr_rejections_by_reason :: "reason_code_tally list"
  dr_tickets_minted :: int
  dr_paper_orders_submitted :: int
  dr_fills :: int
  dr_cancels :: int
  dr_rejects :: int
  dr_positions :: position_summary
  dr_reconciliation_status :: reconciliation_report_status
  dr_data_freshness :: data_freshness_report_status
  dr_data_freshness_issues :: "reason_code list"
  dr_human_required_events :: "human_required_summary list"
  dr_kill_switch :: kill_switch_summary
  dr_events_in_window :: int
  dr_total_audit_events :: int

definition daily_report_guards :: "daily_report \<Rightarrow> (bool \<times> string) list" where
  "daily_report_guards d =
     [(dr_report_id d = [], ''report_id''), (dr_report_date d = [], ''report_date''),
      (dr_candidates_generated d < 0, ''candidates_generated''),
      (dr_gateway_approvals d < 0, ''gateway_approvals''),
      (dr_gateway_rejections d < 0, ''gateway_rejections''),
      (dr_tickets_minted d < 0, ''tickets_minted''),
      (dr_paper_orders_submitted d < 0, ''paper_orders_submitted''),
      (dr_fills d < 0, ''fills''), (dr_cancels d < 0, ''cancels''), (dr_rejects d < 0, ''rejects''),
      (dr_events_in_window d < 0, ''events_in_window''),
      (dr_total_audit_events d < 0, ''total_audit_events''),
      (at_lt (dr_window_end d) (dr_window_start d), ''window_start must not be after window_end'')]"

definition mk_daily_report :: "daily_report \<Rightarrow> daily_report res" where
  "mk_daily_report d = construct (daily_report_guards d) d"

record risk_report =
  kr_report_id :: string
  kr_report_date :: string
  kr_generated_at :: aware
  kr_window_start :: aware
  kr_window_end :: aware
  kr_identity :: system_identity
  kr_positions :: position_summary
  kr_fills :: int
  kr_realized_pnl :: "decimal option"
  kr_pnl_supported :: bool
  kr_max_drawdown :: "decimal option"
  kr_drawdown_supported :: bool
  kr_drawdown_tier :: "drawdown_tier option"
  kr_reconciliation_status :: reconciliation_report_status
  kr_kill_switch :: kill_switch_summary

definition risk_report_guards :: "risk_report \<Rightarrow> (bool \<times> string) list" where
  "risk_report_guards k =
     [(kr_report_id k = [], ''report_id''), (kr_report_date k = [], ''report_date''), (kr_fills k < 0, ''fills''),
      (at_lt (kr_window_end k) (kr_window_start k), ''window_start must not be after window_end''),
      (kr_pnl_supported k = (kr_realized_pnl k = None),
       ''realized_pnl must be present iff pnl_supported is True''),
      (kr_drawdown_supported k = (kr_max_drawdown k = None),
       ''max_drawdown must be present iff drawdown_supported is True''),
      (kr_drawdown_supported k = (kr_drawdown_tier k = None),
       ''drawdown_tier must be present iff drawdown_supported is True''),
      (case kr_max_drawdown k of None \<Rightarrow> False | Some x \<Rightarrow> dval x < 0,
       ''max_drawdown is a non-negative magnitude'')]"

definition mk_risk_report :: "risk_report \<Rightarrow> risk_report res" where
  "mk_risk_report k = construct (risk_report_guards k) k"

end
