(* ===== verification/Json.thy ===== *)
theory Json
  imports Errors "HOL-Library.AList"
begin

text \<open>
  \<open>json.loads\<close> of the Python standard library, as the audit store uses it on payloads. Text
  is a list of bytes in UTF-8; a \<open>\u\<close> escape is decoded to its UTF-8 bytes. An object keeps
  the order of first insertion and the last value of a repeated key, like the dictionary it is
  parsed into. A number without fraction and exponent is an integer; the others keep their text.
  The recursion depth is bounded by fuel, the length of the text plus one: a value takes no more
  fuel than it has characters (lemma \<open>json_value_fuel\<close>), so the fuel never runs out on a
  text that parses with any fuel.
\<close>

section \<open>Values\<close>

datatype json =
    JNull
  | JBool bool
  | JInt int
  | JFloat string
  | JStr string
  | JArr "json list"
  | JObj "(string \<times> json) list"

definition skip_ws :: "string \<Rightarrow> string" where
  "skip_ws s = dropWhile (\<lambda>c. c \<in> {CHR '' '', CHR 0x09, CHR 0x0A, CHR 0x0D}) s"

section \<open>Strings\<close>

definition hex_val :: "char \<Rightarrow> int option" where
  "hex_val c = (let n = of_char c :: int in
     if 48 \<le> n \<and> n \<le> 57 then Some (n - 48)
     else if 97 \<le> n \<and> n \<le> 102 then Some (n - 87)
     else if 65 \<le> n \<and> n \<le> 70 then Some (n - 55) else None)"

fun hex4 :: "string \<Rightarrow> int option" where
  "hex4 (a # b # c # d # _) =
     (case (hex_val a, hex_val b, hex_val c, hex_val d) of
        (Some w, Some x, Some y, Some z) \<Rightarrow> Some (((w * 16 + x) * 16 + y) * 16 + z)
      | _ \<Rightarrow> None)"
| "hex4 _ = None"

definition utf8 :: "int \<Rightarrow> string" where
  "utf8 n = map char_of
     (if n < 128 then [n]
      else if n < 2048 then [192 + n div 64, 128 + n mod 64]
      else if n < 65536 then [224 + n div 4096, 128 + n div 64 mod 64, 128 + n mod 64]
      else [240 + n div 262144, 128 + n div 4096 mod 64, 128 + n div 64 mod 64, 128 + n mod 64])"

definition escape_char :: "char \<Rightarrow> char option" where
  "escape_char e = map_of
     [(CHR 0x22, CHR 0x22), (CHR 0x5C, CHR 0x5C), (CHR ''/'', CHR ''/''), (CHR ''b'', CHR 0x08),
      (CHR ''f'', CHR 0x0C), (CHR ''n'', CHR 0x0A), (CHR ''r'', CHR 0x0D), (CHR ''t'', CHR 0x09)] e"

text \<open>The low half of a surrogate pair, when the text continues with one.\<close>

definition low_surrogate :: "string \<Rightarrow> int option" where
  "low_surrogate s =
     (case s of
        b # u # rest \<Rightarrow>
          if b = CHR 0x5C \<and> u = CHR ''u'' then
            (case hex4 rest of
               Some n \<Rightarrow> if 0xDC00 \<le> n \<and> n \<le> 0xDFFF then Some n else None
             | None \<Rightarrow> None)
          else None
      | _ \<Rightarrow> None)"

text \<open>The rest of a string literal after its opening quote: its contents and what follows the
  closing quote. Control characters are refused.\<close>

function json_string :: "string \<Rightarrow> (string \<times> string) option" where
  "json_string [] = None"
| "json_string (c # cs) =
     (if c = CHR 0x22 then Some ([], cs)
      else if c = CHR 0x5C then
        (case cs of
           [] \<Rightarrow> None
         | e # rest \<Rightarrow>
             if e = CHR ''u'' then
               (case hex4 rest of
                  None \<Rightarrow> None
                | Some n \<Rightarrow>
                    (case (if 0xD800 \<le> n \<and> n \<le> 0xDBFF then low_surrogate (drop 4 rest) else None) of
                       Some m \<Rightarrow>
                         map_option (\<lambda>(t, r). (utf8 (0x10000 + (n - 0xD800) * 0x400 + (m - 0xDC00)) @ t, r))
                           (json_string (drop 10 rest))
                     | None \<Rightarrow> map_option (\<lambda>(t, r). (utf8 n @ t, r)) (json_string (drop 4 rest))))
             else
               (case escape_char e of
                  None \<Rightarrow> None
                | Some x \<Rightarrow> map_option (\<lambda>(t, r). (x # t, r)) (json_string rest)))
      else if (of_char c :: nat) < 32 then None
      else map_option (\<lambda>(t, r). (c # t, r)) (json_string cs))"
  by pat_completeness auto
termination by (relation "measure length") auto

section \<open>Numbers\<close>

definition digits :: "string \<Rightarrow> string \<times> string" where
  "digits s = (takeWhile is_digit s, dropWhile is_digit s)"

definition int_part :: "string \<Rightarrow> (string \<times> string) option" where
  "int_part s =
     (case s of
        [] \<Rightarrow> None
      | c # cs \<Rightarrow> if c = CHR ''0'' then Some ([c], cs) else if is_digit c then Some (digits s) else None)"

definition frac_part :: "string \<Rightarrow> string \<times> string" where
  "frac_part s =
     (case s of
        c # cs \<Rightarrow> if c = CHR ''.'' \<and> fst (digits cs) \<noteq> [] then (c # fst (digits cs), snd (digits cs)) else ([], s)
      | [] \<Rightarrow> ([], s))"

definition exp_part :: "string \<Rightarrow> string \<times> string" where
  "exp_part s =
     (case s of
        [] \<Rightarrow> ([], s)
      | e # cs \<Rightarrow>
          if e \<in> {CHR ''e'', CHR ''E''} then
            let sign = (case cs of c # _ \<Rightarrow> if c \<in> {CHR ''+'', CHR ''-''} then [c] else [] | [] \<Rightarrow> []);
                (ds, r) = digits (drop (length sign) cs)
            in if ds \<noteq> [] then (e # sign @ ds, r) else ([], s)
          else ([], s))"

definition json_number :: "string \<Rightarrow> (json \<times> string) option" where
  "json_number s =
     (let (sign, body) = (case s of c # cs \<Rightarrow> if c = CHR ''-'' then ([c], cs) else ([], s) | [] \<Rightarrow> ([], s)) in
      case int_part body of
        None \<Rightarrow> None
      | Some (i, r) \<Rightarrow>
          (let (f, r') = frac_part r; (e, r'') = exp_part r' in
           if f = [] \<and> e = [] then map_option (\<lambda>n. (JInt n, r'')) (py_int (sign @ i))
           else Some (JFloat (sign @ i @ f @ e), r'')))"

section \<open>Documents\<close>

fun keyword_value :: "(string \<times> json) list \<Rightarrow> string \<Rightarrow> (json \<times> string) option" where
  "keyword_value [] s = None"
| "keyword_value ((w, v) # ws) s =
     (if take (length w) s = w then Some (v, drop (length w) s) else keyword_value ws s)"

definition json_keywords :: "(string \<times> json) list" where
  "json_keywords =
     [(''null'', JNull), (''true'', JBool True), (''false'', JBool False), (''NaN'', JFloat ''NaN''),
      (''Infinity'', JFloat ''Infinity''), (''-Infinity'', JFloat ''-Infinity'')]"

fun json_value :: "nat \<Rightarrow> string \<Rightarrow> (json \<times> string) option"
  and json_elements :: "nat \<Rightarrow> string \<Rightarrow> json list \<Rightarrow> (json \<times> string) option"
  and json_members :: "nat \<Rightarrow> string \<Rightarrow> (string \<times> json) list \<Rightarrow> (json \<times> string) option" where
  "json_value 0 s = None"
| "json_value (Suc n) s =
     (case s of
        [] \<Rightarrow> None
      | c # cs \<Rightarrow>
          if c = CHR 0x22 then map_option (\<lambda>(t, r). (JStr t, r)) (json_string cs)
          else if c = CHR ''{'' then
            (case skip_ws cs of
               [] \<Rightarrow> None
             | d # r \<Rightarrow> if d = CHR ''}'' then Some (JObj [], r) else json_members n (d # r) [])
          else if c = CHR ''['' then
            (case skip_ws cs of
               [] \<Rightarrow> None
             | d # r \<Rightarrow> if d = CHR '']'' then Some (JArr [], r) else json_elements n (d # r) [])
          else
            (case keyword_value json_keywords s of
               Some p \<Rightarrow> Some p
             | None \<Rightarrow> json_number s))"
| "json_elements 0 s acc = None"
| "json_elements (Suc n) s acc =
     (case json_value n s of
        None \<Rightarrow> None
      | Some (v, r) \<Rightarrow>
          (case skip_ws r of
             [] \<Rightarrow> None
           | d # r' \<Rightarrow>
               if d = CHR '']'' then Some (JArr (acc @ [v]), r')
               else if d = CHR '','' then json_elements n (skip_ws r') (acc @ [v])
               else None))"
| "json_members 0 s acc = None"
| "json_members (Suc n) s acc =
     (case s of
        [] \<Rightarrow> None
      | q # cs \<Rightarrow>
          if q \<noteq> CHR 0x22 then None
          else
            (case json_string cs of
               None \<Rightarrow> None
             | Some (key, r) \<Rightarrow>
                 (case skip_ws r of
                    [] \<Rightarrow> None
                  | d # r' \<Rightarrow>
                      if d \<noteq> CHR '':'' then None
                      else
                        (case json_value n (skip_ws r') of
                           None \<Rightarrow> None
                         | Some (v, r2) \<Rightarrow>
                             (case skip_ws r2 of
                                [] \<Rightarrow> None
                              | d2 # r3 \<Rightarrow>
                                  if d2 = CHR ''}'' then Some (JObj (AList.update key v acc), r3)
                                  else if d2 = CHR '','' then json_members n (skip_ws r3) (AList.update key v acc)
                                  else None)))))"

definition json_loads :: "string \<Rightarrow> json res" where
  "json_loads s =
     (case json_value (Suc (length s)) (skip_ws s) of
        Some (v, r) \<Rightarrow> if skip_ws r = [] then Inr v else Inl (ValueError ''Extra data'')
      | None \<Rightarrow> Inl (ValueError ''Expecting value''))"

text \<open>\<open>data[key]\<close> on a parsed value.\<close>

definition json_get :: "json \<Rightarrow> string \<Rightarrow> json res" where
  "json_get v key =
     (case v of
        JObj ms \<Rightarrow> (case map_of ms key of Some x \<Rightarrow> Inr x | None \<Rightarrow> Inl (KeyError key))
      | _ \<Rightarrow> Inl (TypeError ''not a mapping''))"

lemma json_example:
  "json_loads ''{\"a\": [1, -2.5e3, null, true], \"b\": {\"c\": \"x\"}, \"a\": 7}'' =
     Inr (JObj [(''a'', JInt 7), (''b'', JObj [(''c'', JStr ''x'')])])"
  by code_simp

section \<open>The fuel is enough\<close>

lemma skip_ws_length: "length (skip_ws s) \<le> length s"
  by (simp add: skip_ws_def length_dropWhile_le)

lemma skip_ws_Cons: "skip_ws s = c # r \<Longrightarrow> length r < length s"
  using skip_ws_length [of s] by simp

lemma json_string_length: "json_string s = Some (t, r) \<Longrightarrow> length r < length s"
proof (induction s arbitrary: t r rule: json_string.induct)
  case (2 c cs)
  consider (quote) "c = CHR 0x22" | (escape) "c \<noteq> CHR 0x22" "c = CHR 0x5C" | (plain) "c \<noteq> CHR 0x22" "c \<noteq> CHR 0x5C"
    by blast
  then show ?case
  proof cases
    case quote
    then show ?thesis using "2.prems" by simp
  next
    case escape
    then obtain e rest where cs: "cs = e # rest" using "2.prems" by (cases cs) simp_all
    show ?thesis
    proof (cases "e = CHR ''u''")
      case u: True
      then obtain n where n: "hex4 rest = Some n"
        using "2.prems" escape cs by (auto split: option.splits)
      show ?thesis
      proof (cases "if 0xD800 \<le> n \<and> n \<le> 0xDBFF then low_surrogate (drop 4 rest) else None")
        case None
        then show ?thesis using "2.prems" escape cs u n "2.IH"(1) [OF escape cs u n None] by fastforce
      next
        case (Some m)
        then show ?thesis using "2.prems" escape cs u n "2.IH"(2) [OF escape cs u n Some] by fastforce
      qed
    next
      case False
      then show ?thesis using "2.prems" escape cs "2.IH"(3) [OF escape cs False]
        by (fastforce split: option.splits)
    qed
  next
    case plain
    then show ?thesis using "2.prems" "2.IH"(4) [OF plain] by (fastforce split: if_splits)
  qed
qed simp

lemma int_part_length: "int_part s = Some (i, r) \<Longrightarrow> length r < length s"
  by (auto simp: int_part_def digits_def le_imp_less_Suc length_dropWhile_le split: list.splits if_splits)

lemma frac_part_length: "frac_part s = (f, r) \<Longrightarrow> length r \<le> length s"
  by (auto simp: frac_part_def digits_def le_SucI length_dropWhile_le split: list.splits if_splits)

lemma exp_part_length: "exp_part s = (e, r) \<Longrightarrow> length r \<le> length s"
  by (cases s) (auto simp: exp_part_def digits_def Let_def le_SucI
      intro: le_SucI order_trans [OF length_dropWhile_le] split: list.splits if_splits)

lemma json_number_length: "json_number s = Some (v, r) \<Longrightarrow> length r < length s"
  by (cases s)
    (auto simp: json_number_def split: list.splits if_splits option.splits prod.splits
      dest!: int_part_length frac_part_length exp_part_length)

lemma keyword_value_length:
  "keyword_value ws s = Some (v, r) \<Longrightarrow> [] \<notin> fst ` set ws \<Longrightarrow> length r < length s"
proof (induction ws s rule: keyword_value.induct)
  case (2 w x ws s)
  show ?case
  proof (cases "take (length w) s = w")
    case True
    then have "w \<noteq> [] \<and> length w \<le> length s \<and> r = drop (length w) s"
      using "2.prems" by (auto simp: take_all_iff min_def dest: arg_cong [of _ _ length] split: if_splits)
    moreover from this have "0 < length w" by simp
    ultimately show ?thesis by (simp del: length_greater_0_conv)
  next
    case False
    then show ?thesis using "2.IH" "2.prems" by simp
  qed
qed simp

lemma json_keywords_nonempty: "[] \<notin> fst ` set json_keywords"
  by (simp add: json_keywords_def)

text \<open>A parse that succeeds with some fuel consumes text, and succeeds with the same result for
  every fuel that is at least the number of characters it consumes.\<close>

definition enough :: "(nat \<Rightarrow> (json \<times> string) option) \<Rightarrow> string \<Rightarrow> json \<Rightarrow> string \<Rightarrow> bool" where
  "enough parse s v r \<longleftrightarrow> length r < length s \<and> (\<forall>n\<ge>length s - length r. parse n = Some (v, r))"

lemma enoughI:
  assumes "length r < length s" and "\<And>n. length s \<le> n + Suc (length r) \<Longrightarrow> parse (Suc n) = Some (v, r)"
  shows "enough parse s v r"
  unfolding enough_def
proof (intro conjI allI impI)
  fix n assume "length s - length r \<le> n"
  then obtain k where "n = Suc k" "length s \<le> k + Suc (length r)" using assms(1) by (cases n) auto
  then show "parse n = Some (v, r)" using assms(2) by simp
qed (rule assms(1))

lemma enoughD: "enough parse s v r \<Longrightarrow> length s \<le> n + length r \<Longrightarrow> parse n = Some (v, r)"
  by (simp add: enough_def)

lemma enough_length: "enough parse s v r \<Longrightarrow> length r < length s"
  by (simp add: enough_def)

lemma json_value_fuel:
  "json_value m s = Some (v, r) \<Longrightarrow> enough (\<lambda>n. json_value n s) s v r"
  "json_elements m s acc = Some (v, r) \<Longrightarrow> enough (\<lambda>n. json_elements n s acc) s v r"
  "json_members m s ms = Some (v, r) \<Longrightarrow> enough (\<lambda>n. json_members n s ms) s v r"
proof (induction m s and m s acc and m s ms arbitrary: v r and v r and v r
    rule: json_value_json_elements_json_members.induct)
  case (2 m s)
  from "2.prems" obtain c cs where s: "s = c # cs" by (cases s) simp_all
  consider (str) "c = CHR 0x22" | (obj) "c \<noteq> CHR 0x22" "c = CHR ''{''"
    | (arr) "c \<noteq> CHR 0x22" "c \<noteq> CHR ''{''" "c = CHR ''[''"
    | (atom) "c \<noteq> CHR 0x22" "c \<noteq> CHR ''{''" "c \<noteq> CHR ''[''" by blast
  then show ?case
  proof cases
    case str
    then obtain t where "json_string cs = Some (t, r)" "v = JStr t" using "2.prems" s by auto
    then show ?thesis using str s json_string_length [of cs t r] by (intro enoughI) simp_all
  next
    case obj
    then obtain d q where d: "skip_ws cs = d # q" using "2.prems" s by (auto split: list.splits)
    show ?thesis
    proof (cases "d = CHR ''}''")
      case True
      then show ?thesis using obj "2.prems" s d skip_ws_Cons [OF d] by (intro enoughI) simp_all
    next
      case False
      then have "json_members m (d # q) [] = Some (v, r)" using obj "2.prems" s d by simp
      then have "enough (\<lambda>n. json_members n (d # q) []) (d # q) v r" using "2.IH"(1) [OF s obj d False] by simp
      then show ?thesis using obj s d False skip_ws_length [of cs]
        by (intro enoughI) (auto dest: enough_length intro: enoughD)
    qed
  next
    case arr
    then obtain d q where d: "skip_ws cs = d # q" using "2.prems" s by (auto split: list.splits)
    show ?thesis
    proof (cases "d = CHR '']''")
      case True
      then show ?thesis using arr "2.prems" s d skip_ws_Cons [OF d] by (intro enoughI) simp_all
    next
      case False
      then have "json_elements m (d # q) [] = Some (v, r)" using arr "2.prems" s d by simp
      then have "enough (\<lambda>n. json_elements n (d # q) []) (d # q) v r" using "2.IH"(2) [OF s arr d False] by simp
      then show ?thesis using arr s d False skip_ws_length [of cs]
        by (intro enoughI) (auto dest: enough_length intro: enoughD)
    qed
  next
    case atom
    then have p: "(case keyword_value json_keywords s of Some p \<Rightarrow> Some p | None \<Rightarrow> json_number s) = Some (v, r)"
      using "2.prems" unfolding s by simp
    then have "length r < length s"
      using keyword_value_length [OF _ json_keywords_nonempty] json_number_length by (auto split: option.splits)
    then show ?thesis using atom p unfolding s by (intro enoughI) simp_all
  qed
next
  case (4 m s acc)
  then obtain x q where x: "json_value m s = Some (x, q)" by (auto split: option.splits)
  then obtain d q' where d: "skip_ws q = d # q'" using "4.prems" by (auto split: list.splits)
  note val = "4.IH"(1) [OF x]
  have len: "length q < length s" "length q' < length q" using enough_length [OF val] skip_ws_Cons [OF d] by simp_all
  show ?case
  proof (cases "d = CHR '']''")
    case True
    then show ?thesis using "4.prems" x d len enoughD [OF val] by (intro enoughI) simp_all
  next
    case False
    then have c: "d = CHR '',''" and e: "json_elements m (skip_ws q') (acc @ [x]) = Some (v, r)"
      using "4.prems" x d by (auto split: if_splits)
    note rest = "4.IH"(2) [OF x refl d False c e]
    show ?thesis using False c x d len enoughD [OF val] enoughD [OF rest] enough_length [OF rest] skip_ws_length [of q']
      by (intro enoughI) simp_all
  qed
next
  case (6 m s ms)
  then obtain cs where s: "s = CHR 0x22 # cs" by (cases s) (simp_all split: if_splits)
  then obtain key q where k: "json_string cs = Some (key, q)" using "6.prems" by (auto split: option.splits)
  then obtain q' where q: "skip_ws q = CHR '':'' # q'" using "6.prems" s by (auto split: list.splits if_splits)
  then obtain x q2 where x: "json_value m (skip_ws q') = Some (x, q2)"
    using "6.prems" s k by (auto split: option.splits)
  then obtain d q3 where d: "skip_ws q2 = d # q3" using "6.prems" s k q by (auto split: list.splits)
  have val: "enough (\<lambda>n. json_value n (skip_ws q')) (skip_ws q') x q2" using "6.IH"(1) s k q x by auto
  have len: "length q' < length cs" "length q2 < length q'" "length q3 < length q2"
    using json_string_length [OF k] skip_ws_Cons [OF q] enough_length [OF val] skip_ws_length [of q'] skip_ws_Cons [OF d]
    by simp_all
  show ?case
  proof (cases "d = CHR ''}''")
    case True
    then show ?thesis using "6.prems" s k q x d len enoughD [OF val] skip_ws_length [of q'] by (intro enoughI) simp_all
  next
    case False
    then have c: "d = CHR '',''" and e: "json_members m (skip_ws q3) (AList.update key x ms) = Some (v, r)"
      using "6.prems" s k q x d by (auto split: if_splits)
    have rest: "enough (\<lambda>n. json_members n (skip_ws q3) (AList.update key x ms)) (skip_ws q3) v r"
      using "6.IH"(2) s k q x d c e by auto
    show ?thesis
      using False c s k q x d len enoughD [OF val] enoughD [OF rest] enough_length [OF rest]
        skip_ws_length [of q'] skip_ws_length [of q3]
      by (intro enoughI) simp_all
  qed
qed simp_all

lemma json_loads_complete:
  assumes "json_value n (skip_ws s) = Some (v, r)" and "skip_ws r = []"
  shows "json_loads s = Inr v"
proof -
  have "json_value (Suc (length s)) (skip_ws s) = Some (v, r)"
    using enoughD [OF json_value_fuel(1) [OF assms(1)]] skip_ws_length [of s] by (simp del: json_value.simps)
  then show ?thesis using assms(2) by (simp add: json_loads_def)
qed

end
