(* ===== verification/AuditStore.thy ===== *)
theory AuditStore
  imports ReportRecords Json
begin

text \<open>
  The append-only audit store: record model and registry (\<open>storage/models.py\<close>), policy of
  \<open>AuditStore\<close> (\<open>storage/base.py\<close>) and the SQLite backend
  (\<open>storage/sqlite_store.py\<close>). A store is the table of rows in \<open>seq\<close> order with the
  last number AUTOINCREMENT has given out. A row keeps the two timestamps as the \<open>datetime\<close>
  that was written, so a naive one is only refused when the row is turned into an event, as in the
  code. What Pydantic, \<open>datetime.fromisoformat\<close> and \<open>Decimal\<close> do to text is the
  parameter \<open>codec\<close>.
\<close>

section \<open>Records\<close>

datatype record_type =
    GATEWAY_REQUEST
  | GATEWAY_DECISION
  | VALIDATED_TRADE_INTENT
  | ORDER_ROUTE_DECISION
  | ORDER_TICKET
  | BROKER_SUBMIT_INTENT
  | EXECUTION_REPORT
  | POSITION_SNAPSHOT
  | RECONCILIATION_SNAPSHOT
  | HUMAN_REQUIRED_EVENT
  | KILL_SWITCH_STATE
  | AUDIT_ARTIFACT
  | DAILY_REPORT
  | RISK_REPORT

text \<open>A persistable object by its class; \<open>Other\<close> is an object of any other class.\<close>

datatype hermes_model =
    GatewayRequest gateway_request
  | ValidatedTradeIntent validated_trade_intent
  | OrderRouteDecision order_route_decision
  | OrderTicket order_ticket
  | BrokerSubmitIntent broker_submit_intent
  | ExecutionReport execution_report
  | PositionSnapshot position_snapshot
  | ReconciliationSnapshot reconciliation_snapshot
  | HumanRequiredEvent human_required_event
  | KillSwitchState kill_switch_state
  | AuditArtifact audit_artifact
  | DailyReport daily_report
  | RiskReport risk_report
  | Other string

text \<open>\<open>cd_dump\<close>: \<open>model_dump_json\<close>. \<open>cd_model\<close>: \<open>model_validate_json\<close>
  of the class registered for a record type. \<open>cd_ticket\<close>, \<open>cd_leg\<close>:
  \<open>model_validate_json(json.dumps(value))\<close> of \<open>OrderTicket\<close> and \<open>PositionLeg\<close>.
  \<open>cd_datetime\<close>: \<open>datetime.fromisoformat\<close>. \<open>cd_decimal\<close>:
  \<open>Decimal(str(value))\<close>.\<close>

record codec =
  cd_dump :: "hermes_model \<Rightarrow> string"
  cd_model :: "record_type \<Rightarrow> string \<Rightarrow> hermes_model res"
  cd_ticket :: "json \<Rightarrow> order_ticket res"
  cd_leg :: "json \<Rightarrow> position_leg res"
  cd_datetime :: "string \<Rightarrow> datetime res"
  cd_decimal :: "json \<Rightarrow> decimal res"

fun RECORD_TYPE_BY_CLASS :: "hermes_model \<Rightarrow> record_type option" where
  "RECORD_TYPE_BY_CLASS (GatewayRequest _) = Some GATEWAY_REQUEST"
| "RECORD_TYPE_BY_CLASS (ValidatedTradeIntent _) = Some VALIDATED_TRADE_INTENT"
| "RECORD_TYPE_BY_CLASS (OrderRouteDecision _) = Some ORDER_ROUTE_DECISION"
| "RECORD_TYPE_BY_CLASS (OrderTicket _) = Some ORDER_TICKET"
| "RECORD_TYPE_BY_CLASS (BrokerSubmitIntent _) = Some BROKER_SUBMIT_INTENT"
| "RECORD_TYPE_BY_CLASS (ExecutionReport _) = Some EXECUTION_REPORT"
| "RECORD_TYPE_BY_CLASS (PositionSnapshot _) = Some POSITION_SNAPSHOT"
| "RECORD_TYPE_BY_CLASS (ReconciliationSnapshot _) = Some RECONCILIATION_SNAPSHOT"
| "RECORD_TYPE_BY_CLASS (HumanRequiredEvent _) = Some HUMAN_REQUIRED_EVENT"
| "RECORD_TYPE_BY_CLASS (KillSwitchState _) = Some KILL_SWITCH_STATE"
| "RECORD_TYPE_BY_CLASS (AuditArtifact _) = Some AUDIT_ARTIFACT"
| "RECORD_TYPE_BY_CLASS (DailyReport _) = Some DAILY_REPORT"
| "RECORD_TYPE_BY_CLASS (RiskReport _) = Some RISK_REPORT"
| "RECORD_TYPE_BY_CLASS (Other _) = None"

definition record_type_for :: "hermes_model \<Rightarrow> record_type res" where
  "record_type_for obj =
     (case RECORD_TYPE_BY_CLASS obj of
        None \<Rightarrow> Inl (TypeError ''not a persistable audit record type'') | Some rt \<Rightarrow> Inr rt)"

definition NON_TERMINAL_LIFECYCLE :: "order_lifecycle_state set" where
  "NON_TERMINAL_LIFECYCLE = {order_lifecycle_state.PENDING_SUBMIT, order_lifecycle_state.SUBMITTED,
     order_lifecycle_state.WORKING, order_lifecycle_state.PARTIAL_FILL}"

definition payload_sha256 :: "string \<Rightarrow> string" where
  "payload_sha256 payload = sha256_hexdigest payload"

definition content_id :: "codec \<Rightarrow> hermes_model \<Rightarrow> string" where
  "content_id cd obj = take 32 (payload_sha256 (cd_dump cd obj))"

definition derive_order_ticket_hash :: "codec \<Rightarrow> hermes_model \<Rightarrow> string option" where
  "derive_order_ticket_hash cd obj =
     (case obj of
        BrokerSubmitIntent i \<Rightarrow> Some (bi_order_ticket_hash i)
      | ExecutionReport r \<Rightarrow> Some (er_order_ticket_hash r)
      | OrderTicket t \<Rightarrow> Some (payload_sha256 (cd_dump cd obj))
      | _ \<Rightarrow> None)"

definition derive_record_id :: "codec \<Rightarrow> hermes_model \<Rightarrow> string" where
  "derive_record_id cd obj =
     (case obj of
        BrokerSubmitIntent i \<Rightarrow> bi_idempotency_key i
      | ExecutionReport r \<Rightarrow> er_idempotency_key r
      | AuditArtifact a \<Rightarrow> aa_artifact_id a
      | PositionSnapshot p \<Rightarrow> pn_snapshot_id p
      | ReconciliationSnapshot r \<Rightarrow> rc_reconciliation_id r
      | DailyReport d \<Rightarrow> dr_report_id d
      | RiskReport k \<Rightarrow> kr_report_id k
      | OrderTicket t \<Rightarrow>
          (case derive_order_ticket_hash cd obj of
             Some h \<Rightarrow> if h = [] then content_id cd obj else h
           | None \<Rightarrow> content_id cd obj)
      | _ \<Rightarrow> content_id cd obj)"

record stored_event =
  se_seq :: int
  se_record_type :: record_type
  se_record_id :: string
  se_idempotency_key :: "string option"
  se_order_ticket_hash :: "string option"
  se_created_at :: aware
  se_recorded_at :: aware
  se_payload_json :: string
  se_payload_sha256 :: string

definition stored_event_guards :: "stored_event \<Rightarrow> (bool \<times> string) list" where
  "stored_event_guards e =
     [(se_seq e < 1, ''seq''), (se_record_id e = [], ''record_id''),
      (se_payload_json e = [], ''payload_json''), (length (se_payload_sha256 e) \<noteq> 64, ''payload_sha256'')]"

definition mk_stored_event :: "stored_event \<Rightarrow> stored_event res" where
  "mk_stored_event e = construct (stored_event_guards e) e"

text \<open>Equality of events: field by field, datetimes by instant.\<close>

definition event_eq :: "stored_event \<Rightarrow> stored_event \<Rightarrow> bool" where
  "event_eq a b \<longleftrightarrow>
     se_seq a = se_seq b \<and> se_record_type a = se_record_type b \<and> se_record_id a = se_record_id b \<and>
     se_idempotency_key a = se_idempotency_key b \<and> se_order_ticket_hash a = se_order_ticket_hash b \<and>
     at_eq (se_created_at a) (se_created_at b) \<and> at_eq (se_recorded_at a) (se_recorded_at b) \<and>
     se_payload_json a = se_payload_json b \<and> se_payload_sha256 a = se_payload_sha256 b"

record open_order_recovery =
  oo_logical_key :: string
  oo_order_ticket_hash :: "string option"
  oo_submit_event_seq :: int
  oo_has_execution_report :: bool
  oo_latest_report_seq :: "int option"
  oo_latest_lifecycle :: "order_lifecycle_state option"

definition open_order_recovery_guards :: "open_order_recovery \<Rightarrow> (bool \<times> string) list" where
  "open_order_recovery_guards r =
     [(oo_logical_key r = [], ''logical_key''), (oo_submit_event_seq r < 1, ''submit_event_seq'')]"

definition mk_open_order_recovery :: "open_order_recovery \<Rightarrow> open_order_recovery res" where
  "mk_open_order_recovery r = construct (open_order_recovery_guards r) r"

section \<open>The SQLite backend\<close>

record stored_row =
  sr_seq :: int
  sr_record_type :: record_type
  sr_record_id :: string
  sr_idempotency_key :: "string option"
  sr_order_ticket_hash :: "string option"
  sr_created_at :: datetime
  sr_recorded_at :: datetime
  sr_payload_json :: string
  sr_payload_sha256 :: string

record audit_store =
  st_rows :: "stored_row list"
  st_last_seq :: int

definition new_audit_store :: audit_store where
  "new_audit_store = \<lparr>st_rows = [], st_last_seq = 0\<rparr>"

text \<open>The insert statement: the partial unique index ranges over the rows that carry a key; the
  row gets the next AUTOINCREMENT number, whatever its \<open>sr_seq\<close> said.\<close>

definition sqlite_insert :: "audit_store \<Rightarrow> stored_row \<Rightarrow> int res \<times> audit_store" where
  "sqlite_insert st row =
     (if sr_idempotency_key row \<noteq> None \<and> sr_idempotency_key row \<in> sr_idempotency_key ` set (st_rows st)
      then (Inl (StorageError DuplicateIdempotencyKeyError ''submit attempt already persisted''), st)
      else
        let seq = st_last_seq st + 1 in
        (Inr seq, \<lparr>st_rows = st_rows st @ [row\<lparr>sr_seq := seq\<rparr>], st_last_seq = seq\<rparr>))"

definition aware_of :: "string \<Rightarrow> datetime \<Rightarrow> aware res" where
  "aware_of name d = (case d of Aware a \<Rightarrow> Inr a | Naive _ \<Rightarrow> Inl (ValidationError name))"

definition row_to_event :: "stored_row \<Rightarrow> stored_event res" where
  "row_to_event row =
     bind_res (aware_of ''created_at'' (sr_created_at row)) (\<lambda>created.
     bind_res (aware_of ''recorded_at'' (sr_recorded_at row)) (\<lambda>recorded.
     mk_stored_event
       \<lparr>se_seq = sr_seq row, se_record_type = sr_record_type row, se_record_id = sr_record_id row,
        se_idempotency_key = sr_idempotency_key row, se_order_ticket_hash = sr_order_ticket_hash row,
        se_created_at = created, se_recorded_at = recorded,
        se_payload_json = sr_payload_json row, se_payload_sha256 = sr_payload_sha256 row\<rparr>))"

fun collect_res :: "('a \<Rightarrow> 'b res) \<Rightarrow> 'a list \<Rightarrow> 'b list res" where
  "collect_res f [] = Inr []"
| "collect_res f (x # xs) = bind_res (f x) (\<lambda>y. map_res (\<lambda>ys. y # ys) (collect_res f xs))"

definition rows_of_type :: "audit_store \<Rightarrow> record_type option \<Rightarrow> stored_row list" where
  "rows_of_type st rt =
     (case rt of None \<Rightarrow> st_rows st | Some t \<Rightarrow> filter (\<lambda>r. sr_record_type r = t) (st_rows st))"

definition iter_events :: "audit_store \<Rightarrow> record_type option \<Rightarrow> stored_event list res" where
  "iter_events st rt = collect_res row_to_event (rows_of_type st rt)"

definition first_event :: "(stored_row \<Rightarrow> bool) \<Rightarrow> audit_store \<Rightarrow> stored_event option res" where
  "first_event P st =
     (case find P (st_rows st) of None \<Rightarrow> Inr None | Some r \<Rightarrow> map_res Some (row_to_event r))"

definition get_by_idempotency_key :: "audit_store \<Rightarrow> string \<Rightarrow> stored_event option res" where
  "get_by_idempotency_key st key = first_event (\<lambda>r. sr_idempotency_key r = Some key) st"

definition get_by_seq :: "audit_store \<Rightarrow> int \<Rightarrow> stored_event option res" where
  "get_by_seq st seq = first_event (\<lambda>r. sr_seq r = seq) st"

section \<open>Secret refusal\<close>

definition FORBIDDEN_SECRET_MARKERS :: "string list" where
  "FORBIDDEN_SECRET_MARKERS =
     [''api_key'', ''apikey'', ''password'', ''passwd'', ''client_secret'', ''access_token'',
      ''refresh_token'', ''private_key'', ''credential'']"

fun str_contains :: "string \<Rightarrow> string \<Rightarrow> bool" where
  "str_contains m [] = (m = [])"
| "str_contains m (c # cs) = (take (length m) (c # cs) = m \<or> str_contains m cs)"

definition secret_like :: "string \<Rightarrow> bool" where
  "secret_like key = list_ex (\<lambda>m. str_contains m (str_lower key)) FORBIDDEN_SECRET_MARKERS"

fun check_secrets :: "json \<Rightarrow> unit res"
  and check_secrets_list :: "json list \<Rightarrow> unit res"
  and check_secrets_members :: "(string \<times> json) list \<Rightarrow> unit res" where
  "check_secrets (JObj ms) = check_secrets_members ms"
| "check_secrets (JArr xs) = check_secrets_list xs"
| "check_secrets _ = Inr ()"
| "check_secrets_list [] = Inr ()"
| "check_secrets_list (x # xs) = bind_res (check_secrets x) (\<lambda>_. check_secrets_list xs)"
| "check_secrets_members [] = Inr ()"
| "check_secrets_members ((key, v) # ms) =
     (if secret_like key
      then Inl (StorageError SecretPersistenceError ''payload carries a secret-like field'')
      else bind_res (check_secrets v) (\<lambda>_. check_secrets_members ms))"

definition assert_no_secrets :: "string \<Rightarrow> unit res" where
  "assert_no_secrets payload = bind_res (json_loads payload) check_secrets"

section \<open>Appending\<close>

definition row_for ::
  "codec \<Rightarrow> hermes_model \<Rightarrow> record_type \<Rightarrow> datetime \<Rightarrow> datetime \<Rightarrow> string option \<Rightarrow> int \<Rightarrow> stored_row" where
  "row_for cd obj rt created_at recorded_at idempotency_key seq =
     \<lparr>sr_seq = seq, sr_record_type = rt, sr_record_id = derive_record_id cd obj,
      sr_idempotency_key = idempotency_key, sr_order_ticket_hash = derive_order_ticket_hash cd obj,
      sr_created_at = created_at, sr_recorded_at = recorded_at,
      sr_payload_json = cd_dump cd obj, sr_payload_sha256 = payload_sha256 (cd_dump cd obj)\<rparr>"

definition append_event ::
  "codec \<Rightarrow> audit_store \<Rightarrow> hermes_model \<Rightarrow> datetime \<Rightarrow> datetime \<Rightarrow> string option
     \<Rightarrow> stored_event res \<times> audit_store" where
  "append_event cd st obj created_at recorded_at idempotency_key =
     (case record_type_for obj of
        Inl e \<Rightarrow> (Inl e, st)
      | Inr rt \<Rightarrow>
          if idempotency_key \<noteq> None \<and> rt \<noteq> BROKER_SUBMIT_INTENT
          then (Inl (ValueError ''idempotency_key is reserved for submit attempts''), st)
          else
            case assert_no_secrets (cd_dump cd obj) of
              Inl e \<Rightarrow> (Inl e, st)
            | Inr _ \<Rightarrow>
                let row = row_for cd obj rt created_at recorded_at idempotency_key in
                case sqlite_insert st (row 0) of
                  (Inl e, st') \<Rightarrow> (Inl e, st')
                | (Inr seq, st') \<Rightarrow> (row_to_event (row seq), st'))"

definition record_submit_attempt ::
  "codec \<Rightarrow> audit_store \<Rightarrow> broker_submit_intent dyn \<Rightarrow> datetime \<Rightarrow> stored_event res \<times> audit_store" where
  "record_submit_attempt cd st arg recorded_at =
     (case arg of
        NotInst _ \<Rightarrow> (Inl (TypeError ''record_submit_attempt requires a BrokerSubmitIntent''), st)
      | Inst i \<Rightarrow> append_event cd st (BrokerSubmitIntent i) (Aware (bi_submitted_at i)) recorded_at
                   (Some (bi_idempotency_key i)))"

definition export_lines :: "(stored_event \<Rightarrow> string) \<Rightarrow> audit_store \<Rightarrow> string list res" where
  "export_lines dump_event st = map_res (map dump_event) (iter_events st None)"

section \<open>Restart recovery\<close>

definition lifecycle_of :: "string \<Rightarrow> order_lifecycle_state option" where
  "lifecycle_of v = find (\<lambda>s. order_lifecycle_state_value s = v)
     [order_lifecycle_state.PENDING_SUBMIT, order_lifecycle_state.SUBMITTED, order_lifecycle_state.WORKING,
      order_lifecycle_state.PARTIAL_FILL, order_lifecycle_state.FILLED, order_lifecycle_state.CANCELLED,
      order_lifecycle_state.REJECTED, order_lifecycle_state.EXPIRED]"

text \<open>An enum class applied to a JSON value.\<close>

definition enum_of_json :: "(string \<Rightarrow> 'a option) \<Rightarrow> json \<Rightarrow> 'a res" where
  "enum_of_json enum v =
     (case v of
        JStr s \<Rightarrow> (case enum s of Some x \<Rightarrow> Inr x | None \<Rightarrow> Inl (ValueError ''not a valid member''))
      | _ \<Rightarrow> Inl (ValueError ''not a valid member''))"

definition lifecycle_from_payload :: "string \<Rightarrow> order_lifecycle_state res" where
  "lifecycle_from_payload payload =
     bind_res (json_loads payload) (\<lambda>data.
     bind_res (json_get data ''lifecycle_state'') (\<lambda>v. enum_of_json lifecycle_of v))"

definition latest_by_record_id :: "stored_event list \<Rightarrow> string \<Rightarrow> stored_event option" where
  "latest_by_record_id events = foldl (\<lambda>m e. m(se_record_id e \<mapsto> e)) (\<lambda>_. None) events"

definition recovery_finding ::
  "(string \<Rightarrow> stored_event option) \<Rightarrow> stored_event \<Rightarrow> open_order_recovery option res" where
  "recovery_finding latest submit =
     (case latest (se_record_id submit) of
        None \<Rightarrow>
          map_res Some (mk_open_order_recovery
            \<lparr>oo_logical_key = se_record_id submit, oo_order_ticket_hash = se_order_ticket_hash submit,
             oo_submit_event_seq = se_seq submit, oo_has_execution_report = False,
             oo_latest_report_seq = None, oo_latest_lifecycle = None\<rparr>)
      | Some report \<Rightarrow>
          bind_res (lifecycle_from_payload (se_payload_json report)) (\<lambda>lifecycle.
          if lifecycle \<in> NON_TERMINAL_LIFECYCLE
          then map_res Some (mk_open_order_recovery
            \<lparr>oo_logical_key = se_record_id submit, oo_order_ticket_hash = se_order_ticket_hash submit,
             oo_submit_event_seq = se_seq submit, oo_has_execution_report = True,
             oo_latest_report_seq = Some (se_seq report), oo_latest_lifecycle = Some lifecycle\<rparr>)
          else Inr None))"

definition unresolved_open_orders :: "audit_store \<Rightarrow> open_order_recovery list res" where
  "unresolved_open_orders st =
     bind_res (iter_events st (Some EXECUTION_REPORT)) (\<lambda>reports.
     bind_res (iter_events st (Some BROKER_SUBMIT_INTENT)) (\<lambda>submits.
     map_res (\<lambda>fs. concat (map opt_list fs))
       (collect_res (recovery_finding (latest_by_record_id reports)) submits)))"

section \<open>Append-only backends\<close>

text \<open>What the policy of \<open>AuditStore\<close> relies on in a backend: an insert either is refused,
  which it is exactly when its key is taken, and changes nothing, or puts one row with a larger
  number behind all the others.\<close>

locale append_only_backend =
  fixes inv :: "'s \<Rightarrow> bool"
    and rows :: "'s \<Rightarrow> 'r list"
    and seq_of :: "'r \<Rightarrow> int"
    and key_of :: "'r \<Rightarrow> string option"
    and ins :: "'s \<Rightarrow> 'r \<Rightarrow> int res \<times> 's"
  assumes ins_inv: "inv s \<Longrightarrow> inv (snd (ins s r))"
    and ins_taken: "key_of r \<noteq> None \<Longrightarrow> key_of r \<in> key_of ` set (rows s) \<Longrightarrow>
      \<exists>e. ins s r = (Inl e, s)"
    and ins_free: "inv s \<Longrightarrow> key_of r = None \<or> key_of r \<notin> key_of ` set (rows s) \<Longrightarrow>
      \<exists>q r'. fst (ins s r) = Inr q \<and> rows (snd (ins s r)) = rows s @ [r'] \<and> seq_of r' = q \<and>
        key_of r' = key_of r \<and> (\<forall>x\<in>set (rows s). seq_of x < q)"
begin

definition ordered :: "'s \<Rightarrow> bool" where
  "ordered s \<longleftrightarrow> sorted_wrt (<) (map seq_of (rows s)) \<and>
     distinct (filter (\<lambda>k. k \<noteq> None) (map key_of (rows s)))"

lemma ins_cases:
  assumes "inv s"
  obtains (refused) e where "ins s r = (Inl e, s)"
  | (added) q r' where "fst (ins s r) = Inr q" "rows (snd (ins s r)) = rows s @ [r']" "seq_of r' = q"
      "key_of r' = key_of r" "\<forall>x\<in>set (rows s). seq_of x < q"
      "key_of r = None \<or> key_of r \<notin> key_of ` set (rows s)"
  using ins_taken [of r s] ins_free [OF assms, of r] that by (metis (no_types))

lemma ins_ordered:
  assumes "inv s" and "ordered s"
  shows "ordered (snd (ins s r))"
  using assms(1)
proof (cases rule: ins_cases [of s r])
  case (added q r')
  have "set (filter (\<lambda>k. k \<noteq> None) (map key_of (rows s))) \<subseteq> key_of ` set (rows s)" by auto
  then show ?thesis
    using added(2-6) assms(2) by (auto simp: ordered_def sorted_wrt_append)
qed (simp add: assms)

lemma ins_extends:
  assumes "inv s"
  shows "\<exists>rs. rows (snd (ins s r)) = rows s @ rs"
  using assms by (cases rule: ins_cases [of s r]) auto

lemma ordered_distinct_seq: "ordered s \<Longrightarrow> distinct (map seq_of (rows s))"
  by (simp add: ordered_def strict_sorted_iff)

end

definition store_inv :: "audit_store \<Rightarrow> bool" where
  "store_inv st \<longleftrightarrow> 0 \<le> st_last_seq st \<and> list_all (\<lambda>r. 0 < sr_seq r \<and> sr_seq r \<le> st_last_seq st) (st_rows st)"

interpretation sqlite: append_only_backend store_inv st_rows sr_seq sr_idempotency_key sqlite_insert
proof
  fix s r
  show "store_inv s \<Longrightarrow> store_inv (snd (sqlite_insert s r))"
    by (auto simp: store_inv_def sqlite_insert_def Let_def list_all_iff)
  show "sr_idempotency_key r \<noteq> None \<Longrightarrow> sr_idempotency_key r \<in> sr_idempotency_key ` set (st_rows s) \<Longrightarrow>
      \<exists>e. sqlite_insert s r = (Inl e, s)"
    by (simp add: sqlite_insert_def)
  show "store_inv s \<Longrightarrow> sr_idempotency_key r = None \<or> sr_idempotency_key r \<notin> sr_idempotency_key ` set (st_rows s) \<Longrightarrow>
      \<exists>q r'. fst (sqlite_insert s r) = Inr q \<and> st_rows (snd (sqlite_insert s r)) = st_rows s @ [r'] \<and>
        sr_seq r' = q \<and> sr_idempotency_key r' = sr_idempotency_key r \<and> (\<forall>x\<in>set (st_rows s). sr_seq x < q)"
    by (auto simp: store_inv_def sqlite_insert_def Let_def list_all_iff)
qed

section \<open>Runs of appends\<close>

type_synonym append_op = "hermes_model \<times> datetime \<times> datetime \<times> string option"

definition run_append :: "codec \<Rightarrow> audit_store \<Rightarrow> append_op \<Rightarrow> audit_store" where
  "run_append cd st op = (case op of (obj, c, r, k) \<Rightarrow> snd (append_event cd st obj c r k))"

definition run_appends :: "codec \<Rightarrow> audit_store \<Rightarrow> append_op list \<Rightarrow> audit_store" where
  "run_appends cd st ops = foldl (run_append cd) st ops"

lemma run_appends_simps [simp]:
  "run_appends cd st [] = st"
  "run_appends cd st (op # ops) = run_appends cd (run_append cd st op) ops"
  by (simp_all add: run_appends_def)

lemma row_for_simps [simp]:
  "sr_seq (row_for cd obj rt c r k q) = q" "sr_record_type (row_for cd obj rt c r k q) = rt"
  "sr_record_id (row_for cd obj rt c r k q) = derive_record_id cd obj"
  "sr_idempotency_key (row_for cd obj rt c r k q) = k"
  "sr_created_at (row_for cd obj rt c r k q) = c" "sr_recorded_at (row_for cd obj rt c r k q) = r"
  "sr_payload_json (row_for cd obj rt c r k q) = cd_dump cd obj"
  "sr_payload_sha256 (row_for cd obj rt c r k q) = payload_sha256 (cd_dump cd obj)"
  "sr_order_ticket_hash (row_for cd obj rt c r k q) = derive_order_ticket_hash cd obj"
  "(row_for cd obj rt c r k q)\<lparr>sr_seq := p\<rparr> = row_for cd obj rt c r k p"
  by (simp_all add: row_for_def)

text \<open>An append is refused and changes nothing, or adds the row of its object.\<close>

definition storable :: "codec \<Rightarrow> audit_store \<Rightarrow> hermes_model \<Rightarrow> string option \<Rightarrow> bool" where
  "storable cd st obj k \<longleftrightarrow>
     RECORD_TYPE_BY_CLASS obj \<noteq> None \<and>
     (k \<noteq> None \<longrightarrow> RECORD_TYPE_BY_CLASS obj = Some BROKER_SUBMIT_INTENT \<and> k \<notin> sr_idempotency_key ` set (st_rows st)) \<and>
     assert_no_secrets (cd_dump cd obj) = Inr ()"

definition added_row :: "codec \<Rightarrow> audit_store \<Rightarrow> hermes_model \<Rightarrow> datetime \<Rightarrow> datetime \<Rightarrow> string option \<Rightarrow> stored_row" where
  "added_row cd st obj c r k = row_for cd obj (the (RECORD_TYPE_BY_CLASS obj)) c r k (st_last_seq st + 1)"

lemma append_storable:
  assumes "storable cd st obj k"
  shows "append_event cd st obj c r k =
    (row_to_event (added_row cd st obj c r k),
     \<lparr>st_rows = st_rows st @ [added_row cd st obj c r k], st_last_seq = st_last_seq st + 1\<rparr>)"
  using assms
  by (auto simp: storable_def append_event_def record_type_for_def sqlite_insert_def Let_def added_row_def)

lemma append_not_storable:
  assumes "\<not> storable cd st obj k"
  shows "\<exists>e. append_event cd st obj c r k = (Inl e, st)"
  using assms
  by (auto simp: storable_def append_event_def record_type_for_def sqlite_insert_def Let_def
      split: option.splits sum.splits)

lemma append_duplicate:
  assumes "RECORD_TYPE_BY_CLASS obj = Some BROKER_SUBMIT_INTENT" and "assert_no_secrets (cd_dump cd obj) = Inr ()"
    and "Some k \<in> sr_idempotency_key ` set (st_rows st)"
  shows "append_event cd st obj c r (Some k) =
    (Inl (StorageError DuplicateIdempotencyKeyError ''submit attempt already persisted''), st)"
  using assms by (simp add: append_event_def record_type_for_def sqlite_insert_def)

lemma append_store:
  "snd (append_event cd st obj c r k) =
     (if storable cd st obj k then snd (sqlite_insert st (added_row cd st obj c r k)) else st)"
proof (cases "storable cd st obj k")
  case True
  then show ?thesis
    by (auto simp: append_storable [OF True] sqlite_insert_def Let_def added_row_def storable_def)
next
  case False
  then show ?thesis using append_not_storable [OF False, of c r] by auto
qed

definition row_sound :: "stored_row \<Rightarrow> bool" where
  "row_sound r \<longleftrightarrow> sr_payload_sha256 r = payload_sha256 (sr_payload_json r) \<and>
     assert_no_secrets (sr_payload_json r) = Inr () \<and>
     (sr_idempotency_key r \<noteq> None \<longrightarrow> sr_record_type r = BROKER_SUBMIT_INTENT)"

definition store_ok :: "audit_store \<Rightarrow> bool" where
  "store_ok st \<longleftrightarrow> store_inv st \<and> sqlite.ordered st \<and> list_all row_sound (st_rows st)"

lemma store_ok_new: "store_ok new_audit_store"
  by (simp add: store_ok_def store_inv_def new_audit_store_def sqlite.ordered_def)

lemma append_store_ok:
  assumes "store_ok st"
  shows "store_ok (snd (append_event cd st obj c r k))"
proof (cases "storable cd st obj k")
  case True
  have "row_sound (added_row cd st obj c r k)"
    using True by (auto simp: row_sound_def added_row_def storable_def)
  then have "list_all row_sound (st_rows (snd (append_event cd st obj c r k)))"
    using assms append_storable [OF True, of c r] by (simp add: store_ok_def)
  moreover have "store_inv (snd (append_event cd st obj c r k))" "sqlite.ordered (snd (append_event cd st obj c r k))"
    using assms sqlite.ins_inv sqlite.ins_ordered by (auto simp: append_store store_ok_def)
  ultimately show ?thesis by (simp add: store_ok_def)
next
  case False
  then show ?thesis using assms append_not_storable [OF False, of c r] by auto
qed

lemma append_extends: "\<exists>rs. st_rows (snd (append_event cd st obj c r k)) = st_rows st @ rs"
proof (cases "storable cd st obj k")
  case True
  then show ?thesis using append_storable [OF True, of c r] by simp
next
  case False
  then show ?thesis using append_not_storable [OF False, of c r] by auto
qed

lemma run_append_ok: "store_ok st \<Longrightarrow> store_ok (run_append cd st op)"
  by (cases op) (simp add: run_append_def append_store_ok)

lemma run_appends_ok: "store_ok st \<Longrightarrow> store_ok (run_appends cd st ops)"
  by (induction ops arbitrary: st) (simp_all add: run_append_ok)

lemma run_appends_extends: "\<exists>rs. st_rows (run_appends cd st ops) = st_rows st @ rs"
proof (induction ops arbitrary: st)
  case (Cons op ops)
  obtain rs where "st_rows (run_append cd st op) = st_rows st @ rs"
    using append_extends by (cases op) (fastforce simp: run_append_def)
  then show ?case using Cons.IH [of "run_append cd st op"] by auto
qed simp

lemma find_unique:
  assumes "x \<in> set xs" and "distinct (map f xs)" and "f x = v"
  shows "find (\<lambda>y. f y = v) xs = Some x"
  using assms by (induction xs) (auto simp: image_iff)

lemma get_by_seq_row:
  assumes "store_ok st" and "row \<in> set (st_rows st)"
  shows "get_by_seq st (sr_seq row) = map_res Some (row_to_event row)"
  using find_unique [OF assms(2), of sr_seq] sqlite.ordered_distinct_seq assms(1)
  by (simp add: get_by_seq_def first_event_def store_ok_def)

lemma get_by_seq_appended:
  assumes "store_ok st" and "append_event cd st obj c r k = (Inr e, st')"
  shows "get_by_seq (run_appends cd st' ops) (se_seq e) = Inr (Some e)"
proof -
  let ?row = "added_row cd st obj c r k"
  have s: "storable cd st obj k"
    using assms(2) append_not_storable [of cd st obj k c r] by auto
  then have e: "row_to_event ?row = Inr e" "?row \<in> set (st_rows st')"
    using assms(2) append_storable [OF s, of c r] by auto
  then have "se_seq e = sr_seq ?row"
    by (auto simp: row_to_event_def bind_res_eq_Inr mk_stored_event_def construct_eq_Inr)
  moreover have "store_ok (run_appends cd st' ops)"
    using run_appends_ok append_store_ok [OF assms(1), of cd obj c r k] assms(2) by simp
  moreover have "?row \<in> set (st_rows (run_appends cd st' ops))"
    using run_appends_extends [of cd st' ops] e(2) by auto
  ultimately show ?thesis using get_by_seq_row [of "run_appends cd st' ops" ?row] e(1) by simp
qed

section \<open>Recovery\<close>

abbreviation event_of :: "stored_row \<Rightarrow> stored_event" where
  "event_of r \<equiv> projr (row_to_event r)"

definition last_report :: "audit_store \<Rightarrow> string \<Rightarrow> stored_row option" where
  "last_report st key =
     find (\<lambda>r. sr_record_type r = EXECUTION_REPORT \<and> sr_record_id r = key) (rev (st_rows st))"

text \<open>A submit attempt is left open when it has no report, or its newest one is not terminal.\<close>

definition left_open :: "audit_store \<Rightarrow> string \<Rightarrow> bool" where
  "left_open st key \<longleftrightarrow>
     (case last_report st key of
        None \<Rightarrow> True
      | Some r \<Rightarrow> (case lifecycle_from_payload (sr_payload_json r) of
                    Inl _ \<Rightarrow> False | Inr l \<Rightarrow> l \<in> NON_TERMINAL_LIFECYCLE))"

definition readable :: "audit_store \<Rightarrow> bool" where
  "readable st \<longleftrightarrow> list_all (\<lambda>r. is_ok (row_to_event r) \<and>
     (sr_record_type r = EXECUTION_REPORT \<longrightarrow> is_ok (lifecycle_from_payload (sr_payload_json r)))) (st_rows st)"

lemma collect_res_append:
  "collect_res f (xs @ ys) = bind_res (collect_res f xs) (\<lambda>us. map_res (\<lambda>vs. us @ vs) (collect_res f ys))"
  by (induction xs) (auto simp: bind_res_def map_res_def split: sum.splits)

lemma collect_res_ok: "list_all (\<lambda>x. is_ok (f x)) xs \<Longrightarrow> collect_res f xs = Inr (map (\<lambda>x. projr (f x)) xs)"
  by (induction xs) (auto simp: is_ok_iff)

lemma find_map: "find P (map f xs) = map_option f (find (\<lambda>x. P (f x)) xs)"
  by (induction xs) auto

lemma find_filter: "find P (filter Q xs) = find (\<lambda>x. Q x \<and> P x) xs"
  by (induction xs) auto

lemma find_SomeD: "find P xs = Some x \<Longrightarrow> x \<in> set xs \<and> P x"
  by (induction xs) (auto split: if_splits)

lemma find_cong_set: "(\<And>x. x \<in> set xs \<Longrightarrow> P x = Q x) \<Longrightarrow> find P xs = find Q xs"
  by (induction xs) auto

lemma latest_by_record_id_find: "latest_by_record_id es k = find (\<lambda>e. se_record_id e = k) (rev es)"
  by (induction es rule: rev_induct) (auto simp: latest_by_record_id_def)

lemma row_to_event_Inr:
  "row_to_event r = Inr e \<Longrightarrow> se_seq e = sr_seq r \<and> se_record_type e = sr_record_type r \<and>
     se_record_id e = sr_record_id r \<and> se_payload_json e = sr_payload_json r \<and>
     se_payload_sha256 e = sr_payload_sha256 r \<and> se_idempotency_key e = sr_idempotency_key r \<and>
     1 \<le> se_seq e \<and> se_record_id e \<noteq> []"
  by (auto simp: row_to_event_def bind_res_eq_Inr mk_stored_event_def construct_eq_Inr stored_event_guards_def)

lemma latest_report_of_rows:
  assumes "readable st"
  shows "latest_by_record_id (map event_of (rows_of_type st (Some EXECUTION_REPORT))) key =
    map_option event_of (last_report st key)"
proof -
  have "se_record_id (event_of r) = sr_record_id r" if "r \<in> set (st_rows st)" for r
    using assms that row_to_event_Inr by (auto simp: readable_def list_all_iff is_ok_iff)
  then have "find (\<lambda>r. sr_record_type r = EXECUTION_REPORT \<and> se_record_id (event_of r) = key) (rev (st_rows st)) =
      find (\<lambda>r. sr_record_type r = EXECUTION_REPORT \<and> sr_record_id r = key) (rev (st_rows st))"
    by (intro find_cong_set) auto
  then show ?thesis
    by (simp add: latest_by_record_id_find rows_of_type_def rev_map rev_filter find_map find_filter last_report_def)
qed

lemma recovery_finding_row:
  assumes "readable st" and "r \<in> set (st_rows st)"
  shows "\<exists>x. recovery_finding (latest_by_record_id (map event_of (rows_of_type st (Some EXECUTION_REPORT)))) (event_of r) =
      Inr (if left_open st (sr_record_id r) then Some x else None) \<and>
    (left_open st (sr_record_id r) \<longrightarrow> oo_logical_key x = sr_record_id r \<and> oo_submit_event_seq x = sr_seq r \<and>
       oo_has_execution_report x = (last_report st (sr_record_id r) \<noteq> None))"
proof -
  obtain e where e: "row_to_event r = Inr e" using assms by (auto simp: readable_def list_all_iff is_ok_iff)
  note e' = row_to_event_Inr [OF e]
  show ?thesis
  proof (cases "last_report st (sr_record_id r)")
    case None
    then show ?thesis using e e'
      by (auto simp: recovery_finding_def latest_report_of_rows [OF assms(1)] left_open_def
          mk_open_order_recovery_def open_order_recovery_guards_def)
  next
    case (Some p)
    then have p: "p \<in> set (st_rows st)" "sr_record_type p = EXECUTION_REPORT"
      using find_SomeD [OF Some [unfolded last_report_def]] by simp_all
    then obtain f l where f: "row_to_event p = Inr f" "lifecycle_from_payload (sr_payload_json p) = Inr l"
      using assms(1) by (auto simp: readable_def list_all_iff is_ok_iff)
    then have "se_payload_json f = sr_payload_json p" using row_to_event_Inr by blast
    then show ?thesis using e e' f Some
      by (auto simp: recovery_finding_def latest_report_of_rows [OF assms(1)] left_open_def
          mk_open_order_recovery_def open_order_recovery_guards_def)
  qed
qed

lemma collect_findings:
  assumes "\<And>r. r \<in> set rs \<Longrightarrow> \<exists>x. g r = Inr (if P r then Some x else None) \<and> (P r \<longrightarrow> key x = sr_record_id r)"
  shows "\<exists>fs. collect_res g rs = Inr fs \<and>
    map key (concat (map opt_list fs)) = map sr_record_id (filter P rs)"
  using assms
proof (induction rs)
  case (Cons r rs)
  obtain x where "g r = Inr (if P r then Some x else None)" "P r \<longrightarrow> key x = sr_record_id r"
    using Cons.prems by force
  moreover obtain fs where "collect_res g rs = Inr fs"
    "map key (concat (map opt_list fs)) = map sr_record_id (filter P rs)"
    using Cons by force
  ultimately show ?case by auto
qed simp

lemma collect_res_map: "collect_res f (map g xs) = collect_res (\<lambda>x. f (g x)) xs"
  by (induction xs) simp_all

lemma unresolved_of_readable:
  assumes "readable st"
  shows "\<exists>us. unresolved_open_orders st = Inr us \<and>
    map oo_logical_key us = map sr_record_id (filter (\<lambda>r. left_open st (sr_record_id r))
      (rows_of_type st (Some BROKER_SUBMIT_INTENT)))"
proof -
  let ?subs = "rows_of_type st (Some BROKER_SUBMIT_INTENT)"
  let ?g = "\<lambda>r. recovery_finding (latest_by_record_id (map event_of (rows_of_type st (Some EXECUTION_REPORT)))) (event_of r)"
  have "list_all (\<lambda>r. is_ok (row_to_event r)) (rows_of_type st (Some t))" for t
    using assms by (auto simp: readable_def rows_of_type_def list_all_iff)
  then have it: "iter_events st (Some t) = Inr (map event_of (rows_of_type st (Some t)))" for t
    unfolding iter_events_def by (rule collect_res_ok)
  have "\<exists>fs. collect_res ?g ?subs = Inr fs \<and> map oo_logical_key (concat (map opt_list fs)) =
      map sr_record_id (filter (\<lambda>r. left_open st (sr_record_id r)) ?subs)"
  proof (rule collect_findings)
    fix r
    assume "r \<in> set ?subs"
    then have "r \<in> set (st_rows st)" by (simp add: rows_of_type_def)
    from recovery_finding_row [OF assms this]
    show "\<exists>x. ?g r = Inr (if left_open st (sr_record_id r) then Some x else None) \<and>
        (left_open st (sr_record_id r) \<longrightarrow> oo_logical_key x = sr_record_id r)" by blast
  qed
  then show ?thesis by (auto simp: unresolved_open_orders_def it collect_res_map)
qed

section \<open>Properties\<close>

text \<open>C12. The audit log is append-only: after any sequence of appends to a new store, sequence
  numbers increase strictly, no two rows carry the same idempotency key, every row keeps a payload
  without secret-like fields and the SHA-256 of that payload, reading a number gives back the row
  that has it, and whatever is appended later leaves the earlier rows as they are.\<close>

theorem audit_log_is_append_only:
  assumes "st = run_appends cd new_audit_store ops"
  shows "sorted_wrt (<) (map sr_seq (st_rows st)) \<and>
    distinct (filter (\<lambda>k. k \<noteq> None) (map sr_idempotency_key (st_rows st))) \<and>
    (\<forall>row\<in>set (st_rows st). sr_payload_sha256 row = sha256_hexdigest (sr_payload_json row) \<and>
       assert_no_secrets (sr_payload_json row) = Inr () \<and>
       get_by_seq st (sr_seq row) = map_res Some (row_to_event row)) \<and>
    (\<exists>rs. st_rows (run_appends cd st later) = st_rows st @ rs)"
proof -
  have ok: "store_ok st" unfolding assms by (rule run_appends_ok [OF store_ok_new])
  have "sorted_wrt (<) (map sr_seq (st_rows st))"
    "distinct (filter (\<lambda>k. k \<noteq> None) (map sr_idempotency_key (st_rows st)))"
    using ok by (simp_all add: store_ok_def sqlite.ordered_def)
  moreover have "sr_payload_sha256 row = sha256_hexdigest (sr_payload_json row)"
    "assert_no_secrets (sr_payload_json row) = Inr ()" if "row \<in> set (st_rows st)" for row
    using ok that by (auto simp: store_ok_def list_all_iff row_sound_def payload_sha256_def)
  ultimately show ?thesis using get_by_seq_row [OF ok] run_appends_extends [of cd st later] by blast
qed

definition sample_codec :: codec where
  "sample_codec =
     \<lparr>cd_dump = (\<lambda>obj. case obj of
        ExecutionReport r \<Rightarrow> ''{\"lifecycle_state\":\"'' @ order_lifecycle_state_value (er_lifecycle_state r) @ ''\"}''
      | _ \<Rightarrow> ''{}''),
      cd_model = (\<lambda>_ _. Inl (ValidationError ''model'')),
      cd_ticket = (\<lambda>_. Inl (ValidationError ''ticket'')), cd_leg = (\<lambda>_. Inl (ValidationError ''leg'')),
      cd_datetime = (\<lambda>_. Inl (ValueError ''Invalid isoformat string'')),
      cd_decimal = (\<lambda>_. Inl (ValueError ''decimal''))\<rparr>"

definition sample_artifact :: audit_artifact where
  "sample_artifact =
     \<lparr>aa_artifact_id = ''a-1'', aa_created_at = utc 0, aa_decision = ''NOTE'', aa_reason_codes = [], aa_detail = []\<rparr>"

definition sample_attempt :: append_op where
  "sample_attempt =
     (BrokerSubmitIntent (minted_intent sample_ticket_dump sample_ticket 1 submit_mode.PAPER
        (Some (Dec 45 (- 2))) sample_as_of), Aware sample_as_of, Aware sample_as_of, Some ''key-1'')"

definition sample_appends :: "append_op list" where
  "sample_appends = [(AuditArtifact sample_artifact, Aware (utc 0), Aware (utc 0), None), sample_attempt, sample_attempt]"

lemma sample_no_secrets: "assert_no_secrets ''{}'' = Inr ()"
  by code_simp

lemma sample_appends_rows:
  "map sr_idempotency_key (st_rows (run_appends sample_codec new_audit_store sample_appends)) = [None, Some ''key-1'']"
  by (simp add: sample_appends_def run_append_def sample_attempt_def new_audit_store_def append_event_def
      record_type_for_def sample_codec_def sample_no_secrets sqlite_insert_def row_for_def)

theorem audit_log_is_append_only_witness:
  "let st = run_appends sample_codec new_audit_store sample_appends in
     length (st_rows st) = 2 \<and> distinct (filter (\<lambda>k. k \<noteq> None) (map sr_idempotency_key (st_rows st)))"
  using audit_log_is_append_only [OF refl, of sample_codec sample_appends "[]"]
    arg_cong [OF sample_appends_rows, of length] by (simp add: Let_def)

text \<open>A submit decision is recorded once: when an attempt with the intent's idempotency key is
  in the store, recording an attempt with that key again raises \<open>DuplicateIdempotencyKeyError\<close>
  and changes nothing, also after any further appends; and an attempt that is recorded is in the
  store under that key.\<close>

theorem submit_attempt_recorded_once:
  assumes "record_submit_attempt cd st (Inst i) rec = (Inr e, st')"
    and "bi_idempotency_key j = bi_idempotency_key i" and "assert_no_secrets (cd_dump cd (BrokerSubmitIntent j)) = Inr ()"
  shows "record_submit_attempt cd (run_appends cd st' ops) (Inst j) rec' =
      (Inl (StorageError DuplicateIdempotencyKeyError ''submit attempt already persisted''), run_appends cd st' ops) \<and>
    (\<exists>row\<in>set (st_rows st'). sr_idempotency_key row = Some (bi_idempotency_key i) \<and>
       sr_record_id row = bi_idempotency_key i \<and> sr_record_type row = BROKER_SUBMIT_INTENT \<and>
       se_seq e = sr_seq row)"
proof -
  let ?k = "Some (bi_idempotency_key i)"
  let ?row = "added_row cd st (BrokerSubmitIntent i) (Aware (bi_submitted_at i)) rec ?k"
  have s: "storable cd st (BrokerSubmitIntent i) ?k"
    using assms(1) append_not_storable [of cd st "BrokerSubmitIntent i" ?k "Aware (bi_submitted_at i)" rec]
    by (auto simp: record_submit_attempt_def)
  then have st': "?row \<in> set (st_rows st')" "row_to_event ?row = Inr e"
    using assms(1) append_storable [OF s, of "Aware (bi_submitted_at i)" rec]
    by (auto simp: record_submit_attempt_def)
  have "?row \<in> set (st_rows (run_appends cd st' ops))"
    using run_appends_extends [of cd st' ops] st'(1) by auto
  then have "?k \<in> sr_idempotency_key ` set (st_rows (run_appends cd st' ops))"
    by (rule rev_image_eqI) (simp add: added_row_def)
  then show ?thesis
    using append_duplicate [of "BrokerSubmitIntent j" cd] assms(2,3) st' row_to_event_Inr [OF st'(2)]
    by (auto simp: record_submit_attempt_def added_row_def derive_record_id_def intro!: bexI [of _ ?row])
qed

lemma sample_record_attempt:
  "\<exists>e st'. record_submit_attempt sample_codec new_audit_store (Inst (minted_intent sample_ticket_dump sample_ticket 1
      submit_mode.PAPER (Some (Dec 45 (- 2))) sample_as_of)) (Aware sample_as_of) = (Inr e, st')"
  by (simp add: record_submit_attempt_def append_event_def record_type_for_def sample_codec_def sample_no_secrets
      sqlite_insert_def new_audit_store_def row_to_event_def row_for_def aware_of_def mk_stored_event_def
      stored_event_guards_def minted_intent_def derive_record_id_def payload_sha256_def)

theorem submit_attempt_recorded_once_witness:
  "\<exists>e st'. record_submit_attempt sample_codec new_audit_store (Inst (minted_intent sample_ticket_dump sample_ticket 1
      submit_mode.PAPER (Some (Dec 45 (- 2))) sample_as_of)) (Aware sample_as_of) = (Inr e, st') \<and>
     record_submit_attempt sample_codec st' (Inst (minted_intent sample_ticket_dump sample_ticket 1
      submit_mode.PAPER (Some (Dec 45 (- 2))) sample_as_of)) (Naive 0) =
       (Inl (StorageError DuplicateIdempotencyKeyError ''submit attempt already persisted''), st')"
proof -
  let ?i = "minted_intent sample_ticket_dump sample_ticket 1 submit_mode.PAPER (Some (Dec 45 (- 2))) sample_as_of"
  have "assert_no_secrets (cd_dump sample_codec (BrokerSubmitIntent ?i)) = Inr ()"
    by (simp add: sample_codec_def sample_no_secrets)
  then show ?thesis
    using sample_record_attempt submit_attempt_recorded_once [of sample_codec _ ?i _ _ _ ?i "[]" "Naive 0"] by fastforce
qed

text \<open>C13. Restart recovery is exact: on a store whose rows are valid events and whose reports name
  a lifecycle state, recovery succeeds and lists, in the order of submission, exactly the submit
  attempts that have no execution report or whose newest report is not in a terminal state.\<close>

theorem recovery_is_exact:
  assumes "readable st"
  shows "\<exists>us. unresolved_open_orders st = Inr us \<and>
    map oo_logical_key us = map sr_record_id (filter (\<lambda>r. sr_record_type r = BROKER_SUBMIT_INTENT \<and>
      (case find (\<lambda>p. sr_record_type p = EXECUTION_REPORT \<and> sr_record_id p = sr_record_id r) (rev (st_rows st)) of
         None \<Rightarrow> True
       | Some p \<Rightarrow> \<exists>l\<in>NON_TERMINAL_LIFECYCLE. lifecycle_from_payload (sr_payload_json p) = Inr l)) (st_rows st))"
proof -
  have "left_open st k \<longleftrightarrow>
      (case find (\<lambda>p. sr_record_type p = EXECUTION_REPORT \<and> sr_record_id p = k) (rev (st_rows st)) of
         None \<Rightarrow> True
       | Some p \<Rightarrow> \<exists>l\<in>NON_TERMINAL_LIFECYCLE. lifecycle_from_payload (sr_payload_json p) = Inr l)" for k
    by (auto simp: left_open_def last_report_def split: option.splits sum.splits)
  then show ?thesis
    using unresolved_of_readable [OF assms] by (simp add: rows_of_type_def conj_commute)
qed

definition sample_row :: "int \<Rightarrow> record_type \<Rightarrow> string \<Rightarrow> string \<Rightarrow> stored_row" where
  "sample_row q rt k payload =
     \<lparr>sr_seq = q, sr_record_type = rt, sr_record_id = k, sr_idempotency_key = None, sr_order_ticket_hash = None,
      sr_created_at = Aware (utc 0), sr_recorded_at = Aware (utc 0), sr_payload_json = payload,
      sr_payload_sha256 = replicate 64 (CHR ''0'')\<rparr>"

definition sample_store :: audit_store where
  "sample_store =
     \<lparr>st_rows = [sample_row 1 BROKER_SUBMIT_INTENT ''k1'' ''{}'', sample_row 2 BROKER_SUBMIT_INTENT ''k2'' ''{}'',
        sample_row 3 EXECUTION_REPORT ''k1'' ''{\"lifecycle_state\":\"WORKING\"}'',
        sample_row 4 EXECUTION_REPORT ''k1'' ''{\"lifecycle_state\":\"FILLED\"}''], st_last_seq = 4\<rparr>"

lemma sample_store_readable: "readable sample_store"
  by code_simp

theorem recovery_is_exact_witness:
  "\<exists>us. unresolved_open_orders sample_store = Inr us \<and> map oo_logical_key us = [''k2'']"
proof -
  have "lifecycle_from_payload ''{\"lifecycle_state\":\"FILLED\"}'' = Inr order_lifecycle_state.FILLED" by code_simp
  then show ?thesis
    using recovery_is_exact [OF sample_store_readable]
    by (simp add: sample_store_def sample_row_def NON_TERMINAL_LIFECYCLE_def)
qed

end
