(* ===== verification/Isoformat.thy ===== *)
theory Isoformat
  imports Positions
begin

text \<open>
  \<open>datetime.isoformat()\<close> and the \<open>strftime\<close> stamp of the control plane, from the
  proleptic Gregorian date of a day number, as they appear in the identifiers of audit artifacts.
\<close>

definition civil_of_day :: "int \<Rightarrow> date" where
  "civil_of_day n =
     (let z = n + 719468; era = z div 146097; doe = z mod 146097;
          yoe = (doe - doe div 1460 + doe div 36524 - doe div 146096) div 365;
          doy = doe - (365 * yoe + yoe div 4 - yoe div 100);
          mp = (5 * doy + 2) div 153;
          d = doy - (153 * mp + 2) div 5 + 1;
          m = (if mp < 10 then mp + 3 else mp - 9)
      in Date (yoe + era * 400 + (if m \<le> 2 then 1 else 0)) m d)"

definition wall_us :: "datetime \<Rightarrow> int" where
  "wall_us d = (case d of Aware a \<Rightarrow> at_us a + at_off a | Naive us \<Rightarrow> us)"

definition offset_text :: "int \<Rightarrow> string" where
  "offset_text off =
     (let a = abs off; h = a div 3600000000; m = a div us_per_min mod 60; s = a div us_per_s mod 60;
          f = a mod us_per_s
      in (if off < 0 then ''-'' else ''+'') @ pad 2 h @ '':'' @ pad 2 m @
         (if s = 0 \<and> f = 0 then [] else '':'' @ pad 2 s @ (if f = 0 then [] else ''.'' @ pad 6 f)))"

definition dt_isoformat :: "datetime \<Rightarrow> string" where
  "dt_isoformat d =
     (let w = wall_us d; t = w mod us_per_day; f = t mod us_per_s in
      isoformat (civil_of_day (w div us_per_day)) @ ''T'' @
      pad 2 (t div 3600000000) @ '':'' @ pad 2 (t div us_per_min mod 60) @ '':'' @ pad 2 (t div us_per_s mod 60) @
      (if f = 0 then [] else ''.'' @ pad 6 f) @
      (case d of Aware a \<Rightarrow> offset_text (at_off a) | Naive _ \<Rightarrow> []))"

text \<open>\<open>strftime('%Y%m%dT%H%M%S%f')\<close>.\<close>

definition dt_stamp :: "datetime \<Rightarrow> string" where
  "dt_stamp d =
     (let w = wall_us d; t = w mod us_per_day; c = civil_of_day (w div us_per_day) in
      pad 4 (year c) @ pad 2 (month c) @ pad 2 (day c) @ ''T'' @
      pad 2 (t div 3600000000) @ pad 2 (t div us_per_min mod 60) @ pad 2 (t div us_per_s mod 60) @
      pad 6 (t mod us_per_s))"

lemma dt_isoformat_examples:
  "dt_isoformat (Aware (utc 0)) = ''1970-01-01T00:00:00+00:00''"
  "dt_isoformat (Aware (utc 1709210096123456)) = ''2024-02-29T12:34:56.123456+00:00''"
  "dt_isoformat (Aware \<lparr>at_us = 1781105400000000, at_off = - 18000000000\<rparr>) = ''2026-06-10T10:30:00-05:00''"
  "dt_isoformat (Naive (- 1)) = ''1969-12-31T23:59:59.999999''"
  by code_simp+

lemma dt_stamp_example: "dt_stamp (Aware (utc 1781105400000007)) = ''20260610T153000000007''"
  by code_simp

end
