(* ===== verification/Steps.thy ===== *)
theory Steps
  imports AuditStore Isoformat
begin

text \<open>
  Stateful code that may raise: a step takes a state and returns a result together with the state
  it leaves behind, also when it raises, since what was appended to the store before an exception
  stays there. The cycles and the control plane are written with these steps.
\<close>

type_synonym ('s, 'a) step = "'s \<Rightarrow> 'a res \<times> 's"

definition return_st :: "'a \<Rightarrow> ('s, 'a) step" where
  "return_st x = (\<lambda>s. (Inr x, s))"

definition raise_st :: "py_error \<Rightarrow> ('s, 'a) step" where
  "raise_st e = (\<lambda>s. (Inl e, s))"

definition lift_res :: "'a res \<Rightarrow> ('s, 'a) step" where
  "lift_res r = (\<lambda>s. (r, s))"

definition bind_st :: "('s, 'a) step \<Rightarrow> ('a \<Rightarrow> ('s, 'b) step) \<Rightarrow> ('s, 'b) step" where
  "bind_st m f = (\<lambda>s. case m s of (Inl e, s') \<Rightarrow> (Inl e, s') | (Inr a, s') \<Rightarrow> f a s')"

definition then_st :: "('s, 'a) step \<Rightarrow> ('s, 'b) step \<Rightarrow> ('s, 'b) step" where
  "then_st m n = bind_st m (\<lambda>_. n)"

definition modify_st :: "('s \<Rightarrow> 's) \<Rightarrow> ('s, unit) step" where
  "modify_st f = (\<lambda>s. (Inr (), f s))"

definition gets_st :: "('s \<Rightarrow> 'a) \<Rightarrow> ('s, 'a) step" where
  "gets_st f = (\<lambda>s. (Inr (f s), s))"

text \<open>\<open>try ... except Exception: <handler>; raise\<close>.\<close>

definition rescue_st :: "('s, 'a) step \<Rightarrow> ('s, 'c) step \<Rightarrow> ('s, 'a) step" where
  "rescue_st m handler = (\<lambda>s.
     case m s of (Inl e, s') \<Rightarrow> then_st handler (raise_st e) s' | (Inr x, s') \<Rightarrow> (Inr x, s'))"

text \<open>\<open>try ... except (<classes>)\<close>: a caught exception is the value \<open>Inl\<close>, others pass.\<close>

definition try_st :: "(py_error \<Rightarrow> bool) \<Rightarrow> ('s, 'a) step \<Rightarrow> ('s, 'a res) step" where
  "try_st caught m = (\<lambda>s.
     case m s of
       (Inl e, s') \<Rightarrow> if caught e then (Inr (Inl e), s') else (Inl e, s')
     | (Inr x, s') \<Rightarrow> (Inr (Inr x), s'))"

text \<open>The result of a step that succeeds.\<close>

lemma step_simps [simp]:
  "return_st x s = (Inr x, s)" "raise_st e s = (Inl e, s)" "lift_res r s = (r, s)"
  "modify_st f s = (Inr (), f s)" "gets_st g s = (Inr (g s), s)"
  by (simp_all add: return_st_def raise_st_def lift_res_def modify_st_def gets_st_def)

lemma bind_st_Inr: "m s = (Inr a, s') \<Longrightarrow> bind_st m f s = f a s'"
  by (simp add: bind_st_def)

lemma bind_st_Inl: "m s = (Inl e, s') \<Longrightarrow> bind_st m f s = (Inl e, s')"
  by (simp add: bind_st_def)

lemma bind_st_eq_Inr:
  "bind_st m f s = (Inr b, s'') \<longleftrightarrow> (\<exists>a s'. m s = (Inr a, s') \<and> f a s' = (Inr b, s''))"
  by (auto simp: bind_st_def split: prod.splits sum.splits)

lemma then_st_eq_Inr: "then_st m n s = (Inr b, s'') \<longleftrightarrow> (\<exists>a s'. m s = (Inr a, s') \<and> n s' = (Inr b, s''))"
  by (simp add: then_st_def bind_st_eq_Inr)

lemmas step_Inr = bind_st_eq_Inr then_st_eq_Inr

section \<open>What a step that returns ensures\<close>

text \<open>If the step starts in a state with \<open>P\<close> and does not raise, \<open>Q\<close> holds of its value and of the
  state it leaves.\<close>

definition yields :: "('s \<Rightarrow> bool) \<Rightarrow> ('s, 'a) step \<Rightarrow> ('a \<Rightarrow> 's \<Rightarrow> bool) \<Rightarrow> bool" where
  "yields P m Q \<longleftrightarrow> (\<forall>s x t. P s \<longrightarrow> m s = (Inr x, t) \<longrightarrow> Q x t)"

lemma yieldsD: "yields P m Q \<Longrightarrow> P s \<Longrightarrow> m s = (Inr x, t) \<Longrightarrow> Q x t"
  by (simp add: yields_def)

lemma yields_True: "yields P m (\<lambda>_ _. True)"
  by (simp add: yields_def)

lemma yields_bind: "yields P m Q \<Longrightarrow> (\<And>a. yields (Q a) (f a) R) \<Longrightarrow> yields P (bind_st m f) R"
  by (fastforce simp: yields_def bind_st_eq_Inr)

lemma yields_then: "yields P m (\<lambda>_. Q) \<Longrightarrow> yields Q n R \<Longrightarrow> yields P (then_st m n) R"
  by (fastforce simp: yields_def then_st_eq_Inr)

lemma yields_raise: "yields P (raise_st e) Q"
  by (simp add: yields_def)

lemma yields_return: "(\<And>s. P s \<Longrightarrow> Q x s) \<Longrightarrow> yields P (return_st x) Q"
  by (simp add: yields_def)

text \<open>A property of the returned value alone.\<close>

abbreviation always :: "('a \<Rightarrow> bool) \<Rightarrow> ('s, 'a) step \<Rightarrow> bool" where
  "always Q m \<equiv> yields (\<lambda>_. True) m (\<lambda>x _. Q x)"

lemma always_bind: "(\<And>a. always Q (f a)) \<Longrightarrow> always Q (bind_st m f)"
  by (rule yields_bind [OF yields_True]) simp

lemma always_bind_if: "always A m \<Longrightarrow> (\<And>a. A a \<Longrightarrow> always Q (f a)) \<Longrightarrow> always Q (bind_st m f)"
  by (fastforce simp: yields_def bind_st_eq_Inr)

lemma always_then: "always Q n \<Longrightarrow> always Q (then_st m n)"
  by (fastforce simp: yields_def then_st_eq_Inr)

lemmas always_rules = yields_raise always_then

lemma always_lift: "always (\<lambda>a. r = Inr a) (lift_res r)"
  by (simp add: yields_def)

lemma always_try: "always A m \<Longrightarrow> always (\<lambda>x. \<forall>a. x = Inr a \<longrightarrow> A a) (try_st c m)"
  by (fastforce simp: yields_def try_st_def split: prod.splits sum.splits if_splits)

section \<open>Relations kept by a step\<close>

text \<open>A step keeps a relation between the state it starts in and the state it leaves, whether or
  not it raises. Reflexive and transitive relations compose.\<close>

definition keeps :: "('s \<Rightarrow> 's \<Rightarrow> bool) \<Rightarrow> ('s, 'a) step \<Rightarrow> bool" where
  "keeps R m \<longleftrightarrow> (\<forall>s. R s (snd (m s)))"

locale step_relation =
  fixes R :: "'s \<Rightarrow> 's \<Rightarrow> bool"
  assumes refl: "R s s"
    and trans: "R s t \<Longrightarrow> R t u \<Longrightarrow> R s u"
begin

lemma keeps_pure: "keeps R (return_st x)" "keeps R (raise_st e)" "keeps R (lift_res r)" "keeps R (gets_st g)"
  by (simp_all add: keeps_def refl)

lemma keeps_bind:
  assumes "keeps R m" and "\<And>a. keeps R (f a)"
  shows "keeps R (bind_st m f)"
  unfolding keeps_def
proof
  fix s
  have "R s (snd (m s))" using assms(1) by (simp add: keeps_def)
  moreover have "R t (snd (f a t))" for a t using assms(2) by (simp add: keeps_def)
  ultimately show "R s (snd (bind_st m f s))"
    by (auto simp: bind_st_def split: prod.splits sum.splits intro: trans)
qed

lemma keeps_bind_if:
  assumes "always A m" and "keeps R m" and "\<And>a. A a \<Longrightarrow> keeps R (f a)"
  shows "keeps R (bind_st m f)"
  unfolding keeps_def
proof
  fix s
  have "R s (snd (m s))" using assms(2) by (simp add: keeps_def)
  moreover have "R t (snd (f a t))" if "A a" for a t using assms(3) [OF that] by (simp add: keeps_def)
  moreover have "fst (m s) = Inr a \<Longrightarrow> A a" for a
    using assms(1) unfolding yields_def by (metis prod.collapse)
  ultimately show "R s (snd (bind_st m f s))"
    by (auto simp: bind_st_def split: prod.splits sum.splits intro: trans)
qed

lemma keeps_then: "keeps R m \<Longrightarrow> keeps R n \<Longrightarrow> keeps R (then_st m n)"
  unfolding then_st_def by (rule keeps_bind)

lemma keeps_rescue:
  fixes m :: "('s, 'a) step"
  assumes "keeps R m" and "keeps R h"
  shows "keeps R (rescue_st m h)"
  unfolding keeps_def
proof
  fix s
  have "R s (snd (m s))" using assms(1) by (simp add: keeps_def)
  moreover have "keeps R (then_st h (raise_st e :: ('s, 'a) step))" for e
    by (rule keeps_then [OF assms(2) keeps_pure(2)])
  then have "R t (snd (then_st h (raise_st e :: ('s, 'a) step) t))" for e t
    by (simp add: keeps_def)
  ultimately show "R s (snd (rescue_st m h s))"
    by (auto simp: rescue_st_def split: prod.splits sum.splits intro: trans)
qed

lemma keeps_try: "keeps R m \<Longrightarrow> keeps R (try_st c m)"
  unfolding keeps_def
proof
  fix s
  assume "\<forall>s. R s (snd (m s))"
  then have "R s (snd (m s))" by blast
  then show "R s (snd (try_st c m s))" by (auto simp: try_st_def split: prod.splits sum.splits)
qed

lemma keeps_res: "(\<And>e. x = Inl e \<Longrightarrow> keeps R (g e)) \<Longrightarrow> (\<And>v. x = Inr v \<Longrightarrow> keeps R (f v)) \<Longrightarrow>
    keeps R (case x of Inl e \<Rightarrow> g e | Inr v \<Rightarrow> f v)"
  by (cases x) simp_all

lemma keeps_modify: "(\<And>s. R s (f s)) \<Longrightarrow> keeps R (modify_st f)"
  by (simp add: keeps_def)

lemma keeps_if: "(c \<Longrightarrow> keeps R m) \<Longrightarrow> (\<not> c \<Longrightarrow> keeps R n) \<Longrightarrow> keeps R (if c then m else n)"
  by simp

lemma keeps_option: "(x = None \<Longrightarrow> keeps R m) \<Longrightarrow> (\<And>v. x = Some v \<Longrightarrow> keeps R (f v)) \<Longrightarrow>
    keeps R (case x of None \<Rightarrow> m | Some v \<Rightarrow> f v)"
  by (cases x) simp_all

lemma keeps_dyn: "(\<And>n. keeps R (g n)) \<Longrightarrow> (\<And>v. x = Inst v \<Longrightarrow> keeps R (f v)) \<Longrightarrow>
    keeps R (case x of Inst v \<Rightarrow> f v | NotInst n \<Rightarrow> g n)"
  by (cases x) simp_all

lemmas keeps_rules = keeps_pure keeps_bind keeps_then keeps_rescue keeps_if keeps_option keeps_dyn keeps_try keeps_res

end

section \<open>Auditing\<close>

text \<open>What the cycles share: the store and the ids of the records they appended.\<close>

record audit_trail =
  au_store :: audit_store
  au_record_ids :: "string list"

definition audit_step ::
  "codec \<Rightarrow> datetime \<Rightarrow> hermes_model \<Rightarrow> datetime \<Rightarrow> ('b audit_trail_scheme, unit) step" where
  "audit_step cd recorded_at obj created_at = (\<lambda>s.
     case append_event cd (au_store s) obj created_at recorded_at None of
       (Inl e, st) \<Rightarrow> (Inl e, s\<lparr>au_store := st\<rparr>)
     | (Inr ev, st) \<Rightarrow> (Inr (), s\<lparr>au_store := st, au_record_ids := au_record_ids s @ [se_record_id ev]\<rparr>))"

definition new_artifact ::
  "string \<Rightarrow> datetime \<Rightarrow> string \<Rightarrow> reason_code list \<Rightarrow> string \<Rightarrow> audit_artifact res" where
  "new_artifact aid created_at decision codes detail =
     bind_res (aware_of ''created_at'' created_at) (\<lambda>ts.
     mk_audit_artifact
       \<lparr>aa_artifact_id = aid, aa_created_at = ts, aa_decision = decision,
        aa_reason_codes = codes, aa_detail = detail\<rparr>)"

definition audit_new_artifact ::
  "codec \<Rightarrow> datetime \<Rightarrow> string \<Rightarrow> string \<Rightarrow> reason_code list \<Rightarrow> string \<Rightarrow> ('b audit_trail_scheme, unit) step" where
  "audit_new_artifact cd recorded_at aid decision codes detail =
     bind_st (lift_res (new_artifact aid recorded_at decision codes detail))
       (\<lambda>a. audit_step cd recorded_at (AuditArtifact a) recorded_at)"

text \<open>\<open>str(True)\<close>.\<close>

definition bool_str :: "bool \<Rightarrow> string" where
  "bool_str b = (if b then ''True'' else ''False'')"

lemma audit_step_store:
  "\<exists>ops. au_store (snd (audit_step cd rec obj c s)) = run_appends cd (au_store s) ops \<and>
     list_all (\<lambda>(_, _, _, k). k = None) ops"
proof -
  have "au_store (snd (audit_step cd rec obj c s)) = run_appends cd (au_store s) [(obj, c, rec, None)]"
    by (auto simp: audit_step_def run_append_def split: prod.splits sum.splits)
  then show ?thesis by (intro exI [of _ "[(obj, c, rec, None)]"]) simp
qed

end
