(* ===== verification/Brokers.thy ===== *)
theory Brokers
  imports Positions "HOL-Library.AList"
begin

text \<open>
  The broker adapters: read models and interface (\<open>brokers/base.py\<close>) and the in-memory
  fakes (\<open>brokers/fake.py\<close>). The state of a fake is the two dictionaries of the code, kept
  as association lists in insertion order; an operation returns its result together with the new
  state. \<open>wall\<close> is the reading of \<open>datetime.now\<close> used when the adapter has no
  fixed clock. The interface that callers rely on is the locale \<open>broker_adapter\<close>.
\<close>

section \<open>Read models\<close>

record broker_fill =
  bf_broker_order_id :: broker_order_id
  bf_lifecycle_state :: order_lifecycle_state
  bf_filled_contracts :: int
  bf_requested_contracts :: int
  bf_avg_fill_price :: "decimal option"
  bf_fill_timestamp :: "aware option"
  bf_submitted_at :: aware
  bf_completed_at :: "aware option"

definition broker_fill_guards :: "broker_fill \<Rightarrow> (bool \<times> string) list" where
  "broker_fill_guards f =
     [(bf_filled_contracts f < 0, ''filled_contracts''),
      (bf_requested_contracts f \<le> 0, ''requested_contracts'')]"

definition mk_broker_fill :: "broker_fill \<Rightarrow> broker_fill res" where
  "mk_broker_fill f = construct (broker_fill_guards f) f"

definition wf_broker_fill :: "broker_fill \<Rightarrow> bool" where
  [wf_defs]: "wf_broker_fill f \<longleftrightarrow> passes_guards (broker_fill_guards f)"

record broker_account_view =
  av_account_id :: string
  av_cash :: decimal
  av_buying_power :: decimal
  av_net_liquidating_value :: decimal

record broker_position_view =
  pv_symbol :: string
  pv_quantity :: int
  pv_average_price :: decimal

section \<open>The adapter interface\<close>

definition OPEN_STATES :: "order_lifecycle_state set" where
  "OPEN_STATES = {order_lifecycle_state.PENDING_SUBMIT, order_lifecycle_state.SUBMITTED,
     order_lifecycle_state.WORKING, order_lifecycle_state.PARTIAL_FILL}"

definition is_open :: "broker_fill \<Rightarrow> bool" where
  "is_open f \<longleftrightarrow> bf_lifecycle_state f \<in> OPEN_STATES"

text \<open>A client's use of an adapter: a sequence of submissions and cancellations.\<close>

datatype 'i broker_op = Submit aware 'i | Cancel aware broker_order_id

fun run_ops ::
  "('b \<Rightarrow> aware \<Rightarrow> 'i \<Rightarrow> broker_fill res \<times> 'b) \<Rightarrow> ('b \<Rightarrow> aware \<Rightarrow> broker_order_id \<Rightarrow> broker_fill res \<times> 'b)
     \<Rightarrow> 'b \<Rightarrow> 'i broker_op list \<Rightarrow> 'b" where
  "run_ops submit cancel b [] = b"
| "run_ops submit cancel b (Submit w i # ops) = run_ops submit cancel (snd (submit b w i)) ops"
| "run_ops submit cancel b (Cancel w oid # ops) = run_ops submit cancel (snd (cancel b w oid)) ops"

text \<open>\<open>key\<close>: the idempotency key of a submission; \<open>accepts\<close>: the adapter's policy lets
  it through; \<open>stored b k\<close>: the fill held for a key. The laws: operations keep the
  invariant; a failed operation changes nothing; a successful submission stores its fill under its
  key and nothing else; a submission whose key is stored returns what is stored and changes
  nothing; cancelling closes one open order, keeps its filled quantity and leaves the others
  alone; the policy does not change.\<close>

locale broker_adapter =
  fixes inv :: "'b \<Rightarrow> bool"
    and key :: "'i \<Rightarrow> string"
    and accepts :: "'b \<Rightarrow> 'i \<Rightarrow> bool"
    and stored :: "'b \<Rightarrow> string \<Rightarrow> broker_fill option"
    and submit :: "'b \<Rightarrow> aware \<Rightarrow> 'i \<Rightarrow> broker_fill res \<times> 'b"
    and cancel :: "'b \<Rightarrow> aware \<Rightarrow> broker_order_id \<Rightarrow> broker_fill res \<times> 'b"
  assumes submit_inv: "inv b \<Longrightarrow> inv (snd (submit b w i))"
    and cancel_inv: "inv b \<Longrightarrow> inv (snd (cancel b w oid))"
    and submit_failed: "fst (submit b w i) = Inl e \<Longrightarrow> snd (submit b w i) = b"
    and submit_accepts: "fst (submit b w i) = Inr f \<Longrightarrow> accepts b i"
    and submit_stores: "submit b w i = (Inr f, b') \<Longrightarrow> stored b' = (stored b)(key i \<mapsto> f)"
    and submit_again: "accepts b i \<Longrightarrow> stored b (key i) = Some f \<Longrightarrow> submit b w i = (Inr f, b)"
    and cancel_failed: "fst (cancel b w oid) = Inl e \<Longrightarrow> snd (cancel b w oid) = b"
    and cancel_closes: "inv b \<Longrightarrow> cancel b w oid = (Inr f, b') \<Longrightarrow>
      \<exists>k g. stored b k = Some g \<and> is_open g \<and> stored b' = (stored b)(k \<mapsto> f) \<and>
        bf_lifecycle_state f = order_lifecycle_state.CANCELLED \<and>
        bf_filled_contracts f = bf_filled_contracts g"
    and accepts_after_submit: "accepts (snd (submit b w i)) j = accepts b j"
    and accepts_after_cancel: "accepts (snd (cancel b w oid)) j = accepts b j"
begin

text \<open>A transport retry returns the same fill and does not touch the adapter.\<close>

lemma retry:
  assumes "submit b w i = (Inr f, b')" and "accepts b' j" and "key j = key i"
  shows "submit b' w' j = (Inr f, b')"
  using submit_again [of b' j f w'] submit_stores [OF assms(1)] assms(2,3) by simp

lemma submit_keeps_stored:
  assumes "stored b k = Some f"
  shows "stored (snd (submit b w i)) k = Some f"
proof (cases "fst (submit b w i)")
  case (Inl e)
  then show ?thesis using assms submit_failed by simp
next
  case (Inr g)
  then have s: "submit b w i = (Inr g, snd (submit b w i))" by (metis prod.collapse)
  show ?thesis
  proof (cases "k = key i")
    case True
    then have "submit b w i = (Inr f, b)"
      using submit_again [of b i f w] submit_accepts [OF Inr] assms by simp
    then show ?thesis using assms by simp
  next
    case False
    then show ?thesis using submit_stores [OF s] assms by simp
  qed
qed

lemma cancel_keeps_closed:
  assumes "inv b" and "stored b k = Some f" and "\<not> is_open f"
  shows "stored (snd (cancel b w oid)) k = Some f"
proof (cases "fst (cancel b w oid)")
  case (Inl e)
  then show ?thesis using assms cancel_failed by simp
next
  case (Inr g)
  then have "cancel b w oid = (Inr g, snd (cancel b w oid))" by (metis prod.collapse)
  from cancel_closes [OF assms(1) this] show ?thesis using assms(2,3) by force
qed

text \<open>Whatever is submitted or cancelled afterwards, an order that is no longer open keeps its
  fill.\<close>

lemma closed_is_final:
  assumes "inv b" and "stored b k = Some f" and "\<not> is_open f"
  shows "stored (run_ops submit cancel b ops) k = Some f"
  using assms(1,2)
proof (induction ops arbitrary: b)
  case (Cons op ops)
  then show ?case
    using assms(3) by (cases op) (simp_all add: submit_inv cancel_inv submit_keeps_stored cancel_keeps_closed)
qed simp

text \<open>Every order held after a run was there before or was submitted and accepted.\<close>

lemma stored_after_submit:
  assumes "stored (snd (submit b w i)) k \<noteq> None" and "stored b k = None"
  shows "key i = k \<and> accepts b i"
proof (cases "fst (submit b w i)")
  case (Inl e)
  then show ?thesis using assms submit_failed by simp
next
  case (Inr g)
  then have "submit b w i = (Inr g, snd (submit b w i))" by (metis prod.collapse)
  from submit_stores [OF this] show ?thesis
    using assms submit_accepts [OF Inr] by (auto split: if_splits)
qed

lemma stored_after_cancel:
  assumes "inv b"
  shows "stored (snd (cancel b w oid)) k \<noteq> None \<longleftrightarrow> stored b k \<noteq> None"
proof (cases "fst (cancel b w oid)")
  case (Inl e)
  then show ?thesis using cancel_failed by simp
next
  case (Inr g)
  then have "cancel b w oid = (Inr g, snd (cancel b w oid))" by (metis prod.collapse)
  from cancel_closes [OF assms this] show ?thesis by (auto split: if_splits)
qed

lemma stored_was_accepted:
  assumes "inv b" and "stored (run_ops submit cancel b ops) k \<noteq> None" and "stored b k = None"
  shows "\<exists>w i. Submit w i \<in> set ops \<and> key i = k \<and> accepts b i"
  using assms
proof (induction ops arbitrary: b)
  case (Cons op ops)
  show ?case
  proof (cases op)
    case (Submit w i)
    show ?thesis
    proof (cases "stored (snd (submit b w i)) k = None")
      case True
      then show ?thesis
        using Cons.IH [OF submit_inv [OF Cons.prems(1)] _ True] Cons.prems(2)
        by (auto simp: Submit accepts_after_submit)
    next
      case False
      then show ?thesis using stored_after_submit [of b w i k] Cons.prems(3) by (auto simp: Submit)
    qed
  next
    case (Cancel w oid)
    have "stored (snd (cancel b w oid)) k = None"
      using Cons.prems(3) stored_after_cancel [OF Cons.prems(1), of w oid k] by simp
    from Cons.IH [OF cancel_inv [OF Cons.prems(1)] _ this] Cons.prems(2) show ?thesis
      by (auto simp: Cancel accepts_after_cancel)
  qed
qed simp

lemma run_ops_inv: "inv b \<Longrightarrow> inv (run_ops submit cancel b ops)"
proof (induction ops arbitrary: b)
  case (Cons op ops)
  then show ?case by (cases op) (simp_all add: submit_inv cancel_inv)
qed simp

end

section \<open>Fake brokers\<close>

datatype fake_kind =
    FakeFillBroker
  | FakeRejectBroker
  | FakePartialFillBroker
  | FakeDisconnectBroker
  | FakeSlowBroker
  | FakeDuplicateAckBroker

record fake_broker =
  fk_kind :: fake_kind
  fk_broker_name :: string
  fk_clock :: "datetime option"
  fk_fills :: "(string \<times> broker_fill) list"
  fk_index :: "(string \<times> string) list"

definition new_fake_broker :: "fake_kind \<Rightarrow> string \<Rightarrow> datetime option \<Rightarrow> fake_broker" where
  "new_fake_broker k broker_name clock =
     \<lparr>fk_kind = k, fk_broker_name = broker_name, fk_clock = clock, fk_fills = [], fk_index = []\<rparr>"

definition FAKE_FILL_PRICE :: decimal where "FAKE_FILL_PRICE = Dec 100 (- 2)"

definition fake_now :: "fake_broker \<Rightarrow> aware \<Rightarrow> datetime" where
  "fake_now b wall = (case fk_clock b of None \<Rightarrow> Aware wall | Some c \<Rightarrow> c)"

definition fake_order_value :: "string \<Rightarrow> string" where
  "fake_order_value key = ''FAKE-'' @ key"

lemma fake_order_value_inj [simp]: "fake_order_value a = fake_order_value b \<longleftrightarrow> a = b"
  by (simp add: fake_order_value_def)

definition order_id_for :: "fake_broker \<Rightarrow> broker_submit_intent \<Rightarrow> broker_order_id res" where
  "order_id_for b i =
     mk_broker_order_id \<lparr>bo_value = fake_order_value (bi_idempotency_key i), bo_broker_name = fk_broker_name b\<rparr>"

definition requested :: "broker_submit_intent \<Rightarrow> int" where
  "requested i = sl_contracts (ci_short_leg (vi_candidate (ot_validated_intent (bi_ticket i))))"

text \<open>\<open>intent.limit_price or _FAKE_FILL_PRICE\<close>: a price of zero is false.\<close>

definition fill_price :: "broker_submit_intent \<Rightarrow> decimal" where
  "fill_price i =
     (case bi_limit_price i of None \<Rightarrow> FAKE_FILL_PRICE
      | Some p \<Rightarrow> if dval p = 0 then FAKE_FILL_PRICE else p)"

definition fake_fill ::
  "fake_broker \<Rightarrow> aware \<Rightarrow> broker_submit_intent \<Rightarrow> order_lifecycle_state \<Rightarrow> int \<Rightarrow> bool \<Rightarrow> broker_fill res" where
  "fake_fill b wall i lifecycle filled completed =
     (let now = fake_now b wall; priced = 0 < filled in
      bind_res (order_id_for b i) (\<lambda>oid.
      bind_res (aware_field ''fill_timestamp'' (if priced then Some now else None)) (\<lambda>ft.
      bind_res (aware_field ''completed_at'' (if completed then Some now else None)) (\<lambda>ct.
      mk_broker_fill
        \<lparr>bf_broker_order_id = oid, bf_lifecycle_state = lifecycle, bf_filled_contracts = filled,
         bf_requested_contracts = requested i,
         bf_avg_fill_price = (if priced then Some (fill_price i) else None),
         bf_fill_timestamp = ft, bf_submitted_at = bi_submitted_at i, bf_completed_at = ct\<rparr>))))"

definition broker_failure :: "broker_error_kind \<Rightarrow> string \<Rightarrow> reason_code \<Rightarrow> 'a res" where
  "broker_failure k message code = Inl (BrokerError (mk_broker_error k message code []))"

definition simulate :: "fake_broker \<Rightarrow> aware \<Rightarrow> broker_submit_intent \<Rightarrow> broker_fill res" where
  "simulate b wall i =
     (case fk_kind b of
        FakeFillBroker \<Rightarrow> fake_fill b wall i order_lifecycle_state.FILLED (requested i) True
      | FakeRejectBroker \<Rightarrow>
          broker_failure BrokerRejectedError ''fake broker rejected the order'' EXECUTION_QUALITY_SUSPENDED
      | FakePartialFillBroker \<Rightarrow>
          if requested i \<le> 1 then fake_fill b wall i order_lifecycle_state.WORKING 0 False
          else fake_fill b wall i order_lifecycle_state.PARTIAL_FILL (requested i - 1) False
      | FakeDisconnectBroker \<Rightarrow>
          broker_failure BrokerDisconnectError ''fake broker connection dropped before ack'' INTERNAL_CONTRADICTION
      | FakeSlowBroker \<Rightarrow>
          broker_failure BrokerTimeoutError ''fake broker exceeded the submit deadline'' PRICE_STALE
      | FakeDuplicateAckBroker \<Rightarrow> fake_fill b wall i order_lifecycle_state.FILLED (requested i) True)"

definition fake_submit_order ::
  "fake_broker \<Rightarrow> aware \<Rightarrow> broker_submit_intent dyn \<Rightarrow> broker_fill res \<times> fake_broker" where
  "fake_submit_order b wall arg =
     (case arg of
        NotInst _ \<Rightarrow> (Inl (TypeError ''submit_order requires a BrokerSubmitIntent''), b)
      | Inst i \<Rightarrow>
          if bi_submit_mode i \<noteq> submit_mode.PAPER
          then (broker_failure LiveSubmitNotPermittedError ''fake broker cannot service submit_mode''
                  INTERNAL_CONTRADICTION, b)
          else case map_of (fk_fills b) (bi_idempotency_key i) of
              Some existing \<Rightarrow> (Inr existing, b)
            | None \<Rightarrow>
                (case simulate b wall i of
                   Inl e \<Rightarrow> (Inl e, b)
                 | Inr fill \<Rightarrow>
                     (Inr fill,
                      b\<lparr>fk_fills := AList.update (bi_idempotency_key i) fill (fk_fills b),
                        fk_index := AList.update (bo_value (bf_broker_order_id fill))
                                      (bi_idempotency_key i) (fk_index b)\<rparr>)))"

definition fake_get_order :: "fake_broker \<Rightarrow> broker_order_id \<Rightarrow> broker_fill res" where
  "fake_get_order b oid =
     (case map_of (fk_index b) (bo_value oid) of
        None \<Rightarrow> broker_failure UnknownOrderError ''unknown broker_order_id'' INTERNAL_CONTRADICTION
      | Some key \<Rightarrow>
          (case map_of (fk_fills b) key of None \<Rightarrow> Inl (KeyError key) | Some f \<Rightarrow> Inr f))"

definition fake_cancel_order ::
  "fake_broker \<Rightarrow> aware \<Rightarrow> broker_order_id \<Rightarrow> broker_fill res \<times> fake_broker" where
  "fake_cancel_order b wall oid =
     (case fake_get_order b oid of
        Inl e \<Rightarrow> (Inl e, b)
      | Inr current \<Rightarrow>
          if bf_lifecycle_state current \<notin> OPEN_STATES
          then (broker_failure OrderNotCancellableError ''cannot cancel order in terminal state''
                  INTERNAL_CONTRADICTION, b)
          else
            (case bind_res (aware_field ''completed_at'' (Some (fake_now b wall))) (\<lambda>ct.
                  mk_broker_fill (current\<lparr>bf_lifecycle_state := order_lifecycle_state.CANCELLED,
                    bf_completed_at := ct\<rparr>)) of
               Inl e \<Rightarrow> (Inl e, b)
             | Inr cancelled \<Rightarrow>
                 (case map_of (fk_index b) (bo_value oid) of
                    None \<Rightarrow> (Inl (KeyError (bo_value oid)), b)
                  | Some key \<Rightarrow> (Inr cancelled, b\<lparr>fk_fills := AList.update key cancelled (fk_fills b)\<rparr>))))"

definition fake_get_open_orders :: "fake_broker \<Rightarrow> broker_fill list" where
  "fake_get_open_orders b = filter (\<lambda>f. bf_lifecycle_state f \<in> OPEN_STATES) (map snd (fk_fills b))"

definition fake_get_account :: "fake_broker \<Rightarrow> broker_account_view" where
  "fake_get_account b =
     \<lparr>av_account_id = ''FAKE-ACCOUNT'', av_cash = Dec 20000 0, av_buying_power = Dec 20000 0,
      av_net_liquidating_value = Dec 20000 0\<rparr>"

definition fake_get_positions :: "fake_broker \<Rightarrow> broker_position_view list" where
  "fake_get_positions b = []"

section \<open>The invariant of a fake broker\<close>

text \<open>Every stored fill is well formed, never overfilled, never both cancelled and full, and is
  found under its order id; the index names only stored orders.\<close>

definition fill_ok :: "string \<Rightarrow> broker_fill \<Rightarrow> bool" where
  "fill_ok k f \<longleftrightarrow>
     wf_broker_fill f \<and> bo_value (bf_broker_order_id f) = fake_order_value k \<and>
     bf_filled_contracts f \<le> bf_requested_contracts f \<and>
     (is_open f \<or> bf_lifecycle_state f = order_lifecycle_state.CANCELLED \<longrightarrow>
        bf_filled_contracts f < bf_requested_contracts f)"

definition fake_inv :: "fake_broker \<Rightarrow> bool" where
  "fake_inv b \<longleftrightarrow>
     distinct (map fst (fk_fills b)) \<and>
     (\<forall>k f. map_of (fk_fills b) k = Some f \<longrightarrow> fill_ok k f \<and> map_of (fk_index b) (fake_order_value k) = Some k) \<and>
     (\<forall>v k. map_of (fk_index b) v = Some k \<longrightarrow> v = fake_order_value k \<and> map_of (fk_fills b) k \<noteq> None)"

lemma map_of_alist_update [simp]: "map_of (AList.update k v al) = (map_of al)(k \<mapsto> v)"
  by (rule ext) (simp add: update_conv')

lemma fake_fill_Inr:
  "fake_fill b w i st n c = Inr f \<Longrightarrow>
     wf_broker_fill f \<and> bo_value (bf_broker_order_id f) = fake_order_value (bi_idempotency_key i) \<and>
     bf_lifecycle_state f = st \<and> bf_filled_contracts f = n \<and> bf_requested_contracts f = requested i"
  by (auto simp: fake_fill_def Let_def bind_res_eq_Inr order_id_for_def mk_broker_order_id_def
      mk_broker_fill_def construct_eq_Inr wf_broker_fill_def)

lemma simulate_fill_ok: "simulate b w i = Inr f \<Longrightarrow> fill_ok (bi_idempotency_key i) f"
  by (auto simp: simulate_def broker_failure_def fill_ok_def is_open_def OPEN_STATES_def
      wf_broker_fill_def broker_fill_guards_def
      dest!: fake_fill_Inr split: fake_kind.splits if_splits)

lemma fake_submit_cases:
  obtains (failed) e where "fake_submit_order b w (Inst i) = (Inl e, b)"
      "bi_submit_mode i = submit_mode.PAPER \<Longrightarrow> map_of (fk_fills b) (bi_idempotency_key i) = None"
  | (known) f where "bi_submit_mode i = submit_mode.PAPER" "map_of (fk_fills b) (bi_idempotency_key i) = Some f"
      "fake_submit_order b w (Inst i) = (Inr f, b)"
  | (fresh) f where "bi_submit_mode i = submit_mode.PAPER" "map_of (fk_fills b) (bi_idempotency_key i) = None"
      "fill_ok (bi_idempotency_key i) f"
      "fake_submit_order b w (Inst i) = (Inr f,
         b\<lparr>fk_fills := AList.update (bi_idempotency_key i) f (fk_fills b),
           fk_index := AList.update (fake_order_value (bi_idempotency_key i)) (bi_idempotency_key i) (fk_index b)\<rparr>)"
proof (cases "bi_submit_mode i = submit_mode.PAPER")
  case paper: True
  show ?thesis
  proof (cases "map_of (fk_fills b) (bi_idempotency_key i)")
    case None
    show ?thesis
    proof (cases "simulate b w i")
      case (Inl e)
      then show ?thesis using failed [of e] None paper by (simp add: fake_submit_order_def)
    next
      case (Inr f)
      have ok: "fill_ok (bi_idempotency_key i) f" using simulate_fill_ok [OF Inr] .
      then have "bo_value (bf_broker_order_id f) = fake_order_value (bi_idempotency_key i)"
        by (simp add: fill_ok_def)
      then show ?thesis using fresh [OF paper None ok] Inr None paper by (simp add: fake_submit_order_def)
    qed
  next
    case (Some f)
    then show ?thesis using known [OF paper Some] paper by (simp add: fake_submit_order_def)
  qed
next
  case False
  then show ?thesis using failed by (simp add: fake_submit_order_def broker_failure_def)
qed

lemma fake_cancel_cases:
  assumes "fake_inv b"
  obtains (failed) e where "fake_cancel_order b w oid = (Inl e, b)"
  | (closed) k g f where "map_of (fk_index b) (bo_value oid) = Some k" "map_of (fk_fills b) k = Some g"
      "is_open g" "bf_lifecycle_state f = order_lifecycle_state.CANCELLED"
      "bf_filled_contracts f = bf_filled_contracts g" "fill_ok k f"
      "fake_cancel_order b w oid = (Inr f, b\<lparr>fk_fills := AList.update k f (fk_fills b)\<rparr>)"
proof (cases "fst (fake_cancel_order b w oid)")
  case (Inl e)
  then have "fake_cancel_order b w oid = (Inl e, b)"
    by (auto simp: fake_cancel_order_def broker_failure_def split: sum.splits if_splits option.splits)
  then show ?thesis by (rule failed)
next
  case (Inr f)
  then obtain k g ct where *: "map_of (fk_index b) (bo_value oid) = Some k" "map_of (fk_fills b) k = Some g"
    "is_open g" "f = g\<lparr>bf_lifecycle_state := order_lifecycle_state.CANCELLED, bf_completed_at := ct\<rparr>"
    "fake_cancel_order b w oid = (Inr f, b\<lparr>fk_fills := AList.update k f (fk_fills b)\<rparr>)"
    by (auto simp: fake_cancel_order_def fake_get_order_def broker_failure_def bind_res_eq_Inr is_open_def
        mk_broker_fill_def construct_eq_Inr split: sum.splits if_splits option.splits)
  moreover have "fill_ok k g" using assms *(2) by (simp add: fake_inv_def)
  then have "fill_ok k f" using *(3,4) by (auto simp: fill_ok_def wf_broker_fill_def broker_fill_guards_def)
  ultimately show ?thesis using closed [of k g f] by simp
qed

lemma fake_inv_insert:
  assumes "fake_inv b" and "fill_ok k f"
  shows "fake_inv (b\<lparr>fk_fills := AList.update k f (fk_fills b),
    fk_index := AList.update (fake_order_value k) k (fk_index b)\<rparr>)"
  using assms by (auto simp: fake_inv_def distinct_update split: if_splits)

lemma fake_inv_replace:
  assumes "fake_inv b" and "fill_ok k f" and "map_of (fk_fills b) k = Some g"
  shows "fake_inv (b\<lparr>fk_fills := AList.update k f (fk_fills b)\<rparr>)"
  using assms by (auto simp: fake_inv_def distinct_update split: if_splits)

interpretation fake: broker_adapter fake_inv bi_idempotency_key
  "\<lambda>b i. bi_submit_mode i = submit_mode.PAPER" "\<lambda>b. map_of (fk_fills b)"
  "\<lambda>b w i. fake_submit_order b w (Inst i)" fake_cancel_order
proof
  fix b w i oid e f b'
  show "fake_inv b \<Longrightarrow> fake_inv (snd (fake_submit_order b w (Inst i)))"
    by (cases rule: fake_submit_cases [of b w i]) (simp_all add: fake_inv_insert)
  show "fake_inv (snd (fake_cancel_order b w oid))" if "fake_inv b"
    by (cases rule: fake_cancel_cases [OF that, of w oid]) (simp_all add: fake_inv_replace that)
  show "fst (fake_submit_order b w (Inst i)) = Inl e \<Longrightarrow> snd (fake_submit_order b w (Inst i)) = b"
    by (cases rule: fake_submit_cases [of b w i]) simp_all
  show "fst (fake_submit_order b w (Inst i)) = Inr f \<Longrightarrow> bi_submit_mode i = submit_mode.PAPER"
    by (cases rule: fake_submit_cases [of b w i]) simp_all
  show "fake_submit_order b w (Inst i) = (Inr f, b') \<Longrightarrow>
      map_of (fk_fills b') = (map_of (fk_fills b))(bi_idempotency_key i \<mapsto> f)"
    by (cases rule: fake_submit_cases [of b w i]) auto
  show "bi_submit_mode i = submit_mode.PAPER \<Longrightarrow> map_of (fk_fills b) (bi_idempotency_key i) = Some f \<Longrightarrow>
      fake_submit_order b w (Inst i) = (Inr f, b)"
    by (simp add: fake_submit_order_def)
  show "fst (fake_cancel_order b w oid) = Inl e \<Longrightarrow> snd (fake_cancel_order b w oid) = b"
    by (auto simp: fake_cancel_order_def broker_failure_def split: sum.splits if_splits option.splits)
  show "fake_inv b \<Longrightarrow> fake_cancel_order b w oid = (Inr f, b') \<Longrightarrow>
      \<exists>k g. map_of (fk_fills b) k = Some g \<and> is_open g \<and> map_of (fk_fills b') = (map_of (fk_fills b))(k \<mapsto> f) \<and>
        bf_lifecycle_state f = order_lifecycle_state.CANCELLED \<and>
        bf_filled_contracts f = bf_filled_contracts g"
    by (erule fake_cancel_cases [of b w oid]; force)
qed simp_all

lemma new_fake_broker_inv: "fake_inv (new_fake_broker k n c)"
  by (simp add: fake_inv_def new_fake_broker_def)

definition run_fake :: "fake_broker \<Rightarrow> broker_submit_intent broker_op list \<Rightarrow> fake_broker" where
  "run_fake b ops = run_ops (\<lambda>b w i. fake_submit_order b w (Inst i)) fake_cancel_order b ops"

lemma run_fake_inv: "fake_inv (run_fake (new_fake_broker k n c) ops)"
  unfolding run_fake_def by (rule fake.run_ops_inv [OF new_fake_broker_inv])

lemma get_order_of_stored:
  assumes "fake_inv b" and "map_of (fk_fills b) key = Some f"
  shows "fake_get_order b (bf_broker_order_id f) = Inr f"
proof -
  have "bo_value (bf_broker_order_id f) = fake_order_value key"
    "map_of (fk_index b) (fake_order_value key) = Some key"
    using assms by (auto simp: fake_inv_def fill_ok_def)
  then show ?thesis using assms(2) by (simp add: fake_get_order_def)
qed

lemma get_order_Inr:
  assumes "fake_get_order b oid = Inr f"
  obtains key where "map_of (fk_index b) (bo_value oid) = Some key" "map_of (fk_fills b) key = Some f"
  using assms by (auto simp: fake_get_order_def broker_failure_def split: option.splits)

section \<open>Properties\<close>

text \<open>C31. Idempotent submission: once a submission has succeeded, any paper submission with the
  same idempotency key, whatever its time, price or the wall clock, returns the very same fill and
  leaves the broker unchanged, so a transport retry never creates a second order.\<close>

theorem transport_retry_is_idempotent:
  assumes "fake_submit_order b w (Inst i) = (Inr f, b')"
    and "bi_submit_mode j = submit_mode.PAPER" and "bi_idempotency_key j = bi_idempotency_key i"
  shows "fake_submit_order b' w' (Inst j) = (Inr f, b')"
  using assms by (rule fake.retry)

definition sample_intent :: "int \<Rightarrow> broker_submit_intent" where
  "sample_intent n =
     minted_intent sample_ticket_dump sample_ticket n submit_mode.PAPER (Some (Dec 45 (- 2))) sample_as_of"

definition sample_fill :: "fake_kind \<Rightarrow> broker_fill" where
  "sample_fill k = (case simulate (new_fake_broker k ''fake'' None) sample_as_of (sample_intent 1) of
     Inr f \<Rightarrow> f | Inl _ \<Rightarrow> undefined)"

lemma sample_requested: "requested (sample_intent n) = 1"
  by (simp add: requested_def sample_intent_def minted_intent_def sample_ticket_def routed_ticket_def
      sample_validated_def sample_candidate_def sample_leg_def)

lemma sample_simulates:
  assumes "k = FakeFillBroker \<or> k = FakePartialFillBroker" and "n \<noteq> []"
  shows "\<exists>f. simulate (new_fake_broker k n None) sample_as_of (sample_intent 1) = Inr f"
  using assms
  by (auto simp: simulate_def fake_fill_def Let_def sample_requested order_id_for_def mk_broker_order_id_def
      broker_order_id_guards_def fake_order_value_def new_fake_broker_def fake_now_def aware_field_def
      mk_broker_fill_def broker_fill_guards_def)

lemma sample_submit_fresh:
  assumes "simulate (new_fake_broker k n None) sample_as_of (sample_intent 1) = Inr f"
  shows "\<exists>b'. fake_submit_order (new_fake_broker k n None) sample_as_of (Inst (sample_intent 1)) = (Inr f, b') \<and>
    map_of (fk_fills b') (bi_idempotency_key (sample_intent 1)) = Some f"
  using assms
  by (simp add: fake_submit_order_def) (simp add: sample_intent_def minted_intent_def new_fake_broker_def)

lemma sample_submit:
  assumes "k = FakeFillBroker \<or> k = FakePartialFillBroker"
  shows "\<exists>b'. fake_submit_order (new_fake_broker k ''fake'' None) sample_as_of (Inst (sample_intent 1)) =
      (Inr (sample_fill k), b') \<and> map_of (fk_fills b') (bi_idempotency_key (sample_intent 1)) = Some (sample_fill k)"
proof -
  obtain f where "simulate (new_fake_broker k ''fake'' None) sample_as_of (sample_intent 1) = Inr f"
    using sample_simulates [OF assms, of "''fake''"] by auto
  from sample_submit_fresh [OF this] this show ?thesis by (simp add: sample_fill_def)
qed

theorem transport_retry_is_idempotent_witness:
  "\<exists>b'. fake_submit_order (new_fake_broker FakeFillBroker ''fake'' None) sample_as_of (Inst (sample_intent 1)) =
      (Inr (sample_fill FakeFillBroker), b') \<and>
     fake_submit_order b' sample_as_of (Inst (sample_intent 1)) = (Inr (sample_fill FakeFillBroker), b')"
proof -
  obtain b' where "fake_submit_order (new_fake_broker FakeFillBroker ''fake'' None) sample_as_of
      (Inst (sample_intent 1)) = (Inr (sample_fill FakeFillBroker), b')"
    using sample_submit by blast
  moreover have "bi_submit_mode (sample_intent 1) = submit_mode.PAPER"
    by (simp add: sample_intent_def minted_intent_def)
  ultimately show ?thesis using transport_retry_is_idempotent by blast
qed

text \<open>A finished order is final: in any state a fake broker of any kind reaches, a stored
  order that is no longer open keeps its fill under every further sequence of submissions and
  cancellations, and cancelling it is refused with \<open>OrderNotCancellableError\<close>.\<close>

theorem finished_order_is_final:
  assumes "b = run_fake (new_fake_broker k n c) ops"
    and "map_of (fk_fills b) key = Some f" and "\<not> is_open f"
  shows "map_of (fk_fills (run_fake b later_ops)) key = Some f \<and>
    (\<exists>e. fst (fake_cancel_order b w (bf_broker_order_id f)) = Inl (BrokerError e) \<and>
       be_kind e = OrderNotCancellableError)"
proof
  have inv: "fake_inv b" using run_fake_inv assms(1) by simp
  show "map_of (fk_fills (run_fake b later_ops)) key = Some f"
    using fake.closed_is_final [OF inv assms(2,3)] by (simp add: run_fake_def)
  show "\<exists>e. fst (fake_cancel_order b w (bf_broker_order_id f)) = Inl (BrokerError e) \<and>
       be_kind e = OrderNotCancellableError"
    using get_order_of_stored [OF inv assms(2)] assms(3)
    by (simp add: fake_cancel_order_def broker_failure_def is_open_def mk_broker_error_def)
qed

theorem finished_order_is_final_witness:
  "\<exists>f. map_of (fk_fills (run_fake (run_fake (new_fake_broker FakeFillBroker ''fake'' None)
       [Submit sample_as_of (sample_intent 1)]) [Submit sample_as_of (sample_intent 2)]))
     (bi_idempotency_key (sample_intent 1)) = Some f \<and> bf_lifecycle_state f = order_lifecycle_state.FILLED"
proof -
  let ?b = "run_fake (new_fake_broker FakeFillBroker ''fake'' None) [Submit sample_as_of (sample_intent 1)]"
  have stored: "map_of (fk_fills ?b) (bi_idempotency_key (sample_intent 1)) = Some (sample_fill FakeFillBroker)"
    using sample_submit [of FakeFillBroker] by (auto simp: run_fake_def)
  have "simulate (new_fake_broker FakeFillBroker ''fake'' None) sample_as_of (sample_intent 1) =
      Inr (sample_fill FakeFillBroker)"
    using sample_submit [of FakeFillBroker]
    by (auto simp: sample_fill_def fake_submit_order_def new_fake_broker_def split: sum.splits if_splits)
  then have st: "bf_lifecycle_state (sample_fill FakeFillBroker) = order_lifecycle_state.FILLED"
    by (auto simp: simulate_def new_fake_broker_def dest: fake_fill_Inr)
  then have "\<not> is_open (sample_fill FakeFillBroker)" by (simp add: is_open_def OPEN_STATES_def)
  from finished_order_is_final [OF refl stored this] st show ?thesis by blast
qed

text \<open>In every state a fake broker reaches, what it reports is consistent: an order looked up
  by an id it knows carries that id, is never filled beyond the requested quantity, is strictly
  short of it while open or cancelled, and is listed among the open orders exactly when its state
  is an open one; and the broker never fails to find an order it has acknowledged.\<close>

theorem reachable_orders_are_consistent:
  assumes "b = run_fake (new_fake_broker k n c) ops"
  shows "(\<forall>oid f. fake_get_order b oid = Inr f \<longrightarrow>
      bo_value (bf_broker_order_id f) = bo_value oid \<and>
      0 \<le> bf_filled_contracts f \<and> bf_filled_contracts f \<le> bf_requested_contracts f \<and>
      (is_open f \<or> bf_lifecycle_state f = order_lifecycle_state.CANCELLED \<longrightarrow>
         bf_filled_contracts f < bf_requested_contracts f) \<and>
      (f \<in> set (fake_get_open_orders b) \<longleftrightarrow> is_open f)) \<and>
    (\<forall>oid key. fake_get_order b oid \<noteq> Inl (KeyError key)) \<and>
    (\<forall>key f. map_of (fk_fills b) key = Some f \<longrightarrow> fake_get_order b (bf_broker_order_id f) = Inr f)"
proof (intro conjI allI impI)
  have inv: "fake_inv b" using run_fake_inv assms by simp
  fix oid f key
  {
    assume "fake_get_order b oid = Inr f"
    then obtain key where key: "map_of (fk_index b) (bo_value oid) = Some key" "map_of (fk_fills b) key = Some f"
      by (rule get_order_Inr)
    then have ok: "fill_ok key f" "bo_value oid = fake_order_value key"
      using inv by (auto simp: fake_inv_def)
    show "bo_value (bf_broker_order_id f) = bo_value oid" "0 \<le> bf_filled_contracts f"
      "bf_filled_contracts f \<le> bf_requested_contracts f"
      using ok by (auto simp: fill_ok_def wf_broker_fill_def broker_fill_guards_def)
    show "bf_filled_contracts f < bf_requested_contracts f"
      if "is_open f \<or> bf_lifecycle_state f = order_lifecycle_state.CANCELLED"
      using ok that by (auto simp: fill_ok_def)
    show "f \<in> set (fake_get_open_orders b) \<longleftrightarrow> is_open f"
      using map_of_SomeD [OF key(2)] by (force simp: fake_get_open_orders_def is_open_def)
  next
    show "fake_get_order b oid \<noteq> Inl (KeyError key)"
    proof (cases "map_of (fk_index b) (bo_value oid)")
      case (Some v)
      then have "map_of (fk_fills b) v \<noteq> None" using inv by (simp only: fake_inv_def) blast
      then show ?thesis using Some by (auto simp: fake_get_order_def)
    qed (simp add: fake_get_order_def broker_failure_def)
  next
    show "map_of (fk_fills b) key = Some f \<Longrightarrow> fake_get_order b (bf_broker_order_id f) = Inr f"
      by (rule get_order_of_stored [OF inv])
  }
qed

theorem reachable_orders_are_consistent_witness:
  "let b = run_fake (new_fake_broker FakePartialFillBroker ''fake'' None) [Submit sample_as_of (sample_intent 1)]
   in fake_get_order b (bf_broker_order_id (sample_fill FakePartialFillBroker)) =
        Inr (sample_fill FakePartialFillBroker)"
proof -
  let ?b = "run_fake (new_fake_broker FakePartialFillBroker ''fake'' None) [Submit sample_as_of (sample_intent 1)]"
  have "map_of (fk_fills ?b) (bi_idempotency_key (sample_intent 1)) = Some (sample_fill FakePartialFillBroker)"
    using sample_submit [of FakePartialFillBroker] by (auto simp: run_fake_def)
  then show ?thesis
    using reachable_orders_are_consistent [OF refl, of FakePartialFillBroker "''fake''" None
        "[Submit sample_as_of (sample_intent 1)]"] by (simp add: Let_def)
qed

end
