(* ===== verification/EnvConfig.thy ===== *)
theory EnvConfig
  imports Errors
begin

text \<open>
  Configuration from environment variables: the deployment configuration
  (\<open>config/app_config.py\<close>) and the paper-broker controls of \<open>brokers/paper.py\<close>. An
  environment is a partial map from names to strings.
\<close>

type_synonym env = "string \<rightharpoonup> string"

section \<open>Parsers\<close>

definition parse_bool :: "string \<Rightarrow> string \<Rightarrow> bool res" where
  "parse_bool v name =
     (let normalized = str_lower (str_strip v) in
      if normalized = ''true'' then Inr True
      else if normalized = ''false'' then Inr False
      else Inl (ValueError (name @ '' must be exactly true or false'')))"

definition broker_mode_of :: "string \<Rightarrow> broker_mode option" where
  "broker_mode_of v =
     (if v = broker_mode_value broker_mode.PAPER then Some broker_mode.PAPER
      else if v = broker_mode_value broker_mode.NONE then Some broker_mode.NONE
      else if v = broker_mode_value broker_mode.LIVE_READONLY then Some broker_mode.LIVE_READONLY
      else None)"

definition parse_broker_mode :: "string \<Rightarrow> broker_mode res" where
  "parse_broker_mode v =
     (case broker_mode_of v of Some m \<Rightarrow> Inr m | None \<Rightarrow> Inl (ValueError ''BROKER_MODE must be one of''))"

definition parse_positive_int :: "string \<Rightarrow> string \<Rightarrow> int res" where
  "parse_positive_int v name =
     (case py_int v of
        None \<Rightarrow> Inl (ValueError (name @ '' must be an integer >= 1''))
      | Some n \<Rightarrow> if n < 1 then Inl (ValueError (name @ '' must be an integer >= 1'')) else Inr n)"

definition underlying_of :: "string \<Rightarrow> underlying option" where
  "underlying_of v =
     (if v = underlying_value underlying.XSP then Some underlying.XSP
      else if v = underlying_value underlying.SPX then Some underlying.SPX else None)"

fun parse_underlying_items :: "string list \<Rightarrow> underlying list res" where
  "parse_underlying_items [] = Inr []"
| "parse_underlying_items (w # ws) =
     (case underlying_of w of
        None \<Rightarrow> Inl (ValueError ''PAPER_ALLOWED_UNDERLYINGS contains unsupported'')
      | Some u \<Rightarrow> map_res (\<lambda>us. u # us) (parse_underlying_items ws))"

definition parse_underlyings :: "string \<Rightarrow> underlying list res" where
  "parse_underlyings v =
     (let raw = map str_strip (filter (\<lambda>p. str_strip p \<noteq> []) (str_split (CHR '','') v)) in
      if raw = [] then Inl (ValueError ''PAPER_ALLOWED_UNDERLYINGS must not be empty'')
      else parse_underlying_items raw)"

section \<open>Paper-broker controls\<close>

record paper_broker_config =
  pb_broker_mode :: broker_mode
  pb_submission_enabled :: bool
  pb_paper_submit_enabled :: bool
  pb_live_submit_enabled :: bool
  pb_paper_max_contracts :: int
  pb_paper_allowed_underlyings :: "underlying list"
  pb_paper_limit_only :: bool
  pb_paper_require_human_confirm :: bool

definition default_paper_broker_config :: paper_broker_config where
  "default_paper_broker_config =
     \<lparr>pb_broker_mode = broker_mode.PAPER, pb_submission_enabled = False, pb_paper_submit_enabled = False,
      pb_live_submit_enabled = False, pb_paper_max_contracts = 1,
      pb_paper_allowed_underlyings = [underlying.XSP], pb_paper_limit_only = True,
      pb_paper_require_human_confirm = True\<rparr>"

definition paper_broker_config_guards :: "paper_broker_config \<Rightarrow> (bool \<times> string) list" where
  "paper_broker_config_guards c =
     [(pb_paper_max_contracts c < 1, ''paper_max_contracts''),
      (pb_broker_mode c \<noteq> broker_mode.PAPER, ''Phase 9 local paper config requires BROKER_MODE=paper''),
      (pb_live_submit_enabled c, ''LIVE_SUBMIT_ENABLED must be false for Phase 9 local paper''),
      (pb_paper_allowed_underlyings c = [], ''PAPER_ALLOWED_UNDERLYINGS must not be empty'')]"

definition mk_paper_broker_config :: "paper_broker_config \<Rightarrow> paper_broker_config res" where
  "mk_paper_broker_config c = construct (paper_broker_config_guards c) c"

definition wf_paper_broker_config :: "paper_broker_config \<Rightarrow> bool" where
  [wf_defs]: "wf_paper_broker_config c \<longleftrightarrow> passes_guards (paper_broker_config_guards c)"

definition env_get :: "env \<Rightarrow> string \<Rightarrow> string \<Rightarrow> string" where
  "env_get env name dflt = (case env name of None \<Rightarrow> dflt | Some v \<Rightarrow> v)"

definition paper_config_from_env :: "env \<Rightarrow> paper_broker_config res" where
  "paper_config_from_env env =
     bind_res (parse_broker_mode (env_get env ''BROKER_MODE'' (broker_mode_value broker_mode.PAPER))) (\<lambda>m.
     bind_res (parse_bool (env_get env ''SUBMISSION_ENABLED'' ''false'') ''SUBMISSION_ENABLED'') (\<lambda>s.
     bind_res (parse_bool (env_get env ''PAPER_SUBMIT_ENABLED'' ''false'') ''PAPER_SUBMIT_ENABLED'') (\<lambda>p.
     bind_res (parse_bool (env_get env ''LIVE_SUBMIT_ENABLED'' ''false'') ''LIVE_SUBMIT_ENABLED'') (\<lambda>l.
     bind_res (parse_positive_int (env_get env ''PAPER_MAX_CONTRACTS'' ''1'') ''PAPER_MAX_CONTRACTS'') (\<lambda>n.
     bind_res (parse_underlyings (env_get env ''PAPER_ALLOWED_UNDERLYINGS'' ''XSP'')) (\<lambda>us.
     bind_res (parse_bool (env_get env ''PAPER_LIMIT_ONLY'' ''true'') ''PAPER_LIMIT_ONLY'') (\<lambda>lim.
     bind_res (parse_bool (env_get env ''PAPER_REQUIRE_HUMAN_CONFIRM'' ''true'')
                 ''PAPER_REQUIRE_HUMAN_CONFIRM'') (\<lambda>hc.
     mk_paper_broker_config
       \<lparr>pb_broker_mode = m, pb_submission_enabled = s, pb_paper_submit_enabled = p,
        pb_live_submit_enabled = l, pb_paper_max_contracts = n, pb_paper_allowed_underlyings = us,
        pb_paper_limit_only = lim, pb_paper_require_human_confirm = hc\<rparr>))))))))"

definition paper_submission_armed :: "paper_broker_config \<Rightarrow> bool" where
  "paper_submission_armed c \<longleftrightarrow> pb_submission_enabled c \<and> pb_paper_submit_enabled c"

section \<open>Deployment configuration\<close>

definition DEFAULT_AUDIT_DB_PATH :: string where "DEFAULT_AUDIT_DB_PATH = ''.hermes/audit.db''"

datatype app_env = LOCAL | VM_SHADOW | VM_PAPER | LIVE_READONLY

primrec app_env_value :: "app_env \<Rightarrow> string" where
  "app_env_value LOCAL = ''local''"
| "app_env_value VM_SHADOW = ''vm_shadow''"
| "app_env_value VM_PAPER = ''vm_paper''"
| "app_env_value app_env.LIVE_READONLY = ''live_readonly''"

definition app_env_of :: "string \<Rightarrow> app_env option" where
  "app_env_of v =
     find (\<lambda>e. app_env_value e = v) [LOCAL, VM_SHADOW, VM_PAPER, app_env.LIVE_READONLY]"

definition app_parse_app_env :: "string option \<Rightarrow> app_env res" where
  "app_parse_app_env v =
     (case v of None \<Rightarrow> Inl (ValueError ''APP_ENV must be set explicitly'')
      | Some s \<Rightarrow> (case app_env_of s of Some e \<Rightarrow> Inr e | None \<Rightarrow> Inl (ValueError ''APP_ENV must be one of'')))"

definition app_parse_broker_mode :: "string option \<Rightarrow> broker_mode res" where
  "app_parse_broker_mode v =
     (case v of None \<Rightarrow> Inl (ValueError ''BROKER_MODE must be set explicitly'') | Some s \<Rightarrow> parse_broker_mode s)"

definition app_parse_bool :: "string option \<Rightarrow> string \<Rightarrow> bool res" where
  "app_parse_bool v name =
     (case v of None \<Rightarrow> Inl (ValueError (name @ '' must be set explicitly to exactly true or false''))
      | Some s \<Rightarrow> parse_bool s name)"

record app_config =
  cfg_app_env :: app_env
  cfg_broker_mode :: broker_mode
  cfg_submission_enabled :: bool
  cfg_paper_submit_enabled :: bool
  cfg_live_submit_enabled :: bool
  cfg_market_data_enabled :: bool
  cfg_candidate_generation_enabled :: bool
  cfg_gateway_enabled :: bool
  cfg_order_ticketing_enabled :: bool
  cfg_audit_db_path :: string

definition is_shadow :: "app_config \<Rightarrow> bool" where "is_shadow c \<longleftrightarrow> cfg_app_env c = VM_SHADOW"

definition is_paper :: "app_config \<Rightarrow> bool" where "is_paper c \<longleftrightarrow> cfg_app_env c = VM_PAPER"

definition is_live_readonly :: "app_config \<Rightarrow> bool" where
  "is_live_readonly c \<longleftrightarrow> cfg_app_env c = app_env.LIVE_READONLY"

definition submission_armed :: "app_config \<Rightarrow> bool" where
  "submission_armed c \<longleftrightarrow>
     cfg_submission_enabled c \<and> (cfg_paper_submit_enabled c \<or> cfg_live_submit_enabled c)"

definition pipeline_guards :: "string \<Rightarrow> app_config \<Rightarrow> (bool \<times> string) list" where
  "pipeline_guards prefix c =
     [(\<not> cfg_market_data_enabled c, prefix @ '' requires MARKET_DATA_ENABLED=true''),
      (\<not> cfg_candidate_generation_enabled c, prefix @ '' requires CANDIDATE_GENERATION_ENABLED=true''),
      (\<not> cfg_gateway_enabled c, prefix @ '' requires GATEWAY_ENABLED=true''),
      (\<not> cfg_order_ticketing_enabled c, prefix @ '' requires ORDER_TICKETING_ENABLED=true'')]"

definition shadow_invariants :: "app_config \<Rightarrow> (bool \<times> string) list" where
  "shadow_invariants c =
     [(cfg_broker_mode c \<noteq> broker_mode.NONE, ''APP_ENV=vm_shadow requires BROKER_MODE=none''),
      (cfg_submission_enabled c, ''APP_ENV=vm_shadow requires SUBMISSION_ENABLED=false''),
      (cfg_paper_submit_enabled c, ''APP_ENV=vm_shadow requires PAPER_SUBMIT_ENABLED=false''),
      (cfg_live_submit_enabled c, ''APP_ENV=vm_shadow requires LIVE_SUBMIT_ENABLED=false'')] @
     pipeline_guards ''APP_ENV=vm_shadow'' c"

definition paper_invariants :: "app_config \<Rightarrow> (bool \<times> string) list" where
  "paper_invariants c =
     [(cfg_broker_mode c \<noteq> broker_mode.PAPER, ''APP_ENV=vm_paper requires BROKER_MODE=paper''),
      (\<not> cfg_submission_enabled c, ''APP_ENV=vm_paper requires SUBMISSION_ENABLED=true''),
      (\<not> cfg_paper_submit_enabled c, ''APP_ENV=vm_paper requires PAPER_SUBMIT_ENABLED=true''),
      (cfg_live_submit_enabled c, ''APP_ENV=vm_paper requires LIVE_SUBMIT_ENABLED=false'')] @
     pipeline_guards ''APP_ENV=vm_paper'' c"

definition live_readonly_invariants :: "app_config \<Rightarrow> (bool \<times> string) list" where
  "live_readonly_invariants c =
     [(cfg_broker_mode c \<noteq> broker_mode.LIVE_READONLY,
       ''APP_ENV=live_readonly requires BROKER_MODE=live_readonly''),
      (cfg_submission_enabled c, ''APP_ENV=live_readonly requires SUBMISSION_ENABLED=false''),
      (cfg_paper_submit_enabled c, ''APP_ENV=live_readonly requires PAPER_SUBMIT_ENABLED=false'')]"

definition local_invariants :: "app_config \<Rightarrow> (bool \<times> string) list" where
  "local_invariants c =
     [(cfg_broker_mode c = broker_mode.LIVE_READONLY,
       ''APP_ENV=local does not permit BROKER_MODE=live_readonly'')]"

definition app_config_guards :: "app_config \<Rightarrow> (bool \<times> string) list" where
  "app_config_guards c =
     (cfg_live_submit_enabled c, ''LIVE_SUBMIT_ENABLED must be false'') #
     (case cfg_app_env c of
        VM_SHADOW \<Rightarrow> shadow_invariants c
      | VM_PAPER \<Rightarrow> paper_invariants c
      | app_env.LIVE_READONLY \<Rightarrow> live_readonly_invariants c
      | LOCAL \<Rightarrow> local_invariants c) @
     [(cfg_broker_mode c = broker_mode.NONE \<and> submission_armed c,
       ''BROKER_MODE=none cannot coexist with submission''),
      (cfg_paper_submit_enabled c \<and> \<not> cfg_submission_enabled c,
       ''PAPER_SUBMIT_ENABLED=true requires SUBMISSION_ENABLED=true''),
      (cfg_submission_enabled c \<and> \<not> (cfg_paper_submit_enabled c \<or> cfg_live_submit_enabled c),
       ''SUBMISSION_ENABLED=true requires a concrete submit lane''),
      (cfg_paper_submit_enabled c \<and> cfg_broker_mode c \<noteq> broker_mode.PAPER,
       ''PAPER_SUBMIT_ENABLED=true requires BROKER_MODE=paper'')]"

definition mk_app_config :: "app_config \<Rightarrow> app_config res" where
  "mk_app_config c = construct (app_config_guards c) c"

definition wf_app_config :: "app_config \<Rightarrow> bool" where
  [wf_defs]: "wf_app_config c \<longleftrightarrow> passes_guards (app_config_guards c)"

definition app_config_from_env :: "env \<Rightarrow> app_config res" where
  "app_config_from_env env =
     bind_res (app_parse_app_env (env ''APP_ENV'')) (\<lambda>e.
     bind_res (app_parse_broker_mode (env ''BROKER_MODE'')) (\<lambda>m.
     bind_res (app_parse_bool (env ''SUBMISSION_ENABLED'') ''SUBMISSION_ENABLED'') (\<lambda>s.
     bind_res (app_parse_bool (env ''PAPER_SUBMIT_ENABLED'') ''PAPER_SUBMIT_ENABLED'') (\<lambda>p.
     bind_res (app_parse_bool (env ''LIVE_SUBMIT_ENABLED'') ''LIVE_SUBMIT_ENABLED'') (\<lambda>l.
     bind_res (app_parse_bool (env ''MARKET_DATA_ENABLED'') ''MARKET_DATA_ENABLED'') (\<lambda>md.
     bind_res (app_parse_bool (env ''CANDIDATE_GENERATION_ENABLED'') ''CANDIDATE_GENERATION_ENABLED'') (\<lambda>cg.
     bind_res (app_parse_bool (env ''GATEWAY_ENABLED'') ''GATEWAY_ENABLED'') (\<lambda>g.
     bind_res (app_parse_bool (env ''ORDER_TICKETING_ENABLED'') ''ORDER_TICKETING_ENABLED'') (\<lambda>ot.
     mk_app_config
       \<lparr>cfg_app_env = e, cfg_broker_mode = m, cfg_submission_enabled = s, cfg_paper_submit_enabled = p,
        cfg_live_submit_enabled = l, cfg_market_data_enabled = md, cfg_candidate_generation_enabled = cg,
        cfg_gateway_enabled = g, cfg_order_ticketing_enabled = ot,
        cfg_audit_db_path = env_get env ''HERMES_AUDIT_DB'' DEFAULT_AUDIT_DB_PATH\<rparr>)))))))))"

section \<open>Lemmas\<close>

lemma app_parse_bool_Inr: "app_parse_bool v name = Inr b \<Longrightarrow> v \<noteq> None"
  by (auto simp: app_parse_bool_def split: option.splits)

lemma app_config_from_env_explicit:
  assumes "app_config_from_env env = Inr c"
  shows "wf_app_config c"
    and "{''APP_ENV'', ''BROKER_MODE'', ''SUBMISSION_ENABLED'', ''PAPER_SUBMIT_ENABLED'',
          ''LIVE_SUBMIT_ENABLED'', ''MARKET_DATA_ENABLED'', ''CANDIDATE_GENERATION_ENABLED'',
          ''GATEWAY_ENABLED'', ''ORDER_TICKETING_ENABLED''} \<subseteq> dom env"
  using assms
  by (auto simp: app_config_from_env_def bind_res_eq_Inr mk_app_config_def construct_eq_Inr wf_app_config_def
      app_parse_app_env_def app_parse_broker_mode_def split: option.splits dest!: app_parse_bool_Inr)

lemmas app_invariant_defs = app_config_guards_def shadow_invariants_def paper_invariants_def
  live_readonly_invariants_def local_invariants_def pipeline_guards_def submission_armed_def

lemma wf_app_config_armed:
  assumes "wf_app_config c"
  shows "\<not> cfg_live_submit_enabled c"
    and "submission_armed c \<longleftrightarrow> cfg_submission_enabled c"
    and "submission_armed c \<Longrightarrow> cfg_broker_mode c = broker_mode.PAPER \<and> cfg_app_env c \<in> {VM_PAPER, LOCAL}"
    and "cfg_app_env c = VM_PAPER \<Longrightarrow> submission_armed c"
    and "cfg_app_env c = VM_SHADOW \<Longrightarrow> cfg_broker_mode c = broker_mode.NONE"
  using assms by (cases "cfg_app_env c"; auto simp: wf_app_config_def app_invariant_defs)+

section \<open>Properties\<close>

text \<open>C32. A configuration loaded from the environment fails closed: every safety flag was set
  explicitly, live submission is off in every environment, submission is armed exactly when it is
  enabled and then only through a paper broker in the paper or local environment, and the shadow
  environment has no broker and cannot submit.\<close>

theorem app_config_fails_closed:
  assumes "app_config_from_env env = Inr c"
  shows "{''APP_ENV'', ''BROKER_MODE'', ''SUBMISSION_ENABLED'', ''PAPER_SUBMIT_ENABLED'',
      ''LIVE_SUBMIT_ENABLED'', ''MARKET_DATA_ENABLED'', ''CANDIDATE_GENERATION_ENABLED'',
      ''GATEWAY_ENABLED'', ''ORDER_TICKETING_ENABLED''} \<subseteq> dom env \<and>
    \<not> cfg_live_submit_enabled c \<and> (submission_armed c \<longleftrightarrow> cfg_submission_enabled c) \<and>
    (submission_armed c \<longrightarrow> cfg_broker_mode c = broker_mode.PAPER \<and> cfg_app_env c \<in> {VM_PAPER, LOCAL}) \<and>
    (is_shadow c \<longrightarrow> cfg_broker_mode c = broker_mode.NONE \<and> \<not> submission_armed c) \<and>
    (is_paper c \<longrightarrow> submission_armed c)"
proof -
  note e = app_config_from_env_explicit [OF assms]
  note w = wf_app_config_armed [OF e(1)]
  have "is_shadow c \<Longrightarrow> \<not> submission_armed c" using w(3) by (auto simp: is_shadow_def)
  then show ?thesis using e(2) w by (auto simp: is_shadow_def is_paper_def)
qed

definition sample_env :: env where
  "sample_env = map_of
     [(''APP_ENV'', ''vm_paper''), (''BROKER_MODE'', ''paper''), (''SUBMISSION_ENABLED'', ''true''),
      (''PAPER_SUBMIT_ENABLED'', '' TRUE ''), (''LIVE_SUBMIT_ENABLED'', ''false''),
      (''MARKET_DATA_ENABLED'', ''true''), (''CANDIDATE_GENERATION_ENABLED'', ''true''),
      (''GATEWAY_ENABLED'', ''true''), (''ORDER_TICKETING_ENABLED'', ''true'')]"

lemma sample_env_loads:
  "app_config_from_env sample_env = Inr
     \<lparr>cfg_app_env = VM_PAPER, cfg_broker_mode = broker_mode.PAPER, cfg_submission_enabled = True,
      cfg_paper_submit_enabled = True, cfg_live_submit_enabled = False, cfg_market_data_enabled = True,
      cfg_candidate_generation_enabled = True, cfg_gateway_enabled = True,
      cfg_order_ticketing_enabled = True, cfg_audit_db_path = ''.hermes/audit.db''\<rparr>"
  by code_simp

theorem app_config_fails_closed_witness:
  "\<exists>c. app_config_from_env sample_env = Inr c \<and> submission_armed c \<and> \<not> cfg_live_submit_enabled c"
  using app_config_fails_closed [OF sample_env_loads] sample_env_loads by (auto simp: is_paper_def)

end
