(* ===== verification/PaperBroker.thy ===== *)
theory PaperBroker
  imports Brokers EnvConfig
begin

text \<open>
  The local paper broker of \<open>brokers/paper.py\<close>: a policy gate in front of a fake broker.
  The parameter \<open>dumpi\<close> is Pydantic's \<open>model_dump_json\<close> of a submit intent. The
  theory interprets \<open>broker_adapter\<close> a second time, on the gated broker, where a submission
  is an intent together with the human confirmation passed beside it.
\<close>

section \<open>Confirmations\<close>

definition compute_full_intent_digest ::
  "(broker_submit_intent \<Rightarrow> string) \<Rightarrow> broker_submit_intent dyn \<Rightarrow> string res" where
  "compute_full_intent_digest dumpi arg =
     (case arg of
        NotInst _ \<Rightarrow> Inl (TypeError ''compute_full_intent_digest requires a BrokerSubmitIntent'')
      | Inst i \<Rightarrow> Inr (sha256_hexdigest (dumpi i)))"

record paper_submit_approval =
  pa_order_ticket_hash :: string
  pa_idempotency_key :: string
  pa_approved_by :: string
  pa_approved_at :: aware
  pa_submit_mode :: submit_mode
  pa_full_intent_digest :: string

definition is_hex64 :: "string \<Rightarrow> bool" where
  "is_hex64 s \<longleftrightarrow> length s = 64 \<and> list_all (\<lambda>c. c \<in> set ''0123456789abcdef'') s"

definition paper_submit_approval_guards :: "paper_submit_approval \<Rightarrow> (bool \<times> string) list" where
  "paper_submit_approval_guards a =
     [(length (pa_order_ticket_hash a) \<noteq> 64, ''order_ticket_hash''),
      (pa_idempotency_key a = [], ''idempotency_key''),
      (pa_approved_by a = [], ''approved_by''),
      (\<not> is_hex64 (pa_full_intent_digest a), ''full_intent_digest''),
      (pa_submit_mode a \<noteq> submit_mode.PAPER, ''PaperSubmitApproval is valid only for SubmitMode.PAPER'')]"

definition mk_paper_submit_approval :: "paper_submit_approval \<Rightarrow> paper_submit_approval res" where
  "mk_paper_submit_approval a = construct (paper_submit_approval_guards a) a"

definition paper_submit_approval_for_intent ::
  "(broker_submit_intent \<Rightarrow> string) \<Rightarrow> broker_submit_intent dyn \<Rightarrow> string \<Rightarrow> datetime \<Rightarrow> paper_submit_approval res" where
  "paper_submit_approval_for_intent dumpi arg approved_by approved_at =
     (case arg of
        NotInst _ \<Rightarrow> Inl (TypeError ''paper_submit_approval_for_intent requires a BrokerSubmitIntent'')
      | Inst i \<Rightarrow>
          bind_res (compute_full_intent_digest dumpi (Inst i)) (\<lambda>digest.
          case approved_at of
            Naive _ \<Rightarrow> Inl (ValidationError ''approved_at'')
          | Aware ts \<Rightarrow> mk_paper_submit_approval
              \<lparr>pa_order_ticket_hash = bi_order_ticket_hash i, pa_idempotency_key = bi_idempotency_key i,
               pa_approved_by = approved_by, pa_approved_at = ts, pa_submit_mode = submit_mode.PAPER,
               pa_full_intent_digest = digest\<rparr>))"

definition assert_no_real_broker_payload :: "broker_submit_intent dyn \<Rightarrow> unit res" where
  "assert_no_real_broker_payload v =
     (case v of NotInst _ \<Rightarrow> Inl (TypeError ''paper broker boundary accepts only BrokerSubmitIntent'')
      | Inst _ \<Rightarrow> Inr ())"

section \<open>The gated broker\<close>

record local_paper_broker =
  lp_config :: paper_broker_config
  lp_inner :: fake_broker

definition new_local_paper_broker ::
  "paper_broker_config option \<Rightarrow> fake_broker option \<Rightarrow> local_paper_broker" where
  "new_local_paper_broker config inner =
     \<lparr>lp_config = (case config of None \<Rightarrow> default_paper_broker_config | Some c \<Rightarrow> c),
      lp_inner = (case inner of None \<Rightarrow> new_fake_broker FakeFillBroker ''local-paper'' None | Some b \<Rightarrow> b)\<rparr>"

definition human_confirmation_required :: "string \<Rightarrow> py_error" where
  "human_confirmation_required message =
     BrokerError (mk_broker_error HumanConfirmationRequiredError message HUMAN_REARM_REQUIRED [])"

definition validate_human_confirmation ::
  "(broker_submit_intent \<Rightarrow> string) \<Rightarrow> broker_submit_intent \<Rightarrow> paper_submit_approval dyn \<Rightarrow> unit res" where
  "validate_human_confirmation dumpi i confirmation =
     (case confirmation of
        NotInst _ \<Rightarrow> Inl (human_confirmation_required
          ''PAPER_REQUIRE_HUMAN_CONFIRM=true requires PaperSubmitApproval'')
      | Inst a \<Rightarrow>
          require (pa_order_ticket_hash a = bi_order_ticket_hash i)
            (human_confirmation_required ''PaperSubmitApproval.order_ticket_hash does not match intent'') (
          require (pa_idempotency_key a = bi_idempotency_key i)
            (human_confirmation_required ''PaperSubmitApproval.idempotency_key does not match intent'') (
          require (\<not> at_lt (pa_approved_at a) (bi_submitted_at i))
            (human_confirmation_required
               ''PaperSubmitApproval.approved_at cannot precede intent.submitted_at'') (
          bind_res (compute_full_intent_digest dumpi (Inst i)) (\<lambda>digest.
          require (pa_full_intent_digest a = digest)
            (human_confirmation_required
               ''PaperSubmitApproval.full_intent_digest does not match the complete submitted BrokerSubmitIntent'')
            (Inr ()))))))"

definition paper_failure :: "broker_error_kind \<Rightarrow> string \<Rightarrow> reason_code \<Rightarrow> py_error" where
  "paper_failure k message code = BrokerError (mk_broker_error k message code [])"

definition validate_submit ::
  "(broker_submit_intent \<Rightarrow> string) \<Rightarrow> paper_broker_config \<Rightarrow> broker_submit_intent dyn
     \<Rightarrow> paper_submit_approval dyn \<Rightarrow> unit res" where
  "validate_submit dumpi c arg confirmation =
     (case arg of
        NotInst _ \<Rightarrow> Inl (TypeError ''LocalPaperBroker.submit_order requires a BrokerSubmitIntent'')
      | Inst i \<Rightarrow>
          require (bi_submit_mode i = submit_mode.PAPER)
            (paper_failure LiveSubmitNotPermittedError ''local paper broker cannot service submit_mode''
               INTERNAL_CONTRADICTION) (
          require (paper_submission_armed c)
            (paper_failure PaperSubmissionDisabledError ''paper submission is disabled''
               HUMAN_REARM_REQUIRED) (
          let candidate = vi_candidate (ot_validated_intent (bi_ticket i)) in
          require (ci_underlying candidate \<in> set (pb_paper_allowed_underlyings c))
            (paper_failure PaperPolicyViolationError ''underlying is not allowed in local paper mode''
               INSTRUMENT_NOT_PERMITTED) (
          require (\<not> pb_paper_max_contracts c < sl_contracts (ci_short_leg candidate))
            (paper_failure PaperPolicyViolationError ''contracts exceed PAPER_MAX_CONTRACTS''
               CONCENTRATION_LIMIT_EXCEEDED) (
          require (\<not> (pb_paper_limit_only c \<and> ot_order_type (bi_ticket i) \<noteq> order_type.LIMIT))
            (paper_failure PaperPolicyViolationError
               ''PAPER_LIMIT_ONLY=true rejects non-LIMIT paper submissions'' INTERNAL_CONTRADICTION) (
          if pb_paper_require_human_confirm c then validate_human_confirmation dumpi i confirmation
          else Inr ()))))))"

definition paper_submit_order ::
  "(broker_submit_intent \<Rightarrow> string) \<Rightarrow> local_paper_broker \<Rightarrow> aware \<Rightarrow> broker_submit_intent dyn
     \<Rightarrow> paper_submit_approval dyn \<Rightarrow> broker_fill res \<times> local_paper_broker" where
  "paper_submit_order dumpi b wall arg confirmation =
     (case validate_submit dumpi (lp_config b) arg confirmation of
        Inl e \<Rightarrow> (Inl e, b)
      | Inr _ \<Rightarrow> (let (r, inner) = fake_submit_order (lp_inner b) wall arg in (r, b\<lparr>lp_inner := inner\<rparr>)))"

definition paper_cancel_order ::
  "local_paper_broker \<Rightarrow> aware \<Rightarrow> broker_order_id \<Rightarrow> broker_fill res \<times> local_paper_broker" where
  "paper_cancel_order b wall oid =
     (let (r, inner) = fake_cancel_order (lp_inner b) wall oid in (r, b\<lparr>lp_inner := inner\<rparr>))"

definition paper_get_order :: "local_paper_broker \<Rightarrow> broker_order_id \<Rightarrow> broker_fill res" where
  "paper_get_order b oid = fake_get_order (lp_inner b) oid"

definition paper_get_open_orders :: "local_paper_broker \<Rightarrow> broker_fill list" where
  "paper_get_open_orders b = fake_get_open_orders (lp_inner b)"

definition paper_get_account :: "local_paper_broker \<Rightarrow> broker_account_view" where
  "paper_get_account b = fake_get_account (lp_inner b)"

definition paper_get_positions :: "local_paper_broker \<Rightarrow> broker_position_view list" where
  "paper_get_positions b = fake_get_positions (lp_inner b)"

section \<open>The gate as a predicate\<close>

definition confirms ::
  "(broker_submit_intent \<Rightarrow> string) \<Rightarrow> paper_submit_approval dyn \<Rightarrow> broker_submit_intent \<Rightarrow> bool" where
  "confirms dumpi confirmation i \<longleftrightarrow>
     (case confirmation of NotInst _ \<Rightarrow> False
      | Inst a \<Rightarrow> pa_order_ticket_hash a = bi_order_ticket_hash i \<and>
          pa_idempotency_key a = bi_idempotency_key i \<and> at_us (bi_submitted_at i) \<le> at_us (pa_approved_at a) \<and>
          pa_full_intent_digest a = sha256_hexdigest (dumpi i))"

definition paper_policy_ok :: "paper_broker_config \<Rightarrow> broker_submit_intent \<Rightarrow> bool" where
  "paper_policy_ok c i \<longleftrightarrow>
     bi_submit_mode i = submit_mode.PAPER \<and>
     pb_submission_enabled c \<and> pb_paper_submit_enabled c \<and>
     ci_underlying (vi_candidate (ot_validated_intent (bi_ticket i))) \<in> set (pb_paper_allowed_underlyings c) \<and>
     requested i \<le> pb_paper_max_contracts c \<and>
     (pb_paper_limit_only c \<longrightarrow> ot_order_type (bi_ticket i) = order_type.LIMIT)"

lemma validate_human_confirmation_iff:
  "validate_human_confirmation dumpi i h = Inr u \<longleftrightarrow> confirms dumpi h i"
  by (auto simp: validate_human_confirmation_def confirms_def require_eq_Inr at_defs
      compute_full_intent_digest_def split: dyn.splits)

lemma validate_submit_iff:
  "validate_submit dumpi c (Inst i) h = Inr u \<longleftrightarrow>
     paper_policy_ok c i \<and> (pb_paper_require_human_confirm c \<longrightarrow> confirms dumpi h i)"
  by (auto simp: validate_submit_def Let_def require_eq_Inr validate_human_confirmation_iff
      paper_policy_ok_def paper_submission_armed_def requested_def)

lemma paper_submit_passes:
  assumes "validate_submit dumpi (lp_config b) (Inst i) h = Inr u"
  shows "paper_submit_order dumpi b w (Inst i) h =
    (fst (fake_submit_order (lp_inner b) w (Inst i)), b\<lparr>lp_inner := snd (fake_submit_order (lp_inner b) w (Inst i))\<rparr>)"
  using assms by (simp add: paper_submit_order_def split_def Let_def)

lemma paper_submit_refused:
  assumes "validate_submit dumpi (lp_config b) (Inst i) h = Inl e"
  shows "paper_submit_order dumpi b w (Inst i) h = (Inl e, b)"
  using assms by (simp add: paper_submit_order_def)

lemma paper_cancel_eq:
  "paper_cancel_order b w oid =
    (fst (fake_cancel_order (lp_inner b) w oid), b\<lparr>lp_inner := snd (fake_cancel_order (lp_inner b) w oid)\<rparr>)"
  by (simp add: paper_cancel_order_def split_def Let_def)

text \<open>Which gate verdict the gated broker depends on, per submission.\<close>

definition paper_accepts ::
  "(broker_submit_intent \<Rightarrow> string) \<Rightarrow> local_paper_broker
     \<Rightarrow> broker_submit_intent \<times> paper_submit_approval dyn \<Rightarrow> bool" where
  "paper_accepts dumpi b s \<longleftrightarrow> is_ok (validate_submit dumpi (lp_config b) (Inst (fst s)) (snd s))"

lemma paper_accepts_iff:
  "paper_accepts dumpi b (i, h) \<longleftrightarrow>
     paper_policy_ok (lp_config b) i \<and> (pb_paper_require_human_confirm (lp_config b) \<longrightarrow> confirms dumpi h i)"
  by (simp add: paper_accepts_def is_ok_iff validate_submit_iff)

interpretation paper: broker_adapter "\<lambda>b. fake_inv (lp_inner b)" "\<lambda>s. bi_idempotency_key (fst s)"
  "paper_accepts dumpi" "\<lambda>b. map_of (fk_fills (lp_inner b))"
  "\<lambda>b w s. paper_submit_order dumpi b w (Inst (fst s)) (snd s)" paper_cancel_order
  for dumpi
proof
  fix b w oid e f b' and s :: "broker_submit_intent \<times> paper_submit_approval dyn"
  obtain i h where s: "s = (i, h)" by (cases s)
  show "fake_inv (lp_inner (snd (paper_submit_order dumpi b w (Inst (fst s)) (snd s))))"
    if "fake_inv (lp_inner b)"
    using that fake.submit_inv [OF that, of w i]
    by (cases "validate_submit dumpi (lp_config b) (Inst i) h")
      (simp_all add: s paper_submit_passes paper_submit_refused)
  show "fake_inv (lp_inner b) \<Longrightarrow> fake_inv (lp_inner (snd (paper_cancel_order b w oid)))"
    using fake.cancel_inv by (simp add: paper_cancel_eq)
  show "fst (paper_submit_order dumpi b w (Inst (fst s)) (snd s)) = Inl e \<Longrightarrow>
      snd (paper_submit_order dumpi b w (Inst (fst s)) (snd s)) = b"
    using fake.submit_failed [of "lp_inner b" w i e]
    by (cases "validate_submit dumpi (lp_config b) (Inst i) h")
      (simp_all add: s paper_submit_passes paper_submit_refused)
  show "fst (paper_submit_order dumpi b w (Inst (fst s)) (snd s)) = Inr f \<Longrightarrow> paper_accepts dumpi b s"
    by (cases "validate_submit dumpi (lp_config b) (Inst i) h")
      (simp_all add: s paper_submit_refused paper_accepts_def)
  show "map_of (fk_fills (lp_inner b')) = (map_of (fk_fills (lp_inner b)))(bi_idempotency_key (fst s) \<mapsto> f)"
    if "paper_submit_order dumpi b w (Inst (fst s)) (snd s) = (Inr f, b')"
    using that fake.submit_stores [of "lp_inner b" w i f "snd (fake_submit_order (lp_inner b) w (Inst i))"]
    by (cases "validate_submit dumpi (lp_config b) (Inst i) h")
      (auto simp: s paper_submit_passes paper_submit_refused prod_eq_iff)
  show "paper_submit_order dumpi b w (Inst (fst s)) (snd s) = (Inr f, b)"
    if "paper_accepts dumpi b s" and "map_of (fk_fills (lp_inner b)) (bi_idempotency_key (fst s)) = Some f"
  proof -
    have "validate_submit dumpi (lp_config b) (Inst i) h = Inr ()" and "bi_submit_mode i = submit_mode.PAPER"
      using that(1) by (auto simp: s paper_accepts_iff validate_submit_iff paper_policy_ok_def)
    then show ?thesis
      using fake.submit_again [of i "lp_inner b" f w] that(2) by (simp add: s paper_submit_passes)
  qed
  show "fst (paper_cancel_order b w oid) = Inl e \<Longrightarrow> snd (paper_cancel_order b w oid) = b"
    using fake.cancel_failed [of "lp_inner b" w oid e] by (simp add: paper_cancel_eq)
  show "\<exists>k g. map_of (fk_fills (lp_inner b)) k = Some g \<and> is_open g \<and>
        map_of (fk_fills (lp_inner b')) = (map_of (fk_fills (lp_inner b)))(k \<mapsto> f) \<and>
        bf_lifecycle_state f = order_lifecycle_state.CANCELLED \<and>
        bf_filled_contracts f = bf_filled_contracts g"
    if "fake_inv (lp_inner b)" and "paper_cancel_order b w oid = (Inr f, b')"
    using fake.cancel_closes [OF that(1), of w oid f "lp_inner b'"] that(2)
    by (auto simp: paper_cancel_eq prod_eq_iff)
  fix t
  show "paper_accepts dumpi (snd (paper_submit_order dumpi b w (Inst (fst s)) (snd s))) t = paper_accepts dumpi b t"
    by (cases "validate_submit dumpi (lp_config b) (Inst i) h")
      (simp_all add: s paper_submit_passes paper_submit_refused paper_accepts_def)
  show "paper_accepts dumpi (snd (paper_cancel_order b w oid)) t = paper_accepts dumpi b t"
    by (simp add: paper_cancel_eq paper_accepts_def)
qed

definition run_paper ::
  "(broker_submit_intent \<Rightarrow> string) \<Rightarrow> local_paper_broker
     \<Rightarrow> (broker_submit_intent \<times> paper_submit_approval dyn) broker_op list \<Rightarrow> local_paper_broker" where
  "run_paper dumpi b ops =
     run_ops (\<lambda>b w s. paper_submit_order dumpi b w (Inst (fst s)) (snd s)) paper_cancel_order b ops"

lemma approval_for_intent_eq:
  assumes "wf_broker_submit_intent dump i" and "who \<noteq> []"
  shows "paper_submit_approval_for_intent dumpi (Inst i) who (Aware ts) = Inr
    \<lparr>pa_order_ticket_hash = bi_order_ticket_hash i, pa_idempotency_key = bi_idempotency_key i,
     pa_approved_by = who, pa_approved_at = ts, pa_submit_mode = submit_mode.PAPER,
     pa_full_intent_digest = sha256_hexdigest (dumpi i)\<rparr>"
proof -
  have "is_hex64 (sha256_hexdigest (dumpi i))"
    using subsetD [OF set_sha256_hexdigest [of "dumpi i"]] by (simp only: is_hex64_def list_all_iff) simp
  moreover have "length (bi_order_ticket_hash i) = 64" "bi_idempotency_key i \<noteq> []"
    using assms(1) by (auto simp: wf_broker_submit_intent_def broker_submit_intent_guards_def Let_def)
  ultimately show ?thesis
    using assms(2) by (simp add: paper_submit_approval_for_intent_def compute_full_intent_digest_def
        mk_paper_submit_approval_def paper_submit_approval_guards_def)
qed

lemma parse_bool_default_false: "parse_bool ''false'' name = Inr x \<longleftrightarrow> \<not> x"
proof -
  have "str_lower (str_strip ''false'') = ''false''" by code_simp
  then show ?thesis by (auto simp: parse_bool_def Let_def)
qed

lemma paper_config_from_env_disarmed:
  assumes "paper_config_from_env env = Inr c"
    and "env ''SUBMISSION_ENABLED'' = None \<or> env ''PAPER_SUBMIT_ENABLED'' = None"
  shows "\<not> paper_submission_armed c"
  using assms
  by (auto simp: paper_config_from_env_def bind_res_eq_Inr mk_paper_broker_config_def construct_eq_Inr
      paper_submission_armed_def env_get_def parse_bool_default_false)

section \<open>Properties\<close>

text \<open>C16. The paper gate is exact: a submission reaches the execution simulator exactly when its
  mode is PAPER, both submit flags are set, its underlying is allowed, its contracts do not exceed
  the maximum, it is a LIMIT order under the limit-only policy and, where confirmation is required,
  an approval is presented that matches its ticket hash, its idempotency key and the SHA-256 of the
  complete intent and does not precede its submission time. It then has the simulator's result;
  otherwise a broker error is returned and nothing changes.\<close>

theorem paper_gate_is_exact:
  "if bi_submit_mode i = submit_mode.PAPER \<and>
      pb_submission_enabled (lp_config b) \<and> pb_paper_submit_enabled (lp_config b) \<and>
      ci_underlying (vi_candidate (ot_validated_intent (bi_ticket i))) \<in>
        set (pb_paper_allowed_underlyings (lp_config b)) \<and>
      sl_contracts (ci_short_leg (vi_candidate (ot_validated_intent (bi_ticket i))))
        \<le> pb_paper_max_contracts (lp_config b) \<and>
      (\<not> pb_paper_limit_only (lp_config b) \<or> ot_order_type (bi_ticket i) = order_type.LIMIT) \<and>
      (\<not> pb_paper_require_human_confirm (lp_config b) \<or>
         (\<exists>a. h = Inst a \<and> pa_order_ticket_hash a = bi_order_ticket_hash i \<and>
            pa_idempotency_key a = bi_idempotency_key i \<and>
            at_us (bi_submitted_at i) \<le> at_us (pa_approved_at a) \<and>
            pa_full_intent_digest a = sha256_hexdigest (dumpi i)))
   then paper_submit_order dumpi b w (Inst i) h =
     (fst (fake_submit_order (lp_inner b) w (Inst i)),
      b\<lparr>lp_inner := snd (fake_submit_order (lp_inner b) w (Inst i))\<rparr>)
   else \<exists>e. paper_submit_order dumpi b w (Inst i) h = (Inl (BrokerError e), b)"
  (is "if ?ok then ?passes else ?refused")
proof -
  have ok: "?ok \<longleftrightarrow> validate_submit dumpi (lp_config b) (Inst i) h = Inr ()"
    by (auto simp: validate_submit_iff paper_policy_ok_def confirms_def requested_def split: dyn.splits)
  have ?refused if "validate_submit dumpi (lp_config b) (Inst i) h = Inl e" for e
  proof -
    have "\<exists>e'. e = BrokerError e'"
      using that by (auto simp: validate_submit_def validate_human_confirmation_def require_def Let_def
          paper_failure_def human_confirmation_required_def compute_full_intent_digest_def
          split: if_splits dyn.splits)
    then show ?thesis using paper_submit_refused [OF that] by auto
  qed
  then show ?thesis
    using ok paper_submit_passes by (cases "validate_submit dumpi (lp_config b) (Inst i) h") auto
qed

definition sample_paper_config :: paper_broker_config where
  "sample_paper_config = default_paper_broker_config\<lparr>pb_submission_enabled := True, pb_paper_submit_enabled := True\<rparr>"

definition sample_intent_dump :: "broker_submit_intent \<Rightarrow> string" where
  "sample_intent_dump i = bi_idempotency_key i"

definition sample_approval :: paper_submit_approval where
  "sample_approval =
     \<lparr>pa_order_ticket_hash = bi_order_ticket_hash (sample_intent 1),
      pa_idempotency_key = bi_idempotency_key (sample_intent 1), pa_approved_by = ''operator'',
      pa_approved_at = sample_as_of, pa_submit_mode = submit_mode.PAPER,
      pa_full_intent_digest = sha256_hexdigest (sample_intent_dump (sample_intent 1))\<rparr>"

lemma sample_policy_ok: "paper_policy_ok sample_paper_config (sample_intent n)"
  by (simp add: paper_policy_ok_def sample_requested)
    (simp add: sample_paper_config_def default_paper_broker_config_def sample_intent_def minted_intent_def
      sample_ticket_simps, simp add: sample_ticket_def routed_ticket_def sample_validated_def sample_candidate_def)

lemma sample_approval_confirms: "confirms sample_intent_dump (Inst sample_approval) (sample_intent 1)"
  by (simp add: confirms_def sample_approval_def) (simp add: sample_intent_def minted_intent_def)

theorem paper_gate_is_exact_witness:
  "\<exists>b'. paper_submit_order sample_intent_dump (new_local_paper_broker (Some sample_paper_config)
       (Some (new_fake_broker FakeFillBroker ''fake'' None))) sample_as_of
       (Inst (sample_intent 1)) (Inst sample_approval) = (Inr (sample_fill FakeFillBroker), b')"
proof -
  note ok = sample_policy_ok [of 1, unfolded paper_policy_ok_def requested_def]
  show ?thesis
    using paper_gate_is_exact [of "sample_intent 1" "new_local_paper_broker (Some sample_paper_config)
       (Some (new_fake_broker FakeFillBroker ''fake'' None))" "Inst sample_approval" sample_intent_dump sample_as_of]
      ok sample_approval_confirms sample_submit [of FakeFillBroker]
    by (auto simp: confirms_def new_local_paper_broker_def)
qed

text \<open>C17. Over every sequence of submissions and cancellations on a fresh paper broker, each order
  the broker holds stems from a submission in that sequence that satisfied the paper policy and,
  where confirmation is required, was presented with an approval of that very intent.\<close>

theorem paper_orders_were_authorised:
  assumes "map_of (fk_fills (lp_inner (run_paper dumpi (new_local_paper_broker config None) ops))) key = Some f"
    and "c = lp_config (new_local_paper_broker config None)"
  shows "\<exists>w i h. Submit w (i, h) \<in> set ops \<and> bi_idempotency_key i = key \<and> paper_policy_ok c i \<and>
    (pb_paper_require_human_confirm c \<longrightarrow> confirms dumpi h i)"
proof -
  let ?b = "new_local_paper_broker config None"
  have "fake_inv (lp_inner ?b)" "map_of (fk_fills (lp_inner ?b)) key = None"
    using new_fake_broker_inv by (simp_all add: new_local_paper_broker_def) (simp add: new_fake_broker_def)
  from paper.stored_was_accepted [OF this(1) _ this(2), of dumpi ops] assms(1)
  obtain w s where "Submit w s \<in> set ops" "bi_idempotency_key (fst s) = key" "paper_accepts dumpi ?b s"
    by (auto simp: run_paper_def)
  then show ?thesis using assms(2) by (cases s) (auto simp: paper_accepts_iff)
qed

theorem paper_orders_were_authorised_witness:
  "\<exists>w i h. Submit w (i, h) \<in> set [Submit sample_as_of (sample_intent 1, Inst sample_approval)] \<and>
     bi_idempotency_key i = bi_idempotency_key (sample_intent 1) \<and> paper_policy_ok sample_paper_config i \<and>
     confirms sample_intent_dump h i"
proof -
  let ?b = "new_local_paper_broker (Some sample_paper_config) None"
  let ?ops = "[Submit sample_as_of (sample_intent 1, Inst sample_approval)]"
  have c: "lp_config ?b = sample_paper_config" by (simp add: new_local_paper_broker_def)
  obtain f where "simulate (new_fake_broker FakeFillBroker ''local-paper'' None) sample_as_of (sample_intent 1) = Inr f"
    using sample_simulates [of FakeFillBroker "''local-paper''"] by auto
  moreover have "validate_submit sample_intent_dump (lp_config ?b) (Inst (sample_intent 1)) (Inst sample_approval) = Inr ()"
    by (simp add: c validate_submit_iff sample_policy_ok sample_approval_confirms)
  ultimately have "map_of (fk_fills (lp_inner (run_paper sample_intent_dump ?b ?ops)))
      (bi_idempotency_key (sample_intent 1)) = Some f"
    using sample_submit_fresh [of FakeFillBroker "''local-paper''" f]
    by (auto simp: run_paper_def paper_submit_passes new_local_paper_broker_def)
  from paper_orders_were_authorised [OF this refl] show ?thesis
    by (simp add: c) (simp add: sample_paper_config_def default_paper_broker_config_def)
qed

text \<open>Round trip of approvals: for a well-formed intent and a named approver at or after its
  submission time an approval is issued, it confirms that intent, and it confirms another intent
  only if the ticket hash, the idempotency key and the SHA-256 of the complete intent agree.\<close>

theorem approval_round_trip:
  assumes "wf_broker_submit_intent dump i" and "who \<noteq> []" and "at_us (bi_submitted_at i) \<le> at_us ts"
  shows "\<exists>a. paper_submit_approval_for_intent dumpi (Inst i) who (Aware ts) = Inr a \<and>
    validate_human_confirmation dumpi i (Inst a) = Inr () \<and>
    (\<forall>j. is_ok (validate_human_confirmation dumpi j (Inst a)) \<longrightarrow>
       bi_order_ticket_hash j = bi_order_ticket_hash i \<and> bi_idempotency_key j = bi_idempotency_key i \<and>
       at_us (bi_submitted_at j) \<le> at_us ts \<and> sha256_hexdigest (dumpi j) = sha256_hexdigest (dumpi i))"
  using assms(3)
  by (auto simp: approval_for_intent_eq [OF assms(1,2)] validate_human_confirmation_iff is_ok_iff confirms_def)

lemma sample_intent_wf: "wf_broker_submit_intent sample_ticket_dump (sample_intent 1)"
  using minted_intent_guards [OF sample_ticket_wf, of 1 "Some (Dec 45 (- 2))" sample_as_of
      sample_ticket_dump submit_mode.PAPER] sample_ticket_wf
  by (simp add: wf_broker_submit_intent_def sample_intent_def mintable_def sample_ticket_simps us_per_s_def)
    (simp add: minted_intent_def)

theorem approval_round_trip_witness:
  "\<exists>a. paper_submit_approval_for_intent sample_intent_dump (Inst (sample_intent 1)) ''operator'' (Aware sample_as_of) = Inr a \<and>
     validate_human_confirmation sample_intent_dump (sample_intent 1) (Inst a) = Inr ()"
proof -
  have "at_us (bi_submitted_at (sample_intent 1)) \<le> at_us sample_as_of"
    by (simp add: sample_intent_def minted_intent_def)
  from approval_round_trip [OF sample_intent_wf _ this, of "''operator''" sample_intent_dump]
  show ?thesis by auto
qed

text \<open>Paper submission is off unless switched on: whenever \<open>SUBMISSION_ENABLED\<close> or
  \<open>PAPER_SUBMIT_ENABLED\<close> is missing from the environment the controls are loaded from, every
  submission is refused, whatever the argument, the confirmation and the wrapped broker, and the
  broker is unchanged; the same holds for a broker built with no controls at all.\<close>

theorem paper_submission_is_opt_in:
  assumes "c = None \<or> (\<exists>d. c = Some d \<and> paper_config_from_env env = Inr d)"
    and "env ''SUBMISSION_ENABLED'' = None \<or> env ''PAPER_SUBMIT_ENABLED'' = None"
  shows "\<exists>e. paper_submit_order dumpi (new_local_paper_broker c inner) w arg h =
    (Inl e, new_local_paper_broker c inner)"
proof -
  have "\<not> paper_submission_armed (lp_config (new_local_paper_broker c inner))"
    using assms paper_config_from_env_disarmed
    by (auto simp: new_local_paper_broker_def default_paper_broker_config_def paper_submission_armed_def)
  then obtain e where "validate_submit dumpi (lp_config (new_local_paper_broker c inner)) arg h = Inl e"
    by (cases arg; cases "bi_submit_mode (case arg of Inst i \<Rightarrow> i) = submit_mode.PAPER")
      (simp_all add: validate_submit_def require_def)
  then show ?thesis by (simp add: paper_submit_order_def)
qed

lemma empty_env_parses:
  "parse_broker_mode ''paper'' = Inr broker_mode.PAPER" "parse_positive_int ''1'' name = Inr 1"
  "parse_underlyings ''XSP'' = Inr [underlying.XSP]" "parse_bool ''true'' name = Inr True"
  "parse_bool ''false'' name = Inr False"
  by code_simp+

lemma empty_env_paper_config: "paper_config_from_env (\<lambda>_. None) = Inr default_paper_broker_config"
  by (simp add: paper_config_from_env_def env_get_def empty_env_parses mk_paper_broker_config_def
      paper_broker_config_guards_def default_paper_broker_config_def)

theorem paper_submission_is_opt_in_witness:
  "\<exists>e. fst (paper_submit_order sample_intent_dump
      (new_local_paper_broker (Some default_paper_broker_config) None) sample_as_of
      (Inst (sample_intent 1)) (Inst sample_approval)) = Inl e"
  using paper_submission_is_opt_in [of "Some default_paper_broker_config" "\<lambda>_. None" sample_intent_dump
      None sample_as_of "Inst (sample_intent 1)" "Inst sample_approval"] empty_env_paper_config by auto

end
