(* ===== verification/PaperCycle.thy ===== *)
theory PaperCycle
  imports Steps PaperBroker
begin

text \<open>
  The paper-trading cycle of \<open>services/paper_cycle.py\<close>: gateway decision, ticket, submit
  intent, human confirmation, persisted attempt, broker call and execution report, for each work
  item in turn. The state is the audit trail, the paper broker and the counters; the arguments of
  a cycle also carry what the environment supplies: the UTC offset of the Chicago zone, the codec
  and the wall clock of the broker at each item. A confirmer may return any object; \<open>None\<close>
  stands for no confirmation.
\<close>

section \<open>Configuration gate\<close>

definition paper_config_error :: "string \<Rightarrow> py_error" where
  "paper_config_error message = ConfigError ''PaperConfigError'' message"

definition require_paper_safe :: "app_config \<Rightarrow> local_paper_broker \<Rightarrow> unit res" where
  "require_paper_safe config broker =
     require (cfg_app_env config = VM_PAPER) (paper_config_error ''paper cycle requires APP_ENV=vm_paper'') (
     require (cfg_broker_mode config = broker_mode.PAPER)
       (paper_config_error ''paper cycle requires BROKER_MODE=paper'') (
     require (\<not> cfg_live_submit_enabled config)
       (paper_config_error ''paper cycle forbids LIVE_SUBMIT_ENABLED=true'') (
     require (cfg_submission_enabled config \<and> cfg_paper_submit_enabled config)
       (paper_config_error ''paper cycle requires SUBMISSION_ENABLED=true and PAPER_SUBMIT_ENABLED=true'') (
     let paper_config = lp_config broker in
     require (pb_broker_mode paper_config = broker_mode.PAPER)
       (paper_config_error ''paper broker config requires BROKER_MODE=paper'') (
     require (\<not> pb_live_submit_enabled paper_config)
       (paper_config_error ''paper broker config forbids LIVE_SUBMIT_ENABLED=true'') (
     require (paper_submission_armed paper_config) (paper_config_error ''paper broker is not armed'') (
     require (pb_paper_require_human_confirm paper_config)
       (paper_config_error ''paper cycle (P1) requires PAPER_REQUIRE_HUMAN_CONFIRM=true'') (
     Inr ()))))))))"

section \<open>The cycle\<close>

record paper_submit_request =
  pr_request :: "gateway_request dyn"
  pr_limit_price :: "decimal option"

record paper_cycle_args =
  pc_recorded_at :: datetime
  pc_routing_state :: "order_routing_state option"
  pc_confirmer :: "(broker_submit_intent \<Rightarrow> paper_submit_approval dyn option res) option"
  pc_attempt_counter :: int
  pc_heartbeat_path :: "string option"
  pc_ct_offset :: "int \<Rightarrow> int"
  pc_codec :: codec
  pc_wall :: "int \<Rightarrow> aware"

record paper_cycle_state = audit_trail +
  cy_broker :: local_paper_broker
  cy_gateway_rejected :: int
  cy_deferred :: int
  cy_submitted :: int
  cy_submit_failed :: int
  cy_duplicate_skipped :: int

record paper_cycle_result =
  pt_app_env :: app_env
  pt_requests_evaluated :: int
  pt_gateway_rejected :: int
  pt_deferred :: int
  pt_submitted :: int
  pt_submit_failed :: int
  pt_duplicate_skipped :: int
  pt_heartbeat_path :: "string option"
  pt_audit_record_ids :: "string list"

definition dump_intent :: "codec \<Rightarrow> broker_submit_intent \<Rightarrow> string" where
  "dump_intent cd i = cd_dump cd (BrokerSubmitIntent i)"

definition dump_ticket :: "codec \<Rightarrow> order_ticket \<Rightarrow> string" where
  "dump_ticket cd t = cd_dump cd (OrderTicket t)"

definition dump_request :: "codec \<Rightarrow> gateway_request \<Rightarrow> string" where
  "dump_request cd r = cd_dump cd (GatewayRequest r)"

definition paper_id :: "paper_cycle_args \<Rightarrow> string \<Rightarrow> int \<Rightarrow> string" where
  "paper_id a tag ordinal = ''paper-'' @ tag @ ''-'' @ dt_isoformat (pc_recorded_at a) @ ''-'' @ int_str ordinal"

definition defer_step ::
  "paper_cycle_args \<Rightarrow> string \<Rightarrow> reason_code \<Rightarrow> string \<Rightarrow> int \<Rightarrow> (paper_cycle_state, unit) step" where
  "defer_step a detail reason tag ordinal =
     audit_new_artifact (pc_codec a) (pc_recorded_at a) (paper_id a tag ordinal) ''PAPER_SUBMIT_DEFERRED''
       [reason] detail"

definition safe_hash :: "order_ticket \<Rightarrow> string" where
  "safe_hash t = dt_isoformat (Aware (ot_created_at t))"

text \<open>\<open>report.completed_at or report.fill_timestamp or report.submitted_at\<close>.\<close>

definition report_created_at :: "execution_report \<Rightarrow> aware" where
  "report_created_at r =
     (case er_completed_at r of Some t \<Rightarrow> t
      | None \<Rightarrow> (case er_fill_timestamp r of Some t \<Rightarrow> t | None \<Rightarrow> er_submitted_at r))"

text \<open>The broker call and what follows it: only a \<open>BrokerError\<close> is caught.\<close>

definition broker_step ::
  "paper_cycle_args \<Rightarrow> int \<Rightarrow> broker_submit_intent \<Rightarrow> paper_submit_approval dyn
     \<Rightarrow> (paper_cycle_state, broker_fill res) step" where
  "broker_step a ordinal intent approval = (\<lambda>s.
     case paper_submit_order (dump_intent (pc_codec a)) (cy_broker s) (pc_wall a ordinal) (Inst intent) approval of
       (Inl (BrokerError e), b) \<Rightarrow> (Inr (Inl (BrokerError e)), s\<lparr>cy_broker := b\<rparr>)
     | (Inl e, b) \<Rightarrow> (Inl e, s\<lparr>cy_broker := b\<rparr>)
     | (Inr fill, b) \<Rightarrow> (Inr (Inr fill), s\<lparr>cy_broker := b\<rparr>))"

definition report_step ::
  "paper_cycle_args \<Rightarrow> int \<Rightarrow> broker_submit_intent \<Rightarrow> broker_fill res \<Rightarrow> (paper_cycle_state, unit) step" where
  "report_step a ordinal intent outcome =
     (case outcome of
        Inl (BrokerError e) \<Rightarrow>
          bind_st (lift_res (bind_res (aware_of ''created_at'' (pc_recorded_at a)) (\<lambda>ts.
            audit_artifact_from_broker_error e (paper_id a ''submitfail'' ordinal) ts))) (\<lambda>art.
          then_st (audit_step (pc_codec a) (pc_recorded_at a) (AuditArtifact art) (pc_recorded_at a))
            (modify_st (\<lambda>s. s\<lparr>cy_submit_failed := cy_submit_failed s + 1\<rparr>)))
      | Inl e \<Rightarrow> raise_st e
      | Inr fill \<Rightarrow>
          bind_st (lift_res (mint_execution_report (Inst intent) (Inst (bf_broker_order_id fill))
            (bf_lifecycle_state fill) (bf_filled_contracts fill) (bf_avg_fill_price fill)
            (map_option Aware (bf_fill_timestamp fill)) (map_option Aware (bf_completed_at fill)))) (\<lambda>report.
          then_st (audit_step (pc_codec a) (pc_recorded_at a) (ExecutionReport report)
              (Aware (report_created_at report)))
            (modify_st (\<lambda>s. s\<lparr>cy_submitted := cy_submitted s + 1\<rparr>))))"

text \<open>Persist the attempt, then call the broker; a duplicate key skips the call.\<close>

definition submit_step ::
  "paper_cycle_args \<Rightarrow> int \<Rightarrow> broker_submit_intent \<Rightarrow> paper_submit_approval dyn \<Rightarrow> (paper_cycle_state, unit) step" where
  "submit_step a ordinal intent approval = (\<lambda>s.
     case record_submit_attempt (pc_codec a) (au_store s) (Inst intent) (pc_recorded_at a) of
       (Inl (StorageError DuplicateIdempotencyKeyError m), st) \<Rightarrow>
         then_st
           (audit_new_artifact (pc_codec a) (pc_recorded_at a) (paper_id a ''dupe'' ordinal)
              ''PAPER_SUBMIT_DUPLICATE_SKIPPED'' [INTERNAL_CONTRADICTION]
              (''idempotency_key='' @ bi_idempotency_key intent @
               '' already recorded; refusing to re-submit the same decision''))
           (modify_st (\<lambda>s. s\<lparr>cy_duplicate_skipped := cy_duplicate_skipped s + 1\<rparr>))
           (s\<lparr>au_store := st\<rparr>)
     | (Inl e, st) \<Rightarrow> (Inl e, s\<lparr>au_store := st\<rparr>)
     | (Inr ev, st) \<Rightarrow>
         bind_st (broker_step a ordinal intent approval) (report_step a ordinal intent)
           (s\<lparr>au_store := st, au_record_ids := au_record_ids s @ [se_record_id ev]\<rparr>))"

definition intent_step ::
  "paper_cycle_args \<Rightarrow> int \<Rightarrow> broker_submit_intent \<Rightarrow> (paper_cycle_state, unit) step" where
  "intent_step a ordinal intent =
     bind_st (lift_res (case pc_confirmer a of None \<Rightarrow> Inr None | Some confirm \<Rightarrow> confirm intent)) (\<lambda>answer.
      case answer of
        None \<Rightarrow>
          then_st (defer_step a (''idempotency_key='' @ bi_idempotency_key intent @ '' awaiting human confirmation'')
                     HUMAN_REARM_REQUIRED ''noconfirm'' ordinal)
            (modify_st (\<lambda>s. s\<lparr>cy_deferred := cy_deferred s + 1\<rparr>))
      | Some approval \<Rightarrow> submit_step a ordinal intent approval)"

definition ticket_step ::
  "paper_cycle_args \<Rightarrow> int \<Rightarrow> decimal option \<Rightarrow> gateway_request \<Rightarrow> order_ticket \<Rightarrow> (paper_cycle_state, unit) step" where
  "ticket_step a ordinal limit_price r ticket =
     then_st (audit_step (pc_codec a) (pc_recorded_at a) (OrderTicket ticket) (Aware (ot_created_at ticket)))
       (if ot_order_type ticket = order_type.LIMIT \<and> limit_price = None
        then then_st
          (defer_step a (''order_ticket_hash='' @ safe_hash ticket @
             '' has no validated limit_price; LIMIT paper submit requires a reconciled price'')
             PRICE_STALE ''noprice'' ordinal)
          (modify_st (\<lambda>s. s\<lparr>cy_deferred := cy_deferred s + 1\<rparr>))
        else
          bind_st (lift_res (mint_broker_submit_intent (gr_as_of r) (dump_ticket (pc_codec a)) (Inst ticket)
              (pc_attempt_counter a) submit_mode.PAPER
              (if ot_order_type ticket = order_type.LIMIT then limit_price else None)
              (Some (Aware (gr_as_of r)))))
            (intent_step a ordinal))"

definition decision_step ::
  "paper_cycle_args \<Rightarrow> int \<Rightarrow> decimal option \<Rightarrow> gateway_request \<Rightarrow> gateway_decision \<Rightarrow> (paper_cycle_state, unit) step" where
  "decision_step a ordinal limit_price r d =
     (if \<not> is_approved d then
        (case gd_rejection d of
           None \<Rightarrow> raise_st (AssertionError ''rejection is not None'')
         | Some rejection \<Rightarrow>
             then_st (audit_step (pc_codec a) (pc_recorded_at a) (AuditArtifact rejection)
                        (Aware (aa_created_at rejection)))
               (modify_st (\<lambda>s. s\<lparr>cy_gateway_rejected := cy_gateway_rejected s + 1\<rparr>)))
      else
        (case gd_approved d of
           None \<Rightarrow> raise_st (AssertionError ''validated is not None'')
         | Some validated \<Rightarrow>
             then_st (audit_step (pc_codec a) (pc_recorded_at a) (ValidatedTradeIntent validated)
                        (Aware (gr_as_of r)))
               (case pc_routing_state a of
                  None \<Rightarrow> raise_st (AssertionError ''routing_state is not None'')
                | Some rs \<Rightarrow>
                    bind_st (lift_res (mint_order_ticket (gr_as_of r) (Inst validated) rs (Some (Aware (gr_as_of r)))))
                      (ticket_step a ordinal limit_price r))))"

definition item_step ::
  "paper_cycle_args \<Rightarrow> int \<Rightarrow> paper_submit_request dyn \<Rightarrow> (paper_cycle_state, unit) step" where
  "item_step a ordinal item =
     (case item of
        NotInst _ \<Rightarrow> raise_st (TypeError ''run_paper_cycle requires PaperSubmitRequest items'')
      | Inst it \<Rightarrow>
          (case pr_request it of
             NotInst _ \<Rightarrow> raise_st (TypeError ''PaperSubmitRequest.request must be a GatewayRequest'')
           | Inst r \<Rightarrow>
               then_st (audit_step (pc_codec a) (pc_recorded_at a) (GatewayRequest r) (Aware (gr_as_of r)))
                 (bind_st (lift_res (validate (pc_ct_offset a) (dump_request (pc_codec a)) r))
                    (decision_step a ordinal (pr_limit_price it) r))))"

fun items_loop ::
  "paper_cycle_args \<Rightarrow> int \<Rightarrow> paper_submit_request dyn list \<Rightarrow> (paper_cycle_state, unit) step" where
  "items_loop a ordinal [] = return_st ()"
| "items_loop a ordinal (item # items) = then_st (item_step a ordinal item) (items_loop a (ordinal + 1) items)"

definition startup_step ::
  "paper_cycle_args \<Rightarrow> app_config \<Rightarrow> int \<Rightarrow> (paper_cycle_state, unit) step" where
  "startup_step a config n =
     bind_st (gets_st cy_broker) (\<lambda>broker.
     audit_new_artifact (pc_codec a) (pc_recorded_at a) (''paper-startup-'' @ dt_isoformat (pc_recorded_at a))
       ''PAPER_CYCLE_START'' []
       (''app_env='' @ app_env_value (cfg_app_env config) @ '' broker_mode='' @
        broker_mode_value (cfg_broker_mode config) @ '' submission_armed='' @ bool_str (submission_armed config) @
        '' require_human_confirm='' @ bool_str (pb_paper_require_human_confirm (lp_config broker)) @
        '' requests='' @ int_str n))"

text \<open>The heartbeat file: its lines, joined by line feeds.\<close>

definition heartbeat_text :: "paper_cycle_args \<Rightarrow> app_config \<Rightarrow> int \<Rightarrow> paper_cycle_state \<Rightarrow> string" where
  "heartbeat_text a config n s = str_join [CHR 0x0A]
     [''app_env='' @ app_env_value (cfg_app_env config),
      ''broker_mode='' @ broker_mode_value (cfg_broker_mode config),
      ''recorded_at='' @ dt_isoformat (pc_recorded_at a),
      ''requests_evaluated='' @ int_str n, ''submitted='' @ int_str (cy_submitted s),
      ''deferred='' @ int_str (cy_deferred s), ''gateway_rejected='' @ int_str (cy_gateway_rejected s),
      ''submit_failed='' @ int_str (cy_submit_failed s), []]"

definition cycle_result :: "paper_cycle_args \<Rightarrow> app_config \<Rightarrow> int \<Rightarrow> paper_cycle_state \<Rightarrow> paper_cycle_result" where
  "cycle_result a config n s =
     \<lparr>pt_app_env = cfg_app_env config, pt_requests_evaluated = n,
      pt_gateway_rejected = cy_gateway_rejected s, pt_deferred = cy_deferred s, pt_submitted = cy_submitted s,
      pt_submit_failed = cy_submit_failed s, pt_duplicate_skipped = cy_duplicate_skipped s,
      pt_heartbeat_path = pc_heartbeat_path a, pt_audit_record_ids = au_record_ids s\<rparr>"

definition initial_cycle_state :: "local_paper_broker \<Rightarrow> audit_store \<Rightarrow> paper_cycle_state" where
  "initial_cycle_state broker st =
     \<lparr>au_store = st, au_record_ids = [], cy_broker = broker, cy_gateway_rejected = 0, cy_deferred = 0,
      cy_submitted = 0, cy_submit_failed = 0, cy_duplicate_skipped = 0\<rparr>"

text \<open>The result comes with the text written to the heartbeat file, if any, and with the state of
  the store and the broker, also when the cycle raises.\<close>

definition run_paper_cycle ::
  "paper_cycle_args \<Rightarrow> app_config \<Rightarrow> local_paper_broker \<Rightarrow> audit_store \<Rightarrow> paper_submit_request dyn list
     \<Rightarrow> (paper_cycle_result \<times> string option) res \<times> paper_cycle_state" where
  "run_paper_cycle a config broker st items =
     then_st (lift_res (require_paper_safe config broker))
      (if items \<noteq> [] \<and> pc_routing_state a = None
       then raise_st (ValueError ''run_paper_cycle requires a routing_state when requests are supplied'')
       else
         let n = int (length items) in
         then_st (startup_step a config n)
         (then_st (items_loop a 0 items)
            (gets_st (\<lambda>s. (cycle_result a config n s,
               map_option (\<lambda>_. heartbeat_text a config n s) (pc_heartbeat_path a))))))
      (initial_cycle_state broker st)"

section \<open>What every step of a cycle keeps\<close>

definition attempts :: "audit_store \<Rightarrow> string option set" where
  "attempts st = sr_idempotency_key ` set (st_rows st)"

definition held :: "local_paper_broker \<Rightarrow> string \<Rightarrow> broker_fill option" where
  "held b = map_of (fk_fills (lp_inner b))"

text \<open>An order is authorised when the confirmer gave for its intent a confirmation that passes the
  paper gate.\<close>

definition authorised :: "paper_cycle_args \<Rightarrow> paper_broker_config \<Rightarrow> string \<Rightarrow> bool" where
  "authorised a c k \<longleftrightarrow>
     (\<exists>i h confirm. bi_idempotency_key i = k \<and> pc_confirmer a = Some confirm \<and> confirm i = Inr (Some h) \<and>
        paper_policy_ok c i \<and> (pb_paper_require_human_confirm c \<longrightarrow> confirms (dump_intent (pc_codec a)) h i))"

text \<open>Rows are only added; the broker keeps its controls and its fills; and a new order is one that
  is authorised, whose attempt is in the store now and was not before.\<close>

definition cycle_rel :: "paper_cycle_args \<Rightarrow> paper_cycle_state \<Rightarrow> paper_cycle_state \<Rightarrow> bool" where
  "cycle_rel a s t \<longleftrightarrow>
     (\<exists>rs. st_rows (au_store t) = st_rows (au_store s) @ rs) \<and>
     lp_config (cy_broker t) = lp_config (cy_broker s) \<and>
     (\<forall>k f. held (cy_broker s) k = Some f \<longrightarrow> held (cy_broker t) k = Some f) \<and>
     (\<forall>k. held (cy_broker t) k \<noteq> None \<longrightarrow> held (cy_broker s) k = None \<longrightarrow>
        Some k \<in> attempts (au_store t) \<and> Some k \<notin> attempts (au_store s) \<and>
        authorised a (lp_config (cy_broker s)) k)"

lemma cycle_rel_trans:
  assumes "cycle_rel a s t" and "cycle_rel a t u"
  shows "cycle_rel a s u"
proof -
  have sub: "attempts (au_store s) \<subseteq> attempts (au_store t)" "attempts (au_store t) \<subseteq> attempts (au_store u)"
    using assms by (auto simp: cycle_rel_def attempts_def)
  have "Some k \<in> attempts (au_store u) \<and> Some k \<notin> attempts (au_store s) \<and> authorised a (lp_config (cy_broker s)) k"
    if "held (cy_broker u) k \<noteq> None" "held (cy_broker s) k = None" for k
  proof (cases "held (cy_broker t) k")
    case None
    then show ?thesis using assms that sub by (auto simp: cycle_rel_def)
  next
    case (Some f)
    then have "Some k \<in> attempts (au_store t) \<and> Some k \<notin> attempts (au_store s) \<and> authorised a (lp_config (cy_broker s)) k"
      using assms(1) that by (simp add: cycle_rel_def)
    then show ?thesis using sub by blast
  qed
  moreover have "\<exists>rs. st_rows (au_store u) = st_rows (au_store s) @ rs"
    using assms by (auto simp: cycle_rel_def)
  ultimately show ?thesis using assms by (auto simp: cycle_rel_def)
qed

interpretation cycle: step_relation "cycle_rel a" for a
proof
  show "cycle_rel a s s" for s by (auto simp: cycle_rel_def)
  show "cycle_rel a s t \<Longrightarrow> cycle_rel a t u \<Longrightarrow> cycle_rel a s u" for s t u by (rule cycle_rel_trans)
qed

text \<open>Steps that touch neither the broker nor the keys of the store.\<close>

lemma cycle_rel_append_only:
  assumes "cy_broker t = cy_broker s" and "\<exists>rs. st_rows (au_store t) = st_rows (au_store s) @ rs"
  shows "cycle_rel a s t"
  using assms by (auto simp: cycle_rel_def)

lemma audit_step_frame: "cy_broker (snd (audit_step cd rec obj c s)) = cy_broker s"
  by (simp add: audit_step_def split: prod.splits sum.splits)

lemma keeps_audit: "keeps (cycle_rel a) (audit_step cd rec obj c)"
  unfolding keeps_def
proof
  fix s :: paper_cycle_state
  obtain ops where "au_store (snd (audit_step cd rec obj c s)) = run_appends cd (au_store s) ops"
    using audit_step_store by blast
  then show "cycle_rel a s (snd (audit_step cd rec obj c s))"
    using run_appends_extends [of cd "au_store s" ops]
    by (intro cycle_rel_append_only) (simp_all add: audit_step_frame)
qed

lemma keeps_audit_artifact: "keeps (cycle_rel a) (audit_new_artifact cd rec aid dec codes detail)"
  unfolding audit_new_artifact_def by (intro cycle.keeps_rules keeps_audit)

lemma keeps_counter:
  "keeps (cycle_rel a) (modify_st (cy_deferred_update f))"
  "keeps (cycle_rel a) (modify_st (\<lambda>s. s\<lparr>cy_deferred := cy_deferred s + 1\<rparr>))"
  "keeps (cycle_rel a) (modify_st (\<lambda>s. s\<lparr>cy_submitted := cy_submitted s + 1\<rparr>))"
  "keeps (cycle_rel a) (modify_st (\<lambda>s. s\<lparr>cy_submit_failed := cy_submit_failed s + 1\<rparr>))"
  "keeps (cycle_rel a) (modify_st (\<lambda>s. s\<lparr>cy_gateway_rejected := cy_gateway_rejected s + 1\<rparr>))"
  "keeps (cycle_rel a) (modify_st (\<lambda>s. s\<lparr>cy_duplicate_skipped := cy_duplicate_skipped s + 1\<rparr>))"
  by (rule cycle.keeps_modify, rule cycle_rel_append_only; simp)+

lemma keeps_report: "keeps (cycle_rel a) (report_step a' ordinal intent outcome)"
  unfolding report_step_def
  by (cases outcome; simp; (split py_error.split)?; intro conjI impI allI cycle.keeps_rules keeps_audit keeps_counter)

text \<open>The one step that is not append-only: the broker call on a freshly persisted attempt.\<close>

lemma broker_step_cases:
  "\<exists>r. broker_step a ordinal i h s = (r, s\<lparr>cy_broker :=
     snd (paper_submit_order (dump_intent (pc_codec a)) (cy_broker s) (pc_wall a ordinal) (Inst i) h)\<rparr>)"
  by (auto simp: broker_step_def split: prod.splits sum.splits py_error.splits)

lemma paper_submit_held:
  assumes "b' = snd (paper_submit_order dumpi b w (Inst i) h)"
  shows "lp_config b' = lp_config b"
    and "held b k = Some f \<Longrightarrow> held b' k = Some f"
    and "held b' k \<noteq> None \<Longrightarrow> held b k = None \<Longrightarrow> k = bi_idempotency_key i \<and> paper_policy_ok (lp_config b) i \<and>
      (pb_paper_require_human_confirm (lp_config b) \<longrightarrow> confirms dumpi h i)"
proof -
  show "lp_config b' = lp_config b"
    using assms by (cases "validate_submit dumpi (lp_config b) (Inst i) h")
      (simp_all add: paper_submit_passes paper_submit_refused)
  show "held b k = Some f \<Longrightarrow> held b' k = Some f"
    using paper.submit_keeps_stored [of b k f dumpi w "(i, h)"] assms by (simp add: held_def)
  show "held b' k \<noteq> None \<Longrightarrow> held b k = None \<Longrightarrow> k = bi_idempotency_key i \<and> paper_policy_ok (lp_config b) i \<and>
      (pb_paper_require_human_confirm (lp_config b) \<longrightarrow> confirms dumpi h i)"
    using paper.stored_after_submit [of dumpi b w "(i, h)" k] assms by (auto simp: held_def paper_accepts_iff)
qed

lemma broker_call_rel:
  assumes "pc_confirmer a = Some confirm" and "confirm i = Inr (Some h)"
    and "Some (bi_idempotency_key i) \<in> attempts (au_store t)" and "Some (bi_idempotency_key i) \<notin> attempts (au_store s)"
    and "\<exists>rs. st_rows (au_store t) = st_rows (au_store s) @ rs" and "cy_broker t = cy_broker s"
  shows "cycle_rel a s (snd (broker_step a ordinal i h t))"
proof -
  let ?b = "snd (paper_submit_order (dump_intent (pc_codec a)) (cy_broker s) (pc_wall a ordinal) (Inst i) h)"
  note held = paper_submit_held [OF refl, where dumpi = "dump_intent (pc_codec a)" and b = "cy_broker s"
      and w = "pc_wall a ordinal" and i = i and h = h]
  have "snd (broker_step a ordinal i h t) = t\<lparr>cy_broker := ?b\<rparr>"
    using broker_step_cases [of a ordinal i h t] assms(6) by auto
  moreover have "k = bi_idempotency_key i \<and> authorised a (lp_config (cy_broker s)) k"
    if "held ?b k \<noteq> None" and "held (cy_broker s) k = None" for k
    using held(3) [OF that] assms(1,2) unfolding authorised_def by blast
  ultimately show ?thesis
    using held(1,2) assms(3-6) unfolding cycle_rel_def by auto
qed

lemma record_attempt_cases:
  obtains (refused) e where "record_submit_attempt cd st (Inst i) rec = (Inl e, st)"
  | (recorded) r rs where "record_submit_attempt cd st (Inst i) rec = (r, \<lparr>st_rows = st_rows st @ rs, st_last_seq = st_last_seq st + 1\<rparr>)"
      "Some (bi_idempotency_key i) \<notin> attempts st" "Some (bi_idempotency_key i) \<in> sr_idempotency_key ` set rs"
proof (cases "storable cd st (BrokerSubmitIntent i) (Some (bi_idempotency_key i))")
  case True
  show ?thesis
  proof (rule recorded)
    show "record_submit_attempt cd st (Inst i) rec = (row_to_event (added_row cd st (BrokerSubmitIntent i)
        (Aware (bi_submitted_at i)) rec (Some (bi_idempotency_key i))),
      \<lparr>st_rows = st_rows st @ [added_row cd st (BrokerSubmitIntent i) (Aware (bi_submitted_at i)) rec
        (Some (bi_idempotency_key i))], st_last_seq = st_last_seq st + 1\<rparr>)"
      using append_storable [OF True] by (simp add: record_submit_attempt_def)
    show "Some (bi_idempotency_key i) \<notin> attempts st" using True by (simp add: storable_def attempts_def)
  qed (simp add: added_row_def)
next
  case False
  then show ?thesis
    using refused append_not_storable [OF False, of "Aware (bi_submitted_at i)" rec]
    by (auto simp: record_submit_attempt_def)
qed

lemma keeps_submit:
  assumes "pc_confirmer a = Some confirm" and "confirm i = Inr (Some h)"
  shows "keeps (cycle_rel a) (submit_step a ordinal i h)"
  unfolding keeps_def
proof
  fix s
  let ?dupe = "then_st (audit_new_artifact (pc_codec a) (pc_recorded_at a) (paper_id a ''dupe'' ordinal)
      ''PAPER_SUBMIT_DUPLICATE_SKIPPED'' [INTERNAL_CONTRADICTION]
      (''idempotency_key='' @ bi_idempotency_key i @ '' already recorded; refusing to re-submit the same decision''))
      (modify_st (\<lambda>s. s\<lparr>cy_duplicate_skipped := cy_duplicate_skipped s + 1\<rparr>))"
  have dupe: "cycle_rel a t (snd (?dupe t))" for t
    using cycle.keeps_then [OF keeps_audit_artifact keeps_counter(6)] by (simp add: keeps_def)
  show "cycle_rel a s (snd (submit_step a ordinal i h s))"
  proof (cases rule: record_attempt_cases [of "pc_codec a" "au_store s" i "pc_recorded_at a"])
    case (refused e)
    then show ?thesis using dupe [of s] cycle.refl
      by (auto simp: submit_step_def split: py_error.splits storage_error_kind.splits)
  next
    case (recorded r rs)
    let ?st = "\<lparr>st_rows = st_rows (au_store s) @ rs, st_last_seq = st_last_seq (au_store s) + 1\<rparr>"
    have t: "cycle_rel a s t" if "au_store t = ?st" "cy_broker t = cy_broker s" for t
      using that by (intro cycle_rel_append_only) auto
    show ?thesis
    proof (cases r)
      case (Inl e)
      have "cycle_rel a s (snd (?dupe (s\<lparr>au_store := ?st\<rparr>)))"
        using cycle.trans [OF t dupe, of "s\<lparr>au_store := ?st\<rparr>"] by simp
      then show ?thesis using recorded(1) Inl t [of "s\<lparr>au_store := ?st\<rparr>"]
        by (auto simp: submit_step_def split: py_error.splits storage_error_kind.splits)
    next
      case (Inr ev)
      let ?t = "s\<lparr>au_store := ?st, au_record_ids := au_record_ids s @ [se_record_id ev]\<rparr>"
      let ?u = "snd (broker_step a ordinal i h ?t)"
      have u: "cycle_rel a s ?u"
        using recorded(2,3) by (intro broker_call_rel [OF assms]) (auto simp: attempts_def)
      have "cycle_rel a ?u (snd (report_step a ordinal i x ?u))" for x
        using keeps_report by (simp add: keeps_def)
      then have "cycle_rel a s (snd (report_step a ordinal i x ?u))" for x
        using cycle.trans [OF u] by blast
      then show ?thesis using recorded(1) Inr u
        by (auto simp: submit_step_def bind_st_def split: prod.splits sum.splits)
    qed
  qed
qed

lemma keeps_intent: "keeps (cycle_rel a) (intent_step a ordinal i)"
  unfolding intent_step_def defer_step_def
  by (rule cycle.keeps_bind_if [OF always_lift cycle.keeps_pure(3)],
      intro cycle.keeps_option cycle.keeps_then keeps_audit_artifact keeps_counter)
    (auto intro: keeps_submit split: option.splits)

lemma keeps_item: "keeps (cycle_rel a) (item_step a ordinal item)"
  unfolding item_step_def decision_step_def ticket_step_def defer_step_def
  by (intro cycle.keeps_rules keeps_audit keeps_audit_artifact keeps_counter keeps_intent)

lemma keeps_items: "keeps (cycle_rel a) (items_loop a ordinal items)"
  by (induction items arbitrary: ordinal) (auto intro: cycle.keeps_rules keeps_item)

lemma keeps_startup: "keeps (cycle_rel a) (startup_step a config n)"
  unfolding startup_step_def by (intro cycle.keeps_rules keeps_audit_artifact)

lemma run_paper_cycle_rel:
  "cycle_rel a (initial_cycle_state broker st) (snd (run_paper_cycle a config broker st items))"
proof -
  have "keeps (cycle_rel a) (then_st (lift_res (require_paper_safe config broker))
      (if items \<noteq> [] \<and> pc_routing_state a = None then raise_st e
       else then_st (startup_step a config n) (then_st (items_loop a 0 items) (gets_st g))))" for e n and g :: "_ \<Rightarrow> 'x"
    by (intro cycle.keeps_rules keeps_startup keeps_items)
  then show ?thesis unfolding run_paper_cycle_def Let_def keeps_def by blast
qed

section \<open>Counting outcomes\<close>

definition outcomes :: "paper_cycle_state \<Rightarrow> int" where
  "outcomes s = cy_gateway_rejected s + cy_deferred s + cy_submitted s + cy_submit_failed s + cy_duplicate_skipped s"

lemma audit_outcomes:
  "audit_step cd rec obj c s = (r, s') \<Longrightarrow> outcomes s' = outcomes s"
  by (auto simp: audit_step_def outcomes_def split: prod.splits sum.splits)

lemma artifact_outcomes:
  "audit_new_artifact cd rec aid dec codes detail s = (r, s') \<Longrightarrow> outcomes s' = outcomes s"
  by (auto simp: audit_new_artifact_def bind_st_def dest: audit_outcomes split: sum.splits)

lemma count_outcome:
  "outcomes (s\<lparr>cy_deferred := cy_deferred s + 1\<rparr>) = outcomes s + 1"
  "outcomes (s\<lparr>cy_submitted := cy_submitted s + 1\<rparr>) = outcomes s + 1"
  "outcomes (s\<lparr>cy_submit_failed := cy_submit_failed s + 1\<rparr>) = outcomes s + 1"
  "outcomes (s\<lparr>cy_gateway_rejected := cy_gateway_rejected s + 1\<rparr>) = outcomes s + 1"
  "outcomes (s\<lparr>cy_duplicate_skipped := cy_duplicate_skipped s + 1\<rparr>) = outcomes s + 1"
  by (simp_all add: outcomes_def)

lemmas outcome_dests = audit_outcomes artifact_outcomes

lemma report_outcomes: "report_step a n i x s = (Inr u, s') \<Longrightarrow> outcomes s' = outcomes s + 1"
  by (auto simp: report_step_def step_Inr count_outcome split: sum.splits py_error.splits dest!: outcome_dests)

lemma broker_outcomes: "broker_step a n i h s = (r, s') \<Longrightarrow> outcomes s' = outcomes s"
  by (auto simp: broker_step_def outcomes_def split: prod.splits sum.splits py_error.splits)

lemma outcomes_trail:
  "outcomes (s\<lparr>au_store := st\<rparr>) = outcomes s"
  "outcomes (s\<lparr>au_store := st, au_record_ids := ids\<rparr>) = outcomes s"
  by (simp_all add: outcomes_def)

lemma submit_outcomes:
  assumes "submit_step a n i h s = (Inr u, s')"
  shows "outcomes s' = outcomes s + 1"
proof (cases "record_submit_attempt (pc_codec a) (au_store s) (Inst i) (pc_recorded_at a)")
  case (Pair r st)
  show ?thesis
  proof (cases r)
    case (Inl e)
    show ?thesis
    proof (cases "\<exists>m. e = StorageError DuplicateIdempotencyKeyError m")
      case True
      then show ?thesis using assms Pair Inl
        by (auto simp: submit_step_def then_st_eq_Inr count_outcome outcomes_trail dest!: artifact_outcomes)
    next
      case False
      then have "submit_step a n i h s = (Inl e, s\<lparr>au_store := st\<rparr>)"
        using Pair Inl by (simp add: submit_step_def split: py_error.split storage_error_kind.split)
      then show ?thesis using assms by simp
    qed
  next
    case (Inr ev)
    with assms Pair obtain x t where
      "broker_step a n i h (s\<lparr>au_store := st, au_record_ids := au_record_ids s @ [se_record_id ev]\<rparr>) = (Inr x, t)"
      "report_step a n i x t = (Inr u, s')"
      by (auto simp: submit_step_def bind_st_eq_Inr)
    then have "outcomes s' = outcomes t + 1"
      "outcomes t = outcomes (s\<lparr>au_store := st, au_record_ids := au_record_ids s @ [se_record_id ev]\<rparr>)"
      by (simp_all add: report_outcomes broker_outcomes)
    then show ?thesis by (simp add: outcomes_trail)
  qed
qed

lemma intent_outcomes: "intent_step a n i s = (Inr u, s') \<Longrightarrow> outcomes s' = outcomes s + 1"
  unfolding intent_step_def defer_step_def
  by (auto simp: step_Inr count_outcome split: option.splits dest!: artifact_outcomes submit_outcomes)

lemma ticket_outcomes: "ticket_step a n p r t s = (Inr u, s') \<Longrightarrow> outcomes s' = outcomes s + 1"
  unfolding ticket_step_def defer_step_def
  by (auto simp: step_Inr count_outcome split: if_splits dest!: outcome_dests intent_outcomes)

lemma decision_outcomes: "decision_step a n p r d s = (Inr u, s') \<Longrightarrow> outcomes s' = outcomes s + 1"
  unfolding decision_step_def
  by (auto simp: step_Inr count_outcome split: if_splits option.splits dest!: audit_outcomes ticket_outcomes)

lemma item_outcomes: "item_step a n it s = (Inr u, s') \<Longrightarrow> outcomes s' = outcomes s + 1"
  unfolding item_step_def
  by (auto simp: step_Inr split: dyn.splits dest!: audit_outcomes decision_outcomes)

lemma items_outcomes: "items_loop a n items s = (Inr u, s') \<Longrightarrow> outcomes s' = outcomes s + int (length items)"
proof (induction items arbitrary: n s)
  case (Cons item items)
  then obtain v t where "item_step a n item s = (Inr v, t)" "items_loop a (n + 1) items t = (Inr u, s')"
    by (auto simp: then_st_eq_Inr)
  then show ?case using Cons.IH item_outcomes by fastforce
qed simp

lemma startup_outcomes: "startup_step a config n s = (r, s') \<Longrightarrow> outcomes s' = outcomes s"
  by (auto simp: startup_step_def bind_st_def dest: artifact_outcomes)

lemma run_cycle_Inr:
  assumes "run_paper_cycle a config broker st items = (Inr (r, hb), s)"
  shows "require_paper_safe config broker = Inr ()" and "r = cycle_result a config (int (length items)) s"
    and "outcomes s = int (length items)"
proof -
  from assms obtain t u v w where "require_paper_safe config broker = Inr u"
    and "startup_step a config (int (length items)) (initial_cycle_state broker st) = (Inr v, t)"
    and "items_loop a 0 items t = (Inr w, s)" and "r = cycle_result a config (int (length items)) s"
    by (auto simp: run_paper_cycle_def Let_def step_Inr split: if_splits)
  then show "require_paper_safe config broker = Inr ()" "r = cycle_result a config (int (length items)) s"
    "outcomes s = int (length items)"
    using items_outcomes startup_outcomes
    by (auto simp: outcomes_def initial_cycle_state_def dest!: items_outcomes startup_outcomes)
qed

section \<open>Properties\<close>

text \<open>C2. No order without a persisted attempt, at most one order per decision: whatever the items
  and whether or not the cycle raises, rows of the audit store are only added; every order the broker
  holds afterwards and did not hold before has its submit attempt among the added rows; and a
  decision whose attempt was already in the store when the cycle began gets no new order, even if
  the earlier attempt never reached the broker.\<close>

theorem cycle_persists_before_submit:
  assumes "run_paper_cycle a config broker st items = (res, s)"
  shows "\<exists>rs. st_rows (au_store s) = st_rows st @ rs \<and>
    (\<forall>k f. map_of (fk_fills (lp_inner (cy_broker s))) k = Some f \<longrightarrow> map_of (fk_fills (lp_inner broker)) k = None \<longrightarrow>
       (\<exists>row\<in>set rs. sr_idempotency_key row = Some k)) \<and>
    (\<forall>k. Some k \<in> sr_idempotency_key ` set (st_rows st) \<longrightarrow>
       map_of (fk_fills (lp_inner (cy_broker s))) k = map_of (fk_fills (lp_inner broker)) k)"
proof -
  have rel: "cycle_rel a (initial_cycle_state broker st) s"
    using run_paper_cycle_rel [of a broker st config items] assms by simp
  then obtain rs where rs: "st_rows (au_store s) = st_rows st @ rs"
    by (auto simp: cycle_rel_def initial_cycle_state_def)
  have new: "Some k \<in> sr_idempotency_key ` set (st_rows st @ rs) \<and> Some k \<notin> sr_idempotency_key ` set (st_rows st)"
    if "held (cy_broker s) k \<noteq> None" "held broker k = None" for k
    using rel that rs by (simp add: cycle_rel_def initial_cycle_state_def attempts_def)
  have "held (cy_broker s) k = held broker k" if "Some k \<in> sr_idempotency_key ` set (st_rows st)" for k
  proof (cases "held broker k")
    case None
    then show ?thesis using new [of k] that by (cases "held (cy_broker s) k") auto
  next
    case (Some f)
    then show ?thesis using rel by (simp add: cycle_rel_def initial_cycle_state_def)
  qed
  moreover have "\<exists>row\<in>set rs. sr_idempotency_key row = Some k"
    if "held (cy_broker s) k = Some f" "held broker k = None" for k f
    using new [of k] that by force
  ultimately show ?thesis using rs unfolding held_def by blast
qed

text \<open>C5. Human authority: every order a cycle adds to the broker, raising or not, is one for whose
  intent the confirmer returned a confirmation that passes the paper gate; so a cycle without a
  confirmer adds none.\<close>

theorem cycle_orders_are_confirmed:
  assumes "run_paper_cycle a config broker st items = (res, s)"
    and "map_of (fk_fills (lp_inner (cy_broker s))) k = Some f" and "map_of (fk_fills (lp_inner broker)) k = None"
  shows "\<exists>i h confirm. pc_confirmer a = Some confirm \<and> confirm i = Inr (Some h) \<and> bi_idempotency_key i = k \<and>
    paper_policy_ok (lp_config broker) i \<and>
    (pb_paper_require_human_confirm (lp_config broker) \<longrightarrow> confirms (dump_intent (pc_codec a)) h i)"
proof -
  have "cycle_rel a (initial_cycle_state broker st) s"
    using run_paper_cycle_rel [of a broker st config items] assms(1) by simp
  then have "authorised a (lp_config broker) k"
    using assms(2,3) by (simp add: cycle_rel_def initial_cycle_state_def held_def)
  then show ?thesis unfolding authorised_def by blast
qed

text \<open>A cycle that returns ran under a paper-armed configuration and a broker that requires human
  confirmation, and accounts for every item exactly once: rejected, deferred, submitted, failed or
  skipped as a duplicate. With any other configuration it raises \<open>PaperConfigError\<close> and leaves
  store and broker as they were.\<close>

theorem cycle_accounts_for_every_item:
  "case run_paper_cycle a config broker st items of
     (Inr (r, _), s) \<Rightarrow>
       cfg_app_env config = VM_PAPER \<and> cfg_broker_mode config = broker_mode.PAPER \<and>
       \<not> cfg_live_submit_enabled config \<and> paper_submission_armed (lp_config broker) \<and>
       pb_paper_require_human_confirm (lp_config broker) \<and>
       pt_requests_evaluated r = int (length items) \<and>
       pt_gateway_rejected r + pt_deferred r + pt_submitted r + pt_submit_failed r + pt_duplicate_skipped r =
         pt_requests_evaluated r
   | (Inl e, s) \<Rightarrow>
       is_ok (require_paper_safe config broker) \<or> (\<exists>m. e = ConfigError ''PaperConfigError'' m) \<and>
         au_store s = st \<and> cy_broker s = broker"
proof (cases "run_paper_cycle a config broker st items")
  case (Pair res s)
  show ?thesis
  proof (cases res)
    case (Inl e)
    have "is_ok (require_paper_safe config broker) \<or> (\<exists>m. e = ConfigError ''PaperConfigError'' m) \<and> s = initial_cycle_state broker st"
    proof (cases "require_paper_safe config broker")
      case (Inl e')
      then have "\<exists>m. e' = ConfigError ''PaperConfigError'' m"
        by (auto simp: require_paper_safe_def require_def paper_config_error_def Let_def split: if_splits)
      moreover have "e = e' \<and> s = initial_cycle_state broker st"
        using Pair \<open>res = Inl e\<close> Inl unfolding run_paper_cycle_def by (simp add: then_st_def bind_st_def)
      ultimately show ?thesis by simp
    qed simp
    then show ?thesis using Pair Inl by (auto simp: initial_cycle_state_def)
  next
    case (Inr p)
    obtain r hb where "p = (r, hb)" by (cases p)
    note run = run_cycle_Inr [OF Pair [unfolded Inr this]]
    have "pt_gateway_rejected r + pt_deferred r + pt_submitted r + pt_submit_failed r + pt_duplicate_skipped r =
        int (length items)" "pt_requests_evaluated r = int (length items)"
      using run(2,3) by (simp_all add: cycle_result_def outcomes_def)
    moreover have "cfg_app_env config = VM_PAPER \<and> cfg_broker_mode config = broker_mode.PAPER \<and>
       \<not> cfg_live_submit_enabled config \<and> paper_submission_armed (lp_config broker) \<and>
       pb_paper_require_human_confirm (lp_config broker)"
      using run(1) by (auto simp: require_paper_safe_def require_eq_Inr Let_def)
    ultimately show ?thesis using Pair Inr \<open>p = (r, hb)\<close> by simp
  qed
qed

end
