(* ===== verification/Pipeline.thy ===== *)
theory Pipeline
  imports PaperCycle
begin

text \<open>
  The paper cycle end to end: under a storable codec, an approved request whose intent is confirmed
  goes through ticket, submit intent, persisted attempt, broker fill and execution report without
  an exception. The lemmas compute what each step of the cycle leaves behind on this path.
\<close>

section \<open>Appends that succeed\<close>

text \<open>What the cycles rely on in Pydantic's output: it is not empty and has no secret-like field.\<close>

definition storing_codec :: "codec \<Rightarrow> bool" where
  "storing_codec cd \<longleftrightarrow> (\<forall>obj. cd_dump cd obj \<noteq> [] \<and> assert_no_secrets (cd_dump cd obj) = Inr ())"

definition logged :: "codec \<Rightarrow> aware \<Rightarrow> hermes_model \<Rightarrow> aware \<Rightarrow> string option \<Rightarrow> audit_store \<Rightarrow> audit_store" where
  "logged cd rec obj c k st =
     \<lparr>st_rows = st_rows st @ [added_row cd st obj (Aware c) (Aware rec) k], st_last_seq = st_last_seq st + 1\<rparr>"

lemma logged_simps [simp]:
  "st_rows (logged cd rec obj c k st) = st_rows st @ [added_row cd st obj (Aware c) (Aware rec) k]"
  "st_last_seq (logged cd rec obj c k st) = st_last_seq st + 1"
  by (simp_all add: logged_def)

lemma attempts_logged [simp]: "attempts (logged cd rec obj c k st) = insert k (attempts st)"
  by (simp add: attempts_def added_row_def)

lemma append_ok:
  assumes "storing_codec cd" and "0 \<le> st_last_seq st" and "RECORD_TYPE_BY_CLASS obj \<noteq> None"
    and "derive_record_id cd obj \<noteq> []"
    and "k \<noteq> None \<longrightarrow> RECORD_TYPE_BY_CLASS obj = Some BROKER_SUBMIT_INTENT \<and> k \<notin> attempts st"
  shows "\<exists>e. append_event cd st obj (Aware c) (Aware rec) k = (Inr e, logged cd rec obj c k st) \<and>
    se_record_id e = derive_record_id cd obj"
proof -
  have s: "storable cd st obj k" using assms by (auto simp: storable_def storing_codec_def attempts_def)
  show ?thesis
    using append_storable [OF s, of "Aware c" "Aware rec"] assms(1,2,4)
    by (simp add: logged_def added_row_def row_to_event_def aware_of_def mk_stored_event_def stored_event_guards_def
        storing_codec_def payload_sha256_def)
qed

definition logged_trail ::
  "codec \<Rightarrow> aware \<Rightarrow> hermes_model \<Rightarrow> aware \<Rightarrow> paper_cycle_state \<Rightarrow> paper_cycle_state" where
  "logged_trail cd rec obj c s =
     s\<lparr>au_store := logged cd rec obj c None (au_store s), au_record_ids := au_record_ids s @ [derive_record_id cd obj]\<rparr>"

lemma logged_trail_simps [simp]:
  "au_store (logged_trail cd rec obj c s) = logged cd rec obj c None (au_store s)"
  "cy_broker (logged_trail cd rec obj c s) = cy_broker s"
  "cy_submitted (logged_trail cd rec obj c s) = cy_submitted s"
  by (simp_all add: logged_trail_def)

lemma audit_ok:
  assumes "storing_codec cd" and "0 \<le> st_last_seq (au_store s)" and "RECORD_TYPE_BY_CLASS obj \<noteq> None"
    and "derive_record_id cd obj \<noteq> []"
  shows "audit_step cd (Aware rec) obj (Aware c) s = (Inr (), logged_trail cd rec obj c s)"
  using append_ok [OF assms, of None c rec] by (auto simp: audit_step_def logged_trail_def)

lemma payload_sha256_neq_Nil [simp]: "payload_sha256 m \<noteq> []"
  using length_sha256_hexdigest [of m] by (auto simp: payload_sha256_def simp del: length_sha256_hexdigest)

lemma content_id_length [simp]: "content_id cd obj \<noteq> []"
proof -
  have "length (content_id cd obj) = 32" by (simp add: content_id_def payload_sha256_def)
  then show ?thesis by auto
qed

lemma record_ids_exist [simp]:
  "derive_record_id cd (GatewayRequest r) \<noteq> []" "derive_record_id cd (ValidatedTradeIntent v) \<noteq> []"
  "derive_record_id cd (OrderTicket t) \<noteq> []"
  by (simp_all add: derive_record_id_def derive_order_ticket_hash_def)

section \<open>The broker fill and its report\<close>

text \<open>The fill of the simulator that fills everything at once, reading its wall clock.\<close>

definition full_fill :: "fake_broker \<Rightarrow> aware \<Rightarrow> broker_submit_intent \<Rightarrow> broker_fill" where
  "full_fill b w i =
     \<lparr>bf_broker_order_id = \<lparr>bo_value = fake_order_value (bi_idempotency_key i), bo_broker_name = fk_broker_name b\<rparr>,
      bf_lifecycle_state = order_lifecycle_state.FILLED, bf_filled_contracts = requested i,
      bf_requested_contracts = requested i, bf_avg_fill_price = Some (fill_price i),
      bf_fill_timestamp = Some w, bf_submitted_at = bi_submitted_at i, bf_completed_at = Some w\<rparr>"

definition full_report :: "fake_broker \<Rightarrow> aware \<Rightarrow> broker_submit_intent \<Rightarrow> execution_report" where
  "full_report b w i =
     \<lparr>er_order_ticket_hash = bi_order_ticket_hash i, er_idempotency_key = bi_idempotency_key i,
      er_broker_order_id = fake_order_value (bi_idempotency_key i), er_lifecycle_state = order_lifecycle_state.FILLED,
      er_order_type = ot_order_type (bi_ticket i), er_filled_contracts = requested i,
      er_requested_contracts = requested i, er_avg_fill_price = Some (fill_price i), er_fill_timestamp = Some w,
      er_submitted_at = bi_submitted_at i, er_completed_at = Some w\<rparr>"

lemma simulate_full:
  assumes "fk_kind b = FakeFillBroker" and "fake_now b w = Aware t" and "fk_broker_name b \<noteq> []" and "0 < requested i"
  shows "simulate b w i = Inr (full_fill b t i)"
  using assms
  by (simp add: simulate_def fake_fill_def Let_def order_id_for_def mk_broker_order_id_def
      broker_order_id_guards_def fake_order_value_def aware_field_def mk_broker_fill_def broker_fill_guards_def
      full_fill_def)

lemma report_full:
  assumes "0 < requested i" and "at_us (bi_submitted_at i) \<le> at_us w" and "length (bi_order_ticket_hash i) = 64"
    and "bi_idempotency_key i \<noteq> []"
  shows "mint_execution_report (Inst i) (Inst (bf_broker_order_id (full_fill b w i)))
      (bf_lifecycle_state (full_fill b w i)) (bf_filled_contracts (full_fill b w i))
      (bf_avg_fill_price (full_fill b w i)) (map_option Aware (bf_fill_timestamp (full_fill b w i)))
      (map_option Aware (bf_completed_at (full_fill b w i))) = Inr (full_report b w i)"
  using assms
  by (simp add: full_fill_def mint_execution_report_def aware_field_def execution_report_from_gateway_def
      init_execution_report_def execution_report_guards_def before_submit_def at_defs fake_order_value_def
      full_report_def requested_def)

text \<open>The broker after the call.\<close>

definition filled_broker :: "local_paper_broker \<Rightarrow> aware \<Rightarrow> broker_submit_intent \<Rightarrow> local_paper_broker" where
  "filled_broker b w i = b\<lparr>lp_inner := (lp_inner b)
     \<lparr>fk_fills := AList.update (bi_idempotency_key i) (full_fill (lp_inner b) w i) (fk_fills (lp_inner b)),
      fk_index := AList.update (fake_order_value (bi_idempotency_key i)) (bi_idempotency_key i)
        (fk_index (lp_inner b))\<rparr>\<rparr>"

lemma paper_submit_full:
  assumes "fk_kind (lp_inner b) = FakeFillBroker" "fake_now (lp_inner b) w = Aware t" "fk_broker_name (lp_inner b) \<noteq> []"
    and "0 < requested i" and "paper_policy_ok (lp_config b) i" and "confirms dumpi h i" and "held b (bi_idempotency_key i) = None"
  shows "paper_submit_order dumpi b w (Inst i) h = (Inr (full_fill (lp_inner b) t i), filled_broker b t i)"
proof -
  have "validate_submit dumpi (lp_config b) (Inst i) h = Inr ()" by (simp add: validate_submit_iff assms)
  moreover have "bi_submit_mode i = submit_mode.PAPER" using assms(5) by (simp add: paper_policy_ok_def)
  ultimately show ?thesis
    using assms simulate_full [of "lp_inner b" w t i]
    by (simp add: paper_submit_passes fake_submit_order_def held_def filled_broker_def) (simp add: full_fill_def)
qed

section \<open>From a confirmed intent to a report\<close>

lemma submit_step_full:
  assumes "storing_codec (pc_codec a)" and "pc_recorded_at a = Aware rec" and "0 \<le> st_last_seq (au_store s)"
    and "Some (bi_idempotency_key i) \<notin> attempts (au_store s)"
    and "fk_kind (lp_inner (cy_broker s)) = FakeFillBroker" "fake_now (lp_inner (cy_broker s)) (pc_wall a n) = Aware w"
      "fk_broker_name (lp_inner (cy_broker s)) \<noteq> []"
    and "0 < requested i" and "paper_policy_ok (lp_config (cy_broker s)) i"
    and "confirms (dump_intent (pc_codec a)) h i" and "held (cy_broker s) (bi_idempotency_key i) = None"
    and "at_us (bi_submitted_at i) \<le> at_us w" and "length (bi_order_ticket_hash i) = 64"
    and "bi_idempotency_key i \<noteq> []"
  shows "\<exists>t. submit_step a n i h s = (Inr (), t) \<and> cy_submitted t = cy_submitted s + 1 \<and>
    cy_broker t = filled_broker (cy_broker s) w i \<and>
    (\<exists>rs row. st_rows (au_store t) = rs @ [row] \<and> sr_record_type row = EXECUTION_REPORT \<and>
       sr_record_id row = bi_idempotency_key i) \<and>
    Some (bi_idempotency_key i) \<in> attempts (au_store t)"
proof -
  let ?cd = "pc_codec a" and ?k = "bi_idempotency_key i" and ?b = "cy_broker s"
  let ?rep = "full_report (lp_inner ?b) w i"
  have "derive_record_id ?cd (BrokerSubmitIntent i) = ?k" by (simp add: derive_record_id_def)
  then obtain e where rec: "record_submit_attempt ?cd (au_store s) (Inst i) (Aware rec) =
      (Inr e, logged ?cd rec (BrokerSubmitIntent i) (bi_submitted_at i) (Some ?k) (au_store s))"
    using append_ok [OF assms(1,3), of "BrokerSubmitIntent i" "Some ?k" "bi_submitted_at i" rec] assms(4,14)
    by (auto simp: record_submit_attempt_def)
  let ?s1 = "s\<lparr>au_store := logged ?cd rec (BrokerSubmitIntent i) (bi_submitted_at i) (Some ?k) (au_store s),
    au_record_ids := au_record_ids s @ [se_record_id e]\<rparr>"
  let ?s2 = "?s1\<lparr>cy_broker := filled_broker ?b w i\<rparr>"
  have br: "broker_step a n i h ?s1 = (Inr (Inr (full_fill (lp_inner ?b) w i)), ?s2)"
    using paper_submit_full [OF assms(5-11)] by (simp add: broker_step_def)
  have id: "derive_record_id ?cd (ExecutionReport ?rep) = ?k" by (simp add: derive_record_id_def full_report_def)
  have "audit_step ?cd (Aware rec) (ExecutionReport ?rep) (Aware c) ?s2 =
      (Inr (), logged_trail ?cd rec (ExecutionReport ?rep) c ?s2)" for c
    using assms(1,3,14) id by (intro audit_ok) simp_all
  then have "report_step a n i (Inr (full_fill (lp_inner ?b) w i)) ?s2 =
      (Inr (), let u = logged_trail ?cd rec (ExecutionReport ?rep) (report_created_at ?rep) ?s2
               in u\<lparr>cy_submitted := cy_submitted u + 1\<rparr>)"
    by (simp add: report_step_def report_full [OF assms(8,12,13,14)] bind_st_Inr then_st_def assms(2) Let_def)
  then have "submit_step a n i h s =
      (Inr (), let u = logged_trail ?cd rec (ExecutionReport ?rep) (report_created_at ?rep) ?s2
               in u\<lparr>cy_submitted := cy_submitted u + 1\<rparr>)"
    using rec br by (simp add: submit_step_def assms(2) bind_st_Inr)
  then show ?thesis
    by (auto simp: Let_def added_row_def id)
qed

section \<open>The whole path\<close>

definition ticket_of :: "paper_cycle_args \<Rightarrow> order_routing_state \<Rightarrow> gateway_request \<Rightarrow> validated_trade_intent \<Rightarrow> order_ticket" where
  "ticket_of a rs r v = routed_ticket (gr_as_of r) v rs"

definition intent_of ::
  "paper_cycle_args \<Rightarrow> order_routing_state \<Rightarrow> decimal option \<Rightarrow> gateway_request \<Rightarrow> validated_trade_intent \<Rightarrow> broker_submit_intent" where
  "intent_of a rs price r v =
     (let t = ticket_of a rs r v in
      minted_intent (dump_ticket (pc_codec a)) t (pc_attempt_counter a) submit_mode.PAPER
        (if ot_order_type t = order_type.LIMIT then price else None) (gr_as_of r))"

lemma intent_of_simps [simp]:
  "bi_ticket (intent_of a rs price r v) = ticket_of a rs r v" "bi_submitted_at (intent_of a rs price r v) = gr_as_of r"
  "length (bi_order_ticket_hash (intent_of a rs price r v)) = 64" "bi_idempotency_key (intent_of a rs price r v) \<noteq> []"
  "requested (intent_of a rs price r v) = sl_contracts (ci_short_leg (vi_candidate v))"
  by (simp_all add: intent_of_def Let_def minted_intent_def compute_ticket_hash_def requested_def ticket_of_def
      routed_ticket_def)

lemma mint_intent_of:
  assumes "wf_validated_trade_intent v" and "wf_order_routing_state rs" and "1 \<le> pc_attempt_counter a"
    and "ot_order_type (ticket_of a rs r v) = order_type.LIMIT \<Longrightarrow> price \<noteq> None"
  shows "mint_broker_submit_intent clock (dump_ticket (pc_codec a)) (Inst (ticket_of a rs r v)) (pc_attempt_counter a)
      submit_mode.PAPER (if ot_order_type (ticket_of a rs r v) = order_type.LIMIT then price else None)
      (Some (Aware (gr_as_of r))) = Inr (intent_of a rs price r v)"
proof -
  have wf: "wf_order_ticket (ticket_of a rs r v)" using assms(1,2) by (simp add: ticket_of_def wf_routed_ticket)
  have "ot_created_at (ticket_of a rs r v) = gr_as_of r" by (simp add: ticket_of_def routed_ticket_def)
  moreover have "ot_order_type (ticket_of a rs r v) = order_type.MARKET \<or> ot_order_type (ticket_of a rs r v) = order_type.LIMIT"
    by (cases "ot_order_type (ticket_of a rs r v)") simp_all
  ultimately have "mintable (ticket_of a rs r v) (pc_attempt_counter a)
      (if ot_order_type (ticket_of a rs r v) = order_type.LIMIT then price else None) (gr_as_of r)"
    using assms(3,4) by (auto simp: mintable_def us_per_s_def)
  then show ?thesis by (simp add: mint_submit_Inst [OF wf] intent_of_def Let_def)
qed

lemma artifact_ok:
  assumes "storing_codec cd" and "0 \<le> st_last_seq (au_store s)" and "aid \<noteq> []" and "dec \<noteq> []"
    and "str_upper dec \<notin> {''REJECT'', ''HALT''} \<or> codes \<noteq> []"
  shows "\<exists>art. audit_new_artifact cd (Aware rec) aid dec codes detail s =
    (Inr (), logged_trail cd rec (AuditArtifact art) rec s)"
proof -
  let ?art = "\<lparr>aa_artifact_id = aid, aa_created_at = rec, aa_decision = dec, aa_reason_codes = codes, aa_detail = detail\<rparr>"
  have "new_artifact aid (Aware rec) dec codes detail = Inr ?art"
    using assms(3-5) by (auto simp: new_artifact_def aware_of_def mk_audit_artifact_def audit_artifact_guards_def)
  moreover have "audit_step cd (Aware rec) (AuditArtifact ?art) (Aware rec) s =
      (Inr (), logged_trail cd rec (AuditArtifact ?art) rec s)"
    using assms by (intro audit_ok) (simp_all add: derive_record_id_def)
  ultimately show ?thesis by (auto simp: audit_new_artifact_def bind_st_def)
qed

lemma startup_ok:
  assumes "storing_codec (pc_codec a)" and "pc_recorded_at a = Aware rec" and "0 \<le> st_last_seq (au_store s)"
  shows "\<exists>art. startup_step a config n s = (Inr (), logged_trail (pc_codec a) rec (AuditArtifact art) rec s)"
proof -
  have "str_upper ''PAPER_CYCLE_START'' = ''PAPER_CYCLE_START''" by code_simp
  then show ?thesis
    unfolding startup_step_def assms(2) by (simp add: bind_st_def) (rule artifact_ok [OF assms(1,3)]; simp)
qed

lemma item_step_full:
  assumes "storing_codec (pc_codec a)" and "pc_recorded_at a = Aware rec" and "0 \<le> st_last_seq (au_store s)"
    and "pc_routing_state a = Some rs" and "wf_order_routing_state rs"
    and "rs_requested_order_type rs \<noteq> Some order_type.MARKET"
    and "wf_gateway_request r" and "validate (pc_ct_offset a) (dump_request (pc_codec a)) r = Inr d"
    and "gd_approved d = Some v"
    and "ot_order_type (ticket_of a rs r v) = order_type.LIMIT \<Longrightarrow> price \<noteq> None" and "1 \<le> pc_attempt_counter a"
    and "pc_confirmer a = Some confirm" and "confirm (intent_of a rs price r v) = Inr (Some h)"
  shows "\<exists>t. item_step a n (Inst \<lparr>pr_request = Inst r, pr_limit_price = price\<rparr>) s =
      submit_step a n (intent_of a rs price r v) h t \<and>
    cy_broker t = cy_broker s \<and> cy_submitted t = cy_submitted s \<and> 0 \<le> st_last_seq (au_store t) \<and>
    (\<forall>k. Some k \<in> attempts (au_store t) \<longleftrightarrow> Some k \<in> attempts (au_store s))"
proof -
  let ?cd = "pc_codec a" and ?t = "ticket_of a rs r v"
  have v: "wf_validated_trade_intent v" by (rule approved_wf(1) [OF assms(7-9)])
  let ?s1 = "logged_trail ?cd rec (GatewayRequest r) (gr_as_of r) s"
  let ?s2 = "logged_trail ?cd rec (ValidatedTradeIntent v) (gr_as_of r) ?s1"
  let ?s3 = "logged_trail ?cd rec (OrderTicket ?t) (ot_created_at ?t) ?s2"
  have a1: "audit_step ?cd (Aware rec) (GatewayRequest r) (Aware (gr_as_of r)) s = (Inr (), ?s1)"
    by (rule audit_ok) (simp_all add: assms)
  have a2: "audit_step ?cd (Aware rec) (ValidatedTradeIntent v) (Aware (gr_as_of r)) ?s1 = (Inr (), ?s2)"
    by (rule audit_ok) (simp_all add: assms)
  have a3: "audit_step ?cd (Aware rec) (OrderTicket ?t) (Aware (ot_created_at ?t)) ?s2 = (Inr (), ?s3)"
    by (rule audit_ok) (simp_all add: assms)
  have mint: "mint_order_ticket now (Inst v) rs (Some (Aware (gr_as_of r))) = Inr ?t" for now
    using assms(6) by (simp add: mint_order_ticket_Inst [OF v] ticket_of_def)
  have mi: "mint_broker_submit_intent clock (dump_ticket ?cd) (Inst ?t) (pc_attempt_counter a)
      submit_mode.PAPER (if ot_order_type ?t = order_type.LIMIT then price else None)
      (Some (Aware (gr_as_of r))) = Inr (intent_of a rs price r v)" for clock
    by (rule mint_intent_of [OF v assms(5,11)]) (rule assms(10))
  have no_defer: "\<not> (ot_order_type ?t = order_type.LIMIT \<and> price = None)" using assms(10) by auto
  have "ticket_step a n price r ?t ?s2 = submit_step a n (intent_of a rs price r v) h ?s3"
    unfolding ticket_step_def assms(2) if_not_P [OF no_defer] mi
    using a3 by (simp add: then_st_def bind_st_Inr intent_step_def assms(12,13))
  then have "item_step a n (Inst \<lparr>pr_request = Inst r, pr_limit_price = price\<rparr>) s =
      submit_step a n (intent_of a rs price r v) h ?s3"
    using a1 a2 by (simp add: item_step_def assms(2,4,8,9) then_st_def bind_st_Inr decision_step_def is_approved_def mint)
  moreover have "0 \<le> st_last_seq (au_store ?s3)" using assms(3) by simp
  ultimately show ?thesis by (intro exI [of _ ?s3]) simp
qed

lemma executed_run:
  assumes codec: "storing_codec (pc_codec a)" and time: "pc_recorded_at a = Aware rec" "at_us (gr_as_of r) \<le> at_us w"
    and store: "0 \<le> st_last_seq st" "Some (bi_idempotency_key i) \<notin> attempts st"
    and config: "require_paper_safe config broker = Inr ()"
    and broker: "fk_kind (lp_inner broker) = FakeFillBroker" "fake_now (lp_inner broker) (pc_wall a 0) = Aware w"
      "fk_broker_name (lp_inner broker) \<noteq> []" "held broker (bi_idempotency_key i) = None"
    and routing: "pc_routing_state a = Some rs" "wf_order_routing_state rs"
      "rs_requested_order_type rs \<noteq> Some order_type.MARKET"
    and request: "wf_gateway_request r" "validate (pc_ct_offset a) (dump_request (pc_codec a)) r = Inr d"
      "gd_approved d = Some v"
    and intent: "i = intent_of a rs price r v" "1 \<le> pc_attempt_counter a"
      "ot_order_type (ticket_of a rs r v) = order_type.LIMIT \<Longrightarrow> price \<noteq> None"
    and confirmation: "pc_confirmer a = Some confirm" "confirm i = Inr (Some h)" "confirms (dump_intent (pc_codec a)) h i"
      "paper_policy_ok (lp_config broker) i"
  shows "\<exists>res hb s f rows row.
    run_paper_cycle a config broker st [Inst \<lparr>pr_request = Inst r, pr_limit_price = price\<rparr>] = (Inr (res, hb), s) \<and>
    pt_submitted res = 1 \<and> held (cy_broker s) (bi_idempotency_key i) = Some f \<and>
    bf_lifecycle_state f = order_lifecycle_state.FILLED \<and>
    bf_filled_contracts f = sl_contracts (ci_short_leg (gr_candidate r)) \<and>
    Some (bi_idempotency_key i) \<in> attempts (au_store s) \<and>
    st_rows (au_store s) = rows @ [row] \<and> sr_record_type row = EXECUTION_REPORT \<and>
    sr_record_id row = bi_idempotency_key i"
proof -
  let ?s0 = "initial_cycle_state broker st"
  have s0: "au_store ?s0 = st" "cy_broker ?s0 = broker" "cy_submitted ?s0 = 0" by (simp_all add: initial_cycle_state_def)
  obtain art where start: "startup_step a config 1 ?s0 = (Inr (), logged_trail (pc_codec a) rec (AuditArtifact art) rec ?s0)"
    using startup_ok [OF codec time(1), of ?s0 config 1] store(1) s0(1) by auto
  let ?s1 = "logged_trail (pc_codec a) rec (AuditArtifact art) rec ?s0"
  have seq1: "0 \<le> st_last_seq (au_store ?s1)" using store(1) s0(1) by simp
  obtain t where t: "item_step a 0 (Inst \<lparr>pr_request = Inst r, pr_limit_price = price\<rparr>) ?s1 = submit_step a 0 i h t"
    "cy_broker t = broker" "cy_submitted t = 0" "0 \<le> st_last_seq (au_store t)"
    "Some k \<in> attempts (au_store t) \<longleftrightarrow> Some k \<in> attempts st" for k
    using item_step_full [OF codec time(1) seq1 routing request _ intent(2) confirmation(1), of price h 0]
      intent(3) confirmation(2) s0 intent(1) by auto
  have cand: "vi_candidate v = gr_candidate r" and v: "wf_validated_trade_intent v"
    using approvedD(2) [OF request] approved_wf(1) [OF request] by auto
  then have pos: "0 < requested i"
    using wf_candidateD(10) intent(1) by (simp add: wf_validated_trade_intent_def)
  obtain u where u: "submit_step a 0 i h t = (Inr (), u)" "cy_submitted u = 1"
    "cy_broker u = filled_broker broker w i"
    "\<exists>rs row. st_rows (au_store u) = rs @ [row] \<and> sr_record_type row = EXECUTION_REPORT \<and> sr_record_id row = bi_idempotency_key i"
    "Some (bi_idempotency_key i) \<in> attempts (au_store u)"
    using submit_step_full [OF codec time(1) t(4), of i 0 w h] t(2,3,5) store(2) broker pos confirmation(3,4) time(2) intent(1)
    by auto
  have "run_paper_cycle a config broker st [Inst \<lparr>pr_request = Inst r, pr_limit_price = price\<rparr>] =
      (Inr (cycle_result a config 1 u, map_option (\<lambda>_. heartbeat_text a config 1 u) (pc_heartbeat_path a)), u)"
    using start t(1) u(1) by (simp add: run_paper_cycle_def config routing(1) Let_def then_st_def bind_st_Inr)
  moreover have "held (cy_broker u) (bi_idempotency_key i) = Some (full_fill (lp_inner broker) w i)"
    by (simp add: u(3) held_def filled_broker_def)
  moreover have "bf_filled_contracts (full_fill (lp_inner broker) w i) = sl_contracts (ci_short_leg (gr_candidate r))"
    using intent(1) cand by (simp add: full_fill_def)
  ultimately show ?thesis
    using u(2,4,5) by (auto simp: cycle_result_def full_fill_def)
qed


section \<open>A sample cycle\<close>

definition sample_confirmer :: "broker_submit_intent \<Rightarrow> paper_submit_approval dyn option res" where
  "sample_confirmer i = Inr (Some (Inst
     \<lparr>pa_order_ticket_hash = bi_order_ticket_hash i, pa_idempotency_key = bi_idempotency_key i,
      pa_approved_by = ''operator'', pa_approved_at = bi_submitted_at i, pa_submit_mode = submit_mode.PAPER,
      pa_full_intent_digest = sha256_hexdigest (dump_intent sample_codec i)\<rparr>))"

definition sample_args :: paper_cycle_args where
  "sample_args =
     \<lparr>pc_recorded_at = Aware sample_as_of, pc_routing_state = Some sample_routing, pc_confirmer = Some sample_confirmer,
      pc_attempt_counter = 1, pc_heartbeat_path = None, pc_ct_offset = sample_ct_offset, pc_codec = sample_codec,
      pc_wall = (\<lambda>_. sample_as_of)\<rparr>"

definition sample_broker :: local_paper_broker where
  "sample_broker = new_local_paper_broker (Some sample_paper_config) None"

definition sample_config :: app_config where
  "sample_config =
     \<lparr>cfg_app_env = VM_PAPER, cfg_broker_mode = broker_mode.PAPER, cfg_submission_enabled = True,
      cfg_paper_submit_enabled = True, cfg_live_submit_enabled = False, cfg_market_data_enabled = True,
      cfg_candidate_generation_enabled = True, cfg_gateway_enabled = True,
      cfg_order_ticketing_enabled = True, cfg_audit_db_path = ''audit.db''\<rparr>"

definition sample_items :: "paper_submit_request dyn list" where
  "sample_items = [Inst \<lparr>pr_request = Inst sample_request, pr_limit_price = Some (Dec 45 (- 2))\<rparr>]"

lemma sample_storing_codec: "storing_codec sample_codec"
  unfolding storing_codec_def
proof (intro allI conjI)
  fix obj
  show "cd_dump sample_codec obj \<noteq> []" by (cases obj) (simp_all add: sample_codec_def)
  have "assert_no_secrets (''{\"lifecycle_state\":\"'' @ order_lifecycle_state_value l @ ''\"}'') = Inr ()" for l
    by (induct l; code_simp)
  then show "assert_no_secrets (cd_dump sample_codec obj) = Inr ()"
    by (cases obj) (simp_all add: sample_codec_def sample_no_secrets)
qed

lemma sample_safe: "require_paper_safe sample_config sample_broker = Inr ()"
  by (simp add: require_paper_safe_def require_def sample_config_def sample_broker_def new_local_paper_broker_def
      sample_paper_config_def default_paper_broker_config_def paper_submission_armed_def Let_def)

lemma sample_approved:
  obtains d v where "validate sample_ct_offset (dump_request sample_codec) sample_request = Inr d"
    "gd_approved d = Some v" "vi_candidate v = sample_candidate"
  by (cases rule: validate_cases [OF sample_request_wf, of sample_ct_offset "dump_request sample_codec"])
    (auto simp: sample_request_clean, simp add: sample_request_def)

lemma sample_policy:
  assumes "vi_candidate v = sample_candidate"
  shows "paper_policy_ok sample_paper_config (intent_of sample_args sample_routing (Some (Dec 45 (- 2))) sample_request v)"
proof -
  have "ot_order_type (ticket_of sample_args sample_routing sample_request v) = order_type.LIMIT"
    "ot_validated_intent (ticket_of sample_args sample_routing sample_request v) = v"
    by (simp_all add: ticket_of_def routed_ticket_def resolve_order_type_def sample_routing_def)
  moreover have "bi_submit_mode (intent_of sample_args sample_routing (Some (Dec 45 (- 2))) sample_request v) = submit_mode.PAPER"
    by (simp add: intent_of_def Let_def minted_intent_def)
  ultimately show ?thesis
    by (simp add: paper_policy_ok_def assms)
      (simp add: sample_paper_config_def default_paper_broker_config_def sample_candidate_def sample_leg_def)
qed

lemma sample_run:
  "\<exists>res hb s. run_paper_cycle sample_args sample_config sample_broker new_audit_store sample_items = (Inr (res, hb), s) \<and>
     pt_submitted res = 1 \<and> (\<exists>k f. map_of (fk_fills (lp_inner (cy_broker s))) k = Some f)"
proof -
  obtain d v where dv: "validate sample_ct_offset (dump_request sample_codec) sample_request = Inr d"
    "gd_approved d = Some v" "vi_candidate v = sample_candidate" by (rule sample_approved)
  let ?i = "intent_of sample_args sample_routing (Some (Dec 45 (- 2))) sample_request v"
  have "\<exists>res hb s f rows row.
    run_paper_cycle sample_args sample_config sample_broker new_audit_store
      [Inst \<lparr>pr_request = Inst sample_request, pr_limit_price = Some (Dec 45 (- 2))\<rparr>] = (Inr (res, hb), s) \<and>
    pt_submitted res = 1 \<and> held (cy_broker s) (bi_idempotency_key ?i) = Some f \<and>
    bf_lifecycle_state f = order_lifecycle_state.FILLED \<and>
    bf_filled_contracts f = sl_contracts (ci_short_leg (gr_candidate sample_request)) \<and>
    Some (bi_idempotency_key ?i) \<in> attempts (au_store s) \<and>
    st_rows (au_store s) = rows @ [row] \<and> sr_record_type row = EXECUTION_REPORT \<and> sr_record_id row = bi_idempotency_key ?i"
  proof (rule executed_run [where rec = sample_as_of and w = sample_as_of and rs = sample_routing and d = d and v = v
        and confirm = sample_confirmer])
    show "sample_confirmer ?i = Inr (Some (Inst
     \<lparr>pa_order_ticket_hash = bi_order_ticket_hash ?i, pa_idempotency_key = bi_idempotency_key ?i,
      pa_approved_by = ''operator'', pa_approved_at = bi_submitted_at ?i, pa_submit_mode = submit_mode.PAPER,
      pa_full_intent_digest = sha256_hexdigest (dump_intent sample_codec ?i)\<rparr>))"
      by (simp add: sample_confirmer_def)
    show "require_paper_safe sample_config sample_broker = Inr ()" by (rule sample_safe)
    show "paper_policy_ok (lp_config sample_broker) ?i"
      using sample_policy [OF dv(3)] by (simp add: sample_broker_def new_local_paper_broker_def)
  qed (simp_all add: sample_args_def sample_storing_codec sample_safe sample_routing_wf sample_request_wf dv attempts_def
      new_audit_store_def sample_broker_def new_local_paper_broker_def new_fake_broker_def held_def confirms_def fake_now_def,
      simp_all add: sample_routing_def sample_request_def)
  then show ?thesis unfolding sample_items_def held_def by blast
qed

section \<open>Properties\<close>

text \<open>C6. A confirmed request is executed: when the gateway approves a well-formed request, the
  routing state asks for no MARKET order, a price is supplied for a LIMIT order, the configuration is
  paper-armed, the confirmer returns a valid confirmation of the minted intent, the intent satisfies
  the paper policy and was not attempted before, then the cycle does not raise, reports one
  submission, the broker holds a complete fill of the candidate's contracts under the intent's key,
  the attempt is persisted and the newest row is the execution report of that key.\<close>

theorem confirmed_request_is_executed:
  assumes codec: "storing_codec (pc_codec a)" and time: "pc_recorded_at a = Aware rec" "at_us (gr_as_of r) \<le> at_us w"
    and store: "0 \<le> st_last_seq st" "Some (bi_idempotency_key i) \<notin> attempts st"
    and config: "require_paper_safe config broker = Inr ()"
    and broker: "fk_kind (lp_inner broker) = FakeFillBroker" "fake_now (lp_inner broker) (pc_wall a 0) = Aware w"
      "fk_broker_name (lp_inner broker) \<noteq> []" "held broker (bi_idempotency_key i) = None"
    and routing: "pc_routing_state a = Some rs" "wf_order_routing_state rs"
      "rs_requested_order_type rs \<noteq> Some order_type.MARKET"
    and request: "wf_gateway_request r" "validate (pc_ct_offset a) (dump_request (pc_codec a)) r = Inr d"
      "gd_approved d = Some v"
    and intent: "i = intent_of a rs price r v" "1 \<le> pc_attempt_counter a"
      "ot_order_type (ticket_of a rs r v) = order_type.LIMIT \<Longrightarrow> price \<noteq> None"
    and confirmation: "pc_confirmer a = Some confirm" "confirm i = Inr (Some h)" "confirms (dump_intent (pc_codec a)) h i"
      "paper_policy_ok (lp_config broker) i"
  shows "\<exists>res hb s f rows row.
    run_paper_cycle a config broker st [Inst \<lparr>pr_request = Inst r, pr_limit_price = price\<rparr>] = (Inr (res, hb), s) \<and>
    pt_submitted res = 1 \<and> held (cy_broker s) (bi_idempotency_key i) = Some f \<and>
    bf_lifecycle_state f = order_lifecycle_state.FILLED \<and>
    bf_filled_contracts f = sl_contracts (ci_short_leg (gr_candidate r)) \<and>
    Some (bi_idempotency_key i) \<in> attempts (au_store s) \<and>
    st_rows (au_store s) = rows @ [row] \<and> sr_record_type row = EXECUTION_REPORT \<and>
    sr_record_id row = bi_idempotency_key i"
  using assms by (rule executed_run)

theorem confirmed_request_is_executed_witness:
  "\<exists>res hb s. run_paper_cycle sample_args sample_config sample_broker new_audit_store sample_items = (Inr (res, hb), s) \<and>
     pt_submitted res = 1"
proof -
  obtain d v where dv: "validate sample_ct_offset (dump_request sample_codec) sample_request = Inr d"
    "gd_approved d = Some v" "vi_candidate v = sample_candidate" by (rule sample_approved)
  let ?i = "intent_of sample_args sample_routing (Some (Dec 45 (- 2))) sample_request v"
  have "\<exists>res hb s f rows row.
    run_paper_cycle sample_args sample_config sample_broker new_audit_store
      [Inst \<lparr>pr_request = Inst sample_request, pr_limit_price = Some (Dec 45 (- 2))\<rparr>] = (Inr (res, hb), s) \<and>
    pt_submitted res = 1 \<and> held (cy_broker s) (bi_idempotency_key ?i) = Some f \<and>
    bf_lifecycle_state f = order_lifecycle_state.FILLED \<and>
    bf_filled_contracts f = sl_contracts (ci_short_leg (gr_candidate sample_request)) \<and>
    Some (bi_idempotency_key ?i) \<in> attempts (au_store s) \<and>
    st_rows (au_store s) = rows @ [row] \<and> sr_record_type row = EXECUTION_REPORT \<and> sr_record_id row = bi_idempotency_key ?i"
  proof (rule confirmed_request_is_executed [where rec = sample_as_of and w = sample_as_of and rs = sample_routing and d = d and v = v
        and confirm = sample_confirmer])
    show "sample_confirmer ?i = Inr (Some (Inst
     \<lparr>pa_order_ticket_hash = bi_order_ticket_hash ?i, pa_idempotency_key = bi_idempotency_key ?i,
      pa_approved_by = ''operator'', pa_approved_at = bi_submitted_at ?i, pa_submit_mode = submit_mode.PAPER,
      pa_full_intent_digest = sha256_hexdigest (dump_intent sample_codec ?i)\<rparr>))"
      by (simp add: sample_confirmer_def)
    show "require_paper_safe sample_config sample_broker = Inr ()" by (rule sample_safe)
    show "paper_policy_ok (lp_config sample_broker) ?i"
      using sample_policy [OF dv(3)] by (simp add: sample_broker_def new_local_paper_broker_def)
  qed (simp_all add: sample_args_def sample_storing_codec sample_safe sample_routing_wf sample_request_wf dv attempts_def
      new_audit_store_def sample_broker_def new_local_paper_broker_def new_fake_broker_def held_def confirms_def fake_now_def,
      simp_all add: sample_routing_def sample_request_def)
  then show ?thesis by (auto simp: sample_items_def)
qed

text \<open>The safety properties of the cycle, at the sample run.\<close>

lemma sample_broker_empty: "map_of (fk_fills (lp_inner sample_broker)) k = None"
  by (simp add: sample_broker_def new_local_paper_broker_def new_fake_broker_def)

theorem cycle_persists_before_submit_witness:
  "\<exists>res s k f. run_paper_cycle sample_args sample_config sample_broker new_audit_store sample_items = (res, s) \<and>
     map_of (fk_fills (lp_inner (cy_broker s))) k = Some f \<and> (\<exists>row\<in>set (st_rows (au_store s)). sr_idempotency_key row = Some k)"
proof -
  obtain res s k f where run: "run_paper_cycle sample_args sample_config sample_broker new_audit_store sample_items = (res, s)"
    "map_of (fk_fills (lp_inner (cy_broker s))) k = Some f"
    using sample_run by blast
  show ?thesis
    using cycle_persists_before_submit [OF run(1)] run sample_broker_empty by fastforce
qed

theorem cycle_orders_are_confirmed_witness:
  "\<exists>i h. sample_confirmer i = Inr (Some h) \<and> paper_policy_ok sample_paper_config i"
proof -
  obtain res s k f where run: "run_paper_cycle sample_args sample_config sample_broker new_audit_store sample_items = (res, s)"
    "map_of (fk_fills (lp_inner (cy_broker s))) k = Some f"
    using sample_run by blast
  have "lp_config sample_broker = sample_paper_config" "pc_confirmer sample_args = Some sample_confirmer"
    by (simp_all add: sample_broker_def new_local_paper_broker_def sample_args_def)
  then show ?thesis
    using cycle_orders_are_confirmed [OF run sample_broker_empty] by auto
qed

end
