(* ===== verification/Rehydration.thy ===== *)
theory Rehydration
  imports AuditStore
begin

text \<open>
  Trusted rehydration of persisted objects (\<open>storage/models.py\<close> and
  \<open>AuditStore.rehydrate\<close>): the reconstructors of the four gated types read the fields of the
  parsed payload and go through the gated constructor, so every check of the type runs again. The
  last section proves the round trip.
\<close>

section \<open>Fields of a payload\<close>

definition reason_code_of :: "string \<Rightarrow> reason_code option" where
  "reason_code_of v = find (\<lambda>c. reason_code_value c = v)
     [reason_code.PRICE_STALE, reason_code.IVR_STALE, reason_code.ACCOUNT_TYPE_NOT_PERMITTED,
      reason_code.MINIMUM_EQUITY_BREACH, reason_code.DRAWDOWN_HALT_ACTIVE,
      reason_code.SECONDARY_FEED_MISMATCH, reason_code.HEAT_LIMIT_EXCEEDED,
      reason_code.BUYING_POWER_LIMIT_EXCEEDED, reason_code.DELTA_BAND_VIOLATION,
      reason_code.ENTRY_WINDOW_CLOSED, reason_code.EVENT_BLACKOUT_ACTIVE,
      reason_code.CONTRACT_METADATA_INVALID, reason_code.LIQUIDITY_GATE_FAILED,
      reason_code.BROKEN_SPREAD_STATE, reason_code.HUMAN_REARM_REQUIRED,
      reason_code.ANTI_MARTINGALE_VIOLATION, reason_code.CONCENTRATION_LIMIT_EXCEEDED,
      reason_code.PROTECTION_HIERARCHY_VIOLATION, reason_code.SECONDARY_FEED_NOT_CERTIFIED,
      reason_code.EXECUTION_QUALITY_SUSPENDED, reason_code.STRATEGY_NOT_LIVE_APPROVED,
      reason_code.INSTRUMENT_NOT_PERMITTED, reason_code.INTERNAL_CONTRADICTION,
      reason_code.DATA_TIMESTAMP_INVALID, reason_code.DTE_MISMATCH,
      reason_code.CONTRACT_SPREAD_MISMATCH, reason_code.RECONCILIATION_MISMATCH,
      reason_code.OPERATOR_HALT_COMMAND, reason_code.OPERATOR_RESUME_COMMAND,
      reason_code.OPERATOR_CANCEL_COMMAND, reason_code.OPERATOR_FLATTEN_COMMAND]"

definition rearm_mode_of :: "string \<Rightarrow> rearm_mode_enum option" where
  "rearm_mode_of v = find (\<lambda>c. rearm_mode_enum_value c = v)
     [rearm_mode_enum.AUTO_NEXT_SESSION, rearm_mode_enum.HUMAN_ONLY, rearm_mode_enum.HUMAN_ONLY_AFTER_REVIEW]"

definition submit_mode_of :: "string \<Rightarrow> submit_mode option" where
  "submit_mode_of v = find (\<lambda>c. submit_mode_value c = v) [submit_mode.LIVE, submit_mode.PAPER]"

definition order_type_of :: "string \<Rightarrow> order_type option" where
  "order_type_of v = find (\<lambda>c. order_type_value c = v) [order_type.LIMIT, order_type.MARKET]"

definition emergency_state_of :: "string \<Rightarrow> emergency_state option" where
  "emergency_state_of v = find (\<lambda>c. emergency_state_value c = v)
     [emergency_state.NORMAL, emergency_state.BROKEN_SPREAD, emergency_state.EMERGENCY_RISK_REDUCTION,
      emergency_state.FORCED_LIQUIDATION]"

primrec snapshot_source_value :: "position_snapshot_source \<Rightarrow> string" where
  "snapshot_source_value BROKER_REPORT = ''BROKER_REPORT''"
| "snapshot_source_value EXECUTION_LEDGER = ''EXECUTION_LEDGER''"

definition snapshot_source_of :: "string \<Rightarrow> position_snapshot_source option" where
  "snapshot_source_of v = find (\<lambda>c. snapshot_source_value c = v) [BROKER_REPORT, EXECUTION_LEDGER]"

text \<open>A field that the strict model takes as it is.\<close>

definition strict_str :: "string \<Rightarrow> json \<Rightarrow> string res" where
  "strict_str name v = (case v of JStr s \<Rightarrow> Inr s | _ \<Rightarrow> Inl (ValidationError name))"

definition strict_int :: "string \<Rightarrow> json \<Rightarrow> int res" where
  "strict_int name v = (case v of JInt n \<Rightarrow> Inr n | _ \<Rightarrow> Inl (ValidationError name))"

definition strict_bool :: "string \<Rightarrow> json \<Rightarrow> bool res" where
  "strict_bool name v = (case v of JBool b \<Rightarrow> Inr b | _ \<Rightarrow> Inl (ValidationError name))"

definition strict_str_option :: "string \<Rightarrow> json \<Rightarrow> string option res" where
  "strict_str_option name v = (case v of JNull \<Rightarrow> Inr None | _ \<Rightarrow> map_res Some (strict_str name v))"

definition opt_json :: "(json \<Rightarrow> 'a res) \<Rightarrow> json \<Rightarrow> 'a option res" where
  "opt_json f v = (case v of JNull \<Rightarrow> Inr None | _ \<Rightarrow> map_res Some (f v))"

definition fromisoformat :: "codec \<Rightarrow> json \<Rightarrow> datetime res" where
  "fromisoformat cd v =
     (case v of JStr s \<Rightarrow> cd_datetime cd s | _ \<Rightarrow> Inl (TypeError ''fromisoformat: argument must be str''))"

text \<open>\<open>datetime.fromisoformat(str(value))\<close> of \<open>_datetime_or_none\<close>.\<close>

definition datetime_of_json :: "codec \<Rightarrow> json \<Rightarrow> datetime res" where
  "datetime_of_json cd v =
     (case v of
        JStr s \<Rightarrow> cd_datetime cd s
      | JInt n \<Rightarrow> cd_datetime cd (int_str n)
      | _ \<Rightarrow> Inl (ValueError ''Invalid isoformat string''))"

definition decimal_or_none :: "codec \<Rightarrow> json \<Rightarrow> decimal option res" where
  "decimal_or_none cd v = opt_json (cd_decimal cd) v"

definition datetime_or_none :: "codec \<Rightarrow> json \<Rightarrow> datetime option res" where
  "datetime_or_none cd v = opt_json (datetime_of_json cd) v"

definition json_list :: "json \<Rightarrow> json list res" where
  "json_list v = (case v of JArr xs \<Rightarrow> Inr xs | _ \<Rightarrow> Inl (TypeError ''not a list''))"

section \<open>Reconstructors\<close>

definition rehydrate_broker_submit_intent :: "codec \<Rightarrow> json \<Rightarrow> broker_submit_intent res" where
  "rehydrate_broker_submit_intent cd data =
     bind_res (bind_res (json_get data ''ticket'') (cd_ticket cd)) (\<lambda>ticket.
     bind_res (json_get data ''order_ticket_hash'') (\<lambda>h.
     bind_res (json_get data ''idempotency_key'') (\<lambda>k.
     bind_res (json_get data ''attempt_counter'') (\<lambda>n.
     bind_res (bind_res (json_get data ''submit_mode'') (enum_of_json submit_mode_of)) (\<lambda>mode.
     bind_res (bind_res (json_get data ''submitted_at'') (fromisoformat cd)) (\<lambda>submitted.
     bind_res (bind_res (json_get data ''limit_price'') (decimal_or_none cd)) (\<lambda>price.
     bind_res (strict_str ''order_ticket_hash'' h) (\<lambda>h.
     bind_res (strict_str ''idempotency_key'' k) (\<lambda>k.
     bind_res (strict_int ''attempt_counter'' n) (\<lambda>n.
     bind_res (aware_of ''submitted_at'' submitted) (\<lambda>submitted.
     submit_intent_from_gateway (\<lambda>t. cd_dump cd (OrderTicket t))
       \<lparr>bi_ticket = ticket, bi_order_ticket_hash = h, bi_idempotency_key = k, bi_attempt_counter = n,
        bi_submit_mode = mode, bi_submitted_at = submitted, bi_limit_price = price\<rparr>)))))))))))"

definition rehydrate_execution_report :: "codec \<Rightarrow> json \<Rightarrow> execution_report res" where
  "rehydrate_execution_report cd data =
     bind_res (json_get data ''order_ticket_hash'') (\<lambda>h.
     bind_res (json_get data ''idempotency_key'') (\<lambda>k.
     bind_res (json_get data ''broker_order_id'') (\<lambda>oid.
     bind_res (bind_res (json_get data ''lifecycle_state'') (enum_of_json lifecycle_of)) (\<lambda>state.
     bind_res (bind_res (json_get data ''order_type'') (enum_of_json order_type_of)) (\<lambda>ty.
     bind_res (json_get data ''filled_contracts'') (\<lambda>filled.
     bind_res (json_get data ''requested_contracts'') (\<lambda>req.
     bind_res (bind_res (json_get data ''avg_fill_price'') (decimal_or_none cd)) (\<lambda>price.
     bind_res (bind_res (json_get data ''fill_timestamp'') (datetime_or_none cd)) (\<lambda>ft.
     bind_res (bind_res (json_get data ''submitted_at'') (fromisoformat cd)) (\<lambda>submitted.
     bind_res (bind_res (json_get data ''completed_at'') (datetime_or_none cd)) (\<lambda>ct.
     bind_res (strict_str ''order_ticket_hash'' h) (\<lambda>h.
     bind_res (strict_str ''idempotency_key'' k) (\<lambda>k.
     bind_res (strict_str ''broker_order_id'' oid) (\<lambda>oid.
     bind_res (strict_int ''filled_contracts'' filled) (\<lambda>filled.
     bind_res (strict_int ''requested_contracts'' req) (\<lambda>req.
     bind_res (aware_field ''fill_timestamp'' ft) (\<lambda>ft.
     bind_res (aware_of ''submitted_at'' submitted) (\<lambda>submitted.
     bind_res (aware_field ''completed_at'' ct) (\<lambda>ct.
     execution_report_from_gateway
       \<lparr>er_order_ticket_hash = h, er_idempotency_key = k, er_broker_order_id = oid,
        er_lifecycle_state = state, er_order_type = ty, er_filled_contracts = filled,
        er_requested_contracts = req, er_avg_fill_price = price, er_fill_timestamp = ft,
        er_submitted_at = submitted, er_completed_at = ct\<rparr>)))))))))))))))))))"

definition rehydrate_kill_switch_state :: "codec \<Rightarrow> json \<Rightarrow> kill_switch_state res" where
  "rehydrate_kill_switch_state cd data =
     bind_res (json_get data ''halted'') (\<lambda>halted.
     bind_res (bind_res (json_get data ''reason_code'') (opt_json (enum_of_json reason_code_of))) (\<lambda>code.
     bind_res (bind_res (json_get data ''rearm_mode'') (opt_json (enum_of_json rearm_mode_of))) (\<lambda>mode.
     bind_res (json_get data ''command_id'') (\<lambda>cid.
     bind_res (bind_res (json_get data ''created_at'') (fromisoformat cd)) (\<lambda>created.
     bind_res (json_get data ''note'') (\<lambda>note.
     bind_res (strict_bool ''halted'' halted) (\<lambda>halted.
     bind_res (strict_str ''command_id'' cid) (\<lambda>cid.
     bind_res (aware_of ''created_at'' created) (\<lambda>created.
     bind_res (strict_str ''note'' note) (\<lambda>note.
     kill_switch_state_from_gateway
       \<lparr>ks_halted = halted, ks_reason_code = code, ks_rearm_mode = mode, ks_command_id = cid,
        ks_created_at = created, ks_note = note\<rparr>))))))))))"

definition rehydrate_position_snapshot :: "codec \<Rightarrow> json \<Rightarrow> position_snapshot res" where
  "rehydrate_position_snapshot cd data =
     bind_res (bind_res (bind_res (json_get data ''legs'') json_list) (collect_res (cd_leg cd))) (\<lambda>legs.
     bind_res (json_get data ''snapshot_id'') (\<lambda>sid.
     bind_res (bind_res (json_get data ''source'') (enum_of_json snapshot_source_of)) (\<lambda>source.
     bind_res (json_get data ''source_id'') (\<lambda>srcid.
     bind_res (bind_res (json_get data ''created_at'') (fromisoformat cd)) (\<lambda>created.
     bind_res (bind_res (json_get data ''as_of'') (fromisoformat cd)) (\<lambda>as_of.
     bind_res (bind_res (json_get data ''execution_report_ids'') json_list) (\<lambda>ids.
     bind_res (json_get data ''broker_name'') (\<lambda>name.
     bind_res (bind_res (json_get data ''emergency_state'') (enum_of_json emergency_state_of)) (\<lambda>state.
     bind_res (strict_str ''snapshot_id'' sid) (\<lambda>sid.
     bind_res (strict_str ''source_id'' srcid) (\<lambda>srcid.
     bind_res (aware_of ''created_at'' created) (\<lambda>created.
     bind_res (aware_of ''as_of'' as_of) (\<lambda>as_of.
     bind_res (collect_res (strict_str ''execution_report_ids'') ids) (\<lambda>ids.
     bind_res (strict_str_option ''broker_name'' name) (\<lambda>name.
     position_snapshot_from_gateway
       \<lparr>pn_snapshot_id = sid, pn_source = source, pn_source_id = srcid, pn_created_at = created,
        pn_as_of = as_of, pn_legs = legs, pn_execution_report_ids = ids, pn_broker_name = name,
        pn_emergency_state = state\<rparr>)))))))))))))))"

definition GATED_REHYDRATORS :: "codec \<Rightarrow> record_type \<Rightarrow> (json \<Rightarrow> hermes_model res) option" where
  "GATED_REHYDRATORS cd rt =
     (case rt of
        BROKER_SUBMIT_INTENT \<Rightarrow> Some (map_res BrokerSubmitIntent \<circ> rehydrate_broker_submit_intent cd)
      | EXECUTION_REPORT \<Rightarrow> Some (map_res ExecutionReport \<circ> rehydrate_execution_report cd)
      | POSITION_SNAPSHOT \<Rightarrow> Some (map_res PositionSnapshot \<circ> rehydrate_position_snapshot cd)
      | KILL_SWITCH_STATE \<Rightarrow> Some (map_res KillSwitchState \<circ> rehydrate_kill_switch_state cd)
      | _ \<Rightarrow> None)"

definition is_gated_record_type :: "record_type \<Rightarrow> bool" where
  "is_gated_record_type rt \<longleftrightarrow>
     rt \<in> {BROKER_SUBMIT_INTENT, EXECUTION_REPORT, POSITION_SNAPSHOT, KILL_SWITCH_STATE}"

text \<open>The registry holds the record types of \<open>RECORD_TYPE_BY_CLASS\<close>, all but one.\<close>

definition in_rehydration_registry :: "record_type \<Rightarrow> bool" where
  "in_rehydration_registry rt \<longleftrightarrow> rt \<noteq> GATEWAY_DECISION"

definition rehydrate_payload :: "codec \<Rightarrow> stored_event \<Rightarrow> bool \<Rightarrow> hermes_model res" where
  "rehydrate_payload cd e allow_gated =
     require (payload_sha256 (se_payload_json e) = se_payload_sha256 e)
       (StorageError PayloadIntegrityError ''payload SHA-256 mismatch'') (
     require (in_rehydration_registry (se_record_type e))
       (StorageError UnrehydratableRecordError ''no trusted rehydration mapping yet'') (
     case GATED_REHYDRATORS cd (se_record_type e) of
       Some gated \<Rightarrow>
         require allow_gated (StorageError UnverifiedProvenanceError ''requires store-verified provenance'')
           (bind_res (json_loads (se_payload_json e)) gated)
     | None \<Rightarrow> cd_model cd (se_record_type e) (se_payload_json e)))"

text \<open>The free path, for callers that hold an event of unproven origin.\<close>

definition rehydrate_free :: "codec \<Rightarrow> stored_event \<Rightarrow> hermes_model res" where
  "rehydrate_free cd e = rehydrate_payload cd e False"

definition assert_provenance :: "audit_store \<Rightarrow> stored_event \<Rightarrow> unit res" where
  "assert_provenance st e =
     bind_res (get_by_seq st (se_seq e)) (\<lambda>stored.
     case stored of
       None \<Rightarrow> Inl (StorageError UnverifiedProvenanceError ''does not match a row persisted by this store'')
     | Some s \<Rightarrow>
         require (event_eq s e)
           (StorageError UnverifiedProvenanceError ''does not match a row persisted by this store'') (Inr ()))"

definition rehydrate :: "codec \<Rightarrow> audit_store \<Rightarrow> stored_event \<Rightarrow> hermes_model res" where
  "rehydrate cd st e = bind_res (assert_provenance st e) (\<lambda>_. rehydrate_payload cd e True)"

section \<open>Lemmas\<close>

lemma lifecycle_round_trip [simp]: "lifecycle_of (order_lifecycle_state_value s) = Some s"
  by (induct s; code_simp)

lemma order_type_round_trip [simp]: "order_type_of (order_type_value ty) = Some ty"
  by (induct ty; code_simp)

lemma submit_mode_round_trip [simp]: "submit_mode_of (submit_mode_value m) = Some m"
  by (induct m; code_simp)

lemma rearm_mode_round_trip [simp]: "rearm_mode_of (rearm_mode_enum_value a) = Some a"
  by (induct a; code_simp)

lemma emergency_state_round_trip [simp]: "emergency_state_of (emergency_state_value x) = Some x"
  by (induct x; code_simp)

lemma snapshot_source_round_trip [simp]: "snapshot_source_of (snapshot_source_value y) = Some y"
  by (induct y; code_simp)

lemma reason_code_round_trip [simp]: "reason_code_of (reason_code_value c) = Some c"
  by (induct c; code_simp)

lemma GATED_None_iff: "GATED_REHYDRATORS cd rt = None \<longleftrightarrow> \<not> is_gated_record_type rt"
  by (cases rt) (simp_all add: GATED_REHYDRATORS_def is_gated_record_type_def)

lemma assert_provenance_Inr:
  assumes "assert_provenance st e = Inr u"
  shows "\<exists>row\<in>set (st_rows st). \<exists>s. row_to_event row = Inr s \<and> event_eq s e"
  using assms
  by (auto simp: assert_provenance_def get_by_seq_def first_event_def bind_res_eq_Inr require_eq_Inr map_res_eq_Inr
      split: option.splits dest!: find_SomeD)

lemma event_eq_refl [simp]: "event_eq e e"
  by (simp add: event_eq_def at_defs)

lemma provenance_of_appended:
  assumes "store_ok st" and "append_event cd st obj c r k = (Inr e, st')"
  shows "assert_provenance (run_appends cd st' ops) e = Inr ()"
  using get_by_seq_appended [OF assms, of ops] by (simp add: assert_provenance_def)

lemma rehydrate_appended:
  assumes "store_ok st" and "append_event cd st obj c r k = (Inr e, st')"
    and "GATED_REHYDRATORS cd (se_record_type e) = Some g"
  shows "rehydrate cd (run_appends cd st' ops) e = bind_res (json_loads (cd_dump cd obj)) g"
proof -
  have s: "storable cd st obj k"
    using assms(2) append_not_storable [of cd st obj k c r] by auto
  then have "row_to_event (added_row cd st obj c r k) = Inr e"
    using assms(2) append_storable [OF s, of c r] by auto
  from row_to_event_Inr [OF this] have "se_payload_json e = cd_dump cd obj"
    "se_payload_sha256 e = payload_sha256 (cd_dump cd obj)" by (simp_all add: added_row_def)
  moreover have "in_rehydration_registry (se_record_type e)"
    using assms(3) by (auto simp: in_rehydration_registry_def GATED_REHYDRATORS_def)
  ultimately show ?thesis
    using provenance_of_appended [OF assms(1,2), of ops] assms(3)
    by (simp add: rehydrate_def rehydrate_payload_def)
qed

lemma appended_type:
  assumes "append_event cd st obj c r k = (Inr e, st')"
  shows "RECORD_TYPE_BY_CLASS obj = Some (se_record_type e)"
proof -
  have s: "storable cd st obj k"
    using assms append_not_storable [of cd st obj k c r] by auto
  then have "row_to_event (added_row cd st obj c r k) = Inr e"
    using assms append_storable [OF s, of c r] by auto
  from row_to_event_Inr [OF this] s show ?thesis by (auto simp: added_row_def storable_def)
qed

lemma content_id_neq_Nil: "content_id cd obj \<noteq> []"
proof -
  have "length (content_id cd obj) = 32" by (simp add: content_id_def payload_sha256_def)
  then show ?thesis by auto
qed

text \<open>The gated constructors check what they build.\<close>

definition checked_model :: "codec \<Rightarrow> hermes_model \<Rightarrow> bool" where
  "checked_model cd obj \<longleftrightarrow>
     (case obj of
        BrokerSubmitIntent i \<Rightarrow> passes_guards (broker_submit_intent_guards (\<lambda>t. cd_dump cd (OrderTicket t)) i)
      | ExecutionReport r \<Rightarrow> wf_execution_report r
      | PositionSnapshot p \<Rightarrow> passes_guards (position_snapshot_guards p)
      | KillSwitchState k \<Rightarrow> wf_kill_switch_state k
      | _ \<Rightarrow> False)"

lemma rehydrators_check:
  "rehydrate_broker_submit_intent cd d = Inr i \<Longrightarrow> checked_model cd (BrokerSubmitIntent i)"
  "rehydrate_execution_report cd d = Inr r \<Longrightarrow> checked_model cd (ExecutionReport r)"
  "rehydrate_position_snapshot cd d = Inr p \<Longrightarrow> checked_model cd (PositionSnapshot p)"
  "rehydrate_kill_switch_state cd d = Inr k \<Longrightarrow> checked_model cd (KillSwitchState k)"
  unfolding rehydrate_broker_submit_intent_def rehydrate_execution_report_def rehydrate_position_snapshot_def
    rehydrate_kill_switch_state_def bind_res_eq_Inr submit_intent_from_gateway_def init_broker_submit_intent_def
    execution_report_from_gateway_def init_execution_report_def position_snapshot_from_gateway_def
    init_position_snapshot_def kill_switch_state_from_gateway_def init_kill_switch_state_def
  by (auto simp: construct_eq_Inr checked_model_def wf_execution_report_def wf_kill_switch_state_def)

lemma gated_check: "GATED_REHYDRATORS cd rt = Some g \<Longrightarrow> g d = Inr obj \<Longrightarrow> checked_model cd obj"
  by (cases rt) (auto simp: GATED_REHYDRATORS_def map_res_eq_Inr dest: rehydrators_check)

section \<open>Properties\<close>

text \<open>C14. A protected object comes only out of the store: the free path refuses every event of a
  gated type, and the trusted path returns an object only for an event equal to one this store
  holds, whose payload has the recorded SHA-256, and only after every check of the type has passed
  again.\<close>

theorem protected_only_from_store:
  assumes "is_gated_record_type (se_record_type e)"
  shows "\<not> is_ok (rehydrate_free cd e) \<and>
    (\<forall>obj. rehydrate cd st e = Inr obj \<longrightarrow>
       (\<exists>row\<in>set (st_rows st). \<exists>s. row_to_event row = Inr s \<and> event_eq s e) \<and>
       sha256_hexdigest (se_payload_json e) = se_payload_sha256 e \<and> checked_model cd obj)"
proof -
  obtain g where g: "GATED_REHYDRATORS cd (se_record_type e) = Some g"
    using assms GATED_None_iff [of cd "se_record_type e"] by blast
  show ?thesis
  proof (intro conjI allI impI)
    show "\<not> is_ok (rehydrate_free cd e)"
      using g by (auto simp: rehydrate_free_def rehydrate_payload_def is_ok_iff require_eq_Inr)
  next
    fix obj
    assume "rehydrate cd st e = Inr obj"
    then have "assert_provenance st e = Inr ()" and p: "rehydrate_payload cd e True = Inr obj"
      by (auto simp: rehydrate_def bind_res_eq_Inr)
    then show "\<exists>row\<in>set (st_rows st). \<exists>s. row_to_event row = Inr s \<and> event_eq s e"
      by (simp add: assert_provenance_Inr)
    show "sha256_hexdigest (se_payload_json e) = se_payload_sha256 e"
      using p by (simp add: rehydrate_payload_def require_eq_Inr payload_sha256_def)
    show "checked_model cd obj"
      using p g by (auto simp: rehydrate_payload_def require_eq_Inr bind_res_eq_Inr intro: gated_check)
  qed
qed

definition sample_forged_event :: stored_event where
  "sample_forged_event =
     \<lparr>se_seq = 1, se_record_type = EXECUTION_REPORT, se_record_id = ''k1'', se_idempotency_key = None,
      se_order_ticket_hash = None, se_created_at = utc 0, se_recorded_at = utc 0, se_payload_json = ''{}'',
      se_payload_sha256 = sha256_hexdigest ''{}''\<rparr>"

theorem protected_only_from_store_witness:
  "\<not> is_ok (rehydrate_free sample_codec sample_forged_event) \<and>
   \<not> is_ok (rehydrate sample_codec sample_store sample_forged_event)"
proof -
  have "is_gated_record_type (se_record_type sample_forged_event)"
    by (simp add: sample_forged_event_def is_gated_record_type_def)
  note p = protected_only_from_store [OF this, of sample_codec sample_store]
  have "\<not> (\<exists>row\<in>set (st_rows sample_store). \<exists>s. row_to_event row = Inr s \<and> event_eq s sample_forged_event)"
    by (auto simp: sample_store_def sample_row_def sample_forged_event_def event_eq_def dest!: row_to_event_Inr)
  then show ?thesis using p by (auto simp: is_ok_iff)
qed

text \<open>What Pydantic writes for a report and for a kill switch, given the text \<open>isot\<close> of a
  datetime and \<open>dec\<close> of a decimal.\<close>

definition opt_text :: "('a \<Rightarrow> string) \<Rightarrow> 'a option \<Rightarrow> json" where
  "opt_text f x = (case x of None \<Rightarrow> JNull | Some v \<Rightarrow> JStr (f v))"

definition report_json :: "(aware \<Rightarrow> string) \<Rightarrow> (decimal \<Rightarrow> string) \<Rightarrow> execution_report \<Rightarrow> json" where
  "report_json isot dec r = JObj
     [(''order_ticket_hash'', JStr (er_order_ticket_hash r)), (''idempotency_key'', JStr (er_idempotency_key r)),
      (''broker_order_id'', JStr (er_broker_order_id r)),
      (''lifecycle_state'', JStr (order_lifecycle_state_value (er_lifecycle_state r))),
      (''order_type'', JStr (order_type_value (er_order_type r))),
      (''filled_contracts'', JInt (er_filled_contracts r)), (''requested_contracts'', JInt (er_requested_contracts r)),
      (''avg_fill_price'', opt_text dec (er_avg_fill_price r)),
      (''fill_timestamp'', opt_text isot (er_fill_timestamp r)),
      (''submitted_at'', JStr (isot (er_submitted_at r))), (''completed_at'', opt_text isot (er_completed_at r))]"

definition kill_switch_json :: "(aware \<Rightarrow> string) \<Rightarrow> kill_switch_state \<Rightarrow> json" where
  "kill_switch_json isot k = JObj
     [(''halted'', JBool (ks_halted k)), (''reason_code'', opt_text reason_code_value (ks_reason_code k)),
      (''rearm_mode'', opt_text rearm_mode_enum_value (ks_rearm_mode k)), (''command_id'', JStr (ks_command_id k)),
      (''created_at'', JStr (isot (ks_created_at k))), (''note'', JStr (ks_note k))]"

definition report_times :: "execution_report \<Rightarrow> aware set" where
  "report_times r =
     insert (er_submitted_at r) (set_option (er_fill_timestamp r) \<union> set_option (er_completed_at r))"

definition reads_back :: "codec \<Rightarrow> (aware \<Rightarrow> string) \<Rightarrow> (decimal \<Rightarrow> string) \<Rightarrow> aware set \<Rightarrow> decimal set \<Rightarrow> bool" where
  "reads_back cd isot dec ts ds \<longleftrightarrow>
     (\<forall>t\<in>ts. cd_datetime cd (isot t) = Inr (Aware t)) \<and> (\<forall>d\<in>ds. cd_decimal cd (JStr (dec d)) = Inr d)"

lemma opt_json_text [simp]:
  "opt_json f (opt_text g x) = (case x of None \<Rightarrow> Inr None | Some v \<Rightarrow> map_res Some (f (JStr (g v))))"
  by (simp add: opt_json_def opt_text_def split: option.splits)

lemma report_eta:
  "\<lparr>er_order_ticket_hash = er_order_ticket_hash r, er_idempotency_key = er_idempotency_key r,
    er_broker_order_id = er_broker_order_id r, er_lifecycle_state = er_lifecycle_state r,
    er_order_type = er_order_type r, er_filled_contracts = er_filled_contracts r,
    er_requested_contracts = er_requested_contracts r, er_avg_fill_price = er_avg_fill_price r,
    er_fill_timestamp = er_fill_timestamp r, er_submitted_at = er_submitted_at r,
    er_completed_at = er_completed_at r\<rparr> = r"
  by (cases r) simp

lemma kill_switch_eta:
  "\<lparr>ks_halted = ks_halted k, ks_reason_code = ks_reason_code k, ks_rearm_mode = ks_rearm_mode k,
    ks_command_id = ks_command_id k, ks_created_at = ks_created_at k, ks_note = ks_note k\<rparr> = k"
  by (cases k) simp

lemma rehydrate_report_json:
  assumes "wf_execution_report r" and "reads_back cd isot dec (report_times r) (set_option (er_avg_fill_price r))"
  shows "rehydrate_execution_report cd (report_json isot dec r) = Inr r"
proof -
  have "decimal_or_none cd (opt_text dec (er_avg_fill_price r)) = Inr (er_avg_fill_price r)"
    "datetime_or_none cd (opt_text isot (er_fill_timestamp r)) = Inr (map_option Aware (er_fill_timestamp r))"
    "datetime_or_none cd (opt_text isot (er_completed_at r)) = Inr (map_option Aware (er_completed_at r))"
    "fromisoformat cd (JStr (isot (er_submitted_at r))) = Inr (Aware (er_submitted_at r))"
    "aware_field n (map_option Aware t) = Inr t" for n t
    using assms(2)
    by (auto simp: reads_back_def report_times_def decimal_or_none_def datetime_or_none_def datetime_of_json_def
        fromisoformat_def aware_field_def split: option.splits)
  then show ?thesis
    using assms(1)
    by (simp add: rehydrate_execution_report_def report_json_def json_get_def enum_of_json_def strict_str_def
        strict_int_def aware_of_def execution_report_from_gateway_def init_execution_report_def
        wf_execution_report_def report_eta)
qed

lemma rehydrate_kill_switch_json:
  assumes "wf_kill_switch_state k" and "cd_datetime cd (isot (ks_created_at k)) = Inr (Aware (ks_created_at k))"
  shows "rehydrate_kill_switch_state cd (kill_switch_json isot k) = Inr k"
proof -
  have "opt_json (enum_of_json reason_code_of) (opt_text reason_code_value c) = Inr c" for c
    by (simp add: enum_of_json_def split: option.splits)
  moreover have "opt_json (enum_of_json rearm_mode_of) (opt_text rearm_mode_enum_value m) = Inr m" for m
    by (simp add: enum_of_json_def split: option.splits)
  ultimately show ?thesis
    using assms
    by (simp add: rehydrate_kill_switch_state_def kill_switch_json_def json_get_def strict_str_def strict_bool_def
        aware_of_def fromisoformat_def kill_switch_state_from_gateway_def init_kill_switch_state_def
        wf_kill_switch_state_def kill_switch_eta)
qed

text \<open>C15. Store round trip: a well-formed execution report or kill switch that was appended to a
  store, with Pydantic writing its fields as JSON and the standard library reading timestamps and
  prices back, is rehydrated to the same object, whatever was appended in between.\<close>

theorem store_round_trip:
  assumes "st = run_appends cd new_audit_store before"
  shows "(append_event cd st (ExecutionReport r) c rec None = (Inr e, st') \<longrightarrow> wf_execution_report r \<longrightarrow>
      json_loads (cd_dump cd (ExecutionReport r)) = Inr (report_json isot dec r) \<longrightarrow>
      reads_back cd isot dec (report_times r) (set_option (er_avg_fill_price r)) \<longrightarrow>
      rehydrate cd (run_appends cd st' later) e = Inr (ExecutionReport r)) \<and>
    (append_event cd st (KillSwitchState k) c rec None = (Inr e, st') \<longrightarrow> wf_kill_switch_state k \<longrightarrow>
      json_loads (cd_dump cd (KillSwitchState k)) = Inr (kill_switch_json isot k) \<longrightarrow>
      reads_back cd isot dec {ks_created_at k} {} \<longrightarrow>
      rehydrate cd (run_appends cd st' later) e = Inr (KillSwitchState k))"
proof -
  have ok: "store_ok st" unfolding assms by (rule run_appends_ok [OF store_ok_new])
  have "rehydrate cd (run_appends cd st' later) e = Inr (ExecutionReport r)"
    if "append_event cd st (ExecutionReport r) c rec None = (Inr e, st')" "wf_execution_report r"
      "json_loads (cd_dump cd (ExecutionReport r)) = Inr (report_json isot dec r)"
      "reads_back cd isot dec (report_times r) (set_option (er_avg_fill_price r))"
    using rehydrate_appended [OF ok that(1)] appended_type [OF that(1)] rehydrate_report_json [OF that(2,4)] that(3)
    by (simp add: GATED_REHYDRATORS_def)
  moreover have "rehydrate cd (run_appends cd st' later) e = Inr (KillSwitchState k)"
    if "append_event cd st (KillSwitchState k) c rec None = (Inr e, st')" "wf_kill_switch_state k"
      "json_loads (cd_dump cd (KillSwitchState k)) = Inr (kill_switch_json isot k)"
      "reads_back cd isot dec {ks_created_at k} {}"
    using rehydrate_appended [OF ok that(1)] appended_type [OF that(1)]
      rehydrate_kill_switch_json [OF that(2), of cd isot] that(3,4)
    by (simp add: GATED_REHYDRATORS_def reads_back_def)
  ultimately show ?thesis by blast
qed

definition sample_kill_switch :: kill_switch_state where
  "sample_kill_switch =
     \<lparr>ks_halted = True, ks_reason_code = Some OPERATOR_HALT_COMMAND, ks_rearm_mode = Some rearm_mode_enum.HUMAN_ONLY,
      ks_command_id = ''c1'', ks_created_at = utc 0, ks_note = ''stop''\<rparr>"

definition sample_switch_codec :: codec where
  "sample_switch_codec = sample_codec\<lparr>cd_dump := (\<lambda>_.
     ''{\"halted\":true,\"reason_code\":\"OPERATOR_HALT_COMMAND\",\"rearm_mode\":\"HUMAN_ONLY\",\"command_id\":\"c1\",\"created_at\":\"1970-01-01T00:00:00Z\",\"note\":\"stop\"}''),
     cd_datetime := (\<lambda>_. Inr (Aware (utc 0)))\<rparr>"

lemma sample_switch_loads:
  "json_loads (cd_dump sample_switch_codec (KillSwitchState sample_kill_switch)) =
     Inr (kill_switch_json (\<lambda>_. ''1970-01-01T00:00:00Z'') sample_kill_switch)"
  by code_simp

lemma sample_switch_append:
  "\<exists>e st'. append_event sample_switch_codec new_audit_store (KillSwitchState sample_kill_switch) (Aware (utc 0))
     (Aware (utc 0)) None = (Inr e, st')"
proof -
  have "assert_no_secrets (cd_dump sample_switch_codec (KillSwitchState sample_kill_switch)) = Inr ()" by code_simp
  then have "storable sample_switch_codec new_audit_store (KillSwitchState sample_kill_switch) None"
    by (simp add: storable_def)
  moreover have "cd_dump sample_switch_codec (KillSwitchState sample_kill_switch) \<noteq> []"
    by (simp add: sample_switch_codec_def)
  ultimately show ?thesis
    using append_storable [of sample_switch_codec new_audit_store]
    by (simp add: row_to_event_def added_row_def aware_of_def mk_stored_event_def stored_event_guards_def
        derive_record_id_def content_id_neq_Nil payload_sha256_def new_audit_store_def)
qed

theorem store_round_trip_witness:
  "\<exists>e st'. append_event sample_switch_codec new_audit_store (KillSwitchState sample_kill_switch) (Aware (utc 0))
     (Aware (utc 0)) None = (Inr e, st') \<and>
     rehydrate sample_switch_codec st' e = Inr (KillSwitchState sample_kill_switch)"
proof -
  obtain e st' where a: "append_event sample_switch_codec new_audit_store (KillSwitchState sample_kill_switch)
      (Aware (utc 0)) (Aware (utc 0)) None = (Inr e, st')"
    using sample_switch_append by blast
  have "wf_kill_switch_state sample_kill_switch" by code_simp
  moreover have "reads_back sample_switch_codec (\<lambda>_. ''1970-01-01T00:00:00Z'') (\<lambda>_. []) {ks_created_at sample_kill_switch} {}"
    by (simp add: reads_back_def sample_switch_codec_def sample_kill_switch_def)
  ultimately show ?thesis
    using store_round_trip [of new_audit_store sample_switch_codec "[]", OF run_appends_simps(1) [symmetric],
        where later = "[]" and k = sample_kill_switch and e = e and st' = st' and c = "Aware (utc 0)"
          and rec = "Aware (utc 0)" and isot = "\<lambda>_. ''1970-01-01T00:00:00Z''" and dec = "\<lambda>_. []"]
      a sample_switch_loads by auto
qed

end
