(* ===== verification/ControlPlane.thy ===== *)
theory ControlPlane
  imports PaperCycle Rehydration
begin

text \<open>
  The human control plane: operator commands of \<open>ops/control_plane.py\<close>, the report models of
  \<open>ops/status_report.py\<close> and the command line of \<open>ops/commands.py\<close>. The state is the
  audit store, the broker (if one is configured) and the registry of authorisation tokens. The
  broker is any adapter: a record of the three operations the control plane calls, instantiated
  with the fake and the paper broker. What the environment supplies is the record
  \<open>plane_env\<close>: the codec, the reading of the clock, the wall clock of the broker at each
  cancellation and the writer of an exported event.
\<close>

section \<open>Commands and errors\<close>

definition CMD_STATUS :: string where "CMD_STATUS = ''status''"
definition CMD_HALT :: string where "CMD_HALT = ''halt-new-entries''"
definition CMD_RESUME :: string where "CMD_RESUME = ''resume-new-entries''"
definition CMD_FLATTEN :: string where "CMD_FLATTEN = ''flatten-paper-only''"
definition CMD_CANCEL :: string where "CMD_CANCEL = ''cancel-open-orders''"
definition CMD_SHOW_OPEN_ORDERS :: string where "CMD_SHOW_OPEN_ORDERS = ''show-open-orders''"
definition CMD_SHOW_POSITIONS :: string where "CMD_SHOW_POSITIONS = ''show-positions''"
definition CMD_SHOW_LAST_DECISION :: string where "CMD_SHOW_LAST_DECISION = ''show-last-decision''"
definition CMD_EXPORT_AUDIT :: string where "CMD_EXPORT_AUDIT = ''export-audit''"

lemmas CMD_defs = CMD_STATUS_def CMD_HALT_def CMD_RESUME_def CMD_FLATTEN_def CMD_CANCEL_def
  CMD_SHOW_OPEN_ORDERS_def CMD_SHOW_POSITIONS_def CMD_SHOW_LAST_DECISION_def CMD_EXPORT_AUDIT_def

definition OPERATOR_REASON_BY_COMMAND :: "(string \<times> reason_code) list" where
  "OPERATOR_REASON_BY_COMMAND =
     [(CMD_HALT, OPERATOR_HALT_COMMAND), (CMD_RESUME, OPERATOR_RESUME_COMMAND),
      (CMD_CANCEL, OPERATOR_CANCEL_COMMAND), (CMD_FLATTEN, OPERATOR_FLATTEN_COMMAND)]"

definition operator_reason :: "string \<Rightarrow> reason_code res" where
  "operator_reason command =
     (case map_of OPERATOR_REASON_BY_COMMAND command of Some c \<Rightarrow> Inr c | None \<Rightarrow> Inl (KeyError command))"

definition DECISION_RECORD_TYPES :: "record_type set" where
  "DECISION_RECORD_TYPES = {VALIDATED_TRADE_INTENT, ORDER_TICKET}"

definition operator_authority_error :: "string \<Rightarrow> py_error" where
  "operator_authority_error m = OperatorError ''OperatorAuthorityError'' m"

definition operator_confirmation_error :: "string \<Rightarrow> py_error" where
  "operator_confirmation_error m = OperatorError ''OperatorConfirmationError'' m"

definition operator_mode_error :: "string \<Rightarrow> py_error" where
  "operator_mode_error m = OperatorError ''OperatorModeError'' m"

definition broker_unavailable_error :: "string \<Rightarrow> py_error" where
  "broker_unavailable_error m = OperatorError ''BrokerAdapterUnavailableError'' m"

definition cancel_identity_error :: "string \<Rightarrow> py_error" where
  "cancel_identity_error m = OperatorError ''OperatorCancelIdentityError'' m"

primrec record_type_value :: "record_type \<Rightarrow> string" where
  "record_type_value GATEWAY_REQUEST = ''GATEWAY_REQUEST''"
| "record_type_value GATEWAY_DECISION = ''GATEWAY_DECISION''"
| "record_type_value VALIDATED_TRADE_INTENT = ''VALIDATED_TRADE_INTENT''"
| "record_type_value ORDER_ROUTE_DECISION = ''ORDER_ROUTE_DECISION''"
| "record_type_value ORDER_TICKET = ''ORDER_TICKET''"
| "record_type_value BROKER_SUBMIT_INTENT = ''BROKER_SUBMIT_INTENT''"
| "record_type_value EXECUTION_REPORT = ''EXECUTION_REPORT''"
| "record_type_value POSITION_SNAPSHOT = ''POSITION_SNAPSHOT''"
| "record_type_value RECONCILIATION_SNAPSHOT = ''RECONCILIATION_SNAPSHOT''"
| "record_type_value HUMAN_REQUIRED_EVENT = ''HUMAN_REQUIRED_EVENT''"
| "record_type_value KILL_SWITCH_STATE = ''KILL_SWITCH_STATE''"
| "record_type_value AUDIT_ARTIFACT = ''AUDIT_ARTIFACT''"
| "record_type_value DAILY_REPORT = ''DAILY_REPORT''"
| "record_type_value RISK_REPORT = ''RISK_REPORT''"

lemma record_type_value_inj: "record_type_value a = record_type_value b \<longleftrightarrow> a = b"
  by (cases a; cases b) simp_all

section \<open>Human authorisation\<close>

text \<open>A token is an object whose only property is its identity, a number here; what it authorises
  is in the registry.\<close>

record auth_registry =
  ar_bindings :: "(nat \<times> string) list"
  ar_next :: nat

definition new_auth_registry :: auth_registry where
  "new_auth_registry = \<lparr>ar_bindings = [], ar_next = 0\<rparr>"

definition authorized_command :: "auth_registry \<Rightarrow> nat dyn \<Rightarrow> string option" where
  "authorized_command reg auth =
     (case auth of NotInst _ \<Rightarrow> None | Inst token \<Rightarrow> map_of (ar_bindings reg) token)"

definition confirm_human ::
  "auth_registry \<Rightarrow> string \<Rightarrow> string \<Rightarrow> string \<Rightarrow> nat res \<times> auth_registry" where
  "confirm_human reg command typed expected =
     (if typed \<noteq> expected then (Inl (operator_confirmation_error ''confirmation did not match''), reg)
      else
        (Inr (ar_next reg),
         \<lparr>ar_bindings = AList.update (ar_next reg) command (ar_bindings reg), ar_next = Suc (ar_next reg)\<rparr>))"

definition mint_kill_switch_state ::
  "bool \<Rightarrow> reason_code option \<Rightarrow> rearm_mode_enum option \<Rightarrow> string \<Rightarrow> datetime \<Rightarrow> string \<Rightarrow> kill_switch_state res" where
  "mint_kill_switch_state halted code mode command_id created_at note =
     bind_res (aware_of ''created_at'' created_at) (\<lambda>ts.
     kill_switch_state_from_gateway
       \<lparr>ks_halted = halted, ks_reason_code = code, ks_rearm_mode = mode, ks_command_id = command_id,
        ks_created_at = ts, ks_note = note\<rparr>)"

section \<open>Reports\<close>

record order_view =
  ow_broker_order_id :: string
  ow_broker_name :: string
  ow_lifecycle_state :: order_lifecycle_state
  ow_filled_contracts :: int
  ow_requested_contracts :: int

definition order_view_guards :: "order_view \<Rightarrow> (bool \<times> string) list" where
  "order_view_guards v =
     [(ow_broker_order_id v = [], ''broker_order_id''), (ow_broker_name v = [], ''broker_name''),
      (ow_filled_contracts v < 0, ''filled_contracts''), (ow_requested_contracts v \<le> 0, ''requested_contracts'')]"

definition order_view_of :: "broker_fill \<Rightarrow> order_view res" where
  "order_view_of fill =
     (let v = \<lparr>ow_broker_order_id = bo_value (bf_broker_order_id fill),
               ow_broker_name = bo_broker_name (bf_broker_order_id fill),
               ow_lifecycle_state = bf_lifecycle_state fill, ow_filled_contracts = bf_filled_contracts fill,
               ow_requested_contracts = bf_requested_contracts fill\<rparr>
      in construct (order_view_guards v) v)"

record position_view =
  qv_symbol :: string
  qv_quantity :: int
  qv_average_price :: decimal

definition position_view_of :: "broker_position_view \<Rightarrow> position_view res" where
  "position_view_of p =
     construct [(pv_symbol p = [], ''symbol'')]
       \<lparr>qv_symbol = pv_symbol p, qv_quantity = pv_quantity p, qv_average_price = pv_average_price p\<rparr>"

record status_report =
  sp_halted :: bool
  sp_reason_code :: "reason_code option"
  sp_rearm_mode :: "rearm_mode_enum option"
  sp_kill_switch_command_id :: "string option"
  sp_broker_mode :: "broker_mode option"
  sp_total_audit_events :: int
  sp_generated_at :: aware

record open_orders_report =
  op_orders :: "order_view list"
  op_generated_at :: aware

record positions_report =
  ps_positions :: "position_view list"
  ps_generated_at :: aware

record last_decision_report =
  ld_found :: bool
  ld_record_type :: "string option"
  ld_record_id :: "string option"
  ld_decision_at :: "aware option"
  ld_summary :: string
  ld_generated_at :: aware

record cancel_report =
  cn_cancelled :: "order_view list"
  cn_generated_at :: aware

record flatten_report =
  fl_broker_mode :: broker_mode
  fl_cancelled_orders :: "order_view list"
  fl_open_positions_remaining :: "position_view list"
  fl_note :: string
  fl_generated_at :: aware

record export_report =
  ex_path :: string
  ex_event_count :: int
  ex_generated_at :: aware

section \<open>The service\<close>

record 'b adapter =
  ad_open_orders :: "'b \<Rightarrow> broker_fill list res"
  ad_positions :: "'b \<Rightarrow> broker_position_view list res"
  ad_cancel :: "'b \<Rightarrow> aware \<Rightarrow> broker_order_id \<Rightarrow> broker_fill res \<times> 'b"

definition fake_adapter :: "fake_broker adapter" where
  "fake_adapter = \<lparr>ad_open_orders = Inr \<circ> fake_get_open_orders, ad_positions = Inr \<circ> fake_get_positions,
     ad_cancel = fake_cancel_order\<rparr>"

definition paper_adapter :: "local_paper_broker adapter" where
  "paper_adapter = \<lparr>ad_open_orders = Inr \<circ> paper_get_open_orders, ad_positions = Inr \<circ> paper_get_positions,
     ad_cancel = paper_cancel_order\<rparr>"

record 'b plane_env =
  pe_codec :: codec
  pe_adapter :: "'b adapter"
  pe_broker_mode :: "broker_mode option"
  pe_now :: datetime
  pe_wall :: "int \<Rightarrow> aware"
  pe_dump_event :: "stored_event \<Rightarrow> string"

record 'b plane =
  pl_store :: audit_store
  pl_broker :: "'b option"
  pl_registry :: auth_registry

type_synonym ('b, 'a) command = "('b plane, 'a) step"

definition event_count :: "audit_store \<Rightarrow> int res" where
  "event_count st = map_res (\<lambda>es. int (length es)) (iter_events st None)"

definition new_artifact_id :: "audit_store \<Rightarrow> string \<Rightarrow> datetime \<Rightarrow> string res" where
  "new_artifact_id st command now =
     map_res (\<lambda>n. command @ '':'' @ int_str n @ '':'' @ dt_stamp now) (event_count st)"

definition store_append :: "'b plane_env \<Rightarrow> hermes_model \<Rightarrow> datetime \<Rightarrow> ('b, stored_event) command" where
  "store_append env obj created_at = (\<lambda>s.
     case append_event (pe_codec env) (pl_store s) obj created_at (pe_now env) None of
       (r, st) \<Rightarrow> (r, s\<lparr>pl_store := st\<rparr>))"

definition audit ::
  "'b plane_env \<Rightarrow> string \<Rightarrow> string \<Rightarrow> reason_code list \<Rightarrow> string \<Rightarrow> ('b, audit_artifact) command" where
  "audit env command decision codes detail =
     bind_st (gets_st pl_store) (\<lambda>st.
     bind_st (lift_res (new_artifact_id st command (pe_now env))) (\<lambda>aid.
     bind_st (lift_res (new_artifact aid (pe_now env) decision codes (if detail = [] then command else detail))) (\<lambda>a.
     then_st (store_append env (AuditArtifact a) (pe_now env)) (return_st a))))"

text \<open>\<open>problem\<close> in \<open>_require_human\<close>.\<close>

definition authority_problem :: "auth_registry \<Rightarrow> nat dyn \<Rightarrow> string \<Rightarrow> string option" where
  "authority_problem reg auth command =
     (case authorized_command reg auth of
        None \<Rightarrow> Some (''got '' @ (case auth of Inst _ \<Rightarrow> ''HumanAuthorization'' | NotInst t \<Rightarrow> t))
      | Some bound \<Rightarrow> if bound \<noteq> command then Some (''authorization was issued for '' @ bound) else None)"

definition require_human :: "'b plane_env \<Rightarrow> nat dyn \<Rightarrow> string \<Rightarrow> ('b, unit) command" where
  "require_human env auth command =
     bind_st (gets_st pl_registry) (\<lambda>reg.
     case authority_problem reg auth command of
       None \<Rightarrow> return_st ()
     | Some problem \<Rightarrow>
         bind_st (lift_res (operator_reason command)) (\<lambda>code.
         then_st (audit env command ''REJECT'' [code] (''unauthorized: '' @ problem))
           (raise_st (operator_authority_error (command @ '' requires explicit human authorization'')))))"

definition record_command_rejection :: "'b plane_env \<Rightarrow> string \<Rightarrow> string \<Rightarrow> ('b, audit_artifact) command" where
  "record_command_rejection env command detail =
     bind_st (lift_res (operator_reason command)) (\<lambda>code. audit env command ''REJECT'' [code] detail)"

definition current_kill_switch :: "codec \<Rightarrow> audit_store \<Rightarrow> kill_switch_state option res" where
  "current_kill_switch cd st =
     bind_res (iter_events st (Some KILL_SWITCH_STATE)) (\<lambda>events.
     if events = [] then Inr None
     else
       bind_res (rehydrate cd st (last events)) (\<lambda>obj.
       case obj of KillSwitchState k \<Rightarrow> Inr (Some k) | _ \<Rightarrow> Inl (AssertionError ''isinstance(state, KillSwitchState)'')))"

definition new_entries_allowed :: "codec \<Rightarrow> audit_store \<Rightarrow> bool res" where
  "new_entries_allowed cd st =
     map_res (\<lambda>state. case state of None \<Rightarrow> True | Some k \<Rightarrow> ks_new_entries_allowed k) (current_kill_switch cd st)"

definition kill_switch_now :: "'b plane_env \<Rightarrow> ('b, kill_switch_state option) command" where
  "kill_switch_now env = bind_st (gets_st pl_store) (\<lambda>st. lift_res (current_kill_switch (pe_codec env) st))"

definition generated_at :: "'b plane_env \<Rightarrow> ('b, aware) command" where
  "generated_at env = lift_res (aware_of ''generated_at'' (pe_now env))"

subsection \<open>Read commands\<close>

definition status :: "'b plane_env \<Rightarrow> ('b, status_report) command" where
  "status env =
     then_st (audit env CMD_STATUS ''READ'' [] [])
     (bind_st (kill_switch_now env) (\<lambda>state.
      bind_st (gets_st pl_store) (\<lambda>st.
      bind_st (lift_res (event_count st)) (\<lambda>n.
      bind_st (generated_at env) (\<lambda>ts.
      return_st
        \<lparr>sp_halted = (case state of None \<Rightarrow> False | Some k \<Rightarrow> ks_halted k),
         sp_reason_code = Option.bind state ks_reason_code, sp_rearm_mode = Option.bind state ks_rearm_mode,
         sp_kill_switch_command_id = map_option ks_command_id state, sp_broker_mode = pe_broker_mode env,
         sp_total_audit_events = n, sp_generated_at = ts\<rparr>)))))"

definition show_open_orders :: "'b plane_env \<Rightarrow> ('b, open_orders_report) command" where
  "show_open_orders env =
     then_st (audit env CMD_SHOW_OPEN_ORDERS ''READ'' [] [])
     (bind_st (gets_st pl_broker) (\<lambda>broker.
      bind_st (lift_res (case broker of None \<Rightarrow> Inr [] | Some b \<Rightarrow> ad_open_orders (pe_adapter env) b)) (\<lambda>orders.
      bind_st (lift_res (collect_res order_view_of orders)) (\<lambda>views.
      bind_st (generated_at env) (\<lambda>ts.
      return_st \<lparr>op_orders = views, op_generated_at = ts\<rparr>)))))"

definition show_positions :: "'b plane_env \<Rightarrow> ('b, positions_report) command" where
  "show_positions env =
     then_st (audit env CMD_SHOW_POSITIONS ''READ'' [] [])
     (bind_st (gets_st pl_broker) (\<lambda>broker.
      bind_st (lift_res (case broker of None \<Rightarrow> Inr [] | Some b \<Rightarrow> ad_positions (pe_adapter env) b)) (\<lambda>positions.
      bind_st (lift_res (collect_res position_view_of positions)) (\<lambda>views.
      bind_st (generated_at env) (\<lambda>ts.
      return_st \<lparr>ps_positions = views, ps_generated_at = ts\<rparr>)))))"

definition show_last_decision :: "'b plane_env \<Rightarrow> ('b, last_decision_report) command" where
  "show_last_decision env =
     then_st (audit env CMD_SHOW_LAST_DECISION ''READ'' [] [])
     (bind_st (gets_st pl_store) (\<lambda>st.
      bind_st (lift_res (iter_events st None)) (\<lambda>events.
      bind_st (generated_at env) (\<lambda>ts.
      case filter (\<lambda>e. se_record_type e \<in> DECISION_RECORD_TYPES) events of
        [] \<Rightarrow> return_st
          \<lparr>ld_found = False, ld_record_type = None, ld_record_id = None, ld_decision_at = None, ld_summary = [],
           ld_generated_at = ts\<rparr>
      | decisions \<Rightarrow>
          let latest = last decisions in
          return_st
          \<lparr>ld_found = True, ld_record_type = Some (record_type_value (se_record_type latest)),
           ld_record_id = Some (se_record_id latest), ld_decision_at = Some (se_created_at latest),
           ld_summary = record_type_value (se_record_type latest) @ '' at seq '' @ int_str (se_seq latest),
           ld_generated_at = ts\<rparr>))))"

subsection \<open>Halt and resume\<close>

definition halt_new_entries ::
  "'b plane_env \<Rightarrow> nat dyn \<Rightarrow> rearm_mode_enum \<Rightarrow> string \<Rightarrow> ('b, kill_switch_state) command" where
  "halt_new_entries env auth mode note =
     then_st (require_human env auth CMD_HALT)
     (bind_st (audit env CMD_HALT ''HALT'' [OPERATOR_HALT_COMMAND]
        (if note = [] then ''operator halt-new-entries'' else note)) (\<lambda>artifact.
      bind_st (lift_res (mint_kill_switch_state True (Some OPERATOR_HALT_COMMAND) (Some mode)
        (aa_artifact_id artifact) (pe_now env) note)) (\<lambda>state.
      then_st (store_append env (KillSwitchState state) (pe_now env)) (return_st state))))"

definition cleared_reason :: "kill_switch_state option \<Rightarrow> string" where
  "cleared_reason current =
     (case current of
        None \<Rightarrow> ''none''
      | Some k \<Rightarrow>
          (case ks_reason_code k of
             None \<Rightarrow> ''none''
           | Some c \<Rightarrow> if ks_halted k then reason_code_value c else ''none''))"

definition resume_new_entries :: "'b plane_env \<Rightarrow> nat dyn \<Rightarrow> string \<Rightarrow> ('b, kill_switch_state) command" where
  "resume_new_entries env auth note =
     then_st (require_human env auth CMD_RESUME)
     (bind_st (kill_switch_now env) (\<lambda>current.
      bind_st (audit env CMD_RESUME ''RESUME'' [OPERATOR_RESUME_COMMAND]
        (if note = [] then ''operator resume-new-entries (cleared: '' @ cleared_reason current @ '')'' else note))
      (\<lambda>artifact.
      bind_st (lift_res (mint_kill_switch_state False None None (aa_artifact_id artifact) (pe_now env) note)) (\<lambda>state.
      then_st (store_append env (KillSwitchState state) (pe_now env)) (return_st state)))))"

subsection \<open>Cancelling open orders\<close>

text \<open>\<open>payload.get(key)\<close> on a parsed payload.\<close>

definition payload_get :: "json \<Rightarrow> string \<Rightarrow> json option res" where
  "payload_get v key =
     (case v of JObj ms \<Rightarrow> Inr (map_of ms key) | _ \<Rightarrow> Inl (AttributeError ''get''))"

definition references_order :: "string \<Rightarrow> stored_event \<Rightarrow> bool res" where
  "references_order broker_order_id e =
     bind_res (json_loads (se_payload_json e)) (\<lambda>payload.
     map_res (\<lambda>v. v = Some (JStr broker_order_id)) (payload_get payload ''broker_order_id''))"

definition matching_reports :: "audit_store \<Rightarrow> string \<Rightarrow> stored_event list res" where
  "matching_reports st broker_order_id =
     bind_res (iter_events st (Some EXECUTION_REPORT)) (\<lambda>events.
     map_res (\<lambda>flags. map fst (filter snd (zip events flags)))
       (collect_res (references_order broker_order_id) events))"

text \<open>Equality of optional decimals by value and of optional datetimes by instant.\<close>

definition price_eq :: "decimal option \<Rightarrow> decimal option \<Rightarrow> bool" where
  "price_eq a b \<longleftrightarrow> map_option dval a = map_option dval b"

definition time_eq :: "aware option \<Rightarrow> aware option \<Rightarrow> bool" where
  "time_eq a b \<longleftrightarrow> map_option at_us a = map_option at_us b"

definition report_matches_fill :: "execution_report \<Rightarrow> broker_fill \<Rightarrow> bool" where
  "report_matches_fill r fill \<longleftrightarrow>
     er_broker_order_id r = bo_value (bf_broker_order_id fill) \<and>
     er_lifecycle_state r = bf_lifecycle_state fill \<and> er_filled_contracts r = bf_filled_contracts fill \<and>
     er_requested_contracts r = bf_requested_contracts fill \<and>
     price_eq (er_avg_fill_price r) (bf_avg_fill_price fill) \<and>
     time_eq (er_fill_timestamp r) (bf_fill_timestamp fill) \<and> at_eq (er_submitted_at r) (bf_submitted_at fill)"

definition intent_coherent :: "broker_submit_intent \<Rightarrow> execution_report \<Rightarrow> bool" where
  "intent_coherent i r \<longleftrightarrow>
     bi_order_ticket_hash i = er_order_ticket_hash r \<and> bi_idempotency_key i = er_idempotency_key r \<and>
     at_eq (bi_submitted_at i) (er_submitted_at r) \<and> ot_order_type (bi_ticket i) = er_order_type r \<and>
     requested i = er_requested_contracts r \<and> bi_submit_mode i = submit_mode.PAPER"

definition authenticated_report :: "codec \<Rightarrow> audit_store \<Rightarrow> broker_fill \<Rightarrow> (string \<times> execution_report) res" where
  "authenticated_report cd st fill =
     (let oid = bo_value (bf_broker_order_id fill) in
      bind_res (matching_reports st oid) (\<lambda>events.
      case remdups (map se_record_id events) of
        [] \<Rightarrow> Inl (cancel_identity_error ''no persisted ExecutionReport references broker_order_id'')
      | [logical_key] \<Rightarrow>
          bind_res (rehydrate cd st (last events)) (\<lambda>obj.
          case obj of
            ExecutionReport r \<Rightarrow>
              require (er_lifecycle_state r \<in> NON_TERMINAL_LIFECYCLE)
                (cancel_identity_error ''persisted order is already terminal'') (
              require (report_matches_fill r fill)
                (cancel_identity_error ''broker-reported open order does not match the persisted latest ExecutionReport'') (
              Inr (logical_key, r)))
          | _ \<Rightarrow> Inl (cancel_identity_error ''stored record did not rehydrate to an ExecutionReport''))
      | _ \<Rightarrow> Inl (cancel_identity_error ''ambiguous persisted identity for broker_order_id'')))"

definition resolve_cancel_identity :: "codec \<Rightarrow> audit_store \<Rightarrow> broker_fill \<Rightarrow> broker_submit_intent res" where
  "resolve_cancel_identity cd st fill =
     bind_res (authenticated_report cd st fill) (\<lambda>(logical_key, r).
     bind_res (get_by_idempotency_key st logical_key) (\<lambda>submit_event.
     case submit_event of
       None \<Rightarrow> Inl (cancel_identity_error ''no persisted BrokerSubmitIntent found'')
     | Some e \<Rightarrow>
         require (se_record_type e = BROKER_SUBMIT_INTENT)
           (cancel_identity_error ''no persisted BrokerSubmitIntent found'') (
         bind_res (rehydrate cd st e) (\<lambda>obj.
         case obj of
           BrokerSubmitIntent i \<Rightarrow>
             require (intent_coherent i r)
               (cancel_identity_error ''persisted BrokerSubmitIntent is not coherent with its latest ExecutionReport'')
               (Inr i)
         | _ \<Rightarrow> Inl (cancel_identity_error ''stored record did not rehydrate to a BrokerSubmitIntent'')))))"

definition cancel_confirmed :: "broker_fill \<Rightarrow> broker_submit_intent \<Rightarrow> broker_fill \<Rightarrow> bool" where
  "cancel_confirmed fill i c \<longleftrightarrow>
     bf_broker_order_id c = bf_broker_order_id fill \<and>
     bf_lifecycle_state c = order_lifecycle_state.CANCELLED \<and> bf_requested_contracts c = requested i \<and>
     bf_filled_contracts c = bf_filled_contracts fill \<and>
     price_eq (bf_avg_fill_price c) (bf_avg_fill_price fill) \<and>
     time_eq (bf_fill_timestamp c) (bf_fill_timestamp fill) \<and> at_eq (bf_submitted_at c) (bi_submitted_at i)"

definition broker_cancel :: "'b plane_env \<Rightarrow> int \<Rightarrow> broker_order_id \<Rightarrow> ('b, broker_fill) command" where
  "broker_cancel env ordinal oid = (\<lambda>s.
     case pl_broker s of
       None \<Rightarrow> (Inl (AssertionError ''self._broker is not None''), s)
     | Some b \<Rightarrow>
         (case ad_cancel (pe_adapter env) b (pe_wall env ordinal) oid of
            (r, b') \<Rightarrow> (r, s\<lparr>pl_broker := Some b'\<rparr>)))"

definition cancel_and_mint_terminal_report ::
  "'b plane_env \<Rightarrow> int \<Rightarrow> broker_fill \<Rightarrow> broker_submit_intent \<Rightarrow> ('b, broker_fill) command" where
  "cancel_and_mint_terminal_report env ordinal fill i =
     bind_st (broker_cancel env ordinal (bf_broker_order_id fill)) (\<lambda>c.
     if \<not> cancel_confirmed fill i c
     then raise_st (cancel_identity_error ''broker cancel response did not coherently confirm a genuine CANCELLED terminal state'')
     else
       bind_st (lift_res (mint_execution_report (Inst i) (Inst (bf_broker_order_id c)) (bf_lifecycle_state c)
         (bf_filled_contracts c) (bf_avg_fill_price c) (map_option Aware (bf_fill_timestamp c))
         (map_option Aware (bf_completed_at c)))) (\<lambda>r.
       then_st (store_append env (ExecutionReport r) (Aware (report_created_at r))) (return_st c)))"

fun cancel_loop ::
  "'b plane_env \<Rightarrow> int \<Rightarrow> (broker_fill \<times> broker_submit_intent) list \<Rightarrow> ('b, order_view list) command" where
  "cancel_loop env n [] = return_st []"
| "cancel_loop env n ((fill, i) # rest) =
     bind_st (cancel_and_mint_terminal_report env n fill i) (\<lambda>c.
     bind_st (lift_res (order_view_of c)) (\<lambda>v.
     bind_st (cancel_loop env (n + 1) rest) (\<lambda>vs. return_st (v # vs))))"

definition require_broker :: "'b plane_env \<Rightarrow> string \<Rightarrow> reason_code \<Rightarrow> ('b, 'b) command" where
  "require_broker env command code =
     bind_st (gets_st pl_broker) (\<lambda>broker.
     case broker of
       Some b \<Rightarrow> return_st b
     | None \<Rightarrow>
         then_st (audit env command ''REJECT'' [code] ''no broker adapter configured'')
           (raise_st (broker_unavailable_error (command @ '' requires a configured broker adapter; refused''))))"

definition resolve_open_orders ::
  "'b plane_env \<Rightarrow> ('b, (broker_fill \<times> broker_submit_intent) list) command" where
  "resolve_open_orders env =
     bind_st (gets_st pl_broker) (\<lambda>broker.
     bind_st (lift_res (case broker of None \<Rightarrow> Inr [] | Some b \<Rightarrow> ad_open_orders (pe_adapter env) b)) (\<lambda>fills.
     bind_st (gets_st pl_store) (\<lambda>st.
     lift_res (collect_res (\<lambda>f. map_res (Pair f) (resolve_cancel_identity (pe_codec env) st f)) fills))))"

definition cancel_open_orders :: "'b plane_env \<Rightarrow> nat dyn \<Rightarrow> ('b, cancel_report) command" where
  "cancel_open_orders env auth =
     then_st (require_human env auth CMD_CANCEL)
     (then_st (require_broker env CMD_CANCEL OPERATOR_CANCEL_COMMAND)
     (bind_st (rescue_st (bind_st (resolve_open_orders env) (cancel_loop env 0))
        (audit env CMD_CANCEL ''REJECT'' [OPERATOR_CANCEL_COMMAND] ''cancel refused: '')) (\<lambda>cancelled.
      then_st (audit env CMD_CANCEL ''CANCEL'' [OPERATOR_CANCEL_COMMAND]
        (''cancelled '' @ int_str (int (length cancelled)) @ '' open order(s)''))
      (bind_st (generated_at env) (\<lambda>ts.
       return_st \<lparr>cn_cancelled = cancelled, cn_generated_at = ts\<rparr>)))))"

subsection \<open>Flattening, paper only\<close>

fun flatten_loop :: "'b plane_env \<Rightarrow> int \<Rightarrow> broker_fill list \<Rightarrow> ('b, order_view list) command" where
  "flatten_loop env n [] = return_st []"
| "flatten_loop env n (o' # rest) =
     bind_st (broker_cancel env n (bf_broker_order_id o')) (\<lambda>c.
     bind_st (lift_res (order_view_of c)) (\<lambda>v.
     bind_st (flatten_loop env (n + 1) rest) (\<lambda>vs. return_st (v # vs))))"

definition remaining_positions :: "'b plane_env \<Rightarrow> ('b, position_view list) command" where
  "remaining_positions env =
     bind_st (gets_st pl_broker) (\<lambda>broker.
     lift_res (bind_res (case broker of None \<Rightarrow> Inr [] | Some b \<Rightarrow> ad_positions (pe_adapter env) b)
       (collect_res position_view_of)))"

definition FLATTEN_NOTE :: string where
  "FLATTEN_NOTE = ''v1 cancels working orders only; position-closing submission is gated by the disabled deterministic paper-submit path and is out of scope''"

definition flatten_paper_only :: "'b plane_env \<Rightarrow> nat dyn \<Rightarrow> ('b, flatten_report) command" where
  "flatten_paper_only env auth =
     then_st (require_human env auth CMD_FLATTEN)
     (if pe_broker_mode env \<noteq> Some broker_mode.PAPER
      then then_st (audit env CMD_FLATTEN ''REJECT'' [OPERATOR_FLATTEN_COMMAND] ''flatten refused: broker_mode is not PAPER'')
        (raise_st (operator_mode_error ''flatten-paper-only is permitted only in BrokerMode.PAPER''))
      else
        bind_st (require_broker env CMD_FLATTEN OPERATOR_FLATTEN_COMMAND) (\<lambda>b.
        bind_st (rescue_st
          (bind_st (bind_st (lift_res (ad_open_orders (pe_adapter env) b)) (flatten_loop env 0)) (\<lambda>cancelled.
           bind_st (remaining_positions env) (\<lambda>remaining. return_st (cancelled, remaining))))
          (audit env CMD_FLATTEN ''REJECT'' [OPERATOR_FLATTEN_COMMAND] ''paper flatten failed at broker: ''))
        (\<lambda>(cancelled, remaining).
        then_st (audit env CMD_FLATTEN ''FLATTEN'' [OPERATOR_FLATTEN_COMMAND]
          (''paper flatten: cancelled '' @ int_str (int (length cancelled)) @ '' order(s), '' @
           int_str (int (length remaining)) @ '' position(s) remain for managed exit''))
        (bind_st (generated_at env) (\<lambda>ts.
         return_st
           \<lparr>fl_broker_mode = broker_mode.PAPER, fl_cancelled_orders = cancelled,
            fl_open_positions_remaining = remaining, fl_note = FLATTEN_NOTE, fl_generated_at = ts\<rparr>)))))"

text \<open>The result comes with the lines written to the file.\<close>

definition export_audit :: "'b plane_env \<Rightarrow> string \<Rightarrow> ('b, export_report \<times> string list) command" where
  "export_audit env path =
     bind_st (gets_st pl_store) (\<lambda>st.
     bind_st (lift_res (export_lines (pe_dump_event env) st)) (\<lambda>lines.
     let count = int (length lines) in
     then_st (audit env CMD_EXPORT_AUDIT ''EXPORT'' [] (''exported '' @ int_str count @ '' event(s) to '' @ path))
     (bind_st (generated_at env) (\<lambda>ts.
      let r = \<lparr>ex_path = path, ex_event_count = count, ex_generated_at = ts\<rparr> in
      bind_st (lift_res (construct [(path = [], ''path'')] r)) (\<lambda>r. return_st (r, lines))))))"

section \<open>The command line\<close>

definition EXPECTED_CONFIRMATION :: "(string \<times> string) list" where
  "EXPECTED_CONFIRMATION =
     [(CMD_HALT, ''HALT''), (CMD_RESUME, ''RESUME''), (CMD_CANCEL, ''CANCEL''), (CMD_FLATTEN, ''FLATTEN'')]"

text \<open>What \<open>argparse\<close> gives; \<open>ca_input\<close> is what the operator types at the prompt.\<close>

record cli_args =
  ca_command :: string
  ca_confirm_human :: bool
  ca_confirmation :: "string option"
  ca_note :: string
  ca_out :: string
  ca_input :: string

datatype cli_report =
    CliStatus status_report
  | CliOpenOrders open_orders_report
  | CliPositions positions_report
  | CliLastDecision last_decision_report
  | CliExport export_report
  | CliKillSwitch kill_switch_state
  | CliCancel cancel_report
  | CliFlatten flatten_report

definition operator_command_error :: "string \<Rightarrow> py_error" where
  "operator_command_error m = OperatorError ''OperatorCommandError'' m"

definition authorize :: "string \<Rightarrow> cli_args \<Rightarrow> ('b, nat dyn) command" where
  "authorize command args = (\<lambda>s.
     if \<not> ca_confirm_human args
     then (Inl (operator_command_error (command @ '' requires --confirm-human'')), s)
     else
       (case map_of EXPECTED_CONFIRMATION command of
          None \<Rightarrow> (Inl (KeyError command), s)
        | Some expected \<Rightarrow>
            (case confirm_human (pl_registry s) command
               (case ca_confirmation args of Some typed \<Rightarrow> typed | None \<Rightarrow> ca_input args) expected of
               (r, reg) \<Rightarrow> (map_res Inst r, s\<lparr>pl_registry := reg\<rparr>))))"

definition broker_mode_from_env :: "(string \<Rightarrow> string option) \<Rightarrow> broker_mode option" where
  "broker_mode_from_env vars = Option.bind (vars ''BROKER_MODE'') broker_mode_of"

definition dispatch :: "'b plane_env \<Rightarrow> cli_args \<Rightarrow> ('b, cli_report) command" where
  "dispatch env args =
     (let command = ca_command args in
      if command = CMD_STATUS then bind_st (status env) (return_st \<circ> CliStatus)
      else if command = CMD_SHOW_OPEN_ORDERS then bind_st (show_open_orders env) (return_st \<circ> CliOpenOrders)
      else if command = CMD_SHOW_POSITIONS then bind_st (show_positions env) (return_st \<circ> CliPositions)
      else if command = CMD_SHOW_LAST_DECISION then bind_st (show_last_decision env) (return_st \<circ> CliLastDecision)
      else if command = CMD_EXPORT_AUDIT then bind_st (export_audit env (ca_out args)) (return_st \<circ> CliExport \<circ> fst)
      else if command = CMD_HALT then
        bind_st (authorize command args) (\<lambda>auth.
        bind_st (halt_new_entries env auth rearm_mode_enum.HUMAN_ONLY (ca_note args)) (return_st \<circ> CliKillSwitch))
      else if command = CMD_RESUME then
        bind_st (authorize command args) (\<lambda>auth.
        bind_st (resume_new_entries env auth (ca_note args)) (return_st \<circ> CliKillSwitch))
      else if command = CMD_CANCEL then
        bind_st (authorize command args) (\<lambda>auth. bind_st (cancel_open_orders env auth) (return_st \<circ> CliCancel))
      else if command = CMD_FLATTEN then
        bind_st (authorize command args) (\<lambda>auth. bind_st (flatten_paper_only env auth) (return_st \<circ> CliFlatten))
      else raise_st (operator_command_error (''unknown command: '' @ command)))"

text \<open>\<open>main\<close>: exit code 0 with the printed report, exit code 2 for a refused command; other
  exceptions propagate. No broker is wired; \<open>later\<close> is the clock when a refusal is recorded.\<close>

definition main_cli ::
  "unit plane_env \<Rightarrow> datetime \<Rightarrow> (string \<Rightarrow> string option) \<Rightarrow> audit_store \<Rightarrow> cli_args
     \<Rightarrow> (int \<times> cli_report option) res \<times> unit plane" where
  "main_cli env0 later vars st args =
     (let env = env0\<lparr>pe_broker_mode := broker_mode_from_env vars\<rparr>;
          s0 = \<lparr>pl_store = st, pl_broker = None, pl_registry = new_auth_registry\<rparr>
      in
      case dispatch env args s0 of
        (Inr report, s) \<Rightarrow> (Inr (0, Some report), s)
      | (Inl (OperatorError cls m), s) \<Rightarrow>
          if ca_command args \<in> fst ` set EXPECTED_CONFIRMATION \<and> cls \<noteq> ''OperatorAuthorityError''
          then then_st (record_command_rejection (env\<lparr>pe_now := later\<rparr>) (ca_command args) (''refused: '' @ m))
            (return_st (2, None)) s
          else (Inr (2, None), s)
      | (Inl e, s) \<Rightarrow> (Inl e, s))"

end
