(* ===== verification/OperatorSafety.thy ===== *)
theory OperatorSafety
  imports ControlPlane
begin

text \<open>
  What the control plane guarantees: a mutating command without a token minted for it does nothing
  but record its refusal; a halt stays in force whatever else happens until an authorised resume;
  open orders are authenticated against the store before the broker is called; and the command
  line. The relations that every command keeps are interpretations of \<open>step_relation\<close>.
\<close>

section \<open>What commands keep\<close>

text \<open>Rows of the given record types are appended, tokens stay as they are, a sound store stays
  sound; a quiet command leaves the broker alone as well.\<close>

definition plane_logs :: "record_type set \<Rightarrow> 'b plane \<Rightarrow> 'b plane \<Rightarrow> bool" where
  "plane_logs A s t \<longleftrightarrow> pl_registry t = pl_registry s \<and> (store_ok (pl_store s) \<longrightarrow> store_ok (pl_store t)) \<and>
     (\<exists>rs. st_rows (pl_store t) = st_rows (pl_store s) @ rs \<and> (\<forall>r\<in>set rs. sr_record_type r \<in> A))"

definition quiet :: "record_type set \<Rightarrow> 'b plane \<Rightarrow> 'b plane \<Rightarrow> bool" where
  "quiet A s t \<longleftrightarrow> plane_logs A s t \<and> pl_broker t = pl_broker s"

lemma plane_logs_trans: "plane_logs A s t \<Longrightarrow> plane_logs A t u \<Longrightarrow> plane_logs A s u"
  by (auto simp: plane_logs_def)

interpretation logs: step_relation "plane_logs A" for A
  by unfold_locales (auto simp: plane_logs_def intro: plane_logs_trans [unfolded plane_logs_def])

interpretation still: step_relation "quiet A" for A
  by unfold_locales (auto simp: quiet_def logs.refl intro: plane_logs_trans)

lemma plane_logs_mono: "plane_logs A s t \<Longrightarrow> A \<subseteq> B \<Longrightarrow> plane_logs B s t"
  unfolding plane_logs_def by blast

lemma keepsD: "keeps R m \<Longrightarrow> m s = (r, s') \<Longrightarrow> R s s'"
  by (auto simp: keeps_def dest: spec [of _ s])

lemma keeps_snd: "keeps R m \<Longrightarrow> R s (snd (m s))"
  by (simp add: keeps_def)

lemma keeps_quiet_logs: "keeps (quiet A) m \<Longrightarrow> A \<subseteq> B \<Longrightarrow> keeps (plane_logs B) m"
  unfolding keeps_def quiet_def using plane_logs_mono by blast

lemma append_type:
  assumes "RECORD_TYPE_BY_CLASS obj = Some t"
  shows "\<exists>rs. st_rows (snd (append_event cd st obj c r k)) = st_rows st @ rs \<and> (\<forall>x\<in>set rs. sr_record_type x = t)"
proof (cases "storable cd st obj k")
  case True
  then show ?thesis using append_storable [OF True, of c r] assms by (simp add: added_row_def)
next
  case False
  then show ?thesis using append_not_storable [OF False, of c r] by auto
qed

lemma quiet_append:
  assumes "RECORD_TYPE_BY_CLASS obj = Some t" and "t \<in> A"
  shows "keeps (quiet A) (store_append env obj created)"
  unfolding keeps_def
proof
  fix s :: "'a plane"
  obtain rs where "st_rows (snd (append_event (pe_codec env) (pl_store s) obj created (pe_now env) None)) =
      st_rows (pl_store s) @ rs" "\<forall>x\<in>set rs. sr_record_type x = t"
    using append_type [OF assms(1)] by blast
  then show "quiet A s (snd (store_append env obj created s))"
    using assms(2) append_store_ok
    by (auto simp: quiet_def plane_logs_def store_append_def split: prod.splits) (metis snd_conv)+
qed

lemma quiet_audit: "AUDIT_ARTIFACT \<in> A \<Longrightarrow> keeps (quiet A) (audit env command decision codes detail)"
  unfolding audit_def by (intro still.keeps_rules quiet_append) simp_all

lemma quiet_require_human: "AUDIT_ARTIFACT \<in> A \<Longrightarrow> keeps (quiet A) (require_human env auth command)"
  unfolding require_human_def by (intro still.keeps_rules quiet_audit)

lemma quiet_require_broker: "AUDIT_ARTIFACT \<in> A \<Longrightarrow> keeps (quiet A) (require_broker env command code)"
  unfolding require_broker_def
  by (intro still.keeps_bind still.keeps_pure) (auto split: option.splits intro!: still.keeps_rules quiet_audit)

lemma quiet_reads: "keeps (quiet A) (kill_switch_now env)" "keeps (quiet A) (generated_at env)"
  "keeps (quiet A) (resolve_open_orders env)" "keeps (quiet A) (remaining_positions env)"
  unfolding kill_switch_now_def generated_at_def resolve_open_orders_def remaining_positions_def
  by (intro still.keeps_rules)+

lemma logs_broker_cancel: "keeps (plane_logs A) (broker_cancel env n oid)"
  by (auto simp: keeps_def broker_cancel_def plane_logs_def split: option.splits prod.splits)

lemma logs_cancel_loop: "EXECUTION_REPORT \<in> A \<Longrightarrow> keeps (plane_logs A) (cancel_loop env n xs)"
proof (induction env n xs rule: cancel_loop.induct)
  case (1 env n)
  show ?case unfolding cancel_loop.simps by (rule logs.keeps_pure)
next
  case (2 env n fill i rest)
  have "keeps (plane_logs A) (cancel_and_mint_terminal_report env n fill i)"
    unfolding cancel_and_mint_terminal_report_def
    by (intro logs.keeps_rules logs_broker_cancel keeps_quiet_logs [OF quiet_append, of _ EXECUTION_REPORT A])
      (simp_all add: 2)
  then show ?case unfolding cancel_loop.simps using 2 by (intro logs.keeps_rules) simp_all
qed

lemma logs_flatten_loop: "keeps (plane_logs A) (flatten_loop env n xs)"
proof (induction env n xs rule: flatten_loop.induct)
  case (1 env n)
  show ?case unfolding flatten_loop.simps by (rule logs.keeps_pure)
next
  case (2 env n x rest)
  then show ?case unfolding flatten_loop.simps by (intro logs.keeps_rules logs_broker_cancel) simp_all
qed

section \<open>Requests\<close>

text \<open>The four mutating commands of an operator.\<close>

datatype operator_request = Halt rearm_mode_enum string | Resume string | CancelOrders | FlattenPaper

fun request_command :: "operator_request \<Rightarrow> string" where
  "request_command (Halt _ _) = CMD_HALT"
| "request_command (Resume _) = CMD_RESUME"
| "request_command CancelOrders = CMD_CANCEL"
| "request_command FlattenPaper = CMD_FLATTEN"

fun run_request :: "'b plane_env \<Rightarrow> nat dyn \<Rightarrow> operator_request \<Rightarrow> ('b, unit) command" where
  "run_request env auth (Halt mode note) = then_st (halt_new_entries env auth mode note) (return_st ())"
| "run_request env auth (Resume note) = then_st (resume_new_entries env auth note) (return_st ())"
| "run_request env auth CancelOrders = then_st (cancel_open_orders env auth) (return_st ())"
| "run_request env auth FlattenPaper = then_st (flatten_paper_only env auth) (return_st ())"

fun request_types :: "operator_request \<Rightarrow> record_type set" where
  "request_types (Halt _ _) = {AUDIT_ARTIFACT, KILL_SWITCH_STATE}"
| "request_types (Resume _) = {AUDIT_ARTIFACT, KILL_SWITCH_STATE}"
| "request_types CancelOrders = {AUDIT_ARTIFACT, EXECUTION_REPORT}"
| "request_types FlattenPaper = {AUDIT_ARTIFACT}"

lemma keeps_split: "(\<And>a b. keeps R (f a b)) \<Longrightarrow> keeps R (case p of (a, b) \<Rightarrow> f a b)"
  by (cases p) simp

lemma quiet_halt: "keeps (quiet {AUDIT_ARTIFACT, KILL_SWITCH_STATE}) (halt_new_entries env auth mode note)"
  unfolding halt_new_entries_def
  by (intro still.keeps_rules quiet_require_human quiet_audit quiet_append [of _ KILL_SWITCH_STATE]) simp_all

lemma quiet_resume: "keeps (quiet {AUDIT_ARTIFACT, KILL_SWITCH_STATE}) (resume_new_entries env auth note)"
  unfolding resume_new_entries_def
  by (intro still.keeps_rules quiet_require_human quiet_reads quiet_audit quiet_append [of _ KILL_SWITCH_STATE]) simp_all

lemma logs_cancel: "keeps (plane_logs {AUDIT_ARTIFACT, EXECUTION_REPORT}) (cancel_open_orders env auth)"
  unfolding cancel_open_orders_def
  by (intro logs.keeps_rules logs_cancel_loop
      keeps_quiet_logs [OF quiet_require_human [of "{AUDIT_ARTIFACT}"]]
      keeps_quiet_logs [OF quiet_require_broker [of "{AUDIT_ARTIFACT}"]]
      keeps_quiet_logs [OF quiet_audit [of "{AUDIT_ARTIFACT}"]]
      keeps_quiet_logs [OF quiet_reads(2) [of "{}"]] keeps_quiet_logs [OF quiet_reads(3) [of "{}"]]) simp_all

lemma logs_flatten: "keeps (plane_logs {AUDIT_ARTIFACT}) (flatten_paper_only env auth)"
  unfolding flatten_paper_only_def
  by (intro logs.keeps_rules logs_flatten_loop keeps_split
      keeps_quiet_logs [OF quiet_require_human [of "{AUDIT_ARTIFACT}"]]
      keeps_quiet_logs [OF quiet_require_broker [of "{AUDIT_ARTIFACT}"]]
      keeps_quiet_logs [OF quiet_audit [of "{AUDIT_ARTIFACT}"]]
      keeps_quiet_logs [OF quiet_reads(2) [of "{}"]] keeps_quiet_logs [OF quiet_reads(4) [of "{}"]]) simp_all

lemma logs_request: "keeps (plane_logs (request_types req)) (run_request env auth req)"
  by (cases req)
    (auto intro!: logs.keeps_then logs.keeps_pure logs_cancel logs_flatten
      keeps_quiet_logs [OF quiet_halt] keeps_quiet_logs [OF quiet_resume])

text \<open>A request whose token was not minted for it: its run is that of the refusal.\<close>

lemma require_human_refuses:
  assumes "authorized_command (pl_registry s) auth \<noteq> Some command" and "operator_reason command = Inr code"
  shows "\<exists>problem. require_human env auth command s =
    then_st (audit env command ''REJECT'' [code] (''unauthorized: '' @ problem))
      (raise_st (operator_authority_error (command @ '' requires explicit human authorization''))) s"
  using assms
  by (auto simp: require_human_def authority_problem_def bind_st_def split: option.splits)

lemma request_needs_authority:
  assumes "require_human env auth (request_command req) s = (Inl e, s')"
  shows "run_request env auth req s = (Inl e, s')"
  using assms
  by (cases req)
    (simp_all add: halt_new_entries_def resume_new_entries_def cancel_open_orders_def flatten_paper_only_def
      then_st_def bind_st_def)

section \<open>The audit row of a command\<close>

lemma no_secrets_nonempty: "assert_no_secrets p = Inr u \<Longrightarrow> p \<noteq> []"
  by (auto simp: assert_no_secrets_def json_loads_def skip_ws_def)

lemma added_event_ok:
  assumes "storable cd st obj None" and "0 \<le> st_last_seq st" and "derive_record_id cd obj \<noteq> []"
  shows "\<exists>e. row_to_event (added_row cd st obj (Aware c) (Aware r) None) = Inr e"
  using assms no_secrets_nonempty [of "cd_dump cd obj"]
  by (auto simp: storable_def row_to_event_def aware_of_def added_row_def mk_stored_event_def
      stored_event_guards_def payload_sha256_def)

lemma new_artifact_Inr:
  assumes "new_artifact aid d decision codes detail = Inr a"
  shows "\<exists>ts. d = Aware ts \<and> aid \<noteq> [] \<and> a = \<lparr>aa_artifact_id = aid, aa_created_at = ts, aa_decision = decision,
     aa_reason_codes = codes, aa_detail = detail\<rparr>"
  using assms
  by (cases d) (auto simp: new_artifact_def aware_of_def mk_audit_artifact_def construct_eq_Inr audit_artifact_guards_def)

definition audit_row :: "codec \<Rightarrow> stored_row \<Rightarrow> audit_artifact \<Rightarrow> bool" where
  "audit_row cd row a \<longleftrightarrow> sr_record_type row = AUDIT_ARTIFACT \<and> sr_record_id row = aa_artifact_id a \<and>
     sr_payload_json row = cd_dump cd (AuditArtifact a)"

lemma audit_cases:
  assumes "0 \<le> st_last_seq (pl_store s)"
  obtains (failed) e where "audit env command decision codes detail s = (Inl e, s)"
  | (logged) a row where "audit env command decision codes detail s =
        (Inr a, s\<lparr>pl_store := \<lparr>st_rows = st_rows (pl_store s) @ [row], st_last_seq = st_last_seq (pl_store s) + 1\<rparr>\<rparr>)"
      "audit_row (pe_codec env) row a" "aa_decision a = decision" "aa_reason_codes a = codes"
      "aa_artifact_id a \<noteq> []" "\<exists>ts. pe_now env = Aware ts"
proof -
  let ?st = "pl_store s" and ?detail = "if detail = [] then command else detail"
  show ?thesis
  proof (cases "new_artifact_id ?st command (pe_now env)")
    case (Inl e)
    then show ?thesis using failed by (simp add: audit_def bind_st_def)
  next
    case (Inr aid)
    note aid = this
    show ?thesis
    proof (cases "new_artifact aid (pe_now env) decision codes ?detail")
      case (Inl e)
      then show ?thesis using failed aid by (simp add: audit_def bind_st_def)
    next
      case (Inr a)
      from new_artifact_Inr [OF Inr] obtain ts where ts: "pe_now env = Aware ts" "aa_artifact_id a \<noteq> []"
        "aa_decision a = decision" "aa_reason_codes a = codes" by auto
      show ?thesis
      proof (cases "storable (pe_codec env) ?st (AuditArtifact a) None")
        case True
        obtain e where "row_to_event (added_row (pe_codec env) ?st (AuditArtifact a) (pe_now env) (pe_now env) None) = Inr e"
          using added_event_ok [OF True assms, of ts ts] ts by (auto simp: derive_record_id_def)
        then show ?thesis
          using aid Inr ts append_storable [OF True, of "pe_now env" "pe_now env"]
          by (intro logged [of a "added_row (pe_codec env) ?st (AuditArtifact a) (pe_now env) (pe_now env) None"])
            (simp_all add: audit_def bind_st_def then_st_def store_append_def audit_row_def added_row_def derive_record_id_def)
      next
        case False
        then obtain e where "append_event (pe_codec env) ?st (AuditArtifact a) (pe_now env) (pe_now env) None = (Inl e, ?st)"
          using append_not_storable by blast
        then show ?thesis using aid Inr by (intro failed [of e]) (simp add: audit_def bind_st_def then_st_def store_append_def)
      qed
    qed
  qed
qed

section \<open>Authority\<close>

lemma operator_reason_request: "\<exists>code. operator_reason (request_command req) = Inr code"
  by (cases req) (simp_all add: operator_reason_def OPERATOR_REASON_BY_COMMAND_def CMD_defs)

text \<open>A mutating command without a token minted for that command has no effect but the record of
  its refusal: it raises, the broker and the tokens are as before, and the store has gained exactly
  one row, a REJECT artifact, unless even that could not be recorded, in which case the state is
  unchanged.\<close>

theorem unauthorised_request_is_refused:
  assumes "authorized_command (pl_registry s) auth \<noteq> Some (request_command req)"
    and "0 \<le> st_last_seq (pl_store s)" and "run_request env auth req s = (r, s')"
  shows "\<not> is_ok r \<and> pl_broker s' = pl_broker s \<and> pl_registry s' = pl_registry s \<and>
    (s' = s \<or>
     (\<exists>row a. st_rows (pl_store s') = st_rows (pl_store s) @ [row] \<and> audit_row (pe_codec env) row a \<and>
        aa_decision a = ''REJECT'' \<and> r = Inl (operator_authority_error
          (request_command req @ '' requires explicit human authorization''))))"
proof -
  let ?c = "request_command req"
  obtain code where code: "operator_reason ?c = Inr code" using operator_reason_request by blast
  obtain problem where run: "require_human env auth ?c s =
      then_st (audit env ?c ''REJECT'' [code] (''unauthorized: '' @ problem))
        (raise_st (operator_authority_error (?c @ '' requires explicit human authorization''))) s"
    using require_human_refuses [OF assms(1) code] by blast
  show ?thesis
    using assms(2)
  proof (cases rule: audit_cases [of s env ?c "''REJECT''" "[code]" "''unauthorized: '' @ problem"])
    case (failed e)
    then have "require_human env auth ?c s = (Inl e, s)" using run by (simp add: then_st_def bind_st_def)
    from request_needs_authority [OF this] show ?thesis using assms(3) by simp
  next
    case (logged a row)
    let ?t = "s\<lparr>pl_store := \<lparr>st_rows = st_rows (pl_store s) @ [row], st_last_seq = st_last_seq (pl_store s) + 1\<rparr>\<rparr>"
    have "require_human env auth ?c s =
        (Inl (operator_authority_error (?c @ '' requires explicit human authorization'')), ?t)"
      using logged(1) run by (simp add: then_st_def bind_st_def)
    from request_needs_authority [OF this] show ?thesis using assms(3) logged(2,3) by auto
  qed
qed

fun run_confirms :: "auth_registry \<Rightarrow> (string \<times> string \<times> string) list \<Rightarrow> auth_registry" where
  "run_confirms reg [] = reg"
| "run_confirms reg ((command, typed, expected) # xs) = run_confirms (snd (confirm_human reg command typed expected)) xs"

definition registry_ok :: "auth_registry \<Rightarrow> bool" where
  "registry_ok reg \<longleftrightarrow> (\<forall>t\<in>dom (map_of (ar_bindings reg)). t < ar_next reg)"

lemma registry_ok_confirm: "registry_ok reg \<Longrightarrow> registry_ok (snd (confirm_human reg command typed expected))"
  by (auto simp: registry_ok_def confirm_human_def less_Suc_eq split: if_splits)

lemma registry_ok_run: "registry_ok reg \<Longrightarrow> registry_ok (run_confirms reg xs)"
  by (induction reg xs rule: run_confirms.induct) (simp_all add: registry_ok_confirm)

lemma confirm_keeps_binding:
  assumes "registry_ok reg" and "map_of (ar_bindings reg) t = Some c"
  shows "map_of (ar_bindings (run_confirms reg xs)) t = Some c"
  using assms
proof (induction reg xs rule: run_confirms.induct)
  case (2 reg command typed expected xs)
  then have "t < ar_next reg" by (auto simp: registry_ok_def)
  then have "map_of (ar_bindings (snd (confirm_human reg command typed expected))) t = Some c"
    using "2.prems" by (auto simp: confirm_human_def)
  then show ?case using 2 by (simp add: registry_ok_confirm)
qed simp

text \<open>C29. A token authorises the one command it was minted for: whatever confirmations came before,
  \<open>confirm_human\<close> mints a token exactly when the typed phrase is the expected one; that token
  was not registered before, authorises its command after any further confirmations and nothing
  else, leaves the other tokens as they were, and no object that is not a token authorises anything.\<close>

theorem token_authorises_one_command:
  assumes "reg = run_confirms new_auth_registry earlier"
  shows "(case confirm_human reg command typed expected of
      (Inl _, reg') \<Rightarrow> typed \<noteq> expected \<and> reg' = reg
    | (Inr t, reg') \<Rightarrow> typed = expected \<and> authorized_command reg (Inst t) = None \<and>
        authorized_command (run_confirms reg' later) (Inst t) = Some command \<and>
        (u \<noteq> t \<longrightarrow> authorized_command reg' (Inst u) = authorized_command reg (Inst u))) \<and>
    authorized_command reg (NotInst n) = None"
proof -
  have ok: "registry_ok reg"
    unfolding assms by (rule registry_ok_run) (simp add: registry_ok_def new_auth_registry_def)
  have fresh: "map_of (ar_bindings reg) (ar_next reg) = None"
    using ok by (force simp: registry_ok_def)
  show ?thesis
  proof (cases "typed = expected")
    case True
    have "authorized_command (run_confirms (snd (confirm_human reg command typed expected)) later) (Inst (ar_next reg)) =
        Some command"
      using confirm_keeps_binding [OF registry_ok_confirm [OF ok], of command typed expected "ar_next reg" command later] True
      by (simp add: authorized_command_def confirm_human_def)
    then show ?thesis using True fresh by (simp add: confirm_human_def authorized_command_def)
  next
    case False
    then show ?thesis by (simp add: confirm_human_def authorized_command_def)
  qed
qed

theorem token_authorises_one_command_witness:
  "authorized_command (snd (confirm_human new_auth_registry CMD_HALT ''HALT'' ''HALT'')) (Inst 0) = Some CMD_HALT"
  using token_authorises_one_command [of new_auth_registry "[]", where command = CMD_HALT and typed = "''HALT''"
      and expected = "''HALT''" and later = "[]" and u = 1 and n = "[]"]
  by (simp add: confirm_human_def new_auth_registry_def)

section \<open>Halt and resume\<close>

lemma rehydrate_same_row:
  assumes "store_ok st" and "store_ok st'" and "row \<in> set (st_rows st)" and "row \<in> set (st_rows st')"
    and "row_to_event row = Inr e"
  shows "rehydrate cd st' e = rehydrate cd st e"
  using get_by_seq_row [OF assms(1,3)] get_by_seq_row [OF assms(2,4)] row_to_event_Inr [OF assms(5)]
  by (simp add: rehydrate_def assert_provenance_def)

lemma collect_res_mem: "collect_res f xs = Inr ys \<Longrightarrow> y \<in> set ys \<Longrightarrow> \<exists>x\<in>set xs. f x = Inr y"
  by (induction xs arbitrary: ys) (auto simp: bind_res_eq_Inr map_res_eq_Inr)

lemma switch_events_ext:
  assumes "st_rows st' = st_rows st @ rs" and "\<forall>r\<in>set rs. sr_record_type r \<noteq> KILL_SWITCH_STATE"
  shows "iter_events st' (Some KILL_SWITCH_STATE) = iter_events st (Some KILL_SWITCH_STATE)"
  using assms by (simp add: iter_events_def rows_of_type_def)

text \<open>Rows that are no switch states do not change the switch.\<close>

lemma current_kill_switch_ext:
  assumes "store_ok st" and "store_ok st'" and ext: "st_rows st' = st_rows st @ rs"
    and no: "\<forall>r\<in>set rs. sr_record_type r \<noteq> KILL_SWITCH_STATE"
  shows "current_kill_switch cd st' = current_kill_switch cd st"
proof (cases "iter_events st (Some KILL_SWITCH_STATE)")
  case (Inl e)
  then show ?thesis using switch_events_ext [OF ext no] by (simp add: current_kill_switch_def)
next
  case (Inr es)
  have "rehydrate cd st' (last es) = rehydrate cd st (last es)" if ne: "es \<noteq> []"
  proof -
    obtain row where "row \<in> set (rows_of_type st (Some KILL_SWITCH_STATE))" "row_to_event row = Inr (last es)"
      using collect_res_mem [of row_to_event "rows_of_type st (Some KILL_SWITCH_STATE)" es "last es"] Inr ne
      by (auto simp: iter_events_def)
    then show ?thesis using rehydrate_same_row [OF assms(1,2)] ext by (auto simp: rows_of_type_def)
  qed
  then show ?thesis using Inr switch_events_ext [OF ext no] by (simp add: current_kill_switch_def)
qed

definition reads_switch :: "codec \<Rightarrow> (aware \<Rightarrow> string) \<Rightarrow> kill_switch_state \<Rightarrow> bool" where
  "reads_switch cd isot k \<longleftrightarrow> json_loads (cd_dump cd (KillSwitchState k)) = Inr (kill_switch_json isot k) \<and>
     cd_datetime cd (isot (ks_created_at k)) = Inr (Aware (ks_created_at k))"

lemma appended_switch_in_force:
  assumes ok: "store_ok st" and app: "append_event cd st (KillSwitchState k) c r None = (Inr e, st')"
    and es: "is_ok (iter_events st (Some KILL_SWITCH_STATE))" and k: "wf_kill_switch_state k" "reads_switch cd isot k"
  shows "current_kill_switch cd st' = Inr (Some k)"
proof -
  let ?row = "added_row cd st (KillSwitchState k) c r None"
  have s: "storable cd st (KillSwitchState k) None"
    using app append_not_storable [of cd st "KillSwitchState k" None c r] by auto
  then have e: "row_to_event ?row = Inr e" and st': "st_rows st' = st_rows st @ [?row]"
    using app append_storable [OF s, of c r] by auto
  obtain ys where "iter_events st (Some KILL_SWITCH_STATE) = Inr ys" using es by (auto simp: is_ok_iff)
  then have "iter_events st' (Some KILL_SWITCH_STATE) = Inr (ys @ [e])"
    using e st'
    by (simp add: iter_events_def rows_of_type_def added_row_def collect_res_append)
  moreover have "rehydrate cd st' e = Inr (KillSwitchState k)"
    using rehydrate_appended [OF ok app, of _ "[]"] appended_type [OF app]
      rehydrate_kill_switch_json [OF k(1), of cd isot] k(2)
    by (simp add: GATED_REHYDRATORS_def reads_switch_def)
  ultimately show ?thesis by (simp add: current_kill_switch_def)
qed

lemma all_events_readable: "is_ok (iter_events st None) \<Longrightarrow> is_ok (iter_events st (Some t))"
proof -
  have "is_ok (collect_res f xs) \<Longrightarrow> is_ok (collect_res f (filter P xs))" for f :: "stored_row \<Rightarrow> stored_event res" and P xs
    by (induction xs) (auto simp: is_ok_iff bind_res_eq_Inr map_res_eq_Inr)
  then show "is_ok (iter_events st None) \<Longrightarrow> ?thesis" by (simp add: iter_events_def rows_of_type_def)
qed

lemma audit_reads_store:
  assumes "audit env command decision codes detail s = (Inr a, s')" and "t \<noteq> AUDIT_ARTIFACT"
  shows "is_ok (iter_events (pl_store s') (Some t))"
proof -
  have "is_ok (iter_events (pl_store s) None)"
    using assms(1) by (auto simp: audit_def step_Inr new_artifact_id_def event_count_def map_res_eq_Inr is_ok_iff lift_res_def gets_st_def)
  moreover have "quiet {AUDIT_ARTIFACT} s s'"
    using keepsD [OF quiet_audit assms(1)] by simp
  then obtain rs where "st_rows (pl_store s') = st_rows (pl_store s) @ rs" "\<forall>r\<in>set rs. sr_record_type r = AUDIT_ARTIFACT"
    by (auto simp: quiet_def plane_logs_def)
  moreover from this assms(2) have "filter (\<lambda>r. sr_record_type r = t) rs = []" by (auto simp: filter_empty_conv)
  ultimately show ?thesis
    using all_events_readable [of "pl_store s" t] by (simp add: iter_events_def rows_of_type_def)
qed

text \<open>Setting the switch: the last two steps of \<open>halt_new_entries\<close> and
  \<open>resume_new_entries\<close>.\<close>

lemma switch_set:
  assumes ok: "store_ok (pl_store s)" and a: "audit env command decision codes detail s = (Inr a, sa)"
    and mint: "mint_kill_switch_state halted code mode cid now note = Inr k"
    and app: "store_append env (KillSwitchState k) created sa = (Inr e, s')" and r: "reads_switch (pe_codec env) isot k"
  shows "current_kill_switch (pe_codec env) (pl_store s') = Inr (Some k) \<and> store_ok (pl_store s') \<and> ks_halted k = halted"
proof -
  have "store_ok (pl_store sa)"
    using keepsD [OF quiet_audit [of "{AUDIT_ARTIFACT}"] a] ok by (simp add: quiet_def plane_logs_def)
  moreover obtain st' where st': "append_event (pe_codec env) (pl_store sa) (KillSwitchState k) created (pe_now env) None =
      (Inr e, st')" "s' = sa\<lparr>pl_store := st'\<rparr>"
    using app by (auto simp: store_append_def split: prod.splits)
  moreover have "is_ok (iter_events (pl_store sa) (Some KILL_SWITCH_STATE))"
    using audit_reads_store [OF a] by simp
  moreover have "wf_kill_switch_state k" "ks_halted k = halted"
    using mint by (auto simp: mint_kill_switch_state_def bind_res_eq_Inr kill_switch_state_from_gateway_def
        init_kill_switch_state_def construct_eq_Inr wf_kill_switch_state_def)
  ultimately show ?thesis
    using appended_switch_in_force [OF _ st'(1)] append_store_ok [of "pl_store sa" "pe_codec env"] r
    by (metis (no_types, lifting) plane.select_convs(1) plane.surjective plane.update_convs(1) snd_conv)
qed

lemma halt_steps:
  assumes "halt_new_entries env auth mode note s = (Inr k, s')"
  obtains detail a sa e where "audit env CMD_HALT ''HALT'' [OPERATOR_HALT_COMMAND] detail s = (Inr a, sa)"
    "mint_kill_switch_state True (Some OPERATOR_HALT_COMMAND) (Some mode) (aa_artifact_id a) (pe_now env) note = Inr k"
    "store_append env (KillSwitchState k) (pe_now env) sa = (Inr e, s')"
proof -
  have "require_human env auth CMD_HALT s = (Inr (), s0) \<Longrightarrow> s0 = s" for s0
    by (auto simp: require_human_def step_Inr lift_res_def gets_st_def return_st_def raise_st_def split: option.splits)
  then show thesis
    using assms that by (auto simp: halt_new_entries_def step_Inr lift_res_def return_st_def)
qed

lemma resume_steps:
  assumes "resume_new_entries env auth note s = (Inr k, s')"
  obtains detail a sa e where "audit env CMD_RESUME ''RESUME'' [OPERATOR_RESUME_COMMAND] detail s = (Inr a, sa)"
    "mint_kill_switch_state False None None (aa_artifact_id a) (pe_now env) note = Inr k"
    "store_append env (KillSwitchState k) (pe_now env) sa = (Inr e, s')"
proof -
  have "require_human env auth CMD_RESUME s = (Inr (), s0) \<Longrightarrow> s0 = s" for s0
    by (auto simp: require_human_def step_Inr lift_res_def gets_st_def return_st_def raise_st_def split: option.splits)
  then show thesis
    using assms that
    by (auto simp: resume_new_entries_def kill_switch_now_def step_Inr lift_res_def return_st_def gets_st_def)
qed

text \<open>What may happen while a halt is in force: anything that appends to the store, and requests to
  the control plane.\<close>

datatype 'b activity =
    Appended hermes_model datetime datetime "string option"
  | Requested "'b plane_env" "nat dyn" operator_request

fun act :: "codec \<Rightarrow> 'b plane \<Rightarrow> 'b activity \<Rightarrow> 'b plane" where
  "act cd s (Appended obj c r k) = s\<lparr>pl_store := snd (append_event cd (pl_store s) obj c r k)\<rparr>"
| "act cd s (Requested env auth req) = snd (run_request env auth req s)"

definition run_plane :: "codec \<Rightarrow> 'b plane \<Rightarrow> 'b activity list \<Rightarrow> 'b plane" where
  "run_plane cd s acts = foldl (act cd) s acts"

text \<open>Activities that may set the switch: another process writing a switch state, or a halt or
  resume with a valid token.\<close>

fun sets_switch :: "auth_registry \<Rightarrow> 'b activity \<Rightarrow> bool" where
  "sets_switch reg (Appended obj _ _ _) \<longleftrightarrow> RECORD_TYPE_BY_CLASS obj = Some KILL_SWITCH_STATE"
| "sets_switch reg (Requested env auth req) \<longleftrightarrow>
     KILL_SWITCH_STATE \<in> request_types req \<and> authorized_command reg auth = Some (request_command req)"

lemma act_keeps_switch:
  assumes ok: "store_ok (pl_store s)" and no: "\<not> sets_switch (pl_registry s) x"
  shows "plane_logs (UNIV - {KILL_SWITCH_STATE}) s (act cd s x)"
proof (cases x)
  case (Appended obj c r k)
  show ?thesis
  proof (cases "RECORD_TYPE_BY_CLASS obj")
    case None
    then have "\<not> storable cd (pl_store s) obj k" by (simp add: storable_def)
    then show ?thesis using append_not_storable [of cd "pl_store s" obj k c r] Appended by (auto simp: plane_logs_def)
  next
    case (Some t)
    then show ?thesis
      using append_type [OF Some, of cd "pl_store s" c r k] Appended no append_store_ok
      by (auto simp: plane_logs_def)
  qed
next
  case (Requested env auth req)
  show ?thesis
  proof (cases "KILL_SWITCH_STATE \<in> request_types req")
    case False
    have "plane_logs (request_types req) s (snd (run_request env auth req s))"
      using logs_request [of req env auth] by (simp add: keeps_def)
    moreover have "request_types req \<subseteq> UNIV - {KILL_SWITCH_STATE}" using False by blast
    ultimately show ?thesis using plane_logs_mono by (simp add: Requested)
  next
    case True
    then have "authorized_command (pl_registry s) auth \<noteq> Some (request_command req)" using no Requested by simp
    then obtain code problem where "require_human env auth (request_command req) s =
        then_st (audit env (request_command req) ''REJECT'' [code] (''unauthorized: '' @ problem))
          (raise_st (operator_authority_error (request_command req @ '' requires explicit human authorization''))) s"
      using require_human_refuses operator_reason_request by blast
    then obtain e s' where r: "require_human env auth (request_command req) s = (Inl e, s')"
      by (auto simp: then_st_def bind_st_def split: prod.splits sum.splits)
    then have "quiet {AUDIT_ARTIFACT} s s'" using keepsD [OF quiet_require_human] by blast
    then show ?thesis
      using request_needs_authority [OF r] Requested
      by (auto simp: quiet_def intro: plane_logs_mono)
  qed
qed

lemma run_plane_keeps_switch:
  assumes "store_ok (pl_store s)" and "\<forall>x\<in>set xs. \<not> sets_switch (pl_registry s) x"
  shows "plane_logs (UNIV - {KILL_SWITCH_STATE}) s (run_plane cd s xs)"
  using assms
proof (induction xs arbitrary: s)
  case Nil
  then show ?case by (simp add: run_plane_def logs.refl)
next
  case (Cons x xs)
  then have 1: "plane_logs (UNIV - {KILL_SWITCH_STATE}) s (act cd s x)" by (simp add: act_keeps_switch)
  then have "plane_logs (UNIV - {KILL_SWITCH_STATE}) (act cd s x) (run_plane cd (act cd s x) xs)"
    using Cons by (intro Cons.IH) (auto simp: plane_logs_def)
  then show ?case using plane_logs_trans [OF 1] by (simp add: run_plane_def)
qed

text \<open>C4. A halt holds until an authorised resume: after a successful halt, whatever is appended to
  the store and whatever the operator surface is asked, as long as no other switch state is written
  and no halt or resume comes with a valid token, new entries are not allowed and the switch read
  back from the store is the one the halt returned; and after a successful resume they are allowed
  again. The codec is only assumed to write the two states so that they can be read back.\<close>

theorem halt_holds_until_resume:
  assumes "store_ok (pl_store s)" and "halt_new_entries env auth mode note s = (Inr k, s1)"
    and "reads_switch (pe_codec env) isot k"
    and "\<forall>x\<in>set later. \<not> sets_switch (pl_registry s1) x" and "s2 = run_plane (pe_codec env) s1 later"
  shows "new_entries_allowed (pe_codec env) (pl_store s2) = Inr False \<and>
    current_kill_switch (pe_codec env) (pl_store s2) = Inr (Some k) \<and>
    (resume_new_entries env' auth' note' s2 = (Inr k', s3) \<longrightarrow> pe_codec env' = pe_codec env \<longrightarrow>
       reads_switch (pe_codec env) isot k' \<longrightarrow> new_entries_allowed (pe_codec env) (pl_store s3) = Inr True)"
proof -
  have 1: "current_kill_switch (pe_codec env) (pl_store s1) = Inr (Some k) \<and> store_ok (pl_store s1) \<and> ks_halted k = True"
    using assms(2)
  proof (cases rule: halt_steps)
    case (1 detail a sa e)
    then show ?thesis using switch_set [OF assms(1) 1(1,2,3) assms(3)] by simp
  qed
  have "plane_logs (UNIV - {KILL_SWITCH_STATE}) s1 s2"
    using run_plane_keeps_switch assms(4,5) 1 by blast
  then obtain rs where rs: "st_rows (pl_store s2) = st_rows (pl_store s1) @ rs" "store_ok (pl_store s2)"
    "\<forall>r\<in>set rs. sr_record_type r \<noteq> KILL_SWITCH_STATE"
    using 1 by (auto simp: plane_logs_def)
  have 2: "current_kill_switch (pe_codec env) (pl_store s2) = Inr (Some k)"
    using current_kill_switch_ext [OF _ rs(2,1,3)] 1 by simp
  have "new_entries_allowed (pe_codec env) (pl_store s3) = Inr True"
    if r: "resume_new_entries env' auth' note' s2 = (Inr k', s3)" "pe_codec env' = pe_codec env"
      "reads_switch (pe_codec env) isot k'"
    using r(1)
  proof (cases rule: resume_steps)
    case (1 detail a sa e)
    then show ?thesis
      using switch_set [OF rs(2) 1(1,2,3), of isot] r(2,3)
      by (simp add: new_entries_allowed_def ks_new_entries_allowed_def)
  qed
  then show ?thesis using 1 2 by (simp add: new_entries_allowed_def ks_new_entries_allowed_def)
qed

section \<open>Cancelling open orders\<close>

lemma case_intent_Inr:
  "(case obj of BrokerSubmitIntent i \<Rightarrow> f i | _ \<Rightarrow> Inl e) = Inr x \<longleftrightarrow> (\<exists>i. obj = BrokerSubmitIntent i \<and> f i = Inr x)"
  by (cases obj) simp_all

lemma case_report_Inr:
  "(case obj of ExecutionReport r \<Rightarrow> f r | _ \<Rightarrow> Inl e) = Inr x \<longleftrightarrow> (\<exists>r. obj = ExecutionReport r \<and> f r = Inr x)"
  by (cases obj) simp_all

lemma case_single_Inr:
  "(case ks of [] \<Rightarrow> Inl e | [k] \<Rightarrow> f k | k # k' # ks' \<Rightarrow> Inl e') = Inr x \<longleftrightarrow> (\<exists>k. ks = [k] \<and> f k = Inr x)"
  by (auto split: list.splits)

text \<open>What it means that the store authenticates an intent for an open order, stated over the rows:
  the execution reports that name the order are one chain with one key; the newest one rehydrates to
  a report that is still open and says what the broker says; and the row found under that key is a
  submit attempt that rehydrates to the intent, in PAPER mode, with the report's ticket, key, time,
  order type and quantity.\<close>

definition names_order :: "string \<Rightarrow> stored_event \<Rightarrow> bool" where
  "names_order oid e \<longleftrightarrow>
     (\<exists>ms. json_loads (se_payload_json e) = Inr (JObj ms) \<and> map_of ms ''broker_order_id'' = Some (JStr oid))"

definition authenticated :: "codec \<Rightarrow> audit_store \<Rightarrow> broker_fill \<Rightarrow> broker_submit_intent \<Rightarrow> bool" where
  "authenticated cd st f i \<longleftrightarrow>
     (\<exists>events chain k r row e.
        iter_events st (Some EXECUTION_REPORT) = Inr events \<and>
        (\<forall>x\<in>set events. \<exists>ms. json_loads (se_payload_json x) = Inr (JObj ms)) \<and>
        chain = filter (names_order (bo_value (bf_broker_order_id f))) events \<and> chain \<noteq> [] \<and>
        (\<forall>x\<in>set chain. se_record_id x = k) \<and>
        rehydrate cd st (last chain) = Inr (ExecutionReport r) \<and>
        er_lifecycle_state r \<in> {order_lifecycle_state.PENDING_SUBMIT, order_lifecycle_state.SUBMITTED,
          order_lifecycle_state.WORKING, order_lifecycle_state.PARTIAL_FILL} \<and>
        er_broker_order_id r = bo_value (bf_broker_order_id f) \<and> er_lifecycle_state r = bf_lifecycle_state f \<and>
        er_filled_contracts r = bf_filled_contracts f \<and> er_requested_contracts r = bf_requested_contracts f \<and>
        map_option dval (er_avg_fill_price r) = map_option dval (bf_avg_fill_price f) \<and>
        map_option at_us (er_fill_timestamp r) = map_option at_us (bf_fill_timestamp f) \<and>
        at_us (er_submitted_at r) = at_us (bf_submitted_at f) \<and>
        find (\<lambda>x. sr_idempotency_key x = Some k) (st_rows st) = Some row \<and> row_to_event row = Inr e \<and>
        se_record_type e = BROKER_SUBMIT_INTENT \<and> rehydrate cd st e = Inr (BrokerSubmitIntent i) \<and>
        bi_submit_mode i = submit_mode.PAPER \<and> bi_order_ticket_hash i = er_order_ticket_hash r \<and>
        bi_idempotency_key i = er_idempotency_key r \<and> at_us (bi_submitted_at i) = at_us (er_submitted_at r) \<and>
        ot_order_type (bi_ticket i) = er_order_type r \<and>
        sl_contracts (ci_short_leg (vi_candidate (ot_validated_intent (bi_ticket i)))) = er_requested_contracts r)"

lemma references_order_Inr:
  "references_order oid e = Inr b \<longleftrightarrow> (\<exists>ms. json_loads (se_payload_json e) = Inr (JObj ms)) \<and> b = names_order oid e"
  by (cases "json_loads (se_payload_json e)")
    (auto simp: references_order_def names_order_def payload_get_def split: json.splits)

lemma collect_references:
  "collect_res (references_order oid) es = Inr bs \<longleftrightarrow>
     (\<forall>x\<in>set es. \<exists>ms. json_loads (se_payload_json x) = Inr (JObj ms)) \<and> bs = map (names_order oid) es"
  by (induction es arbitrary: bs) (auto simp: bind_res_eq_Inr map_res_eq_Inr references_order_Inr)

lemma filter_zip_map: "map fst (filter snd (zip xs (map P xs))) = filter P xs"
  by (induction xs) simp_all

lemma matching_reports_Inr:
  "matching_reports st oid = Inr chain \<longleftrightarrow> (\<exists>events. iter_events st (Some EXECUTION_REPORT) = Inr events \<and>
     (\<forall>x\<in>set events. \<exists>ms. json_loads (se_payload_json x) = Inr (JObj ms)) \<and> chain = filter (names_order oid) events)"
  by (auto simp: matching_reports_def bind_res_eq_Inr map_res_eq_Inr collect_references filter_zip_map)

lemma remdups_single: "remdups xs = [k] \<longleftrightarrow> xs \<noteq> [] \<and> (\<forall>x\<in>set xs. x = k)"
proof
  assume "remdups xs = [k]"
  then show "xs \<noteq> [] \<and> (\<forall>x\<in>set xs. x = k)" using set_remdups [of xs] by auto
next
  assume "xs \<noteq> [] \<and> (\<forall>x\<in>set xs. x = k)"
  then have xs: "set xs = {k}" by (auto simp: neq_Nil_conv)
  then have "length (remdups xs) = 1" by (simp add: length_remdups_card_conv)
  then obtain y where "remdups xs = [y]" by (auto simp: length_Suc_conv)
  then show "remdups xs = [k]" using set_remdups [of xs] xs by simp
qed

lemma resolve_iff_authenticated:
  "resolve_cancel_identity cd st f = Inr i \<longleftrightarrow> authenticated cd st f i"
proof -
  have a: "authenticated_report cd st f = Inr (k, r) \<longleftrightarrow>
      (\<exists>chain. matching_reports st (bo_value (bf_broker_order_id f)) = Inr chain \<and> chain \<noteq> [] \<and>
        (\<forall>x\<in>set chain. se_record_id x = k) \<and> rehydrate cd st (last chain) = Inr (ExecutionReport r) \<and>
        er_lifecycle_state r \<in> NON_TERMINAL_LIFECYCLE \<and> report_matches_fill r f)" for k r
    by (auto simp: authenticated_report_def Let_def bind_res_eq_Inr require_eq_Inr case_report_Inr case_single_Inr
        remdups_single)
  have g: "get_by_idempotency_key st k = Inr (Some e) \<longleftrightarrow>
      (\<exists>row. find (\<lambda>x. sr_idempotency_key x = Some k) (st_rows st) = Some row \<and> row_to_event row = Inr e)" for k e
    by (auto simp: get_by_idempotency_key_def first_event_def map_res_eq_Inr split: option.splits)
  have "resolve_cancel_identity cd st f = Inr i \<longleftrightarrow> (\<exists>k r e. authenticated_report cd st f = Inr (k, r) \<and>
      get_by_idempotency_key st k = Inr (Some e) \<and> se_record_type e = BROKER_SUBMIT_INTENT \<and>
      rehydrate cd st e = Inr (BrokerSubmitIntent i) \<and> intent_coherent i r)"
    by (auto simp: resolve_cancel_identity_def bind_res_eq_Inr require_eq_Inr case_intent_Inr split: option.splits)
  also have "\<dots> \<longleftrightarrow> authenticated cd st f i"
    unfolding a g matching_reports_Inr authenticated_def report_matches_fill_def intent_coherent_def requested_def
      NON_TERMINAL_LIFECYCLE_def price_eq_def time_eq_def at_eq_def
    by blast
  finally show ?thesis .
qed

text \<open>The row of a terminal report, for an order and its authenticated intent.\<close>

definition terminal_row :: "codec \<Rightarrow> broker_fill \<times> broker_submit_intent \<Rightarrow> stored_row \<Rightarrow> bool" where
  "terminal_row cd p row \<longleftrightarrow> (\<exists>r. sr_record_type row = EXECUTION_REPORT \<and>
     sr_payload_json row = cd_dump cd (ExecutionReport r) \<and> wf_execution_report r \<and>
     sr_record_id row = bi_idempotency_key (snd p) \<and> er_idempotency_key r = bi_idempotency_key (snd p) \<and>
     er_lifecycle_state r = order_lifecycle_state.CANCELLED \<and>
     er_broker_order_id r = bo_value (bf_broker_order_id (fst p)) \<and>
     er_filled_contracts r = bf_filled_contracts (fst p))"

lemma store_append_Inr:
  assumes "store_append env obj created s = (Inr e, s')"
  shows "s' = s\<lparr>pl_store := \<lparr>st_rows = st_rows (pl_store s) @ [added_row (pe_codec env) (pl_store s) obj created (pe_now env) None],
      st_last_seq = st_last_seq (pl_store s) + 1\<rparr>\<rparr>"
proof -
  have "storable (pe_codec env) (pl_store s) obj None"
    using assms append_not_storable [of "pe_codec env" "pl_store s" obj None created "pe_now env"]
    by (force simp: store_append_def)
  from append_storable [OF this, of created "pe_now env"] show ?thesis using assms by (auto simp: store_append_def)
qed

lemma cancel_one:
  assumes "cancel_and_mint_terminal_report env n fill i s = (Inr c, s')"
  shows "\<exists>row. st_rows (pl_store s') = st_rows (pl_store s) @ [row] \<and> terminal_row (pe_codec env) (fill, i) row"
proof -
  obtain s1 r e where c: "broker_cancel env n (bf_broker_order_id fill) s = (Inr c, s1)" "cancel_confirmed fill i c"
    and r: "mint_execution_report (Inst i) (Inst (bf_broker_order_id c)) (bf_lifecycle_state c)
       (bf_filled_contracts c) (bf_avg_fill_price c) (map_option Aware (bf_fill_timestamp c))
       (map_option Aware (bf_completed_at c)) = Inr r"
    and a: "store_append env (ExecutionReport r) (Aware (report_created_at r)) s1 = (Inr e, s')"
    using assms
    by (auto simp: cancel_and_mint_terminal_report_def step_Inr lift_res_def return_st_def raise_st_def split: if_splits)
  have "pl_store s1 = pl_store s"
    using c(1) by (auto simp: broker_cancel_def split: option.splits prod.splits)
  then show ?thesis
    using store_append_Inr [OF a] mint_report_Inr [OF r] c(2)
    by (auto simp: terminal_row_def added_row_def derive_record_id_def cancel_confirmed_def)
qed

lemma cancel_loop_rows:
  "cancel_loop env n xs s = (Inr vs, s') \<Longrightarrow>
     \<exists>rs. st_rows (pl_store s') = st_rows (pl_store s) @ rs \<and> list_all2 (terminal_row (pe_codec env)) xs rs"
proof (induction env n xs arbitrary: vs s s' rule: cancel_loop.induct)
  case (1 env n)
  then show ?case by (auto simp: return_st_def)
next
  case (2 env n fill i rest)
  then obtain c s1 ws where c: "cancel_and_mint_terminal_report env n fill i s = (Inr c, s1)"
    and l: "cancel_loop env (n + 1) rest s1 = (Inr ws, s')"
    by (auto simp: step_Inr lift_res_def return_st_def)
  obtain v where v: "order_view_of c = Inr v"
    using "2.prems" c by (auto simp: bind_st_def lift_res_def split: prod.splits sum.splits)
  obtain row where row: "st_rows (pl_store s1) = st_rows (pl_store s) @ [row]" "terminal_row (pe_codec env) (fill, i) row"
    using cancel_one [OF c] by blast
  obtain rs where "st_rows (pl_store s') = st_rows (pl_store s1) @ rs" "list_all2 (terminal_row (pe_codec env)) rest rs"
    using "2.IH" l by blast
  then show ?case using row by (intro exI [of _ "row # rs"]) simp
qed

lemma resolve_open_orders_Inr:
  assumes "resolve_open_orders env s = (Inr xs, s')" and "pl_broker s = Some b"
    and "ad_open_orders (pe_adapter env) b = Inr fills"
  shows "s' = s \<and> map fst xs = fills \<and>
    (\<forall>(f, i)\<in>set xs. resolve_cancel_identity (pe_codec env) (pl_store s) f = Inr i)"
proof -
  have "collect_res (\<lambda>f. map_res (Pair f) (g f)) fs = Inr ys \<Longrightarrow>
      map fst ys = fs \<and> (\<forall>(f, i)\<in>set ys. g f = Inr i)" for g :: "broker_fill \<Rightarrow> broker_submit_intent res" and fs ys
    by (induction fs arbitrary: ys) (auto simp: bind_res_eq_Inr map_res_eq_Inr)
  note pairs = this [of "resolve_cancel_identity (pe_codec env) (pl_store s)" fills xs]
  show ?thesis
    using assms pairs by (auto simp: resolve_open_orders_def step_Inr lift_res_def gets_st_def)
qed

lemma resolve_open_orders_fails:
  assumes "pl_broker s = Some b" and "ad_open_orders (pe_adapter env) b = Inr fills" and "f \<in> set fills"
    and "\<not> is_ok (resolve_cancel_identity (pe_codec env) (pl_store s) f)"
  shows "\<exists>e. resolve_open_orders env s = (Inl e, s)"
proof (cases "fst (resolve_open_orders env s)")
  case (Inl e)
  moreover have "snd (resolve_open_orders env s) = s"
    using assms(1,2) by (simp add: resolve_open_orders_def bind_st_def)
  ultimately show ?thesis by (metis prod.collapse)
next
  case (Inr xs)
  then have "resolve_open_orders env s = (Inr xs, snd (resolve_open_orders env s))" by (metis prod.collapse)
  from resolve_open_orders_Inr [OF this assms(1,2)] assms(3,4) show ?thesis by (force simp: is_ok_iff)
qed

lemma require_human_Inr: "require_human env auth command s = (Inr u, s0) \<Longrightarrow> s0 = s"
  by (auto simp: require_human_def step_Inr lift_res_def gets_st_def return_st_def raise_st_def split: option.splits)

lemma require_broker_Inr: "require_broker env command code s = (Inr b, s0) \<Longrightarrow> s0 = s \<and> pl_broker s = Some b"
  by (auto simp: require_broker_def step_Inr gets_st_def return_st_def raise_st_def split: option.splits)

lemma audit_Inr:
  assumes "audit env command decision codes detail s = (Inr a, s')"
  shows "\<exists>row. st_rows (pl_store s') = st_rows (pl_store s) @ [row] \<and> audit_row (pe_codec env) row a \<and>
    aa_decision a = decision \<and> aa_reason_codes a = codes"
proof -
  obtain aid e where a: "new_artifact aid (pe_now env) decision codes (if detail = [] then command else detail) = Inr a"
    and app: "store_append env (AuditArtifact a) (pe_now env) s = (Inr e, s')"
    using assms by (auto simp: audit_def step_Inr lift_res_def gets_st_def return_st_def)
  show ?thesis
    using store_append_Inr [OF app] new_artifact_Inr [OF a]
    by (auto simp: audit_row_def added_row_def derive_record_id_def)
qed

lemma rescue_raises: "m s = (Inl e, t) \<Longrightarrow> \<exists>e'. fst (rescue_st m h s) = Inl e'"
  by (auto simp: rescue_st_def then_st_def bind_st_def split: prod.splits sum.splits)

lemma rescue_Inr: "rescue_st m h s = (Inr x, s') \<Longrightarrow> m s = (Inr x, s')"
  by (auto simp: rescue_st_def then_st_def bind_st_def split: prod.splits sum.splits)

text \<open>The command when an identity cannot be resolved, and when it succeeds.\<close>

lemma cancel_refuses_unresolved:
  assumes "cancel_open_orders env auth s = (r, s')" and "pl_broker s = Some b"
    and "ad_open_orders (pe_adapter env) b = Inr fills"
    and bad: "f \<in> set fills" "\<not> is_ok (resolve_cancel_identity (pe_codec env) (pl_store s) f)"
  shows "\<not> is_ok r \<and> quiet {AUDIT_ARTIFACT} s s'"
proof -
  let ?body = "bind_st (resolve_open_orders env) (cancel_loop env 0)"
  let ?reject = "audit env CMD_CANCEL ''REJECT'' [OPERATOR_CANCEL_COMMAND] ''cancel refused: ''"
  obtain e where "?body s = (Inl e, s)"
    using resolve_open_orders_fails [OF assms(2,3) bad] by (auto simp: bind_st_def)
  then have body: "rescue_st ?body ?reject s = then_st ?reject (raise_st e) s" by (simp add: rescue_st_def)
  obtain e' where e': "fst (rescue_st ?body ?reject s) = Inl e'"
    using rescue_raises [of ?body s e s ?reject] \<open>?body s = (Inl e, s)\<close> by blast
  have q: "quiet {AUDIT_ARTIFACT} s (snd (rescue_st ?body ?reject s))"
    unfolding body by (rule keeps_snd [OF still.keeps_then [OF quiet_audit still.keeps_pure(2)]]) simp
  show ?thesis
  proof (cases "fst (require_human env auth CMD_CANCEL s)")
    case (Inl h)
    then obtain s0 where h: "require_human env auth CMD_CANCEL s = (Inl h, s0)" by (metis prod.collapse)
    then have "cancel_open_orders env auth s = (Inl h, s0)"
      by (simp add: cancel_open_orders_def then_st_def bind_st_Inl)
    then show ?thesis using assms(1) keepsD [OF quiet_require_human h] by auto
  next
    case (Inr u)
    then have "require_human env auth CMD_CANCEL s = (Inr u, s)"
      by (metis prod.collapse require_human_Inr)
    moreover have "require_broker env CMD_CANCEL OPERATOR_CANCEL_COMMAND s = (Inr b, s)"
      using assms(2) by (simp add: require_broker_def bind_st_def)
    moreover have "rescue_st ?body ?reject s = (Inl e', snd (rescue_st ?body ?reject s))"
      using e' by (metis prod.collapse)
    ultimately have "cancel_open_orders env auth s = (Inl e', snd (rescue_st ?body ?reject s))"
      by (simp add: cancel_open_orders_def then_st_def bind_st_Inr bind_st_Inl)
    then show ?thesis using assms(1) q by auto
  qed
qed

lemma cancel_records_terminal_reports:
  assumes "cancel_open_orders env auth s = (Inr rep, s')" and "pl_broker s = Some b"
    and "ad_open_orders (pe_adapter env) b = Inr fills"
  shows "\<exists>intents reports row a. st_rows (pl_store s') = st_rows (pl_store s) @ reports @ [row] \<and>
    length intents = length fills \<and> list_all2 (terminal_row (pe_codec env)) (zip fills intents) reports \<and>
    audit_row (pe_codec env) row a \<and> aa_decision a = ''CANCEL'' \<and>
    (\<forall>(f, i)\<in>set (zip fills intents). resolve_cancel_identity (pe_codec env) (pl_store s) f = Inr i)"
proof -
  obtain u s0 b' s1 vs s2 a where h: "require_human env auth CMD_CANCEL s = (Inr u, s0)"
    and rb: "require_broker env CMD_CANCEL OPERATOR_CANCEL_COMMAND s0 = (Inr b', s1)"
    and body: "rescue_st (bind_st (resolve_open_orders env) (cancel_loop env 0))
        (audit env CMD_CANCEL ''REJECT'' [OPERATOR_CANCEL_COMMAND] ''cancel refused: '') s1 = (Inr vs, s2)"
    and a: "audit env CMD_CANCEL ''CANCEL'' [OPERATOR_CANCEL_COMMAND]
      (''cancelled '' @ int_str (int (length vs)) @ '' open order(s)'') s2 = (Inr a, s')"
    using assms(1)
    by (auto simp: cancel_open_orders_def step_Inr generated_at_def lift_res_def return_st_def)
  have s1: "s1 = s" using require_human_Inr [OF h] require_broker_Inr [OF rb] by simp
  obtain xs s3 where x: "resolve_open_orders env s = (Inr xs, s3)" and l: "cancel_loop env 0 xs s3 = (Inr vs, s2)"
    using rescue_Inr [OF body] s1 by (auto simp: step_Inr)
  note res = resolve_open_orders_Inr [OF x assms(2,3)]
  obtain rs where rs: "st_rows (pl_store s2) = st_rows (pl_store s) @ rs" "list_all2 (terminal_row (pe_codec env)) xs rs"
    using cancel_loop_rows [OF l] res by auto
  have "zip fills (map snd xs) = xs" "length (map snd xs) = length fills"
    using res zip_map_fst_snd [of xs] by (auto simp del: zip_map_fst_snd)
  then show ?thesis using rs res audit_Inr [OF a] by (intro exI [of _ "map snd xs"] exI [of _ rs]) auto
qed

text \<open>C28. Open orders are cancelled only after all of them are authenticated. An open order is
  authenticated by an intent when the store's execution reports that name it are one chain, the newest
  of them is still open and agrees with the broker on state, quantities, price and times, and the
  submit attempt recorded under the chain's key rehydrates to that intent, in PAPER mode and agreeing
  with the report on ticket, key, time, order type and quantity (\<open>authenticated\<close>, over the stored
  rows). When some open order is authenticated by no intent, the command raises, the broker is not
  called and only audit rows are added. When the command succeeds, each open order, in turn, was
  authenticated by an intent, and the rows added are one terminal CANCELLED report per order, under
  the key of its intent and with the filled quantity it had, followed by the CANCEL artifact.\<close>

theorem cancel_is_authenticated:
  assumes "cancel_open_orders env auth s = (r, s')" and "pl_broker s = Some b"
    and "ad_open_orders (pe_adapter env) b = Inr fills"
  shows "(\<forall>f\<in>set fills. (\<forall>i. \<not> authenticated (pe_codec env) (pl_store s) f i) \<longrightarrow>
      \<not> is_ok r \<and> quiet {AUDIT_ARTIFACT} s s') \<and>
    (\<forall>rep. r = Inr rep \<longrightarrow>
      (\<exists>intents reports row a. st_rows (pl_store s') = st_rows (pl_store s) @ reports @ [row] \<and>
         length intents = length fills \<and> list_all2 (terminal_row (pe_codec env)) (zip fills intents) reports \<and>
         audit_row (pe_codec env) row a \<and> aa_decision a = ''CANCEL'' \<and>
         (\<forall>(f, i)\<in>set (zip fills intents). bi_submit_mode i = submit_mode.PAPER \<and>
            authenticated (pe_codec env) (pl_store s) f i)))"
proof -
  have "\<not> is_ok (resolve_cancel_identity (pe_codec env) (pl_store s) f)"
    if "\<forall>i. \<not> authenticated (pe_codec env) (pl_store s) f i" for f
    using that by (auto simp: is_ok_iff resolve_iff_authenticated)
  moreover have "bi_submit_mode i = submit_mode.PAPER" if "authenticated cd st f i" for cd st f i
    using that by (auto simp: authenticated_def)
  ultimately show ?thesis
    using cancel_refuses_unresolved [OF assms] cancel_records_terminal_reports [of env auth s _ s' b fills] assms
    unfolding resolve_iff_authenticated by fast
qed

section \<open>The command line\<close>

definition sample_plane_env :: "unit plane_env" where
  "sample_plane_env =
     \<lparr>pe_codec = sample_codec, pe_adapter = \<lparr>ad_open_orders = \<lambda>_. Inr [], ad_positions = \<lambda>_. Inr [],
        ad_cancel = \<lambda>b _ _. (Inl (AssertionError []), b)\<rparr>, pe_broker_mode = None, pe_now = Aware (utc 0),
      pe_wall = (\<lambda>_. utc 0), pe_dump_event = (\<lambda>_. [])\<rparr>"

lemma audit_succeeds:
  assumes "\<forall>a. assert_no_secrets (cd_dump (pe_codec env) (AuditArtifact a)) = Inr ()" and "pe_now env = Aware ts"
    and "store_ok (pl_store s)" and "is_ok (iter_events (pl_store s) None)"
    and "decision \<noteq> []" and "codes \<noteq> [] \<or> str_upper decision \<notin> {''REJECT'', ''HALT''}"
  shows "\<exists>a row. audit env command decision codes detail s =
      (Inr a, s\<lparr>pl_store := \<lparr>st_rows = st_rows (pl_store s) @ [row], st_last_seq = st_last_seq (pl_store s) + 1\<rparr>\<rparr>) \<and>
    audit_row (pe_codec env) row a \<and> aa_decision a = decision \<and> is_ok (row_to_event row) \<and>
    new_artifact_id (pl_store s) command (pe_now env) = Inr (aa_artifact_id a)"
proof -
  let ?st = "pl_store s" and ?detail = "if detail = [] then command else detail"
  obtain n where n: "event_count ?st = Inr n" using assms(4) by (auto simp: event_count_def is_ok_iff)
  define aid where "aid = command @ '':'' @ int_str n @ '':'' @ dt_stamp (pe_now env)"
  have aid: "new_artifact_id ?st command (pe_now env) = Inr aid" by (simp add: new_artifact_id_def n aid_def)
  define a where "a = \<lparr>aa_artifact_id = aid, aa_created_at = ts, aa_decision = decision, aa_reason_codes = codes,
    aa_detail = ?detail\<rparr>"
  have a: "new_artifact aid (pe_now env) decision codes ?detail = Inr a"
    using assms(2,5,6)
    by (auto simp: new_artifact_def aware_of_def mk_audit_artifact_def audit_artifact_guards_def a_def aid_def
        construct_eq_Inr)
  have s: "storable (pe_codec env) ?st (AuditArtifact a) None" using assms(1) by (simp add: storable_def)
  let ?row = "added_row (pe_codec env) ?st (AuditArtifact a) (pe_now env) (pe_now env) None"
  have "0 \<le> st_last_seq ?st" using assms(3) by (simp add: store_ok_def store_inv_def)
  then obtain e where e: "row_to_event ?row = Inr e"
    using added_event_ok [OF s, of ts ts] assms(2) by (auto simp: derive_record_id_def a_def aid_def)
  have "audit env command decision codes detail s =
      (Inr a, s\<lparr>pl_store := \<lparr>st_rows = st_rows ?st @ [?row], st_last_seq = st_last_seq ?st + 1\<rparr>\<rparr>)"
    using aid a append_storable [OF s, of "pe_now env" "pe_now env"] e
    by (simp add: audit_def bind_st_def then_st_def store_append_def)
  moreover have "audit_row (pe_codec env) ?row a" by (simp add: audit_row_def added_row_def derive_record_id_def)
  ultimately show ?thesis using e aid by (auto simp: a_def)
qed

lemma audited_store_ok:
  assumes "audit env command decision codes detail s = (r, s')" and "store_ok (pl_store s)"
  shows "store_ok (pl_store s')"
  using keepsD [OF quiet_audit [of "{AUDIT_ARTIFACT}"] assms(1)] assms(2) by (simp add: quiet_def plane_logs_def)

lemma readable_snoc:
  assumes "is_ok (iter_events st None)" and "st_rows st' = st_rows st @ [row]" and "is_ok (row_to_event row)"
  shows "is_ok (iter_events st' None)"
  using assms collect_res_append [of row_to_event "st_rows st"]
  by (auto simp: iter_events_def rows_of_type_def is_ok_iff)

text \<open>A confirmed \<open>flatten-paper-only\<close> outside paper mode, as the dispatcher runs it.\<close>

lemma flatten_dispatch_refused:
  assumes "ca_command args = CMD_FLATTEN" "ca_confirm_human args" "ca_confirmation args = Some ''FLATTEN''"
    and "pe_broker_mode env \<noteq> Some broker_mode.PAPER" "pl_registry s = new_auth_registry"
    and "audit env CMD_FLATTEN ''REJECT'' [OPERATOR_FLATTEN_COMMAND] ''flatten refused: broker_mode is not PAPER''
      (s\<lparr>pl_registry := snd (confirm_human new_auth_registry CMD_FLATTEN ''FLATTEN'' ''FLATTEN'')\<rparr>) = (Inr a, s')"
  shows "dispatch env args s = (Inl (operator_mode_error ''flatten-paper-only is permitted only in BrokerMode.PAPER''), s')"
proof -
  let ?s = "s\<lparr>pl_registry := snd (confirm_human new_auth_registry CMD_FLATTEN ''FLATTEN'' ''FLATTEN'')\<rparr>"
  have auth: "authorize CMD_FLATTEN args s = (Inr (Inst 0), ?s)"
    using assms(2,3,5) by (simp add: authorize_def EXPECTED_CONFIRMATION_def CMD_defs confirm_human_def new_auth_registry_def)
  have human: "require_human env (Inst 0) CMD_FLATTEN ?s = (Inr (), ?s)"
    by (simp add: require_human_def bind_st_def authority_problem_def authorized_command_def confirm_human_def
        new_auth_registry_def)
  have "flatten_paper_only env (Inst 0) ?s =
      (Inl (operator_mode_error ''flatten-paper-only is permitted only in BrokerMode.PAPER''), s')"
    using human assms(4,6) by (simp add: flatten_paper_only_def then_st_def bind_st_def)
  moreover have "dispatch env args = bind_st (authorize CMD_FLATTEN args) (\<lambda>auth.
      bind_st (flatten_paper_only env auth) (return_st \<circ> CliFlatten))"
    using assms(1) by (simp add: dispatch_def CMD_defs)
  ultimately show ?thesis using auth by (simp add: bind_st_def)
qed

text \<open>A command refused by the service is recorded twice by the command line: a confirmed
  \<open>flatten-paper-only\<close> outside paper mode exits with 2 and leaves two REJECT artifacts, one
  from the service and one from \<open>main\<close>, which takes every refusal but a missing authority for
  one the service has not recorded.\<close>

theorem service_refusal_is_recorded_twice:
  assumes codec: "\<forall>a. assert_no_secrets (cd_dump (pe_codec env) (AuditArtifact a)) = Inr ()"
    and now: "pe_now env = Aware ts" "later = Aware ts'"
    and store: "store_ok st" "is_ok (iter_events st None)"
    and args: "ca_command args = CMD_FLATTEN" "ca_confirm_human args" "ca_confirmation args = Some ''FLATTEN''"
    and mode: "vars ''BROKER_MODE'' \<noteq> Some ''paper''"
  shows "\<exists>s a b row1 row2. main_cli env later vars st args = (Inr (2, None), s) \<and>
    st_rows (pl_store s) = st_rows st @ [row1, row2] \<and> audit_row (pe_codec env) row1 a \<and>
    audit_row (pe_codec env) row2 b \<and> aa_decision a = ''REJECT'' \<and> aa_decision b = ''REJECT''"
proof -
  let ?env = "env\<lparr>pe_broker_mode := broker_mode_from_env vars\<rparr>"
  let ?reg = "snd (confirm_human new_auth_registry CMD_FLATTEN ''FLATTEN'' ''FLATTEN'')"
  let ?s0 = "\<lparr>pl_store = st, pl_broker = None, pl_registry = ?reg\<rparr>"
  obtain a row1 s1 where 1: "audit ?env CMD_FLATTEN ''REJECT'' [OPERATOR_FLATTEN_COMMAND]
      ''flatten refused: broker_mode is not PAPER'' ?s0 = (Inr a, s1)" "st_rows (pl_store s1) = st_rows st @ [row1]"
    "audit_row (pe_codec env) row1 a" "aa_decision a = ''REJECT''" "is_ok (row_to_event row1)"
    using audit_succeeds [of ?env ts ?s0 "''REJECT''" "[OPERATOR_FLATTEN_COMMAND]" CMD_FLATTEN
        "''flatten refused: broker_mode is not PAPER''"] codec now store by auto
  have "pe_broker_mode ?env \<noteq> Some broker_mode.PAPER"
    using mode by (auto simp: broker_mode_from_env_def broker_mode_of_def bind_eq_Some_conv split: if_splits)
  then have d: "dispatch ?env args \<lparr>pl_store = st, pl_broker = None, pl_registry = new_auth_registry\<rparr> =
      (Inl (operator_mode_error ''flatten-paper-only is permitted only in BrokerMode.PAPER''), s1)"
    using flatten_dispatch_refused [OF args, of ?env "\<lparr>pl_store = st, pl_broker = None, pl_registry = new_auth_registry\<rparr>" a s1]
      1(1) by simp
  have "store_ok (pl_store s1)" "is_ok (iter_events (pl_store s1) None)"
    using audited_store_ok [OF 1(1)] readable_snoc [OF store(2) 1(2,5)] store(1) by simp_all
  then obtain b row2 s2 where 2: "audit (?env\<lparr>pe_now := later\<rparr>) CMD_FLATTEN ''REJECT'' [OPERATOR_FLATTEN_COMMAND]
      (''refused: '' @ ''flatten-paper-only is permitted only in BrokerMode.PAPER'') s1 = (Inr b, s2)"
    "st_rows (pl_store s2) = st_rows (pl_store s1) @ [row2]" "audit_row (pe_codec env) row2 b" "aa_decision b = ''REJECT''"
    using audit_succeeds [of "?env\<lparr>pe_now := later\<rparr>" ts' s1 "''REJECT''" "[OPERATOR_FLATTEN_COMMAND]" CMD_FLATTEN
        "''refused: '' @ ''flatten-paper-only is permitted only in BrokerMode.PAPER''"] codec now by auto
  have "main_cli env later vars st args = (Inr (2, None), s2)"
    using d 2(1) args(1)
    by (simp add: main_cli_def operator_mode_error_def EXPECTED_CONFIRMATION_def record_command_rejection_def
        operator_reason_def OPERATOR_REASON_BY_COMMAND_def CMD_defs bind_st_def then_st_def)
  then show ?thesis using 1 2 by auto
qed

section \<open>Witnesses\<close>

lemma sample_codec_artifacts: "\<forall>a. assert_no_secrets (cd_dump sample_codec (AuditArtifact a)) = Inr ()"
proof -
  have "assert_no_secrets ''{}'' = Inr ()" by code_simp
  then show ?thesis by (simp add: sample_codec_def)
qed

definition sample_cli_args :: cli_args where
  "sample_cli_args = \<lparr>ca_command = CMD_FLATTEN, ca_confirm_human = True, ca_confirmation = Some ''FLATTEN'', ca_note = [],
     ca_out = [], ca_input = []\<rparr>"

theorem service_refusal_is_recorded_twice_witness:
  "\<exists>s row1 row2. main_cli sample_plane_env (Aware (utc 1)) (\<lambda>_. None) new_audit_store sample_cli_args = (Inr (2, None), s) \<and>
     st_rows (pl_store s) = [row1, row2] \<and> sr_record_type row1 = AUDIT_ARTIFACT \<and> sr_record_type row2 = AUDIT_ARTIFACT"
proof -
  have "is_ok (iter_events new_audit_store None)" by (simp add: iter_events_def rows_of_type_def new_audit_store_def)
  then have "\<exists>s a b row1 row2. main_cli sample_plane_env (Aware (utc 1)) (\<lambda>_. None) new_audit_store sample_cli_args =
      (Inr (2, None), s) \<and> st_rows (pl_store s) = st_rows new_audit_store @ [row1, row2] \<and>
      audit_row (pe_codec sample_plane_env) row1 a \<and> audit_row (pe_codec sample_plane_env) row2 b \<and>
      aa_decision a = ''REJECT'' \<and> aa_decision b = ''REJECT''"
    using sample_codec_artifacts store_ok_new
    by (intro service_refusal_is_recorded_twice [of sample_plane_env "utc 0" "Aware (utc 1)" "utc 1"])
      (simp_all add: sample_plane_env_def sample_cli_args_def)
  then show ?thesis by (auto simp: new_audit_store_def audit_row_def)
qed

definition sample_plane :: "unit plane" where
  "sample_plane = \<lparr>pl_store = new_audit_store, pl_broker = None,
     pl_registry = snd (confirm_human new_auth_registry CMD_HALT ''HALT'' ''HALT'')\<rparr>"

theorem unauthorised_request_is_refused_witness:
  "\<not> is_ok (fst (run_request sample_plane_env (Inst 0) (Resume []) sample_plane)) \<and>
   pl_registry (snd (run_request sample_plane_env (Inst 0) (Resume []) sample_plane)) = pl_registry sample_plane"
proof -
  have "authorized_command (pl_registry sample_plane) (Inst 0) \<noteq> Some (request_command (Resume []))"
    by code_simp
  moreover have "0 \<le> st_last_seq (pl_store sample_plane)" by (simp add: sample_plane_def new_audit_store_def)
  ultimately show ?thesis
    using unauthorised_request_is_refused [of sample_plane "Inst 0" "Resume []" sample_plane_env
        "fst (run_request sample_plane_env (Inst 0) (Resume []) sample_plane)"
        "snd (run_request sample_plane_env (Inst 0) (Resume []) sample_plane)"] by simp
qed

text \<open>A codec that writes the switch state of the first halt at the epoch.\<close>

definition sample_halt :: kill_switch_state where
  "sample_halt = \<lparr>ks_halted = True, ks_reason_code = Some OPERATOR_HALT_COMMAND,
     ks_rearm_mode = Some rearm_mode_enum.HUMAN_ONLY, ks_command_id = ''halt-new-entries:0:19700101T000000000000'',
     ks_created_at = utc 0, ks_note = ''stop''\<rparr>"

definition sample_halt_codec :: codec where
  "sample_halt_codec = sample_codec\<lparr>cd_dump := (\<lambda>obj. case obj of
       KillSwitchState _ \<Rightarrow>
         ''{\"halted\":true,\"reason_code\":\"OPERATOR_HALT_COMMAND\",\"rearm_mode\":\"HUMAN_ONLY\",\"command_id\":\"halt-new-entries:0:19700101T000000000000\",\"created_at\":\"1970-01-01T00:00:00Z\",\"note\":\"stop\"}''
     | _ \<Rightarrow> ''{}''),
     cd_datetime := (\<lambda>_. Inr (Aware (utc 0)))\<rparr>"

definition sample_halt_env :: "unit plane_env" where
  "sample_halt_env = sample_plane_env\<lparr>pe_codec := sample_halt_codec\<rparr>"

lemma sample_halt_reads: "reads_switch sample_halt_codec (\<lambda>_. ''1970-01-01T00:00:00Z'') sample_halt"
proof -
  have "json_loads (cd_dump sample_halt_codec (KillSwitchState sample_halt)) =
      Inr (kill_switch_json (\<lambda>_. ''1970-01-01T00:00:00Z'') sample_halt)" by code_simp
  moreover have "cd_datetime sample_halt_codec ''1970-01-01T00:00:00Z'' = Inr (Aware (ks_created_at sample_halt))"
    by (simp add: sample_halt_codec_def sample_halt_def)
  ultimately show ?thesis by (simp add: reads_switch_def)
qed

lemma sample_halt_run:
  "\<exists>s1. halt_new_entries sample_halt_env (Inst 0) rearm_mode_enum.HUMAN_ONLY ''stop'' sample_plane = (Inr sample_halt, s1) \<and>
     pl_registry s1 = pl_registry sample_plane"
proof -
  let ?env = sample_halt_env
  have "assert_no_secrets ''{}'' = Inr ()" by code_simp
  then have c: "\<forall>a. assert_no_secrets (cd_dump (pe_codec ?env) (AuditArtifact a)) = Inr ()"
    by (simp add: sample_halt_env_def sample_halt_codec_def)
  have now: "pe_now ?env = Aware (utc 0)" by (simp add: sample_halt_env_def sample_plane_env_def)
  have st: "store_ok (pl_store sample_plane)" "is_ok (iter_events (pl_store sample_plane) None)"
    using store_ok_new by (simp_all add: sample_plane_def iter_events_def rows_of_type_def new_audit_store_def)
  obtain a row where a: "audit ?env CMD_HALT ''HALT'' [OPERATOR_HALT_COMMAND] ''stop'' sample_plane =
      (Inr a, sample_plane\<lparr>pl_store := \<lparr>st_rows = st_rows (pl_store sample_plane) @ [row],
        st_last_seq = st_last_seq (pl_store sample_plane) + 1\<rparr>\<rparr>)"
    and aid: "new_artifact_id (pl_store sample_plane) CMD_HALT (pe_now ?env) = Inr (aa_artifact_id a)"
    using audit_succeeds [OF c now st, of "''HALT''" "[OPERATOR_HALT_COMMAND]" CMD_HALT "''stop''"] by auto
  let ?s = "sample_plane\<lparr>pl_store := \<lparr>st_rows = st_rows (pl_store sample_plane) @ [row],
        st_last_seq = st_last_seq (pl_store sample_plane) + 1\<rparr>\<rparr>"
  have "new_artifact_id new_audit_store CMD_HALT (Aware (utc 0)) = Inr (ks_command_id sample_halt)" by code_simp
  then have id: "aa_artifact_id a = ks_command_id sample_halt" using aid now by (simp add: sample_plane_def)
  have mint: "mint_kill_switch_state True (Some OPERATOR_HALT_COMMAND) (Some rearm_mode_enum.HUMAN_ONLY)
      (ks_command_id sample_halt) (Aware (utc 0)) ''stop'' = Inr sample_halt" by code_simp
  have "assert_no_secrets (cd_dump sample_halt_codec (KillSwitchState sample_halt)) = Inr ()" by code_simp
  then have s: "storable (pe_codec ?env) (pl_store ?s) (KillSwitchState sample_halt) None"
    by (simp add: storable_def sample_halt_env_def)
  moreover have "0 \<le> st_last_seq (pl_store ?s)" by (simp add: sample_plane_def new_audit_store_def)
  ultimately obtain e where e: "row_to_event (added_row (pe_codec ?env) (pl_store ?s) (KillSwitchState sample_halt)
      (Aware (utc 0)) (Aware (utc 0)) None) = Inr e"
    using added_event_ok [OF s, of "utc 0" "utc 0"] content_id_neq_Nil by (auto simp: derive_record_id_def)
  have h: "require_human ?env (Inst 0) CMD_HALT sample_plane = (Inr (), sample_plane)"
    by (simp add: require_human_def bind_st_def authority_problem_def authorized_command_def sample_plane_def
        confirm_human_def new_auth_registry_def)
  show ?thesis
    using h a mint id now append_storable [OF s, of "Aware (utc 0)" "Aware (utc 0)"] e
    by (simp add: halt_new_entries_def then_st_def bind_st_def store_append_def)
qed

theorem halt_holds_until_resume_witness:
  "\<exists>s1. halt_new_entries sample_halt_env (Inst 0) rearm_mode_enum.HUMAN_ONLY ''stop'' sample_plane = (Inr sample_halt, s1) \<and>
     new_entries_allowed sample_halt_codec
       (pl_store (run_plane sample_halt_codec s1 [Requested sample_halt_env (NotInst ''str'') (Resume ''go'')])) = Inr False"
proof -
  obtain s1 where s1: "halt_new_entries sample_halt_env (Inst 0) rearm_mode_enum.HUMAN_ONLY ''stop'' sample_plane =
      (Inr sample_halt, s1)" using sample_halt_run by blast
  have codec: "pe_codec sample_halt_env = sample_halt_codec" by (simp add: sample_halt_env_def)
  have ok: "store_ok (pl_store sample_plane)" using store_ok_new by (simp add: sample_plane_def)
  have "\<forall>x\<in>set [Requested sample_halt_env (NotInst ''str'') (Resume ''go'')]. \<not> sets_switch (pl_registry s1) x"
    by (simp add: authorized_command_def)
  from halt_holds_until_resume [OF ok s1 sample_halt_reads [folded codec] this refl]
  show ?thesis using s1 codec by auto
qed

definition sample_open_broker :: fake_broker where
  "sample_open_broker = (new_fake_broker FakePartialFillBroker ''fake'' None)\<lparr>fk_fills :=
     [(''k1'', \<lparr>bf_broker_order_id = \<lparr>bo_value = ''FAKE-k1'', bo_broker_name = ''fake''\<rparr>,
        bf_lifecycle_state = order_lifecycle_state.WORKING, bf_filled_contracts = 0, bf_requested_contracts = 1,
        bf_avg_fill_price = None, bf_fill_timestamp = None, bf_submitted_at = utc 0, bf_completed_at = None\<rparr>)],
     fk_index := [(''FAKE-k1'', ''k1'')]\<rparr>"

definition sample_fake_env :: "fake_broker plane_env" where
  "sample_fake_env = \<lparr>pe_codec = sample_codec, pe_adapter = fake_adapter, pe_broker_mode = Some broker_mode.PAPER,
     pe_now = Aware (utc 0), pe_wall = (\<lambda>_. utc 0), pe_dump_event = (\<lambda>_. [])\<rparr>"

definition sample_fake_plane :: "fake_broker plane" where
  "sample_fake_plane = \<lparr>pl_store = new_audit_store, pl_broker = Some sample_open_broker,
     pl_registry = snd (confirm_human new_auth_registry CMD_CANCEL ''CANCEL'' ''CANCEL'')\<rparr>"

theorem cancel_is_authenticated_witness:
  "\<not> is_ok (fst (cancel_open_orders sample_fake_env (Inst 0) sample_fake_plane)) \<and>
   pl_broker (snd (cancel_open_orders sample_fake_env (Inst 0) sample_fake_plane)) = Some sample_open_broker"
proof -
  let ?run = "cancel_open_orders sample_fake_env (Inst 0) sample_fake_plane"
  have "ad_open_orders (pe_adapter sample_fake_env) sample_open_broker = Inr (map snd (fk_fills sample_open_broker))"
    by (simp add: sample_fake_env_def fake_adapter_def fake_get_open_orders_def sample_open_broker_def OPEN_STATES_def)
  note c = cancel_is_authenticated [of sample_fake_env "Inst 0" sample_fake_plane "fst ?run" "snd ?run", OF _ _ this]
  have "resolve_cancel_identity cd new_audit_store f =
      Inl (cancel_identity_error ''no persisted ExecutionReport references broker_order_id'')" for cd f
    by (simp add: resolve_cancel_identity_def authenticated_report_def matching_reports_def iter_events_def
        rows_of_type_def new_audit_store_def Let_def)
  then have "\<not> authenticated sample_codec new_audit_store f i" for f i
    by (simp add: resolve_iff_authenticated [symmetric])
  then show ?thesis using c
    by (auto simp: sample_fake_plane_def sample_open_broker_def quiet_def sample_fake_env_def)
qed

end
