(* ===== verification/ShadowCycle.thy ===== *)
theory ShadowCycle
  imports Pipeline
begin

text \<open>
  The read-only cycle of \<open>services/shadow_cycle.py\<close> and the process entry point of
  \<open>services/__main__.py\<close>, which runs one shadow cycle or one paper cycle without requests.
  A shadow cycle decides and mints dry-run tickets; its state has no broker.
\<close>

section \<open>Configuration gate\<close>

definition shadow_config_error :: "string \<Rightarrow> py_error" where
  "shadow_config_error message = ConfigError ''ShadowConfigError'' message"

definition require_shadow_safe :: "app_config \<Rightarrow> unit res" where
  "require_shadow_safe config =
     require (cfg_app_env config = VM_SHADOW) (shadow_config_error ''shadow cycle requires APP_ENV=vm_shadow'') (
     require (cfg_broker_mode config = broker_mode.NONE)
       (shadow_config_error ''shadow cycle requires BROKER_MODE=none'') (
     require (\<not> (cfg_submission_enabled config \<or> cfg_paper_submit_enabled config \<or>
         cfg_live_submit_enabled config \<or> submission_armed config))
       (shadow_config_error ''shadow cycle requires SUBMISSION_ENABLED/PAPER_SUBMIT_ENABLED/LIVE_SUBMIT_ENABLED all false'') (
     Inr ())))"

section \<open>The cycle\<close>

record shadow_cycle_args =
  sc_recorded_at :: datetime
  sc_routing_state :: "order_routing_state option"
  sc_heartbeat_path :: "string option"
  sc_ct_offset :: "int \<Rightarrow> int"
  sc_codec :: codec

record shadow_cycle_state = audit_trail +
  sh_approved :: int
  sh_rejected :: int

record shadow_cycle_result =
  sx_app_env :: app_env
  sx_requests_evaluated :: int
  sx_approved_dry_run_tickets :: int
  sx_rejected :: int
  sx_heartbeat_path :: "string option"
  sx_audit_record_ids :: "string list"

abbreviation shadow_audit ::
  "shadow_cycle_args \<Rightarrow> hermes_model \<Rightarrow> datetime \<Rightarrow> (shadow_cycle_state, unit) step" where
  "shadow_audit a obj created \<equiv> audit_step (sc_codec a) (sc_recorded_at a) obj created"

definition shadow_ticket_step ::
  "shadow_cycle_args \<Rightarrow> app_config \<Rightarrow> gateway_request \<Rightarrow> validated_trade_intent \<Rightarrow> (shadow_cycle_state, unit) step" where
  "shadow_ticket_step a config r validated =
     (if cfg_order_ticketing_enabled config then
        (case sc_routing_state a of
           None \<Rightarrow> return_st ()
         | Some rs \<Rightarrow>
             bind_st (lift_res (mint_order_ticket (gr_as_of r) (Inst validated) rs (Some (Aware (gr_as_of r))))) (\<lambda>ticket.
             then_st (shadow_audit a (OrderTicket ticket) (Aware (ot_created_at ticket)))
               (modify_st (\<lambda>s. s\<lparr>sh_approved := sh_approved s + 1\<rparr>))))
      else return_st ())"

definition shadow_decision_step ::
  "shadow_cycle_args \<Rightarrow> app_config \<Rightarrow> gateway_request \<Rightarrow> gateway_decision \<Rightarrow> (shadow_cycle_state, unit) step" where
  "shadow_decision_step a config r d =
     (if \<not> is_approved d then
        (case gd_rejection d of
           None \<Rightarrow> raise_st (AssertionError ''rejection is not None'')
         | Some rejection \<Rightarrow>
             then_st (shadow_audit a (AuditArtifact rejection) (Aware (aa_created_at rejection)))
               (modify_st (\<lambda>s. s\<lparr>sh_rejected := sh_rejected s + 1\<rparr>)))
      else
        (case gd_approved d of
           None \<Rightarrow> raise_st (AssertionError ''validated is not None'')
         | Some validated \<Rightarrow>
             then_st (shadow_audit a (ValidatedTradeIntent validated) (Aware (gr_as_of r)))
               (shadow_ticket_step a config r validated)))"

definition shadow_item_step ::
  "shadow_cycle_args \<Rightarrow> app_config \<Rightarrow> gateway_request dyn \<Rightarrow> (shadow_cycle_state, unit) step" where
  "shadow_item_step a config item =
     (case item of
        NotInst _ \<Rightarrow> raise_st (TypeError ''run_shadow_cycle requires GatewayRequest items'')
      | Inst r \<Rightarrow>
          then_st (shadow_audit a (GatewayRequest r) (Aware (gr_as_of r)))
            (bind_st (lift_res (validate (sc_ct_offset a) (dump_request (sc_codec a)) r))
               (shadow_decision_step a config r)))"

fun shadow_loop ::
  "shadow_cycle_args \<Rightarrow> app_config \<Rightarrow> gateway_request dyn list \<Rightarrow> (shadow_cycle_state, unit) step" where
  "shadow_loop a config [] = return_st ()"
| "shadow_loop a config (r # rs) = then_st (shadow_item_step a config r) (shadow_loop a config rs)"

definition shadow_startup_step :: "shadow_cycle_args \<Rightarrow> app_config \<Rightarrow> int \<Rightarrow> (shadow_cycle_state, unit) step" where
  "shadow_startup_step a config n =
     audit_new_artifact (sc_codec a) (sc_recorded_at a) (''shadow-startup-'' @ dt_isoformat (sc_recorded_at a))
       ''SHADOW_CYCLE_START'' []
       (''app_env='' @ app_env_value (cfg_app_env config) @ '' broker_mode='' @
        broker_mode_value (cfg_broker_mode config) @ '' submission_armed='' @ bool_str (submission_armed config) @
        '' requests='' @ int_str n)"

definition shadow_heartbeat_text :: "shadow_cycle_args \<Rightarrow> app_config \<Rightarrow> int \<Rightarrow> shadow_cycle_state \<Rightarrow> string" where
  "shadow_heartbeat_text a config n s = str_join [CHR 0x0A]
     [''app_env='' @ app_env_value (cfg_app_env config),
      ''broker_mode='' @ broker_mode_value (cfg_broker_mode config),
      ''recorded_at='' @ dt_isoformat (sc_recorded_at a),
      ''requests_evaluated='' @ int_str n, ''approved_dry_run_tickets='' @ int_str (sh_approved s),
      ''rejected='' @ int_str (sh_rejected s), []]"

definition shadow_result :: "shadow_cycle_args \<Rightarrow> app_config \<Rightarrow> int \<Rightarrow> shadow_cycle_state \<Rightarrow> shadow_cycle_result" where
  "shadow_result a config n s =
     \<lparr>sx_app_env = cfg_app_env config, sx_requests_evaluated = n, sx_approved_dry_run_tickets = sh_approved s,
      sx_rejected = sh_rejected s, sx_heartbeat_path = sc_heartbeat_path a, sx_audit_record_ids = au_record_ids s\<rparr>"

definition initial_shadow_state :: "audit_store \<Rightarrow> shadow_cycle_state" where
  "initial_shadow_state st = \<lparr>au_store = st, au_record_ids = [], sh_approved = 0, sh_rejected = 0\<rparr>"

definition run_shadow_cycle ::
  "shadow_cycle_args \<Rightarrow> app_config \<Rightarrow> audit_store \<Rightarrow> gateway_request dyn list
     \<Rightarrow> (shadow_cycle_result \<times> string option) res \<times> shadow_cycle_state" where
  "run_shadow_cycle a config st requests =
     (let n = int (length requests) in
      then_st (lift_res (require_shadow_safe config))
      (then_st (shadow_startup_step a config n)
      (then_st (shadow_loop a config requests)
         (gets_st (\<lambda>s. (shadow_result a config n s,
            map_option (\<lambda>_. shadow_heartbeat_text a config n s) (sc_heartbeat_path a)))))) (initial_shadow_state st))"

section \<open>The process entry point\<close>

definition DEFAULT_HEARTBEAT_FILE :: string where "DEFAULT_HEARTBEAT_FILE = ''.hermes/heartbeat.txt''"

text \<open>What the process reads from its surroundings: environment variables, the clock, the codec.\<close>

record service_env =
  sv_vars :: env
  sv_now :: aware
  sv_codec :: codec
  sv_ct_offset :: "int \<Rightarrow> int"
  sv_wall :: "int \<Rightarrow> aware"

definition heartbeat_file :: "service_env \<Rightarrow> string" where
  "heartbeat_file v = env_get (sv_vars v) ''HERMES_HEARTBEAT_FILE'' DEFAULT_HEARTBEAT_FILE"

text \<open>Exit code 2 for a refused configuration; other exceptions propagate.\<close>

definition exit_code :: "string \<Rightarrow> 'a res \<Rightarrow> int res" where
  "exit_code refused r =
     (case r of
        Inr _ \<Rightarrow> Inr 0
      | Inl (ConfigError cls m) \<Rightarrow> if cls = refused then Inr 2 else Inl (ConfigError cls m)
      | Inl e \<Rightarrow> Inl e)"

definition run_shadow :: "service_env \<Rightarrow> app_config \<Rightarrow> audit_store \<Rightarrow> int res \<times> audit_store" where
  "run_shadow v config st =
     (let a = \<lparr>sc_recorded_at = Aware (sv_now v), sc_routing_state = None, sc_heartbeat_path = Some (heartbeat_file v),
               sc_ct_offset = sv_ct_offset v, sc_codec = sv_codec v\<rparr>
      in case run_shadow_cycle a config st [] of (r, s) \<Rightarrow> (exit_code ''ShadowConfigError'' r, au_store s))"

definition run_paper :: "service_env \<Rightarrow> app_config \<Rightarrow> audit_store \<Rightarrow> int res \<times> audit_store" where
  "run_paper v config st =
     (case paper_config_from_env (sv_vars v) of
        Inl _ \<Rightarrow> (Inr 2, st)
      | Inr paper_config \<Rightarrow>
          let a = \<lparr>pc_recorded_at = Aware (sv_now v), pc_routing_state = None, pc_confirmer = None,
                   pc_attempt_counter = 1, pc_heartbeat_path = Some (heartbeat_file v),
                   pc_ct_offset = sv_ct_offset v, pc_codec = sv_codec v, pc_wall = sv_wall v\<rparr>
          in case run_paper_cycle a config (new_local_paper_broker (Some paper_config) None) st [] of
               (r, s) \<Rightarrow> (exit_code ''PaperConfigError'' r, au_store s))"

definition services_main :: "service_env \<Rightarrow> audit_store \<Rightarrow> int res \<times> audit_store" where
  "services_main v st =
     (case app_config_from_env (sv_vars v) of
        Inl _ \<Rightarrow> (Inr 2, st)
      | Inr config \<Rightarrow>
          if cfg_app_env config = VM_SHADOW then run_shadow v config st
          else if cfg_app_env config = VM_PAPER then run_paper v config st
          else (Inr 2, st))"

section \<open>What a shadow cycle keeps\<close>

text \<open>Rows are only added, none of them a submit attempt, an execution report or a switch state, and
  none with an idempotency key.\<close>

definition SHADOW_TYPES :: "record_type set" where
  "SHADOW_TYPES = {AUDIT_ARTIFACT, GATEWAY_REQUEST, VALIDATED_TRADE_INTENT, ORDER_TICKET}"

definition shadow_rel :: "'a audit_trail_scheme \<Rightarrow> 'a audit_trail_scheme \<Rightarrow> bool" where
  "shadow_rel s t \<longleftrightarrow> (\<exists>rs. st_rows (au_store t) = st_rows (au_store s) @ rs \<and>
     (\<forall>r\<in>set rs. sr_record_type r \<in> SHADOW_TYPES \<and> sr_idempotency_key r = None))"

interpretation shadow: step_relation shadow_rel
  by unfold_locales (auto simp: shadow_rel_def)

lemma shadow_audit_step:
  assumes "RECORD_TYPE_BY_CLASS obj = Some t" and "t \<in> SHADOW_TYPES"
  shows "keeps shadow_rel (audit_step cd rec obj c)"
  unfolding keeps_def
proof
  fix s :: "'a audit_trail_scheme"
  show "shadow_rel s (snd (audit_step cd rec obj c s))"
  proof (cases "storable cd (au_store s) obj None")
    case True
    then show ?thesis
      using append_storable [OF True, of c rec] assms
      by (auto simp: shadow_rel_def audit_step_def added_row_def split: sum.splits)
  next
    case False
    then show ?thesis
      using append_not_storable [OF False, of c rec] by (auto simp: shadow_rel_def audit_step_def)
  qed
qed

lemma shadow_audit_artifact: "keeps shadow_rel (audit_new_artifact cd rec aid dec codes detail)"
  unfolding audit_new_artifact_def
  by (intro shadow.keeps_rules shadow_audit_step [of _ AUDIT_ARTIFACT]) (simp_all add: SHADOW_TYPES_def)

lemma shadow_counter:
  "keeps shadow_rel (modify_st (\<lambda>s. s\<lparr>sh_approved := sh_approved s + 1\<rparr>))"
  "keeps shadow_rel (modify_st (\<lambda>s. s\<lparr>sh_rejected := sh_rejected s + 1\<rparr>))"
  by (rule shadow.keeps_modify; simp add: shadow_rel_def)+

lemmas shadow_step_audits = shadow_audit_step [of "GatewayRequest _", OF RECORD_TYPE_BY_CLASS.simps(1)]
  shadow_audit_step [of "ValidatedTradeIntent _", OF RECORD_TYPE_BY_CLASS.simps(2)]
  shadow_audit_step [of "OrderTicket _", OF RECORD_TYPE_BY_CLASS.simps(4)]
  shadow_audit_step [of "AuditArtifact _", OF RECORD_TYPE_BY_CLASS.simps(11)]

lemma shadow_item: "keeps shadow_rel (shadow_item_step a config item)"
  unfolding shadow_item_step_def shadow_decision_step_def shadow_ticket_step_def
  by (intro shadow.keeps_rules shadow_step_audits shadow_counter) (simp_all add: SHADOW_TYPES_def)

lemma shadow_items: "keeps shadow_rel (shadow_loop a config items)"
proof (induction items)
  case Nil
  show ?case unfolding shadow_loop.simps by (rule shadow.keeps_pure)
next
  case (Cons r rs)
  then show ?case unfolding shadow_loop.simps by (intro shadow.keeps_rules shadow_item)
qed

lemma shadow_cycle_rel: "shadow_rel (initial_shadow_state st) (snd (run_shadow_cycle a config st requests))"
proof -
  let ?n = "int (length requests)"
  have "keeps shadow_rel (then_st (lift_res (require_shadow_safe config))
      (then_st (shadow_startup_step a config ?n)
      (then_st (shadow_loop a config requests)
         (gets_st (\<lambda>s. (shadow_result a config ?n s,
            map_option (\<lambda>_. shadow_heartbeat_text a config ?n s) (sc_heartbeat_path a)))))))"
    unfolding shadow_startup_step_def
    by (intro shadow.keeps_rules shadow_items shadow_audit_artifact)
  then show ?thesis by (simp add: run_shadow_cycle_def keeps_def Let_def)
qed

section \<open>Accounting\<close>

text \<open>The gateway's decision on a request, as the cycle asks for it.\<close>

definition approved_by :: "shadow_cycle_args \<Rightarrow> gateway_request \<Rightarrow> bool" where
  "approved_by a q \<longleftrightarrow>
     (\<exists>d v. validate (sc_ct_offset a) (dump_request (sc_codec a)) q = Inr d \<and> gd_approved d = Some v)"

definition rejected_by :: "shadow_cycle_args \<Rightarrow> gateway_request \<Rightarrow> bool" where
  "rejected_by a q \<longleftrightarrow>
     (\<exists>d. validate (sc_ct_offset a) (dump_request (sc_codec a)) q = Inr d \<and> gd_approved d = None)"

definition mints_tickets :: "shadow_cycle_args \<Rightarrow> app_config \<Rightarrow> bool" where
  "mints_tickets a config \<longleftrightarrow> cfg_order_ticketing_enabled config \<and> sc_routing_state a \<noteq> None"

lemma rejected_not_approved: "rejected_by a q \<longleftrightarrow> \<not> approved_by a q"
proof -
  obtain d where "validate (sc_ct_offset a) (dump_request (sc_codec a)) q = Inr d"
    using validate_always_decides by blast
  then show ?thesis by (cases "gd_approved d") (auto simp: rejected_by_def approved_by_def)
qed

lemma audit_step_counters:
  "audit_step cd rec obj c s = (Inr u, s') \<Longrightarrow> sh_approved s' = sh_approved s \<and> sh_rejected s' = sh_rejected s"
  by (auto simp: audit_step_def split: prod.splits sum.splits)

lemma audit_artifact_counters:
  "audit_new_artifact cd rec aid dec codes detail s = (Inr u, s') \<Longrightarrow>
     sh_approved s' = sh_approved s \<and> sh_rejected s' = sh_rejected s"
  by (auto simp: audit_new_artifact_def step_Inr lift_res_def dest: audit_step_counters)

lemma shadow_ticket_counters:
  assumes "shadow_ticket_step a config r v s = (Inr u, s')"
  shows "sh_approved s' = sh_approved s + (if mints_tickets a config then 1 else 0) \<and> sh_rejected s' = sh_rejected s"
  using assms
  by (auto simp: shadow_ticket_step_def step_Inr lift_res_def return_st_def modify_st_def mints_tickets_def
      dest!: audit_step_counters split: if_splits option.splits)

lemma shadow_item_counters:
  assumes "shadow_item_step a config item s = (Inr u, s')"
  shows "\<exists>q. item = Inst q \<and>
    sh_approved s' = sh_approved s + (if approved_by a q \<and> mints_tickets a config then 1 else 0) \<and>
    sh_rejected s' = sh_rejected s + (if rejected_by a q then 1 else 0)"
proof -
  obtain r d s1 where i: "item = Inst r" "validate (sc_ct_offset a) (dump_request (sc_codec a)) r = Inr d"
    and r: "shadow_audit a (GatewayRequest r) (Aware (gr_as_of r)) s = (Inr (), s1)"
    and d: "shadow_decision_step a config r d s1 = (Inr u, s')"
    using assms by (auto simp: shadow_item_step_def step_Inr lift_res_def raise_st_def split: dyn.splits)
  have app: "approved_by a r \<longleftrightarrow> gd_approved d \<noteq> None" "rejected_by a r \<longleftrightarrow> gd_approved d = None"
    using i(2) by (auto simp: approved_by_def rejected_by_def)
  show ?thesis
  proof (cases "gd_approved d")
    case None
    then have "sh_rejected s' = sh_rejected s1 + 1 \<and> sh_approved s' = sh_approved s1"
      using d by (auto simp: shadow_decision_step_def is_approved_def step_Inr modify_st_def raise_st_def
          dest!: audit_step_counters split: option.splits)
    then show ?thesis using audit_step_counters [OF r] None i(1) by (simp add: app)
  next
    case (Some v)
    then obtain s2 where a2: "shadow_audit a (ValidatedTradeIntent v) (Aware (gr_as_of r)) s1 = (Inr (), s2)"
      and t: "shadow_ticket_step a config r v s2 = (Inr u, s')"
      using d by (auto simp: shadow_decision_step_def is_approved_def step_Inr)
    show ?thesis
      using shadow_ticket_counters [OF t] audit_step_counters [OF r] audit_step_counters [OF a2] Some i(1) by (simp add: app)
  qed
qed

lemma shadow_loop_counters:
  assumes "shadow_loop a config items s = (Inr u, s')"
  shows "\<exists>qs. items = map Inst qs \<and>
    sh_approved s' = sh_approved s + (if mints_tickets a config then int (length (filter (approved_by a) qs)) else 0) \<and>
    sh_rejected s' = sh_rejected s + int (length (filter (rejected_by a) qs))"
  using assms
proof (induction items arbitrary: s)
  case Nil
  then show ?case by (simp add: return_st_def)
next
  case (Cons item items)
  then obtain v s1 where i: "shadow_item_step a config item s = (Inr v, s1)" and l: "shadow_loop a config items s1 = (Inr u, s')"
    by (auto simp: step_Inr)
  obtain q where q: "item = Inst q"
    "sh_approved s1 = sh_approved s + (if approved_by a q \<and> mints_tickets a config then 1 else 0)"
    "sh_rejected s1 = sh_rejected s + (if rejected_by a q then 1 else 0)"
    using shadow_item_counters [OF i] by blast
  obtain qs where "items = map Inst qs"
    "sh_approved s' = sh_approved s1 + (if mints_tickets a config then int (length (filter (approved_by a) qs)) else 0)"
    "sh_rejected s' = sh_rejected s1 + int (length (filter (rejected_by a) qs))"
    using Cons.IH [OF l] by blast
  then show ?case using q by (intro exI [of _ "q # qs"]) simp
qed

text \<open>What the gate lets through, flag by flag.\<close>

definition shadow_safe :: "app_config \<Rightarrow> bool" where
  "shadow_safe config \<longleftrightarrow>
     cfg_app_env config = VM_SHADOW \<and> cfg_broker_mode config = broker_mode.NONE \<and>
     \<not> cfg_submission_enabled config \<and> \<not> cfg_paper_submit_enabled config \<and> \<not> cfg_live_submit_enabled config"

lemma require_shadow_safe_iff:
  "if shadow_safe config then require_shadow_safe config = Inr ()
   else \<exists>m. require_shadow_safe config = Inl (ConfigError ''ShadowConfigError'' m)"
  by (simp add: require_shadow_safe_def shadow_safe_def require_def shadow_config_error_def submission_armed_def)

lemma shadow_returned:
  assumes "run_shadow_cycle a config st requests = (Inr (res, hb), s)"
  shows "shadow_safe config \<and> sx_app_env res = VM_SHADOW \<and> sx_heartbeat_path res = sc_heartbeat_path a \<and>
    sx_requests_evaluated res = int (length requests) \<and>
    (\<exists>qs. requests = map Inst qs \<and> sx_rejected res = int (length (filter (rejected_by a) qs)) \<and>
       sx_approved_dry_run_tickets res =
         (if mints_tickets a config then int (length (filter (approved_by a) qs)) else 0)) \<and>
    sx_approved_dry_run_tickets res + sx_rejected res \<le> int (length requests) \<and>
    (mints_tickets a config \<longrightarrow> sx_approved_dry_run_tickets res + sx_rejected res = int (length requests))"
proof -
  obtain s1 where safe: "require_shadow_safe config = Inr ()"
    and start: "shadow_startup_step a config (int (length requests)) (initial_shadow_state st) = (Inr (), s1)"
    and loop: "shadow_loop a config requests s1 = (Inr (), s)"
    and res: "res = shadow_result a config (int (length requests)) s"
    using assms by (auto simp: run_shadow_cycle_def Let_def step_Inr lift_res_def gets_st_def)
  have "sh_approved s1 = 0 \<and> sh_rejected s1 = 0"
    using audit_artifact_counters [OF start [unfolded shadow_startup_step_def]] by (simp add: initial_shadow_state_def)
  then obtain qs where qs: "requests = map Inst qs" "sh_rejected s = int (length (filter (rejected_by a) qs))"
    "sh_approved s = (if mints_tickets a config then int (length (filter (approved_by a) qs)) else 0)"
    using shadow_loop_counters [OF loop] by auto
  have "length (filter (approved_by a) qs) + length (filter (rejected_by a) qs) = length qs"
    using sum_length_filter_compl [of "approved_by a" qs] by (simp add: rejected_not_approved [abs_def])
  moreover have config: "shadow_safe config" using safe require_shadow_safe_iff [of config] by (auto split: if_splits)
  moreover have "cfg_app_env config = VM_SHADOW" using config by (simp add: shadow_safe_def)
  ultimately show ?thesis using qs by (auto simp: res shadow_result_def)
qed

lemma shadow_refused:
  assumes "run_shadow_cycle a config st requests = (r, s)" and "\<not> shadow_safe config"
  shows "(\<exists>m. r = Inl (ConfigError ''ShadowConfigError'' m)) \<and> au_store s = st"
  using assms require_shadow_safe_iff [of config]
  by (auto simp: run_shadow_cycle_def Let_def then_st_def bind_st_def initial_shadow_state_def)

lemma shadow_rows:
  assumes "run_shadow_cycle a config st requests = (r, s)"
  shows "\<exists>rs. st_rows (au_store s) = st_rows st @ rs \<and>
    (\<forall>row\<in>set rs. sr_record_type row \<in> {AUDIT_ARTIFACT, GATEWAY_REQUEST, VALIDATED_TRADE_INTENT, ORDER_TICKET} \<and>
       sr_idempotency_key row = None)"
  using shadow_cycle_rel [of st a config requests] assms
  by (simp add: shadow_rel_def initial_shadow_state_def SHADOW_TYPES_def)

section \<open>Properties\<close>

text \<open>C30. A shadow cycle never submits: whatever the requests and whether or not it raises, the rows
  it adds to the audit store are audit artifacts, requests, approved intents and tickets, none
  carries an idempotency key, so no submit attempt and no execution report is ever recorded. When the
  environment is not the shadow one, or the broker mode is not NONE, or any one of the three submission
  flags is on, it raises \<open>ShadowConfigError\<close> and leaves the store as it was. A cycle that returns
  therefore ran with every flag off; all its items were requests; it counts as rejected exactly the
  requests the gateway rejects, and as approved dry-run tickets exactly those it approves when tickets
  are enabled and a routing state is given, and none otherwise.\<close>

theorem shadow_cycle_never_submits:
  assumes "run_shadow_cycle a config st requests = (r, s)"
  shows "(\<exists>rs. st_rows (au_store s) = st_rows st @ rs \<and>
      (\<forall>row\<in>set rs. sr_record_type row \<in> {AUDIT_ARTIFACT, GATEWAY_REQUEST, VALIDATED_TRADE_INTENT, ORDER_TICKET} \<and>
         sr_idempotency_key row = None)) \<and>
    (cfg_app_env config \<noteq> VM_SHADOW \<or> cfg_broker_mode config \<noteq> broker_mode.NONE \<or> cfg_submission_enabled config \<or>
       cfg_paper_submit_enabled config \<or> cfg_live_submit_enabled config \<longrightarrow>
       (\<exists>m. r = Inl (ConfigError ''ShadowConfigError'' m)) \<and> au_store s = st) \<and>
    (\<forall>res hb. r = Inr (res, hb) \<longrightarrow>
       cfg_app_env config = VM_SHADOW \<and> cfg_broker_mode config = broker_mode.NONE \<and>
       \<not> cfg_submission_enabled config \<and> \<not> cfg_paper_submit_enabled config \<and> \<not> cfg_live_submit_enabled config \<and>
       sx_app_env res = VM_SHADOW \<and> sx_heartbeat_path res = sc_heartbeat_path a \<and>
       sx_requests_evaluated res = int (length requests) \<and>
       (\<exists>qs. requests = map Inst qs \<and>
          sx_rejected res = int (length (filter (\<lambda>q. \<exists>d.
            validate (sc_ct_offset a) (dump_request (sc_codec a)) q = Inr d \<and> gd_approved d = None) qs)) \<and>
          sx_approved_dry_run_tickets res =
            (if cfg_order_ticketing_enabled config \<and> sc_routing_state a \<noteq> None
             then int (length (filter (\<lambda>q. \<exists>d v.
               validate (sc_ct_offset a) (dump_request (sc_codec a)) q = Inr d \<and> gd_approved d = Some v) qs))
             else 0)) \<and>
       sx_approved_dry_run_tickets res + sx_rejected res \<le> int (length requests) \<and>
       (cfg_order_ticketing_enabled config \<and> sc_routing_state a \<noteq> None \<longrightarrow>
          sx_approved_dry_run_tickets res + sx_rejected res = int (length requests)))"
  using shadow_rows [OF assms] shadow_refused [OF assms] shadow_returned [of a config st requests _ _ s] assms
  unfolding shadow_safe_def mints_tickets_def approved_by_def [abs_def] rejected_by_def [abs_def]
  by (intro conjI allI impI) blast+

definition sample_shadow_config :: app_config where
  "sample_shadow_config =
     \<lparr>cfg_app_env = VM_SHADOW, cfg_broker_mode = broker_mode.NONE, cfg_submission_enabled = False,
      cfg_paper_submit_enabled = False, cfg_live_submit_enabled = False, cfg_market_data_enabled = True,
      cfg_candidate_generation_enabled = True, cfg_gateway_enabled = True,
      cfg_order_ticketing_enabled = True, cfg_audit_db_path = ''.hermes/audit.db''\<rparr>"

definition sample_shadow_args :: shadow_cycle_args where
  "sample_shadow_args =
     \<lparr>sc_recorded_at = Aware sample_as_of, sc_routing_state = Some sample_routing, sc_heartbeat_path = None,
      sc_ct_offset = sample_ct_offset, sc_codec = sample_codec\<rparr>"

lemma shadow_audit_ok:
  assumes "0 \<le> st_last_seq (au_store s)" and "RECORD_TYPE_BY_CLASS obj \<noteq> None" and "derive_record_id sample_codec obj \<noteq> []"
  obtains s' where "audit_step sample_codec (Aware rec) obj (Aware c) (s :: shadow_cycle_state) = (Inr (), s')"
    "0 \<le> st_last_seq (au_store s')"
proof -
  let ?st = "logged sample_codec rec obj c None (au_store s)"
  obtain e where "append_event sample_codec (au_store s) obj (Aware c) (Aware rec) None = (Inr e, ?st)"
    using append_ok [OF sample_storing_codec assms, of None c rec] by auto
  then have "audit_step sample_codec (Aware rec) obj (Aware c) s =
      (Inr (), s\<lparr>au_store := ?st, au_record_ids := au_record_ids s @ [se_record_id e]\<rparr>)"
    by (simp add: audit_step_def)
  then show ?thesis using that assms(1) by simp
qed

lemma shadow_startup_ok:
  assumes "0 \<le> st_last_seq (au_store s)"
  obtains s' where "shadow_startup_step sample_shadow_args config n s = (Inr (), s')" "0 \<le> st_last_seq (au_store s')"
proof -
  let ?aid = "''shadow-startup-'' @ dt_isoformat (Aware sample_as_of)"
  define detail where "detail = ''app_env='' @ app_env_value (cfg_app_env config) @ '' broker_mode='' @
        broker_mode_value (cfg_broker_mode config) @ '' submission_armed='' @ bool_str (submission_armed config) @
        '' requests='' @ int_str n"
  define art where "art = \<lparr>aa_artifact_id = ?aid, aa_created_at = sample_as_of, aa_decision = ''SHADOW_CYCLE_START'',
    aa_reason_codes = [], aa_detail = detail\<rparr>"
  have "str_upper ''SHADOW_CYCLE_START'' = ''SHADOW_CYCLE_START''" by code_simp
  then have a: "new_artifact ?aid (Aware sample_as_of) ''SHADOW_CYCLE_START'' [] detail = Inr art"
    by (simp add: new_artifact_def aware_of_def mk_audit_artifact_def audit_artifact_guards_def art_def)
  obtain s' where "audit_step sample_codec (Aware sample_as_of) (AuditArtifact art) (Aware sample_as_of) s = (Inr (), s')"
    "0 \<le> st_last_seq (au_store s')"
    by (rule shadow_audit_ok [OF assms, of "AuditArtifact art" sample_as_of sample_as_of])
      (simp_all add: derive_record_id_def art_def)
  then have "shadow_startup_step sample_shadow_args config n s = (Inr (), s')"
    using a by (simp add: shadow_startup_step_def audit_new_artifact_def sample_shadow_args_def detail_def bind_st_def)
  then show ?thesis using that \<open>0 \<le> st_last_seq (au_store s')\<close> by blast
qed

lemma shadow_sample_run:
  "\<exists>res hb s. run_shadow_cycle sample_shadow_args sample_shadow_config new_audit_store [Inst sample_request] = (Inr (res, hb), s)"
proof -
  let ?a = sample_shadow_args and ?c = sample_shadow_config and ?r = sample_request
  obtain d v where dv: "validate sample_ct_offset (dump_request sample_codec) ?r = Inr d" "gd_approved d = Some v"
    by (rule sample_approved)
  have v: "wf_validated_trade_intent v" by (rule approved_wf(1) [OF sample_request_wf dv])
  define t where "t = routed_ticket (gr_as_of ?r) v sample_routing"
  have mint: "mint_order_ticket now (Inst v) sample_routing (Some (Aware (gr_as_of ?r))) = Inr t" for now
    by (simp add: mint_order_ticket_Inst [OF v] t_def) (simp add: sample_routing_def)
  have "0 \<le> st_last_seq (au_store (initial_shadow_state new_audit_store))"
    by (simp add: initial_shadow_state_def new_audit_store_def)
  from shadow_startup_ok [OF this, of ?c 1] obtain s1 where
    s1: "shadow_startup_step ?a ?c 1 (initial_shadow_state new_audit_store) = (Inr (), s1)" "0 \<le> st_last_seq (au_store s1)"
    by blast
  from shadow_audit_ok [OF s1(2), of "GatewayRequest ?r" sample_as_of "gr_as_of ?r"] obtain s2 where
    s2: "audit_step sample_codec (Aware sample_as_of) (GatewayRequest ?r) (Aware (gr_as_of ?r)) s1 = (Inr (), s2)"
      "0 \<le> st_last_seq (au_store s2)" by auto
  from shadow_audit_ok [OF s2(2), of "ValidatedTradeIntent v" sample_as_of "gr_as_of ?r"] obtain s3 where
    s3: "audit_step sample_codec (Aware sample_as_of) (ValidatedTradeIntent v) (Aware (gr_as_of ?r)) s2 = (Inr (), s3)"
      "0 \<le> st_last_seq (au_store s3)" by auto
  from shadow_audit_ok [OF s3(2), of "OrderTicket t" sample_as_of "ot_created_at t"] obtain s4 where
    s4: "audit_step sample_codec (Aware sample_as_of) (OrderTicket t) (Aware (ot_created_at t)) s3 = (Inr (), s4)" by auto
  have a: "sc_codec ?a = sample_codec" "sc_ct_offset ?a = sample_ct_offset" "sc_recorded_at ?a = Aware sample_as_of"
    "sc_routing_state ?a = Some sample_routing" "cfg_order_ticketing_enabled ?c" "require_shadow_safe ?c = Inr ()"
    by (simp_all add: sample_shadow_args_def sample_shadow_config_def require_shadow_safe_def require_def submission_armed_def)
  have "shadow_item_step ?a ?c (Inst ?r) s1 = (Inr (), s4\<lparr>sh_approved := sh_approved s4 + 1\<rparr>)"
    by (simp add: shadow_item_step_def shadow_decision_step_def shadow_ticket_step_def a dv is_approved_def
        then_st_def bind_st_Inr s2(1) s3(1) s4 mint)
  then show ?thesis
    using s1(1) by (simp add: run_shadow_cycle_def Let_def a(6) then_st_def bind_st_Inr)
qed

theorem shadow_cycle_never_submits_witness:
  "\<exists>res hb s. run_shadow_cycle sample_shadow_args sample_shadow_config new_audit_store [Inst sample_request] = (Inr (res, hb), s) \<and>
     sx_approved_dry_run_tickets res = 1 \<and> sx_rejected res = 0 \<and> (\<forall>row\<in>set (st_rows (au_store s)). sr_idempotency_key row = None)"
proof -
  obtain res hb s where run:
    "run_shadow_cycle sample_shadow_args sample_shadow_config new_audit_store [Inst sample_request] = (Inr (res, hb), s)"
    using shadow_sample_run by blast
  obtain d v where "validate sample_ct_offset (dump_request sample_codec) sample_request = Inr d" "gd_approved d = Some v"
    by (rule sample_approved)
  then show ?thesis
    using shadow_cycle_never_submits [OF run] run
    by (auto simp: sample_shadow_args_def sample_shadow_config_def new_audit_store_def)
qed

section \<open>The entry point\<close>

lemma paper_liveness_rel: "shadow_rel (initial_cycle_state b st) (snd (run_paper_cycle a config b st []))"
proof -
  have "keeps shadow_rel (then_st (lift_res (require_paper_safe config b))
      (then_st (startup_step a config 0) (then_st (items_loop a 0 [])
         (gets_st (\<lambda>s. (cycle_result a config 0 s,
            map_option (\<lambda>_. heartbeat_text a config 0 s) (pc_heartbeat_path a)))))))"
    unfolding startup_step_def items_loop.simps
    by (intro shadow.keeps_rules shadow_audit_artifact)
  then show ?thesis by (simp add: run_paper_cycle_def keeps_def)
qed

text \<open>The service process never submits: in every environment \<open>python -m services\<close> adds
  no submit attempt and no execution report to its store, exits with 0 only in the shadow or the
  paper environment, and exits with 2 without touching the store when the configuration does not
  load or belongs to another environment.\<close>

theorem service_process_never_submits:
  assumes "services_main v st = (r, st')"
  shows "(\<exists>rs. st_rows st' = st_rows st @ rs \<and>
      (\<forall>row\<in>set rs. sr_record_type row \<notin> {BROKER_SUBMIT_INTENT, EXECUTION_REPORT} \<and> sr_idempotency_key row = None)) \<and>
    (r = Inr 0 \<longrightarrow> (\<exists>c. app_config_from_env (sv_vars v) = Inr c \<and> cfg_app_env c \<in> {VM_SHADOW, VM_PAPER})) \<and>
    ((\<forall>c. app_config_from_env (sv_vars v) = Inr c \<longrightarrow> cfg_app_env c \<notin> {VM_SHADOW, VM_PAPER}) \<longrightarrow>
       r = Inr 2 \<and> st' = st)"
proof -
  let ?quiet = "\<lambda>st'. \<exists>rs. st_rows st' = st_rows st @ rs \<and>
      (\<forall>row\<in>set rs. sr_record_type row \<notin> {BROKER_SUBMIT_INTENT, EXECUTION_REPORT} \<and> sr_idempotency_key row = None)"
  have shadow: "?quiet (snd (run_shadow v config st))" for config
  proof -
    have "\<exists>a. snd (run_shadow v config st) = au_store (snd (run_shadow_cycle a config st []))"
      unfolding run_shadow_def Let_def case_prod_beta snd_conv by blast
    then obtain a where "snd (run_shadow v config st) = au_store (snd (run_shadow_cycle a config st []))" ..
    then show ?thesis
      using shadow_cycle_rel [of st a config "[]"]
      by (fastforce simp: shadow_rel_def initial_shadow_state_def SHADOW_TYPES_def)
  qed
  have paper: "?quiet (snd (run_paper v config st))" for config
  proof (cases "paper_config_from_env (sv_vars v)")
    case (Inl e)
    then show ?thesis by (simp add: run_paper_def)
  next
    case (Inr pc)
    then have "\<exists>a b. snd (run_paper v config st) = au_store (snd (run_paper_cycle a config b st []))"
      unfolding run_paper_def Let_def case_prod_beta by (simp only: sum.case snd_conv) blast
    then obtain a b where "snd (run_paper v config st) = au_store (snd (run_paper_cycle a config b st []))" by blast
    then show ?thesis
      using paper_liveness_rel [of b st a config]
      by (fastforce simp: shadow_rel_def initial_cycle_state_def SHADOW_TYPES_def)
  qed
  show ?thesis
    using assms shadow paper
    by (auto simp: services_main_def split: sum.splits if_splits) (metis snd_conv)+
qed

theorem service_process_never_submits_witness:
  "services_main \<lparr>sv_vars = (\<lambda>_. None), sv_now = utc 0, sv_codec = sample_codec, sv_ct_offset = (\<lambda>_. 0),
     sv_wall = (\<lambda>_. utc 0)\<rparr> new_audit_store = (Inr 2, new_audit_store)"
proof -
  let ?v = "\<lparr>sv_vars = (\<lambda>_. None), sv_now = utc 0, sv_codec = sample_codec, sv_ct_offset = (\<lambda>_. 0),
     sv_wall = (\<lambda>_. utc 0)\<rparr>"
  have "\<not> is_ok (app_config_from_env (sv_vars ?v))" by code_simp
  then show ?thesis
    using service_process_never_submits [of ?v new_audit_store "fst (services_main ?v new_audit_store)"
        "snd (services_main ?v new_audit_store)"] by (auto simp: prod_eq_iff)
qed

end
