(* ===== verification/MarketData.thy ===== *)
theory MarketData
  imports Gateway Isoformat
begin

text \<open>
  The read-only market data layer: the adapter interface and the price inputs
  (\<open>data/base.py\<close>), fixture replay (\<open>data/fixtures.py\<close>), the live adapter that fails
  closed (\<open>data/polygon_adapter.py\<close>) and the builders of calendars and contract metadata
  (\<open>data/calendar_adapter.py\<close>, \<open>data/contract_metadata_adapter.py\<close>). An adapter is
  the record of its reads. What its clients rely on, that every record it returns was constructed,
  is the locale \<open>market_data_source\<close>.
\<close>

section \<open>The adapter interface\<close>

record price_inputs =
  px_broker_option_mid :: decimal
  px_secondary_option_mid :: decimal
  px_broker_underlying :: decimal
  px_secondary_underlying :: decimal

definition assemble_price_reconciliation :: "price_inputs \<Rightarrow> price_reconciliation_check res" where
  "assemble_price_reconciliation i =
     (let p = \<lparr>pc_broker_option_mid = px_broker_option_mid i, pc_secondary_option_mid = px_secondary_option_mid i,
               pc_broker_underlying = px_broker_underlying i, pc_secondary_underlying = px_secondary_underlying i\<rparr>
      in construct
        [(dval (pc_broker_option_mid p) \<le> 0, ''broker_option_mid''),
         (dval (pc_secondary_option_mid p) \<le> 0, ''secondary_option_mid''),
         (dval (pc_broker_underlying p) \<le> 0, ''broker_underlying''),
         (dval (pc_secondary_underlying p) \<le> 0, ''secondary_underlying'')] p)"

record market_data_adapter =
  md_data_snapshot :: "underlying \<Rightarrow> broker_data_snapshot res"
  md_liquidity :: "string \<Rightarrow> liquidity_gate res"
  md_contract_metadata :: "string \<Rightarrow> contract_metadata res"
  md_event_calendar :: "event_blackout_calendar res"
  md_feed_certification :: "secondary_feed_certification res"
  md_price_inputs :: "string \<Rightarrow> price_inputs res"

definition get_spread_metadata :: "market_data_adapter \<Rightarrow> string \<Rightarrow> string \<Rightarrow> spread_contract_metadata res" where
  "get_spread_metadata a short_symbol long_symbol =
     bind_res (md_contract_metadata a short_symbol) (\<lambda>short.
     bind_res (md_contract_metadata a long_symbol) (\<lambda>long.
     let s = \<lparr>sc_short_contract = short, sc_long_contract = long\<rparr> in
     construct (spread_contract_metadata_guards s) s))"

definition data_unavailable :: "string \<Rightarrow> py_error" where
  "data_unavailable m = MarketDataError ''MarketDataUnavailableError'' m"

definition live_fetch_unavailable :: "string \<Rightarrow> py_error" where
  "live_fetch_unavailable m = MarketDataError ''LiveFetchUnavailableError'' m"

section \<open>Calendars and contracts\<close>

definition build_event_blackout :: "macro_event \<times> datetime \<times> datetime \<Rightarrow> event_blackout res" where
  "build_event_blackout entry =
     (case entry of (event, start, stop) \<Rightarrow>
        (case (start, stop) of
           (Aware a, Aware b) \<Rightarrow>
             construct [(at_lt b a, ''window_end cannot be before window_start'')]
               \<lparr>eb_event = event, eb_window_start = a, eb_window_end = b\<rparr>
         | _ \<Rightarrow> Inl (ValidationError ''window'')))"

fun build_blackouts :: "(macro_event \<times> datetime \<times> datetime) list \<Rightarrow> event_blackout list res" where
  "build_blackouts [] = Inr []"
| "build_blackouts (e # es) =
     bind_res (build_event_blackout e) (\<lambda>b. map_res (\<lambda>bs. b # bs) (build_blackouts es))"

definition build_event_calendar :: "(macro_event \<times> datetime \<times> datetime) list \<Rightarrow> event_blackout_calendar res" where
  "build_event_calendar entries = map_res (\<lambda>bs. \<lparr>ec_blackouts = bs\<rparr>) (build_blackouts entries)"

definition empty_calendar :: event_blackout_calendar where
  "empty_calendar = \<lparr>ec_blackouts = []\<rparr>"

primrec option_root :: "underlying \<Rightarrow> string" where
  "option_root underlying.XSP = ''XSP''"
| "option_root underlying.SPX = ''SPX''"

definition DEFAULT_MULTIPLIER :: int where "DEFAULT_MULTIPLIER = 100"

text \<open>\<open>f"{n:08d}"\<close>: a sign counts towards the width.\<close>

definition pad_signed :: "nat \<Rightarrow> int \<Rightarrow> string" where
  "pad_signed w n = (if n < 0 then ''-'' @ pad (w - 1) (- n) else pad w n)"

definition occ_like_symbol :: "string \<Rightarrow> datetime \<Rightarrow> option_type \<Rightarrow> decimal \<Rightarrow> string" where
  "occ_like_symbol stem expiration ty strike =
     (let c = civil_of_day (wall_us expiration div us_per_day) in
      stem @ pad 2 (year c mod 100) @ pad 2 (month c) @ pad 2 (day c) @ (if ty = PUT then ''P'' else ''C'') @
      pad_signed 8 (trunc (dec_mul (dval strike) 1000)))"

definition build_contract_metadata ::
  "underlying \<Rightarrow> decimal \<Rightarrow> option_type \<Rightarrow> datetime \<Rightarrow> datetime option \<Rightarrow> string option \<Rightarrow> int
     \<Rightarrow> settlement_style \<Rightarrow> exercise_style \<Rightarrow> contract_metadata res" where
  "build_contract_metadata u strike ty expiration last_trading_time option_symbol multiplier settlement exercise =
     (let symbol = (case option_symbol of
                      Some s \<Rightarrow> if s = [] then occ_like_symbol (option_root u) expiration ty strike else s
                    | None \<Rightarrow> occ_like_symbol (option_root u) expiration ty strike)
      in case (expiration, case last_trading_time of None \<Rightarrow> expiration | Some t \<Rightarrow> t) of
           (Aware e, Aware l) \<Rightarrow>
             let m = \<lparr>cm_underlying = u, cm_option_symbol = symbol, cm_expiration_date = e, cm_expiration_time = e,
                      cm_last_trading_time = l, cm_settlement_style = settlement, cm_exercise_style = exercise,
                      cm_multiplier = multiplier, cm_strike = strike, cm_option_type = ty\<rparr>
             in construct (contract_metadata_guards m) m
         | _ \<Rightarrow> Inl (ValidationError ''expiration''))"

definition build_spread_metadata :: "contract_metadata \<Rightarrow> contract_metadata \<Rightarrow> spread_contract_metadata res" where
  "build_spread_metadata short long =
     (let s = \<lparr>sc_short_contract = short, sc_long_contract = long\<rparr> in construct (spread_contract_metadata_guards s) s)"

section \<open>Fixture replay\<close>

record market_data_fixture =
  mf_snapshots :: "(underlying \<times> broker_data_snapshot) list"
  mf_liquidity :: "(string \<times> liquidity_gate) list"
  mf_contracts :: "(string \<times> contract_metadata) list"
  mf_feed_certification :: secondary_feed_certification
  mf_event_calendar :: event_blackout_calendar
  mf_price_inputs :: "(string \<times> price_inputs) list"

definition fixture_lookup :: "string \<Rightarrow> ('k \<times> 'v) list \<Rightarrow> 'k \<Rightarrow> 'v res" where
  "fixture_lookup what table key =
     (case map_of table key of Some v \<Rightarrow> Inr v | None \<Rightarrow> Inl (data_unavailable (''no '' @ what)))"

definition fixture_adapter :: "market_data_fixture \<Rightarrow> market_data_adapter" where
  "fixture_adapter f =
     \<lparr>md_data_snapshot = fixture_lookup ''data snapshot for underlying'' (mf_snapshots f),
      md_liquidity = fixture_lookup ''liquidity for symbol'' (mf_liquidity f),
      md_contract_metadata = fixture_lookup ''contract metadata for symbol'' (mf_contracts f),
      md_event_calendar = Inr (mf_event_calendar f), md_feed_certification = Inr (mf_feed_certification f),
      md_price_inputs = fixture_lookup ''price inputs for symbol'' (mf_price_inputs f)\<rparr>"

definition DEFERRED :: string where
  "DEFERRED = ''live Polygon data is not wired in Phase 6; use FixtureMarketDataAdapter. '' @
     ''Live wiring is deferred to market-data-polygon-v1 pending XSP/SPX entitlement verification.''"

definition polygon_adapter :: market_data_adapter where
  "polygon_adapter =
     \<lparr>md_data_snapshot = (\<lambda>_. Inl (live_fetch_unavailable DEFERRED)),
      md_liquidity = (\<lambda>_. Inl (live_fetch_unavailable DEFERRED)),
      md_contract_metadata = (\<lambda>_. Inl (live_fetch_unavailable DEFERRED)),
      md_event_calendar = Inl (live_fetch_unavailable DEFERRED),
      md_feed_certification = Inl (live_fetch_unavailable DEFERRED),
      md_price_inputs = (\<lambda>_. Inl (live_fetch_unavailable DEFERRED))\<rparr>"

text \<open>The fixture of the house tests.\<close>

definition ms :: "int \<Rightarrow> int" where "ms n = n * 1000"

definition fresh_snapshot :: "aware \<Rightarrow> bool \<Rightarrow> broker_data_snapshot" where
  "fresh_snapshot as_of inputs_fresh =
     \<lparr>ds_option_quote_ts = at_plus as_of (- ms 200), ds_underlying_price_ts = at_plus as_of (- ms 200),
      ds_vix_ts = at_plus as_of (- ms 1000), ds_iv_rank_ts = at_plus as_of (- ms 2000),
      ds_iv_rank_inputs_fresh = inputs_fresh, ds_iv_rank_value = Dec 85 0\<rparr>"

definition certified_feed :: "aware \<Rightarrow> secondary_feed_certification" where
  "certified_feed as_of =
     \<lparr>sf_feed = feed_provider.POLYGON, sf_status = CERTIFIED, sf_certified_at = at_plus as_of (- 5 * us_per_day),
      sf_coverage = \<lparr>fc_covers_xsp = True, fc_covers_spx = False, fc_symbol_mapping_consistent = True\<rparr>,
      sf_latency = \<lparr>fl_option_quote_latency_ms = 100, fl_underlying_quote_latency_ms = 100,
        fl_option_latency_threshold_ms = 500, fl_underlying_latency_threshold_ms = 500\<rparr>,
      sf_pending_recertification_triggers = []\<rparr>"

definition make_xsp_fixture :: "aware \<Rightarrow> aware \<Rightarrow> market_data_fixture res" where
  "make_xsp_fixture as_of expiration =
     bind_res (build_contract_metadata underlying.XSP (Dec 495 0) PUT (Aware expiration) None None DEFAULT_MULTIPLIER
       CASH EUROPEAN) (\<lambda>short.
     bind_res (build_contract_metadata underlying.XSP (Dec 490 0) PUT (Aware expiration) None None DEFAULT_MULTIPLIER
       CASH EUROPEAN) (\<lambda>long.
     Inr
       \<lparr>mf_snapshots = [(underlying.XSP, fresh_snapshot as_of True)],
        mf_liquidity =
          [(cm_option_symbol short, \<lparr>lg_bid = Dec 48 (- 2), lg_ask = Dec 52 (- 2), lg_open_interest = 500,
              lg_top_of_book_size = 20\<rparr>),
           (cm_option_symbol long, \<lparr>lg_bid = Dec 20 (- 2), lg_ask = Dec 24 (- 2), lg_open_interest = 400,
              lg_top_of_book_size = 15\<rparr>)],
        mf_contracts = [(cm_option_symbol short, short), (cm_option_symbol long, long)],
        mf_feed_certification = certified_feed as_of, mf_event_calendar = empty_calendar,
        mf_price_inputs =
          [(cm_option_symbol short, \<lparr>px_broker_option_mid = Dec 50 (- 2), px_secondary_option_mid = Dec 505 (- 3),
              px_broker_underlying = Dec 49500 (- 2), px_secondary_underlying = Dec 49510 (- 2)\<rparr>)]\<rparr>))"

section \<open>What clients rely on\<close>

locale market_data_source =
  fixes valid :: "'f \<Rightarrow> bool"
    and adapter :: "'f \<Rightarrow> market_data_adapter"
  assumes snapshot_wf: "valid f \<Longrightarrow> md_data_snapshot (adapter f) u = Inr s \<Longrightarrow> wf_broker_data_snapshot s"
    and liquidity_wf: "valid f \<Longrightarrow> md_liquidity (adapter f) k = Inr l \<Longrightarrow> wf_liquidity_gate l"
    and contract_wf: "valid f \<Longrightarrow> md_contract_metadata (adapter f) k = Inr m \<Longrightarrow> wf_contract_metadata m"
begin

lemma spread_wf:
  assumes "valid f" and "get_spread_metadata (adapter f) a b = Inr s"
  shows "wf_spread_contract_metadata s"
  using assms contract_wf
  by (auto simp: get_spread_metadata_def bind_res_eq_Inr Let_def construct_eq_Inr wf_spread_contract_metadata_def)

end

text \<open>The records of a fixture are constructed instances.\<close>

definition fixture_ok :: "market_data_fixture \<Rightarrow> bool" where
  "fixture_ok f \<longleftrightarrow> list_all (wf_broker_data_snapshot \<circ> snd) (mf_snapshots f) \<and>
     list_all (wf_liquidity_gate \<circ> snd) (mf_liquidity f) \<and> list_all (wf_contract_metadata \<circ> snd) (mf_contracts f)"

lemma fixture_lookup_Inr: "fixture_lookup what table key = Inr v \<Longrightarrow> list_all (P \<circ> snd) table \<Longrightarrow> P v"
  by (auto simp: fixture_lookup_def list_all_iff split: option.splits dest!: map_of_SomeD)

interpretation fixture: market_data_source fixture_ok fixture_adapter
  by unfold_locales (auto simp: fixture_ok_def fixture_adapter_def intro: fixture_lookup_Inr)

interpretation polygon: market_data_source "\<lambda>_ :: unit. True" "\<lambda>_. polygon_adapter"
  by unfold_locales (auto simp: polygon_adapter_def)

lemma build_contract_metadata_wf:
  "build_contract_metadata u strike ty e l symbol n st ex = Inr m \<Longrightarrow> wf_contract_metadata m"
  by (auto simp: build_contract_metadata_def Let_def construct_eq_Inr wf_contract_metadata_def
      split: datetime.splits option.splits)

lemma make_xsp_fixture_ok: "make_xsp_fixture t e = Inr f \<Longrightarrow> fixture_ok f"
  by (auto simp: make_xsp_fixture_def bind_res_eq_Inr fixture_ok_def fresh_snapshot_def wf_broker_data_snapshot_def
      wf_liquidity_gate_def liquidity_gate_guards_def dval_def power_int_minus dest!: build_contract_metadata_wf)

end
