(* ===== verification/Strategies.thy ===== *)
theory Strategies
  imports MarketData
begin

text \<open>
  The proposers (\<open>strategies/base.py\<close>, \<open>strategies/catastrophe_premium_capture.py\<close>,
  \<open>strategies/zero_dte_time_decay.py\<close>) and the ranking of their proposals
  (\<open>strategies/scoring.py\<close>). A strategy reads the records of a spread from a market data
  adapter, applies its own entry bounds and emits at most one candidate. The theorems say that a
  proposal rests on records that were all read, lies inside the bounds and is a defined-risk
  candidate; that the gateway, given the same records, has nothing to object to its time, its days
  to expiration or its contracts; and that the ranking is a function of the set of proposals.
\<close>

section \<open>Subtraction of decimals\<close>

text \<open>\<open>Decimal.__sub__\<close> with its exponent: the smaller exponent of the operands, unless the
  coefficient has more than 28 digits and is rounded.\<close>

definition dec_fix :: "int \<Rightarrow> int \<Rightarrow> decimal" where
  "dec_fix c e =
     (if \<bar>c\<bar> < 10 ^ 28 then Dec c e
      else let x = dval (Dec c e); s = scale_exp 10 28 x; m = half_even (x / 10 powi s)
           in if \<bar>m\<bar> = 10 ^ 28 then Dec (m div 10) (s + 1) else Dec m s)"

definition dec_minus :: "decimal \<Rightarrow> decimal \<Rightarrow> decimal" where
  "dec_minus a b =
     (let e = min (dexp a) (dexp b) in
      dec_fix (coeff a * 10 ^ nat (dexp a - e) - coeff b * 10 ^ nat (dexp b - e)) e)"

section \<open>Contexts and inputs\<close>

record selected_leg =
  lg_option_symbol :: string
  lg_delta :: decimal

record strategy_context =
  cx_as_of :: datetime
  cx_underlying :: underlying
  cx_direction :: spread_direction
  cx_short :: selected_leg
  cx_long :: selected_leg
  cx_contracts :: int
  cx_adapter :: market_data_adapter

definition context_ct_minutes :: "(int \<Rightarrow> int) \<Rightarrow> strategy_context \<Rightarrow> int res" where
  "context_ct_minutes ct_offset ctx =
     (case cx_as_of ctx of
        Naive _ \<Rightarrow> Inl (StrategyError ''as_of must be timezone-aware (UTC)'')
      | Aware t \<Rightarrow> Inr (minutes_since_midnight ct_offset t))"

definition within_entry_window :: "(int \<Rightarrow> int) \<Rightarrow> strategy_context \<Rightarrow> bool res" where
  "within_entry_window ct_offset ctx =
     map_res (\<lambda>m. ENTRY_WINDOW_OPEN_CT_MIN \<le> m \<and> m < ENTRY_WINDOW_CLOSE_CT_MIN) (context_ct_minutes ct_offset ctx)"

record candidate_inputs =
  in_iv_rank_value :: decimal
  in_dte :: int
  in_multiplier :: int
  in_short_strike :: decimal
  in_long_strike :: decimal
  in_option_type :: option_type
  in_net_credit :: decimal

definition collect_inputs :: "strategy_context \<Rightarrow> candidate_inputs res" where
  "collect_inputs ctx =
     (let a = cx_adapter ctx; short = lg_option_symbol (cx_short ctx); long = lg_option_symbol (cx_long ctx) in
      bind_res (md_data_snapshot a (cx_underlying ctx)) (\<lambda>snapshot.
      bind_res (get_spread_metadata a short long) (\<lambda>spread.
      bind_res (md_liquidity a short) (\<lambda>_.
      bind_res (md_liquidity a long) (\<lambda>_.
      bind_res (md_price_inputs a short) (\<lambda>short_px.
      bind_res (md_price_inputs a long) (\<lambda>long_px.
      bind_res (spread_derived_dte spread (cx_as_of ctx)) (\<lambda>dte.
      Inr \<lparr>in_iv_rank_value = ds_iv_rank_value snapshot, in_dte = dte,
           in_multiplier = cm_multiplier (sc_short_contract spread),
           in_short_strike = cm_strike (sc_short_contract spread),
           in_long_strike = cm_strike (sc_long_contract spread),
           in_option_type = cm_option_type (sc_short_contract spread),
           in_net_credit = dec_minus (px_broker_option_mid short_px) (px_broker_option_mid long_px)\<rparr>))))))))"

definition compute_rationale_id :: "strategy_name \<Rightarrow> strategy_context \<Rightarrow> candidate_inputs \<Rightarrow> string" where
  "compute_rationale_id name ctx i =
     (let payload = str_join ''|''
        [strategy_name_value name, underlying_value (cx_underlying ctx), spread_direction_value (cx_direction ctx),
         lg_option_symbol (cx_short ctx), dec_str (lg_delta (cx_short ctx)),
         lg_option_symbol (cx_long ctx), dec_str (lg_delta (cx_long ctx)),
         int_str (cx_contracts ctx), option_type_value (in_option_type i),
         dec_str (in_short_strike i), dec_str (in_long_strike i), dec_str (in_net_credit i),
         int_str (in_multiplier i), int_str (in_dte i), dt_isoformat (cx_as_of ctx)]
      in ''rationale-'' @ strategy_name_value name @ ''-'' @ take 16 (sha256_hexdigest payload))"

definition build_candidate ::
  "strategy_context \<Rightarrow> candidate_inputs \<Rightarrow> strategy_name \<Rightarrow> candidate_trade_intent res" where
  "build_candidate ctx i name =
     (let rationale_id = compute_rationale_id name ctx i;
          leg = (\<lambda>side strike delta. mk_spread_leg
            \<lparr>sl_side = side, sl_option_type = in_option_type i, sl_strike = strike, sl_delta = delta,
             sl_contracts = cx_contracts ctx\<rparr>)
      in bind_res (leg SHORT (in_short_strike i) (lg_delta (cx_short ctx))) (\<lambda>short.
         bind_res (leg LONG (in_long_strike i) (lg_delta (cx_long ctx))) (\<lambda>long.
         mk_candidate_trade_intent
           \<lparr>ci_status = CANDIDATE, ci_underlying = cx_underlying ctx, ci_direction = cx_direction ctx,
            ci_short_leg = short, ci_long_leg = long, ci_net_credit = in_net_credit i,
            ci_multiplier = in_multiplier i, ci_dte = in_dte i, ci_rationale_id = rationale_id\<rparr>)))"

record strategy_proposal =
  pp_strategy_name :: strategy_name
  pp_candidate :: candidate_trade_intent
  pp_gate :: strategy_gate

definition proposal_live_eligible :: "strategy_proposal \<Rightarrow> bool" where
  "proposal_live_eligible p = live_eligible (pp_gate p)"

section \<open>The two strategies\<close>

definition no_promotion :: strategy_promotion_requirements where
  "no_promotion = \<lparr>pr_fill_quality_verified = False, pr_forced_exit_drill_passed = False,
     pr_no_gamma_hot_path_llm_management = False, pr_paper_trading_sessions_completed = 0,
     pr_paper_trading_minimum_sessions = 0, pr_human_approval = False\<rparr>"

definition CATASTROPHE_GATE :: strategy_gate where
  "CATASTROPHE_GATE =
     \<lparr>sg_name = CATASTROPHE_PREMIUM_CAPTURE, sg_stage = strategy_stage.PAPER, sg_iv_rank_min = Dec 80 0,
      sg_dte_min = 1, sg_dte_max = 5, sg_first_live_candidate = True, sg_promotion = no_promotion,
      sg_human_live_amendment = False\<rparr>"

definition catastrophe_generate :: "(int \<Rightarrow> int) \<Rightarrow> strategy_context \<Rightarrow> strategy_proposal list res" where
  "catastrophe_generate ct_offset ctx =
     bind_res (collect_inputs ctx) (\<lambda>i.
     bind_res (within_entry_window ct_offset ctx) (\<lambda>open_now.
     if \<not> open_now then Inr []
     else if \<not> iv_rank_satisfied CATASTROPHE_GATE (in_iv_rank_value i) then Inr []
     else if \<not> dte_allowed CATASTROPHE_GATE (in_dte i) then Inr []
     else bind_res (build_candidate ctx i CATASTROPHE_PREMIUM_CAPTURE) (\<lambda>candidate.
       Inr [\<lparr>pp_strategy_name = CATASTROPHE_PREMIUM_CAPTURE, pp_candidate = candidate,
             pp_gate = CATASTROPHE_GATE\<rparr>])))"

definition ZERO_DTE_GATE :: strategy_gate where
  "ZERO_DTE_GATE =
     \<lparr>sg_name = ZERO_DTE_TIME_DECAY, sg_stage = strategy_stage.HYPOTHESIS, sg_iv_rank_min = Dec 50 0,
      sg_dte_min = 0, sg_dte_max = 0, sg_first_live_candidate = False, sg_promotion = no_promotion,
      sg_human_live_amendment = False\<rparr>"

definition zero_dte_generate :: "strategy_context \<Rightarrow> strategy_proposal list res" where
  "zero_dte_generate ctx = Inr []"

section \<open>Scoring\<close>

record scored_proposal =
  so_proposal :: strategy_proposal
  so_score :: rat

text \<open>The width of a constructed candidate is positive, so the quotient is defined.\<close>

definition score_proposal :: "strategy_proposal \<Rightarrow> scored_proposal" where
  "score_proposal p =
     \<lparr>so_proposal = p, so_score = dec_div (dval (ci_net_credit (pp_candidate p))) (spread_width (pp_candidate p))\<rparr>"

text \<open>The key of \<open>sorted\<close>, a tuple compared lexicographically.\<close>

definition rank_key :: "scored_proposal \<Rightarrow> rat \<times> rat \<times> string" where
  "rank_key s =
     (dec_neg (so_score s), dval (sl_strike (ci_short_leg (pp_candidate (so_proposal s)))),
      ci_rationale_id (pp_candidate (so_proposal s)))"

definition rank_proposals :: "strategy_proposal list \<Rightarrow> scored_proposal list" where
  "rank_proposals proposals = sort_key rank_key (map score_proposal proposals)"

section \<open>Lemmas\<close>

lemma dval_dec_fix: "dval (dec_fix c e) = dec_rnd (dval (Dec c e))"
proof (cases "\<bar>c\<bar> < 10 ^ 28")
  case True
  then show ?thesis by (simp add: dec_fix_def dec.rd_repr dval_representable)
next
  case False
  let ?x = "dval (Dec c e)"
  let ?s = "scale_exp 10 28 ?x"
  let ?m = "half_even (?x / 10 powi ?s)"
  have "c \<noteq> 0" using False by auto
  then have "?x \<noteq> 0" by (simp add: dval_def)
  then have "dec_rnd ?x = of_int ?m * 10 powi ?s" by (simp add: dec_rnd_def rnd_def Let_def)
  moreover have "dval (Dec (?m div 10) (?s + 1)) = of_int ?m * 10 powi ?s" if "\<bar>?m\<bar> = 10 ^ 28"
  proof -
    have "10 dvd \<bar>?m\<bar>" unfolding that by (rule dvd_power) simp
    then have "10 * (?m div 10) = ?m" by (simp only: dvd_abs_iff dvd_mult_div_cancel)
    then have "of_int ?m = (10 :: rat) * of_int (?m div 10)" by (metis of_int_mult of_int_numeral)
    then show ?thesis by (simp add: dval_def power_int_add)
  qed
  ultimately show ?thesis using False by (simp add: dec_fix_def Let_def dval_def)
qed

lemma dval_dec_minus: "dval (dec_minus a b) = dec_sub (dval a) (dval b)"
proof -
  have scale: "of_int (c * 10 ^ nat (k - e)) * (10 :: rat) powi e = of_int c * 10 powi k" if "e \<le> k" for c k e
  proof -
    have "(10 :: rat) ^ nat (k - e) = 10 powi (k - e)" using that by (simp add: power_int_def)
    then show ?thesis by (simp add: power_int_diff)
  qed
  let ?e = "min (dexp a) (dexp b)"
  have "dval (Dec (coeff a * 10 ^ nat (dexp a - ?e) - coeff b * 10 ^ nat (dexp b - ?e)) ?e) = dval a - dval b"
    using scale [of ?e "dexp a" "coeff a"] scale [of ?e "dexp b" "coeff b"]
    by (simp add: dval_def left_diff_distrib del: of_int_mult)
  then show ?thesis by (simp add: dec_minus_def Let_def dval_dec_fix dec_sub_def)
qed

lemma collect_inputs_Inr:
  assumes "collect_inputs ctx = Inr i"
  obtains t snapshot spread l l' px px' where "cx_as_of ctx = Aware t"
    and "md_data_snapshot (cx_adapter ctx) (cx_underlying ctx) = Inr snapshot"
    and "get_spread_metadata (cx_adapter ctx) (lg_option_symbol (cx_short ctx)) (lg_option_symbol (cx_long ctx)) =
      Inr spread"
    and "md_liquidity (cx_adapter ctx) (lg_option_symbol (cx_short ctx)) = Inr l"
    and "md_liquidity (cx_adapter ctx) (lg_option_symbol (cx_long ctx)) = Inr l'"
    and "md_price_inputs (cx_adapter ctx) (lg_option_symbol (cx_short ctx)) = Inr px"
    and "md_price_inputs (cx_adapter ctx) (lg_option_symbol (cx_long ctx)) = Inr px'"
    and "i = \<lparr>in_iv_rank_value = ds_iv_rank_value snapshot,
       in_dte = at_date (cm_expiration_time (sc_short_contract spread)) - at_date t,
       in_multiplier = cm_multiplier (sc_short_contract spread),
       in_short_strike = cm_strike (sc_short_contract spread), in_long_strike = cm_strike (sc_long_contract spread),
       in_option_type = cm_option_type (sc_short_contract spread),
       in_net_credit = dec_minus (px_broker_option_mid px) (px_broker_option_mid px')\<rparr>"
proof (cases "cx_as_of ctx")
  case (Aware t)
  then show ?thesis
    using assms that by (fastforce simp: collect_inputs_def Let_def bind_res_eq_Inr spread_derived_dte_def)
next
  case (Naive n)
  then show ?thesis using assms by (simp add: collect_inputs_def Let_def bind_res_eq_Inr spread_derived_dte_def)
qed

lemma build_candidate_Inr:
  assumes "build_candidate ctx i name = Inr c"
  shows "wf_candidate_trade_intent c" "ci_underlying c = cx_underlying ctx" "ci_direction c = cx_direction ctx"
    "ci_net_credit c = in_net_credit i" "ci_multiplier c = in_multiplier i" "ci_dte c = in_dte i"
    "sl_strike (ci_short_leg c) = in_short_strike i" "sl_strike (ci_long_leg c) = in_long_strike i"
    "sl_option_type (ci_short_leg c) = in_option_type i" "sl_option_type (ci_long_leg c) = in_option_type i"
    "sl_delta (ci_short_leg c) = lg_delta (cx_short ctx)" "sl_delta (ci_long_leg c) = lg_delta (cx_long ctx)"
    "sl_contracts (ci_short_leg c) = cx_contracts ctx" "ci_rationale_id c = compute_rationale_id name ctx i"
  using assms
  by (auto simp: build_candidate_def Let_def bind_res_eq_Inr mk_spread_leg_def mk_candidate_trade_intent_def
      construct_eq_Inr wf_candidate_trade_intent_def wf_spread_leg_def)

lemma within_entry_window_Aware:
  "cx_as_of ctx = Aware t \<Longrightarrow>
     within_entry_window z ctx = Inr (minutes_since_midnight z t \<in> {585 ..< 780})"
  by (simp add: within_entry_window_def context_ct_minutes_def ENTRY_WINDOW_OPEN_CT_MIN_def
      ENTRY_WINDOW_CLOSE_CT_MIN_def)

text \<open>A proposal comes from inputs that were collected, inside the bounds of the gate.\<close>

lemma catastrophe_generate_Inr:
  assumes "catastrophe_generate z ctx = Inr ps"
  obtains i where "collect_inputs ctx = Inr i"
    and "\<And>p. p \<in> set ps \<Longrightarrow> ps = [p] \<and> build_candidate ctx i CATASTROPHE_PREMIUM_CAPTURE = Inr (pp_candidate p) \<and>
      pp_strategy_name p = CATASTROPHE_PREMIUM_CAPTURE \<and> pp_gate p = CATASTROPHE_GATE \<and>
      within_entry_window z ctx = Inr True \<and> 80 \<le> dval (in_iv_rank_value i) \<and> in_dte i \<in> {1 .. 5}"
  using assms that
  by (fastforce simp: catastrophe_generate_def bind_res_eq_Inr iv_rank_satisfied_def dte_allowed_def
      CATASTROPHE_GATE_def dval_def split: if_splits)

lemma CATASTROPHE_GATE_wf: "wf_strategy_gate CATASTROPHE_GATE" "\<not> live_eligible CATASTROPHE_GATE"
  by code_simp+

lemma ZERO_DTE_GATE_wf: "wf_strategy_gate ZERO_DTE_GATE" "\<not> live_eligible ZERO_DTE_GATE"
  by code_simp+


lemma score_pos: "wf_candidate_trade_intent (pp_candidate p) \<Longrightarrow> 0 < so_score (score_proposal p)"
  using wf_candidateD [of "pp_candidate p"] by (simp add: score_proposal_def dec_div_def dec.rd_pos)

lemma representable_minus: "representable b p (- x) \<longleftrightarrow> representable b p x"
proof -
  have "representable b p x \<Longrightarrow> representable b p (- x)" for x
    unfolding representable_def by (metis abs_minus_cancel mult_minus_left of_int_minus)
  from this [of x] this [of "- x"] show ?thesis by auto
qed

lemma dec_rnd_representable: "representable 10 28 (dec_rnd x)"
proof -
  have pos: "representable 10 28 (dec_rnd x)" if "0 < x" for x
  proof -
    let ?s = "scale_exp 10 28 x"
    let ?m = "half_even (x / 10 powi ?s)"
    have eq: "dec_rnd x = of_int ?m * 10 powi ?s" using that by (simp add: dec_rnd_def rnd_def Let_def)
    have "of_int ?m * 10 powi ?s \<le> (10 :: rat) powi (?s + 28)"
      using rnd_pos_bounds(2) [of 10 x 28] that eq by (simp add: dec_rnd_def)
    also have "\<dots> = 10 ^ 28 * 10 powi ?s" by (simp add: power_int_add)
    finally have "(of_int ?m :: rat) \<le> 10 ^ 28" by (simp only: mult_le_cancel_right_pos zero_less_power_int zero_less_numeral)
    then have "?m \<le> 10 ^ 28" by (metis of_int_le_iff of_int_numeral of_int_power)
    moreover have "0 \<le> ?m"
      using half_even_mono [of 0 "x / 10 powi ?s"] half_even_of_int [of 0] that by simp
    ultimately show ?thesis using eq by (intro representableI [of _ ?m 10 ?s]) simp_all
  qed
  show ?thesis
  proof (cases x "0 :: rat" rule: linorder_cases)
    case less
    then show ?thesis using pos [of "- x"] by (simp add: dec_rnd_minus representable_minus)
  next
    case equal
    then show ?thesis by (simp add: dec.rd_0 dec.repr_0)
  qed (rule pos)
qed

lemma dec_rnd_idem: "dec_rnd (dec_rnd x) = dec_rnd x"
  by (rule dec.rd_repr) (rule dec_rnd_representable)

lemma dec_neg_rnd: "dec_neg (dec_rnd x) = - dec_rnd x"
  by (simp add: dec_neg_def dec_rnd_minus dec_rnd_idem)

lemma rank_key_less_eq_score:
  "rank_key (score_proposal p) \<le> rank_key (score_proposal q) \<Longrightarrow>
     so_score (score_proposal q) \<le> so_score (score_proposal p)"
  by (auto simp: rank_key_def score_proposal_def dec_div_def dec_neg_rnd less_eq_prod_def)

lemma score_less_ratio:
  "so_score (score_proposal q) < so_score (score_proposal p) \<Longrightarrow>
     dval (ci_net_credit (pp_candidate q)) / spread_width (pp_candidate q)
       < dval (ci_net_credit (pp_candidate p)) / spread_width (pp_candidate p)"
  unfolding score_proposal_def dec_div_def using dec.rd_mono by (simp add: not_le [symmetric]) blast

section \<open>A concrete market\<close>

definition named_contract :: "string \<Rightarrow> int \<Rightarrow> contract_metadata" where
  "named_contract symbol strike = (sample_contract strike)\<lparr>cm_option_symbol := symbol\<rparr>"

definition sample_market :: market_data_fixture where
  "sample_market =
     (let gate = \<lparr>lg_bid = Dec 48 (- 2), lg_ask = Dec 52 (- 2), lg_open_interest = 500, lg_top_of_book_size = 20\<rparr>;
          px = (\<lambda>mid. \<lparr>px_broker_option_mid = Dec mid (- 2), px_secondary_option_mid = Dec mid (- 2),
                  px_broker_underlying = Dec 600 0, px_secondary_underlying = Dec 600 0\<rparr>)
      in \<lparr>mf_snapshots = [(underlying.XSP, fresh_snapshot sample_as_of True)],
          mf_liquidity = [(''S'', gate), (''L'', gate)],
          mf_contracts = [(''S'', named_contract ''S'' 560), (''L'', named_contract ''L'' 555)],
          mf_feed_certification = certified_feed sample_as_of, mf_event_calendar = empty_calendar,
          mf_price_inputs = [(''S'', px 80), (''L'', px 35)]\<rparr>)"

definition sample_context :: strategy_context where
  "sample_context =
     \<lparr>cx_as_of = Aware sample_as_of, cx_underlying = underlying.XSP, cx_direction = PUT_CREDIT,
      cx_short = \<lparr>lg_option_symbol = ''S'', lg_delta = Dec (- 8) (- 2)\<rparr>,
      cx_long = \<lparr>lg_option_symbol = ''L'', lg_delta = Dec (- 5) (- 2)\<rparr>,
      cx_contracts = 1, cx_adapter = fixture_adapter sample_market\<rparr>"

lemma sample_market_ok: "fixture_ok sample_market"
  by code_simp

definition sample_inputs :: candidate_inputs where
  "sample_inputs = \<lparr>in_iv_rank_value = Dec 85 0, in_dte = 2, in_multiplier = 100, in_short_strike = Dec 560 0,
     in_long_strike = Dec 555 0, in_option_type = PUT, in_net_credit = Dec 45 (- 2)\<rparr>"

lemma sample_collect: "collect_inputs sample_context = Inr sample_inputs"
  by code_simp

lemma sample_window: "within_entry_window sample_ct_offset sample_context = Inr True"
  by code_simp

lemma sample_width: "dec_abs (dec_sub (dval (Dec 560 0)) (dval (Dec 555 0))) = 5"
  by code_simp

lemma sample_generate:
  obtains p where "catastrophe_generate sample_ct_offset sample_context = Inr [p]"
proof -
  have "\<exists>c. build_candidate sample_context sample_inputs CATASTROPHE_PREMIUM_CAPTURE = Inr c"
    using sample_width
    by (simp add: build_candidate_def Let_def sample_inputs_def sample_context_def mk_spread_leg_def
        mk_candidate_trade_intent_def construct_eq_Inr spread_leg_guards_def candidate_trade_intent_guards_def
        compute_rationale_id_def expected_option_type_def spread_width_def dval_def power_int_minus bind_res_eq_Inr)
  moreover have "iv_rank_satisfied CATASTROPHE_GATE (in_iv_rank_value sample_inputs)"
    "dte_allowed CATASTROPHE_GATE (in_dte sample_inputs)" by code_simp+
  ultimately show ?thesis using that by (auto simp: catastrophe_generate_def sample_collect sample_window)
qed

definition sample_proposal_request :: "strategy_proposal \<Rightarrow> gateway_request" where
  "sample_proposal_request p =
     sample_request\<lparr>gr_candidate := pp_candidate p,
       gr_spread_contract := \<lparr>sc_short_contract = named_contract ''S'' 560, sc_long_contract = named_contract ''L'' 555\<rparr>\<rparr>"

lemma sample_proposal_request_wf:
  assumes "catastrophe_generate sample_ct_offset sample_context = Inr [p]"
  shows "wf_gateway_request (sample_proposal_request p)"
proof -
  have "build_candidate sample_context sample_inputs CATASTROPHE_PREMIUM_CAPTURE = Inr (pp_candidate p)"
    using catastrophe_generate_Inr [OF assms] by (metis list.set_intros(1) sample_collect sum.inject(2))
  note c = build_candidate_Inr [OF this]
  have "wf_spread_contract_metadata \<lparr>sc_short_contract = named_contract ''S'' 560, sc_long_contract = named_contract ''L'' 555\<rparr>"
    by code_simp
  moreover have "ci_underlying (pp_candidate p) = underlying.XSP" using c(2) by (simp add: sample_context_def)
  moreover have "in_underlying (gr_instrument sample_request) = underlying.XSP" by (simp add: sample_request_def)
  ultimately show ?thesis
    using c(1) sample_request_wf
    by (auto simp: wf_gateway_request_def gateway_request_guards_def sample_proposal_request_def)
qed

definition ranked_sample :: "int \<Rightarrow> strategy_proposal" where
  "ranked_sample credit =
     \<lparr>pp_strategy_name = CATASTROPHE_PREMIUM_CAPTURE, pp_candidate = sample_candidate\<lparr>ci_net_credit := Dec credit (- 2)\<rparr>,
      pp_gate = CATASTROPHE_GATE\<rparr>"

section \<open>Properties\<close>

text \<open>C33. Strategies propose inside their bounds and on complete data. When the premium capture
  strategy returns on the records of a fixture, every record of both legs was read, at most one
  proposal comes out, and a proposal is made inside the entry window, at an IV rank of at least 80
  and one to five days to expiration; its candidate is a defined-risk spread whose strikes,
  multiplier, days and credit are those of the records, and it is not eligible for live.\<close>

theorem proposal_within_bounds:
  assumes "fixture_ok f" and "cx_adapter ctx = fixture_adapter f" and "catastrophe_generate z ctx = Inr ps"
  shows "\<exists>t snapshot spread px px'.
    cx_as_of ctx = Aware t \<and>
    md_data_snapshot (fixture_adapter f) (cx_underlying ctx) = Inr snapshot \<and>
    get_spread_metadata (fixture_adapter f) (lg_option_symbol (cx_short ctx)) (lg_option_symbol (cx_long ctx)) =
      Inr spread \<and> wf_spread_contract_metadata spread \<and>
    is_ok (md_liquidity (fixture_adapter f) (lg_option_symbol (cx_short ctx))) \<and>
    is_ok (md_liquidity (fixture_adapter f) (lg_option_symbol (cx_long ctx))) \<and>
    md_price_inputs (fixture_adapter f) (lg_option_symbol (cx_short ctx)) = Inr px \<and>
    md_price_inputs (fixture_adapter f) (lg_option_symbol (cx_long ctx)) = Inr px' \<and>
    length ps \<le> 1 \<and>
    (\<forall>p\<in>set ps. minutes_since_midnight z t \<in> {585 ..< 780} \<and> 80 \<le> dval (ds_iv_rank_value snapshot) \<and>
       ci_dte (pp_candidate p) = at_date (cm_expiration_time (sc_short_contract spread)) - at_date t \<and>
       ci_dte (pp_candidate p) \<in> {1 .. 5} \<and>
       wf_candidate_trade_intent (pp_candidate p) \<and>
       sl_strike (ci_short_leg (pp_candidate p)) = cm_strike (sc_short_contract spread) \<and>
       sl_strike (ci_long_leg (pp_candidate p)) = cm_strike (sc_long_contract spread) \<and>
       ci_multiplier (pp_candidate p) = cm_multiplier (sc_short_contract spread) \<and>
       dval (ci_net_credit (pp_candidate p)) =
         dec_sub (dval (px_broker_option_mid px)) (dval (px_broker_option_mid px')) \<and>
       \<not> proposal_live_eligible p)"
proof -
  obtain i where i: "collect_inputs ctx = Inr i" and
    ps: "\<And>p. p \<in> set ps \<Longrightarrow> ps = [p] \<and> build_candidate ctx i CATASTROPHE_PREMIUM_CAPTURE = Inr (pp_candidate p) \<and>
      pp_strategy_name p = CATASTROPHE_PREMIUM_CAPTURE \<and> pp_gate p = CATASTROPHE_GATE \<and>
      within_entry_window z ctx = Inr True \<and> 80 \<le> dval (in_iv_rank_value i) \<and> in_dte i \<in> {1 .. 5}"
    using catastrophe_generate_Inr [OF assms(3)] by metis
  have "length ps \<le> 1" using ps [of "hd ps"] by (cases ps) auto
  with i show ?thesis
  proof (elim collect_inputs_Inr, goal_cases)
    case (1 t snapshot spread l l' px px')
    have "wf_spread_contract_metadata spread"
      using 1 assms(2) fixture.spread_wf [OF assms(1)] by simp
    then show ?case
      using 1 assms(2) ps build_candidate_Inr [of ctx i CATASTROPHE_PREMIUM_CAPTURE] CATASTROPHE_GATE_wf(2)
      by (intro exI [of _ t] exI [of _ snapshot] exI [of _ spread] exI [of _ px] exI [of _ px'])
        (simp add: within_entry_window_Aware dval_dec_minus proposal_live_eligible_def)
  qed
qed

theorem proposal_within_bounds_witness:
  "\<exists>p. catastrophe_generate sample_ct_offset sample_context = Inr [p] \<and> ci_dte (pp_candidate p) \<in> {1 .. 5} \<and>
     wf_candidate_trade_intent (pp_candidate p) \<and> \<not> proposal_live_eligible p"
proof -
  obtain p where p: "catastrophe_generate sample_ct_offset sample_context = Inr [p]" by (rule sample_generate)
  moreover have "cx_adapter sample_context = fixture_adapter sample_market" by (simp add: sample_context_def)
  ultimately show ?thesis using proposal_within_bounds [OF sample_market_ok _ p] by auto
qed

text \<open>C34. The strategy and the gateway agree. A request that carries a proposal of the premium
  capture strategy with the instant and the contracts it was made from is never refused for the
  entry window or for the days to expiration, and it is refused for a contract mismatch exactly
  when the contracts are of another underlying than the context or their multipliers differ, which
  the strategy does not check.\<close>

theorem proposal_agrees_with_gateway:
  assumes "wf_gateway_request r" and "catastrophe_generate z ctx = Inr [p]"
    and "gr_candidate r = pp_candidate p" and "cx_as_of ctx = Aware (gr_as_of r)"
    and "get_spread_metadata (cx_adapter ctx) (lg_option_symbol (cx_short ctx)) (lg_option_symbol (cx_long ctx)) =
      Inr (gr_spread_contract r)"
  shows "\<exists>codes. gate_codes z r = Inr codes \<and> ENTRY_WINDOW_CLOSED \<notin> set codes \<and> DTE_MISMATCH \<notin> set codes \<and>
    (CONTRACT_SPREAD_MISMATCH \<in> set codes \<longleftrightarrow>
       cm_underlying (sc_short_contract (gr_spread_contract r)) \<noteq> cx_underlying ctx \<or>
       cm_multiplier (sc_short_contract (gr_spread_contract r)) \<noteq>
         cm_multiplier (sc_long_contract (gr_spread_contract r)))"
proof -
  obtain i where i: "collect_inputs ctx = Inr i" and
    c: "build_candidate ctx i CATASTROPHE_PREMIUM_CAPTURE = Inr (gr_candidate r)" and
    w: "within_entry_window z ctx = Inr True"
    using catastrophe_generate_Inr [OF assms(2)] assms(3) by (metis list.set_intros(1))
  note cand = build_candidate_Inr [OF c]
  have legs: "cm_underlying (sc_short_contract (gr_spread_contract r)) = cm_underlying (sc_long_contract (gr_spread_contract r))"
    "cm_option_type (sc_short_contract (gr_spread_contract r)) = cm_option_type (sc_long_contract (gr_spread_contract r))"
    using assms(5) by (auto simp: get_spread_metadata_def bind_res_eq_Inr Let_def construct_eq_Inr
        spread_contract_metadata_guards_def)
  have inputs: "in_dte i = at_date (cm_expiration_time (sc_short_contract (gr_spread_contract r))) - at_date (gr_as_of r)"
    "in_multiplier i = cm_multiplier (sc_short_contract (gr_spread_contract r))"
    "in_short_strike i = cm_strike (sc_short_contract (gr_spread_contract r))"
    "in_long_strike i = cm_strike (sc_long_contract (gr_spread_contract r))"
    "in_option_type i = cm_option_type (sc_short_contract (gr_spread_contract r))"
    using i by (elim collect_inputs_Inr; simp add: assms(4,5))+
  obtain codes where "gate_codes z r = Inr codes" "set codes = {c. entry_violation z r c}"
    using gate_codes_violations [OF assms(1)] by metis
  then show ?thesis
    using within_entry_window_Aware [OF assms(4), of z] w
    by (auto simp: entry_violation_def Let_def spread_matches_def cand inputs legs)
qed

theorem proposal_agrees_with_gateway_witness:
  "\<exists>p codes. catastrophe_generate sample_ct_offset sample_context = Inr [p] \<and>
     gate_codes sample_ct_offset (sample_proposal_request p) = Inr codes \<and>
     {ENTRY_WINDOW_CLOSED, DTE_MISMATCH, CONTRACT_SPREAD_MISMATCH} \<inter> set codes = {}"
proof -
  obtain p where p: "catastrophe_generate sample_ct_offset sample_context = Inr [p]" by (rule sample_generate)
  have "gr_candidate (sample_proposal_request p) = pp_candidate p"
    "cx_as_of sample_context = Aware (gr_as_of (sample_proposal_request p))"
    by (simp_all add: sample_proposal_request_def sample_context_def sample_request_def)
  moreover have "get_spread_metadata (cx_adapter sample_context) (lg_option_symbol (cx_short sample_context))
      (lg_option_symbol (cx_long sample_context)) = Inr (gr_spread_contract (sample_proposal_request p))"
    unfolding sample_proposal_request_def by code_simp
  ultimately show ?thesis
    using proposal_agrees_with_gateway [OF sample_proposal_request_wf [OF p] p] p
    by (auto simp: sample_proposal_request_def sample_context_def named_contract_def sample_contract_def)
qed

text \<open>The ranking is a total order on the proposals, whatever order they come in: it permutes
  the scored proposals, the scores never increase along it, a strictly better score means a
  strictly better ratio of credit to width in exact arithmetic, and another list of the same
  proposals ranks the same when no two of them agree in score, strike and rationale.\<close>

theorem ranking_ignores_input_order:
  assumes "mset qs = mset ps" and "inj_on (rank_key \<circ> score_proposal) (set ps)"
  shows "mset (rank_proposals ps) = image_mset score_proposal (mset ps) \<and>
    sorted_wrt (\<lambda>a b. so_score b \<le> so_score a) (rank_proposals ps) \<and>
    sorted_wrt (\<lambda>a b. so_score b < so_score a \<longrightarrow>
      dval (ci_net_credit (pp_candidate (so_proposal b))) / spread_width (pp_candidate (so_proposal b)) <
      dval (ci_net_credit (pp_candidate (so_proposal a))) / spread_width (pp_candidate (so_proposal a)))
      (rank_proposals ps) \<and>
    rank_proposals qs = rank_proposals ps"
proof (intro conjI)
  let ?rs = "rank_proposals ps"
  have range: "\<forall>s\<in>set ?rs. s = score_proposal (so_proposal s)"
    by (auto simp: rank_proposals_def score_proposal_def)
  have "sorted_wrt (\<lambda>a b. rank_key a \<le> rank_key b) ?rs"
    unfolding rank_proposals_def by (rule sorted_map [THEN iffD1]) (rule sorted_sort_key)
  then show "sorted_wrt (\<lambda>a b. so_score b \<le> so_score a) ?rs"
    using range rank_key_less_eq_score by (elim sorted_wrt_mono_rel [rotated]) metis
  show "sorted_wrt (\<lambda>a b. so_score b < so_score a \<longrightarrow>
      dval (ci_net_credit (pp_candidate (so_proposal b))) / spread_width (pp_candidate (so_proposal b)) <
      dval (ci_net_credit (pp_candidate (so_proposal a))) / spread_width (pp_candidate (so_proposal a))) ?rs"
    using range score_less_ratio by (simp add: sorted_wrt_iff_nth_less)
  show "mset ?rs = image_mset score_proposal (mset ps)" by (simp add: rank_proposals_def)
  have "set qs = set ps" using assms(1) by (rule mset_eq_setD)
  then show "rank_proposals qs = ?rs"
    unfolding rank_proposals_def using assms
    by (intro sort_key_inj_key_eq) (auto simp: inj_on_def comp_def)
qed

theorem ranking_ignores_input_order_witness:
  "rank_proposals [ranked_sample 60, ranked_sample 45] = rank_proposals [ranked_sample 45, ranked_sample 60] \<and>
   map (coeff \<circ> ci_net_credit \<circ> pp_candidate \<circ> so_proposal) (rank_proposals [ranked_sample 45, ranked_sample 60]) = [60, 45]"
proof
  have "distinct (map (rank_key \<circ> score_proposal) [ranked_sample 45, ranked_sample 60])" by code_simp
  then have "inj_on (rank_key \<circ> score_proposal) (set [ranked_sample 45, ranked_sample 60])"
    unfolding distinct_map by (rule conjunct2)
  moreover have "mset [ranked_sample 60, ranked_sample 45] = mset [ranked_sample 45, ranked_sample 60]"
    by (simp add: add_mset_commute)
  ultimately show "rank_proposals [ranked_sample 60, ranked_sample 45] = rank_proposals [ranked_sample 45, ranked_sample 60]"
    using ranking_ignores_input_order by blast
qed code_simp

end
