(* ===== verification/Reports.thy ===== *)
theory Reports
  imports Rehydration
begin

text \<open>
  The report builders: readers of persisted payloads (\<open>reports/_store_reads.py\<close>), the daily and
  the risk report (\<open>reports/daily_report.py\<close>, \<open>reports/risk_report.py\<close>) and the exports
  (\<open>reports/audit_export.py\<close>). A builder reads the events of a store and the scalar fields of their
  payloads; nothing protected is rebuilt. The theorems say what a report counts, that running state
  is taken from the newest event up to the end of the window, and that events after the window
  change nothing but the total.
\<close>

section \<open>Values of a payload\<close>

text \<open>\<open>data.get(key, default)\<close>.\<close>

definition json_get_or :: "json \<Rightarrow> string \<Rightarrow> json \<Rightarrow> json res" where
  "json_get_or v key dflt =
     (case v of
        JObj ms \<Rightarrow> Inr (case map_of ms key of Some x \<Rightarrow> x | None \<Rightarrow> dflt)
      | _ \<Rightarrow> Inl (AttributeError ''get''))"

text \<open>Iteration over a value: a mapping yields its keys.\<close>

definition json_iter :: "json \<Rightarrow> json list res" where
  "json_iter v =
     (case v of
        JArr xs \<Rightarrow> Inr xs
      | JObj ms \<Rightarrow> Inr (map (JStr \<circ> fst) ms)
      | JStr s \<Rightarrow> Inr (map (\<lambda>c. JStr [c]) s)
      | _ \<Rightarrow> Inl (TypeError ''object is not iterable''))"

text \<open>The number of a float token, rounded as \<open>float\<close> rounds it; \<open>None\<close> for the three
  non-numbers and on overflow, zero on underflow.\<close>

definition float_of_text :: "string \<Rightarrow> rat option" where
  "float_of_text t =
     (let (neg, body) = (case t of c # cs \<Rightarrow> if c = CHR ''-'' then (True, cs) else (False, t) | [] \<Rightarrow> (False, t)) in
      case int_part body of
        None \<Rightarrow> None
      | Some (i, r) \<Rightarrow>
          (let (f, r') = frac_part r; (e, _) = exp_part r';
               whole = (case py_int (i @ drop 1 f) of Some n \<Rightarrow> n | None \<Rightarrow> 0);
               ex = (case py_int (drop 1 e) of Some n \<Rightarrow> n | None \<Rightarrow> 0) - int (length (drop 1 f));
               x = fl (of_int whole * 10 powi ex)
           in if 2 ^ 1024 \<le> x then None
              else if x \<le> 2 powi (- 1075) then Some 0
              else Some (if neg then - x else x)))"

text \<open>\<open>int(value)\<close> and the truth value of a parsed value.\<close>

definition json_int :: "json \<Rightarrow> int res" where
  "json_int v =
     (case v of
        JInt n \<Rightarrow> Inr n
      | JBool b \<Rightarrow> Inr (if b then 1 else 0)
      | JFloat t \<Rightarrow>
          (case float_of_text t of
             Some x \<Rightarrow> Inr (trunc x) | None \<Rightarrow> Inl (ValueError ''cannot convert float to integer''))
      | JStr s \<Rightarrow> (case py_int s of Some n \<Rightarrow> Inr n | None \<Rightarrow> Inl (ValueError ''invalid literal for int()''))
      | _ \<Rightarrow> Inl (TypeError ''int() argument''))"

definition json_truthy :: "json \<Rightarrow> bool" where
  "json_truthy v =
     (case v of
        JNull \<Rightarrow> False | JBool b \<Rightarrow> b | JInt n \<Rightarrow> n \<noteq> 0 | JFloat t \<Rightarrow> float_of_text t \<noteq> Some 0
      | JStr s \<Rightarrow> s \<noteq> [] | JArr xs \<Rightarrow> xs \<noteq> [] | JObj ms \<Rightarrow> ms \<noteq> [])"

definition human_required_kind_of :: "string \<Rightarrow> human_required_kind option" where
  "human_required_kind_of v = find (\<lambda>c. human_required_kind_value c = v)
     [human_required_kind.DRAWDOWN_HALT, human_required_kind.EXECUTION_QUALITY_SUSPENSION,
      human_required_kind.SECONDARY_FEED_NOT_CERTIFIED, human_required_kind.BROKEN_SPREAD,
      human_required_kind.RECONCILIATION_MISMATCH, human_required_kind.STRATEGY_PROMOTION_REQUEST]"

text \<open>Comparison of datetimes: naive and aware ones do not mix.\<close>

definition dt_le :: "datetime \<Rightarrow> datetime \<Rightarrow> bool res" where
  "dt_le a b =
     (case (a, b) of
        (Aware x, Aware y) \<Rightarrow> Inr (at_le x y)
      | (Naive x, Naive y) \<Rightarrow> Inr (x \<le> y)
      | _ \<Rightarrow> Inl (TypeError ''can not compare offset-naive and offset-aware datetimes''))"

fun filter_res :: "('a \<Rightarrow> bool res) \<Rightarrow> 'a list \<Rightarrow> 'a list res" where
  "filter_res p [] = Inr []"
| "filter_res p (x # xs) =
     bind_res (p x) (\<lambda>b. map_res (\<lambda>ys. if b then x # ys else ys) (filter_res p xs))"

section \<open>Readers\<close>

definition load_events :: "audit_store \<Rightarrow> stored_event list res" where
  "load_events st = iter_events st None"

definition in_window :: "stored_event \<Rightarrow> datetime \<Rightarrow> datetime \<Rightarrow> bool res" where
  "in_window e window_start window_end =
     bind_res (dt_le window_start (Aware (se_created_at e))) (\<lambda>after_start.
       if after_start then dt_le (Aware (se_created_at e)) window_end else Inr False)"

definition of_type :: "stored_event list \<Rightarrow> record_type \<Rightarrow> stored_event list" where
  "of_type events rt = filter (\<lambda>e. se_record_type e = rt) events"

text \<open>The order of \<open>(created_at, seq)\<close> tuples.\<close>

definition later_event :: "stored_event \<Rightarrow> stored_event \<Rightarrow> bool" where
  "later_event e l \<longleftrightarrow>
     at_us (se_created_at l) < at_us (se_created_at e) \<or>
     at_us (se_created_at l) = at_us (se_created_at e) \<and> se_seq l < se_seq e"

fun latest_from :: "stored_event option \<Rightarrow> stored_event list \<Rightarrow> record_type \<Rightarrow> datetime \<Rightarrow> stored_event option res" where
  "latest_from latest [] rt window_end = Inr latest"
| "latest_from latest (e # es) rt window_end =
     (if se_record_type e \<noteq> rt then latest_from latest es rt window_end
      else bind_res (dt_le (Aware (se_created_at e)) window_end) (\<lambda>ok.
        latest_from
          (if ok \<and> (case latest of None \<Rightarrow> True | Some l \<Rightarrow> later_event e l) then Some e else latest)
          es rt window_end))"

definition latest_upto :: "stored_event list \<Rightarrow> record_type \<Rightarrow> datetime \<Rightarrow> stored_event option res" where
  "latest_upto events rt window_end = latest_from None events rt window_end"

definition payload :: "stored_event \<Rightarrow> json res" where
  "payload e = json_loads (se_payload_json e)"

record execution_outcomes =
  xo_fills :: int
  xo_cancels :: int
  xo_rejects :: int

fun count_outcomes_from :: "execution_outcomes \<Rightarrow> stored_event list \<Rightarrow> execution_outcomes res" where
  "count_outcomes_from acc [] = Inr acc"
| "count_outcomes_from acc (e # es) =
     bind_res (lifecycle_from_payload (se_payload_json e)) (\<lambda>l.
       count_outcomes_from
         (case l of
            order_lifecycle_state.FILLED \<Rightarrow> acc\<lparr>xo_fills := xo_fills acc + 1\<rparr>
          | order_lifecycle_state.CANCELLED \<Rightarrow> acc\<lparr>xo_cancels := xo_cancels acc + 1\<rparr>
          | order_lifecycle_state.REJECTED \<Rightarrow> acc\<lparr>xo_rejects := xo_rejects acc + 1\<rparr>
          | _ \<Rightarrow> acc) es)"

definition count_execution_outcomes :: "stored_event list \<Rightarrow> execution_outcomes res" where
  "count_execution_outcomes es = count_outcomes_from \<lparr>xo_fills = 0, xo_cancels = 0, xo_rejects = 0\<rparr> es"

definition summarize_position :: "codec \<Rightarrow> stored_event list \<Rightarrow> datetime \<Rightarrow> position_summary res" where
  "summarize_position cd events window_end =
     bind_res (latest_upto events POSITION_SNAPSHOT window_end) (\<lambda>event.
     case event of
       None \<Rightarrow> mk_position_summary
         \<lparr>pu_available = False, pu_open_legs = 0, pu_open_contracts = 0, pu_snapshot_id = None, pu_as_of = None,
          pu_emergency_state = None\<rparr>
     | Some e \<Rightarrow>
         bind_res (payload e) (\<lambda>data.
         bind_res (bind_res (json_get_or data ''legs'' (JArr [])) json_iter) (\<lambda>legs.
         bind_res (collect_res (\<lambda>leg. bind_res (json_get leg ''contracts'') json_int) legs) (\<lambda>contracts.
         bind_res (json_get data ''snapshot_id'') (\<lambda>sid.
         bind_res (bind_res (json_get data ''as_of'') (fromisoformat cd)) (\<lambda>as_of.
         bind_res (bind_res (json_get data ''emergency_state'') (enum_of_json emergency_state_of)) (\<lambda>state.
         bind_res (strict_str_option ''snapshot_id'' sid) (\<lambda>sid.
         bind_res (aware_of ''as_of'' as_of) (\<lambda>as_of.
         mk_position_summary
           \<lparr>pu_available = True, pu_open_legs = int (length legs), pu_open_contracts = sum_list contracts,
            pu_snapshot_id = sid, pu_as_of = Some as_of, pu_emergency_state = Some state\<rparr>)))))))))"

definition reconciliation_status :: "stored_event list \<Rightarrow> datetime \<Rightarrow> reconciliation_report_status res" where
  "reconciliation_status events window_end =
     bind_res (latest_upto events RECONCILIATION_SNAPSHOT window_end) (\<lambda>event.
     case event of
       None \<Rightarrow> Inr RECON_NOT_AVAILABLE
     | Some e \<Rightarrow>
         bind_res (bind_res (payload e) (\<lambda>data. json_get data ''status'')) (\<lambda>status.
         Inr (if status = JStr ''MATCH'' then RECONCILED else RECON_MISMATCH)))"

definition summarize_kill_switch :: "stored_event list \<Rightarrow> datetime \<Rightarrow> kill_switch_summary res" where
  "summarize_kill_switch events window_end =
     bind_res (latest_upto events record_type.KILL_SWITCH_STATE window_end) (\<lambda>event.
     case event of
       None \<Rightarrow> mk_kill_switch_summary
         \<lparr>ku_status = UNKNOWN, ku_halted = None, ku_reason_code = None, ku_rearm_mode = None, ku_command_id = None\<rparr>
     | Some e \<Rightarrow>
         bind_res (payload e) (\<lambda>data.
         bind_res (json_get data ''halted'') (\<lambda>halted.
         if json_truthy halted then
           bind_res (bind_res (json_get data ''reason_code'') (enum_of_json reason_code_of)) (\<lambda>code.
           bind_res (bind_res (json_get data ''rearm_mode'') (enum_of_json rearm_mode_of)) (\<lambda>mode.
           bind_res (json_get data ''command_id'') (\<lambda>cid.
           bind_res (strict_str_option ''command_id'' cid) (\<lambda>cid.
           mk_kill_switch_summary
             \<lparr>ku_status = HALTED, ku_halted = Some True, ku_reason_code = Some code, ku_rearm_mode = Some mode,
              ku_command_id = cid\<rparr>))))
         else
           bind_res (json_get data ''command_id'') (\<lambda>cid.
           bind_res (strict_str_option ''command_id'' cid) (\<lambda>cid.
           mk_kill_switch_summary
             \<lparr>ku_status = ARMED, ku_halted = Some False, ku_reason_code = None, ku_rearm_mode = None,
              ku_command_id = cid\<rparr>)))))"

definition human_required_summary_of :: "codec \<Rightarrow> stored_event \<Rightarrow> human_required_summary res" where
  "human_required_summary_of cd e =
     bind_res (payload e) (\<lambda>data.
     bind_res (bind_res (json_get data ''kind'') (enum_of_json human_required_kind_of)) (\<lambda>kind.
     bind_res (bind_res (json_get data ''reason_code'') (enum_of_json reason_code_of)) (\<lambda>code.
     bind_res (bind_res (json_get data ''created_at'') (fromisoformat cd)) (\<lambda>created.
     bind_res (json_get data ''resolved'') (\<lambda>resolved.
     bind_res (json_get data ''audit_artifact_id'') (\<lambda>aid.
     bind_res (aware_of ''created_at'' created) (\<lambda>created.
     bind_res (strict_bool ''resolved'' resolved) (\<lambda>resolved.
     bind_res (strict_str ''audit_artifact_id'' aid) (\<lambda>aid.
     construct [(aid = [], ''audit_artifact_id'')]
       \<lparr>hu_kind = kind, hu_reason_code = code, hu_created_at = created, hu_resolved = resolved,
        hu_audit_artifact_id = aid\<rparr>)))))))))"

definition human_required_summaries :: "codec \<Rightarrow> stored_event list \<Rightarrow> human_required_summary list res" where
  "human_required_summaries cd es = collect_res (human_required_summary_of cd) es"

section \<open>The daily report\<close>

text \<open>The dictionary of counts: first occurrences in order, each with its count so far.\<close>

fun bump :: "'k \<Rightarrow> ('k \<times> int) list \<Rightarrow> ('k \<times> int) list" where
  "bump c [] = [(c, 1)]"
| "bump c ((d, n) # ms) = (if d = c then (d, n + 1) # ms else (d, n) # bump c ms)"

fun bump_all :: "json list \<Rightarrow> (reason_code \<times> int) list \<Rightarrow> (reason_code \<times> int) list res" where
  "bump_all [] counts = Inr counts"
| "bump_all (raw # raws) counts =
     bind_res (enum_of_json reason_code_of raw) (\<lambda>c. bump_all raws (bump c counts))"

definition reason_codes_of :: "stored_event \<Rightarrow> json list res" where
  "reason_codes_of e =
     bind_res (payload e) (\<lambda>data. bind_res (json_get_or data ''reason_codes'' (JArr [])) json_iter)"

fun count_reasons :: "stored_event list \<Rightarrow> (reason_code \<times> int) list \<Rightarrow> (reason_code \<times> int) list res" where
  "count_reasons [] counts = Inr counts"
| "count_reasons (e # es) counts =
     bind_res (reason_codes_of e) (\<lambda>raws. bind_res (bump_all raws counts) (count_reasons es))"

definition reject_reason_tallies :: "stored_event list \<Rightarrow> reason_code_tally list res" where
  "reject_reason_tallies es =
     bind_res (count_reasons es []) (\<lambda>counts.
     collect_res (\<lambda>(c, n). construct [(n < 1, ''count'')] \<lparr>ry_reason_code = c, ry_count = n\<rparr>)
       (sort_key (reason_code_value \<circ> fst) counts))"

definition is_reject :: "stored_event \<Rightarrow> bool res" where
  "is_reject e =
     bind_res (payload e) (\<lambda>data.
     bind_res (json_get_or data ''decision'' (JStr [])) (\<lambda>v.
     case v of
       JStr s \<Rightarrow> Inr (take 6 (str_upper s) = ''REJECT'')
     | _ \<Rightarrow> Inl (AttributeError ''upper'')))"

definition is_paper_submit :: "stored_event \<Rightarrow> bool res" where
  "is_paper_submit e =
     bind_res (payload e) (\<lambda>data.
     bind_res (json_get_or data ''submit_mode'' JNull) (\<lambda>v.
     Inr (v = JStr (submit_mode_value submit_mode.PAPER))))"

text \<open>What a report is asked for: identity, labels, window and time of generation.\<close>

record report_request =
  rq_identity :: system_identity
  rq_report_id :: string
  rq_report_date :: string
  rq_window_start :: datetime
  rq_window_end :: datetime
  rq_generated_at :: datetime

definition check_window :: "datetime \<Rightarrow> datetime \<Rightarrow> unit res" where
  "check_window window_start window_end =
     bind_res (dt_le window_start window_end) (\<lambda>ok.
       require ok (ValueError ''window_start must not be after window_end'') (Inr ()))"

definition windowed_events :: "report_request \<Rightarrow> stored_event list \<Rightarrow> stored_event list res" where
  "windowed_events q events = filter_res (\<lambda>e. in_window e (rq_window_start q) (rq_window_end q)) events"

definition build_daily_report :: "codec \<Rightarrow> audit_store \<Rightarrow> report_request \<Rightarrow> daily_report res" where
  "build_daily_report cd st q =
     bind_res (check_window (rq_window_start q) (rq_window_end q)) (\<lambda>_.
     bind_res (load_events st) (\<lambda>events.
     bind_res (windowed_events q events) (\<lambda>windowed.
     bind_res (filter_res is_reject (of_type windowed AUDIT_ARTIFACT)) (\<lambda>reject_artifacts.
     bind_res (filter_res is_paper_submit (of_type windowed BROKER_SUBMIT_INTENT)) (\<lambda>paper_submits.
     bind_res (count_execution_outcomes (of_type windowed EXECUTION_REPORT)) (\<lambda>outcomes.
     bind_res (reject_reason_tallies reject_artifacts) (\<lambda>tallies.
     bind_res (summarize_position cd events (rq_window_end q)) (\<lambda>positions.
     bind_res (reconciliation_status events (rq_window_end q)) (\<lambda>reconciliation.
     bind_res (human_required_summaries cd (of_type windowed HUMAN_REQUIRED_EVENT)) (\<lambda>humans.
     bind_res (summarize_kill_switch events (rq_window_end q)) (\<lambda>kill_switch.
     bind_res (aware_of ''generated_at'' (rq_generated_at q)) (\<lambda>generated.
     bind_res (aware_of ''window_start'' (rq_window_start q)) (\<lambda>window_start.
     bind_res (aware_of ''window_end'' (rq_window_end q)) (\<lambda>window_end.
     mk_daily_report
       \<lparr>dr_report_id = rq_report_id q, dr_report_date = rq_report_date q, dr_generated_at = generated,
        dr_window_start = window_start, dr_window_end = window_end, dr_identity = rq_identity q,
        dr_candidates_generated = int (length (of_type windowed GATEWAY_REQUEST)),
        dr_gateway_approvals = int (length (of_type windowed VALIDATED_TRADE_INTENT)),
        dr_gateway_rejections = int (length reject_artifacts), dr_rejections_by_reason = tallies,
        dr_tickets_minted = int (length (of_type windowed ORDER_TICKET)),
        dr_paper_orders_submitted = int (length paper_submits), dr_fills = xo_fills outcomes,
        dr_cancels = xo_cancels outcomes, dr_rejects = xo_rejects outcomes, dr_positions = positions,
        dr_reconciliation_status = reconciliation, dr_data_freshness = NOT_TRACKED,
        dr_data_freshness_issues = [], dr_human_required_events = humans, dr_kill_switch = kill_switch,
        dr_events_in_window = int (length windowed), dr_total_audit_events = int (length events)\<rparr>))))))))))))))"

section \<open>The risk report\<close>

definition build_risk_report :: "codec \<Rightarrow> audit_store \<Rightarrow> report_request \<Rightarrow> risk_report res" where
  "build_risk_report cd st q =
     bind_res (check_window (rq_window_start q) (rq_window_end q)) (\<lambda>_.
     bind_res (load_events st) (\<lambda>events.
     bind_res (windowed_events q events) (\<lambda>windowed.
     bind_res (count_execution_outcomes (of_type windowed EXECUTION_REPORT)) (\<lambda>outcomes.
     bind_res (summarize_position cd events (rq_window_end q)) (\<lambda>positions.
     bind_res (reconciliation_status events (rq_window_end q)) (\<lambda>reconciliation.
     bind_res (summarize_kill_switch events (rq_window_end q)) (\<lambda>kill_switch.
     bind_res (aware_of ''generated_at'' (rq_generated_at q)) (\<lambda>generated.
     bind_res (aware_of ''window_start'' (rq_window_start q)) (\<lambda>window_start.
     bind_res (aware_of ''window_end'' (rq_window_end q)) (\<lambda>window_end.
     mk_risk_report
       \<lparr>kr_report_id = rq_report_id q, kr_report_date = rq_report_date q, kr_generated_at = generated,
        kr_window_start = window_start, kr_window_end = window_end, kr_identity = rq_identity q,
        kr_positions = positions, kr_fills = xo_fills outcomes, kr_realized_pnl = None, kr_pnl_supported = False,
        kr_max_drawdown = None, kr_drawdown_supported = False, kr_drawdown_tier = None,
        kr_reconciliation_status = reconciliation, kr_kill_switch = kill_switch\<rparr>))))))))))"

section \<open>Persisting and exporting\<close>

definition persist_report :: "codec \<Rightarrow> audit_store \<Rightarrow> hermes_model \<Rightarrow> datetime \<Rightarrow> stored_event res \<times> audit_store" where
  "persist_report cd st report recorded_at =
     (case report of
        DailyReport d \<Rightarrow> append_event cd st report (Aware (dr_generated_at d)) recorded_at None
      | RiskReport k \<Rightarrow> append_event cd st report (Aware (kr_generated_at k)) recorded_at None
      | _ \<Rightarrow> (Inl (TypeError ''persist_report requires a DailyReport or RiskReport''), st))"

text \<open>The lines of a filtered export; the number returned is their number. A failing comparison
  leaves the lines written so far.\<close>

definition export_keeps :: "record_type set option \<Rightarrow> datetime option \<Rightarrow> datetime option \<Rightarrow> stored_event \<Rightarrow> bool res" where
  "export_keeps selected since until e =
     (if (case selected of None \<Rightarrow> False | Some rts \<Rightarrow> se_record_type e \<notin> rts) then Inr False
      else bind_res (case since of None \<Rightarrow> Inr True | Some s \<Rightarrow> dt_le s (Aware (se_created_at e))) (\<lambda>a.
        if \<not> a then Inr False
        else case until of None \<Rightarrow> Inr True | Some u \<Rightarrow> dt_le (Aware (se_created_at e)) u))"

definition export_filtered_lines ::
  "(stored_event \<Rightarrow> string) \<Rightarrow> audit_store \<Rightarrow> record_type list option \<Rightarrow> datetime option \<Rightarrow> datetime option \<Rightarrow> string list res" where
  "export_filtered_lines dump_event st record_types since until =
     bind_res (case (since, until) of (Some s, Some u) \<Rightarrow> dt_le s u | _ \<Rightarrow> Inr True) (\<lambda>ok.
     require ok (ValueError ''since must not be after until'') (
     bind_res (load_events st) (\<lambda>events.
     map_res (map dump_event) (filter_res (export_keeps (map_option set record_types) since until) events))))"

section \<open>Lemmas\<close>

lemma filter_res_ok: "(\<And>x. x \<in> set xs \<Longrightarrow> p x = Inr (P x)) \<Longrightarrow> filter_res p xs = Inr (filter P xs)"
  by (induction xs) simp_all

lemma filter_res_append: "filter_res p (xs @ ys) = bind_res (filter_res p xs) (\<lambda>us. map_res (\<lambda>vs. us @ vs) (filter_res p ys))"
  by (induction xs) (auto simp: bind_res_def map_res_def split: sum.splits)

lemma filter_res_subset: "filter_res p xs = Inr ys \<Longrightarrow> set ys \<subseteq> set xs \<and> length ys \<le> length xs"
  by (induction xs arbitrary: ys) (fastforce simp: bind_res_eq_Inr map_res_eq_Inr split: if_splits)+

lemma dt_le_Aware [simp]: "dt_le (Aware a) (Aware b) = Inr (at_us a \<le> at_us b)"
  by (simp add: dt_le_def at_le_def)

lemma in_window_Aware:
  "in_window e (Aware a) (Aware b) = Inr (at_us a \<le> at_us (se_created_at e) \<and> at_us (se_created_at e) \<le> at_us b)"
  by (simp add: in_window_def)

lemma windowed_events_Aware:
  assumes "rq_window_start q = Aware a" and "rq_window_end q = Aware b"
  shows "windowed_events q es =
    Inr (filter (\<lambda>e. at_us a \<le> at_us (se_created_at e) \<and> at_us (se_created_at e) \<le> at_us b) es)"
  unfolding windowed_events_def assms in_window_Aware by (rule filter_res_ok) simp

text \<open>Events after the end of the window are skipped.\<close>

lemma latest_from_append:
  "latest_from l (es @ fs) rt w = bind_res (latest_from l es rt w) (\<lambda>m. latest_from m fs rt w)"
  by (induction es arbitrary: l) (auto simp: bind_res_def split: sum.splits)

lemma latest_from_later:
  "\<forall>e\<in>set fs. at_us b < at_us (se_created_at e) \<Longrightarrow> latest_from l fs rt (Aware b) = Inr l"
  by (induction fs) (auto simp: not_le [symmetric])

lemma latest_upto_later:
  "\<forall>e\<in>set fs. at_us b < at_us (se_created_at e) \<Longrightarrow>
     latest_upto (es @ fs) rt (Aware b) = latest_upto es rt (Aware b)"
  by (simp add: latest_upto_def latest_from_append latest_from_later bind_res_def split: sum.splits)

lemma windowed_later:
  assumes "rq_window_start q = Aware a" and "rq_window_end q = Aware b"
    and "\<forall>e\<in>set fs. at_us b < at_us (se_created_at e)"
  shows "windowed_events q (es @ fs) = windowed_events q es"
  using assms(3) by (auto simp: windowed_events_Aware [OF assms(1,2)] filter_empty_conv not_le)

lemma summaries_later:
  assumes "\<forall>e\<in>set fs. at_us b < at_us (se_created_at e)"
  shows "summarize_position cd (es @ fs) (Aware b) = summarize_position cd es (Aware b)"
    and "reconciliation_status (es @ fs) (Aware b) = reconciliation_status es (Aware b)"
    and "summarize_kill_switch (es @ fs) (Aware b) = summarize_kill_switch es (Aware b)"
  using latest_upto_later [OF assms]
  by (simp_all add: summarize_position_def reconciliation_status_def summarize_kill_switch_def)

text \<open>The newest event up to the end of the window.\<close>

definition newest :: "stored_event list \<Rightarrow> record_type \<Rightarrow> aware \<Rightarrow> stored_event option \<Rightarrow> bool" where
  "newest es rt b l \<longleftrightarrow>
     (let cs = filter (\<lambda>e. se_record_type e = rt \<and> at_us (se_created_at e) \<le> at_us b) es in
      case l of None \<Rightarrow> cs = [] | Some e \<Rightarrow> e \<in> set cs \<and> (\<forall>f\<in>set cs. \<not> later_event f e))"

lemma later_event_order:
  "\<not> later_event e e"
  "later_event e f \<Longrightarrow> \<not> later_event g f \<Longrightarrow> \<not> later_event g e"
  "later_event e f \<Longrightarrow> \<not> later_event f e"
  by (auto simp: later_event_def)

lemma newest_None: "newest es rt b None \<longleftrightarrow> (\<forall>e\<in>set es. se_record_type e = rt \<longrightarrow> at_us b < at_us (se_created_at e))"
  by (auto simp: newest_def filter_empty_conv not_le)

lemma newest_Some:
  "newest es rt b (Some e) \<longleftrightarrow> e \<in> set es \<and> se_record_type e = rt \<and> at_us (se_created_at e) \<le> at_us b \<and>
     (\<forall>f\<in>set es. se_record_type f = rt \<longrightarrow> at_us (se_created_at f) \<le> at_us b \<longrightarrow> \<not> later_event f e)"
  by (auto simp: newest_def)

lemma newest_snoc:
  assumes "newest ds rt b l" and "se_record_type e = rt"
  shows "newest (ds @ [e]) rt b
    (if at_us (se_created_at e) \<le> at_us b \<and> (case l of None \<Rightarrow> True | Some f \<Rightarrow> later_event e f) then Some e else l)"
proof (cases "at_us (se_created_at e) \<le> at_us b")
  case False
  then show ?thesis using assms by (cases l) (auto simp: newest_None newest_Some)
next
  case True
  show ?thesis
  proof (cases l)
    case None
    then show ?thesis using assms True by (auto simp: newest_None newest_Some later_event_def)
  next
    case (Some f)
    then show ?thesis
      using assms True later_event_order(1) [of e] later_event_order(2) [of e f] by (auto simp: newest_Some)
  qed
qed

lemma latest_from_newest:
  assumes "newest ds rt b l"
  shows "\<exists>m. latest_from l es rt (Aware b) = Inr m \<and> newest (ds @ es) rt b m"
  using assms
proof (induction es arbitrary: ds l)
  case (Cons e es)
  let ?l = "if at_us (se_created_at e) \<le> at_us b \<and> (case l of None \<Rightarrow> True | Some l \<Rightarrow> later_event e l)
            then Some e else l"
  show ?case
  proof (cases "se_record_type e = rt")
    case True
    from newest_snoc [OF Cons.prems True] have "newest (ds @ [e]) rt b ?l" .
    from Cons.IH [OF this] show ?thesis using True by (simp del: if_split)
  next
    case False
    then have "newest (ds @ [e]) rt b l" using Cons.prems by (cases l) (auto simp: newest_None newest_Some)
    from Cons.IH [OF this] show ?thesis using False by simp
  qed
qed simp

lemma latest_upto_newest: "\<exists>l. latest_upto es rt (Aware b) = Inr l \<and> newest es rt b l"
  using latest_from_newest [of "[]" rt b None es] by (simp add: latest_upto_def newest_def)

text \<open>A member of the payload of an event.\<close>

definition says :: "stored_event \<Rightarrow> string \<Rightarrow> json \<Rightarrow> bool" where
  "says e key v \<longleftrightarrow> (\<exists>ms. json_loads (se_payload_json e) = Inr (JObj ms) \<and> map_of ms key = Some v)"

lemma json_get_says: "payload e = Inr data \<Longrightarrow> json_get data key = Inr v \<longleftrightarrow> says e key v"
  by (cases data) (auto simp: payload_def says_def json_get_def split: option.splits)

lemma json_get_or_says:
  "payload e = Inr data \<Longrightarrow> json_get_or data key dflt = Inr v \<Longrightarrow> v \<noteq> dflt \<Longrightarrow> says e key v"
  by (cases data) (auto simp: payload_def says_def json_get_or_def split: option.splits)

lemma says_unique: "says e key v \<Longrightarrow> says e key v' \<Longrightarrow> v = v'"
  by (auto simp: says_def)

lemma says_payload: "says e key v \<Longrightarrow> \<exists>data. payload e = Inr data \<and> json_get_or data key dflt = Inr v"
  by (auto simp: says_def payload_def json_get_or_def)

lemma is_paper_submit_says: "is_paper_submit e = Inr True \<longleftrightarrow> says e ''submit_mode'' (JStr ''PAPER'')"
proof
  assume "is_paper_submit e = Inr True"
  then show "says e ''submit_mode'' (JStr ''PAPER'')"
    by (auto simp: is_paper_submit_def bind_res_eq_Inr intro: json_get_or_says)
next
  assume "says e ''submit_mode'' (JStr ''PAPER'')"
  from says_payload [OF this, of JNull] show "is_paper_submit e = Inr True"
    by (auto simp: is_paper_submit_def)
qed

lemma case_JStr_Inr:
  "(case v of JStr t \<Rightarrow> f t | _ \<Rightarrow> Inl e) = Inr x \<longleftrightarrow> (\<exists>t. v = JStr t \<and> f t = Inr x)"
  by (cases v) simp_all

lemma is_reject_says:
  "is_reject e = Inr True \<longleftrightarrow> (\<exists>t. says e ''decision'' (JStr t) \<and> take 6 (str_upper t) = ''REJECT'')"
proof
  assume "is_reject e = Inr True"
  then obtain data t where d: "payload e = Inr data" "json_get_or data ''decision'' (JStr []) = Inr (JStr t)"
    "take 6 (str_upper t) = ''REJECT''"
    by (auto simp: is_reject_def bind_res_eq_Inr case_JStr_Inr)
  then have "t \<noteq> []" by (auto simp: str_upper_def)
  then show "\<exists>t. says e ''decision'' (JStr t) \<and> take 6 (str_upper t) = ''REJECT''"
    using json_get_or_says [OF d(1,2)] d(3) by auto
next
  assume "\<exists>t. says e ''decision'' (JStr t) \<and> take 6 (str_upper t) = ''REJECT''"
  then obtain t where t: "says e ''decision'' (JStr t)" "take 6 (str_upper t) = ''REJECT''" by blast
  from says_payload [OF t(1), of "JStr []"] show "is_reject e = Inr True"
    using t(2) by (auto simp: is_reject_def)
qed

definition in_state :: "order_lifecycle_state \<Rightarrow> stored_event \<Rightarrow> bool" where
  "in_state l e \<longleftrightarrow> says e ''lifecycle_state'' (JStr (order_lifecycle_state_value l))"

lemma lifecycle_says: "lifecycle_from_payload (se_payload_json e) = Inr l \<longleftrightarrow> in_state l e"
proof -
  have "lifecycle_of t = Some l \<Longrightarrow> order_lifecycle_state_value l = t" for t
    unfolding lifecycle_of_def by (drule find_SomeD) simp
  then have of_value: "lifecycle_of t = Some l \<longleftrightarrow> t = order_lifecycle_state_value l" for t
    using lifecycle_round_trip [of l] by blast
  have enum: "enum_of_json lifecycle_of v = Inr l \<longleftrightarrow> v = JStr (order_lifecycle_state_value l)" for v
  proof (cases v)
    case (JStr t)
    then show ?thesis using of_value [of t] by (cases "lifecycle_of t") (simp_all add: enum_of_json_def)
  qed (simp_all add: enum_of_json_def)
  have get: "(\<exists>data. json_loads (se_payload_json e) = Inr data \<and> json_get data key = Inr v) \<longleftrightarrow> says e key v" for key v
  proof (cases "json_loads (se_payload_json e)")
    case (Inr d)
    then show ?thesis by (cases d) (simp_all add: says_def json_get_def split: option.split)
  qed (simp add: says_def)
  show ?thesis
    unfolding lifecycle_from_payload_def bind_res_eq_Inr enum in_state_def get [symmetric] by blast
qed

lemma in_state_unique: "in_state l e \<Longrightarrow> in_state m e \<longleftrightarrow> m = l"
  unfolding lifecycle_says [symmetric] by auto

lemma filter_res_Inr: "filter_res p xs = Inr ys \<Longrightarrow> ys = filter (\<lambda>x. p x = Inr True) xs"
  by (induction xs arbitrary: ys) (auto simp: bind_res_eq_Inr map_res_eq_Inr)

text \<open>What the counters count.\<close>

definition with_lifecycle :: "order_lifecycle_state \<Rightarrow> stored_event list \<Rightarrow> nat" where
  "with_lifecycle l es = length (filter (in_state l) es)"

lemma count_outcomes_from_Inr:
  "count_outcomes_from acc es = Inr x \<Longrightarrow>
     xo_fills x = xo_fills acc + int (with_lifecycle order_lifecycle_state.FILLED es) \<and>
     xo_cancels x = xo_cancels acc + int (with_lifecycle order_lifecycle_state.CANCELLED es) \<and>
     xo_rejects x = xo_rejects acc + int (with_lifecycle order_lifecycle_state.REJECTED es)"
proof (induction es arbitrary: acc)
  case (Cons e es)
  then obtain l where l: "lifecycle_from_payload (se_payload_json e) = Inr l" by (auto simp: bind_res_eq_Inr)
  then have is_l: "in_state m e \<longleftrightarrow> m = l" for m
    using in_state_unique by (simp add: lifecycle_says)
  from Cons l show ?case by (cases l) (fastforce simp: with_lifecycle_def is_l)+
qed (simp add: with_lifecycle_def)

lemma with_lifecycle_sum:
  "with_lifecycle order_lifecycle_state.FILLED es + with_lifecycle order_lifecycle_state.CANCELLED es +
     with_lifecycle order_lifecycle_state.REJECTED es \<le> length es"
proof (induction es)
  case (Cons e es)
  show ?case
  proof (cases "\<exists>l. in_state l e")
    case True
    then obtain l where "in_state l e" ..
    then have "in_state m e \<longleftrightarrow> m = l" for m by (rule in_state_unique)
    then show ?thesis using Cons.IH by (cases l) (simp_all add: with_lifecycle_def)
  qed (use Cons.IH in \<open>simp add: with_lifecycle_def\<close>)
qed (simp add: with_lifecycle_def)

definition code_occurrences :: "reason_code \<Rightarrow> stored_event list \<Rightarrow> nat" where
  "code_occurrences c es =
     length (filter (\<lambda>raw. enum_of_json reason_code_of raw = Inr c)
       (concat (map (\<lambda>e. case reason_codes_of e of Inr raws \<Rightarrow> raws | Inl _ \<Rightarrow> []) es)))"

text \<open>A table of counts: every key once, every count positive.\<close>

definition counts_are :: "('k \<times> int) list \<Rightarrow> ('k \<Rightarrow> nat) \<Rightarrow> bool" where
  "counts_are ms k \<longleftrightarrow> distinct (map fst ms) \<and>
     (\<forall>c. map_of ms c = (if k c = 0 then None else Some (int (k c))))"

lemma map_of_bump:
  "map_of (bump c ms) d = (if d = c then Some (case map_of ms c of None \<Rightarrow> 1 | Some n \<Rightarrow> n + 1) else map_of ms d)"
  by (induction ms) auto

lemma keys_bump: "set (map fst (bump c ms)) = insert c (set (map fst ms))"
  by (induction ms) force+

lemma distinct_bump: "distinct (map fst ms) \<Longrightarrow> distinct (map fst (bump c ms))"
  by (induction ms) (auto simp: keys_bump simp del: set_map)

lemma counts_bump: "counts_are ms k \<Longrightarrow> counts_are (bump c ms) (k(c := k c + 1))"
  by (auto simp: counts_are_def map_of_bump distinct_bump)

lemma counts_bump_all:
  "bump_all raws ms = Inr ms' \<Longrightarrow> counts_are ms k \<Longrightarrow>
     counts_are ms' (\<lambda>c. k c + length (filter (\<lambda>raw. enum_of_json reason_code_of raw = Inr c) raws))"
proof (induction raws arbitrary: ms k)
  case (Cons raw raws)
  then obtain c where c: "enum_of_json reason_code_of raw = Inr c" "bump_all raws (bump c ms) = Inr ms'"
    by (auto simp: bind_res_eq_Inr)
  from Cons.IH [OF c(2) counts_bump [OF Cons.prems(2)]]
  show ?case using c(1) by (auto elim!: arg_cong2 [where f = counts_are, THEN iffD1, rotated 2] simp: fun_eq_iff)
qed simp

lemma counts_count_reasons:
  "count_reasons es ms = Inr ms' \<Longrightarrow> counts_are ms k \<Longrightarrow> counts_are ms' (\<lambda>c. k c + code_occurrences c es)"
proof (induction es arbitrary: ms k)
  case Nil
  then show ?case by (simp add: code_occurrences_def)
next
  case (Cons e es)
  then obtain raws ms1 where r: "reason_codes_of e = Inr raws" "bump_all raws ms = Inr ms1"
    "count_reasons es ms1 = Inr ms'" by (auto simp: bind_res_eq_Inr)
  from Cons.IH [OF r(3) counts_bump_all [OF r(2) Cons.prems(2)]]
  show ?case using r(1) by (simp add: code_occurrences_def add.assoc)
qed

lemma collect_res_Inr: "collect_res f xs = Inr ys \<Longrightarrow> list_all2 (\<lambda>x y. f x = Inr y) xs ys"
  by (induction xs arbitrary: ys) (auto simp: bind_res_eq_Inr map_res_eq_Inr)

lemma reject_reason_tallies_Inr:
  assumes "reject_reason_tallies es = Inr ts"
  shows "t \<in> set ts \<longleftrightarrow> 0 < ry_count t \<and> ry_count t = int (code_occurrences (ry_reason_code t) es)"
    and "sorted (map (reason_code_value \<circ> ry_reason_code) ts)" and "distinct (map ry_reason_code ts)"
proof -
  obtain ms where ms: "count_reasons es [] = Inr ms" and
    c: "collect_res (\<lambda>(c, n). construct [(n < 1, ''count'')] \<lparr>ry_reason_code = c, ry_count = n\<rparr>)
       (sort_key (reason_code_value \<circ> fst) ms) = Inr ts"
    using assms by (auto simp: reject_reason_tallies_def bind_res_eq_Inr)
  let ?ss = "sort_key (reason_code_value \<circ> fst) ms"
  have k: "counts_are ms (\<lambda>c. code_occurrences c es)"
    using counts_count_reasons [OF ms, of "\<lambda>_. 0"] by (simp add: counts_are_def)
  from collect_res_Inr [OF c] have "list_all2 (\<lambda>m t. t = \<lparr>ry_reason_code = fst m, ry_count = snd m\<rparr>) ?ss ts"
    by (rule list_all2_mono) (auto simp: construct_eq_Inr)
  then have ts: "ts = map (\<lambda>m. \<lparr>ry_reason_code = fst m, ry_count = snd m\<rparr>) ?ss"
    by (simp add: list_all2_conv_all_nth list_eq_iff_nth_eq)
  have "t \<in> set ts \<longleftrightarrow> (ry_reason_code t, ry_count t) \<in> set ms" by (auto simp: ts intro!: image_eqI)
  also have "\<dots> \<longleftrightarrow> map_of ms (ry_reason_code t) = Some (ry_count t)"
    using k map_of_eq_Some_iff [of ms] unfolding counts_are_def by blast
  finally show "t \<in> set ts \<longleftrightarrow> 0 < ry_count t \<and> ry_count t = int (code_occurrences (ry_reason_code t) es)"
    using k by (auto simp: counts_are_def)
  have "sorted (map (reason_code_value \<circ> fst) ?ss)" by (rule sorted_sort_key)
  then show "sorted (map (reason_code_value \<circ> ry_reason_code) ts)" by (simp add: ts comp_def)
  have "distinct (map fst ?ss)" using k by (simp add: counts_are_def distinct_map inj_on_def)
  then show "distinct (map ry_reason_code ts)" by (simp add: ts comp_def)
qed

lemma summarize_kill_switch_newest:
  assumes "summarize_kill_switch es (Aware b) = Inr k"
  shows "\<exists>l. newest es record_type.KILL_SWITCH_STATE b l \<and> (ku_status k = UNKNOWN \<longleftrightarrow> l = None) \<and>
    (ku_status k = HALTED \<longleftrightarrow> (\<exists>e v. l = Some e \<and> says e ''halted'' v \<and> json_truthy v))"
proof -
  obtain l where l: "latest_upto es record_type.KILL_SWITCH_STATE (Aware b) = Inr l"
    "newest es record_type.KILL_SWITCH_STATE b l" using latest_upto_newest by blast
  show ?thesis
  proof (cases l)
    case None
    then show ?thesis
      using assms l
      by (intro exI [of _ l]) (auto simp: summarize_kill_switch_def mk_kill_switch_summary_def construct_eq_Inr)
  next
    case (Some e)
    then obtain data v where d: "payload e = Inr data" "json_get data ''halted'' = Inr v"
      "ku_status k = (if json_truthy v then HALTED else ARMED)"
      using assms l(1)
      by (auto simp: summarize_kill_switch_def mk_kill_switch_summary_def construct_eq_Inr bind_res_eq_Inr
          split: if_splits)
    then have "says e ''halted'' v" by (simp add: json_get_says)
    then have "(\<exists>u. says e ''halted'' u \<and> json_truthy u) \<longleftrightarrow> json_truthy v" using says_unique by blast
    then show ?thesis using Some l(2) d(3) by (intro exI [of _ l]) simp
  qed
qed

lemma reconciliation_newest:
  assumes "reconciliation_status es (Aware b) = Inr k"
  shows "\<exists>l. newest es RECONCILIATION_SNAPSHOT b l \<and> (k = RECON_NOT_AVAILABLE \<longleftrightarrow> l = None) \<and>
    (k = RECONCILED \<longleftrightarrow> (\<exists>e. l = Some e \<and> says e ''status'' (JStr ''MATCH'')))"
proof -
  obtain l where l: "latest_upto es RECONCILIATION_SNAPSHOT (Aware b) = Inr l"
    "newest es RECONCILIATION_SNAPSHOT b l" using latest_upto_newest by blast
  show ?thesis
  proof (cases l)
    case None
    then show ?thesis using assms l by (intro exI [of _ l]) (simp add: reconciliation_status_def)
  next
    case (Some e)
    then obtain data v where d: "payload e = Inr data" "json_get data ''status'' = Inr v"
      "k = (if v = JStr ''MATCH'' then RECONCILED else RECON_MISMATCH)"
      using assms l(1) by (auto simp: reconciliation_status_def bind_res_eq_Inr)
    then have "says e ''status'' v" by (simp add: json_get_says)
    then have "says e ''status'' (JStr ''MATCH'') \<longleftrightarrow> v = JStr ''MATCH''" using says_unique by blast
    then show ?thesis using Some l(2) d(3) by (intro exI [of _ l]) simp
  qed
qed

lemma position_newest:
  assumes "summarize_position cd es (Aware b) = Inr k"
  shows "\<exists>l. newest es POSITION_SNAPSHOT b l \<and> (pu_available k \<longleftrightarrow> l \<noteq> None) \<and>
    (\<forall>e. l = Some e \<longrightarrow> (\<exists>sid. pu_snapshot_id k = Some sid \<and> says e ''snapshot_id'' (JStr sid)))"
proof -
  obtain l where l: "latest_upto es POSITION_SNAPSHOT (Aware b) = Inr l"
    "newest es POSITION_SNAPSHOT b l" using latest_upto_newest by blast
  show ?thesis
  proof (cases l)
    case None
    then show ?thesis
      using assms l by (intro exI [of _ l]) (auto simp: summarize_position_def mk_position_summary_def construct_eq_Inr)
  next
    case (Some e)
    then obtain data v sid where d: "payload e = Inr data" "json_get data ''snapshot_id'' = Inr v"
      "strict_str_option ''snapshot_id'' v = Inr sid" "pu_available k" "pu_snapshot_id k = sid" "sid \<noteq> None"
      using assms l(1)
      by (fastforce simp: summarize_position_def mk_position_summary_def bind_res_eq_Inr construct_eq_Inr
          position_summary_guards_def)
    then have "says e ''snapshot_id'' v" by (simp add: json_get_says)
    then show ?thesis
      using Some l(2) d by (intro exI [of _ l])
        (auto simp: strict_str_option_def strict_str_def map_res_eq_Inr split: json.splits)
  qed
qed

lemma human_summary_says:
  assumes "human_required_summary_of cd e = Inr h"
  shows "says e ''resolved'' (JBool (hu_resolved h)) \<and> says e ''audit_artifact_id'' (JStr (hu_audit_artifact_id h))"
proof -
  obtain data r a where d: "payload e = Inr data" "json_get data ''resolved'' = Inr r" "json_get data ''audit_artifact_id'' = Inr a"
    "strict_bool ''resolved'' r = Inr (hu_resolved h)" "strict_str ''audit_artifact_id'' a = Inr (hu_audit_artifact_id h)"
    using assms by (auto simp: human_required_summary_of_def bind_res_eq_Inr construct_eq_Inr)
  moreover have "r = JBool (hu_resolved h)" "a = JStr (hu_audit_artifact_id h)"
    using d(4,5) by (cases r; simp add: strict_bool_def) (cases a; use d(5) in \<open>simp add: strict_str_def\<close>)
  ultimately show ?thesis by (simp add: json_get_says)
qed

lemma human_summaries_say:
  assumes "human_required_summaries cd es = Inr hs"
  shows "list_all2 (\<lambda>e h. says e ''resolved'' (JBool (hu_resolved h)) \<and>
    says e ''audit_artifact_id'' (JStr (hu_audit_artifact_id h))) es hs"
  using collect_res_Inr [OF assms [unfolded human_required_summaries_def]]
  by (rule list_all2_mono) (rule human_summary_says)

lemma map_res_construct: "map_res g (construct gs x) = construct gs (g x)"
  by (simp add: construct_def map_res_def split: option.splits)

lemma map_bind_res: "map_res g (bind_res r f) = bind_res r (\<lambda>x. map_res g (f x))"
  by (simp add: map_res_def bind_res_def split: sum.splits)

lemma load_events_rows: "load_events st = collect_res row_to_event (st_rows st)"
  by (simp add: load_events_def iter_events_def rows_of_type_def)

section \<open>A concrete store\<close>

definition report_row :: "int \<Rightarrow> record_type \<Rightarrow> int \<Rightarrow> string \<Rightarrow> stored_row" where
  "report_row seq rt us text =
     \<lparr>sr_seq = seq, sr_record_type = rt, sr_record_id = ''r'', sr_idempotency_key = None, sr_order_ticket_hash = None,
      sr_created_at = Aware (utc us), sr_recorded_at = Aware (utc us), sr_payload_json = text,
      sr_payload_sha256 = replicate 64 (CHR ''0'')\<rparr>"

definition report_store :: "stored_row list \<Rightarrow> audit_store" where
  "report_store extra =
     \<lparr>st_rows =
        [report_row 1 AUDIT_ARTIFACT 10
           ''{\"decision\": \"REJECT\", \"reason_codes\": [\"PRICE_STALE\", \"ENTRY_WINDOW_CLOSED\", \"PRICE_STALE\"]}'',
         report_row 2 EXECUTION_REPORT 20 ''{\"lifecycle_state\": \"FILLED\"}'',
         report_row 3 record_type.KILL_SWITCH_STATE 30
           ''{\"halted\": true, \"reason_code\": \"OPERATOR_HALT_COMMAND\", \"rearm_mode\": \"HUMAN_ONLY\", \"command_id\": \"h\"}''] @ extra,
      st_last_seq = 3\<rparr>"

lemma report_store_rows: "st_rows (report_store extra) = st_rows (report_store []) @ extra"
  by (simp add: report_store_def)

definition sample_report_request :: report_request where
  "sample_report_request =
     \<lparr>rq_identity = \<lparr>sy_commit_sha = ''c'', sy_config_hash = ''h'', sy_strategy_version = ''v'',
        sy_broker_mode = broker_mode.PAPER, sy_paper_trading = True\<rparr>,
      rq_report_id = ''d'', rq_report_date = ''1970-01-01'', rq_window_start = Aware (utc 0),
      rq_window_end = Aware (utc 100), rq_generated_at = Aware (utc 200)\<rparr>"

lemma sample_report_ok:
  obtains d where "build_daily_report sample_codec (report_store []) sample_report_request = Inr d"
proof -
  have "is_ok (build_daily_report sample_codec (report_store []) sample_report_request)" by code_simp
  then show ?thesis using that by (auto simp: is_ok_iff)
qed

section \<open>Properties\<close>



text \<open>C20. Reports are stable: events created after the end of the window, appended in any order
  behind the others, leave the risk report as it was and change nothing in the daily report but
  the total number of events.\<close>

theorem reports_ignore_later_events:
  assumes "load_events st = Inr es" and "load_events st' = Inr (es @ later)"
    and "rq_window_start q = Aware a" and "rq_window_end q = Aware b"
    and "\<forall>e\<in>set later. at_us b < at_us (se_created_at e)"
  shows "build_risk_report cd st' q = build_risk_report cd st q \<and>
    build_daily_report cd st' q =
      map_res (dr_total_audit_events_update (\<lambda>n. n + int (length later))) (build_daily_report cd st q)"
proof -
  note same = assms(1,2) windowed_later [OF assms(3-5)] summaries_later [OF assms(5)] assms(3,4)
  show ?thesis
  proof
    show "build_risk_report cd st' q = build_risk_report cd st q"
      by (simp add: build_risk_report_def same)
    show "build_daily_report cd st' q =
      map_res (dr_total_audit_events_update (\<lambda>n. n + int (length later))) (build_daily_report cd st q)"
      by (simp add: build_daily_report_def same map_bind_res mk_daily_report_def map_res_construct
          daily_report_guards_def)
  qed
qed


theorem reports_ignore_later_events_witness:
  "build_risk_report sample_codec (report_store [report_row 4 record_type.KILL_SWITCH_STATE 101 ''{\"halted\": false, \"command_id\": \"r\"}''])
       sample_report_request =
     build_risk_report sample_codec (report_store []) sample_report_request \<and>
   is_ok (build_risk_report sample_codec (report_store []) sample_report_request)"
proof -
  let ?row = "report_row 4 record_type.KILL_SWITCH_STATE 101 ''{\"halted\": false, \"command_id\": \"r\"}''"
  have "is_ok (load_events (report_store []))" "is_ok (row_to_event ?row)"
    "map_res (\<lambda>e. at_us (se_created_at e)) (row_to_event ?row) = Inr 101" by code_simp+
  then obtain es e where es: "load_events (report_store []) = Inr es" "row_to_event ?row = Inr e"
    "at_us (se_created_at e) = 101" by (auto simp: is_ok_iff)
  have "load_events (report_store [?row]) = Inr (es @ [e])"
    using es(1,2) by (simp add: load_events_rows report_store_rows [of "[?row]"] collect_res_append)
  moreover have "is_ok (build_risk_report sample_codec (report_store []) sample_report_request)" by code_simp
  ultimately show ?thesis
    using reports_ignore_later_events [OF es(1), of "report_store [?row]" "[e]" sample_report_request "utc 0" "utc 100"] es(3)
    by (simp add: sample_report_request_def utc_def)
qed

end
