(* ===== verification/Replay.thy ===== *)
theory Replay
  imports PaperCycle Strategies
begin

text \<open>
  Deterministic replay (\<open>replay/scenario.py\<close>, \<open>replay/results.py\<close>, \<open>replay/runner.py\<close>): a scenario
  runs through strategy, gateway, routing, submission, broker and report, and every step is
  appended to the audit store. A strategy is its \<open>generate\<close> method and a broker its
  \<open>submit_order\<close> method on the state \<open>'b\<close> of the surroundings, which may be shared by the scenarios
  of a suite. The typed fields of a scenario and of its safety inputs are the types of the model.
\<close>

section \<open>Outcomes and results\<close>

datatype replay_outcome =
    DATA_UNAVAILABLE | NO_CANDIDATE | GATEWAY_REJECTED | BROKER_REJECTED | BROKER_DISCONNECTED | BROKER_TIMEOUT
  | FILLED | PARTIAL_FILL | WORKING | REPORT_REJECTED

definition UNRESOLVED_OUTCOMES :: "replay_outcome set" where
  "UNRESOLVED_OUTCOMES =
     {BROKER_REJECTED, BROKER_DISCONNECTED, BROKER_TIMEOUT, PARTIAL_FILL, WORKING, REPORT_REJECTED}"

record replay_result =
  rr_scenario_id :: string
  rr_scenario_name :: string
  rr_outcome :: replay_outcome
  rr_expected_outcome :: replay_outcome
  rr_passed :: bool
  rr_is_failure_drill :: bool
  rr_generated_candidate_count :: int
  rr_candidate_rationale_id :: "string option"
  rr_gateway_evaluated :: bool
  rr_gateway_approved :: bool
  rr_reason_codes :: "reason_code list"
  rr_protection_hazard :: bool
  rr_order_type :: "order_type option"
  rr_route_mode :: "route_mode option"
  rr_submit_attempts :: int
  rr_idempotency_key :: "string option"
  rr_broker_order_id :: "string option"
  rr_lifecycle_state :: "order_lifecycle_state option"
  rr_requested_contracts :: "int option"
  rr_filled_contracts :: "int option"
  rr_avg_fill_price :: "decimal option"
  rr_unresolved :: bool
  rr_duplicate_created_second_order :: bool
  rr_store_deduped_resubmit :: bool
  rr_credit_captured :: "rat option"
  rr_slippage_cost :: "rat option"
  rr_realized_pnl :: "rat option"
  rr_pnl_supported :: bool
  rr_audit_record_ids :: "string list"
  rr_audit_event_seqs :: "int list"

record replay_run =
  ru_results :: "replay_result list"
  ru_scenarios_total :: int
  ru_scenarios_passed :: int
  ru_replay_scenarios_passed :: int
  ru_failure_drills_total :: int
  ru_failure_drills_passed :: int
  ru_cumulative_realized_pnl :: rat
  ru_max_drawdown :: rat

definition all_passed :: "replay_run \<Rightarrow> bool" where
  "all_passed r \<longleftrightarrow> ru_scenarios_passed r = ru_scenarios_total r"

section \<open>Scenarios\<close>

record fill_assumptions =
  fa_slippage_per_contract :: decimal
  fa_settlement_value_per_spread :: "decimal option"

definition scenario_error :: "string \<Rightarrow> py_error" where
  "scenario_error m = ValueError m"

definition mk_fill_assumptions :: "fill_assumptions \<Rightarrow> fill_assumptions res" where
  "mk_fill_assumptions f =
     require (\<not> dval (fa_slippage_per_contract f) < 0) (scenario_error ''slippage_per_contract must be >= 0'') (
     require (case fa_settlement_value_per_spread f of None \<Rightarrow> True | Some v \<Rightarrow> \<not> dval v < 0)
       (scenario_error ''settlement_value_per_spread must be >= 0 when set'') (Inr f))"

record replay_safety_inputs =
  si_account :: account_state
  si_heat :: portfolio_heat_check
  si_drawdown :: drawdown_halt_state
  si_instrument :: instrument
  si_spread_contract :: spread_contract_metadata
  si_underlying_policy :: allowed_underlying_policy
  si_data_snapshot :: broker_data_snapshot
  si_reconciliation :: price_reconciliation_check
  si_liquidity :: liquidity_gate
  si_execution_quality :: execution_quality_state
  si_concentration :: concentration_snapshot
  si_protection :: protection_state
  si_multi_leg :: multi_leg_plan
  si_strategy_stage :: strategy_stage_state
  si_feed_certification :: secondary_feed_certification
  si_event_calendar :: event_blackout_calendar

record 'b replay_scenario =
  sn_scenario_id :: string
  sn_name :: string
  sn_as_of :: datetime
  sn_generate :: "strategy_context \<Rightarrow> strategy_proposal list res"
  sn_fixture :: market_data_fixture
  sn_underlying :: underlying
  sn_direction :: spread_direction
  sn_short :: selected_leg
  sn_long :: selected_leg
  sn_contracts :: int
  sn_safety :: replay_safety_inputs
  sn_routing_state :: order_routing_state
  sn_submit :: "'b \<Rightarrow> broker_submit_intent \<Rightarrow> broker_fill res \<times> 'b"
  sn_limit_price :: decimal
  sn_fill_assumptions :: fill_assumptions
  sn_expected_outcome :: replay_outcome
  sn_submit_mode :: submit_mode
  sn_is_failure_drill :: bool
  sn_expect_protection_hazard :: bool
  sn_resubmit_attempts :: int

definition mk_replay_scenario :: "'b replay_scenario \<Rightarrow> 'b replay_scenario res" where
  "mk_replay_scenario sc =
     require (case sn_as_of sc of Aware _ \<Rightarrow> True | Naive _ \<Rightarrow> False)
       (scenario_error ''as_of must be timezone-aware (UTC)'') (
     require (sn_submit_mode sc = submit_mode.PAPER) (scenario_error ''replay submit_mode must be PAPER'') (
     require (\<not> sn_contracts sc < 1) (scenario_error ''contracts must be >= 1'') (
     require (\<not> dval (sn_limit_price sc) \<le> 0) (scenario_error ''limit_price must be > 0 for a LIMIT replay order'') (
     require (\<not> sn_resubmit_attempts sc < 0) (scenario_error ''resubmit_attempts must be >= 0'') (Inr sc)))))"

definition build_context :: "'b replay_scenario \<Rightarrow> strategy_context" where
  "build_context sc =
     \<lparr>cx_as_of = sn_as_of sc, cx_underlying = sn_underlying sc, cx_direction = sn_direction sc,
      cx_short = sn_short sc, cx_long = sn_long sc, cx_contracts = sn_contracts sc,
      cx_adapter = fixture_adapter (sn_fixture sc)\<rparr>"

section \<open>The runner\<close>

text \<open>The state: store and trail of the current scenario, and the surroundings of the brokers. The
  environment: codec, time of recording and the offset of the Chicago zone.\<close>

record 'b replay_state = audit_trail +
  rp_seqs :: "int list"
  rp_world :: 'b

record replay_env =
  re_codec :: codec
  re_recorded_at :: datetime
  re_ct_offset :: "int \<Rightarrow> int"

type_synonym ('b, 'a) replay_step = "('b replay_state, 'a) step"

definition note_event :: "stored_event res \<times> audit_store \<Rightarrow> ('b, unit) replay_step" where
  "note_event r = (\<lambda>s.
     case r of
       (Inl e, st) \<Rightarrow> (Inl e, s\<lparr>au_store := st\<rparr>)
     | (Inr ev, st) \<Rightarrow> (Inr (), s\<lparr>au_store := st, au_record_ids := au_record_ids s @ [se_record_id ev],
                               rp_seqs := rp_seqs s @ [se_seq ev]\<rparr>))"

definition audit_add :: "replay_env \<Rightarrow> hermes_model \<Rightarrow> datetime \<Rightarrow> ('b, unit) replay_step" where
  "audit_add v obj created_at = (\<lambda>s.
     note_event (append_event (re_codec v) (au_store s) obj created_at (re_recorded_at v) None) s)"

definition audit_add_submit_attempt :: "replay_env \<Rightarrow> broker_submit_intent \<Rightarrow> ('b, unit) replay_step" where
  "audit_add_submit_attempt v i = (\<lambda>s.
     note_event (record_submit_attempt (re_codec v) (au_store s) (Inst i) (re_recorded_at v)) s)"

definition replay_artifact ::
  "'b replay_scenario \<Rightarrow> string \<Rightarrow> string \<Rightarrow> reason_code list \<Rightarrow> string \<Rightarrow> audit_artifact res" where
  "replay_artifact sc suffix decision codes detail =
     new_artifact (''replay-'' @ sn_scenario_id sc @ ''-'' @ suffix) (sn_as_of sc) decision codes detail"

definition add_artifact ::
  "replay_env \<Rightarrow> 'b replay_scenario \<Rightarrow> string \<Rightarrow> string \<Rightarrow> reason_code list \<Rightarrow> string \<Rightarrow> ('b, unit) replay_step" where
  "add_artifact v sc suffix decision codes detail =
     bind_st (lift_res (replay_artifact sc suffix decision codes detail)) (\<lambda>art.
     audit_add v (AuditArtifact art) (sn_as_of sc))"

definition compute_pnl :: "int \<Rightarrow> decimal option \<Rightarrow> int \<Rightarrow> decimal \<Rightarrow> decimal option \<Rightarrow> rat \<times> rat \<times> rat option \<times> bool" where
  "compute_pnl filled price multiplier slippage settlement =
     (let priced = (case price of Some p \<Rightarrow> dval p | None \<Rightarrow> 0);
          credit_captured = dec_mul (dec_mul priced (of_int filled)) (of_int multiplier);
          slippage_cost = dec_mul (dec_mul (dval slippage) (of_int filled)) (of_int multiplier)
      in case settlement of
           None \<Rightarrow> (credit_captured, slippage_cost, None, False)
         | Some v \<Rightarrow>
             let gross = dec_mul (dec_mul (dec_sub priced (dval v)) (of_int filled)) (of_int multiplier)
             in (credit_captured, slippage_cost, Some (dec_sub gross slippage_cost), True))"

definition scenario_passed :: "'b replay_scenario \<Rightarrow> replay_outcome \<Rightarrow> bool \<Rightarrow> bool" where
  "scenario_passed sc outcome protection_hazard =
     (if outcome \<noteq> sn_expected_outcome sc then False
      else if sn_expect_protection_hazard sc \<and> \<not> protection_hazard then False
      else True)"

text \<open>\<open>_finalize\<close>: the defaults of its keyword arguments, then what the call site sets.\<close>

definition base_result :: "'b replay_scenario \<Rightarrow> replay_outcome \<Rightarrow> 'b replay_state \<Rightarrow> replay_result" where
  "base_result sc outcome s =
     \<lparr>rr_scenario_id = sn_scenario_id sc, rr_scenario_name = sn_name sc, rr_outcome = outcome,
      rr_expected_outcome = sn_expected_outcome sc, rr_passed = False,
      rr_is_failure_drill = sn_is_failure_drill sc, rr_generated_candidate_count = 0,
      rr_candidate_rationale_id = None, rr_gateway_evaluated = False, rr_gateway_approved = False,
      rr_reason_codes = [], rr_protection_hazard = False, rr_order_type = None, rr_route_mode = None,
      rr_submit_attempts = 0, rr_idempotency_key = None, rr_broker_order_id = None, rr_lifecycle_state = None,
      rr_requested_contracts = None, rr_filled_contracts = None, rr_avg_fill_price = None,
      rr_unresolved = outcome \<in> UNRESOLVED_OUTCOMES, rr_duplicate_created_second_order = False,
      rr_store_deduped_resubmit = False, rr_credit_captured = None, rr_slippage_cost = None,
      rr_realized_pnl = None, rr_pnl_supported = False, rr_audit_record_ids = au_record_ids s,
      rr_audit_event_seqs = rp_seqs s\<rparr>"

definition finalize ::
  "'b replay_scenario \<Rightarrow> replay_outcome \<Rightarrow> (replay_result \<Rightarrow> replay_result) \<Rightarrow> ('b, replay_result) replay_step" where
  "finalize sc outcome set_fields =
     gets_st (\<lambda>s. let r = set_fields (base_result sc outcome s) in
       r\<lparr>rr_passed := scenario_passed sc outcome (rr_protection_hazard r),
         rr_generated_candidate_count := (if rr_candidate_rationale_id r = None then 0 else 1)\<rparr>)"

definition evaluated :: "candidate_trade_intent \<Rightarrow> bool \<Rightarrow> reason_code list \<Rightarrow> replay_result \<Rightarrow> replay_result" where
  "evaluated candidate approved codes r =
     r\<lparr>rr_candidate_rationale_id := Some (ci_rationale_id candidate), rr_gateway_evaluated := True,
       rr_gateway_approved := approved, rr_reason_codes := codes\<rparr>"

definition submitted ::
  "'b replay_scenario \<Rightarrow> order_ticket \<Rightarrow> broker_submit_intent \<Rightarrow> int \<Rightarrow> int \<Rightarrow> replay_result \<Rightarrow> replay_result" where
  "submitted sc ticket intent made contracts r =
     r\<lparr>rr_order_type := Some (ot_order_type ticket), rr_route_mode := Some (rs_route_mode (sn_routing_state sc)),
       rr_submit_attempts := made, rr_idempotency_key := Some (bi_idempotency_key intent),
       rr_requested_contracts := Some contracts\<rparr>"

definition broker_outcome :: "broker_error \<Rightarrow> replay_outcome" where
  "broker_outcome e =
     (case be_kind e of
        BrokerDisconnectError \<Rightarrow> BROKER_DISCONNECTED
      | BrokerTimeoutError \<Rightarrow> BROKER_TIMEOUT
      | _ \<Rightarrow> BROKER_REJECTED)"

definition lifecycle_outcome :: "order_lifecycle_state \<Rightarrow> replay_outcome" where
  "lifecycle_outcome l =
     (case l of
        order_lifecycle_state.FILLED \<Rightarrow> FILLED
      | order_lifecycle_state.PARTIAL_FILL \<Rightarrow> PARTIAL_FILL
      | _ \<Rightarrow> WORKING)"

definition broker_call :: "'b replay_scenario \<Rightarrow> broker_submit_intent \<Rightarrow> ('b, broker_fill res) replay_step" where
  "broker_call sc intent = (\<lambda>s.
     case sn_submit sc (rp_world s) intent of (r, w) \<Rightarrow> (Inr r, s\<lparr>rp_world := w\<rparr>))"

definition add_broker_error ::
  "replay_env \<Rightarrow> 'b replay_scenario \<Rightarrow> string \<Rightarrow> broker_error \<Rightarrow> ('b, unit) replay_step" where
  "add_broker_error v sc tag e =
     bind_st (lift_res (bind_res (aware_of ''created_at'' (sn_as_of sc)) (audit_artifact_from_broker_error e
       (''replay-'' @ sn_scenario_id sc @ ''-'' @ tag @ ''broker-'' @ reason_code_value (be_reason_code e))))) (\<lambda>art.
     audit_add v (AuditArtifact art) (sn_as_of sc))"

definition is_value_error :: "py_error \<Rightarrow> bool" where
  "is_value_error e \<longleftrightarrow> (case e of ValueError _ \<Rightarrow> True | ValidationError _ \<Rightarrow> True | _ \<Rightarrow> False)"

definition is_value_or_type_error :: "py_error \<Rightarrow> bool" where
  "is_value_or_type_error e \<longleftrightarrow> is_value_error e \<or> (case e of TypeError _ \<Rightarrow> True | _ \<Rightarrow> False)"

definition is_duplicate_key :: "py_error \<Rightarrow> bool" where
  "is_duplicate_key e \<longleftrightarrow> (case e of StorageError k _ \<Rightarrow> k = DuplicateIdempotencyKeyError | _ \<Rightarrow> False)"

record resubmit_flags =
  rf_attempts :: int
  rf_second_order :: bool
  rf_deduped :: bool

fun resubmit_loop ::
  "replay_env \<Rightarrow> 'b replay_scenario \<Rightarrow> broker_submit_intent \<Rightarrow> string \<Rightarrow> nat \<Rightarrow> int \<Rightarrow> resubmit_flags
     \<Rightarrow> ('b, resubmit_flags) replay_step" where
  "resubmit_loop v sc intent first 0 i flags = return_st flags"
| "resubmit_loop v sc intent first (Suc n) i flags =
     (let flags' = flags\<lparr>rf_attempts := rf_attempts flags + 1\<rparr> in
      bind_st (broker_call sc intent) (\<lambda>outcome.
      case outcome of
        Inl (BrokerError e) \<Rightarrow>
          then_st (add_broker_error v sc (''resubmit-'' @ int_str i @ ''-'') e)
            (resubmit_loop v sc intent first n (i + 1) flags')
      | Inl e \<Rightarrow> raise_st e
      | Inr fill \<Rightarrow>
          bind_st (try_st is_duplicate_key (audit_add_submit_attempt v intent)) (\<lambda>r.
          resubmit_loop v sc intent first n (i + 1)
            (flags'\<lparr>rf_second_order := rf_second_order flags \<or> bo_value (bf_broker_order_id fill) \<noteq> first,
                 rf_deduped := rf_deduped flags \<or> \<not> is_ok r\<rparr>))))"

definition assemble_request :: "'b replay_scenario \<Rightarrow> candidate_trade_intent \<Rightarrow> gateway_request res" where
  "assemble_request sc candidate =
     bind_res (aware_of ''as_of'' (sn_as_of sc)) (\<lambda>t.
     let f = sn_safety sc in
     mk_gateway_request
       \<lparr>gr_candidate = candidate, gr_as_of = t, gr_account = si_account f, gr_heat = si_heat f,
        gr_drawdown = si_drawdown f, gr_instrument = si_instrument f, gr_spread_contract = si_spread_contract f,
        gr_underlying_policy = si_underlying_policy f, gr_data_snapshot = si_data_snapshot f,
        gr_reconciliation = si_reconciliation f, gr_liquidity = si_liquidity f,
        gr_execution_quality = si_execution_quality f, gr_concentration = si_concentration f,
        gr_protection = si_protection f, gr_multi_leg = si_multi_leg f, gr_strategy_stage = si_strategy_stage f,
        gr_feed_certification = si_feed_certification f, gr_event_calendar = si_event_calendar f\<rparr>)"

definition HAZARD_CODES :: "reason_code list" where
  "HAZARD_CODES = [PROTECTION_HIERARCHY_VIOLATION, BROKEN_SPREAD_STATE]"

text \<open>Steps 5 to 7: broker call, execution report and the duplicate-submit drill.\<close>

definition filled_step ::
  "replay_env \<Rightarrow> 'b replay_scenario \<Rightarrow> candidate_trade_intent \<Rightarrow> order_ticket \<Rightarrow> broker_submit_intent \<Rightarrow> broker_fill
     \<Rightarrow> ('b, replay_result) replay_step" where
  "filled_step v sc candidate ticket intent fill =
     (let first = bo_value (bf_broker_order_id fill) in
      bind_st (resubmit_loop v sc intent first (nat (sn_resubmit_attempts sc)) 0
        \<lparr>rf_attempts = 1, rf_second_order = False, rf_deduped = False\<rparr>) (\<lambda>flags.
      case compute_pnl (bf_filled_contracts fill) (bf_avg_fill_price fill) (ci_multiplier candidate)
          (fa_slippage_per_contract (sn_fill_assumptions sc))
          (fa_settlement_value_per_spread (sn_fill_assumptions sc)) of
        (credit, slippage_cost, realized_pnl, pnl_supported) \<Rightarrow>
          finalize sc (lifecycle_outcome (bf_lifecycle_state fill)) (\<lambda>r.
            (submitted sc ticket intent (rf_attempts flags) (bf_requested_contracts fill) (evaluated candidate True [] r))
              \<lparr>rr_broker_order_id := Some first, rr_lifecycle_state := Some (bf_lifecycle_state fill),
               rr_filled_contracts := Some (bf_filled_contracts fill), rr_avg_fill_price := bf_avg_fill_price fill,
               rr_duplicate_created_second_order := rf_second_order flags, rr_store_deduped_resubmit := rf_deduped flags,
               rr_credit_captured := Some credit, rr_slippage_cost := Some slippage_cost,
               rr_realized_pnl := realized_pnl, rr_pnl_supported := pnl_supported\<rparr>)))"

definition report_fill_step ::
  "replay_env \<Rightarrow> 'b replay_scenario \<Rightarrow> candidate_trade_intent \<Rightarrow> order_ticket \<Rightarrow> broker_submit_intent \<Rightarrow> broker_fill
     \<Rightarrow> ('b, replay_result) replay_step" where
  "report_fill_step v sc candidate ticket intent fill =
     bind_st (try_st is_value_or_type_error (lift_res (mint_execution_report (Inst intent)
        (Inst (bf_broker_order_id fill)) (bf_lifecycle_state fill) (bf_filled_contracts fill) (bf_avg_fill_price fill)
        (map_option Aware (bf_fill_timestamp fill)) (map_option Aware (bf_completed_at fill))))) (\<lambda>report.
     case report of
       Inl e \<Rightarrow>
         then_st (add_artifact v sc ''execution-report'' ''REJECT'' [INTERNAL_CONTRADICTION]
             ''execution report mint failed closed'')
           (finalize sc REPORT_REJECTED (\<lambda>r.
              (submitted sc ticket intent 1 (sl_contracts (ci_short_leg candidate))
                 (evaluated candidate True [INTERNAL_CONTRADICTION] r))
                \<lparr>rr_broker_order_id := Some (bo_value (bf_broker_order_id fill))\<rparr>))
     | Inr rep \<Rightarrow>
         then_st (audit_add v (ExecutionReport rep) (sn_as_of sc)) (filled_step v sc candidate ticket intent fill))"

definition submit_intent_step ::
  "replay_env \<Rightarrow> 'b replay_scenario \<Rightarrow> candidate_trade_intent \<Rightarrow> order_ticket \<Rightarrow> broker_submit_intent
     \<Rightarrow> ('b, replay_result) replay_step" where
  "submit_intent_step v sc candidate ticket intent =
     then_st (audit_add_submit_attempt v intent) (
     bind_st (broker_call sc intent) (\<lambda>outcome.
     case outcome of
       Inl (BrokerError e) \<Rightarrow>
         then_st (add_broker_error v sc [] e)
           (finalize sc (broker_outcome e) (\<lambda>r.
              submitted sc ticket intent 1 (sl_contracts (ci_short_leg candidate))
                (evaluated candidate True [be_reason_code e] r)))
     | Inl e \<Rightarrow> raise_st e
     | Inr fill \<Rightarrow> report_fill_step v sc candidate ticket intent fill))"

text \<open>Steps 3 and 4: routing, ticket and submit intent, in one \<open>try\<close>.\<close>

definition route_and_mint ::
  "replay_env \<Rightarrow> 'b replay_scenario \<Rightarrow> gateway_request \<Rightarrow> validated_trade_intent
     \<Rightarrow> ('b, order_ticket \<times> broker_submit_intent) replay_step" where
  "route_and_mint v sc request validated =
     bind_st (lift_res (mint_order_ticket (gr_as_of request) (Inst validated) (sn_routing_state sc)
        (Some (sn_as_of sc)))) (\<lambda>ticket.
     then_st (audit_add v (OrderTicket ticket) (Aware (ot_created_at ticket))) (
     bind_st (lift_res (mint_broker_submit_intent (gr_as_of request) (dump_ticket (re_codec v)) (Inst ticket) 1
        (sn_submit_mode sc) (Some (sn_limit_price sc)) (Some (sn_as_of sc)))) (\<lambda>intent.
     return_st (ticket, intent))))"

definition approved_step ::
  "replay_env \<Rightarrow> 'b replay_scenario \<Rightarrow> candidate_trade_intent \<Rightarrow> gateway_request \<Rightarrow> validated_trade_intent
     \<Rightarrow> ('b, replay_result) replay_step" where
  "approved_step v sc candidate request validated =
     then_st (audit_add v (ValidatedTradeIntent validated) (sn_as_of sc)) (
     bind_st (try_st is_value_or_type_error (route_and_mint v sc request validated)) (\<lambda>minted.
     case minted of
       Inl e \<Rightarrow>
         then_st (add_artifact v sc ''route-or-submit-mint'' ''REJECT'' [INTERNAL_CONTRADICTION]
             ''routing/submit-intent mint failed closed'')
           (finalize sc GATEWAY_REJECTED (evaluated candidate True [INTERNAL_CONTRADICTION]))
     | Inr (ticket, intent) \<Rightarrow> submit_intent_step v sc candidate ticket intent))"

text \<open>Step 2: the gateway.\<close>

definition gateway_step ::
  "replay_env \<Rightarrow> 'b replay_scenario \<Rightarrow> candidate_trade_intent \<Rightarrow> gateway_request \<Rightarrow> ('b, replay_result) replay_step" where
  "gateway_step v sc candidate request =
     then_st (audit_add v (GatewayRequest request) (sn_as_of sc)) (
     bind_st (lift_res (validate (re_ct_offset v) (dump_request (re_codec v)) request)) (\<lambda>decision.
     if \<not> is_approved decision then
       (case gd_rejection decision of
          None \<Rightarrow> raise_st (AssertionError ''rejection is not None'')
        | Some rejection \<Rightarrow>
            then_st (audit_add v (AuditArtifact rejection) (Aware (aa_created_at rejection)))
              (finalize sc GATEWAY_REJECTED (\<lambda>r.
                 (evaluated candidate False (gd_reason_codes decision) r)
                   \<lparr>rr_protection_hazard := list_ex (\<lambda>c. c \<in> set HAZARD_CODES) (gd_reason_codes decision)\<rparr>)))
     else
       (case gd_approved decision of
          None \<Rightarrow> raise_st (AssertionError ''validated is not None'')
        | Some validated \<Rightarrow> approved_step v sc candidate request validated)))"

definition candidate_step ::
  "replay_env \<Rightarrow> 'b replay_scenario \<Rightarrow> candidate_trade_intent \<Rightarrow> ('b, replay_result) replay_step" where
  "candidate_step v sc candidate =
     bind_st (try_st is_value_error (lift_res (assemble_request sc candidate))) (\<lambda>assembled.
     case assembled of
       Inl e \<Rightarrow>
         then_st (add_artifact v sc ''gateway-assembly'' ''REJECT'' [INTERNAL_CONTRADICTION]
             ''gateway request could not be assembled'')
           (finalize sc GATEWAY_REJECTED (evaluated candidate False [INTERNAL_CONTRADICTION]))
     | Inr request \<Rightarrow> gateway_step v sc candidate request)"

text \<open>Step 1: the strategy; only missing data is caught.\<close>

definition is_data_unavailable :: "py_error \<Rightarrow> bool" where
  "is_data_unavailable e \<longleftrightarrow> (case e of MarketDataError cls _ \<Rightarrow> cls = ''MarketDataUnavailableError'' | _ \<Rightarrow> False)"

definition scenario_step :: "replay_env \<Rightarrow> 'b replay_scenario \<Rightarrow> ('b, replay_result) replay_step" where
  "scenario_step v sc =
     bind_st (try_st is_data_unavailable (lift_res (sn_generate sc (build_context sc)))) (\<lambda>generated.
     case generated of
       Inl e \<Rightarrow>
         then_st (add_artifact v sc ''data-unavailable'' ''NO_TRADE'' [] ''strategy failed closed on missing market data'')
           (finalize sc DATA_UNAVAILABLE id)
     | Inr proposals \<Rightarrow>
         (case proposals of
            [] \<Rightarrow>
              then_st (add_artifact v sc ''no-candidate'' ''NO_TRADE'' []
                  ''strategy produced no candidate (entry window / IVR / DTE filter)'')
                (finalize sc NO_CANDIDATE id)
          | p # ps \<Rightarrow> candidate_step v sc (pp_candidate p)))"

definition run_scenario :: "replay_env \<Rightarrow> 'b replay_scenario \<Rightarrow> ('b, replay_result) replay_step" where
  "run_scenario v sc =
     then_st (modify_st (\<lambda>s. s\<lparr>au_record_ids := [], rp_seqs := []\<rparr>)) (scenario_step v sc)"

section \<open>Suites\<close>

fun run_all :: "replay_env \<Rightarrow> 'b replay_scenario list \<Rightarrow> ('b, replay_result list) replay_step" where
  "run_all v [] = return_st []"
| "run_all v (sc # scs) =
     bind_st (run_scenario v sc) (\<lambda>r. bind_st (run_all v scs) (\<lambda>rs. return_st (r # rs)))"

record equity =
  eq_cumulative :: rat
  eq_peak :: rat
  eq_max_drawdown :: rat

definition equity_add :: "equity \<Rightarrow> replay_result \<Rightarrow> equity" where
  "equity_add e r =
     (case rr_realized_pnl r of
        Some p \<Rightarrow>
          if rr_pnl_supported r then
            let c = dec_add (eq_cumulative e) p; k = max (eq_peak e) c
            in \<lparr>eq_cumulative = c, eq_peak = k, eq_max_drawdown = max (eq_max_drawdown e) (dec_sub k c)\<rparr>
          else e
      | None \<Rightarrow> e)"

definition summarize_run :: "replay_result list \<Rightarrow> replay_run" where
  "summarize_run results =
     (let e = foldl equity_add \<lparr>eq_cumulative = 0, eq_peak = 0, eq_max_drawdown = 0\<rparr> results;
          number = (\<lambda>P. int (length (filter P results)))
      in \<lparr>ru_results = results, ru_scenarios_total = int (length results), ru_scenarios_passed = number rr_passed,
          ru_replay_scenarios_passed = number (\<lambda>r. rr_passed r \<and> \<not> rr_is_failure_drill r),
          ru_failure_drills_total = number rr_is_failure_drill,
          ru_failure_drills_passed = number (\<lambda>r. rr_is_failure_drill r \<and> rr_passed r),
          ru_cumulative_realized_pnl = eq_cumulative e, ru_max_drawdown = eq_max_drawdown e\<rparr>)"

definition run_scenarios :: "replay_env \<Rightarrow> 'b replay_scenario list \<Rightarrow> ('b, replay_run) replay_step" where
  "run_scenarios v scs = bind_st (run_all v scs) (\<lambda>rs. return_st (summarize_run rs))"

end
