(* ===== verification/ReplaySafety.thy ===== *)
theory ReplaySafety
  imports Replay Pipeline
begin

text \<open>
  What replay guarantees: brokers only ever see intents whose attempt is in the store, the trail of
  a result is exactly what the scenario appended, a result is coherent with its outcome, a retry
  with the same key never opens a second order at a broker that answers retries with the recorded
  fill, and the drawdown of a suite is the largest fall of its equity curve. A scenario is not
  repeatable on the same store: the attempt of its decision is already there.
\<close>

section \<open>Brokers learn recorded keys only\<close>

text \<open>\<open>known w\<close>: the keys the surroundings \<open>w\<close> of the brokers hold; \<open>K\<close>: keys a step may hand
  over although it does not record them itself.\<close>

definition replay_rel :: "('b \<Rightarrow> string set) \<Rightarrow> string set \<Rightarrow> 'b replay_state \<Rightarrow> 'b replay_state \<Rightarrow> bool" where
  "replay_rel known K s t \<longleftrightarrow>
     (\<exists>rs. st_rows (au_store t) = st_rows (au_store s) @ rs \<and>
        known (rp_world t) \<subseteq> known (rp_world s) \<union> K \<union> {k. Some k \<in> sr_idempotency_key ` set rs})"

interpretation replay: step_relation "replay_rel known K" for known K
proof
  show "replay_rel known K s s" for s by (simp add: replay_rel_def)
  show "replay_rel known K s u" if st: "replay_rel known K s t" and tu: "replay_rel known K t u" for s t u
  proof -
    obtain rs where "st_rows (au_store t) = st_rows (au_store s) @ rs"
      "known (rp_world t) \<subseteq> known (rp_world s) \<union> K \<union> {k. Some k \<in> sr_idempotency_key ` set rs}"
      using st unfolding replay_rel_def by (elim exE conjE)
    moreover obtain rs' where "st_rows (au_store u) = st_rows (au_store t) @ rs'"
      "known (rp_world u) \<subseteq> known (rp_world t) \<union> K \<union> {k. Some k \<in> sr_idempotency_key ` set rs'}"
      using tu unfolding replay_rel_def by (elim exE conjE)
    ultimately show ?thesis unfolding replay_rel_def by (intro exI [of _ "rs @ rs'"]) auto
  qed
qed

lemma note_event_store: "au_store (snd (note_event r s)) = snd r" "rp_world (snd (note_event r s)) = rp_world s"
  by (auto simp: note_event_def split: prod.splits sum.splits)

lemma keeps_note:
  assumes "\<And>s. \<exists>rs. st_rows (snd (f s)) = st_rows (au_store s) @ rs"
  shows "keeps (replay_rel known K) (\<lambda>s. note_event (f s) s)"
  using assms by (auto simp: keeps_def replay_rel_def note_event_store)

lemma keeps_audit_add: "keeps (replay_rel known K) (audit_add v obj c)"
  unfolding audit_add_def by (rule keeps_note) (rule append_extends)

lemma keeps_attempt: "keeps (replay_rel known K) (audit_add_submit_attempt v i)"
  unfolding audit_add_submit_attempt_def record_submit_attempt_def
  by (rule keeps_note) (simp add: append_extends)

lemma keeps_finalize: "keeps (replay_rel known K) (finalize sc outcome f)"
  unfolding finalize_def by (rule replay.keeps_pure)

lemma keeps_artifacts:
  "keeps (replay_rel known K) (add_artifact v sc suffix decision codes detail)"
  "keeps (replay_rel known K) (add_broker_error v sc tag e)"
  unfolding add_artifact_def add_broker_error_def by (intro replay.keeps_rules keeps_audit_add)+

lemmas replay_keeps = replay.keeps_rules keeps_audit_add keeps_attempt keeps_finalize keeps_artifacts

text \<open>What is assumed of a broker: a call teaches it at most the key of its intent.\<close>

definition learns_own_key :: "('b \<Rightarrow> string set) \<Rightarrow> 'b replay_scenario \<Rightarrow> bool" where
  "learns_own_key known sc \<longleftrightarrow>
     (\<forall>w i. known (snd (sn_submit sc w i)) \<subseteq> insert (bi_idempotency_key i) (known w))"

lemma keeps_broker_call:
  fixes sc :: "'b replay_scenario"
  assumes "learns_own_key known sc"
  shows "keeps (replay_rel known {bi_idempotency_key i}) (broker_call sc i)"
  unfolding keeps_def replay_rel_def
proof
  fix s :: "'b replay_state"
  have "known (snd (sn_submit sc (rp_world s) i)) \<subseteq> insert (bi_idempotency_key i) (known (rp_world s))"
    using assms by (simp add: learns_own_key_def)
  then show "\<exists>rs. st_rows (au_store (snd (broker_call sc i s))) = st_rows (au_store s) @ rs \<and>
      known (rp_world (snd (broker_call sc i s))) \<subseteq> known (rp_world s) \<union> {bi_idempotency_key i} \<union>
        {k. Some k \<in> sr_idempotency_key ` set rs}"
    by (intro exI [of _ "[]"]) (auto simp: broker_call_def split: prod.splits)
qed

lemma keeps_py_error:
  "(\<And>b. e = BrokerError b \<Longrightarrow> keeps R (f b)) \<Longrightarrow> (\<And>e'. keeps R (g e')) \<Longrightarrow>
     keeps R (case e of BrokerError b \<Rightarrow> f b | _ \<Rightarrow> g e)"
  by (cases e) simp_all

lemma keeps_resubmit:
  assumes "learns_own_key known sc"
  shows "keeps (replay_rel known {bi_idempotency_key i}) (resubmit_loop v sc i first n j flags)"
  by (induction n arbitrary: j flags)
    (auto simp: Let_def intro!: replay_keeps keeps_broker_call [OF assms] split: py_error.splits)

lemma keeps_report_fill:
  assumes "learns_own_key known sc"
  shows "keeps (replay_rel known {bi_idempotency_key i}) (report_fill_step v sc c ticket i fill)"
  unfolding report_fill_step_def filled_step_def Let_def
  by (intro replay_keeps keeps_resubmit [OF assms]) (simp add: keeps_finalize split: prod.splits)

lemma recorded_attempt:
  assumes "audit_add_submit_attempt v i s = (Inr u, t)"
  obtains row where "st_rows (au_store t) = st_rows (au_store s) @ [row]"
    and "sr_idempotency_key row = Some (bi_idempotency_key i)" and "rp_world t = rp_world s"
    and "assert_no_secrets (cd_dump (re_codec v) (BrokerSubmitIntent i)) = Inr ()"
proof -
  let ?st = "record_submit_attempt (re_codec v) (au_store s) (Inst i) (re_recorded_at v)"
  have ok: "is_ok (fst ?st)" and t: "au_store t = snd ?st" "rp_world t = rp_world s"
    using assms note_event_store [of ?st s]
    by (auto simp: audit_add_submit_attempt_def note_event_def split: prod.splits sum.splits)
  show ?thesis
  proof (cases "storable (re_codec v) (au_store s) (BrokerSubmitIntent i) (Some (bi_idempotency_key i))")
    case True
    show ?thesis
      using that [OF _ _ t(2)] t(1) append_storable [OF True] True
      by (auto simp: record_submit_attempt_def added_row_def storable_def)
  next
    case False
    then show ?thesis
      using ok append_not_storable [OF False, of "Aware (bi_submitted_at i)" "re_recorded_at v"]
      by (auto simp: record_submit_attempt_def)
  qed
qed

text \<open>What follows the recording of the attempt.\<close>

definition after_attempt ::
  "replay_env \<Rightarrow> 'b replay_scenario \<Rightarrow> candidate_trade_intent \<Rightarrow> order_ticket \<Rightarrow> broker_submit_intent
     \<Rightarrow> ('b, replay_result) replay_step" where
  "after_attempt v sc c ticket i = bind_st (broker_call sc i) (\<lambda>outcome.
     case outcome of
       Inl (BrokerError e) \<Rightarrow>
         then_st (add_broker_error v sc [] e)
           (finalize sc (broker_outcome e) (\<lambda>r.
              submitted sc ticket i 1 (sl_contracts (ci_short_leg c)) (evaluated c True [be_reason_code e] r)))
     | Inl e \<Rightarrow> raise_st e
     | Inr fill \<Rightarrow> report_fill_step v sc c ticket i fill)"

lemma submit_intent_split:
  "submit_intent_step v sc c ticket i = then_st (audit_add_submit_attempt v i) (after_attempt v sc c ticket i)"
  by (simp add: submit_intent_step_def after_attempt_def)

lemma keeps_after_attempt:
  assumes "learns_own_key known sc"
  shows "keeps (replay_rel known {bi_idempotency_key i}) (after_attempt v sc c ticket i)"
  unfolding after_attempt_def
  by (intro replay_keeps keeps_broker_call [OF assms] keeps_report_fill [OF assms])
    (auto split: py_error.splits intro!: replay_keeps)

text \<open>Afterwards the key is recorded, whatever the broker did.\<close>

lemma attempt_recorded_after:
  assumes "submit_intent_step v sc c ticket i s = (Inr r, t)"
  shows "Some (bi_idempotency_key i) \<in> attempts (au_store t)"
    and "assert_no_secrets (cd_dump (re_codec v) (BrokerSubmitIntent i)) = Inr ()"
proof -
  obtain u s' where s': "audit_add_submit_attempt v i s = (Inr u, s')" and t: "after_attempt v sc c ticket i s' = (Inr r, t)"
    using assms by (auto simp: submit_intent_split then_st_eq_Inr)
  obtain row where row: "st_rows (au_store s') = st_rows (au_store s) @ [row]"
    "sr_idempotency_key row = Some (bi_idempotency_key i)"
    and clean: "assert_no_secrets (cd_dump (re_codec v) (BrokerSubmitIntent i)) = Inr ()"
    by (rule recorded_attempt [OF s'])
  have "learns_own_key (\<lambda>_. {}) sc" by (simp add: learns_own_key_def)
  from keeps_after_attempt [OF this, of i v c ticket] have "\<exists>rs. st_rows (au_store t) = st_rows (au_store s') @ rs"
    unfolding keeps_def replay_rel_def using t by (metis snd_conv)
  then show "Some (bi_idempotency_key i) \<in> attempts (au_store t)"
    using row by (force simp: attempts_def)
  show "assert_no_secrets (cd_dump (re_codec v) (BrokerSubmitIntent i)) = Inr ()" by (rule clean)
qed

lemma keeps_submit_intent:
  assumes "learns_own_key known sc"
  shows "keeps (replay_rel known {}) (submit_intent_step v sc c ticket i)"
  unfolding keeps_def
proof
  fix s
  let ?A = "audit_add_submit_attempt v i" and ?B = "after_attempt v sc c ticket i"
  have A: "replay_rel known {} s (snd (?A s))" by (rule keeps_attempt [unfolded keeps_def, rule_format])
  show "replay_rel known {} s (snd (submit_intent_step v sc c ticket i s))"
  proof (cases "?A s")
    case (Pair r t)
    show ?thesis
    proof (cases r)
      case (Inl e)
      then show ?thesis using A by (simp add: submit_intent_split then_st_def bind_st_def Pair)
    next
      case (Inr u)
      then obtain row where row: "st_rows (au_store t) = st_rows (au_store s) @ [row]"
        "sr_idempotency_key row = Some (bi_idempotency_key i)" "rp_world t = rp_world s"
        using recorded_attempt Pair by metis
      have "replay_rel known {bi_idempotency_key i} t (snd (?B t))"
        using keeps_after_attempt [OF assms] by (simp add: keeps_def)
      then obtain rs where "st_rows (au_store (snd (?B t))) = st_rows (au_store t) @ rs"
        "known (rp_world (snd (?B t))) \<subseteq> known (rp_world t) \<union> {bi_idempotency_key i} \<union> {k. Some k \<in> sr_idempotency_key ` set rs}"
        by (auto simp: replay_rel_def)
      then have "replay_rel known {} s (snd (?B t))"
        unfolding replay_rel_def using row by (intro exI [of _ "row # rs"]) auto
      then show ?thesis by (simp add: submit_intent_split then_st_def bind_st_def Pair Inr)
    qed
  qed
qed

lemma keeps_run_scenario:
  assumes "learns_own_key known sc"
  shows "keeps (replay_rel known {}) (run_scenario v sc)"
proof -
  have reset: "keeps (replay_rel known {}) (modify_st (\<lambda>s. s\<lparr>au_record_ids := [], rp_seqs := []\<rparr>))"
    by (rule replay.keeps_modify) (simp add: replay_rel_def)
  show ?thesis
    unfolding run_scenario_def scenario_step_def candidate_step_def gateway_step_def approved_step_def route_and_mint_def
    by (intro replay_keeps reset)
      (auto split: list.splits prod.splits intro!: replay_keeps keeps_submit_intent [OF assms])
qed

lemma keeps_run_all:
  assumes "\<forall>sc\<in>set scs. learns_own_key known sc"
  shows "keeps (replay_rel known {}) (run_all v scs)"
  using assms by (induction scs) (auto intro!: replay_keeps keeps_run_scenario)

section \<open>What a returned result satisfies\<close>

lemma yields_finalize:
  "(\<And>s. P s \<Longrightarrow> Q (projr (fst (finalize sc outcome f s))) s) \<Longrightarrow> yields P (finalize sc outcome f) Q"
  by (simp add: yields_def finalize_def)

text \<open>How the fields of a result agree with the scenario and with its outcome.\<close>

definition coherent_outcome :: "'b replay_scenario \<Rightarrow> replay_result \<Rightarrow> bool" where
  "coherent_outcome sc r \<longleftrightarrow>
     (let placed = {FILLED, PARTIAL_FILL, WORKING};
          refused = {BROKER_REJECTED, BROKER_DISCONNECTED, BROKER_TIMEOUT, REPORT_REJECTED};
          idle = {DATA_UNAVAILABLE, NO_CANDIDATE} in
      rr_scenario_id r = sn_scenario_id sc \<and> rr_scenario_name r = sn_name sc \<and>
      rr_expected_outcome r = sn_expected_outcome sc \<and> rr_is_failure_drill r = sn_is_failure_drill sc \<and>
      (rr_passed r \<longleftrightarrow> rr_outcome r = sn_expected_outcome sc \<and> (sn_expect_protection_hazard sc \<longrightarrow> rr_protection_hazard r)) \<and>
      (rr_unresolved r \<longleftrightarrow> rr_outcome r \<in> refused \<union> (placed - {FILLED})) \<and>
      (rr_submit_attempts r = (if rr_outcome r \<in> placed then 1 + max 0 (sn_resubmit_attempts sc)
         else if rr_outcome r \<in> refused then 1 else 0)) \<and>
      (rr_idempotency_key r \<noteq> None \<longleftrightarrow> rr_outcome r \<in> placed \<union> refused) \<and>
      (rr_order_type r \<noteq> None \<longleftrightarrow> rr_outcome r \<in> placed \<union> refused) \<and>
      (rr_route_mode r \<noteq> None \<longleftrightarrow> rr_outcome r \<in> placed \<union> refused) \<and>
      (rr_requested_contracts r \<noteq> None \<longleftrightarrow> rr_outcome r \<in> placed \<union> refused) \<and>
      (rr_broker_order_id r \<noteq> None \<longleftrightarrow> rr_outcome r \<in> insert REPORT_REJECTED placed) \<and>
      (rr_lifecycle_state r \<noteq> None \<longleftrightarrow> rr_outcome r \<in> placed) \<and>
      (rr_filled_contracts r \<noteq> None \<longleftrightarrow> rr_outcome r \<in> placed) \<and>
      (rr_avg_fill_price r \<noteq> None \<longrightarrow> rr_outcome r \<in> placed) \<and>
      (rr_credit_captured r \<noteq> None \<longleftrightarrow> rr_outcome r \<in> placed) \<and>
      (rr_slippage_cost r \<noteq> None \<longleftrightarrow> rr_outcome r \<in> placed) \<and>
      (rr_outcome r = FILLED \<longleftrightarrow> rr_lifecycle_state r = Some order_lifecycle_state.FILLED) \<and>
      (rr_outcome r = PARTIAL_FILL \<longleftrightarrow> rr_lifecycle_state r = Some order_lifecycle_state.PARTIAL_FILL) \<and>
      (rr_duplicate_created_second_order r \<or> rr_store_deduped_resubmit r \<longrightarrow>
         rr_outcome r \<in> placed \<and> 0 < sn_resubmit_attempts sc) \<and>
      (rr_outcome r \<in> placed \<union> refused \<longrightarrow> rr_gateway_approved r) \<and>
      (rr_generated_candidate_count r = (if rr_outcome r \<in> idle then 0 else 1)) \<and>
      (rr_candidate_rationale_id r = None \<longleftrightarrow> rr_outcome r \<in> idle) \<and>
      (rr_gateway_evaluated r \<longleftrightarrow> rr_outcome r \<notin> idle) \<and>
      (rr_reason_codes r = [] \<longleftrightarrow> rr_outcome r \<in> placed \<union> idle) \<and>
      (rr_protection_hazard r \<longrightarrow> rr_outcome r = GATEWAY_REJECTED \<and> \<not> rr_gateway_approved r \<and>
         (\<exists>c\<in>set (rr_reason_codes r). c \<in> set HAZARD_CODES)) \<and>
      (rr_pnl_supported r \<longleftrightarrow> rr_realized_pnl r \<noteq> None) \<and>
      (rr_realized_pnl r \<noteq> None \<longleftrightarrow> rr_outcome r \<in> placed \<and>
         fa_settlement_value_per_spread (sn_fill_assumptions sc) \<noteq> None))"

text \<open>How they agree with what the broker answered to the intent: the outcome of each kind of error,
  or the fields of the fill, with the credit, the slippage and the profit it amounts to.\<close>

definition follows_answer ::
  "'b replay_scenario \<Rightarrow> candidate_trade_intent \<Rightarrow> broker_submit_intent \<Rightarrow> broker_fill res \<Rightarrow> replay_result \<Rightarrow> bool" where
  "follows_answer sc c i answer r \<longleftrightarrow>
     (case answer of
        Inl (BrokerError e) \<Rightarrow>
          rr_outcome r = (if be_kind e = BrokerDisconnectError then BROKER_DISCONNECTED
            else if be_kind e = BrokerTimeoutError then BROKER_TIMEOUT else BROKER_REJECTED) \<and>
          rr_reason_codes r = [be_reason_code e] \<and> rr_requested_contracts r = Some (sl_contracts (ci_short_leg c))
      | Inl _ \<Rightarrow> False
      | Inr fill \<Rightarrow>
          rr_broker_order_id r = Some (bo_value (bf_broker_order_id fill)) \<and>
          (case mint_execution_report (Inst i) (Inst (bf_broker_order_id fill)) (bf_lifecycle_state fill)
              (bf_filled_contracts fill) (bf_avg_fill_price fill) (map_option Aware (bf_fill_timestamp fill))
              (map_option Aware (bf_completed_at fill)) of
             Inl _ \<Rightarrow> rr_outcome r = REPORT_REJECTED \<and> rr_reason_codes r = [INTERNAL_CONTRADICTION] \<and>
               rr_requested_contracts r = Some (sl_contracts (ci_short_leg c))
           | Inr _ \<Rightarrow>
               rr_outcome r = (if bf_lifecycle_state fill = order_lifecycle_state.FILLED then FILLED
                 else if bf_lifecycle_state fill = order_lifecycle_state.PARTIAL_FILL then PARTIAL_FILL else WORKING) \<and>
               rr_lifecycle_state r = Some (bf_lifecycle_state fill) \<and>
               rr_requested_contracts r = Some (bf_requested_contracts fill) \<and>
               rr_filled_contracts r = Some (bf_filled_contracts fill) \<and> rr_avg_fill_price r = bf_avg_fill_price fill \<and>
               (let price = (case bf_avg_fill_price fill of Some p \<Rightarrow> dval p | None \<Rightarrow> 0);
                    amount = (\<lambda>x. dec_mul (dec_mul x (of_int (bf_filled_contracts fill))) (of_int (ci_multiplier c)));
                    cost = amount (dval (fa_slippage_per_contract (sn_fill_assumptions sc))) in
                rr_credit_captured r = Some (amount price) \<and> rr_slippage_cost r = Some cost \<and>
                rr_realized_pnl r = map_option (\<lambda>v. dec_sub (amount (dec_sub price (dval v))) cost)
                  (fa_settlement_value_per_spread (sn_fill_assumptions sc))) \<and>
               (rr_duplicate_created_second_order r \<longrightarrow> (\<exists>w f. fst (sn_submit sc w i) = Inr f \<and>
                  bo_value (bf_broker_order_id f) \<noteq> bo_value (bf_broker_order_id fill)))))"

text \<open>How they agree with the decision about the candidate and, when it was approved, with the ticket
  and the intent minted from it. The brokers are in the state \<open>w\<close> the scenario starts in.\<close>

definition minted ::
  "replay_env \<Rightarrow> 'b replay_scenario \<Rightarrow> gateway_request \<Rightarrow> validated_trade_intent \<Rightarrow> order_ticket
     \<Rightarrow> broker_submit_intent \<Rightarrow> bool" where
  "minted v sc request validated ticket i \<longleftrightarrow>
     mint_order_ticket (gr_as_of request) (Inst validated) (sn_routing_state sc) (Some (sn_as_of sc)) = Inr ticket \<and>
     mint_broker_submit_intent (gr_as_of request) (dump_ticket (re_codec v)) (Inst ticket) 1 (sn_submit_mode sc)
       (Some (sn_limit_price sc)) (Some (sn_as_of sc)) = Inr i"

text \<open>The store refuses the ticket's row.\<close>

definition ticket_refused :: "replay_env \<Rightarrow> 'b replay_scenario \<Rightarrow> order_ticket \<Rightarrow> bool" where
  "ticket_refused v sc ticket \<longleftrightarrow>
     (\<exists>(u :: 'b replay_state) e. fst (audit_add v (OrderTicket ticket) (Aware (ot_created_at ticket)) u) = Inl e)"

definition follows_minting ::
  "replay_env \<Rightarrow> 'b replay_scenario \<Rightarrow> candidate_trade_intent \<Rightarrow> gateway_request \<Rightarrow> validated_trade_intent \<Rightarrow> 'b
     \<Rightarrow> replay_result \<Rightarrow> bool" where
  "follows_minting v sc c request validated w r \<longleftrightarrow>
     rr_outcome r = GATEWAY_REJECTED \<and> rr_reason_codes r = [INTERNAL_CONTRADICTION] \<and>
       (\<forall>ticket i. minted v sc request validated ticket i \<longrightarrow> ticket_refused v sc ticket) \<or>
     (\<exists>ticket i. minted v sc request validated ticket i \<and>
        rr_order_type r = Some (ot_order_type ticket) \<and> rr_route_mode r = Some (rs_route_mode (sn_routing_state sc)) \<and>
        rr_idempotency_key r = Some (bi_idempotency_key i) \<and> follows_answer sc c i (fst (sn_submit sc w i)) r)"

definition follows_decision ::
  "replay_env \<Rightarrow> 'b replay_scenario \<Rightarrow> candidate_trade_intent \<Rightarrow> 'b \<Rightarrow> replay_result \<Rightarrow> bool" where
  "follows_decision v sc c w r \<longleftrightarrow>
     rr_candidate_rationale_id r = Some (ci_rationale_id c) \<and>
     (case assemble_request sc c of
        Inl _ \<Rightarrow> rr_outcome r = GATEWAY_REJECTED \<and> \<not> rr_gateway_approved r \<and> \<not> rr_protection_hazard r \<and>
          rr_reason_codes r = [INTERNAL_CONTRADICTION]
      | Inr request \<Rightarrow> (\<exists>d. validate (re_ct_offset v) (dump_request (re_codec v)) request = Inr d \<and>
          (case gd_approved d of
             None \<Rightarrow> rr_outcome r = GATEWAY_REJECTED \<and> \<not> rr_gateway_approved r \<and>
               rr_reason_codes r = gd_reason_codes d \<and>
               (rr_protection_hazard r \<longleftrightarrow> PROTECTION_HIERARCHY_VIOLATION \<in> set (gd_reason_codes d) \<or>
                  BROKEN_SPREAD_STATE \<in> set (gd_reason_codes d))
           | Some validated \<Rightarrow> rr_gateway_approved r \<and> \<not> rr_protection_hazard r \<and>
               follows_minting v sc c request validated w r)))"

definition coherent_result :: "replay_env \<Rightarrow> 'b replay_scenario \<Rightarrow> 'b \<Rightarrow> replay_result \<Rightarrow> bool" where
  "coherent_result v sc w r \<longleftrightarrow> coherent_outcome sc r \<and>
     (case sn_generate sc (build_context sc) of
        Inl e \<Rightarrow> rr_outcome r = DATA_UNAVAILABLE \<and> (\<exists>m. e = MarketDataError ''MarketDataUnavailableError'' m)
      | Inr [] \<Rightarrow> rr_outcome r = NO_CANDIDATE
      | Inr (p # ps) \<Rightarrow> follows_decision v sc (pp_candidate p) w r)"

text \<open>The runner leaves the brokers alone but for the calls of their operation.\<close>

lemma world_kept:
  "yields (\<lambda>s. p (rp_world s)) (audit_add v obj c) (\<lambda>_ s. p (rp_world s))"
  "yields (\<lambda>s. p (rp_world s)) (add_artifact v sc suffix decision codes detail) (\<lambda>_ s. p (rp_world s))"
  "yields (\<lambda>s. p (rp_world s)) (add_broker_error v sc tag e) (\<lambda>_ s. p (rp_world s))"
  "yields (\<lambda>s. p (rp_world s)) (lift_res r) (\<lambda>_ s. p (rp_world s))"
  "yields (\<lambda>s. p (rp_world s)) (modify_st (\<lambda>s. s\<lparr>au_record_ids := [], rp_seqs := []\<rparr>)) (\<lambda>_ s. p (rp_world s))"
  by (auto simp: yields_def audit_add_def add_artifact_def add_broker_error_def bind_st_eq_Inr dest!: arg_cong [where f = snd]
      simp: note_event_store dest: sym)

lemma world_kept_route:
  "yields (\<lambda>s. p (rp_world s)) (try_st caught (route_and_mint v sc request validated)) (\<lambda>_ s. p (rp_world s))"
proof -
  have "rp_world (snd (route_and_mint v sc request validated s)) = rp_world s" for s
    by (auto simp: route_and_mint_def then_st_def bind_st_def audit_add_def note_event_store
        split: prod.splits sum.splits dest!: arg_cong [where f = "\<lambda>x. rp_world (snd x)"])
  then show ?thesis
    by (auto simp: yields_def try_st_def split: prod.splits sum.splits if_splits)
      (metis snd_conv)+
qed

lemma yields_both: "yields P m Q \<Longrightarrow> yields P m R \<Longrightarrow> yields P m (\<lambda>x s. Q x s \<and> R x s)"
  by (auto simp: yields_def)

lemma yields_weaken: "yields P m Q \<Longrightarrow> (\<And>s. P' s \<Longrightarrow> P s) \<Longrightarrow> (\<And>x s. Q x s \<Longrightarrow> Q' x s) \<Longrightarrow> yields P' m Q'"
  unfolding yields_def by meson

lemma yields_pure: "(H \<Longrightarrow> yields P m Q) \<Longrightarrow> yields (\<lambda>s. P s \<and> H) m Q"
  by (auto simp: yields_def)

lemmas result_simps = finalize_def coherent_outcome_def base_result_def evaluated_def submitted_def
  scenario_passed_def Let_def UNRESOLVED_OUTCOMES_def

lemma coherent_idle:
  "o' \<in> {DATA_UNAVAILABLE, NO_CANDIDATE} \<Longrightarrow>
     yields P (finalize sc o' id) (\<lambda>r _. coherent_outcome sc r \<and> rr_outcome r = o')"
  by (rule yields_finalize) (auto simp: result_simps)

lemma coherent_rejected:
  assumes "codes \<noteq> []"
  shows "yields P (finalize sc GATEWAY_REJECTED (evaluated c approved codes)) (\<lambda>r _. coherent_outcome sc r \<and>
      rr_outcome r = GATEWAY_REJECTED \<and> rr_candidate_rationale_id r = Some (ci_rationale_id c) \<and>
      rr_gateway_approved r = approved \<and> rr_reason_codes r = codes \<and> \<not> rr_protection_hazard r)"
    and "yields P (finalize sc GATEWAY_REJECTED (\<lambda>r. (evaluated c False codes r)
        \<lparr>rr_protection_hazard := list_ex (\<lambda>c. c \<in> set HAZARD_CODES) codes\<rparr>)) (\<lambda>r _. coherent_outcome sc r \<and>
      rr_outcome r = GATEWAY_REJECTED \<and> rr_candidate_rationale_id r = Some (ci_rationale_id c) \<and>
      \<not> rr_gateway_approved r \<and> rr_reason_codes r = codes \<and>
      (rr_protection_hazard r \<longleftrightarrow> PROTECTION_HIERARCHY_VIOLATION \<in> set codes \<or> BROKEN_SPREAD_STATE \<in> set codes))"
  by (rule yields_finalize; use assms in \<open>auto simp: result_simps list_ex_iff HAZARD_CODES_def\<close>)+

text \<open>What a result after a submit attempt says of ticket, intent and answer.\<close>

definition submitted_fields ::
  "'b replay_scenario \<Rightarrow> candidate_trade_intent \<Rightarrow> order_ticket \<Rightarrow> broker_submit_intent \<Rightarrow> broker_fill res \<Rightarrow> replay_result \<Rightarrow> bool" where
  "submitted_fields sc c ticket i answer r \<longleftrightarrow>
     coherent_outcome sc r \<and> rr_candidate_rationale_id r = Some (ci_rationale_id c) \<and>
     rr_gateway_approved r \<and> \<not> rr_protection_hazard r \<and>
     rr_order_type r = Some (ot_order_type ticket) \<and> rr_route_mode r = Some (rs_route_mode (sn_routing_state sc)) \<and>
     rr_idempotency_key r = Some (bi_idempotency_key i) \<and> follows_answer sc c i answer r"

lemma coherent_broker_error:
  "yields P (finalize sc (broker_outcome e) (\<lambda>r.
     submitted sc ticket i 1 (sl_contracts (ci_short_leg c)) (evaluated c True [be_reason_code e] r)))
   (\<lambda>r _. submitted_fields sc c ticket i (Inl (BrokerError e)) r)"
  by (rule yields_finalize)
    (cases "be_kind e"; simp add: result_simps submitted_fields_def follows_answer_def broker_outcome_def)

lemma coherent_report_rejected:
  assumes "mint_execution_report (Inst i) (Inst (bf_broker_order_id fill)) (bf_lifecycle_state fill)
      (bf_filled_contracts fill) (bf_avg_fill_price fill) (map_option Aware (bf_fill_timestamp fill))
      (map_option Aware (bf_completed_at fill)) = Inl e"
  shows "yields P (finalize sc REPORT_REJECTED (\<lambda>r.
     (submitted sc ticket i 1 (sl_contracts (ci_short_leg c)) (evaluated c True [INTERNAL_CONTRADICTION] r))
        \<lparr>rr_broker_order_id := Some (bo_value (bf_broker_order_id fill))\<rparr>))
   (\<lambda>r _. submitted_fields sc c ticket i (Inr fill) r)"
  by (rule yields_finalize) (simp add: result_simps submitted_fields_def follows_answer_def assms)

text \<open>The drill counts its attempts, and raises its flags only for a reason.\<close>

definition drilled :: "'b replay_scenario \<Rightarrow> broker_submit_intent \<Rightarrow> string \<Rightarrow> resubmit_flags \<Rightarrow> nat \<Rightarrow> resubmit_flags \<Rightarrow> bool" where
  "drilled sc i first flags n out \<longleftrightarrow>
     rf_attempts out = rf_attempts flags + int n \<and>
     (rf_second_order out \<longrightarrow> rf_second_order flags \<or>
        0 < n \<and> (\<exists>w f. fst (sn_submit sc w i) = Inr f \<and> bo_value (bf_broker_order_id f) \<noteq> first)) \<and>
     (rf_deduped out \<longrightarrow> rf_deduped flags \<or> 0 < n)"

lemma drilled_step:
  assumes "drilled sc i first (flags\<lparr>rf_attempts := rf_attempts flags + 1, rf_second_order := a, rf_deduped := b\<rparr>) n out"
    and "a \<Longrightarrow> rf_second_order flags \<or> (\<exists>w f. fst (sn_submit sc w i) = Inr f \<and> bo_value (bf_broker_order_id f) \<noteq> first)"
  shows "drilled sc i first flags (Suc n) out"
  using assms by (auto simp: drilled_def)

lemma resubmit_drilled:
  "always (drilled sc i first flags n) (resubmit_loop v sc i first n j flags)"
proof (induction n arbitrary: j flags)
  case 0
  show ?case by (simp add: yields_def drilled_def)
next
  case (Suc n)
  let ?flags = "flags\<lparr>rf_attempts := rf_attempts flags + 1\<rparr>"
  have call: "always (\<lambda>x. \<exists>w. x = fst (sn_submit sc w i)) (broker_call sc i)"
    by (auto simp: yields_def broker_call_def split: prod.splits) (metis fst_conv)
  have "always (drilled sc i first flags (Suc n)) (resubmit_loop v sc i first n (j + 1) ?flags)"
    using Suc.IH [of "j + 1" ?flags] by (auto simp: yields_def drilled_def)
  moreover have "always (drilled sc i first flags (Suc n)) (resubmit_loop v sc i first n (j + 1)
      (?flags\<lparr>rf_second_order := rf_second_order flags \<or> bo_value (bf_broker_order_id fill) \<noteq> first,
        rf_deduped := rf_deduped flags \<or> b\<rparr>))" if "fst (sn_submit sc w i) = Inr fill" for fill w b
    using Suc.IH [of "j + 1" "?flags\<lparr>rf_second_order := rf_second_order flags \<or> bo_value (bf_broker_order_id fill) \<noteq> first,
        rf_deduped := rf_deduped flags \<or> b\<rparr>"] that
    by (fastforce simp: yields_def intro: drilled_step)
  ultimately show ?case
    unfolding resubmit_loop.simps Let_def
    by (intro always_bind_if [OF call])
      (auto intro!: always_bind always_rules split: sum.split py_error.split)
qed

lemma compute_pnl_amounts:
  assumes "compute_pnl filled price k slippage settlement = (credit, slip, pnl, supported)"
  shows "credit = dec_mul (dec_mul (case price of Some p \<Rightarrow> dval p | None \<Rightarrow> 0) (of_int filled)) (of_int k)"
    and "slip = dec_mul (dec_mul (dval slippage) (of_int filled)) (of_int k)"
    and "pnl = map_option (\<lambda>v. dec_sub (dec_mul (dec_mul (dec_sub
        (case price of Some p \<Rightarrow> dval p | None \<Rightarrow> 0) (dval v)) (of_int filled)) (of_int k)) slip) settlement"
    and "supported \<longleftrightarrow> pnl \<noteq> None" and "pnl = None \<longleftrightarrow> settlement = None"
  using assms by (auto simp: compute_pnl_def Let_def split: option.splits)

lemma coherent_filled:
  assumes "mint_execution_report (Inst i) (Inst (bf_broker_order_id fill)) (bf_lifecycle_state fill)
      (bf_filled_contracts fill) (bf_avg_fill_price fill) (map_option Aware (bf_fill_timestamp fill))
      (map_option Aware (bf_completed_at fill)) = Inr rep"
  shows "always (submitted_fields sc c ticket i (Inr fill)) (filled_step v sc c ticket i fill)"
  unfolding filled_step_def Let_def
proof (rule always_bind_if [OF resubmit_drilled])
  fix flags :: resubmit_flags
  let ?n = "nat (sn_resubmit_attempts sc)" and ?settle = "fa_settlement_value_per_spread (sn_fill_assumptions sc)"
  assume "drilled sc i (bo_value (bf_broker_order_id fill)) \<lparr>rf_attempts = 1, rf_second_order = False, rf_deduped = False\<rparr> ?n flags"
  then have fl: "rf_attempts flags = 1 + max 0 (sn_resubmit_attempts sc)"
    "rf_deduped flags \<Longrightarrow> 0 < sn_resubmit_attempts sc" "rf_second_order flags \<Longrightarrow> 0 < sn_resubmit_attempts sc"
    "rf_second_order flags \<Longrightarrow> \<exists>w f. fst (sn_submit sc w i) = Inr f \<and>
       bo_value (bf_broker_order_id f) \<noteq> bo_value (bf_broker_order_id fill)"
    by (auto simp: drilled_def)
  obtain credit slip pnl sup where pnl: "compute_pnl (bf_filled_contracts fill) (bf_avg_fill_price fill) (ci_multiplier c)
      (fa_slippage_per_contract (sn_fill_assumptions sc)) ?settle = (credit, slip, pnl, sup)"
    by (rule prod_cases4)
  note amounts = compute_pnl_amounts [OF pnl]
  let ?r = "\<lambda>r. (submitted sc ticket i (rf_attempts flags) (bf_requested_contracts fill) (evaluated c True [] r))
      \<lparr>rr_broker_order_id := Some (bo_value (bf_broker_order_id fill)), rr_lifecycle_state := Some (bf_lifecycle_state fill),
       rr_filled_contracts := Some (bf_filled_contracts fill), rr_avg_fill_price := bf_avg_fill_price fill,
       rr_duplicate_created_second_order := rf_second_order flags, rr_store_deduped_resubmit := rf_deduped flags,
       rr_credit_captured := Some credit, rr_slippage_cost := Some slip,
       rr_realized_pnl := pnl, rr_pnl_supported := sup\<rparr>"
  have "always (coherent_outcome sc) (finalize sc (lifecycle_outcome (bf_lifecycle_state fill)) ?r)"
    using fl(1-3) amounts(4,5)
    by (intro yields_finalize) (cases "bf_lifecycle_state fill"; auto simp: result_simps lifecycle_outcome_def)
  moreover have "always (follows_answer sc c i (Inr fill)) (finalize sc (lifecycle_outcome (bf_lifecycle_state fill)) ?r)"
  proof (rule yields_weaken)
    show "always (\<lambda>r. rr_outcome r = lifecycle_outcome (bf_lifecycle_state fill) \<and>
        rr_broker_order_id r = Some (bo_value (bf_broker_order_id fill)) \<and>
        rr_lifecycle_state r = Some (bf_lifecycle_state fill) \<and>
        rr_requested_contracts r = Some (bf_requested_contracts fill) \<and>
        rr_filled_contracts r = Some (bf_filled_contracts fill) \<and> rr_avg_fill_price r = bf_avg_fill_price fill \<and>
        rr_duplicate_created_second_order r = rf_second_order flags \<and> rr_credit_captured r = Some credit \<and>
        rr_slippage_cost r = Some slip \<and> rr_realized_pnl r = pnl)
      (finalize sc (lifecycle_outcome (bf_lifecycle_state fill)) ?r)"
      by (rule yields_finalize) (simp add: finalize_def base_result_def evaluated_def submitted_def Let_def)
    show "follows_answer sc c i (Inr fill) r" if "rr_outcome r = lifecycle_outcome (bf_lifecycle_state fill) \<and>
        rr_broker_order_id r = Some (bo_value (bf_broker_order_id fill)) \<and>
        rr_lifecycle_state r = Some (bf_lifecycle_state fill) \<and>
        rr_requested_contracts r = Some (bf_requested_contracts fill) \<and>
        rr_filled_contracts r = Some (bf_filled_contracts fill) \<and> rr_avg_fill_price r = bf_avg_fill_price fill \<and>
        rr_duplicate_created_second_order r = rf_second_order flags \<and> rr_credit_captured r = Some credit \<and>
        rr_slippage_cost r = Some slip \<and> rr_realized_pnl r = pnl" for r
      using that fl(4) amounts(1-3) assms
      by (cases "bf_lifecycle_state fill") (simp_all add: follows_answer_def lifecycle_outcome_def Let_def)
  qed simp
  ultimately show "always (submitted_fields sc c ticket i (Inr fill)) (case compute_pnl (bf_filled_contracts fill)
      (bf_avg_fill_price fill) (ci_multiplier c) (fa_slippage_per_contract (sn_fill_assumptions sc)) ?settle of
    (credit, slippage_cost, realized_pnl, pnl_supported) \<Rightarrow>
      finalize sc (lifecycle_outcome (bf_lifecycle_state fill)) (\<lambda>r.
        (submitted sc ticket i (rf_attempts flags) (bf_requested_contracts fill) (evaluated c True [] r))
          \<lparr>rr_broker_order_id := Some (bo_value (bf_broker_order_id fill)), rr_lifecycle_state := Some (bf_lifecycle_state fill),
           rr_filled_contracts := Some (bf_filled_contracts fill), rr_avg_fill_price := bf_avg_fill_price fill,
           rr_duplicate_created_second_order := rf_second_order flags, rr_store_deduped_resubmit := rf_deduped flags,
           rr_credit_captured := Some credit, rr_slippage_cost := Some slippage_cost,
           rr_realized_pnl := realized_pnl, rr_pnl_supported := pnl_supported\<rparr>))"
    unfolding pnl prod.case
    by (auto simp: yields_def submitted_fields_def finalize_def base_result_def evaluated_def submitted_def Let_def)
qed

lemma coherent_report:
  "always (submitted_fields sc c ticket i (Inr fill)) (report_fill_step v sc c ticket i fill)"
proof -
  have lift: "always (\<lambda>x. is_ok x = is_ok r \<and> (\<forall>y. x = Inr y \<longrightarrow> r = Inr y)) (try_st caught (lift_res r))"
    for caught and r :: "execution_report res"
    by (auto simp: yields_def try_st_def is_ok_def split: sum.splits if_splits)
  show ?thesis
    unfolding report_fill_step_def
    by (rule always_bind_if [OF lift])
      (auto simp: is_ok_def intro!: always_rules coherent_report_rejected coherent_filled split: sum.splits)
qed

lemma coherent_submit:
  "yields (\<lambda>s. rp_world s = w) (submit_intent_step v sc c ticket i)
     (\<lambda>r _. submitted_fields sc c ticket i (fst (sn_submit sc w i)) r)"
proof -
  have attempt: "yields (\<lambda>s. rp_world s = w) (audit_add_submit_attempt v i) (\<lambda>_ s. rp_world s = w)"
    by (auto simp: yields_def audit_add_submit_attempt_def note_event_store dest!: arg_cong [where f = snd] dest: sym)
  have call: "yields (\<lambda>s. rp_world s = w) (broker_call sc i) (\<lambda>x _. x = fst (sn_submit sc w i))"
    by (auto simp: yields_def broker_call_def split: prod.splits)
  have weak: "always Q m \<Longrightarrow> yields (\<lambda>_. P) m (\<lambda>r _. Q r)" for Q P and m :: "('b, replay_result) replay_step"
    by (simp add: yields_def)
  show ?thesis
    unfolding submit_intent_step_def
  proof (intro yields_then [OF attempt] yields_bind [OF call])
    fix x
    let ?Q = "\<lambda>r _. submitted_fields sc c ticket i (fst (sn_submit sc w i)) r"
    show "yields (\<lambda>_. x = fst (sn_submit sc w i)) (case x of
        Inl (BrokerError e) \<Rightarrow> then_st (add_broker_error v sc [] e) (finalize sc (broker_outcome e) (\<lambda>r.
          submitted sc ticket i 1 (sl_contracts (ci_short_leg c)) (evaluated c True [be_reason_code e] r)))
      | Inl e \<Rightarrow> raise_st e
      | Inr fill \<Rightarrow> report_fill_step v sc c ticket i fill) ?Q" (is "yields _ (?m x) _")
    proof (cases "x = fst (sn_submit sc w i)")
      case True
      have "always (submitted_fields sc c ticket i x) (?m x)"
        by (cases x; simp only: sum.case)
          (auto intro!: always_rules coherent_broker_error coherent_report split: py_error.split)
      then show ?thesis using True by (simp add: yields_def)
    qed (simp add: yields_def)
  qed
qed

lemma bind_lift_Inr: "bind_st (lift_res (Inr x)) f = f x"
  by (rule ext) (simp add: bind_st_def)

lemma minting_fails:
  assumes "fst (try_st caught (route_and_mint v sc request validated) s) = Inr (Inl e)"
    and "minted v sc request validated ticket i"
  shows "ticket_refused v sc ticket"
proof -
  have "fst (route_and_mint v sc request validated s) = Inl e"
    using assms(1) by (auto simp: try_st_def split: prod.splits sum.splits if_splits)
  then show ?thesis
    using assms(2)
    by (auto simp: route_and_mint_def minted_def bind_lift_Inr then_st_def bind_st_def ticket_refused_def
        split: prod.splits sum.splits) (metis fst_conv)
qed

lemma route_minted:
  "yields (\<lambda>s. rp_world s = w) (try_st caught (route_and_mint v sc request validated)) (\<lambda>x s. rp_world s = w \<and>
     ((\<forall>ticket i. x = Inr (ticket, i) \<longrightarrow> minted v sc request validated ticket i) \<and>
      (\<forall>e ticket i. x = Inl e \<longrightarrow> minted v sc request validated ticket i \<longrightarrow> ticket_refused v sc ticket)))"
proof -
  have "always (\<lambda>x. \<forall>ticket i. x = (ticket, i) \<longrightarrow> minted v sc request validated ticket i)
      (route_and_mint v sc request validated)"
    by (auto simp: route_and_mint_def minted_def intro!: always_bind_if [OF always_lift] always_then yields_return)
  note ok = yields_weaken [OF always_try [OF this]]
  have "always (\<lambda>x. \<forall>e ticket i. x = Inl e \<longrightarrow> minted v sc request validated ticket i \<longrightarrow> ticket_refused v sc ticket)
      (try_st caught (route_and_mint v sc request validated))"
    using minting_fails [of caught v sc request validated] unfolding yields_def by (metis fst_conv)
  from yields_both [OF world_kept_route [of "\<lambda>u. u = w"] yields_both [OF ok yields_weaken [OF this]]]
  show ?thesis by simp
qed

lemma coherent_approved:
  "yields (\<lambda>s. rp_world s = w) (approved_step v sc c request validated) (\<lambda>r _.
     coherent_outcome sc r \<and> rr_candidate_rationale_id r = Some (ci_rationale_id c) \<and> rr_gateway_approved r \<and>
     \<not> rr_protection_hazard r \<and> follows_minting v sc c request validated w r)" (is "yields _ _ ?Q")
  unfolding approved_step_def
proof (intro yields_then [OF world_kept(1)] yields_bind [OF route_minted] yields_pure)
  fix x :: "(order_ticket \<times> broker_submit_intent) res"
  assume x: "(\<forall>ticket i. x = Inr (ticket, i) \<longrightarrow> minted v sc request validated ticket i) \<and>
      (\<forall>e ticket i. x = Inl e \<longrightarrow> minted v sc request validated ticket i \<longrightarrow> ticket_refused v sc ticket)"
  show "yields (\<lambda>s. rp_world s = w) (case x of
      Inl e \<Rightarrow>
        then_st (add_artifact v sc ''route-or-submit-mint'' ''REJECT'' [INTERNAL_CONTRADICTION]
            ''routing/submit-intent mint failed closed'')
          (finalize sc GATEWAY_REJECTED (evaluated c True [INTERNAL_CONTRADICTION]))
    | Inr (ticket, intent) \<Rightarrow> submit_intent_step v sc c ticket intent) ?Q"
  proof (cases x)
    case (Inl e)
    then show ?thesis
      using x
      by (auto intro!: yields_then [OF world_kept(2)] yields_weaken [OF coherent_rejected(1)] simp: follows_minting_def)
  next
    case (Inr p)
    moreover obtain ticket i where "p = (ticket, i)" by fastforce
    ultimately have p: "x = Inr (ticket, i)" by simp
    then have "minted v sc request validated ticket i" using x by simp
    then show ?thesis
      unfolding p sum.case prod.case
      by (intro yields_weaken [OF coherent_submit [of w]]) (auto simp: submitted_fields_def follows_minting_def)
  qed
qed

lemma coherent_gateway:
  assumes "assemble_request sc c = Inr request"
  shows "yields (\<lambda>s. rp_world s = w) (gateway_step v sc c request)
    (\<lambda>r _. coherent_outcome sc r \<and> follows_decision v sc c w r)"
proof -
  obtain d where d: "validate (re_ct_offset v) (dump_request (re_codec v)) request = Inr d" "coherent_decision request d"
    using validate_always_decides by blast
  have codes: "gd_reason_codes d \<noteq> []" if "gd_approved d = None"
    using d(2) that by (auto simp: coherent_decision_def split: option.splits)
  show ?thesis
  proof (cases "gd_approved d")
    case None
    then obtain a where "gd_rejection d = Some a"
      using d(2) by (auto simp: coherent_decision_def split: option.splits)
    then have "gateway_step v sc c request = then_st (audit_add v (GatewayRequest request) (sn_as_of sc))
        (then_st (audit_add v (AuditArtifact a) (Aware (aa_created_at a)))
          (finalize sc GATEWAY_REJECTED (\<lambda>r. (evaluated c False (gd_reason_codes d) r)
             \<lparr>rr_protection_hazard := list_ex (\<lambda>c. c \<in> set HAZARD_CODES) (gd_reason_codes d)\<rparr>)))"
      by (simp only: gateway_step_def d(1) bind_lift_Inr is_approved_def None option.case simp_thms if_True)
    then show ?thesis
      by (simp only:) (intro yields_then [OF world_kept(1)] yields_weaken [OF coherent_rejected(2) [OF codes [OF None]]];
         simp add: follows_decision_def assms d(1) None)
  next
    case (Some validated)
    then have "gateway_step v sc c request =
        then_st (audit_add v (GatewayRequest request) (sn_as_of sc)) (approved_step v sc c request validated)"
      by (simp only: gateway_step_def d(1) bind_lift_Inr is_approved_def option.case option.simps simp_thms if_False)
    then show ?thesis
      by (simp only:) (intro yields_then [OF world_kept(1)] yields_weaken [OF coherent_approved];
         simp add: follows_decision_def assms d(1) Some)
  qed
qed

lemma yields_try_lift:
  "yields P (try_st caught (lift_res x)) (\<lambda>y s. P s \<and> (y = x \<and> (\<forall>e. x = Inl e \<longrightarrow> caught e)))"
  by (auto simp: yields_def try_st_def split: sum.splits if_splits)

lemma coherent_candidate:
  "yields (\<lambda>s. rp_world s = w) (candidate_step v sc c) (\<lambda>r _. coherent_outcome sc r \<and> follows_decision v sc c w r)"
  unfolding candidate_step_def
proof (intro yields_bind [OF yields_try_lift] yields_pure)
  fix y
  assume y: "y = assemble_request sc c \<and> (\<forall>e. assemble_request sc c = Inl e \<longrightarrow> is_value_error e)"
  show "yields (\<lambda>s. rp_world s = w) (case y of
      Inl e \<Rightarrow>
        then_st (add_artifact v sc ''gateway-assembly'' ''REJECT'' [INTERNAL_CONTRADICTION]
            ''gateway request could not be assembled'')
          (finalize sc GATEWAY_REJECTED (evaluated c False [INTERNAL_CONTRADICTION]))
    | Inr request \<Rightarrow> gateway_step v sc c request) (\<lambda>r _. coherent_outcome sc r \<and> follows_decision v sc c w r)"
  proof (cases y)
    case (Inl e)
    with y have g: "assemble_request sc c = Inl e" by simp
    show ?thesis
      unfolding Inl sum.case
      by (intro yields_then [OF world_kept(2)] yields_weaken [OF coherent_rejected(1)])
        (use g in \<open>auto simp: follows_decision_def\<close>)
  next
    case (Inr request)
    then show ?thesis using coherent_gateway [of sc c request w v] y by simp
  qed
qed

lemma data_unavailable_cases:
  "is_data_unavailable e \<Longrightarrow> \<exists>m. e = MarketDataError ''MarketDataUnavailableError'' m"
  by (cases e) (simp_all add: is_data_unavailable_def)

lemma coherent_scenario:
  "yields (\<lambda>s. rp_world s = w) (run_scenario v sc) (\<lambda>r _. coherent_result v sc w r)"
proof -
  show ?thesis
    unfolding run_scenario_def scenario_step_def
  proof (intro yields_then [OF world_kept(5)] yields_bind [OF yields_try_lift] yields_pure)
    fix y
    assume y: "y = sn_generate sc (build_context sc) \<and> (\<forall>e. sn_generate sc (build_context sc) = Inl e \<longrightarrow> is_data_unavailable e)"
    show "yields (\<lambda>s. rp_world s = w) (case y of
        Inl e \<Rightarrow>
          then_st (add_artifact v sc ''data-unavailable'' ''NO_TRADE'' [] ''strategy failed closed on missing market data'')
            (finalize sc DATA_UNAVAILABLE id)
      | Inr proposals \<Rightarrow>
          (case proposals of
             [] \<Rightarrow>
               then_st (add_artifact v sc ''no-candidate'' ''NO_TRADE'' []
                   ''strategy produced no candidate (entry window / IVR / DTE filter)'')
                 (finalize sc NO_CANDIDATE id)
           | p # ps \<Rightarrow> candidate_step v sc (pp_candidate p))) (\<lambda>r _. coherent_result v sc w r)"
    proof (cases y)
      case (Inl e)
      with y have g: "sn_generate sc (build_context sc) = Inl e" by simp
      with y have e: "\<exists>m. e = MarketDataError ''MarketDataUnavailableError'' m" by (intro data_unavailable_cases) blast
      show ?thesis
        unfolding Inl sum.case
        by (intro yields_then [OF world_kept(2)] yields_weaken [OF coherent_idle]) (use g e in \<open>auto simp: coherent_result_def\<close>)
    next
      case (Inr ps)
      with y have g: "sn_generate sc (build_context sc) = Inr ps" by simp
      show ?thesis
      proof (cases ps)
        case Nil
        show ?thesis
          unfolding Inr Nil sum.case list.case
          by (intro yields_then [OF world_kept(2)] yields_weaken [OF coherent_idle]) (use g Nil in \<open>auto simp: coherent_result_def\<close>)
      next
        case (Cons p qs)
        then show ?thesis
          using g unfolding Inr Cons sum.case list.case
          by (intro yields_weaken [OF coherent_candidate]) (auto simp: coherent_result_def)
      qed
    qed
  qed
qed

section \<open>The drawdown of a suite\<close>

definition supported_pnls :: "replay_result list \<Rightarrow> rat list" where
  "supported_pnls rs = concat (map (\<lambda>r. case rr_realized_pnl r of
     Some p \<Rightarrow> if rr_pnl_supported r then [p] else [] | None \<Rightarrow> []) rs)"

text \<open>The equity curve starts at zero.\<close>

definition equity_curve :: "rat list \<Rightarrow> rat list" where
  "equity_curve ps = foldl (\<lambda>cs p. cs @ [dec_add (last cs) p]) [0] ps"

definition largest_fall :: "rat list \<Rightarrow> rat" where
  "largest_fall cs = Max {dec_sub (cs ! i) (cs ! j) | i j. i \<le> j \<and> j < length cs}"

lemma equity_curve_snoc:
  "equity_curve [] = [0]" "equity_curve (ps @ [p]) = equity_curve ps @ [dec_add (last (equity_curve ps)) p]"
  by (simp_all add: equity_curve_def)

lemma equity_curve_not_Nil [simp]: "equity_curve ps \<noteq> []"
  by (induction ps rule: rev_induct) (simp_all add: equity_curve_snoc)

lemma mono_dec_sub: "mono (\<lambda>x. dec_sub x c)"
  by (simp add: mono_def dec_sub_def dec.rd_mono)

lemma largest_fall_snoc:
  assumes "cs \<noteq> []"
  shows "largest_fall (cs @ [c]) = max (largest_fall cs) (dec_sub (Max (set (cs @ [c]))) c)"
proof -
  let ?D = "\<lambda>cs. {dec_sub (cs ! i) (cs ! j) | i j. i \<le> j \<and> j < length cs}"
  have fin: "finite (?D cs)"
    by (rule finite_subset [of _ "(\<lambda>(i, j). dec_sub (cs ! i) (cs ! j)) ` ({..length cs} \<times> {..length cs})"]) auto
  have ne: "?D cs \<noteq> {}" using assms by auto
  have "?D (cs @ [c]) = ?D cs \<union> (\<lambda>x. dec_sub x c) ` set (cs @ [c])" (is "?L = ?R")
  proof (intro set_eqI iffI)
    fix y
    assume "y \<in> ?L"
    then obtain i j where y: "y = dec_sub ((cs @ [c]) ! i) ((cs @ [c]) ! j)" "i \<le> j" "j \<le> length cs" by auto
    show "y \<in> ?R"
    proof (cases "j = length cs")
      case True
      moreover have "(cs @ [c]) ! i \<in> set (cs @ [c])" using y by (intro nth_mem) simp
      ultimately show ?thesis using y by (intro UnI2) (auto simp: nth_append)
    next
      case False
      then have "y = dec_sub (cs ! i) (cs ! j)" "j < length cs" using y by (auto simp: nth_append)
      then show ?thesis using y(2) by blast
    qed
  next
    fix y
    assume "y \<in> ?R"
    then consider "y \<in> ?D cs" | x where "y = dec_sub x c" "x \<in> set (cs @ [c])" by blast
    then show "y \<in> ?L"
    proof cases
      case 1
      then obtain i j where "y = dec_sub (cs ! i) (cs ! j)" "i \<le> j" "j < length cs" by blast
      then have "y = dec_sub ((cs @ [c]) ! i) ((cs @ [c]) ! j)" "i \<le> j" "j < length (cs @ [c])"
        by (simp_all add: nth_append)
      then show ?thesis by blast
    next
      case 2
      then obtain i where "i < length (cs @ [c])" "(cs @ [c]) ! i = x" unfolding in_set_conv_nth by blast
      then have "y = dec_sub ((cs @ [c]) ! i) ((cs @ [c]) ! length cs)" "i \<le> length cs" using 2 by simp_all
      moreover have "length cs < length (cs @ [c])" by simp
      ultimately show ?thesis by blast
    qed
  qed
  moreover have "Max ((\<lambda>x. dec_sub x c) ` set (cs @ [c])) = dec_sub (Max (set (cs @ [c]))) c"
    by (rule mono_Max_commute [OF mono_dec_sub, symmetric]) simp_all
  ultimately show ?thesis
    unfolding largest_fall_def using fin ne by (simp add: Max_Un del: set_append)
qed

lemma equity_fold:
  "foldl equity_add \<lparr>eq_cumulative = 0, eq_peak = 0, eq_max_drawdown = 0\<rparr> rs =
     (let cs = equity_curve (supported_pnls rs) in
      \<lparr>eq_cumulative = last cs, eq_peak = Max (set cs), eq_max_drawdown = largest_fall cs\<rparr>)"
proof (induction rs rule: rev_induct)
  case Nil
  have "{dec_sub ([0] ! i) ([0] ! j) | i j. i \<le> j \<and> j < length [0 :: rat]} = {0}"
    by (auto simp: dec_sub_def dec.rd_0)
  then show ?case by (simp add: supported_pnls_def equity_curve_snoc largest_fall_def)
next
  case (snoc r rs)
  let ?cs = "equity_curve (supported_pnls rs)"
  have max: "max (Max (set ?cs)) x = Max (set (?cs @ [x]))" for x
    by (simp add: Max_insert max.commute)
  show ?case
  proof (cases "rr_pnl_supported r \<and> rr_realized_pnl r \<noteq> None")
    case True
    then obtain p where p: "rr_realized_pnl r = Some p" "rr_pnl_supported r" by auto
    then have s: "supported_pnls (rs @ [r]) = supported_pnls rs @ [p]" by (simp add: supported_pnls_def)
    show ?thesis
      by (simp only: foldl_append foldl.simps snoc.IH)
        (simp add: s equity_add_def Let_def p equity_curve_snoc max largest_fall_snoc del: set_append)
  next
    case False
    then have s: "supported_pnls (rs @ [r]) = supported_pnls rs" "equity_add e r = e" for e
      by (auto simp: supported_pnls_def equity_add_def split: option.split)
    show ?thesis by (simp only: foldl_append foldl.simps snoc.IH s)
  qed
qed

section \<open>Retries at a fake broker\<close>

text \<open>The brokers of a suite are one fake broker, read at the instants of \<open>wall\<close>.\<close>

definition fake_suite :: "(fake_broker \<Rightarrow> aware) \<Rightarrow> fake_broker replay_scenario \<Rightarrow> bool" where
  "fake_suite wall sc \<longleftrightarrow> sn_submit sc = (\<lambda>b i. fake_submit_order b (wall b) (Inst i))"

text \<open>After the first fill: the broker holds it, and the store holds the attempt.\<close>

definition executed :: "replay_env \<Rightarrow> broker_submit_intent \<Rightarrow> broker_fill \<Rightarrow> fake_broker replay_state \<Rightarrow> bool" where
  "executed v i fill s \<longleftrightarrow>
     bi_submit_mode i = submit_mode.PAPER \<and> map_of (fk_fills (rp_world s)) (bi_idempotency_key i) = Some fill \<and>
     Some (bi_idempotency_key i) \<in> attempts (au_store s) \<and>
     assert_no_secrets (cd_dump (re_codec v) (BrokerSubmitIntent i)) = Inr ()"

lemma resubmit_deduped:
  assumes "fake_suite wall sc" and "executed v i fill s"
  shows "resubmit_loop v sc i (bo_value (bf_broker_order_id fill)) n j flags s =
    (Inr (flags\<lparr>rf_attempts := rf_attempts flags + int n, rf_deduped := rf_deduped flags \<or> 0 < n\<rparr>), s)"
proof (induction n arbitrary: j flags)
  case (Suc n)
  let ?dup = "StorageError DuplicateIdempotencyKeyError ''submit attempt already persisted''"
  have call: "broker_call sc i s = (Inr (Inr fill), s)"
    using assms by (simp add: broker_call_def fake_suite_def executed_def fake_submit_order_def)
  have "append_event (re_codec v) (au_store s) (BrokerSubmitIntent i) c r (Some (bi_idempotency_key i)) = (Inl ?dup, au_store s)" for c r
    using assms(2) by (intro append_duplicate) (simp_all add: executed_def attempts_def)
  then have "audit_add_submit_attempt v i s = (Inl ?dup, s)"
    by (simp add: audit_add_submit_attempt_def record_submit_attempt_def note_event_def)
  then have again: "try_st is_duplicate_key (audit_add_submit_attempt v i) s = (Inr (Inl ?dup), s)"
    by (simp add: try_st_def is_duplicate_key_def)
  show ?case
    by (simp add: Let_def bind_st_Inr [of "broker_call sc i" s, OF call]
        bind_st_Inr [of "try_st is_duplicate_key (audit_add_submit_attempt v i)" s, OF again] Suc.IH)
qed simp

text \<open>What holds of a result and the brokers after it, when they held \<open>w0\<close> before.\<close>

definition retried_safely :: "fake_broker replay_scenario \<Rightarrow> fake_broker \<Rightarrow> replay_result \<Rightarrow> fake_broker replay_state \<Rightarrow> bool" where
  "retried_safely sc w0 r t \<longleftrightarrow>
     \<not> rr_duplicate_created_second_order r \<and>
     (rr_store_deduped_resubmit r \<longleftrightarrow> rr_outcome r \<in> {FILLED, PARTIAL_FILL, WORKING} \<and> 0 < sn_resubmit_attempts sc) \<and>
     (\<forall>k. rr_idempotency_key r \<noteq> Some k \<longrightarrow> map_of (fk_fills (rp_world t)) k = map_of (fk_fills w0) k)"

lemmas retried_simps = retried_safely_def finalize_def base_result_def evaluated_def submitted_def Let_def

lemma executed_audit: "yields (\<lambda>s. executed v i fill s \<and> p (rp_world s)) (audit_add v obj c) (\<lambda>_ s. executed v i fill s \<and> p (rp_world s))"
proof -
  have "attempts (au_store s) \<subseteq> attempts (au_store (snd (audit_add v obj c s)))" for s
    using append_extends [of "re_codec v" "au_store s" obj c "re_recorded_at v" None]
    by (auto simp: attempts_def audit_add_def note_event_store)
  moreover have "rp_world (snd (audit_add v obj c s)) = rp_world s" for s
    by (simp add: audit_add_def note_event_store)
  ultimately show ?thesis unfolding yields_def executed_def by (metis snd_conv subsetD)
qed

lemma retried_filled:
  assumes "fake_suite wall sc"
  shows "yields (\<lambda>s. executed v i fill s \<and> (\<forall>k. k \<noteq> bi_idempotency_key i \<longrightarrow> map_of (fk_fills (rp_world s)) k = map_of (fk_fills w0) k))
    (filled_step v sc c ticket i fill) (retried_safely sc w0)"
  unfolding yields_def
proof (intro allI impI)
  fix s r t
  assume s: "executed v i fill s \<and> (\<forall>k. k \<noteq> bi_idempotency_key i \<longrightarrow> map_of (fk_fills (rp_world s)) k = map_of (fk_fills w0) k)"
    and run: "filled_step v sc c ticket i fill s = (Inr r, t)"
  note loop = resubmit_deduped [OF assms conjunct1 [OF s], of "nat (sn_resubmit_attempts sc)" 0]
  have outcome: "lifecycle_outcome l \<in> {FILLED, PARTIAL_FILL, WORKING}" for l
    by (cases l) (simp_all add: lifecycle_outcome_def)
  obtain credit slip pnl sup where pnl: "compute_pnl (bf_filled_contracts fill) (bf_avg_fill_price fill) (ci_multiplier c)
      (fa_slippage_per_contract (sn_fill_assumptions sc)) (fa_settlement_value_per_spread (sn_fill_assumptions sc)) = (credit, slip, pnl, sup)"
    by (rule prod_cases4)
  show "retried_safely sc w0 r t"
    using run s outcome [of "bf_lifecycle_state fill"]
    by (auto simp: filled_step_def Let_def pnl bind_st_eq_Inr loop) (auto simp: retried_simps)
qed

lemma retried_report:
  assumes "fake_suite wall sc"
  shows "yields (\<lambda>s. executed v i fill s \<and> (\<forall>k. k \<noteq> bi_idempotency_key i \<longrightarrow> map_of (fk_fills (rp_world s)) k = map_of (fk_fills w0) k))
    (report_fill_step v sc c ticket i fill) (retried_safely sc w0)" (is "yields ?P _ _")
proof -
  let ?w = "\<lambda>w. \<forall>k. k \<noteq> bi_idempotency_key i \<longrightarrow> map_of (fk_fills w) k = map_of (fk_fills w0) k"
  have lift: "yields ?P (try_st caught (lift_res r)) (\<lambda>_. ?P)" for caught and r :: "execution_report res"
    by (auto simp: yields_def try_st_def split: sum.splits if_splits)
  have weak: "yields ?P m Q" if "yields (\<lambda>s. ?w (rp_world s)) m Q" for m and Q :: "'c \<Rightarrow> fake_broker replay_state \<Rightarrow> bool"
    using that by (auto simp: yields_def)
  show ?thesis
    unfolding report_fill_step_def
    by (rule yields_bind [OF lift])
      (auto split: sum.split intro!: weak yields_then [OF world_kept(2)] yields_then [OF executed_audit] yields_finalize
        retried_filled [OF assms], auto simp: retried_simps)
qed

lemma retried_submit:
  assumes "fake_suite wall sc"
  shows "yields (\<lambda>s. rp_world s = w0) (submit_intent_step v sc c ticket i) (retried_safely sc w0)"
proof -
  let ?k = "bi_idempotency_key i"
  let ?A = "\<lambda>s. rp_world s = w0 \<and> Some ?k \<in> attempts (au_store s) \<and>
    assert_no_secrets (cd_dump (re_codec v) (BrokerSubmitIntent i)) = Inr ()"
  let ?O = "\<lambda>outcome s. case outcome of Inl e \<Rightarrow> rp_world s = w0
    | Inr fill \<Rightarrow> executed v i fill s \<and> (\<forall>k. k \<noteq> ?k \<longrightarrow> map_of (fk_fills (rp_world s)) k = map_of (fk_fills w0) k)"
  have attempt: "yields (\<lambda>s. rp_world s = w0) (audit_add_submit_attempt v i) (\<lambda>_. ?A)"
    by (auto simp: yields_def attempts_def elim!: recorded_attempt)
  have call: "yields ?A (broker_call sc i) ?O"
    unfolding yields_def
  proof (intro allI impI)
    fix s outcome t
    assume s: "?A s" and c: "broker_call sc i s = (Inr outcome, t)"
    obtain b where b: "fake_submit_order w0 (wall w0) (Inst i) = (outcome, b)" "t = s\<lparr>rp_world := b\<rparr>"
      using s c assms by (auto simp: broker_call_def fake_suite_def split: prod.splits)
    show "?O outcome t"
    proof (cases outcome)
      case (Inl e)
      then have "b = w0" using b(1) fake.submit_failed [of w0 "wall w0" i e] by simp
      then show ?thesis using Inl b(2) by simp
    next
      case (Inr f)
      then have "bi_submit_mode i = submit_mode.PAPER" "map_of (fk_fills b) = (map_of (fk_fills w0))(?k \<mapsto> f)"
        using b(1) fake.submit_accepts [of w0 "wall w0" i f] fake.submit_stores [of w0 "wall w0" i f b] by simp_all
      then show ?thesis using Inr b(2) s by (simp add: executed_def)
    qed
  qed
  show ?thesis
    unfolding submit_intent_split after_attempt_def
    by (intro yields_then [OF attempt] yields_bind [OF call])
      (auto split: sum.split py_error.split intro!: yields_raise retried_report [OF assms]
        yields_then [OF world_kept(3)] yields_finalize, auto simp: retried_simps broker_outcome_def split: broker_error_kind.split)
qed

lemma retried_scenario:
  assumes "fake_suite wall sc"
  shows "yields (\<lambda>s. rp_world s = w0) (run_scenario v sc) (retried_safely sc w0)"
proof -
  have lift: "yields (\<lambda>s. rp_world s = w0) (try_st caught (lift_res r)) (\<lambda>_ s. rp_world s = w0)" for caught and r :: "'x res"
    by (auto simp: yields_def try_st_def split: sum.splits if_splits)
  note kept = world_kept [of "\<lambda>w. w = w0"]
  show ?thesis
    unfolding run_scenario_def scenario_step_def candidate_step_def gateway_step_def approved_step_def
    by (rule yields_then [OF kept(5)], rule yields_bind [OF lift])
      (auto split: sum.split list.split option.split prod.split
        intro!: yields_then [OF kept(1)] yields_then [OF kept(2)] yields_bind [OF lift] yields_bind [OF kept(4)]
          yields_bind [OF world_kept_route [of "\<lambda>w. w = w0"]] yields_raise yields_finalize retried_submit [OF assms],
       auto simp: retried_simps)
qed

section \<open>Every append of a scenario is in its trail\<close>

definition trailed :: "'b replay_state \<Rightarrow> 'b replay_state \<Rightarrow> bool" where
  "trailed s t \<longleftrightarrow> (0 \<le> st_last_seq (au_store s) \<longrightarrow>
     0 \<le> st_last_seq (au_store t) \<and>
     (\<exists>rs. st_rows (au_store t) = st_rows (au_store s) @ rs \<and>
        au_record_ids t = au_record_ids s @ map sr_record_id rs \<and> rp_seqs t = rp_seqs s @ map sr_seq rs))"

interpretation trail: step_relation trailed
proof
  show "trailed s s" for s by (simp add: trailed_def)
  show "trailed s u" if st: "trailed s t" and tu: "trailed t u" for s t u
    using st tu by (fastforce simp: trailed_def)
qed

text \<open>An append either fails and changes nothing or adds the row of the event it returns.\<close>

lemma append_all_or_nothing:
  assumes "storing_codec cd" and "0 \<le> st_last_seq st" and "derive_record_id cd obj \<noteq> []"
  shows "(\<exists>e. append_event cd st obj (Aware c) (Aware rec) k = (Inl e, st)) \<or>
    (\<exists>ev. append_event cd st obj (Aware c) (Aware rec) k = (Inr ev, logged cd rec obj c k st) \<and>
       se_record_id ev = sr_record_id (added_row cd st obj (Aware c) (Aware rec) k) \<and>
       se_seq ev = sr_seq (added_row cd st obj (Aware c) (Aware rec) k))"
proof (cases "storable cd st obj k")
  case True
  then have "\<exists>ev. append_event cd st obj (Aware c) (Aware rec) k = (Inr ev, logged cd rec obj c k st)"
    using append_ok [OF assms(1,2) _ assms(3), of k c rec] by (auto simp: storable_def attempts_def)
  then obtain ev where ev: "append_event cd st obj (Aware c) (Aware rec) k = (Inr ev, logged cd rec obj c k st)" by blast
  then have "row_to_event (added_row cd st obj (Aware c) (Aware rec) k) = Inr ev"
    using append_storable [OF True, of "Aware c" "Aware rec"] by simp
  from row_to_event_Inr [OF this] show ?thesis using ev by blast
next
  case False
  then show ?thesis using append_not_storable by blast
qed

lemma trailed_note:
  assumes "storing_codec cd" and "derive_record_id cd obj \<noteq> []"
  shows "trailed s (snd (note_event (append_event cd (au_store s) obj (Aware c) (Aware rec) k) s))"
proof (cases "0 \<le> st_last_seq (au_store s)")
  case True
  from append_all_or_nothing [OF assms(1) True assms(2), of c rec k] show ?thesis
    by (elim disjE exE) (auto simp: note_event_def trailed_def)
qed (simp add: trailed_def)

lemma replay_artifact_id: "replay_artifact sc suffix decision codes detail = Inr art \<Longrightarrow> aa_artifact_id art \<noteq> []"
  by (auto simp: replay_artifact_def new_artifact_def bind_res_eq_Inr mk_audit_artifact_def construct_eq_Inr)

lemma keeps_trail_appends:
  assumes "storing_codec (re_codec v)" and "re_recorded_at v = Aware rec"
  shows "derive_record_id (re_codec v) obj \<noteq> [] \<Longrightarrow> keeps trailed (audit_add v obj (Aware c))"
    and "bi_idempotency_key i \<noteq> [] \<Longrightarrow> keeps trailed (audit_add_submit_attempt v i)"
  unfolding keeps_def audit_add_def audit_add_submit_attempt_def record_submit_attempt_def assms(2)
  by (auto intro!: trailed_note assms(1) simp: derive_record_id_def)

lemma keeps_trail_artifacts:
  assumes "storing_codec (re_codec v)" and "re_recorded_at v = Aware rec" and "sn_as_of sc = Aware c"
  shows "keeps trailed (add_artifact v sc suffix decision codes detail)"
    and "keeps trailed (add_broker_error v sc tag e)"
  unfolding add_artifact_def add_broker_error_def assms(3)
  by (auto intro!: trail.keeps_bind_if [OF always_lift] trail.keeps_pure keeps_trail_appends assms
      simp: derive_record_id_def dest: replay_artifact_id)
    (auto simp: bind_res_eq_Inr aware_of_def audit_artifact_from_broker_error_def mk_audit_artifact_def construct_eq_Inr)

lemma minted_key: "mint_broker_submit_intent clock dumpt tk n mode price d = Inr i \<Longrightarrow> bi_idempotency_key i \<noteq> []"
  by (auto simp: mint_broker_submit_intent_def submit_intent_from_gateway_def init_broker_submit_intent_def bind_res_eq_Inr construct_eq_Inr Let_def
      require_def split: dyn.splits sum.splits if_splits option.splits)

lemma reported_key:
  "mint_execution_report (Inst i) oid l n price ft ca = Inr rep \<Longrightarrow> er_idempotency_key rep = bi_idempotency_key i"
  by (auto simp: mint_execution_report_def execution_report_from_gateway_def init_execution_report_def bind_res_eq_Inr
      construct_eq_Inr require_def Let_def split: dyn.splits sum.splits if_splits option.splits)

lemma route_key: "always (\<lambda>m. bi_idempotency_key (snd m) \<noteq> []) (route_and_mint v sc request validated)"
  unfolding route_and_mint_def
  by (auto intro!: always_bind always_then always_bind_if [OF always_lift] dest: minted_key simp: yields_def [of _ "return_st _"])

lemma keeps_trail_broker: "keeps trailed (broker_call sc i)"
  by (auto simp: keeps_def trailed_def broker_call_def split: prod.split)

lemma keeps_trail_pure: "keeps trailed (finalize sc outcome f)"
  unfolding finalize_def by (rule trail.keeps_pure)

lemmas trail_rules = trail.keeps_pure trail.keeps_then trail.keeps_bind trail.keeps_try trail.keeps_if
  keeps_trail_broker keeps_trail_pure

lemma keeps_trail_submit:
  assumes "storing_codec (re_codec v)" and "re_recorded_at v = Aware rec" and "sn_as_of sc = Aware a"
    and "bi_idempotency_key i \<noteq> []"
  shows "keeps trailed (submit_intent_step v sc c ticket i)"
proof -
  note add = keeps_trail_appends [OF assms(1,2)] and artifacts = keeps_trail_artifacts [OF assms(1-3)]
  have resubmit: "keeps trailed (resubmit_loop v sc i first n j flags)" for first n j flags
    by (induction n arbitrary: j flags)
      (auto simp: Let_def assms(4) intro!: trail_rules add artifacts split: sum.split py_error.split)
  have filled: "keeps trailed (filled_step v sc c ticket i fill)" for fill
    unfolding filled_step_def Let_def
    by (intro trail.keeps_bind resubmit) (simp add: keeps_trail_pure split: prod.split)
  have report: "keeps trailed (report_fill_step v sc c ticket i fill)" for fill
    unfolding report_fill_step_def assms(3)
    by (intro trail.keeps_bind_if [OF always_try [OF always_lift]])
      (auto simp: derive_record_id_def assms(4) reported_key intro!: trail_rules add artifacts filled split: sum.split)
  show ?thesis
    unfolding submit_intent_step_def
    by (auto simp: assms(4) intro!: trail_rules add artifacts report split: sum.split py_error.split)
qed

lemma keeps_trail_scenario:
  assumes "storing_codec (re_codec v)" and "re_recorded_at v = Aware rec" and "sn_as_of sc = Aware a"
  shows "keeps trailed (scenario_step v sc)"
proof -
  note add = keeps_trail_appends [OF assms(1,2)] and artifacts = keeps_trail_artifacts [OF assms]
  have route: "keeps trailed (route_and_mint v sc request validated)" for request validated
    unfolding route_and_mint_def by (intro trail_rules add) simp_all
  have approved: "keeps trailed (approved_step v sc c request validated)" for c request validated
    unfolding approved_step_def assms(3)
    by (intro trail.keeps_then add trail.keeps_bind_if [OF always_try [OF route_key]])
      (auto intro!: trail_rules add artifacts route keeps_trail_submit [OF assms] split: sum.split)
  have gateway: "keeps trailed (gateway_step v sc c request)" for c request
  proof -
    obtain d where d: "validate (re_ct_offset v) (dump_request (re_codec v)) request = Inr d" "coherent_decision request d"
      using validate_always_decides by blast
    have rejection: "gd_approved d = None \<Longrightarrow> gd_rejection d = Some art \<Longrightarrow> aa_artifact_id art \<noteq> []" for art
      using d(2) by (auto simp: coherent_decision_def wf_audit_artifact_def audit_artifact_guards_def split: option.splits)
    show ?thesis
      unfolding gateway_step_def d(1) assms(3)
      by (intro trail.keeps_then add trail.keeps_bind_if [OF always_lift])
        (auto simp: is_approved_def derive_record_id_def rejection
          intro!: trail_rules add approved split: option.split)
  qed
  show ?thesis
    unfolding scenario_step_def candidate_step_def
    by (auto intro!: trail_rules add artifacts gateway split: sum.split list.split)
qed

end
