(* ===== verification/ReplayTotality.thy ===== *)
theory ReplayTotality
  imports ReplaySafety
begin

text \<open>
  When replay returns: with a storable codec, a strategy and a broker that raise only what they
  document, a scenario returns a result unless its decision is already in the store, and then it
  raises. The properties of replay are stated at the end, with a sample scenario that is filled.
\<close>

section \<open>A scenario raises only for a decision that is already recorded\<close>

definition duplicate_attempt :: py_error where
  "duplicate_attempt = StorageError DuplicateIdempotencyKeyError ''submit attempt already persisted''"

text \<open>Started on a store whose numbers are not negative, the step keeps them so and raises at most
  exceptions of \<open>E\<close>.\<close>

definition raises_only :: "(py_error \<Rightarrow> bool) \<Rightarrow> ('b, 'a) replay_step \<Rightarrow> bool" where
  "raises_only E m \<longleftrightarrow> (\<forall>s. 0 \<le> st_last_seq (au_store s) \<longrightarrow>
     0 \<le> st_last_seq (au_store (snd (m s))) \<and> (\<forall>e. fst (m s) = Inl e \<longrightarrow> E e))"

lemma rdo_bind_if:
  assumes "always A m" and "raises_only E m" and "\<And>a. A a \<Longrightarrow> raises_only E (f a)"
  shows "raises_only E (bind_st m f)"
  unfolding raises_only_def
proof (intro allI impI)
  fix s :: "'a replay_state"
  assume s: "0 \<le> st_last_seq (au_store s)"
  obtain x t where m: "m s = (x, t)" by (cases "m s")
  have t: "0 \<le> st_last_seq (au_store t)" "x = Inl e \<Longrightarrow> E e" for e
    using assms(2) s m unfolding raises_only_def by (metis fst_conv snd_conv)+
  show "0 \<le> st_last_seq (au_store (snd (bind_st m f s))) \<and> (\<forall>e. fst (bind_st m f s) = Inl e \<longrightarrow> E e)"
  proof (cases x)
    case (Inl e)
    then show ?thesis using t m by (simp add: bind_st_def)
  next
    case (Inr a)
    then have "A a" using assms(1) m by (auto simp: yields_def)
    then show ?thesis using assms(3) [of a] t(1) m Inr by (simp add: bind_st_def raises_only_def)
  qed
qed

lemma rdo_bind: "raises_only E m \<Longrightarrow> (\<And>a. raises_only E (f a)) \<Longrightarrow> raises_only E (bind_st m f)"
  by (rule rdo_bind_if [OF yields_True])

lemma rdo_then: "raises_only E m \<Longrightarrow> raises_only E n \<Longrightarrow> raises_only E (then_st m n)"
  unfolding then_st_def by (rule rdo_bind)

lemma rdo_lift: "x = Inr a \<Longrightarrow> raises_only E (lift_res x)"
  by (simp add: raises_only_def)

lemma rdo_try: "raises_only F m \<Longrightarrow> (\<And>e. F e \<Longrightarrow> c e \<or> E e) \<Longrightarrow> raises_only E (try_st c m)"
  by (fastforce simp: raises_only_def try_st_def split: prod.splits sum.splits)

lemma rdo_try_lift: "(\<And>e. x = Inl e \<Longrightarrow> c e) \<Longrightarrow> raises_only E (try_st c (lift_res x))"
  by (auto simp: raises_only_def try_st_def split: sum.split)

lemma rdo_lift_error: "(\<And>e. x = Inl e \<Longrightarrow> E e) \<Longrightarrow> raises_only E (lift_res x)"
  by (simp add: raises_only_def)

lemma rdo_finalize: "raises_only E (finalize sc outcome f)"
  by (simp add: raises_only_def finalize_def)

lemma rdo_broker_call: "raises_only E (broker_call sc i)"
  by (auto simp: raises_only_def broker_call_def split: prod.split)

lemmas rdo_rules = rdo_bind rdo_then rdo_finalize rdo_broker_call

lemma rdo_audit_add:
  assumes "storing_codec (re_codec v)" and "re_recorded_at v = Aware rec"
    and "RECORD_TYPE_BY_CLASS obj \<noteq> None" and "derive_record_id (re_codec v) obj \<noteq> []"
  shows "raises_only E (audit_add v obj (Aware c))"
  unfolding raises_only_def
proof (intro allI impI)
  fix s :: "'a replay_state"
  assume s: "0 \<le> st_last_seq (au_store s)"
  from append_ok [OF assms(1) s assms(3,4), of None c rec]
  obtain e where "append_event (re_codec v) (au_store s) obj (Aware c) (Aware rec) None = (Inr e, logged (re_codec v) rec obj c None (au_store s))"
    by auto
  then show "0 \<le> st_last_seq (au_store (snd (audit_add v obj (Aware c) s))) \<and>
      (\<forall>e. fst (audit_add v obj (Aware c) s) = Inl e \<longrightarrow> E e)"
    using s by (simp add: audit_add_def assms(2) note_event_def)
qed

lemma rdo_attempt:
  assumes "storing_codec (re_codec v)" and "re_recorded_at v = Aware rec" and "bi_idempotency_key i \<noteq> []"
    and E: "E duplicate_attempt"
  shows "raises_only E (audit_add_submit_attempt v i)"
  unfolding raises_only_def
proof (intro allI impI)
  fix s :: "'a replay_state"
  assume s: "0 \<le> st_last_seq (au_store s)"
  let ?k = "bi_idempotency_key i" and ?o = "BrokerSubmitIntent i"
  have "(\<exists>e. append_event (re_codec v) (au_store s) ?o (Aware (bi_submitted_at i)) (Aware rec) (Some ?k) =
      (Inr e, logged (re_codec v) rec ?o (bi_submitted_at i) (Some ?k) (au_store s))) \<or>
    append_event (re_codec v) (au_store s) ?o (Aware (bi_submitted_at i)) (Aware rec) (Some ?k) = (Inl duplicate_attempt, au_store s)"
  proof (cases "Some ?k \<in> attempts (au_store s)")
    case True
    then show ?thesis
      using append_duplicate [of ?o "re_codec v" ?k] assms(1)
      by (simp add: attempts_def storing_codec_def duplicate_attempt_def)
  next
    case False
    then show ?thesis
      using append_ok [OF assms(1) s, of ?o "Some ?k" "bi_submitted_at i" rec] assms(3)
      by (auto simp: derive_record_id_def)
  qed
  then show "0 \<le> st_last_seq (au_store (snd (audit_add_submit_attempt v i s))) \<and>
      (\<forall>e. fst (audit_add_submit_attempt v i s) = Inl e \<longrightarrow> E e)"
    using s E by (auto simp: audit_add_submit_attempt_def record_submit_attempt_def assms(2) note_event_def)
qed

lemma replay_artifact_total:
  assumes "sn_as_of sc = Aware a" and "decision = ''REJECT'' \<and> codes \<noteq> [] \<or> decision = ''NO_TRADE''"
  shows "\<exists>art. replay_artifact sc suffix decision codes detail = Inr art"
proof -
  have "str_upper ''NO_TRADE'' = ''NO_TRADE''" "str_upper ''REJECT'' = ''REJECT''" by code_simp+
  then show ?thesis
    using assms by (auto simp: replay_artifact_def new_artifact_def aware_of_def mk_audit_artifact_def audit_artifact_guards_def)
qed

lemma rdo_artifact:
  assumes "storing_codec (re_codec v)" and "re_recorded_at v = Aware rec" and "sn_as_of sc = Aware a"
    and "decision = ''REJECT'' \<and> codes \<noteq> [] \<or> decision = ''NO_TRADE''"
  shows "raises_only E (add_artifact v sc suffix decision codes detail)"
proof -
  obtain art where art: "replay_artifact sc suffix decision codes detail = Inr art"
    using replay_artifact_total [OF assms(3,4)] by blast
  show ?thesis
    unfolding add_artifact_def assms(3) art
    by (intro rdo_bind_if [OF always_lift] rdo_lift [OF refl] rdo_audit_add [OF assms(1,2)])
      (simp_all add: derive_record_id_def replay_artifact_id [OF art])
qed

lemma broker_artifact_total:
  assumes "sn_as_of sc = Aware a"
  shows "\<exists>art. bind_res (aware_of ''created_at'' (sn_as_of sc)) (audit_artifact_from_broker_error e (''replay-'' @ rest)) = Inr art \<and>
    aa_artifact_id art \<noteq> []"
  using assms by (auto simp: aware_of_def audit_artifact_from_broker_error_def mk_audit_artifact_def audit_artifact_guards_def)

lemma rdo_broker_error:
  assumes "storing_codec (re_codec v)" and "re_recorded_at v = Aware rec" and "sn_as_of sc = Aware a"
  shows "raises_only E (add_broker_error v sc tag e)"
proof -
  obtain art where art: "bind_res (aware_of ''created_at'' (sn_as_of sc)) (audit_artifact_from_broker_error e
      (''replay-'' @ sn_scenario_id sc @ ''-'' @ tag @ ''broker-'' @ reason_code_value (be_reason_code e))) = Inr art"
    "aa_artifact_id art \<noteq> []"
    using broker_artifact_total [OF assms(3)] by blast
  show ?thesis
    unfolding add_broker_error_def art(1) unfolding assms(3)
    by (intro rdo_bind_if [OF always_lift] rdo_lift [OF refl] rdo_audit_add [OF assms(1,2)])
      (use art(2) in \<open>simp_all add: derive_record_id_def\<close>)
qed

text \<open>The exceptions of the mints are the ones the runner catches.\<close>

definition fails_with :: "(py_error \<Rightarrow> bool) \<Rightarrow> 'a res \<Rightarrow> bool" where
  "fails_with E r \<longleftrightarrow> (\<forall>e. r = Inl e \<longrightarrow> E e)"

lemma fails_with_rules:
  "fails_with E (Inr x)" "E e \<Longrightarrow> fails_with E (Inl e)"
  "fails_with E r \<Longrightarrow> (\<And>a. fails_with E (f a)) \<Longrightarrow> fails_with E (bind_res r f)"
  "E e \<Longrightarrow> fails_with E r \<Longrightarrow> fails_with E (require c e r)"
  "is_value_error (ValidationError m)" "is_value_error (ValueError m)"
  "is_value_error e \<Longrightarrow> is_value_or_type_error e" "is_value_or_type_error (TypeError m)"
  by (auto simp: fails_with_def is_value_error_def is_value_or_type_error_def require_def bind_res_def split: sum.splits)

lemma fails_with_construct: "fails_with is_value_error (construct gs x)"
  by (auto simp: fails_with_def construct_def is_value_error_def split: option.splits)

lemma fails_with_aware:
  "fails_with is_value_error (aware_of f d)" "fails_with is_value_error (require_aware f d)" "fails_with is_value_error (aware_field f od)"
  by (auto simp: fails_with_def aware_of_def require_aware_def aware_field_def is_value_error_def split: datetime.splits option.splits)

lemma fails_with_weaken: "fails_with is_value_error r \<Longrightarrow> fails_with is_value_or_type_error r"
  by (simp add: fails_with_def is_value_or_type_error_def)

lemmas fails_with_mints = fails_with_rules fails_with_construct fails_with_aware
  fails_with_weaken [OF fails_with_construct] fails_with_weaken [OF fails_with_aware(1)]
  fails_with_weaken [OF fails_with_aware(2)] fails_with_weaken [OF fails_with_aware(3)]

lemma assemble_fails: "fails_with is_value_error (assemble_request sc c)"
  by (auto simp: assemble_request_def mk_gateway_request_def Let_def intro!: fails_with_mints)

lemma mint_ticket_fails: "fails_with is_value_or_type_error (mint_order_ticket now tk rs d)"
  by (auto simp: mint_order_ticket_def decide_order_route_def rejected_route_def
      mk_order_route_decision_def ordered_legs_def mk_order_leg_def mk_order_ticket_def Let_def
      intro!: fails_with_mints split: dyn.split option.split datetime.split)

lemma mint_submit_fails: "fails_with is_value_or_type_error (mint_broker_submit_intent clock dumpt tk n mode price d)"
  by (auto simp: mint_broker_submit_intent_def submit_intent_from_gateway_def init_broker_submit_intent_def Let_def
      intro!: fails_with_mints split: dyn.split option.split)

lemma mint_report_fails: "fails_with is_value_or_type_error (mint_execution_report i oid l n price ft ca)"
  by (auto simp: mint_execution_report_def execution_report_from_gateway_def init_execution_report_def Let_def
      intro!: fails_with_mints split: dyn.split)

text \<open>What leaves the runner: the duplicate error, an exception of the strategy other than missing
  data, and an exception of the broker that is not a \<open>BrokerError\<close>.\<close>

definition escapes :: "'b replay_scenario \<Rightarrow> py_error \<Rightarrow> bool" where
  "escapes sc e \<longleftrightarrow> e = duplicate_attempt \<or>
     sn_generate sc (build_context sc) = Inl e \<and> \<not> is_data_unavailable e \<or>
     (\<exists>w i. fst (sn_submit sc w i) = Inl e) \<and> (\<forall>b. e \<noteq> BrokerError b)"

lemma escapes_duplicate: "escapes sc duplicate_attempt"
  by (simp add: escapes_def)

lemma rdo_raise: "E e \<Longrightarrow> raises_only E (raise_st e)"
  by (simp add: raises_only_def)

lemma broker_call_fails:
  "always (\<lambda>outcome. \<forall>e. outcome = Inl e \<longrightarrow> (\<exists>b. e = BrokerError b) \<or> escapes sc e) (broker_call sc i)"
  unfolding escapes_def yields_def broker_call_def
  by (auto split: prod.splits) (metis fst_conv)+

lemma rdo_submit:
  assumes "storing_codec (re_codec v)" and "re_recorded_at v = Aware rec" and "sn_as_of sc = Aware a"
    and "bi_idempotency_key i \<noteq> []"
  shows "raises_only (escapes sc) (submit_intent_step v sc c ticket i)"
proof -
  note add = rdo_audit_add [OF assms(1,2)] rdo_attempt [where E = "escapes sc", OF assms(1,2,4) escapes_duplicate]
  note artifact = rdo_artifact [OF assms(1-3)] rdo_broker_error [OF assms(1-3)]
  note call = rdo_bind_if [OF broker_call_fails rdo_broker_call] rdo_raise
  have resubmit: "raises_only (escapes sc) (resubmit_loop v sc i first n j flags)" for first n j flags
    by (induction n arbitrary: j flags)
      (auto simp: raises_only_def [of _ "return_st _"] Let_def intro!: rdo_rules call add artifact rdo_try [OF add(2)]
        split: sum.split py_error.split)
  have filled: "raises_only (escapes sc) (filled_step v sc c ticket i fill)" for fill
    unfolding filled_step_def Let_def
    by (intro rdo_bind resubmit) (simp add: rdo_finalize split: prod.split)
  have report: "raises_only (escapes sc) (report_fill_step v sc c ticket i fill)" for fill
    unfolding report_fill_step_def assms(3)
    by (intro rdo_bind_if [OF always_try [OF always_lift]] rdo_try_lift)
      (use mint_report_fails in \<open>auto simp: derive_record_id_def assms(4) reported_key fails_with_def
        intro!: rdo_rules add artifact filled split: sum.split\<close>)
  show ?thesis
    unfolding submit_intent_step_def
    by (auto intro!: rdo_rules call add artifact report split: sum.split py_error.split)
qed

lemma rdo_scenario:
  assumes "storing_codec (re_codec v)" and "re_recorded_at v = Aware rec" and "sn_as_of sc = Aware a"
  shows "raises_only (escapes sc) (run_scenario v sc)"
proof -
  note add = rdo_audit_add [OF assms(1,2)] and artifact = rdo_artifact [OF assms(1-3)]
  have route: "raises_only (escapes sc) (try_st is_value_or_type_error (route_and_mint v sc request validated))"
    for request validated
    unfolding route_and_mint_def
    by (rule rdo_try [where F = is_value_or_type_error])
      (use mint_ticket_fails mint_submit_fails in \<open>auto simp: fails_with_def raises_only_def [of _ "return_st _"]
        intro!: rdo_bind rdo_then rdo_lift_error add\<close>)
  have approved: "raises_only (escapes sc) (approved_step v sc c request validated)" for c request validated
    unfolding approved_step_def assms(3)
    by (intro rdo_then add rdo_bind_if [OF always_try [OF route_key] route])
      (auto intro!: rdo_rules artifact rdo_submit [OF assms] split: sum.split)
  have gateway: "raises_only (escapes sc) (gateway_step v sc c request)" for c request
  proof -
    obtain d where d: "validate (re_ct_offset v) (dump_request (re_codec v)) request = Inr d" "coherent_decision request d"
      using validate_always_decides by blast
    have rejection: "gd_approved d = None \<Longrightarrow> \<exists>art. gd_rejection d = Some art \<and> aa_artifact_id art \<noteq> []"
      using d(2) by (auto simp: coherent_decision_def wf_audit_artifact_def audit_artifact_guards_def split: option.splits)
    show ?thesis
      unfolding gateway_step_def d(1) assms(3)
      by (intro rdo_then add rdo_bind_if [OF always_lift] rdo_lift [OF refl])
        (use rejection in \<open>auto simp: is_approved_def derive_record_id_def intro!: rdo_rules add approved split: option.split\<close>)
  qed
  have generate: "raises_only (escapes sc) (try_st is_data_unavailable (lift_res (sn_generate sc (build_context sc))))"
    by (auto simp: raises_only_def try_st_def escapes_def split: sum.split)
  have assemble: "raises_only (escapes sc) (try_st is_value_error (lift_res (assemble_request sc c)))" for c
    using assemble_fails [of sc c] by (intro rdo_try_lift) (simp add: fails_with_def)
  have reset: "raises_only (escapes sc) (modify_st (\<lambda>s. s\<lparr>au_record_ids := [], rp_seqs := []\<rparr>))"
    by (simp add: raises_only_def)
  show ?thesis
    unfolding run_scenario_def scenario_step_def candidate_step_def
    by (auto intro!: rdo_rules generate assemble reset artifact gateway split: sum.split list.split)
qed

text \<open>Conversely a decision that was submitted raises when it is run again on a later store.\<close>

definition not_repeatable :: "('b, replay_result) replay_step \<Rightarrow> bool" where
  "not_repeatable m \<longleftrightarrow> (\<forall>s r t u. m s = (Inr r, t) \<longrightarrow> 0 < rr_submit_attempts r \<longrightarrow>
     attempts (au_store t) \<subseteq> attempts (au_store u) \<longrightarrow> 0 \<le> st_last_seq (au_store u) \<longrightarrow>
     fst (m u) = Inl duplicate_attempt)"

lemma not_repeatable_idle: "always (\<lambda>r. rr_submit_attempts r = 0) m \<Longrightarrow> not_repeatable m"
  by (fastforce simp: not_repeatable_def yields_def)

text \<open>A step that succeeds in one state succeeds with the same value in any later one.\<close>

definition repeatable :: "('b, 'a) replay_step \<Rightarrow> bool" where
  "repeatable m \<longleftrightarrow> (\<forall>s x t u. m s = (Inr x, t) \<longrightarrow> 0 \<le> st_last_seq (au_store u) \<longrightarrow>
     (\<exists>w. m u = (Inr x, w) \<and> attempts (au_store u) \<subseteq> attempts (au_store w) \<and> 0 \<le> st_last_seq (au_store w)))"

lemma repeatable_lift: "repeatable (lift_res x)" "repeatable (return_st y)" "repeatable (try_st c (lift_res x))"
  by (auto simp: repeatable_def try_st_def split: sum.splits if_splits)

lemma repeatable_bind: "repeatable m \<Longrightarrow> (\<And>a. repeatable (f a)) \<Longrightarrow> repeatable (bind_st m f)"
  unfolding repeatable_def bind_st_eq_Inr by (meson subset_trans)

lemma repeatable_then: "repeatable m \<Longrightarrow> repeatable n \<Longrightarrow> repeatable (then_st m n)"
  unfolding then_st_def by (rule repeatable_bind)

lemma repeatable_audit_add: "repeatable (audit_add v obj c)"
  unfolding repeatable_def
proof (intro allI impI)
  fix s t u :: "'a replay_state" and x
  assume add: "audit_add v obj c s = (Inr x, t)" and u: "0 \<le> st_last_seq (au_store u)"
  let ?row = "\<lambda>st. added_row (re_codec v) st obj c (re_recorded_at v) None"
  have st: "storable (re_codec v) (au_store s) obj None"
    using add append_not_storable [of "re_codec v" "au_store s" obj None c "re_recorded_at v"]
    by (auto simp: audit_add_def note_event_def split: prod.splits sum.splits)
  then have su: "storable (re_codec v) (au_store u) obj None" by (simp add: storable_def)
  obtain e where "row_to_event (?row (au_store s)) = Inr e"
    using add append_storable [OF st, of c "re_recorded_at v"]
    by (auto simp: audit_add_def note_event_def split: prod.splits sum.splits)
  then obtain e' where "row_to_event (?row (au_store u)) = Inr e'"
    using u by (auto simp: row_to_event_def bind_res_eq_Inr mk_stored_event_def construct_eq_Inr stored_event_guards_def
        added_row_def row_for_def)
  then show "\<exists>w. audit_add v obj c u = (Inr x, w) \<and> attempts (au_store u) \<subseteq> attempts (au_store w) \<and> 0 \<le> st_last_seq (au_store w)"
    using append_storable [OF su, of c "re_recorded_at v"] u
    by (auto simp: audit_add_def note_event_def attempts_def)
qed

lemma not_repeatable_bind: "repeatable m \<Longrightarrow> (\<And>a. not_repeatable (f a)) \<Longrightarrow> not_repeatable (bind_st m f)"
  unfolding not_repeatable_def repeatable_def bind_st_eq_Inr
  by (auto simp: bind_st_def) (smt (verit) fst_conv old.prod.case old.sum.simps(6) subset_trans)

lemma not_repeatable_then: "repeatable m \<Longrightarrow> not_repeatable n \<Longrightarrow> not_repeatable (then_st m n)"
  unfolding then_st_def by (rule not_repeatable_bind)

lemma not_repeatable_submit:
  fixes sc :: "'b replay_scenario"
  shows "not_repeatable (submit_intent_step v sc c ticket i)"
  unfolding not_repeatable_def
proof (intro allI impI)
  fix s t u :: "'b replay_state" and r
  assume run: "submit_intent_step v sc c ticket i s = (Inr r, t)" and tu: "attempts (au_store t) \<subseteq> attempts (au_store u)"
  have "Some (bi_idempotency_key i) \<in> sr_idempotency_key ` set (st_rows (au_store u))"
    using attempt_recorded_after(1) [OF run] tu by (auto simp: attempts_def)
  then have "append_event (re_codec v) (au_store u) (BrokerSubmitIntent i) (Aware (bi_submitted_at i)) (re_recorded_at v)
      (Some (bi_idempotency_key i)) = (Inl duplicate_attempt, au_store u)"
    using append_duplicate [of "BrokerSubmitIntent i"] attempt_recorded_after(2) [OF run] by (simp add: duplicate_attempt_def)
  then show "fst (submit_intent_step v sc c ticket i u) = Inl duplicate_attempt"
    by (simp add: submit_intent_split then_st_def bind_st_def audit_add_submit_attempt_def record_submit_attempt_def note_event_def)
qed

lemma finalize_idle: "always (\<lambda>r. rr_submit_attempts r = 0) (finalize sc outcome (evaluated c b codes))"
  "always (\<lambda>r. rr_submit_attempts r = 0) (finalize sc outcome id)"
  "always (\<lambda>r. rr_submit_attempts r = 0) (finalize sc outcome (\<lambda>r. (evaluated c b codes r)\<lparr>rr_protection_hazard := h\<rparr>))"
  by (simp_all add: yields_def finalize_def base_result_def evaluated_def Let_def)

lemmas idle_steps = finalize_idle [THEN always_then, THEN not_repeatable_idle]

lemma not_repeatable_route:
  fixes sc :: "'b replay_scenario"
  assumes "\<And>e. always (\<lambda>r. rr_submit_attempts r = 0) (f (Inl e))" and "\<And>m. not_repeatable (f (Inr m))"
  shows "not_repeatable (bind_st (try_st caught (route_and_mint v sc request validated)) f)"
proof -
  let ?m = "route_and_mint v sc request validated"
  have rep: "repeatable ?m"
    unfolding route_and_mint_def by (auto intro!: repeatable_bind repeatable_then repeatable_lift repeatable_audit_add)
  show ?thesis
    unfolding not_repeatable_def
  proof (intro allI impI)
    fix s t u :: "'b replay_state" and r
    assume run: "bind_st (try_st caught ?m) f s = (Inr r, t)" "0 < rr_submit_attempts r"
      and tu: "attempts (au_store t) \<subseteq> attempts (au_store u)" "0 \<le> st_last_seq (au_store u)"
    obtain x s' where x: "try_st caught ?m s = (Inr x, s')" "f x s' = (Inr r, t)"
      using run(1) by (auto simp: bind_st_eq_Inr)
    obtain m where m: "x = Inr m"
    proof (cases x)
      case (Inl e)
      then have "rr_submit_attempts r = 0" using yieldsD [OF assms(1) [of e]] x(2) by blast
      then show ?thesis using run(2) by simp
    qed
    then have m': "?m s = (Inr m, s')"
      using x(1) by (auto simp: try_st_def split: prod.splits sum.splits if_splits)
    obtain w where w: "?m u = (Inr m, w)" "attempts (au_store u) \<subseteq> attempts (au_store w)" "0 \<le> st_last_seq (au_store w)"
      using rep m' tu(2) unfolding repeatable_def by blast
    have "fst (f (Inr m) w) = Inl duplicate_attempt"
      using assms(2) [of m, unfolded not_repeatable_def, rule_format, OF _ run(2) subset_trans [OF tu(1) w(2)] w(3)] x(2) m
      by simp
    then show "fst (bind_st (try_st caught ?m) f u) = Inl duplicate_attempt"
      by (simp add: bind_st_def try_st_def w(1))
  qed
qed

lemma not_repeatable_scenario: "not_repeatable (run_scenario v sc)"
proof -
  have raise: "not_repeatable (raise_st e)" for e by (simp add: not_repeatable_def)
  have reset: "repeatable (modify_st (\<lambda>s. s\<lparr>au_record_ids := [], rp_seqs := []\<rparr>))" by (simp add: repeatable_def)
  have approved: "not_repeatable (approved_step v sc c request validated)" for c request validated
    unfolding approved_step_def
    by (intro not_repeatable_then repeatable_audit_add not_repeatable_route)
      (auto intro!: always_then finalize_idle not_repeatable_submit split: prod.split)
  have gateway: "not_repeatable (gateway_step v sc c request)" for c request
    unfolding gateway_step_def
    by (intro not_repeatable_then repeatable_audit_add not_repeatable_bind repeatable_lift)
      (auto intro!: approved raise idle_steps split: option.split)
  show ?thesis
    unfolding run_scenario_def scenario_step_def candidate_step_def
    by (auto intro!: not_repeatable_then [OF reset] not_repeatable_bind gateway repeatable_lift idle_steps
        split: sum.split list.split)
qed

section \<open>A sample scenario\<close>

definition sample_scenario :: "fake_broker replay_scenario" where
  "sample_scenario =
     \<lparr>sn_scenario_id = ''s1'', sn_name = ''sample'', sn_as_of = Aware sample_as_of,
      sn_generate = (\<lambda>_. Inr [\<lparr>pp_strategy_name = CATASTROPHE_PREMIUM_CAPTURE, pp_candidate = sample_candidate,
        pp_gate = CATASTROPHE_GATE\<rparr>]),
      sn_fixture = sample_market, sn_underlying = underlying.XSP, sn_direction = PUT_CREDIT,
      sn_short = cx_short sample_context, sn_long = cx_long sample_context, sn_contracts = 1,
      sn_safety =
        \<lparr>si_account = gr_account sample_request, si_heat = gr_heat sample_request,
         si_drawdown = gr_drawdown sample_request, si_instrument = gr_instrument sample_request,
         si_spread_contract = gr_spread_contract sample_request,
         si_underlying_policy = gr_underlying_policy sample_request, si_data_snapshot = gr_data_snapshot sample_request,
         si_reconciliation = gr_reconciliation sample_request, si_liquidity = gr_liquidity sample_request,
         si_execution_quality = gr_execution_quality sample_request,
         si_concentration = gr_concentration sample_request, si_protection = gr_protection sample_request,
         si_multi_leg = gr_multi_leg sample_request, si_strategy_stage = gr_strategy_stage sample_request,
         si_feed_certification = gr_feed_certification sample_request,
         si_event_calendar = gr_event_calendar sample_request\<rparr>,
      sn_routing_state = sample_routing,
      sn_submit = (\<lambda>b i. fake_submit_order b sample_as_of (Inst i)),
      sn_limit_price = Dec 45 (- 2),
      sn_fill_assumptions = \<lparr>fa_slippage_per_contract = Dec 0 0, fa_settlement_value_per_spread = None\<rparr>,
      sn_expected_outcome = FILLED, sn_submit_mode = submit_mode.PAPER, sn_is_failure_drill = False,
      sn_expect_protection_hazard = False, sn_resubmit_attempts = 1\<rparr>"

definition sample_replay_env :: replay_env where
  "sample_replay_env = \<lparr>re_codec = sample_codec, re_recorded_at = Aware sample_as_of, re_ct_offset = sample_ct_offset\<rparr>"

definition sample_start :: "fake_broker replay_state" where
  "sample_start = \<lparr>au_store = new_audit_store, au_record_ids = [], rp_seqs = [],
     rp_world = new_fake_broker FakeFillBroker ''fake'' None\<rparr>"

lemma audit_add_ok:
  assumes "storing_codec (re_codec v)" and "re_recorded_at v = Aware rec" and "0 \<le> st_last_seq (au_store s)"
    and "RECORD_TYPE_BY_CLASS obj \<noteq> None" and "derive_record_id (re_codec v) obj \<noteq> []"
  shows "\<exists>t. audit_add v obj (Aware c) s = (Inr (), t) \<and> 0 \<le> st_last_seq (au_store t) \<and> rp_world t = rp_world s \<and>
    attempts (au_store t) = insert None (attempts (au_store s))"
  using append_ok [OF assms(1,3,4,5), of None c rec] assms(2,3) by (auto simp: audit_add_def note_event_def)

lemma attempt_ok:
  assumes "storing_codec (re_codec v)" and "re_recorded_at v = Aware rec" and "0 \<le> st_last_seq (au_store s)"
    and "bi_idempotency_key i \<noteq> []" and "Some (bi_idempotency_key i) \<notin> attempts (au_store s)"
  shows "\<exists>t. audit_add_submit_attempt v i s = (Inr (), t) \<and> 0 \<le> st_last_seq (au_store t) \<and> rp_world t = rp_world s \<and>
    attempts (au_store t) = insert (Some (bi_idempotency_key i)) (attempts (au_store s))"
  using append_ok [OF assms(1,3), of "BrokerSubmitIntent i" "Some (bi_idempotency_key i)" "bi_submitted_at i" rec] assms(2-5)
  by (auto simp: audit_add_submit_attempt_def record_submit_attempt_def note_event_def derive_record_id_def)

lemma sample_assembled: "assemble_request sample_scenario sample_candidate = Inr sample_request"
proof -
  have "passes_guards (gateway_request_guards sample_request)" using sample_request_wf by (simp add: wf_gateway_request_def)
  then have "mk_gateway_request sample_request = Inr sample_request" by (simp add: mk_gateway_request_def construct_eq_Inr)
  then show ?thesis
    by (simp add: assemble_request_def aware_of_def sample_scenario_def Let_def) (simp add: sample_request_def)
qed

lemma sample_replay:
  "\<exists>r t. run_scenario sample_replay_env sample_scenario sample_start = (Inr r, t) \<and> rr_outcome r = FILLED \<and>
     rr_idempotency_key r \<noteq> None"
proof -
  let ?v = sample_replay_env and ?sc = sample_scenario and ?b = "new_fake_broker FakeFillBroker ''fake'' None"
  obtain d w where d: "validate sample_ct_offset (dump_request sample_codec) sample_request = Inr d"
    "gd_approved d = Some w" "vi_candidate w = sample_candidate" by (rule sample_approved)
  have w: "wf_validated_trade_intent w" using approved_wf(1) [OF sample_request_wf d(1,2)] .
  let ?t = "ticket_of sample_args sample_routing sample_request w"
  let ?i = "intent_of sample_args sample_routing (Some (Dec 45 (- 2))) sample_request w"
  let ?f = "full_fill ?b sample_as_of ?i"
  have env: "storing_codec (re_codec ?v)" "re_recorded_at ?v = Aware sample_as_of" "re_ct_offset ?v = sample_ct_offset"
    "re_codec ?v = sample_codec"
    by (simp_all add: sample_replay_env_def sample_storing_codec)
  have limit: "ot_order_type ?t = order_type.LIMIT"
    by (simp add: ticket_of_def routed_ticket_def resolve_order_type_def sample_routing_def)
  have mint: "mint_order_ticket now (Inst w) sample_routing (Some (Aware sample_as_of)) = Inr ?t" for now
    using w by (simp add: mint_order_ticket_Inst ticket_of_def sample_routing_def) (simp add: sample_request_def)
  have intent: "mint_broker_submit_intent clock (dump_ticket sample_codec) (Inst ?t) 1 submit_mode.PAPER (Some (Dec 45 (- 2)))
      (Some (Aware sample_as_of)) = Inr ?i" for clock
    using mint_intent_of [OF w sample_routing_wf, of sample_args sample_request "Some (Dec 45 (- 2))" clock] limit
    by (simp add: sample_args_def) (simp add: sample_request_def)
  have pos: "0 < requested ?i" by (simp add: d(3)) (simp add: sample_candidate_def sample_leg_def)
  let ?k = "bi_idempotency_key ?i" and ?rep = "full_report ?b sample_as_of ?i"
  obtain s1 where s1: "audit_add ?v (GatewayRequest sample_request) (Aware sample_as_of) sample_start = (Inr (), s1)"
    "0 \<le> st_last_seq (au_store s1)" "rp_world s1 = ?b" "attempts (au_store s1) = {None}"
    using audit_add_ok [OF env(1,2), of sample_start "GatewayRequest sample_request" sample_as_of]
    by (auto simp: sample_start_def new_audit_store_def attempts_def)
  obtain s2 where s2: "audit_add ?v (ValidatedTradeIntent w) (Aware sample_as_of) s1 = (Inr (), s2)"
    "0 \<le> st_last_seq (au_store s2)" "rp_world s2 = ?b" "attempts (au_store s2) = {None}"
    using audit_add_ok [OF env(1,2) s1(2), of "ValidatedTradeIntent w" sample_as_of] s1(3,4) by auto
  obtain s3 where s3: "audit_add ?v (OrderTicket ?t) (Aware (ot_created_at ?t)) s2 = (Inr (), s3)"
    "0 \<le> st_last_seq (au_store s3)" "rp_world s3 = ?b" "attempts (au_store s3) = {None}"
    using audit_add_ok [OF env(1,2) s2(2), of "OrderTicket ?t" "ot_created_at ?t"] s2(3,4) by auto
  obtain s4 where s4: "audit_add_submit_attempt ?v ?i s3 = (Inr (), s4)"
    "0 \<le> st_last_seq (au_store s4)" "rp_world s4 = ?b" "Some ?k \<in> attempts (au_store s4)"
    using attempt_ok [OF env(1,2) s3(2), of ?i] s3(3,4) by auto
  obtain b where b: "fake_submit_order ?b sample_as_of (Inst ?i) = (Inr ?f, b)" "map_of (fk_fills b) ?k = Some ?f"
    using simulate_full [of ?b sample_as_of sample_as_of ?i, OF _ _ _ pos]
    by (simp add: fake_submit_order_def new_fake_broker_def fake_now_def) (simp add: intent_of_def minted_intent_def Let_def)
  let ?s4 = "s4\<lparr>rp_world := b\<rparr>"
  obtain s5 where s5: "audit_add ?v (ExecutionReport ?rep) (Aware sample_as_of) ?s4 = (Inr (), s5)"
    "rp_world s5 = b" "attempts (au_store s5) = insert None (attempts (au_store s4))"
    using audit_add_ok [OF env(1,2), of ?s4 "ExecutionReport ?rep" sample_as_of] s4(2)
    by (auto simp: derive_record_id_def full_report_def)
  have report: "mint_execution_report (Inst ?i) (Inst (bf_broker_order_id ?f)) (bf_lifecycle_state ?f) (bf_filled_contracts ?f)
      (bf_avg_fill_price ?f) (map_option Aware (bf_fill_timestamp ?f)) (map_option Aware (bf_completed_at ?f)) = Inr ?rep"
    using report_full [OF pos, of sample_as_of ?b] by (simp add: sample_request_def)
  have exec: "executed ?v ?i ?f s5"
    using env(1) s4(4) s5(2,3) b(2)
    by (simp add: executed_def storing_codec_def) (simp add: intent_of_def minted_intent_def Let_def)
  have suite: "fake_suite (\<lambda>_. sample_as_of) ?sc" by (simp add: fake_suite_def sample_scenario_def)
  obtain flags where resubmit: "resubmit_loop ?v ?sc ?i (bo_value (bf_broker_order_id ?f)) (nat (sn_resubmit_attempts ?sc)) 0
      \<lparr>rf_attempts = 1, rf_second_order = False, rf_deduped = False\<rparr> s5 = (Inr flags, s5)"
    using resubmit_deduped [OF suite exec] by blast
  have sc: "sn_as_of ?sc = Aware sample_as_of" "sn_routing_state ?sc = sample_routing" "sn_submit_mode ?sc = submit_mode.PAPER"
    "sn_limit_price ?sc = Dec 45 (- 2)" "sn_submit ?sc = (\<lambda>b i. fake_submit_order b sample_as_of (Inst i))"
    "\<exists>p. sn_generate ?sc (build_context ?sc) = Inr [p] \<and> pp_candidate p = sample_candidate"
    by (simp_all add: sample_scenario_def)
  have filled: "bf_lifecycle_state ?f = order_lifecycle_state.FILLED" by (simp add: full_fill_def)
  have finish: "\<exists>r. filled_step ?v ?sc sample_candidate ?t ?i ?f s5 = (Inr r, s5) \<and> rr_outcome r = FILLED \<and> rr_idempotency_key r \<noteq> None"
    by (simp add: filled_step_def Let_def bind_st_def resubmit filled lifecycle_outcome_def split: prod.split)
      (simp add: finalize_def base_result_def submitted_def evaluated_def Let_def)
  have submit: "submit_intent_step ?v ?sc sample_candidate ?t ?i s3 = filled_step ?v ?sc sample_candidate ?t ?i ?f s5"
    by (simp add: submit_intent_step_def report_fill_step_def then_st_def bind_st_def s4(1,3) broker_call_def sc b(1)
        try_st_def report s5(1))
  have "route_and_mint ?v ?sc sample_request w s2 = (Inr (?t, ?i), s3)"
    using mint s3(1) intent by (simp add: route_and_mint_def then_st_def bind_st_def sc env(4))
  then have "approved_step ?v ?sc sample_candidate sample_request w s1 = submit_intent_step ?v ?sc sample_candidate ?t ?i s3"
    by (simp add: approved_step_def then_st_def bind_st_def sc s2(1) try_st_def)
  then have "gateway_step ?v ?sc sample_candidate sample_request sample_start = submit_intent_step ?v ?sc sample_candidate ?t ?i s3"
    by (simp add: gateway_step_def then_st_def bind_st_def sc env(3,4) s1(1) d(1,2) is_approved_def)
  then have candidate: "candidate_step ?v ?sc sample_candidate sample_start = submit_intent_step ?v ?sc sample_candidate ?t ?i s3"
    by (simp add: candidate_step_def bind_st_def try_st_def sample_assembled)
  have "sample_start\<lparr>au_record_ids := [], rp_seqs := []\<rparr> = sample_start" by (simp add: sample_start_def)
  then have "run_scenario ?v ?sc sample_start = submit_intent_step ?v ?sc sample_candidate ?t ?i s3"
    using sc(6) candidate by (auto simp: run_scenario_def scenario_step_def then_st_def bind_st_def try_st_def)
  then show ?thesis using finish submit by auto
qed

text \<open>The trail of the result is the trail of the state it is returned in.\<close>

definition own_trail :: "replay_result \<Rightarrow> 'b replay_state \<Rightarrow> bool" where
  "own_trail r t \<longleftrightarrow> rr_audit_record_ids r = au_record_ids t \<and> rr_audit_event_seqs r = rp_seqs t"

lemma own_trail_bind: "(\<And>a. yields (\<lambda>_. True) (f a) own_trail) \<Longrightarrow> yields (\<lambda>_. True) (bind_st m f) own_trail"
  by (rule yields_bind [OF yields_True]) simp

lemma own_trail_then: "yields (\<lambda>_. True) n own_trail \<Longrightarrow> yields (\<lambda>_. True) (then_st m n) own_trail"
  unfolding then_st_def by (rule own_trail_bind)

lemma scenario_trail: "yields (\<lambda>_. True) (run_scenario v sc) own_trail"
  unfolding run_scenario_def scenario_step_def candidate_step_def gateway_step_def approved_step_def
    submit_intent_step_def report_fill_step_def filled_step_def Let_def
  by (auto intro!: own_trail_bind own_trail_then yields_raise yields_finalize
      split: sum.split list.split option.split prod.split py_error.split)
    (auto simp: own_trail_def finalize_def base_result_def evaluated_def submitted_def Let_def)

section \<open>Properties\<close>

text \<open>C7. Replay persists before it submits: whatever the scenarios of a suite and whether or not
  the run raises, rows are only added to the store, and every key the brokers learn during the run
  is the key of a submit attempt among the added rows, when a call teaches a broker at most the key
  of its intent.\<close>

theorem replay_persists_before_submit:
  assumes "\<forall>sc\<in>set scs. learns_own_key known sc" and "run_scenarios v scs s = (r, t)"
  shows "\<exists>rs. st_rows (au_store t) = st_rows (au_store s) @ rs \<and>
    known (rp_world t) \<subseteq> known (rp_world s) \<union> {k. Some k \<in> sr_idempotency_key ` set rs}"
proof -
  have "keeps (replay_rel known {}) (run_scenarios v scs)"
    unfolding run_scenarios_def by (intro replay.keeps_rules keeps_run_all assms(1))
  then have "replay_rel known {} s (snd (run_scenarios v scs s))" by (simp add: keeps_def)
  then show ?thesis using assms(2) by (simp add: replay_rel_def)
qed

lemma sample_learns: "learns_own_key (\<lambda>b. dom (map_of (fk_fills b))) sample_scenario"
proof -
  have "dom (map_of (fk_fills (snd (fake_submit_order b w (Inst i))))) \<subseteq> insert (bi_idempotency_key i) (dom (map_of (fk_fills b)))"
    for b w i
  proof (cases "fake_submit_order b w (Inst i)")
    case (Pair r b')
    show ?thesis
    proof (cases r)
      case (Inl e)
      then show ?thesis using fake.submit_failed [of b w i e] by (auto simp: Pair)
    next
      case (Inr f)
      then show ?thesis using fake.submit_stores [of b w i f b'] by (auto simp: Pair)
    qed
  qed
  then show ?thesis by (simp add: learns_own_key_def sample_scenario_def)
qed

theorem replay_persists_before_submit_witness:
  "\<exists>r t. run_scenarios sample_replay_env [sample_scenario] sample_start = (r, t) \<and>
     dom (map_of (fk_fills (rp_world t))) \<subseteq> {k. Some k \<in> attempts (au_store t)}"
proof -
  obtain r t where run: "run_scenarios sample_replay_env [sample_scenario] sample_start = (r, t)" by (rule prod.exhaust)
  have "st_rows (au_store sample_start) = []" "dom (map_of (fk_fills (rp_world sample_start))) = {}"
    by (simp_all add: sample_start_def new_audit_store_def new_fake_broker_def)
  then show ?thesis
    using replay_persists_before_submit [OF _ run, of "\<lambda>b. dom (map_of (fk_fills b))"] sample_learns run
    by (auto simp: attempts_def)
qed



text \<open>C35. The trail of a result is complete: when the scenario and the recording time are aware and
  the codec is storable, the record ids and the sequence numbers of the result are, in order, those of
  all rows the scenario added to the store.\<close>

theorem replay_trail_is_complete:
  assumes "storing_codec (re_codec v)" and "re_recorded_at v = Aware rec" and "sn_as_of sc = Aware a"
    and "0 \<le> st_last_seq (au_store s)" and "run_scenario v sc s = (Inr r, t)"
  shows "\<exists>rs. st_rows (au_store t) = st_rows (au_store s) @ rs \<and>
    rr_audit_record_ids r = map sr_record_id rs \<and> rr_audit_event_seqs r = map sr_seq rs"
proof -
  let ?s = "s\<lparr>au_record_ids := [], rp_seqs := []\<rparr>"
  have run: "scenario_step v sc ?s = (Inr r, t)"
    using assms(5) by (simp add: run_scenario_def then_st_def bind_st_def)
  have "trailed ?s t" using keeps_trail_scenario [OF assms(1-3)] run unfolding keeps_def by (metis snd_conv)
  moreover have "rr_audit_record_ids r = au_record_ids t \<and> rr_audit_event_seqs r = rp_seqs t"
    using yieldsD [OF scenario_trail TrueI assms(5)] by (simp add: own_trail_def)
  ultimately show ?thesis using assms(4) by (auto simp: trailed_def)
qed

theorem replay_trail_is_complete_witness:
  "\<exists>r t. run_scenario sample_replay_env sample_scenario sample_start = (Inr r, t) \<and>
     rr_audit_event_seqs r = map sr_seq (st_rows (au_store t))"
proof -
  obtain r t where run: "run_scenario sample_replay_env sample_scenario sample_start = (Inr r, t)"
    using sample_replay by blast
  have "\<exists>rs. st_rows (au_store t) = st_rows (au_store sample_start) @ rs \<and>
      rr_audit_record_ids r = map sr_record_id rs \<and> rr_audit_event_seqs r = map sr_seq rs"
    by (rule replay_trail_is_complete [OF _ _ _ _ run, of sample_as_of sample_as_of])
      (simp_all add: sample_replay_env_def sample_storing_codec sample_scenario_def sample_start_def new_audit_store_def)
  then show ?thesis using run by (auto simp: sample_start_def new_audit_store_def)
qed

text \<open>A retry with the same key is safe: at a fake broker the duplicate-submit drill never sees a
  second order, the store refuses every second attempt of the key, and the broker's fills change for
  the key of the result only.\<close>

theorem replay_retry_is_safe:
  assumes "sn_submit sc = (\<lambda>b i. fake_submit_order b (wall b) (Inst i))" and "run_scenario v sc s = (Inr r, t)"
  shows "\<not> rr_duplicate_created_second_order r \<and>
    (rr_store_deduped_resubmit r \<longleftrightarrow> rr_outcome r \<in> {FILLED, PARTIAL_FILL, WORKING} \<and> 0 < sn_resubmit_attempts sc) \<and>
    (\<forall>k. rr_idempotency_key r \<noteq> Some k \<longrightarrow> map_of (fk_fills (rp_world t)) k = map_of (fk_fills (rp_world s)) k)"
  using yieldsD [OF retried_scenario refl assms(2), of wall] assms(1) by (simp add: fake_suite_def retried_safely_def)

theorem replay_retry_is_safe_witness:
  "\<exists>r t. run_scenario sample_replay_env sample_scenario sample_start = (Inr r, t) \<and>
     \<not> rr_duplicate_created_second_order r \<and> rr_store_deduped_resubmit r"
proof -
  obtain r t where run: "run_scenario sample_replay_env sample_scenario sample_start = (Inr r, t)" "rr_outcome r = FILLED"
    using sample_replay by blast
  show ?thesis
    using replay_retry_is_safe [OF _ run(1), of "\<lambda>_. sample_as_of"] run by (simp add: sample_scenario_def)
qed

text \<open>C9. A replay returns unless its decision is recorded: with a storable codec and an aware time of
  recording and of the scenario, the run of a scenario either returns a result or raises the duplicate
  error of the store, an exception of the strategy that does not report missing data, or an exception
  of the broker that is no broker error. No failure of assembly, gateway, routing, minting or appending
  leaves the runner.\<close>

theorem replay_returns_unless_recorded:
  assumes "storing_codec (re_codec v)" and "re_recorded_at v = Aware rec" and "sn_as_of sc = Aware a"
    and "0 \<le> st_last_seq (au_store s)"
  shows "is_ok (fst (run_scenario v sc s)) \<or>
    fst (run_scenario v sc s) = Inl (StorageError DuplicateIdempotencyKeyError ''submit attempt already persisted'') \<or>
    (\<exists>e. fst (run_scenario v sc s) = Inl e \<and> sn_generate sc (build_context sc) = Inl e \<and> \<not> is_data_unavailable e) \<or>
    (\<exists>e w i. fst (run_scenario v sc s) = Inl e \<and> fst (sn_submit sc w i) = Inl e \<and> e \<notin> range BrokerError)"
proof (cases "fst (run_scenario v sc s)")
  case (Inl e)
  then have "escapes sc e" using rdo_scenario [OF assms(1-3)] assms(4) by (simp add: raises_only_def)
  then show ?thesis using Inl by (auto simp: escapes_def duplicate_attempt_def)
qed (simp add: is_ok_def)

theorem replay_returns_unless_recorded_witness:
  "is_ok (fst (run_scenario sample_replay_env sample_scenario sample_start))"
proof -
  let ?x = "fst (run_scenario sample_replay_env sample_scenario sample_start)"
  have "is_ok ?x \<or> ?x = Inl (StorageError DuplicateIdempotencyKeyError ''submit attempt already persisted'') \<or>
    (\<exists>e. ?x = Inl e \<and> sn_generate sample_scenario (build_context sample_scenario) = Inl e \<and> \<not> is_data_unavailable e) \<or>
    (\<exists>e w i. ?x = Inl e \<and> fst (sn_submit sample_scenario w i) = Inl e \<and> e \<notin> range BrokerError)"
    by (rule replay_returns_unless_recorded [of _ sample_as_of _ sample_as_of])
      (simp_all add: sample_replay_env_def sample_storing_codec,
       simp_all add: sample_scenario_def sample_start_def new_audit_store_def)
  then show ?thesis using sample_replay by auto
qed

text \<open>C10. A submitted decision cannot be replayed again: when a scenario returned a result with a
  submission, running it on any later state of the store raises the duplicate error.\<close>

theorem replay_of_recorded_decision_raises:
  assumes "run_scenario v sc s = (Inr r, t)" and "0 < rr_submit_attempts r"
    and "st_rows (au_store u) = st_rows (au_store t) @ rs" and "0 \<le> st_last_seq (au_store u)"
  shows "fst (run_scenario v sc u) = Inl (StorageError DuplicateIdempotencyKeyError ''submit attempt already persisted'')"
proof -
  have "attempts (au_store t) \<subseteq> attempts (au_store u)" using assms(3) by (auto simp: attempts_def)
  then show ?thesis
    using not_repeatable_scenario [of v sc] assms(1,2,4) unfolding not_repeatable_def duplicate_attempt_def by blast
qed

theorem replay_of_recorded_decision_raises_witness:
  "\<exists>r t e. run_scenario sample_replay_env sample_scenario sample_start = (Inr r, t) \<and>
     fst (run_scenario sample_replay_env sample_scenario t) = Inl e"
proof -
  obtain r t where run: "run_scenario sample_replay_env sample_scenario sample_start = (Inr r, t)" "rr_outcome r = FILLED"
    using sample_replay by blast
  have n: "0 < rr_submit_attempts r"
    using yieldsD [OF coherent_scenario refl run(1)] run(2) by (simp add: coherent_result_def coherent_outcome_def)
  have "0 \<le> st_last_seq (au_store (snd (run_scenario sample_replay_env sample_scenario sample_start)))"
    using rdo_scenario [of sample_replay_env sample_as_of sample_scenario sample_as_of] sample_storing_codec
    by (simp add: raises_only_def sample_replay_env_def sample_start_def new_audit_store_def)
      (simp add: sample_scenario_def)
  then show ?thesis
    using replay_of_recorded_decision_raises [OF run(1) n, of t "[]"] run(1) by auto
qed

text \<open>C36. The summary of a suite is exact: the maximum drawdown is the largest fall, from an earlier
  point to a later one, of the equity curve that starts at zero and adds the supported profits in order,
  the cumulative profit is its last point, and the suite passed exactly when every scenario passed,
  counted apart for drills and replays.\<close>

theorem suite_summary_is_exact:
  "ru_max_drawdown (summarize_run rs) = largest_fall (equity_curve (supported_pnls rs)) \<and>
   ru_cumulative_realized_pnl (summarize_run rs) = last (equity_curve (supported_pnls rs)) \<and>
   (all_passed (summarize_run rs) \<longleftrightarrow> filter (\<lambda>r. \<not> rr_passed r) rs = []) \<and>
   ru_replay_scenarios_passed (summarize_run rs) + ru_failure_drills_passed (summarize_run rs) =
     ru_scenarios_passed (summarize_run rs) \<and>
   ru_failure_drills_passed (summarize_run rs) \<le> ru_failure_drills_total (summarize_run rs)"
proof -
  have all: "length (filter P xs) = length xs \<longleftrightarrow> filter (\<lambda>x. \<not> P x) xs = []" for P and xs :: "replay_result list"
    by (metis filter_empty_conv filter_id_conv length_filter_less less_irrefl)
  have part: "length (filter (\<lambda>r. rr_passed r \<and> \<not> rr_is_failure_drill r) rs) +
      length (filter (\<lambda>r. rr_is_failure_drill r \<and> rr_passed r) rs) = length (filter rr_passed rs)"
    by (induction rs) auto
  have le: "length (filter (\<lambda>r. rr_is_failure_drill r \<and> rr_passed r) rs) \<le> length (filter rr_is_failure_drill rs)"
    by (induction rs) auto
  show ?thesis
    using part le by (simp add: summarize_run_def Let_def equity_fold all_passed_def all flip: of_nat_add)
qed

end
