(* ===== verification/Utf8.thy ===== *)
theory Utf8
  imports Prelude
begin

text \<open>
  Strings as byte sequences: the bytes that are text in UTF-8 (\<open>read_text(encoding="utf-8")\<close> raises
  on any others) and the universal translation of line ends.
\<close>

text \<open>Strict UTF-8: no overlong form, no surrogate, nothing above \<open>U+10FFFF\<close>.\<close>

definition in_range :: "nat \<Rightarrow> nat \<Rightarrow> char \<Rightarrow> bool" where
  "in_range lo hi c \<longleftrightarrow> (let n = of_char c in lo \<le> n \<and> n \<le> hi)"

abbreviation trail :: "char \<Rightarrow> bool" where "trail \<equiv> in_range 0x80 0xBF"

fun utf8_ok :: "string \<Rightarrow> bool" where
  "utf8_ok [] \<longleftrightarrow> True"
| "utf8_ok (a # s) \<longleftrightarrow>
     (if in_range 0 0x7F a then utf8_ok s
      else case s of
        [] \<Rightarrow> False
      | b # s1 \<Rightarrow>
          if in_range 0xC2 0xDF a then trail b \<and> utf8_ok s1
          else (case s1 of
            [] \<Rightarrow> False
          | c # s2 \<Rightarrow>
              if in_range 0xE0 0xEF a
              then in_range (if a = CHR 0xE0 then 0xA0 else 0x80) (if a = CHR 0xED then 0x9F else 0xBF) b \<and>
                trail c \<and> utf8_ok s2
              else (case s2 of
                [] \<Rightarrow> False
              | d # s3 \<Rightarrow>
                  in_range 0xF0 0xF4 a \<and>
                  in_range (if a = CHR 0xF0 then 0x90 else 0x80) (if a = CHR 0xF4 then 0x8F else 0xBF) b \<and>
                  trail c \<and> trail d \<and> utf8_ok s3)))"

text \<open>\<open>not text.strip()\<close>: white space only, with the white space of Unicode beyond ASCII in UTF-8.\<close>

fun all_space :: "string \<Rightarrow> bool" where
  "all_space [] \<longleftrightarrow> True"
| "all_space (a # s) \<longleftrightarrow>
     (if is_space a then all_space s
      else case s of
          b # r \<Rightarrow>
            if a = CHR 0xC2 \<and> (b = CHR 0x85 \<or> b = CHR 0xA0) then all_space r
            else (case r of
                c # t \<Rightarrow>
                  (a = CHR 0xE1 \<and> b = CHR 0x9A \<and> c = CHR 0x80 \<or>
                   a = CHR 0xE2 \<and> b = CHR 0x80 \<and> (in_range 0x80 0x8A c \<or> c = CHR 0xA8 \<or> c = CHR 0xA9 \<or> c = CHR 0xAF) \<or>
                   a = CHR 0xE2 \<and> b = CHR 0x81 \<and> c = CHR 0x9F \<or>
                   a = CHR 0xE3 \<and> b = CHR 0x80 \<and> c = CHR 0x80) \<and> all_space t
              | [] \<Rightarrow> False)
        | [] \<Rightarrow> False)"

text \<open>\<open>read_text\<close> turns a carriage return, with or without a line feed behind it, into a line feed;
  the flag says that the character before was a carriage return.\<close>

fun newlines_from :: "bool \<Rightarrow> string \<Rightarrow> string" where
  "newlines_from after_cr [] = []"
| "newlines_from after_cr (c # s) =
     (if c = CHR 0x0D then CHR 0x0A # newlines_from True s
      else if c = CHR 0x0A \<and> after_cr then newlines_from False s
      else c # newlines_from False s)"

definition universal_newlines :: "string \<Rightarrow> string" where
  "universal_newlines s = newlines_from False s"

end
