(* ===== verification/Agents.thy ===== *)
theory Agents
  imports Reports Replay ControlPlane Utf8
begin

text \<open>
  The read-only agent layer (\<open>agents/permissions.py\<close>, \<open>roles.py\<close>, \<open>candidate_boundary.py\<close>,
  \<open>tools.py\<close>, \<open>sdk_adapter.py\<close>): modes, tools and validated tool policies, the guard on write paths,
  the typed boundary for candidates, and the read tools over a store view that refuses every write.
  \<open>CandidateTradeIntent.model_validate\<close> is a parameter. Strings are sequences of bytes in UTF-8.
\<close>

definition permission_error :: "string \<Rightarrow> py_error" where
  "permission_error m = AgentError ''AgentPermissionError'' m"

section \<open>Modes, tools and policies\<close>

datatype agent_mode = DEV_WORKBENCH | DEPLOYED_AGENT_SERVICE

datatype tool_name =
    READ | GLOB | GREP | WEB_SEARCH | WEB_FETCH | AGENT | ASK_USER_QUESTION
  | BASH | EDIT | WRITE
  | READ_MARKET_SNAPSHOT | READ_AUDIT_SUMMARY | READ_STRATEGY_SPEC | SEARCH_REPLAY_RESULTS
  | PROPOSE_CANDIDATE_TRADE_INTENT | EXPLAIN_GATEWAY_REJECTION | DRAFT_DAILY_REPORT
  | DRAFT_RESEARCH_CHANGE_REQUEST

primrec tool_value :: "tool_name \<Rightarrow> string" where
  "tool_value READ = ''Read''"
| "tool_value GLOB = ''Glob''"
| "tool_value GREP = ''Grep''"
| "tool_value WEB_SEARCH = ''WebSearch''"
| "tool_value WEB_FETCH = ''WebFetch''"
| "tool_value AGENT = ''Agent''"
| "tool_value ASK_USER_QUESTION = ''AskUserQuestion''"
| "tool_value BASH = ''Bash''"
| "tool_value EDIT = ''Edit''"
| "tool_value WRITE = ''Write''"
| "tool_value READ_MARKET_SNAPSHOT = ''hermes.read_market_snapshot''"
| "tool_value READ_AUDIT_SUMMARY = ''hermes.read_audit_summary''"
| "tool_value READ_STRATEGY_SPEC = ''hermes.read_strategy_spec''"
| "tool_value SEARCH_REPLAY_RESULTS = ''hermes.search_replay_results''"
| "tool_value PROPOSE_CANDIDATE_TRADE_INTENT = ''hermes.propose_candidate_trade_intent''"
| "tool_value EXPLAIN_GATEWAY_REJECTION = ''hermes.explain_gateway_rejection''"
| "tool_value DRAFT_DAILY_REPORT = ''hermes.draft_daily_report''"
| "tool_value DRAFT_RESEARCH_CHANGE_REQUEST = ''hermes.draft_research_change_request''"

definition DEV_ONLY_TOOLS :: "tool_name list" where
  "DEV_ONLY_TOOLS = [BASH, EDIT, WRITE]"

definition FORBIDDEN_TOOLS :: "string list" where
  "FORBIDDEN_TOOLS =
     [''submit_order'', ''cancel_order'', ''replace_order'', ''flatten_position'', ''mint_order_ticket'',
      ''mint_broker_submit_intent'', ''set_submission_enabled'', ''set_live_submit_enabled'', ''change_kill_switch'',
      ''write_env_file'', ''read_broker_secret'']"

definition HOOK_LOCKED_WRITE_PREFIXES :: "string list" where
  "HOOK_LOCKED_WRITE_PREFIXES =
     [''CONSTITUTION.md'', ''schemas/'', ''gateway/'', ''broker/'', ''brokers/'', ''temporal_workflows/'', ''tests/'',
      ''policy/'']"

definition DEPLOYED_ALLOWED :: "tool_name list" where
  "DEPLOYED_ALLOWED =
     [READ, GLOB, GREP, WEB_SEARCH, WEB_FETCH, AGENT, ASK_USER_QUESTION, READ_MARKET_SNAPSHOT, READ_AUDIT_SUMMARY,
      READ_STRATEGY_SPEC, SEARCH_REPLAY_RESULTS, PROPOSE_CANDIDATE_TRADE_INTENT, EXPLAIN_GATEWAY_REJECTION,
      DRAFT_DAILY_REPORT, DRAFT_RESEARCH_CHANGE_REQUEST]"

definition DEV_ALLOWED :: "tool_name list" where
  "DEV_ALLOWED = DEPLOYED_ALLOWED @ [BASH, EDIT, WRITE]"

definition mode_allowlist :: "agent_mode dyn \<Rightarrow> tool_name list res" where
  "mode_allowlist mode =
     (case mode of
        NotInst t \<Rightarrow> Inl (permission_error ''mode must be an AgentMode member'')
      | Inst m \<Rightarrow> (case m of DEPLOYED_AGENT_SERVICE \<Rightarrow> Inr DEPLOYED_ALLOWED | DEV_WORKBENCH \<Rightarrow> Inr DEV_ALLOWED))"

definition disallowed_tools :: "string list" where
  "disallowed_tools = sort FORBIDDEN_TOOLS"

definition is_forbidden_tool :: "string \<Rightarrow> bool" where
  "is_forbidden_tool name \<longleftrightarrow> name \<in> set FORBIDDEN_TOOLS"

record agent_tool_policy =
  ap_mode :: agent_mode
  ap_allowed_tools :: "tool_name list"

fun check_grants :: "agent_mode \<Rightarrow> tool_name list \<Rightarrow> tool_name dyn list \<Rightarrow> tool_name list \<Rightarrow> tool_name list res" where
  "check_grants mode permitted [] seen = Inr seen"
| "check_grants mode permitted (NotInst t # ts) seen =
     Inl (permission_error ''allowed_tools must contain ToolName members'')"
| "check_grants mode permitted (Inst tool # ts) seen =
     (if is_forbidden_tool (tool_value tool) then Inl (permission_error ''tool is on the hard forbidden list'')
      else if tool \<in> set seen then Inl (permission_error ''tool granted more than once'')
      else if mode = DEPLOYED_AGENT_SERVICE \<and> tool \<in> set DEV_ONLY_TOOLS
        then Inl (permission_error ''deployed agent service must not hold a dev-only tool'')
      else if tool \<notin> set permitted then Inl (permission_error ''tool is not in the allowlist'')
      else check_grants mode permitted ts (seen @ [tool]))"

definition mk_agent_tool_policy :: "agent_mode dyn \<Rightarrow> tool_name dyn list \<Rightarrow> agent_tool_policy res" where
  "mk_agent_tool_policy mode tools =
     (case mode of
        NotInst t \<Rightarrow> Inl (permission_error ''mode must be an AgentMode member'')
      | Inst m \<Rightarrow>
          require (tools \<noteq> []) (permission_error ''an agent policy must grant at least one tool'') (
          bind_res (mode_allowlist mode) (\<lambda>permitted.
          map_res (\<lambda>ts. \<lparr>ap_mode = m, ap_allowed_tools = ts\<rparr>) (check_grants m permitted tools []))))"

definition policy_allows :: "agent_tool_policy \<Rightarrow> tool_name \<Rightarrow> bool" where
  "policy_allows p tool \<longleftrightarrow> tool \<in> set (ap_allowed_tools p)"

definition policy_tool_names :: "agent_tool_policy \<Rightarrow> string list" where
  "policy_tool_names p = map tool_value (ap_allowed_tools p)"

section \<open>Roles and session options\<close>

datatype agent_role = RESEARCH | MARKET_CONTEXT | CANDIDATE_EXPLANATION | OPS_SUMMARY | RISK_NARRATIVE

primrec ROLE_TOOLS :: "agent_role \<Rightarrow> tool_name list" where
  "ROLE_TOOLS RESEARCH =
     [READ, GLOB, GREP, WEB_SEARCH, WEB_FETCH, READ_MARKET_SNAPSHOT, READ_AUDIT_SUMMARY, READ_STRATEGY_SPEC,
      SEARCH_REPLAY_RESULTS, DRAFT_RESEARCH_CHANGE_REQUEST]"
| "ROLE_TOOLS MARKET_CONTEXT = [READ, GREP, READ_MARKET_SNAPSHOT, READ_STRATEGY_SPEC, SEARCH_REPLAY_RESULTS]"
| "ROLE_TOOLS CANDIDATE_EXPLANATION =
     [READ, GREP, READ_MARKET_SNAPSHOT, READ_AUDIT_SUMMARY, PROPOSE_CANDIDATE_TRADE_INTENT, EXPLAIN_GATEWAY_REJECTION]"
| "ROLE_TOOLS OPS_SUMMARY = [READ, GREP, READ_AUDIT_SUMMARY, DRAFT_DAILY_REPORT]"
| "ROLE_TOOLS RISK_NARRATIVE = [READ, GREP, READ_AUDIT_SUMMARY, DRAFT_DAILY_REPORT, EXPLAIN_GATEWAY_REJECTION]"

definition ALL_ROLES :: "agent_role list" where
  "ALL_ROLES = [RESEARCH, MARKET_CONTEXT, CANDIDATE_EXPLANATION, OPS_SUMMARY, RISK_NARRATIVE]"

definition policy_for_role :: "agent_role \<Rightarrow> agent_tool_policy res" where
  "policy_for_role role = mk_agent_tool_policy (Inst DEPLOYED_AGENT_SERVICE) (map Inst (ROLE_TOOLS role))"

definition all_role_policies :: "(agent_role \<times> agent_tool_policy) list res" where
  "all_role_policies = collect_res (\<lambda>role. map_res (Pair role) (policy_for_role role)) ALL_ROLES"

primrec ROLE_PROMPTS :: "agent_role \<Rightarrow> string" where
  "ROLE_PROMPTS RESEARCH =
     ''You are the Hermes ResearchAgent (World A, read-only). Research market structure, '' @
      ''audit history, strategy specs, and replay results. You may draft human-reviewed '' @
      ''research change requests. You never approve, route, ticket, submit, or halt; you '' @
      ''cannot mint any protected execution object.''"
| "ROLE_PROMPTS MARKET_CONTEXT =
     ''You are the Hermes MarketContextAgent (World A, read-only). Summarize current '' @
      ''market context from read-only snapshots, strategy specs, and replay results. You '' @
      ''propose nothing and mint nothing.''"
| "ROLE_PROMPTS CANDIDATE_EXPLANATION =
     ''You are the Hermes CandidateExplanationAgent (World A). You may propose a single '' @
      ''typed CandidateTradeIntent through the typed boundary and explain Gateway '' @
      ''rejections. The candidate has no order type and no approval tokens and cannot be '' @
      ''routed; only the deterministic Gateway validates and mints protected objects.''"
| "ROLE_PROMPTS OPS_SUMMARY =
     ''You are the Hermes OpsSummaryAgent (World A, read-only). Summarize operations from '' @
      ''the audit store and the daily report. You change no record and mint nothing.''"
| "ROLE_PROMPTS RISK_NARRATIVE =
     ''You are the Hermes RiskNarrativeAgent (World A, read-only). Narrate the risk '' @
      ''surface from the audit store, the daily report, and Gateway rejections. You change '' @
      ''no record and mint nothing.''"

record agent_service_options =
  ao_role :: agent_role
  ao_mode :: agent_mode
  ao_allowed_tools :: "string list"
  ao_disallowed_tools :: "string list"
  ao_system_prompt :: string
  ao_permission_mode :: string

definition build_agent_service_options :: "agent_role \<Rightarrow> agent_service_options res" where
  "build_agent_service_options role =
     map_res (\<lambda>policy.
       \<lparr>ao_role = role, ao_mode = ap_mode policy, ao_allowed_tools = policy_tool_names policy,
        ao_disallowed_tools = disallowed_tools, ao_system_prompt = ROLE_PROMPTS role, ao_permission_mode = ''default''\<rparr>)
       (policy_for_role role)"

record session_kwargs =
  kw_allowed_tools :: "string list"
  kw_disallowed_tools :: "string list"
  kw_system_prompt :: string
  kw_permission_mode :: string

definition build_session_kwargs :: "bool \<Rightarrow> agent_role \<Rightarrow> session_kwargs res" where
  "build_session_kwargs sdk_installed role =
     bind_res (build_agent_service_options role) (\<lambda>o'.
     require sdk_installed (AgentError ''AgentSdkUnavailableError'' ''claude-agent-sdk is not installed'')
       (Inr \<lparr>kw_allowed_tools = ao_allowed_tools o', kw_disallowed_tools = ao_disallowed_tools o',
             kw_system_prompt = ao_system_prompt o', kw_permission_mode = ao_permission_mode o'\<rparr>))"

section \<open>Write paths\<close>

text \<open>\<open>PurePosixPath\<close> after \<open>\\<close> became \<open>/\<close>: empty and \<open>.\<close> components are dropped. A path is absolute
  when it starts with a separator. \<open>PureWindowsPath\<close> sees a drive when the second character is a colon;
  its other drives start with two separators. \<open>as_posix\<close> of the empty path is a dot.\<close>

definition to_slash :: "string \<Rightarrow> string" where
  "to_slash p = map (\<lambda>c. if c = CHR 0x5C then CHR ''/'' else c) p"

definition path_parts :: "string \<Rightarrow> string list" where
  "path_parts p = filter (\<lambda>w. w \<noteq> [] \<and> w \<noteq> ''.'') (str_split (CHR ''/'') (to_slash p))"

definition is_rooted :: "string \<Rightarrow> bool" where
  "is_rooted p \<longleftrightarrow> take 1 (to_slash p) = ''/''"

definition has_drive :: "string \<Rightarrow> bool" where
  "has_drive p \<longleftrightarrow> take 1 (dropWhile (in_range 0x80 0xBF) (drop 1 p)) = '':''"

definition as_posix :: "string list \<Rightarrow> string" where
  "as_posix parts = (if parts = [] then ''.'' else str_join ''/'' parts)"

text \<open>\<open>casefold\<close>: ASCII letters and the characters whose folding is ASCII text. Every other character
  folds to a text that contains no ASCII letter or is not wholly ASCII, so it is left as it is: the
  comparison with the ASCII prefixes cannot tell.\<close>

definition ASCII_FOLDS :: "(string \<times> string) list" where
  "ASCII_FOLDS =
     [([CHR 0xC3, CHR 0x9F], ''ss''), ([CHR 0xE1, CHR 0xBA, CHR 0x9E], ''ss''), ([CHR 0xC5, CHR 0xBF], ''s''),
      ([CHR 0xE2, CHR 0x84, CHR 0xAA], ''k''),
      ([CHR 0xEF, CHR 0xAC, CHR 0x80], ''ff''), ([CHR 0xEF, CHR 0xAC, CHR 0x81], ''fi''),
      ([CHR 0xEF, CHR 0xAC, CHR 0x82], ''fl''), ([CHR 0xEF, CHR 0xAC, CHR 0x83], ''ffi''),
      ([CHR 0xEF, CHR 0xAC, CHR 0x84], ''ffl''), ([CHR 0xEF, CHR 0xAC, CHR 0x85], ''st''),
      ([CHR 0xEF, CHR 0xAC, CHR 0x86], ''st'')]"

definition starts_with :: "string \<Rightarrow> string \<Rightarrow> bool" where
  "starts_with p s \<longleftrightarrow> take (length p) s = p"

definition fold_at :: "string \<Rightarrow> (string \<times> string) option" where
  "fold_at s = find (\<lambda>(p, t). starts_with p s) ASCII_FOLDS"

text \<open>The argument \<open>n\<close> counts the bytes still covered by the character folded last.\<close>

fun casefold_from :: "nat \<Rightarrow> string \<Rightarrow> string" where
  "casefold_from n [] = []"
| "casefold_from (Suc n) (a # s) = casefold_from n s"
| "casefold_from 0 (a # s) =
     (case fold_at (a # s) of
        Some (p, t) \<Rightarrow> t @ casefold_from (length p - 1) s
      | None \<Rightarrow> char_lower a # casefold_from 0 s)"

definition casefold :: "string \<Rightarrow> string" where
  "casefold s = casefold_from 0 s"

definition rstrip_slash :: "string \<Rightarrow> string" where
  "rstrip_slash s = rev (dropWhile (\<lambda>c. c = CHR ''/'') (rev s))"

definition hits_locked :: "string \<Rightarrow> string \<Rightarrow> bool" where
  "hits_locked as_text prefix \<longleftrightarrow>
     (let locked = casefold (rstrip_slash prefix) in as_text = locked \<or> starts_with (locked @ ''/'') as_text)"

definition assert_write_path_allowed :: "string dyn \<Rightarrow> unit res" where
  "assert_write_path_allowed path =
     (case path of
        NotInst t \<Rightarrow> Inl (permission_error ''write path must be a non-empty string'')
      | Inst p \<Rightarrow>
          require (\<not> all_space p) (permission_error ''write path must be a non-empty string'') (
          require (\<not> (is_rooted p \<or> has_drive p \<or> ''..'' \<in> set (path_parts p)))
            (permission_error ''write path must be repo-relative without .. or a drive'') (
          let as_text = casefold (as_posix (path_parts p)) in
          require (\<not> list_ex (hits_locked as_text) HOOK_LOCKED_WRITE_PREFIXES)
            (permission_error ''write path targets a hook-locked tree'') (Inr ()))))"

section \<open>The candidate boundary\<close>

definition boundary_error :: "string \<Rightarrow> py_error" where
  "boundary_error m = AgentError ''CandidateBoundaryError'' m"

definition at_boundary :: "'a res \<Rightarrow> 'a res" where
  "at_boundary r =
     (case r of
        Inl (ValidationError m) \<Rightarrow> Inl (boundary_error ''agent candidate rejected at the typed boundary'')
      | _ \<Rightarrow> r)"

definition parse_candidate_intent :: "('p \<Rightarrow> candidate_trade_intent res) \<Rightarrow> 'p dyn \<Rightarrow> candidate_trade_intent res" where
  "parse_candidate_intent model_validate arg =
     (case arg of
        NotInst t \<Rightarrow> Inl (boundary_error ''candidate payload must be a mapping'')
      | Inst p \<Rightarrow> at_boundary (model_validate p))"

definition parse_candidate_intent_json :: "(string \<Rightarrow> candidate_trade_intent res) \<Rightarrow> string dyn \<Rightarrow> candidate_trade_intent res" where
  "parse_candidate_intent_json model_validate_json arg =
     (case arg of
        NotInst t \<Rightarrow> Inl (boundary_error ''candidate JSON must be a non-empty string'')
      | Inst raw \<Rightarrow>
          require (\<not> all_space raw) (boundary_error ''candidate JSON must be a non-empty string'')
            (at_boundary (model_validate_json raw)))"

definition propose_candidate_trade_intent ::
  "('p \<Rightarrow> candidate_trade_intent res) \<Rightarrow> 'p dyn \<Rightarrow> candidate_trade_intent res" where
  "propose_candidate_trade_intent model_validate arg = parse_candidate_intent model_validate arg"

section \<open>The read-only store view\<close>

record read_only_store_view =
  rv_store :: audit_store

definition mk_read_only_store_view :: "audit_store dyn \<Rightarrow> read_only_store_view res" where
  "mk_read_only_store_view arg =
     (case arg of
        NotInst t \<Rightarrow> Inl (permission_error ''ReadOnlyStoreView requires an AuditStore'')
      | Inst st \<Rightarrow> Inr \<lparr>rv_store = st\<rparr>)"

definition view_iter_events :: "read_only_store_view \<Rightarrow> record_type option \<Rightarrow> stored_event list res" where
  "view_iter_events view rt = iter_events (rv_store view) rt"

definition view_get_by_seq :: "read_only_store_view \<Rightarrow> int \<Rightarrow> stored_event option res" where
  "view_get_by_seq view seq = get_by_seq (rv_store view) seq"

definition view_get_by_idempotency_key :: "read_only_store_view \<Rightarrow> string \<Rightarrow> stored_event option res" where
  "view_get_by_idempotency_key view key = get_by_idempotency_key (rv_store view) key"

text \<open>The writing methods take anything and raise; the store stays what it was.\<close>

definition view_append :: "read_only_store_view \<Rightarrow> 'x \<Rightarrow> stored_event res \<times> read_only_store_view" where
  "view_append view args = (Inl (permission_error ''read-only store view cannot append to the audit store''), view)"

definition view_record_submit_attempt :: "read_only_store_view \<Rightarrow> 'x \<Rightarrow> stored_event res \<times> read_only_store_view" where
  "view_record_submit_attempt view args =
     (Inl (permission_error ''read-only store view cannot record a submit attempt''), view)"

definition view_rehydrate :: "read_only_store_view \<Rightarrow> 'x \<Rightarrow> hermes_model res \<times> read_only_store_view" where
  "view_rehydrate view args = (Inl (permission_error ''read-only store view cannot rehydrate''), view)"

section \<open>Read tools\<close>

text \<open>The tallies of the audit summary, a dict from names to counts.\<close>

record record_type_count =
  tc_record_type :: string
  tc_count :: int

record audit_summary =
  as_total_events :: int
  as_counts :: "record_type_count list"

definition count_for :: "audit_summary \<Rightarrow> record_type \<Rightarrow> int" where
  "count_for s rt =
     (case find (\<lambda>c. tc_record_type c = record_type_value rt) (as_counts s) of
        Some c \<Rightarrow> tc_count c | None \<Rightarrow> 0)"

text \<open>\<open>event.created_at < window_start\<close> and \<open>event.created_at > window_end\<close> skip the event.\<close>

definition summary_skips :: "datetime option \<Rightarrow> datetime option \<Rightarrow> stored_event \<Rightarrow> bool res" where
  "summary_skips window_start window_end e =
     bind_res (case window_start of None \<Rightarrow> Inr True | Some s \<Rightarrow> dt_le s (Aware (se_created_at e))) (\<lambda>a.
     if \<not> a then Inr True
     else map_res Not (case window_end of None \<Rightarrow> Inr True | Some u \<Rightarrow> dt_le (Aware (se_created_at e)) u))"

fun summary_loop :: "datetime option \<Rightarrow> datetime option \<Rightarrow> stored_event list \<Rightarrow> (string \<times> int) list \<Rightarrow> int
    \<Rightarrow> ((string \<times> int) list \<times> int) res" where
  "summary_loop window_start window_end [] counts k = Inr (counts, k)"
| "summary_loop window_start window_end (e # es) counts k =
     bind_res (summary_skips window_start window_end e) (\<lambda>skip.
     if skip then summary_loop window_start window_end es counts k
     else summary_loop window_start window_end es (bump (record_type_value (se_record_type e)) counts) (k + 1))"

definition read_audit_summary :: "read_only_store_view \<Rightarrow> datetime option \<Rightarrow> datetime option \<Rightarrow> audit_summary res" where
  "read_audit_summary view window_start window_end =
     bind_res (case (window_start, window_end) of (Some s, Some u) \<Rightarrow> dt_le s u | _ \<Rightarrow> Inr True) (\<lambda>ok.
     require ok (ValueError ''window_start must not be after window_end'') (
     bind_res (view_iter_events view None) (\<lambda>events.
     bind_res (summary_loop window_start window_end events [] 0) (\<lambda>(counts, k).
     Inr \<lparr>as_total_events = k,
           as_counts = map (\<lambda>(k, n). \<lparr>tc_record_type = k, tc_count = n\<rparr>) (sort_key fst counts)\<rparr>))))"

definition read_market_snapshot :: "market_data_adapter \<Rightarrow> underlying dyn \<Rightarrow> broker_data_snapshot res" where
  "read_market_snapshot adapter u =
     (case u of
        NotInst t \<Rightarrow> Inl (permission_error ''read_market_snapshot requires an Underlying enum'')
      | Inst x \<Rightarrow> md_data_snapshot adapter x)"

text \<open>A strategy is its name and its gate.\<close>

record strategy_spec_view =
  sv_strategy_name :: string
  sv_live_eligible :: bool
  sv_gate :: strategy_gate

definition read_strategy_spec :: "(strategy_name \<times> strategy_gate) dyn \<Rightarrow> strategy_spec_view res" where
  "read_strategy_spec strategy =
     (case strategy of
        NotInst t \<Rightarrow> Inl (permission_error ''read_strategy_spec requires a Strategy'')
      | Inst (name, gate) \<Rightarrow>
          Inr \<lparr>sv_strategy_name = strategy_name_value name, sv_live_eligible = live_eligible gate, sv_gate = gate\<rparr>)"

fun search_replay_results ::
  "replay_outcome option \<Rightarrow> reason_code option \<Rightarrow> replay_result dyn list \<Rightarrow> replay_result list res" where
  "search_replay_results outcome code [] = Inr []"
| "search_replay_results outcome code (NotInst t # rs) =
     Inl (permission_error ''search_replay_results expects ReplayResult items'')"
| "search_replay_results outcome code (Inst r # rs) =
     map_res (\<lambda>sel.
       if (case outcome of Some o' \<Rightarrow> rr_outcome r \<noteq> o' | None \<Rightarrow> False) then sel
       else if (case code of Some c \<Rightarrow> c \<notin> set (rr_reason_codes r) | None \<Rightarrow> False) then sel
       else r # sel) (search_replay_results outcome code rs)"

definition draft_daily_report :: "codec \<Rightarrow> read_only_store_view \<Rightarrow> report_request \<Rightarrow> daily_report res" where
  "draft_daily_report cd view q = build_daily_report cd (rv_store view) q"

text \<open>The sentences per reason code, with the section sign in UTF-8.\<close>

definition section_sign :: string where
  "section_sign = [CHR 0xC2, CHR 0xA7]"

definition REASON_CODE_EXPLANATIONS :: "(reason_code \<times> string) list" where
  "REASON_CODE_EXPLANATIONS =
     [(DELTA_BAND_VIOLATION, ''short-strike |delta| exceeded the Constitution '' @ section_sign @ ''3 cap''),
      (HEAT_LIMIT_EXCEEDED, ''risk-heat exceeded the '' @ section_sign @ ''4 cap''),
      (BUYING_POWER_LIMIT_EXCEEDED, ''buying-power-heat exceeded the '' @ section_sign @ ''4 cap''),
      (ENTRY_WINDOW_CLOSED, ''outside the '' @ section_sign @ ''9 entry window''),
      (EVENT_BLACKOUT_ACTIVE, ''a '' @ section_sign @ ''9A macro-event blackout is active''),
      (CONTRACT_METADATA_INVALID, section_sign @ ''2A contract metadata missing or inconsistent''),
      (LIQUIDITY_GATE_FAILED, section_sign @ ''5A liquidity / fill-quality gate failed''),
      (CONCENTRATION_LIMIT_EXCEEDED, section_sign @ ''5 concentration / correlation limit exceeded''),
      (PRICE_STALE, section_sign @ ''10 quote/underlying data was stale''),
      (IVR_STALE, section_sign @ ''10 IV Rank data was stale''),
      (reason_code.SECONDARY_FEED_MISMATCH, section_sign @ ''11 two-source price reconciliation mismatch''),
      (reason_code.SECONDARY_FEED_NOT_CERTIFIED, section_sign @ ''11 secondary feed is not certified''),
      (reason_code.STRATEGY_NOT_LIVE_APPROVED, section_sign @ ''3 strategy is not live-approved''),
      (PROTECTION_HIERARCHY_VIOLATION, section_sign @ ''8 protection hierarchy violated''),
      (reason_code.HUMAN_REARM_REQUIRED, section_sign @ ''6 halt requires a human re-arm''),
      (ANTI_MARTINGALE_VIOLATION, section_sign @ ''3A anti-martingale rule violated''),
      (EXECUTION_QUALITY_SUSPENDED, section_sign @ ''5A execution-quality suspension active'')]"

record gateway_rejection_explanation =
  ge_decision :: string
  ge_reason_codes :: "reason_code list"
  ge_lines :: "string list"

definition explanation_line :: "reason_code \<Rightarrow> string" where
  "explanation_line c =
     reason_code_value c @ '': '' @
     (case map_of REASON_CODE_EXPLANATIONS c of Some t \<Rightarrow> t | None \<Rightarrow> reason_code_value c)"

definition explain_gateway_rejection :: "audit_artifact dyn \<Rightarrow> gateway_rejection_explanation res" where
  "explain_gateway_rejection rejection =
     (case rejection of
        NotInst t \<Rightarrow> Inl (permission_error ''explain_gateway_rejection requires an AuditArtifact'')
      | Inst a \<Rightarrow>
          Inr \<lparr>ge_decision = aa_decision a, ge_reason_codes = aa_reason_codes a,
               ge_lines = map explanation_line (aa_reason_codes a)\<rparr>)"

record research_change_request =
  rc_title :: string
  rc_rationale :: string
  rc_target_paths :: "string dyn list"

definition draft_research_change_request ::
  "string \<Rightarrow> string \<Rightarrow> string dyn list \<Rightarrow> research_change_request res" where
  "draft_research_change_request title rationale paths =
     require (\<not> all_space title) (ValueError ''research change request requires a non-empty title'') (
     require (\<not> all_space rationale) (ValueError ''research change request requires a non-empty rationale'') (
     bind_res (collect_res assert_write_path_allowed paths) (\<lambda>_.
     Inr \<lparr>rc_title = title, rc_rationale = rationale, rc_target_paths = paths\<rparr>)))"

section \<open>Policies\<close>

lemma not_forbidden: "\<not> is_forbidden_tool (tool_value t)"
  by (cases t) (simp_all add: is_forbidden_tool_def FORBIDDEN_TOOLS_def)

lemma mode_allowlist_total:
  "mode_allowlist (Inst m) = Inr (if m = DEPLOYED_AGENT_SERVICE then DEPLOYED_ALLOWED else DEV_ALLOWED)"
  by (cases m) (simp_all add: mode_allowlist_def)

lemma check_grants_iff:
  "check_grants m permitted tools seen = Inr ts \<longleftrightarrow>
     (\<exists>us. tools = map Inst us \<and> ts = seen @ us \<and> distinct us \<and> set us \<inter> set seen = {} \<and> set us \<subseteq> set permitted \<and>
       (m = DEPLOYED_AGENT_SERVICE \<longrightarrow> set us \<inter> set DEV_ONLY_TOOLS = {}))"
proof (induction m permitted tools seen rule: check_grants.induct)
  case (3 mode permitted tool tools seen)
  have split: "Inst tool # tools = map Inst us \<longleftrightarrow> (\<exists>vs. us = tool # vs \<and> tools = map Inst vs)" for us
    by (cases us) auto
  show ?case
    using 3 by (auto simp: not_forbidden split)
qed auto

lemma policy_iff:
  "mk_agent_tool_policy (Inst m) tools = Inr p \<longleftrightarrow>
     ap_mode p = m \<and> tools = map Inst (ap_allowed_tools p) \<and> ap_allowed_tools p \<noteq> [] \<and> distinct (ap_allowed_tools p) \<and>
     set (ap_allowed_tools p) \<subseteq> set (if m = DEPLOYED_AGENT_SERVICE then DEPLOYED_ALLOWED else DEV_ALLOWED)"
proof -
  have "set DEPLOYED_ALLOWED \<inter> set DEV_ONLY_TOOLS = {}" by (simp add: DEPLOYED_ALLOWED_def DEV_ONLY_TOOLS_def)
  then show ?thesis
    by (cases p)
      (auto simp: mk_agent_tool_policy_def mode_allowlist_total require_def map_res_eq_Inr check_grants_iff)
qed

text \<open>C38. A tool policy exists exactly for a non-empty list of distinct tool names of the mode's
  allowlist; so no deployed policy holds a build tool, and no policy of any mode holds a tool that is
  on the list of forbidden names.\<close>

theorem tool_policy_is_least_privilege:
  "(mk_agent_tool_policy (Inst m) tools = Inr p \<longleftrightarrow>
     ap_mode p = m \<and> tools = map Inst (ap_allowed_tools p) \<and> ap_allowed_tools p \<noteq> [] \<and> distinct (ap_allowed_tools p) \<and>
     set (ap_allowed_tools p) \<subseteq> set (if m = DEPLOYED_AGENT_SERVICE then DEPLOYED_ALLOWED else DEV_ALLOWED)) \<and>
   set DEPLOYED_ALLOWED \<inter> set DEV_ONLY_TOOLS = {} \<and>
   set (policy_tool_names p) \<inter> set disallowed_tools = {}"
  using policy_iff not_forbidden
  by (auto simp: DEPLOYED_ALLOWED_def DEV_ONLY_TOOLS_def policy_tool_names_def disallowed_tools_def is_forbidden_tool_def)

text \<open>Every role has a deployed policy with the tools of its table, the session options of a role
  allow exactly these by name and deny every forbidden name, and only the candidate explanation role may
  propose a candidate.\<close>

theorem every_role_is_read_only:
  "\<exists>p opts. policy_for_role role = Inr p \<and> build_agent_service_options role = Inr opts \<and>
     ap_mode p = DEPLOYED_AGENT_SERVICE \<and> ap_allowed_tools p = ROLE_TOOLS role \<and>
     (policy_allows p PROPOSE_CANDIDATE_TRADE_INTENT \<longleftrightarrow> role = CANDIDATE_EXPLANATION) \<and>
     ao_allowed_tools opts = map tool_value (ROLE_TOOLS role) \<and>
     set (ao_disallowed_tools opts) = set FORBIDDEN_TOOLS \<and>
     set (ao_allowed_tools opts) \<inter> set (ao_disallowed_tools opts) = {} \<and>
     set (ROLE_TOOLS role) \<inter> set DEV_ONLY_TOOLS = {}"
proof -
  let ?p = "\<lparr>ap_mode = DEPLOYED_AGENT_SERVICE, ap_allowed_tools = ROLE_TOOLS role\<rparr>"
  have p: "policy_for_role role = Inr ?p"
    unfolding policy_for_role_def policy_iff by (cases role) (simp_all add: DEPLOYED_ALLOWED_def)
  have no_dev: "set (ROLE_TOOLS role) \<inter> set DEV_ONLY_TOOLS = {}" by (cases role) (simp_all add: DEV_ONLY_TOOLS_def)
  have propose: "PROPOSE_CANDIDATE_TRADE_INTENT \<in> set (ROLE_TOOLS role) \<longleftrightarrow> role = CANDIDATE_EXPLANATION"
    by (cases role) simp_all
  show ?thesis
    using p no_dev propose not_forbidden
    by (auto simp: build_agent_service_options_def policy_allows_def policy_tool_names_def disallowed_tools_def
        is_forbidden_tool_def)
qed

section \<open>Write paths\<close>

lemma str_split_no_sep: "w \<in> set (str_split sep s) \<Longrightarrow> sep \<notin> set w"
proof (induction s arbitrary: w)
  case (Cons c cs)
  then show ?case by (cases "str_split sep cs") (auto split: if_splits)
qed simp

lemma path_parts_no_slash: "w \<in> set (path_parts p) \<Longrightarrow> CHR ''/'' \<notin> set w"
  using str_split_no_sep by (auto simp: path_parts_def)

lemma folds_no_slash: "(p, t) \<in> set ASCII_FOLDS \<Longrightarrow> CHR ''/'' \<notin> set p \<and> CHR ''/'' \<notin> set t \<and> p \<noteq> []"
  by (auto simp: ASCII_FOLDS_def)

lemma take_before: "x \<notin> set p \<Longrightarrow> take (length p) (u @ x # v) = p \<longleftrightarrow> take (length p) u = p"
proof (cases "length p \<le> length u")
  case False
  assume x: "x \<notin> set p"
  have "take (length p) (u @ x # v) = u @ take (length p - length u) (x # v)" using False by simp
  moreover have "x \<in> set (take (length p - length u) (x # v))" using False by (cases "length p - length u") auto
  ultimately show ?thesis using x False by (metis UnCI append_take_drop_id length_take min_def nat_le_linear set_append take_all)
qed simp

lemma fold_at_before: "fold_at (u @ CHR ''/'' # v) = fold_at u"
proof -
  have "(case x of (p, t) \<Rightarrow> starts_with p (u @ CHR ''/'' # v)) = (case x of (p, t) \<Rightarrow> starts_with p u)"
    if "x \<in> set ASCII_FOLDS" for x
  proof (cases x)
    case (Pair p t)
    have "CHR ''/'' \<notin> set p" using folds_no_slash that Pair by blast
    from take_before [OF this] show ?thesis by (simp only: Pair prod.case starts_with_def)
  qed
  then show ?thesis unfolding fold_at_def by (intro find_cong refl)
qed

lemma fold_at_length: "fold_at s = Some (p, t) \<Longrightarrow> length p \<le> length s \<and> p \<noteq> [] \<and> CHR ''/'' \<notin> set t"
  unfolding fold_at_def starts_with_def
  by (auto simp: find_Some_iff dest!: nth_mem folds_no_slash) (metis length_take min.cobounded1)

lemma char_lower_slash: "char_lower c = CHR ''/'' \<longleftrightarrow> c = CHR ''/''" "CHR ''/'' = char_lower c \<longleftrightarrow> c = CHR ''/''"
proof -
  have "char_lower c = CHR ''/'' \<Longrightarrow> c = CHR ''/''"
    by (auto simp: char_lower_def Let_def split: if_splits dest!: arg_cong [where f = "of_char :: char \<Rightarrow> nat"])
  then show "char_lower c = CHR ''/'' \<longleftrightarrow> c = CHR ''/''" by (auto simp: char_lower_def)
  then show "CHR ''/'' = char_lower c \<longleftrightarrow> c = CHR ''/''" by metis
qed

lemma casefold_from_split:
  "n \<le> length xs \<Longrightarrow> casefold_from n (xs @ CHR ''/'' # ys) = casefold_from n xs @ CHR ''/'' # casefold_from 0 ys"
proof (induction n xs rule: casefold_from.induct)
  case (1 n)
  have "fold_at (CHR ''/'' # ys) = None" using fold_at_before [of "[]" ys] by (simp add: fold_at_def ASCII_FOLDS_def starts_with_def)
  then show ?case using 1 by (simp add: char_lower_def)
next
  case (3 a s)
  have "fold_at (a # s @ CHR ''/'' # ys) = fold_at (a # s)" using fold_at_before [of "a # s"] by simp
  then show ?case
    using 3 fold_at_length [of "a # s"] by (auto split: option.split)
qed simp

lemma casefold_split: "casefold (xs @ CHR ''/'' # ys) = casefold xs @ CHR ''/'' # casefold ys"
  unfolding casefold_def by (rule casefold_from_split) simp

lemma casefold_no_slash: "CHR ''/'' \<notin> set s \<Longrightarrow> CHR ''/'' \<notin> set (casefold_from n s)"
  by (induction n s rule: casefold_from.induct)
    (auto simp: char_lower_slash dest: fold_at_length split: option.split)

lemma take_first_part:
  "x \<notin> set a \<Longrightarrow> x \<notin> set b \<Longrightarrow> take (length (a @ [x])) (b @ x # r) = a @ [x] \<longleftrightarrow> a = b"
proof (induction a arbitrary: b)
  case Nil
  then show ?case by (cases b) auto
next
  case (Cons y a)
  then show ?case by (cases b) auto
qed

definition LOCKED_NAMES :: "string list" where
  "LOCKED_NAMES = [''constitution.md'', ''schemas'', ''gateway'', ''broker'', ''brokers'', ''temporal_workflows'', ''tests'', ''policy'']"

lemma locked_names: "map (casefold \<circ> rstrip_slash) HOOK_LOCKED_WRITE_PREFIXES = LOCKED_NAMES"
  by code_simp

lemma locked_no_slash: "CHR ''/'' \<notin> set (casefold (rstrip_slash prefix))" if "prefix \<in> set HOOK_LOCKED_WRITE_PREFIXES"
proof -
  have "casefold (rstrip_slash prefix) \<in> set (map (casefold \<circ> rstrip_slash) HOOK_LOCKED_WRITE_PREFIXES)" using that by force
  then show ?thesis unfolding locked_names by (auto simp: LOCKED_NAMES_def)
qed

lemma hits_locked_iff:
  assumes "\<forall>w\<in>set ws. CHR ''/'' \<notin> set w" and "prefix \<in> set HOOK_LOCKED_WRITE_PREFIXES"
  shows "hits_locked (casefold (as_posix ws)) prefix \<longleftrightarrow> ws \<noteq> [] \<and> casefold (hd ws) = casefold (rstrip_slash prefix)"
proof -
  let ?L = "casefold (rstrip_slash prefix)"
  have L: "CHR ''/'' \<notin> set ?L" using locked_no_slash assms(2) .
  have no_start: "\<not> starts_with (?L @ ''/'') t" if "CHR ''/'' \<notin> set t" for t
    using that by (metis UnI2 in_set_takeD list.set_intros(1) set_append starts_with_def)
  consider "ws = []" | w where "ws = [w]" | w v vs where "ws = w # v # vs" by (cases ws rule: remdups_adj.cases) auto
  then show ?thesis
  proof cases
    case 1
    have "casefold ''.'' = ''.''" by code_simp
    moreover have "?L \<in> set LOCKED_NAMES" using assms(2) by (force simp: locked_names [symmetric])
    then have "?L \<noteq> ''.''" by (auto simp: LOCKED_NAMES_def)
    ultimately show ?thesis using 1 no_start [of "''.''"] by (simp add: hits_locked_def as_posix_def Let_def)
  next
    case 2
    have "CHR ''/'' \<notin> set (casefold w)" using assms(1) 2 casefold_no_slash by (simp add: casefold_def)
    then show ?thesis using 2 no_start by (auto simp: hits_locked_def as_posix_def Let_def)
  next
    case 3
    have w: "CHR ''/'' \<notin> set (casefold w)" using assms(1) 3 casefold_no_slash by (simp add: casefold_def)
    have t: "casefold (as_posix ws) = casefold w @ CHR ''/'' # casefold (str_join ''/'' (v # vs))"
      using 3 casefold_split by (simp add: as_posix_def)
    have "casefold (as_posix ws) \<noteq> ?L" using L unfolding t by (metis in_set_conv_decomp)
    moreover have "starts_with (?L @ ''/'') (casefold (as_posix ws)) \<longleftrightarrow> ?L = casefold w"
      unfolding t starts_with_def using take_first_part [OF L w] by simp
    ultimately show ?thesis using 3 by (auto simp: hits_locked_def Let_def)
  qed
qed

lemma hits_any_locked:
  "list_ex (hits_locked (casefold (as_posix (path_parts p)))) HOOK_LOCKED_WRITE_PREFIXES \<longleftrightarrow>
     path_parts p \<noteq> [] \<and> casefold (hd (path_parts p)) \<in> set LOCKED_NAMES"
proof -
  have "list_ex (hits_locked (casefold (as_posix (path_parts p)))) HOOK_LOCKED_WRITE_PREFIXES \<longleftrightarrow>
      (\<exists>prefix\<in>set HOOK_LOCKED_WRITE_PREFIXES. path_parts p \<noteq> [] \<and> casefold (hd (path_parts p)) = casefold (rstrip_slash prefix))"
    unfolding list_ex_iff using hits_locked_iff [of "path_parts p"] path_parts_no_slash by blast
  then show ?thesis by (auto simp: locked_names [symmetric])
qed

text \<open>The guard on write paths is exact: a path is allowed exactly when it is not blank, has no
  leading separator, no drive and no parent component, and its first component, without regard to case,
  is none of the locked trees.\<close>

theorem write_path_guard_is_exact:
  "assert_write_path_allowed (Inst p) = Inr () \<longleftrightarrow>
     \<not> all_space p \<and> \<not> is_rooted p \<and> \<not> has_drive p \<and> ''..'' \<notin> set (path_parts p) \<and>
     (path_parts p = [] \<or> casefold (hd (path_parts p)) \<notin> set LOCKED_NAMES)"
  by (auto simp: assert_write_path_allowed_def require_def Let_def hits_any_locked)

text \<open>A component that only Windows identifies with a locked tree passes: trailing dots are ignored there.\<close>

lemma trailing_dot_passes: "assert_write_path_allowed (Inst ''schemas./base.py'') = Inr ()"
  by code_simp

lemma folded_path_refused:
  "assert_write_path_allowed (Inst (''.'' @ [CHR 0x5C] @ ''SCHEMA'' @ [CHR 0xC5, CHR 0xBF] @ ''/base.py'')) =
     Inl (permission_error ''write path targets a hook-locked tree'')"
  by code_simp

section \<open>The audit summary\<close>

definition in_bounds :: "datetime option \<Rightarrow> datetime option \<Rightarrow> stored_event \<Rightarrow> bool" where
  "in_bounds a b e \<longleftrightarrow> (case a of Some (Aware s) \<Rightarrow> at_le s (se_created_at e) | _ \<Rightarrow> True) \<and>
     (case b of Some (Aware u) \<Rightarrow> at_le (se_created_at e) u | _ \<Rightarrow> True)"

lemma summary_loop_Inr:
  assumes "summary_loop a b es cs n = Inr (cs', n')" and "counts_are cs k"
  shows "n' = n + int (length (filter (in_bounds a b) es)) \<and>
    counts_are cs' (\<lambda>t. k t + length (filter (\<lambda>e. record_type_value (se_record_type e) = t) (filter (in_bounds a b) es)))"
  using assms
proof (induction es arbitrary: cs n k)
  case (Cons e es)
  obtain skip where skip: "summary_skips a b e = Inr skip" using Cons.prems(1) by (auto simp: bind_res_eq_Inr)
  then have s: "skip \<longleftrightarrow> \<not> in_bounds a b e"
    by (auto simp: summary_skips_def in_bounds_def dt_le_def bind_res_eq_Inr map_res_eq_Inr
        split: option.splits datetime.splits if_splits)
  show ?case
  proof (cases skip)
    case True
    then show ?thesis using Cons.IH Cons.prems skip s by simp
  next
    case False
    let ?t = "record_type_value (se_record_type e)"
    have "summary_loop a b es (bump ?t cs) (n + 1) = Inr (cs', n')" using Cons.prems(1) skip False by simp
    from Cons.IH [OF this counts_bump [OF Cons.prems(2)]] show ?thesis
      using s False by (auto elim!: arg_cong2 [where f = counts_are, THEN iffD1, rotated 2] simp: fun_eq_iff)
  qed
qed simp

lemma find_by_key: "distinct (map f xs) \<Longrightarrow> x \<in> set xs \<Longrightarrow> find (\<lambda>y. f y = f x) xs = Some x"
  by (induction xs) (auto simp: rev_image_eqI)

lemma find_none: "(find P xs = None) = (\<forall>x\<in>set xs. \<not> P x)"
  by (auto simp: find_None_iff)

definition type_count :: "string \<times> int \<Rightarrow> record_type_count" where
  "type_count m = \<lparr>tc_record_type = fst m, tc_count = snd m\<rparr>"

lemma counts_lookup:
  assumes "counts_are cs k"
  shows "(case find (\<lambda>c. tc_record_type c = t) (map type_count (sort_key fst cs)) of
      Some c \<Rightarrow> tc_count c | None \<Rightarrow> 0) = int (k t)"
proof (cases "map_of cs t")
  case None
  then have "t \<notin> fst ` set cs" by (simp add: map_of_eq_None_iff)
  then have "find (\<lambda>c. tc_record_type c = t) (map type_count (sort_key fst cs)) = None"
    by (auto simp: find_None_iff type_count_def)
  moreover have "k t = 0" using assms None unfolding counts_are_def by (metis option.distinct(1))
  ultimately show ?thesis by simp
next
  case (Some n)
  have d: "distinct (map tc_record_type (map type_count (sort_key fst cs)))"
    using assms by (simp add: counts_are_def distinct_map type_count_def comp_def inj_on_def)
  have "(t, n) \<in> set cs" using Some by (rule map_of_SomeD)
  then have "type_count (t, n) \<in> set (map type_count (sort_key fst cs))" by simp
  from find_by_key [OF d this] have "find (\<lambda>c. tc_record_type c = t) (map type_count (sort_key fst cs)) = Some (type_count (t, n))"
    by (simp add: type_count_def)
  then show ?thesis using assms Some by (auto simp: counts_are_def type_count_def split: if_splits)
qed

text \<open>C39. An audit summary is exact: its total is the number of events inside the bounds, for every
  record type its count is the number of events of that type inside the bounds, and its entries are
  sorted by name without repetition.\<close>

theorem audit_summary_is_exact:
  assumes "read_audit_summary view a b = Inr s" and "view_iter_events view None = Inr es"
  shows "as_total_events s = int (length (filter (in_bounds a b) es)) \<and>
    (\<forall>t. count_for s t = int (length (filter (\<lambda>e. se_record_type e = t) (filter (in_bounds a b) es)))) \<and>
    sorted (map tc_record_type (as_counts s)) \<and> distinct (map tc_record_type (as_counts s))"
proof -
  obtain cs n where l: "summary_loop a b es [] 0 = Inr (cs, n)"
    and s: "s = \<lparr>as_total_events = n, as_counts = map type_count (sort_key fst cs)\<rparr>"
    using assms by (auto simp: read_audit_summary_def bind_res_eq_Inr require_def type_count_def split: if_splits prod.splits)
  from summary_loop_Inr [OF l, of "\<lambda>_. 0"]
  have n: "n = int (length (filter (in_bounds a b) es))"
    and k: "counts_are cs (\<lambda>t. length (filter (\<lambda>e. record_type_value (se_record_type e) = t) (filter (in_bounds a b) es)))"
    by (simp_all add: counts_are_def)
  have "sorted (map fst (sort_key fst cs))" by (rule sorted_sort_key)
  moreover have "distinct (map fst (sort_key fst cs))"
    using k by (simp add: counts_are_def distinct_map)
  ultimately show ?thesis
    using n counts_lookup [OF k] by (simp add: s count_for_def record_type_value_inj type_count_def comp_def)
qed

theorem audit_summary_is_exact_witness:
  "\<exists>s. read_audit_summary \<lparr>rv_store = report_store []\<rparr> (Some (Aware (utc 0))) (Some (Aware (utc 100))) = Inr s \<and>
     as_total_events s = 3 \<and> count_for s record_type.KILL_SWITCH_STATE = 1"
proof -
  let ?view = "\<lparr>rv_store = report_store []\<rparr>"
  have r: "is_ok (read_audit_summary ?view (Some (Aware (utc 0))) (Some (Aware (utc 100))))" by code_simp
  have n: "map_res (\<lambda>es. (length (filter (in_bounds (Some (Aware (utc 0))) (Some (Aware (utc 100)))) es),
       length (filter (\<lambda>e. se_record_type e = record_type.KILL_SWITCH_STATE)
         (filter (in_bounds (Some (Aware (utc 0))) (Some (Aware (utc 100)))) es))))
      (view_iter_events ?view None) = Inr (3, 1)" by code_simp
  obtain s where s: "read_audit_summary ?view (Some (Aware (utc 0))) (Some (Aware (utc 100))) = Inr s"
    using r by (auto simp: is_ok_iff)
  obtain es where "view_iter_events ?view None = Inr es" using n by (auto simp: map_res_eq_Inr)
  with audit_summary_is_exact [OF s] n s show ?thesis by simp
qed

end
