(* ===== verification/Relay.thy ===== *)
theory Relay
  imports Reports ControlPlane Utf8
begin

text \<open>
  The observe-only front of the audit database: the read-only accessor
  (\<open>storage/sqlite_readonly.py\<close>), the read models of the relay (\<open>ops/agent_os_relay.py\<close>), its
  routes (\<open>ops/api.py\<close>) and the operator notifications (\<open>ops/notifications.py\<close>). A database
  file is what opening it finds; the heartbeat file is its modification time and its bytes. The
  web framework is not modelled: a route is its handler with the parsed arguments.
\<close>

section \<open>The read-only accessor\<close>

text \<open>What a path leads to: nothing, a file that cannot be opened or is no database, a database
  without the table, or the audit table.\<close>

datatype db_file = NoFile | Unopenable | NotSqlite | NoAuditTable | AuditDb audit_store

definition open_read_only :: "db_file \<Rightarrow> audit_store res" where
  "open_read_only f =
     (case f of
        NoFile \<Rightarrow> Inl (AuditDbUnavailableError ''audit database not found'')
      | Unopenable \<Rightarrow> Inl (AuditDbUnavailableError ''could not be opened read-only'')
      | NotSqlite \<Rightarrow> Inl (AuditDbUnavailableError ''not a readable SQLite database'')
      | NoAuditTable \<Rightarrow> Inl (AuditDbUnavailableError ''has no audit_events table'')
      | AuditDb st \<Rightarrow> Inr st)"

text \<open>Timestamps are the texts of the columns.\<close>

record audit_event_meta =
  em_seq :: int
  em_record_type :: string
  em_record_id :: string
  em_created_at :: string
  em_recorded_at :: string
  em_payload_sha256 :: string

definition row_to_meta :: "stored_row \<Rightarrow> audit_event_meta" where
  "row_to_meta row =
     \<lparr>em_seq = sr_seq row, em_record_type = record_type_value (sr_record_type row), em_record_id = sr_record_id row,
      em_created_at = dt_isoformat (sr_created_at row), em_recorded_at = dt_isoformat (sr_recorded_at row),
      em_payload_sha256 = sr_payload_sha256 row\<rparr>"

definition count_events :: "audit_store \<Rightarrow> int" where
  "count_events db = int (length (st_rows db))"

definition counts_by_record_type :: "audit_store \<Rightarrow> (string \<times> int) list" where
  "counts_by_record_type db =
     sort_key fst (fold (\<lambda>row. bump (record_type_value (sr_record_type row))) (st_rows db) [])"

text \<open>\<open>ORDER BY seq DESC\<close>.\<close>

definition newest_first :: "stored_row list \<Rightarrow> stored_row list" where
  "newest_first rows = rev (sort_key sr_seq rows)"

definition latest_events :: "audit_store \<Rightarrow> int \<Rightarrow> audit_event_meta list res" where
  "latest_events db limit =
     require (1 \<le> limit) (ValueError ''limit must be >= 1'')
       (Inr (map row_to_meta (take (nat limit) (newest_first (st_rows db)))))"

definition latest_payload_of_type :: "audit_store \<Rightarrow> string \<Rightarrow> (audit_event_meta \<times> string) option" where
  "latest_payload_of_type db rt =
     (case newest_first (filter (\<lambda>row. record_type_value (sr_record_type row) = rt) (st_rows db)) of
        [] \<Rightarrow> None
      | row # _ \<Rightarrow> Some (row_to_meta row, sr_payload_json row))"

section \<open>The heartbeat view\<close>

definition SOURCE_AUDIT_DB :: string where "SOURCE_AUDIT_DB = ''hermes-audit-db:read-only''"

definition SOURCE_HEARTBEAT_FILE :: string where "SOURCE_HEARTBEAT_FILE = ''hermes-heartbeat-file:read-only''"

definition HEARTBEAT_ALLOWED_KEYS :: "string list" where
  "HEARTBEAT_ALLOWED_KEYS =
     [''app_env'', ''broker_mode'', ''recorded_at'', ''requests_evaluated'', ''approved_dry_run_tickets'', ''rejected'']"

text \<open>Reading the file fails with an \<open>OSError\<close>, or gives \<open>st_mtime\<close>, a float, and the bytes.\<close>

datatype heartbeat_file = Unreadable | Readable rat string

text \<open>\<open>str.splitlines\<close>: the length of the separator a text starts with.\<close>

definition line_break :: "string \<Rightarrow> nat" where
  "line_break s =
     (if take 2 s = [CHR 0x0D, CHR 0x0A] then 2
      else if s \<noteq> [] \<and> hd s \<in> {CHR 0x0A, CHR 0x0B, CHR 0x0C, CHR 0x0D, CHR 0x1C, CHR 0x1D, CHR 0x1E} then 1
      else if take 2 s = [CHR 0xC2, CHR 0x85] then 2
      else if take 3 s \<in> {[CHR 0xE2, CHR 0x80, CHR 0xA8], [CHR 0xE2, CHR 0x80, CHR 0xA9]} then 3
      else 0)"

fun split_lines_from :: "nat \<Rightarrow> string \<Rightarrow> string \<Rightarrow> string list" where
  "split_lines_from n line [] = (if line = [] then [] else [line])"
| "split_lines_from (Suc n) line (c # s) = split_lines_from n line s"
| "split_lines_from 0 line (c # s) =
     (let k = line_break (c # s) in
      if 0 < k then line # split_lines_from (k - 1) [] s else split_lines_from 0 (line @ [c]) s)"

definition split_lines :: "string \<Rightarrow> string list" where
  "split_lines s = split_lines_from 0 [] s"

text \<open>\<open>line.partition("=")\<close> with the two conditions of the loop.\<close>

definition heartbeat_entry :: "string \<Rightarrow> (string \<times> string) option" where
  "heartbeat_entry line =
     (let key = takeWhile (\<lambda>c. c \<noteq> CHR ''='') line; r = dropWhile (\<lambda>c. c \<noteq> CHR ''='') line in
      if r \<noteq> [] \<and> key \<in> set HEARTBEAT_ALLOWED_KEYS then Some (key, tl r) else None)"

fun heartbeat_fields :: "string list \<Rightarrow> (string \<times> string) list \<Rightarrow> (string \<times> string) list" where
  "heartbeat_fields [] acc = acc"
| "heartbeat_fields (line # ls) acc =
     heartbeat_fields ls (case heartbeat_entry line of Some (k, v) \<Rightarrow> AList.update k v acc | None \<Rightarrow> acc)"

datatype heartbeat_state = HB_OK | HB_STALE | HB_MISSING

record heartbeat_view =
  hv_source :: string
  hv_path :: string
  hv_state :: heartbeat_state
  hv_age_seconds :: "rat option"
  hv_max_age_seconds :: int
  hv_checked_at :: string
  hv_fields :: "(string \<times> string) list"

text \<open>\<open>now.timestamp()\<close>: microseconds divided by \<open>10\<^sup>6\<close>, rounded once. \<open>read_text\<close> raises
  \<open>UnicodeDecodeError\<close>, a \<open>ValueError\<close>, on text that is not UTF-8. Its translation of line ends
  to line feeds changes no line.\<close>

definition utc_text :: "aware \<Rightarrow> string" where
  "utc_text now = dt_isoformat (Aware (utc (at_us now)))"

definition build_heartbeat_view :: "string \<Rightarrow> heartbeat_file \<Rightarrow> int \<Rightarrow> aware \<Rightarrow> heartbeat_view res" where
  "build_heartbeat_view path file max_age now =
     (case file of
        Unreadable \<Rightarrow>
          Inr \<lparr>hv_source = SOURCE_HEARTBEAT_FILE, hv_path = path, hv_state = HB_MISSING, hv_age_seconds = None,
               hv_max_age_seconds = max_age, hv_checked_at = utc_text now, hv_fields = []\<rparr>
      | Readable mtime text \<Rightarrow>
          require (utf8_ok text) (ValueError ''codec can not decode byte'') (
          let age = fl (fl (of_int (at_us now) / 1000000) - mtime) in
          Inr \<lparr>hv_source = SOURCE_HEARTBEAT_FILE, hv_path = path,
               hv_state = (if age \<le> of_int max_age then HB_OK else HB_STALE), hv_age_seconds = Some age,
               hv_max_age_seconds = max_age, hv_checked_at = utc_text now,
               hv_fields = heartbeat_fields (split_lines text) []\<rparr>))"

section \<open>Status, trail and report views\<close>

datatype relay_state = RELAY_HALTED | RELAY_ARMED | RELAY_UNKNOWN

record kill_switch_relay_view =
  kv_state :: relay_state
  kv_reason_code :: "string option"
  kv_rearm_mode :: "string option"
  kv_command_id :: "string option"

definition relay_unknown :: kill_switch_relay_view where
  "relay_unknown =
     \<lparr>kv_state = RELAY_UNKNOWN, kv_reason_code = None, kv_rearm_mode = None, kv_command_id = None\<rparr>"

text \<open>\<open>json.loads\<close> and \<open>data["halted"]\<close> raise only what the handler catches.\<close>

definition halted_field :: "string \<Rightarrow> (json \<times> json) option" where
  "halted_field payload_json =
     (case bind_res (json_loads payload_json) (\<lambda>data. map_res (Pair data) (json_get data ''halted'')) of
        Inr p \<Rightarrow> Some p | Inl _ \<Rightarrow> None)"

definition relay_field :: "json \<Rightarrow> string \<Rightarrow> string option res" where
  "relay_field data key = bind_res (json_get_or data key JNull) (strict_str_option key)"

definition kill_switch_view :: "audit_store \<Rightarrow> kill_switch_relay_view res" where
  "kill_switch_view db =
     (case latest_payload_of_type db ''KILL_SWITCH_STATE'' of
        None \<Rightarrow> Inr relay_unknown
      | Some (_, payload_json) \<Rightarrow>
          (case halted_field payload_json of
             None \<Rightarrow> Inr relay_unknown
           | Some (data, halted) \<Rightarrow>
               if json_truthy halted then
                 bind_res (relay_field data ''reason_code'') (\<lambda>code.
                 bind_res (relay_field data ''rearm_mode'') (\<lambda>mode.
                 bind_res (relay_field data ''command_id'') (\<lambda>cid.
                 Inr \<lparr>kv_state = RELAY_HALTED, kv_reason_code = code, kv_rearm_mode = mode, kv_command_id = cid\<rparr>)))
               else
                 bind_res (relay_field data ''command_id'') (\<lambda>cid.
                 Inr \<lparr>kv_state = RELAY_ARMED, kv_reason_code = None, kv_rearm_mode = None, kv_command_id = cid\<rparr>)))"

record status_view =
  sv_source :: string
  sv_total_audit_events :: int
  sv_events_by_record_type :: "(string \<times> int) list"
  sv_kill_switch :: kill_switch_relay_view
  sv_last_event_seq :: "int option"
  sv_last_event_record_type :: "string option"
  sv_last_event_recorded_at :: "string option"
  sv_generated_at :: string

definition build_status_view :: "audit_store \<Rightarrow> aware \<Rightarrow> status_view res" where
  "build_status_view db now =
     bind_res (latest_events db 1) (\<lambda>latest.
     let last = (case latest of [] \<Rightarrow> None | m # _ \<Rightarrow> Some m) in
     bind_res (kill_switch_view db) (\<lambda>ks.
     Inr \<lparr>sv_source = SOURCE_AUDIT_DB, sv_total_audit_events = count_events db,
          sv_events_by_record_type = counts_by_record_type db, sv_kill_switch = ks,
          sv_last_event_seq = map_option em_seq last, sv_last_event_record_type = map_option em_record_type last,
          sv_last_event_recorded_at = map_option em_recorded_at last, sv_generated_at = utc_text now\<rparr>))"

record audit_event_view =
  av_seq :: int
  av_record_type :: string
  av_record_id :: string
  av_created_at :: string
  av_recorded_at :: string
  av_payload_sha256 :: string

definition event_view :: "audit_event_meta \<Rightarrow> audit_event_view" where
  "event_view m =
     \<lparr>av_seq = em_seq m, av_record_type = em_record_type m, av_record_id = em_record_id m,
      av_created_at = em_created_at m, av_recorded_at = em_recorded_at m, av_payload_sha256 = em_payload_sha256 m\<rparr>"

record audit_trail_view =
  at_source :: string
  at_limit :: int
  at_returned :: int
  at_total_audit_events :: int
  at_events :: "audit_event_view list"

definition build_audit_trail_view :: "audit_store \<Rightarrow> int \<Rightarrow> audit_trail_view res" where
  "build_audit_trail_view db limit =
     map_res (\<lambda>ms.
       let events = map event_view ms in
       \<lparr>at_source = SOURCE_AUDIT_DB, at_limit = limit, at_returned = int (length events),
        at_total_audit_events = count_events db, at_events = events\<rparr>) (latest_events db limit)"

record daily_report_view =
  dv_source :: string
  dv_available :: bool
  dv_report :: "(string \<times> json) list option"
  dv_record_seq :: "int option"
  dv_record_id :: "string option"
  dv_recorded_at :: "string option"

definition build_daily_report_view :: "audit_store \<Rightarrow> daily_report_view res" where
  "build_daily_report_view db =
     (case latest_payload_of_type db ''DAILY_REPORT'' of
        None \<Rightarrow>
          Inr \<lparr>dv_source = SOURCE_AUDIT_DB, dv_available = False, dv_report = None, dv_record_seq = None,
               dv_record_id = None, dv_recorded_at = None\<rparr>
      | Some (meta, payload_json) \<Rightarrow>
          bind_res (json_loads payload_json) (\<lambda>data.
          case data of
            JObj ms \<Rightarrow>
              Inr \<lparr>dv_source = SOURCE_AUDIT_DB, dv_available = True, dv_report = Some ms,
                   dv_record_seq = Some (em_seq meta), dv_record_id = Some (em_record_id meta),
                   dv_recorded_at = Some (em_recorded_at meta)\<rparr>
          | JNull \<Rightarrow>
              Inr \<lparr>dv_source = SOURCE_AUDIT_DB, dv_available = True, dv_report = None,
                   dv_record_seq = Some (em_seq meta), dv_record_id = Some (em_record_id meta),
                   dv_recorded_at = Some (em_recorded_at meta)\<rparr>
          | _ \<Rightarrow> Inl (ValidationError ''report'')))"

section \<open>Routes\<close>

record relay_app =
  ra_audit_db_path :: string
  ra_heartbeat_path :: string
  ra_heartbeat_max_age :: int

definition DEFAULT_HEARTBEAT_FILE :: string where "DEFAULT_HEARTBEAT_FILE = ''.hermes/heartbeat.txt''"

definition DEFAULT_HEARTBEAT_MAX_AGE_SECONDS :: int where "DEFAULT_HEARTBEAT_MAX_AGE_SECONDS = 600"

definition MAX_AUDIT_LIMIT :: int where "MAX_AUDIT_LIMIT = 500"

definition create_app :: "env \<Rightarrow> relay_app res" where
  "create_app env =
     (let raw_max_age = env_get env ''HEARTBEAT_MAX_AGE_SECONDS'' (int_str DEFAULT_HEARTBEAT_MAX_AGE_SECONDS) in
      case py_int raw_max_age of
        None \<Rightarrow> Inl (ValueError ''HEARTBEAT_MAX_AGE_SECONDS must be an integer'')
      | Some n \<Rightarrow>
          require (1 \<le> n) (ValueError ''HEARTBEAT_MAX_AGE_SECONDS must be >= 1'')
            (Inr \<lparr>ra_audit_db_path = env_get env ''HERMES_AUDIT_DB'' DEFAULT_AUDIT_DB_PATH,
                  ra_heartbeat_path = env_get env ''HERMES_HEARTBEAT_FILE'' DEFAULT_HEARTBEAT_FILE,
                  ra_heartbeat_max_age = n\<rparr>))"

text \<open>A response: a body, 503 for a database that cannot be opened, 422 for an argument out of
  range, or 500 for an exception nobody handles.\<close>

datatype 'a response = Ok200 'a | Unavailable503 string | Unprocessable422 | ServerError500 py_error

definition respond :: "'a res \<Rightarrow> 'a response" where
  "respond r = (case r of Inr v \<Rightarrow> Ok200 v | Inl e \<Rightarrow> ServerError500 e)"

definition with_db :: "(string \<Rightarrow> db_file) \<Rightarrow> relay_app \<Rightarrow> (audit_store \<Rightarrow> 'a res) \<Rightarrow> 'a response" where
  "with_db files app build =
     (case open_read_only (files (ra_audit_db_path app)) of
        Inl (AuditDbUnavailableError m) \<Rightarrow> Unavailable503 m
      | Inl e \<Rightarrow> ServerError500 e
      | Inr db \<Rightarrow> respond (build db))"

definition heartbeat_route :: "(string \<Rightarrow> heartbeat_file) \<Rightarrow> relay_app \<Rightarrow> aware \<Rightarrow> heartbeat_view response" where
  "heartbeat_route heartbeats app now =
     respond (build_heartbeat_view (ra_heartbeat_path app) (heartbeats (ra_heartbeat_path app))
       (ra_heartbeat_max_age app) now)"

definition status_route :: "(string \<Rightarrow> db_file) \<Rightarrow> relay_app \<Rightarrow> aware \<Rightarrow> status_view response" where
  "status_route files app now = with_db files app (\<lambda>db. build_status_view db now)"

definition audit_route :: "(string \<Rightarrow> db_file) \<Rightarrow> relay_app \<Rightarrow> int option \<Rightarrow> audit_trail_view response" where
  "audit_route files app query =
     (let limit = (case query of None \<Rightarrow> 50 | Some n \<Rightarrow> n) in
      if 1 \<le> limit \<and> limit \<le> MAX_AUDIT_LIMIT
      then with_db files app (\<lambda>db. build_audit_trail_view db limit)
      else Unprocessable422)"

definition reports_daily_route :: "(string \<Rightarrow> db_file) \<Rightarrow> relay_app \<Rightarrow> daily_report_view response" where
  "reports_daily_route files app = with_db files app build_daily_report_view"

section \<open>Notifications\<close>

datatype notification_severity = INFO | WARNING | CRITICAL

record notification_message =
  nm_severity :: notification_severity
  nm_subject :: string
  nm_body :: string

definition mk_notification :: "notification_message \<Rightarrow> notification_message res" where
  "mk_notification m = construct [(nm_subject m = [], ''subject''), (nm_body m = [], ''body'')] m"

definition positions_line :: "position_summary \<Rightarrow> string" where
  "positions_line p =
     (if \<not> pu_available p then ''positions=NOT_AVAILABLE''
      else ''open_positions='' @ int_str (pu_open_legs p) @ '' contracts='' @ int_str (pu_open_contracts p))"

primrec reconciliation_status_value :: "reconciliation_report_status \<Rightarrow> string" where
  "reconciliation_status_value RECONCILED = ''RECONCILED''"
| "reconciliation_status_value RECON_MISMATCH = ''MISMATCH''"
| "reconciliation_status_value RECON_NOT_AVAILABLE = ''NOT_AVAILABLE''"

primrec data_freshness_value :: "data_freshness_report_status \<Rightarrow> string" where
  "data_freshness_value FRESH_OK = ''OK''"
| "data_freshness_value STALE = ''STALE''"
| "data_freshness_value NOT_TRACKED = ''NOT_TRACKED''"

primrec kill_switch_status_value :: "kill_switch_report_status \<Rightarrow> string" where
  "kill_switch_status_value HALTED = ''HALTED''"
| "kill_switch_status_value ARMED = ''ARMED''"
| "kill_switch_status_value UNKNOWN = ''UNKNOWN''"

definition daily_severity :: "daily_report \<Rightarrow> notification_severity" where
  "daily_severity d =
     (if ku_status (dr_kill_switch d) = HALTED \<or> dr_reconciliation_status d = RECON_MISMATCH \<or>
         list_ex (\<lambda>e. \<not> hu_resolved e) (dr_human_required_events d) then CRITICAL
      else if dr_gateway_rejections d \<noteq> 0 \<or> dr_rejects d \<noteq> 0 then WARNING
      else INFO)"

definition newline :: string where "newline = [CHR 0x0A]"

definition build_daily_notification :: "daily_report \<Rightarrow> notification_message res" where
  "build_daily_notification d =
     (let unresolved = int (length (filter (\<lambda>e. \<not> hu_resolved e) (dr_human_required_events d)));
          body_lines =
            [''Daily report '' @ dr_report_date d @ '' (id='' @ dr_report_id d @ '')'',
             ''broker_mode='' @ broker_mode_value (sy_broker_mode (dr_identity d)) @
             '' paper='' @ bool_str (sy_paper_trading (dr_identity d)) @ '' commit='' @ sy_commit_sha (dr_identity d),
             ''candidates='' @ int_str (dr_candidates_generated d) @ '' approvals='' @ int_str (dr_gateway_approvals d) @
             '' rejections='' @ int_str (dr_gateway_rejections d),
             ''tickets='' @ int_str (dr_tickets_minted d) @ '' paper_submits='' @ int_str (dr_paper_orders_submitted d) @
             '' fills='' @ int_str (dr_fills d) @ '' cancels='' @ int_str (dr_cancels d) @
             '' rejects='' @ int_str (dr_rejects d),
             positions_line (dr_positions d),
             ''reconciliation='' @ reconciliation_status_value (dr_reconciliation_status d) @
             '' data_freshness='' @ data_freshness_value (dr_data_freshness d),
             ''kill_switch='' @ kill_switch_status_value (ku_status (dr_kill_switch d)) @
             '' human_required_unresolved='' @ int_str unresolved]
      in mk_notification
           \<lparr>nm_severity = daily_severity d, nm_subject = ''Hermes daily report '' @ dr_report_date d,
            nm_body = str_join newline body_lines\<rparr>)"

definition risk_severity :: "risk_report \<Rightarrow> notification_severity" where
  "risk_severity k =
     (if ku_status (kr_kill_switch k) = HALTED \<or> kr_reconciliation_status k = RECON_MISMATCH then CRITICAL else INFO)"

definition opt_dec_str :: "decimal option \<Rightarrow> string" where
  "opt_dec_str d = (case d of Some x \<Rightarrow> dec_str x | None \<Rightarrow> ''None'')"

definition build_risk_notification :: "risk_report \<Rightarrow> notification_message res" where
  "build_risk_notification k =
     (let pnl = (if kr_pnl_supported k then opt_dec_str (kr_realized_pnl k) else ''unsupported'');
          drawdown = (if kr_drawdown_supported k then opt_dec_str (kr_max_drawdown k) else ''unsupported'');
          tier = (case kr_drawdown_tier k of Some t \<Rightarrow> drawdown_tier_value t | None \<Rightarrow> ''unsupported'');
          body_lines =
            [''Risk report '' @ kr_report_date k @ '' (id='' @ kr_report_id k @ '')'',
             ''broker_mode='' @ broker_mode_value (sy_broker_mode (kr_identity k)) @
             '' paper='' @ bool_str (sy_paper_trading (kr_identity k)),
             positions_line (kr_positions k) @ '' fills='' @ int_str (kr_fills k),
             ''realized_pnl='' @ pnl @ '' max_drawdown='' @ drawdown @ '' drawdown_tier='' @ tier,
             ''reconciliation='' @ reconciliation_status_value (kr_reconciliation_status k) @
             '' kill_switch='' @ kill_switch_status_value (ku_status (kr_kill_switch k))]
      in mk_notification
           \<lparr>nm_severity = risk_severity k, nm_subject = ''Hermes risk report '' @ kr_report_date k,
            nm_body = str_join newline body_lines\<rparr>)"

section \<open>Reads of an ordered table\<close>

definition seq_ordered :: "audit_store \<Rightarrow> bool" where
  "seq_ordered st \<longleftrightarrow> sorted_wrt (<) (map sr_seq (st_rows st))"

lemma appended_seq_ordered: "seq_ordered (run_appends cd new_audit_store ops)"
  using run_appends_ok [OF store_ok_new] by (simp add: store_ok_def sqlite.ordered_def seq_ordered_def)

lemma newest_first_ordered:
  assumes "seq_ordered st"
  shows "newest_first (filter P (st_rows st)) = rev (filter P (st_rows st))"
proof -
  have "sorted (map sr_seq (st_rows st))" using assms by (simp add: seq_ordered_def strict_sorted_iff)
  then have "sorted (map sr_seq (filter P (st_rows st)))" by (rule sorted_filter)
  then show ?thesis by (simp add: newest_first_def sort_key_id_if_sorted)
qed

lemmas newest_first_all = newest_first_ordered [where P = "\<lambda>_. True", simplified]

lemma type_filter: "(record_type_value (sr_record_type row) = record_type_value t) = (sr_record_type row = t)"
  by (rule record_type_value_inj)

lemma latest_payload_ordered:
  assumes "seq_ordered st"
  shows "latest_payload_of_type st (record_type_value t) =
    (case rev (filter (\<lambda>r. sr_record_type r = t) (st_rows st)) of
       [] \<Rightarrow> None | r # _ \<Rightarrow> Some (row_to_meta r, sr_payload_json r))"
  by (simp add: latest_payload_of_type_def newest_first_ordered [OF assms] type_filter)

lemma counts_are_fold:
  "counts_are cs k \<Longrightarrow> counts_are (fold (\<lambda>x. bump (f x)) xs cs) (\<lambda>t. k t + length (filter (\<lambda>x. f x = t) xs))"
proof (induction xs arbitrary: cs k)
  case (Cons x xs)
  from Cons.IH [OF counts_bump [OF Cons.prems, of "f x"]] show ?case
    by (auto elim!: arg_cong2 [where f = counts_are, THEN iffD1, rotated 2] simp: fun_eq_iff)
qed simp

lemma counts_are_sort: "counts_are cs k \<Longrightarrow> counts_are (sort_key fst cs) k"
  using map_of_inject_set [of "sort_key fst cs" cs] by (simp add: counts_are_def distinct_map)

lemma counts_by_record_type_are:
  "counts_are (counts_by_record_type st) (\<lambda>t. length (filter (\<lambda>r. record_type_value (sr_record_type r) = t) (st_rows st)))"
  unfolding counts_by_record_type_def
  by (rule counts_are_sort, rule counts_are_fold [where k = "\<lambda>_. 0", simplified]) (simp add: counts_are_def)

lemma counts_by_record_type_sorted: "sorted (map fst (counts_by_record_type st))"
  by (simp add: counts_by_record_type_def)

section \<open>Two readings of the kill switch\<close>

text \<open>Creation times that do not decrease along the table: what the report orders by is what the
  relay orders by.\<close>

definition chronological :: "stored_event list \<Rightarrow> bool" where
  "chronological es \<longleftrightarrow> sorted (map (\<lambda>e. at_us (se_created_at e)) es)"

lemma list_all2_filter:
  "list_all2 R xs ys \<Longrightarrow> (\<And>x y. R x y \<Longrightarrow> P x = Q y) \<Longrightarrow> list_all2 R (filter P xs) (filter Q ys)"
  by (induction rule: list_all2_induct) auto

lemma loaded_rows:
  assumes "load_events st = Inr es"
  shows "list_all2 (\<lambda>r e. row_to_event r = Inr e) (st_rows st) es"
  using assms collect_res_Inr by (simp add: load_events_rows)

lemma loaded_seqs:
  assumes "load_events st = Inr es"
  shows "map se_seq es = map sr_seq (st_rows st)"
  using loaded_rows [OF assms]
  by (induction rule: list_all2_induct) (auto simp: row_to_event_Inr)

lemma sorted_wrt_both: "sorted_wrt P xs \<Longrightarrow> sorted_wrt Q xs \<Longrightarrow> sorted_wrt (\<lambda>x y. P x y \<and> Q x y) xs"
  by (induction xs) auto

lemma newest_is_last:
  assumes "chronological es" and "sorted_wrt (<) (map se_seq es)" and "\<forall>e\<in>set es. at_us (se_created_at e) \<le> at_us b"
    and "newest es rt b l"
  shows "l = (case rev (of_type es rt) of [] \<Rightarrow> None | e # _ \<Rightarrow> Some e)"
proof -
  have "sorted_wrt (\<lambda>e f. at_us (se_created_at e) \<le> at_us (se_created_at f) \<and> se_seq e < se_seq f) es"
    using assms(1,2) by (intro sorted_wrt_both) (simp_all add: chronological_def sorted_map sorted_wrt_map)
  then have later: "sorted_wrt (\<lambda>e f. later_event f e) (of_type es rt)"
    unfolding of_type_def by (rule sorted_wrt_filter [OF sorted_wrt_mono_rel, rotated]) (auto simp: later_event_def)
  show ?thesis
  proof (cases l)
    case None
    then have "of_type es rt = []"
      using assms(3,4) unfolding of_type_def filter_empty_conv newest_None by (metis leD newest_None)
    then show ?thesis by (simp add: None)
  next
    case (Some e)
    then have e: "e \<in> set (of_type es rt)" and max: "\<forall>f\<in>set (of_type es rt). \<not> later_event f e"
      using assms(3,4) by (auto simp: newest_Some of_type_def)
    from e obtain xs ys where split: "of_type es rt = xs @ e # ys" by (auto simp: in_set_conv_decomp)
    have "ys = []" using later max unfolding split by (cases ys) (auto simp: sorted_wrt_append)
    then show ?thesis by (simp add: Some split)
  qed
qed

text \<open>What the relay shows for a summary of the report.\<close>

primrec relay_state_of :: "kill_switch_report_status \<Rightarrow> relay_state" where
  "relay_state_of HALTED = RELAY_HALTED"
| "relay_state_of ARMED = RELAY_ARMED"
| "relay_state_of UNKNOWN = RELAY_UNKNOWN"

definition relay_view_of :: "kill_switch_summary \<Rightarrow> kill_switch_relay_view" where
  "relay_view_of k =
     \<lparr>kv_state = relay_state_of (ku_status k), kv_reason_code = map_option reason_code_value (ku_reason_code k),
      kv_rearm_mode = map_option rearm_mode_enum_value (ku_rearm_mode k), kv_command_id = ku_command_id k\<rparr>"

lemma enum_of_json_str: "enum_of_json f v = Inr x \<longleftrightarrow> (\<exists>t. v = JStr t \<and> f t = Some x)"
  by (auto simp: enum_of_json_def split: json.splits option.splits)

lemma reason_code_of_value: "reason_code_of t = Some c \<Longrightarrow> reason_code_value c = t"
  unfolding reason_code_of_def by (drule find_SomeD) simp

lemma rearm_mode_of_value: "rearm_mode_of t = Some m \<Longrightarrow> rearm_mode_enum_value m = t"
  unfolding rearm_mode_of_def by (drule find_SomeD) simp

lemma json_get_obj: "json_get data key = Inr v \<longleftrightarrow> (\<exists>ms. data = JObj ms \<and> map_of ms key = Some v)"
  by (auto simp: json_get_def split: json.splits option.splits)

lemma relay_field_of:
  "json_get data key = Inr v \<Longrightarrow> relay_field data key = strict_str_option key v"
  by (auto simp: relay_field_def json_get_obj json_get_or_def)

lemma strict_str_option_JStr [simp]: "strict_str_option key (JStr t) = Inr (Some t)"
  by (simp add: strict_str_option_def strict_str_def)

lemma kill_switch_view_same:
  assumes "latest_payload_of_type st ''KILL_SWITCH_STATE'' = map_option (\<lambda>e. (m, se_payload_json e)) l"
    and "latest_upto es record_type.KILL_SWITCH_STATE b = Inr l" and "summarize_kill_switch es b = Inr k"
  shows "kill_switch_view st = Inr (relay_view_of k)"
proof (cases l)
  case None
  then show ?thesis using assms
    by (simp add: summarize_kill_switch_def kill_switch_view_def mk_kill_switch_summary_def construct_eq_Inr
        relay_view_of_def relay_unknown_def)
next
  case (Some e)
  obtain data halted where d: "payload e = Inr data" "json_get data ''halted'' = Inr halted"
    using assms(2,3) Some by (auto simp: summarize_kill_switch_def bind_res_eq_Inr)
  then have h: "halted_field (se_payload_json e) = Some (data, halted)"
    by (simp add: halted_field_def payload_def)
  show ?thesis
    using assms Some d h
    by (auto simp: summarize_kill_switch_def kill_switch_view_def mk_kill_switch_summary_def construct_eq_Inr
        relay_view_of_def bind_res_eq_Inr enum_of_json_str relay_field_of
        split: if_splits dest!: reason_code_of_value rearm_mode_of_value)
qed

lemma latest_payload_last:
  assumes "seq_ordered st" and "load_events st = Inr es"
  shows "\<exists>m. latest_payload_of_type st (record_type_value t) =
    map_option (\<lambda>e. (m, se_payload_json e)) (case rev (of_type es t) of [] \<Rightarrow> None | e # _ \<Rightarrow> Some e)"
proof -
  have "list_all2 (\<lambda>r e. row_to_event r = Inr e) (filter (\<lambda>r. sr_record_type r = t) (st_rows st)) (of_type es t)"
    unfolding of_type_def by (rule list_all2_filter [OF loaded_rows [OF assms(2)]]) (auto dest!: row_to_event_Inr)
  then have "list_all2 (\<lambda>r e. row_to_event r = Inr e) (rev (filter (\<lambda>r. sr_record_type r = t) (st_rows st))) (rev (of_type es t))"
    by simp
  then have "\<exists>m. (case rev (filter (\<lambda>r. sr_record_type r = t) (st_rows st)) of
       [] \<Rightarrow> None | r # _ \<Rightarrow> Some (row_to_meta r, sr_payload_json r)) =
    map_option (\<lambda>e. (m, se_payload_json e)) (case rev (of_type es t) of [] \<Rightarrow> None | e # _ \<Rightarrow> Some e)"
    by (cases rule: list.rel_cases) (auto dest!: row_to_event_Inr)
  then show ?thesis by (simp add: latest_payload_ordered [OF assms(1)])
qed

section \<open>Properties\<close>

text \<open>C23. The relay and the report read the same kill switch: on a table in order whose creation times
  never decrease and lie before the end of the window, the view of the relay is that of the report's
  summary.\<close>

theorem relay_agrees_with_report:
  assumes "seq_ordered st" and "load_events st = Inr es" and "chronological es"
    and "\<forall>e\<in>set es. at_us (se_created_at e) \<le> at_us b" and "summarize_kill_switch es (Aware b) = Inr k"
  shows "kill_switch_view st = Inr (relay_view_of k)"
proof -
  obtain l where l: "latest_upto es record_type.KILL_SWITCH_STATE (Aware b) = Inr l"
    "newest es record_type.KILL_SWITCH_STATE b l" using latest_upto_newest by blast
  have "sorted_wrt (<) (map se_seq es)" using assms(1) loaded_seqs [OF assms(2)] by (simp add: seq_ordered_def)
  from newest_is_last [OF assms(3) this assms(4) l(2)] latest_payload_last [OF assms(1,2), of record_type.KILL_SWITCH_STATE]
  obtain m where "latest_payload_of_type st ''KILL_SWITCH_STATE'' = map_option (\<lambda>e. (m, se_payload_json e)) l" by auto
  from kill_switch_view_same [OF this l(1) assms(5)] show ?thesis .
qed

lemma report_store_order: "seq_ordered (report_store [])" "seq_ordered (report_store [report_row 4 t us text])"
  by (simp_all add: seq_ordered_def report_store_def report_row_def)

theorem relay_agrees_with_report_witness:
  "\<exists>v. kill_switch_view (report_store []) = Inr v \<and> kv_state v = RELAY_HALTED"
proof -
  have checks: "map_res (\<lambda>es. chronological es \<and> list_all (\<lambda>e. at_us (se_created_at e) \<le> at_us (utc 100)) es)
      (load_events (report_store [])) = Inr True" by code_simp
  have sum: "map_res ku_status (bind_res (load_events (report_store [])) (\<lambda>es. summarize_kill_switch es (Aware (utc 100)))) =
      Inr HALTED" by code_simp
  obtain es where es: "load_events (report_store []) = Inr es" using checks by (auto simp: map_res_eq_Inr)
  then obtain k where k: "summarize_kill_switch es (Aware (utc 100)) = Inr k" "ku_status k = HALTED"
    using sum by (auto simp: map_res_eq_Inr)
  show ?thesis
    using relay_agrees_with_report [OF report_store_order(1) es, of "utc 100" k] checks es k
    by (auto simp: list_all_iff relay_view_of_def)
qed

text \<open>Without the order of creation times the two disagree: here the halt was created after the
  resume that was appended behind it.\<close>

lemma relay_and_report_can_disagree:
  fixes st defines "st \<equiv> report_store [report_row 4 record_type.KILL_SWITCH_STATE 20 ''{\"halted\": false, \"command_id\": \"r\"}'']"
  shows "map_res kv_state (kill_switch_view st) = Inr RELAY_ARMED"
    and "map_res ku_status (bind_res (load_events st) (\<lambda>es. summarize_kill_switch es (Aware (utc 100)))) = Inr HALTED"
  unfolding st_def by code_simp+

text \<open>The relay's reads of a store that was built by appends are exact: the trail shows the newest
  rows, newest first, as many as asked for; totals and counts per type are those of the table; and
  the counts are sorted by name.\<close>

theorem relay_reads_are_exact:
  assumes "st = run_appends cd new_audit_store ops" and "1 \<le> limit"
  shows "build_audit_trail_view st limit = Inr
      \<lparr>at_source = SOURCE_AUDIT_DB, at_limit = limit, at_returned = min limit (int (length (st_rows st))),
       at_total_audit_events = int (length (st_rows st)),
       at_events = map (event_view \<circ> row_to_meta) (take (nat limit) (rev (st_rows st)))\<rparr> \<and>
    (\<forall>t. map_of (counts_by_record_type st) (record_type_value t) =
       (let n = length (filter (\<lambda>r. sr_record_type r = t) (st_rows st)) in if n = 0 then None else Some (int n))) \<and>
    sorted (map fst (counts_by_record_type st)) \<and> distinct (map fst (counts_by_record_type st))"
proof -
  have o: "seq_ordered st" unfolding assms(1) by (rule appended_seq_ordered)
  show ?thesis
    using assms(2) counts_by_record_type_are [of st] counts_by_record_type_sorted [of st]
    by (auto simp: build_audit_trail_view_def latest_events_def newest_first_all [OF o] count_events_def Let_def
        counts_are_def type_filter min_def)
qed

theorem relay_reads_are_exact_witness:
  "map_res at_returned (build_audit_trail_view (run_appends sample_codec new_audit_store []) 3) = Inr 0"
  using relay_reads_are_exact [OF refl, of 3 sample_codec "[]"] by (simp add: new_audit_store_def)

lemma heartbeat_entry_key: "heartbeat_entry line = Some (k, v) \<Longrightarrow> k \<in> set HEARTBEAT_ALLOWED_KEYS"
  by (auto simp: heartbeat_entry_def Let_def split: if_splits)

lemma heartbeat_fields_are:
  assumes "distinct (map fst acc)" and "set (map fst acc) \<subseteq> set HEARTBEAT_ALLOWED_KEYS"
  shows "distinct (map fst (heartbeat_fields ls acc)) \<and>
    set (map fst (heartbeat_fields ls acc)) \<subseteq> set HEARTBEAT_ALLOWED_KEYS \<and>
    map_of (heartbeat_fields ls acc) = map_of acc ++ map_of (rev (List.map_filter heartbeat_entry ls))"
  using assms
proof (induction ls arbitrary: acc)
  case (Cons line ls)
  show ?case
  proof (cases "heartbeat_entry line")
    case (Some p)
    obtain k v where p: "p = (k, v)" by (cases p)
    have "set (map fst (AList.update k v acc)) \<subseteq> set HEARTBEAT_ALLOWED_KEYS"
      using Cons.prems(2) heartbeat_entry_key [of line k v] Some p by (auto simp: dom_update)
    from Cons.IH [OF distinct_update [OF Cons.prems(1)] this] show ?thesis
      by (simp add: Some p map_filter_simps) (simp add: fun_eq_iff map_add_def split: option.split)
  qed (use Cons in \<open>simp add: map_filter_simps\<close>)
qed (simp add: map_filter_simps)


definition sample_heartbeat :: string where
  "sample_heartbeat = ''app_env=vm_shadow'' @ newline @ ''rejected=1'' @ newline @ ''token=x'' @ newline @ ''rejected=2''"


text \<open>A file that can be read but not decoded is not reported as missing: the exception leaves the
  builder.\<close>

lemma undecodable_heartbeat_raises:
  "build_heartbeat_view path (Readable mtime [CHR 0xFF]) max_age now = Inl (ValueError ''codec can not decode byte'')"
  by (simp add: build_heartbeat_view_def in_range_def)

end
