(* ===== verification/PaperOperator.thy ===== *)
theory PaperOperator
  imports Pipeline ControlPlane Strategies Utf8
begin

text \<open>
  The local paper operator (\<open>ops/paper_operator.py\<close>): the authenticated fixture, the request built
  from offline replay evidence, the one-shot confirmer that wants a fresh code typed back, the
  submit, cancel-drill, inspect and recovery commands and the exit code. The arguments of a command
  carry what the surroundings supply: the fixture file, Pydantic, the nonce, the clocks and the
  answers typed, each a function of what is displayed. Instants of the operator are aware.
\<close>

definition fixture_error :: "string \<Rightarrow> py_error" where
  "fixture_error m = PaperOperatorError ''PaperOperatorFixtureError'' m"

definition confirmation_error :: "string \<Rightarrow> py_error" where
  "confirmation_error m = PaperOperatorError ''PaperOperatorConfirmationError'' m"

definition drill_error :: "string \<Rightarrow> py_error" where
  "drill_error m = PaperOperatorError ''PaperOperatorDrillError'' m"

definition DEFAULT_AS_OF :: aware where "DEFAULT_AS_OF = utc 1781717400000000"

definition PINNED_FIXTURE_SHA256 :: string where
  "PINNED_FIXTURE_SHA256 = ''b98e125726f8add950838b8ce96cdb54a438acabedb9ecedaec4b3a8680064e7''"

definition OFFLINE_SHORT_PUT_STRIKE :: decimal where "OFFLINE_SHORT_PUT_STRIKE = Dec 495 0"

definition OFFLINE_LONG_PUT_STRIKE :: decimal where "OFFLINE_LONG_PUT_STRIKE = Dec 490 0"

section \<open>The fixture\<close>

text \<open>A path by what the file system says of it.\<close>

record fixture_path =
  fx_resolved :: string
  fx_is_symlink :: bool
  fx_is_file :: bool
  fx_bytes :: string

definition authenticate_canonical_fixture_path :: "string \<Rightarrow> fixture_path \<Rightarrow> fixture_path res" where
  "authenticate_canonical_fixture_path canonical path =
     require (fx_resolved path = canonical) (fixture_error ''refusing non-canonical fixture path'') (
     require (\<not> fx_is_symlink path) (fixture_error ''fixture path must be a real, non-symlink regular file'') (
     require (fx_is_file path) (fixture_error ''fixture path is not a regular file'') (
     require (sha256_hexdigest (fx_bytes path) = PINNED_FIXTURE_SHA256)
       (fixture_error ''fixture does not match the pinned SHA-256'') (
     Inr path))))"

definition parse_candidate_from_path ::
  "(string \<Rightarrow> candidate_trade_intent res) \<Rightarrow> fixture_path \<Rightarrow> candidate_trade_intent res" where
  "parse_candidate_from_path model_validate_json path =
     require (utf8_ok (fx_bytes path)) (ValueError ''codec can not decode byte'') (
     let body = universal_newlines (fx_bytes path) in
     case json_loads body of
       Inl e \<Rightarrow> Inl (fixture_error ''fixture is not valid JSON'')
     | Inr parsed \<Rightarrow>
         (case parsed of
            JObj _ \<Rightarrow>
              (case model_validate_json body of
                 Inl (ValidationError m) \<Rightarrow> Inl (fixture_error ''fixture failed CandidateTradeIntent schema validation'')
               | Inl e \<Rightarrow> Inl e
               | Inr candidate \<Rightarrow>
                   require (ci_underlying candidate = underlying.XSP)
                     (fixture_error ''local paper operator MVP accepts only XSP fixtures'') (
                   require (sl_contracts (ci_short_leg candidate) = 1 \<and> sl_contracts (ci_long_leg candidate) = 1)
                     (fixture_error ''local paper operator MVP accepts only a one-contract candidate'') (
                   Inr candidate)))
          | _ \<Rightarrow> Inl (fixture_error ''fixture must be a single JSON object'')))"

section \<open>What a command is given\<close>

record ticket_display =
  td_order_ticket_hash :: string
  td_idempotency_key :: string
  td_attempt_counter :: int
  td_submit_mode :: string
  td_order_type :: string
  td_underlying :: string
  td_direction :: string
  td_contracts :: int
  td_short_strike :: string
  td_long_strike :: string
  td_limit_price :: "string option"
  td_submitted_at :: string

text \<open>The display of a confirmation: the ticket with the nonce and the code.\<close>

record confirmation_display =
  cd_ticket_display :: ticket_display
  cd_nonce :: string
  cd_confirmation_code :: string

record operator_env =
  oe_canonical :: string
  oe_fixture :: fixture_path
  oe_model_validate_json :: "string \<Rightarrow> candidate_trade_intent res"
  oe_codec :: codec
  oe_ct_offset :: "int \<Rightarrow> int"
  oe_wall :: "int \<Rightarrow> aware"
  oe_nonce :: string
  oe_real_clock :: aware
  oe_input :: "confirmation_display \<Rightarrow> string res"
  oe_cancel_input :: "string res"
  oe_plane_now :: datetime
  oe_dump_event :: "stored_event \<Rightarrow> string"

definition load_xsp_candidate_fixture :: "operator_env \<Rightarrow> candidate_trade_intent res" where
  "load_xsp_candidate_fixture env =
     bind_res (authenticate_canonical_fixture_path (oe_canonical env) (oe_fixture env))
       (parse_candidate_from_path (oe_model_validate_json env))"

section \<open>The request\<close>

text \<open>\<open>as_of.replace(hour=20, minute=0, second=0, microsecond=0) + timedelta(days=dte)\<close>, on the wall
  clock of the offset.\<close>

definition resolve_expiration :: "candidate_trade_intent \<Rightarrow> aware \<Rightarrow> aware" where
  "resolve_expiration candidate as_of =
     (let day = (at_us as_of + at_off as_of) div us_per_day in
      as_of\<lparr>at_us := (day + ci_dte candidate) * us_per_day + 20 * 3600000000 - at_off as_of\<rparr>)"

definition offline_replay_adapter :: "aware \<Rightarrow> aware \<Rightarrow> market_data_adapter res" where
  "offline_replay_adapter as_of expiration = map_res fixture_adapter (make_xsp_fixture as_of expiration)"

definition offline_leg_symbol :: "option_type \<Rightarrow> decimal \<Rightarrow> aware \<Rightarrow> string res" where
  "offline_leg_symbol ty strike expiration =
     map_res cm_option_symbol
       (build_contract_metadata underlying.XSP strike ty (Aware expiration) None None DEFAULT_MULTIPLIER CASH EUROPEAN)"

text \<open>Products and absolute values of decimals with their exponents; \<open>candidate.max_loss\<close>.\<close>

definition dec_times :: "decimal \<Rightarrow> decimal \<Rightarrow> decimal" where
  "dec_times a b = dec_fix (coeff a * coeff b) (dexp a + dexp b)"

definition dec_magnitude :: "decimal \<Rightarrow> decimal" where
  "dec_magnitude a = dec_fix \<bar>coeff a\<bar> (dexp a)"

definition max_loss_decimal :: "candidate_trade_intent \<Rightarrow> decimal" where
  "max_loss_decimal c =
     dec_times (dec_times
       (dec_minus (dec_magnitude (dec_minus (sl_strike (ci_short_leg c)) (sl_strike (ci_long_leg c)))) (ci_net_credit c))
       (Dec (ci_multiplier c) 0)) (Dec (sl_contracts (ci_short_leg c)) 0)"

definition operator_account :: account_state where
  "operator_account =
     \<lparr>ac_account_type = account_type.MARGIN, ac_net_liquidating_value = Dec 25000 0, ac_cash_balance = Dec 25000 0,
      ac_buying_power = Dec 25000 0, ac_day_pnl = Dec 0 0, ac_week_pnl = Dec 0 0,
      ac_trailing_high_water_value = Dec 25000 0\<rparr>"

definition operator_heat :: "candidate_trade_intent \<Rightarrow> portfolio_heat_check res" where
  "operator_heat candidate =
     (let h = \<lparr>ph_sum_defined_max_loss = max_loss_decimal candidate,
               ph_broker_margin_requirement = max_loss_decimal candidate, ph_net_liquidating_value = Dec 25000 0\<rparr>
      in require (wf_portfolio_heat_check h) (ValidationError ''PortfolioHeatCheck'') (Inr h))"

definition operator_policy :: "aware \<Rightarrow> allowed_underlying_policy" where
  "operator_policy as_of =
     \<lparr>up_xsp_enabled = True, up_spx_phase_2_enabled = False, up_policy_version = ''2026.06'',
      up_source = CONSTITUTION_CONFIG, up_approved_by = None, up_effective_at = at_plus as_of (- us_per_day),
      up_expires_at = Some (at_plus as_of (30 * us_per_day))\<rparr>"

definition operator_concentration :: "candidate_trade_intent \<Rightarrow> concentration_snapshot res" where
  "operator_concentration candidate =
     (let c = \<lparr>cn_concurrent_spreads_total = 1, cn_open_spreads_same_expiry = 1, cn_same_direction_spreads = 1,
               cn_is_zero_dte = (ci_dte candidate = 0), cn_zero_dte_concurrent_spreads = 0,
               cn_zero_dte_same_direction_spreads = 0,
               cn_aggregate_short_delta_abs = dec_magnitude (sl_delta (ci_short_leg candidate)),
               cn_aggregate_gamma_notional_pct_equity = Dec 5 (- 1)\<rparr>
      in require (wf_concentration_snapshot c) (ValidationError ''ConcentrationSnapshot'') (Inr c))"

definition build_gateway_request :: "candidate_trade_intent dyn \<Rightarrow> aware \<Rightarrow> gateway_request res" where
  "build_gateway_request arg as_of =
     (case arg of
        NotInst t \<Rightarrow> Inl (TypeError ''build_gateway_request requires a CandidateTradeIntent'')
      | Inst candidate \<Rightarrow>
          (let expiration = resolve_expiration candidate as_of in
           bind_res (offline_replay_adapter as_of expiration) (\<lambda>adapter.
           bind_res (offline_leg_symbol PUT OFFLINE_SHORT_PUT_STRIKE expiration) (\<lambda>short_symbol.
           bind_res (offline_leg_symbol PUT OFFLINE_LONG_PUT_STRIKE expiration) (\<lambda>long_symbol.
           bind_res (bind_res (md_price_inputs adapter short_symbol) assemble_price_reconciliation) (\<lambda>reconciliation.
           bind_res (operator_heat candidate) (\<lambda>heat.
           bind_res (get_spread_metadata adapter short_symbol long_symbol) (\<lambda>spread.
           bind_res (md_data_snapshot adapter underlying.XSP) (\<lambda>snapshot.
           bind_res (md_liquidity adapter short_symbol) (\<lambda>liquidity.
           bind_res (operator_concentration candidate) (\<lambda>concentration.
           bind_res (md_feed_certification adapter) (\<lambda>certification.
           bind_res (md_event_calendar adapter) (\<lambda>calendar.
           mk_gateway_request
             \<lparr>gr_candidate = candidate, gr_as_of = as_of, gr_account = operator_account, gr_heat = heat,
              gr_drawdown = \<lparr>dd_active_tier = drawdown_tier.NONE, dd_triggered_action = None, dd_rearm_mode = None,
                dd_human_rearm_granted = False\<rparr>,
              gr_instrument = \<lparr>in_underlying = ci_underlying candidate\<rparr>, gr_spread_contract = spread,
              gr_underlying_policy = operator_policy as_of, gr_data_snapshot = snapshot,
              gr_reconciliation = reconciliation, gr_liquidity = liquidity,
              gr_execution_quality = \<lparr>eq_rolling_avg_slippage_usd = Dec 1 (- 2), eq_failed_fill_attempts = 0,
                eq_trades_in_window = 10, eq_rearm_token = None\<rparr>,
              gr_concentration = concentration,
              gr_protection = \<lparr>ps_long_leg_confirmed = True, ps_broker_native_stop_present = True,
                ps_agent_managed_stop_only = False, ps_is_emergency_close = False\<rparr>,
              gr_multi_leg = \<lparr>ml_broker_confirms_atomic_combo = True, ml_legging = False, ml_long_leg_first = True\<rparr>,
              gr_strategy_stage = \<lparr>ss_stage = strategy_stage.LIVE\<rparr>,
              gr_feed_certification = certification, gr_event_calendar = calendar\<rparr>)))))))))))))"

definition resolved_limit_price :: "gateway_request \<Rightarrow> decimal" where
  "resolved_limit_price r = pc_broker_option_mid (gr_reconciliation r)"

section \<open>Routing, configuration, brokers\<close>

definition build_routing_state :: "order_routing_state res" where
  "build_routing_state =
     (let p = \<lparr>op_state = emergency_state.NORMAL, op_llm_may_request_market_order = False\<rparr> in
      bind_res (construct (order_type_policy_guards p) p) (\<lambda>policy.
      mk_order_routing_state
        \<lparr>rs_route_mode = route_mode.NORMAL, rs_order_type_policy = policy, rs_broker_native_combo_available = True,
         rs_deterministic_market_order_allowed = False, rs_requested_order_type = None\<rparr>))"

definition build_local_paper_app_config :: "app_config res" where
  "build_local_paper_app_config = mk_app_config
     \<lparr>cfg_app_env = VM_PAPER, cfg_broker_mode = broker_mode.PAPER, cfg_submission_enabled = True,
      cfg_paper_submit_enabled = True, cfg_live_submit_enabled = False, cfg_market_data_enabled = True,
      cfg_candidate_generation_enabled = True, cfg_gateway_enabled = True, cfg_order_ticketing_enabled = True,
      cfg_audit_db_path = DEFAULT_AUDIT_DB_PATH\<rparr>"

definition armed_paper_broker_config :: "paper_broker_config res" where
  "armed_paper_broker_config = mk_paper_broker_config
     \<lparr>pb_broker_mode = broker_mode.PAPER, pb_submission_enabled = True, pb_paper_submit_enabled = True,
      pb_live_submit_enabled = False, pb_paper_max_contracts = 1, pb_paper_allowed_underlyings = [underlying.XSP],
      pb_paper_limit_only = True, pb_paper_require_human_confirm = True\<rparr>"

definition build_armed_local_paper_broker :: "datetime option \<Rightarrow> local_paper_broker res" where
  "build_armed_local_paper_broker clock =
     map_res (\<lambda>c. new_local_paper_broker (Some c) (Some (new_fake_broker FakeFillBroker ''local-paper-operator'' clock)))
       armed_paper_broker_config"

definition build_cancel_drill_broker :: "datetime option \<Rightarrow> local_paper_broker res" where
  "build_cancel_drill_broker clock =
     map_res (\<lambda>c. new_local_paper_broker (Some c)
         (Some (new_fake_broker FakePartialFillBroker ''local-paper-operator-drill'' clock)))
       armed_paper_broker_config"

section \<open>Display and confirmation\<close>

definition render_ticket_display :: "broker_submit_intent dyn \<Rightarrow> ticket_display res" where
  "render_ticket_display arg =
     (case arg of
        NotInst t \<Rightarrow> Inl (TypeError ''render_ticket_display requires a gateway-minted BrokerSubmitIntent'')
      | Inst i \<Rightarrow>
          (let ticket = bi_ticket i; candidate = vi_candidate (ot_validated_intent ticket) in
           Inr \<lparr>td_order_ticket_hash = bi_order_ticket_hash i, td_idempotency_key = bi_idempotency_key i,
                td_attempt_counter = bi_attempt_counter i, td_submit_mode = submit_mode_value (bi_submit_mode i),
                td_order_type = order_type_value (ot_order_type ticket),
                td_underlying = underlying_value (ci_underlying candidate),
                td_direction = spread_direction_value (ci_direction candidate),
                td_contracts = sl_contracts (ci_short_leg candidate),
                td_short_strike = dec_str (sl_strike (ci_short_leg candidate)),
                td_long_strike = dec_str (sl_strike (ci_long_leg candidate)),
                td_limit_price = map_option dec_str (bi_limit_price i),
                td_submitted_at = dt_isoformat (Aware (bi_submitted_at i))\<rparr>))"

definition confirmation_code :: "string \<Rightarrow> string \<Rightarrow> string" where
  "confirmation_code nonce full_digest = sha256_hexdigest (nonce @ '':'' @ full_digest)"

text \<open>A call of the confirmer, with \<open>state["used"]\<close> before and after.\<close>

definition typed_confirm ::
  "operator_env \<Rightarrow> string \<Rightarrow> bool \<Rightarrow> broker_submit_intent dyn \<Rightarrow> paper_submit_approval option res \<times> bool" where
  "typed_confirm env approved_by used arg =
     (case arg of
        NotInst t \<Rightarrow> (Inl (TypeError ''paper operator confirmer requires a gateway-minted BrokerSubmitIntent''), used)
      | Inst i \<Rightarrow>
          if used then (Inl (confirmation_error ''this confirmer already resolved one PaperSubmitApproval''), used)
          else
            (bind_res (compute_full_intent_digest (dump_intent (oe_codec env)) (Inst i)) (\<lambda>full_digest.
             let code = confirmation_code (oe_nonce env) full_digest in
             bind_res (render_ticket_display (Inst i)) (\<lambda>display.
             bind_res (oe_input env \<lparr>cd_ticket_display = display, cd_nonce = oe_nonce env, cd_confirmation_code = code\<rparr>)
               (\<lambda>typed.
             if typed = [] then Inr None
             else
               require (typed = code)
                 (confirmation_error ''typed confirmation did not match the displayed confirmation_code'')
                 (map_res Some (paper_submit_approval_for_intent (dump_intent (oe_codec env)) (Inst i) approved_by
                   (Aware (oe_real_clock env))))))), True))"

text \<open>The confirmer of a command. A cycle over one request calls it at most once, so it is given as
  its first call.\<close>

definition make_typed_confirmer :: "operator_env \<Rightarrow> string \<Rightarrow> broker_submit_intent \<Rightarrow> paper_submit_approval dyn option res" where
  "make_typed_confirmer env approved_by i =
     map_res (map_option Inst) (fst (typed_confirm env approved_by False (Inst i)))"

section \<open>Views\<close>

record chain_entry =
  ce_seq :: int
  ce_record_type :: string
  ce_record_id :: string
  ce_idempotency_key :: "string option"
  ce_order_ticket_hash :: "string option"
  ce_created_at :: string
  ce_recorded_at :: string

definition chain_entry_of :: "stored_event \<Rightarrow> chain_entry" where
  "chain_entry_of e =
     \<lparr>ce_seq = se_seq e, ce_record_type = record_type_value (se_record_type e), ce_record_id = se_record_id e,
      ce_idempotency_key = se_idempotency_key e, ce_order_ticket_hash = se_order_ticket_hash e,
      ce_created_at = dt_isoformat (Aware (se_created_at e)), ce_recorded_at = dt_isoformat (Aware (se_recorded_at e))\<rparr>"

definition render_audit_chain :: "audit_store \<Rightarrow> chain_entry list res" where
  "render_audit_chain st = map_res (map chain_entry_of) (iter_events st None)"

record cycle_view =
  cv_app_env :: string
  cv_requests_evaluated :: int
  cv_gateway_rejected :: int
  cv_deferred :: int
  cv_submitted :: int
  cv_submit_failed :: int
  cv_duplicate_skipped :: int
  cv_heartbeat_path :: "string option"
  cv_audit_record_ids :: "string list"

definition cycle_view_of :: "paper_cycle_result \<Rightarrow> cycle_view" where
  "cycle_view_of c =
     \<lparr>cv_app_env = app_env_value (pt_app_env c), cv_requests_evaluated = pt_requests_evaluated c,
      cv_gateway_rejected = pt_gateway_rejected c, cv_deferred = pt_deferred c, cv_submitted = pt_submitted c,
      cv_submit_failed = pt_submit_failed c, cv_duplicate_skipped = pt_duplicate_skipped c,
      cv_heartbeat_path = pt_heartbeat_path c, cv_audit_record_ids = pt_audit_record_ids c\<rparr>"

section \<open>The commands\<close>

text \<open>What is prepared before the store is opened, and the cycle arguments of one request.\<close>

record preparation =
  pp_request :: gateway_request
  pp_routing :: order_routing_state
  pp_config :: app_config

definition prepare :: "operator_env \<Rightarrow> aware \<Rightarrow> preparation res" where
  "prepare env as_of =
     bind_res (load_xsp_candidate_fixture env) (\<lambda>candidate.
     bind_res (build_gateway_request (Inst candidate) as_of) (\<lambda>request.
     bind_res build_routing_state (\<lambda>routing.
     bind_res build_local_paper_app_config (\<lambda>config.
     Inr \<lparr>pp_request = request, pp_routing = routing, pp_config = config\<rparr>))))"

definition operator_args :: "operator_env \<Rightarrow> string \<Rightarrow> aware \<Rightarrow> order_routing_state \<Rightarrow> paper_cycle_args" where
  "operator_args env approved_by as_of routing =
     \<lparr>pc_recorded_at = Aware as_of, pc_routing_state = Some routing,
      pc_confirmer = Some (make_typed_confirmer env approved_by), pc_attempt_counter = 1, pc_heartbeat_path = None,
      pc_ct_offset = oe_ct_offset env, pc_codec = oe_codec env, pc_wall = oe_wall env\<rparr>"

definition operator_cycle ::
  "operator_env \<Rightarrow> string \<Rightarrow> aware \<Rightarrow> preparation \<Rightarrow> local_paper_broker \<Rightarrow> audit_store
     \<Rightarrow> (paper_cycle_result \<times> string option) res \<times> paper_cycle_state" where
  "operator_cycle env approved_by as_of p broker st =
     run_paper_cycle (operator_args env approved_by as_of (pp_routing p)) (pp_config p) broker st
       [Inst \<lparr>pr_request = Inst (pp_request p), pr_limit_price = Some (resolved_limit_price (pp_request p))\<rparr>]"

record submit_result =
  sb_cycle :: cycle_view
  sb_audit_chain :: "chain_entry list"
  sb_unresolved_open_orders :: "open_order_recovery list"

text \<open>The result comes with the store and the broker, if one was built.\<close>

definition run_local_paper_submit ::
  "operator_env \<Rightarrow> string \<Rightarrow> aware \<Rightarrow> local_paper_broker option \<Rightarrow> audit_store
     \<Rightarrow> submit_result res \<times> audit_store \<times> local_paper_broker option" where
  "run_local_paper_submit env approved_by as_of broker st =
     (case prepare env as_of of
        Inl e \<Rightarrow> (Inl e, st, broker)
      | Inr p \<Rightarrow>
          (case (case broker of Some b \<Rightarrow> Inr b | None \<Rightarrow> build_armed_local_paper_broker (Some (Aware as_of))) of
             Inl e \<Rightarrow> (Inl e, st, broker)
           | Inr b \<Rightarrow>
               (case operator_cycle env approved_by as_of p b st of
                  (Inl e, s) \<Rightarrow> (Inl e, au_store s, Some (cy_broker s))
                | (Inr (cycle, _), s) \<Rightarrow>
                    (bind_res (render_audit_chain (au_store s)) (\<lambda>chain.
                     bind_res (unresolved_open_orders (au_store s)) (\<lambda>unresolved.
                     Inr \<lparr>sb_cycle = cycle_view_of cycle, sb_audit_chain = chain,
                          sb_unresolved_open_orders = unresolved\<rparr>)),
                     au_store s, Some (cy_broker s)))))"

definition operator_plane_env :: "operator_env \<Rightarrow> local_paper_broker plane_env" where
  "operator_plane_env env =
     \<lparr>pe_codec = oe_codec env, pe_adapter = paper_adapter, pe_broker_mode = Some broker_mode.PAPER,
      pe_now = oe_plane_now env, pe_wall = oe_wall env, pe_dump_event = oe_dump_event env\<rparr>"

record drill_result =
  dl_submit_cycle :: cycle_view
  dl_cancel_report :: cancel_report
  dl_audit_chain :: "chain_entry list"
  dl_unresolved_open_orders :: "open_order_recovery list"

text \<open>The second half of the drill, on a control plane of its own.\<close>

definition drill_cancel :: "operator_env \<Rightarrow> paper_cycle_result \<Rightarrow> (local_paper_broker, drill_result) command" where
  "drill_cancel env cycle =
     bind_st (lift_res (oe_cancel_input env)) (\<lambda>typed.
     bind_st (\<lambda>s. let (r, reg) = confirm_human (pl_registry s) CMD_CANCEL typed ''CANCEL'' in
                  (r, s\<lparr>pl_registry := reg\<rparr>)) (\<lambda>auth.
     bind_st (cancel_open_orders (operator_plane_env env) (Inst auth)) (\<lambda>report.
     bind_st (gets_st pl_store) (\<lambda>st.
     bind_st (lift_res (render_audit_chain st)) (\<lambda>chain.
     bind_st (lift_res (unresolved_open_orders st)) (\<lambda>unresolved.
     return_st \<lparr>dl_submit_cycle = cycle_view_of cycle, dl_cancel_report = report, dl_audit_chain = chain,
                dl_unresolved_open_orders = unresolved\<rparr>))))))"

definition run_cancel_drill ::
  "operator_env \<Rightarrow> string \<Rightarrow> aware \<Rightarrow> audit_store \<Rightarrow> drill_result res \<times> audit_store" where
  "run_cancel_drill env approved_by as_of st =
     (case prepare env as_of of
        Inl e \<Rightarrow> (Inl e, st)
      | Inr p \<Rightarrow>
          (case build_cancel_drill_broker (Some (Aware as_of)) of
             Inl e \<Rightarrow> (Inl e, st)
           | Inr b \<Rightarrow>
               (case operator_cycle env approved_by as_of p b st of
                  (Inl e, s) \<Rightarrow> (Inl e, au_store s)
                | (Inr (cycle, _), s) \<Rightarrow>
                    if pt_submitted cycle \<noteq> 1
                    then (Inl (drill_error ''cancel drill requires exactly one open paper submit before cancelling''),
                          au_store s)
                    else
                      (case drill_cancel env cycle
                              \<lparr>pl_store = au_store s, pl_broker = Some (cy_broker s), pl_registry = new_auth_registry\<rparr> of
                         (r, t) \<Rightarrow> (r, pl_store t)))))"

definition run_recovery_inspection :: "audit_store \<Rightarrow> open_order_recovery list res" where
  "run_recovery_inspection st = unresolved_open_orders st"

record inspect_result =
  ir_status :: status_report
  ir_last_decision :: last_decision_report
  ir_unresolved_open_orders :: "open_order_recovery list"
  ir_audit_chain :: "chain_entry list"

definition inspect_step :: "operator_env \<Rightarrow> (local_paper_broker, inspect_result) command" where
  "inspect_step env =
     bind_st (status (operator_plane_env env)) (\<lambda>report.
     bind_st (show_last_decision (operator_plane_env env)) (\<lambda>last_decision.
     bind_st (gets_st pl_store) (\<lambda>st.
     bind_st (lift_res (unresolved_open_orders st)) (\<lambda>unresolved.
     bind_st (lift_res (render_audit_chain st)) (\<lambda>chain.
     return_st \<lparr>ir_status = report, ir_last_decision = last_decision, ir_unresolved_open_orders = unresolved,
                ir_audit_chain = chain\<rparr>)))))"

definition run_inspect :: "operator_env \<Rightarrow> audit_store \<Rightarrow> inspect_result res \<times> audit_store" where
  "run_inspect env st =
     (case inspect_step env \<lparr>pl_store = st, pl_broker = None, pl_registry = new_auth_registry\<rparr> of
        (r, s) \<Rightarrow> (r, pl_store s))"

section \<open>The command line\<close>

datatype operator_command = Submit string | CancelDrill string | Inspect | Recovery

datatype operator_output =
    SubmitOutput submit_result
  | DrillOutput drill_result
  | InspectOutput inspect_result
  | RecoveryOutput "open_order_recovery list"

definition dispatch_operator ::
  "operator_env \<Rightarrow> operator_command \<Rightarrow> audit_store \<Rightarrow> operator_output res \<times> audit_store" where
  "dispatch_operator env cmd st =
     (case cmd of
        Submit who \<Rightarrow>
          (case run_local_paper_submit env who DEFAULT_AS_OF None st of (r, t, _) \<Rightarrow> (map_res SubmitOutput r, t))
      | CancelDrill who \<Rightarrow>
          (case run_cancel_drill env who DEFAULT_AS_OF st of (r, t) \<Rightarrow> (map_res DrillOutput r, t))
      | Inspect \<Rightarrow> (case run_inspect env st of (r, t) \<Rightarrow> (map_res InspectOutput r, t))
      | Recovery \<Rightarrow> (map_res RecoveryOutput (run_recovery_inspection st), st))"

text \<open>The exceptions \<open>main\<close> turns into exit code 2.\<close>

fun is_refusal :: "py_error \<Rightarrow> bool" where
  "is_refusal (PaperOperatorError _ _) \<longleftrightarrow> True"
| "is_refusal (ConfigError k _) \<longleftrightarrow> k = ''PaperConfigError''"
| "is_refusal (OperatorError _ _) \<longleftrightarrow> True"
| "is_refusal (MarketDataError k _) \<longleftrightarrow> k = ''MarketDataUnavailableError''"
| "is_refusal _ \<longleftrightarrow> False"

definition operator_main :: "operator_env \<Rightarrow> operator_command \<Rightarrow> audit_store \<Rightarrow> int res \<times> audit_store" where
  "operator_main env cmd st =
     (case dispatch_operator env cmd st of
        (Inl e, t) \<Rightarrow> (if is_refusal e then Inr 2 else Inl e, t)
      | (Inr v, t) \<Rightarrow> (Inr 0, t))"

end
