(* ===== verification/PaperOperatorSafety.thy ===== *)
theory PaperOperatorSafety
  imports PaperOperator
begin

text \<open>
  What the local paper operator promises: only the pinned fixture is traded, at the reconciled price
  of the replay evidence whatever the candidate claims, and only after the code displayed for that
  very intent was typed back. The first section shows that a paper cycle asks its confirmer only about
  intents minted from its item.
\<close>

section \<open>What a cycle asks about\<close>

definition from_item :: "gateway_request \<Rightarrow> decimal option \<Rightarrow> broker_submit_intent \<Rightarrow> bool" where
  "from_item r price i \<longleftrightarrow>
     vi_candidate (ot_validated_intent (bi_ticket i)) = gr_candidate r \<and> bi_submitted_at i = gr_as_of r \<and>
     bi_limit_price i = (if ot_order_type (bi_ticket i) = order_type.LIMIT then price else None)"

text \<open>The same cycle with a confirmer that answers only intents with a property.\<close>

definition asking :: "(broker_submit_intent \<Rightarrow> bool) \<Rightarrow> paper_cycle_args \<Rightarrow> paper_cycle_args" where
  "asking P a =
     a\<lparr>pc_confirmer := map_option (\<lambda>confirm i. if P i then confirm i else Inl (TypeError [])) (pc_confirmer a)\<rparr>"

lemma asking_simps [simp]:
  "pc_recorded_at (asking P a) = pc_recorded_at a" "pc_routing_state (asking P a) = pc_routing_state a"
  "pc_attempt_counter (asking P a) = pc_attempt_counter a" "pc_heartbeat_path (asking P a) = pc_heartbeat_path a"
  "pc_ct_offset (asking P a) = pc_ct_offset a" "pc_codec (asking P a) = pc_codec a" "pc_wall (asking P a) = pc_wall a"
  by (simp_all add: asking_def)

lemma asking_steps [simp]:
  "defer_step (asking P a) = defer_step a" "broker_step (asking P a) = broker_step a"
  "report_step (asking P a) = report_step a" "submit_step (asking P a) = submit_step a"
  "startup_step (asking P a) = startup_step a" "heartbeat_text (asking P a) = heartbeat_text a"
  "cycle_result (asking P a) = cycle_result a"
proof -
  have id: "paper_id (asking P a) = paper_id a" by (simp add: fun_eq_iff paper_id_def)
  show "defer_step (asking P a) = defer_step a" by (simp add: fun_eq_iff defer_step_def id)
  show b: "broker_step (asking P a) = broker_step a" by (simp add: fun_eq_iff broker_step_def)
  show r: "report_step (asking P a) = report_step a"
    by (intro ext, simp only: report_step_def asking_simps id)
  show "submit_step (asking P a) = submit_step a"
    by (intro ext, simp only: submit_step_def asking_simps id b r)
  show "startup_step (asking P a) = startup_step a" by (intro ext, simp only: startup_step_def asking_simps)
  show "heartbeat_text (asking P a) = heartbeat_text a" by (intro ext, simp only: heartbeat_text_def asking_simps)
  show "cycle_result (asking P a) = cycle_result a" by (intro ext, simp only: cycle_result_def asking_simps)
qed

lemma bind_lift_cong: "(\<And>x. m = Inr x \<Longrightarrow> f x = g x) \<Longrightarrow> bind_st (lift_res m) f = bind_st (lift_res m) g"
  by (cases m) (simp_all add: fun_eq_iff bind_st_def lift_res_def)

lemma asking_intent:
  assumes "P i"
  shows "intent_step (asking P a) n i = intent_step a n i"
proof -
  have "(case pc_confirmer (asking P a) of None \<Rightarrow> Inr None | Some confirm \<Rightarrow> confirm i) =
      (case pc_confirmer a of None \<Rightarrow> Inr None | Some confirm \<Rightarrow> confirm i)"
    using assms by (simp add: asking_def split: option.split)
  then show ?thesis by (simp only: intent_step_def asking_simps asking_steps)
qed

lemma minted_fields:
  "mint_broker_submit_intent clock dump (Inst t) n mode price (Some (Aware now)) = Inr i \<Longrightarrow>
     bi_ticket i = t \<and> bi_limit_price i = price \<and> bi_submitted_at i = now"
  by (auto simp: mint_broker_submit_intent_def require_eq_Inr bind_res_eq_Inr Let_def submit_intent_from_gateway_def
      init_broker_submit_intent_def construct_eq_Inr)

lemma minted_ticket_intent:
  "mint_order_ticket now (Inst v) rs c = Inr t \<Longrightarrow> ot_validated_intent t = v"
  by (auto simp: mint_order_ticket_def bind_res_eq_Inr Let_def mk_order_ticket_def construct_eq_Inr
      split: if_splits option.splits) (auto simp: construct_eq_Inr split: datetime.splits)

lemma reject_none: "reject dump r cs = Inr d \<Longrightarrow> gd_approved d = None"
  by (auto simp: reject_def bind_res_eq_Inr map_res_eq_Inr Let_def)

lemma validated_candidate:
  assumes "validate z dump r = Inr d" and "gd_approved d = Some v"
  shows "vi_candidate v = gr_candidate r"
proof -
  obtain cs where "gate_codes z r = Inr cs" using assms(1) by (auto simp: validate_def bind_res_eq_Inr)
  then have "approve_request dump r (Aware (gr_as_of r)) = Inr d"
    using assms by (auto simp: validate_def dest: reject_none split: if_splits)
  then obtain h f l where d: "(case (h, f, l) of
      (Some heat, Some feed, Some strategy) \<Rightarrow>
        bind_res (catch_value_error (mk_validated_trade_intent
          \<lparr>vi_status = VALIDATED, vi_candidate = gr_candidate r, vi_approved_heat = heat,
           vi_certified_feed = feed, vi_live_strategy = strategy\<rparr>)) (\<lambda>validated.
        case validated of
          Some v \<Rightarrow> Inr \<lparr>gd_approved = Some v, gd_rejection = None, gd_reason_codes = []\<rparr>
        | None \<Rightarrow> reject dump r [INTERNAL_CONTRADICTION])
      | _ \<Rightarrow> reject dump r [INTERNAL_CONTRADICTION]) = Inr d"
    unfolding approve_request_def bind_res_eq_Inr by blast
  then have "h \<noteq> None" "f \<noteq> None" "l \<noteq> None" using assms(2) by (auto dest: reject_none split: option.splits)
  then show ?thesis
    using d assms(2)
    by (auto simp: bind_res_eq_Inr catch_value_error_def mk_validated_trade_intent_def construct_def
        dest: reject_none split: option.splits)
qed

lemma asking_ticket:
  assumes "vi_candidate (ot_validated_intent t) = gr_candidate r"
  shows "ticket_step (asking (from_item r price) a) n price r t = ticket_step a n price r t"
proof -
  have "bind_st (lift_res (mint_broker_submit_intent (gr_as_of r) (dump_ticket (pc_codec a)) (Inst t) (pc_attempt_counter a)
        submit_mode.PAPER (if ot_order_type t = order_type.LIMIT then price else None) (Some (Aware (gr_as_of r)))))
        (intent_step (asking (from_item r price) a) n) =
      bind_st (lift_res (mint_broker_submit_intent (gr_as_of r) (dump_ticket (pc_codec a)) (Inst t) (pc_attempt_counter a)
        submit_mode.PAPER (if ot_order_type t = order_type.LIMIT then price else None) (Some (Aware (gr_as_of r)))))
        (intent_step a n)"
  proof (rule bind_lift_cong)
    fix i
    assume "mint_broker_submit_intent (gr_as_of r) (dump_ticket (pc_codec a)) (Inst t) (pc_attempt_counter a)
        submit_mode.PAPER (if ot_order_type t = order_type.LIMIT then price else None) (Some (Aware (gr_as_of r))) = Inr i"
    from minted_fields [OF this] have "from_item r price i" using assms by (simp add: from_item_def)
    then show "intent_step (asking (from_item r price) a) n i = intent_step a n i" by (rule asking_intent)
  qed
  then show ?thesis by (simp only: ticket_step_def asking_simps asking_steps)
qed

lemma asking_decision:
  assumes "validate z dump r = Inr d"
  shows "decision_step (asking (from_item r price) a) n price r d = decision_step a n price r d"
proof (cases "gd_approved d")
  case (Some v)
  have "bind_st (lift_res (mint_order_ticket (gr_as_of r) (Inst v) rs (Some (Aware (gr_as_of r)))))
        (ticket_step (asking (from_item r price) a) n price r) =
      bind_st (lift_res (mint_order_ticket (gr_as_of r) (Inst v) rs (Some (Aware (gr_as_of r)))))
        (ticket_step a n price r)" for rs
    by (rule bind_lift_cong, rule asking_ticket)
      (simp add: minted_ticket_intent validated_candidate [OF assms Some])
  then show ?thesis by (simp only: decision_step_def asking_simps Some option.case)
qed (simp add: decision_step_def is_approved_def split: option.split)

lemma asking_item:
  "item_step (asking (from_item r price) a) n (Inst \<lparr>pr_request = Inst r, pr_limit_price = price\<rparr>) =
     item_step a n (Inst \<lparr>pr_request = Inst r, pr_limit_price = price\<rparr>)"
proof -
  have "bind_st (lift_res (validate z dump r)) (decision_step (asking (from_item r price) a) n price r) =
      bind_st (lift_res (validate z dump r)) (decision_step a n price r)" for z dump
    by (rule bind_lift_cong) (rule asking_decision)
  then show ?thesis
    by (simp only: item_step_def asking_simps dyn.case paper_submit_request.simps)
qed

lemma asking_run:
  "run_paper_cycle (asking (from_item r price) a) config broker st [Inst \<lparr>pr_request = Inst r, pr_limit_price = price\<rparr>] =
     run_paper_cycle a config broker st [Inst \<lparr>pr_request = Inst r, pr_limit_price = price\<rparr>]"
  by (simp only: run_paper_cycle_def items_loop.simps asking_item asking_simps asking_steps)

text \<open>So an order of a cycle over one item is for an intent with the candidate, the instant and the
  price of that item, and the confirmer returned a valid confirmation of it.\<close>

lemma order_from_item:
  assumes "run_paper_cycle a config broker st [Inst \<lparr>pr_request = Inst r, pr_limit_price = price\<rparr>] = (res, s)"
    and "held (cy_broker s) k \<noteq> None" and "held broker k = None"
  shows "Some k \<in> attempts (au_store s) \<and> Some k \<notin> attempts st \<and>
    (\<exists>i h confirm. bi_idempotency_key i = k \<and> from_item r price i \<and> pc_confirmer a = Some confirm \<and>
      confirm i = Inr (Some h) \<and> paper_policy_ok (lp_config broker) i \<and>
      (pb_paper_require_human_confirm (lp_config broker) \<longrightarrow> confirms (dump_intent (pc_codec a)) h i))"
proof -
  let ?a = "asking (from_item r price) a"
  have "cycle_rel ?a (initial_cycle_state broker st) s"
    using run_paper_cycle_rel [of ?a broker st config "[Inst \<lparr>pr_request = Inst r, pr_limit_price = price\<rparr>]"] assms(1)
    by (simp add: asking_run)
  then have k: "Some k \<in> attempts (au_store s) \<and> Some k \<notin> attempts st" and "authorised ?a (lp_config broker) k"
    using assms(2,3) by (auto simp: cycle_rel_def initial_cycle_state_def)
  then obtain i h confirm where i: "bi_idempotency_key i = k" "pc_confirmer ?a = Some confirm" "confirm i = Inr (Some h)"
    "paper_policy_ok (lp_config broker) i"
    "pb_paper_require_human_confirm (lp_config broker) \<longrightarrow> confirms (dump_intent (pc_codec a)) h i"
    unfolding authorised_def by auto
  then obtain confirm' where "pc_confirmer a = Some confirm'" "confirm = (\<lambda>i. if from_item r price i then confirm' i else Inl (TypeError []))"
    by (auto simp: asking_def)
  then show ?thesis using k i by (intro conjI exI [of _ i] exI [of _ h] exI [of _ confirm']) (auto split: if_splits)
qed

section \<open>The confirmer\<close>

definition code_of :: "operator_env \<Rightarrow> broker_submit_intent \<Rightarrow> string" where
  "code_of env i = confirmation_code (oe_nonce env) (sha256_hexdigest (dump_intent (oe_codec env) i))"

text \<open>What is shown for an intent.\<close>

definition shown :: "operator_env \<Rightarrow> broker_submit_intent \<Rightarrow> confirmation_display" where
  "shown env i =
     \<lparr>cd_ticket_display = (case render_ticket_display (Inst i) of Inr d \<Rightarrow> d), cd_nonce = oe_nonce env,
      cd_confirmation_code = code_of env i\<rparr>"

lemma typed_confirm_fresh:
  "typed_confirm env who False (Inst i) =
     (bind_res (oe_input env (shown env i)) (\<lambda>typed.
        if typed = [] then Inr None
        else require (typed = code_of env i)
          (confirmation_error ''typed confirmation did not match the displayed confirmation_code'')
          (map_res Some (paper_submit_approval_for_intent (dump_intent (oe_codec env)) (Inst i) who (Aware (oe_real_clock env))))),
      True)"
  by (simp add: typed_confirm_def compute_full_intent_digest_def code_of_def shown_def render_ticket_display_def Let_def cong: if_cong)

lemma typed_confirm_again:
  "typed_confirm env who True (Inst i) =
     (Inl (confirmation_error ''this confirmer already resolved one PaperSubmitApproval''), True)"
  by (simp add: typed_confirm_def)

lemma code_of_not_empty [simp]: "code_of env i \<noteq> []" "[] \<noteq> code_of env i"
proof -
  have "length (code_of env i) = 64" by (simp add: code_of_def confirmation_code_def)
  then show "code_of env i \<noteq> []" "[] \<noteq> code_of env i" by auto
qed

lemma approval_fields:
  "paper_submit_approval_for_intent dump (Inst i) who (Aware now) = Inr a \<Longrightarrow>
     pa_order_ticket_hash a = bi_order_ticket_hash i \<and> pa_idempotency_key a = bi_idempotency_key i \<and>
     pa_approved_by a = who \<and> pa_approved_at a = now \<and> pa_full_intent_digest a = sha256_hexdigest (dump i)"
  by (auto simp: paper_submit_approval_for_intent_def compute_full_intent_digest_def mk_paper_submit_approval_def
      construct_eq_Inr)

lemma confirmer_answer:
  assumes "make_typed_confirmer env who i = Inr (Some h)"
  shows "oe_input env (shown env i) = Inr (code_of env i) \<and>
    (confirms (dump_intent (oe_codec env)) h i \<longrightarrow> at_us (bi_submitted_at i) \<le> at_us (oe_real_clock env))"
  using assms
  by (auto simp: make_typed_confirmer_def typed_confirm_fresh map_res_eq_Inr bind_res_eq_Inr require_eq_Inr confirms_def
      split: if_splits dest: approval_fields)

section \<open>The request\<close>

lemma assembled_prices:
  "assemble_price_reconciliation px = Inr p \<Longrightarrow>
     p = \<lparr>pc_broker_option_mid = px_broker_option_mid px, pc_secondary_option_mid = px_secondary_option_mid px,
          pc_broker_underlying = px_broker_underlying px, pc_secondary_underlying = px_secondary_underlying px\<rparr>"
  by (simp add: assemble_price_reconciliation_def Let_def construct_eq_Inr)

definition replay_prices :: price_reconciliation_check where
  "replay_prices =
     \<lparr>pc_broker_option_mid = Dec 50 (- 2), pc_secondary_option_mid = Dec 505 (- 3),
      pc_broker_underlying = Dec 49500 (- 2), pc_secondary_underlying = Dec 49510 (- 2)\<rparr>"

lemma built_request:
  assumes "build_gateway_request (Inst c) t = Inr r"
  shows "gr_candidate r = c \<and> gr_as_of r = t \<and> gr_reconciliation r = replay_prices \<and>
    gr_data_snapshot r = fresh_snapshot t True \<and> gr_feed_certification r = certified_feed t \<and>
    gr_event_calendar r = empty_calendar \<and> gr_account r = operator_account \<and>
    gr_liquidity r = \<lparr>lg_bid = Dec 48 (- 2), lg_ask = Dec 52 (- 2), lg_open_interest = 500, lg_top_of_book_size = 20\<rparr>"
  using assms
  by (auto simp: build_gateway_request_def bind_res_eq_Inr map_res_eq_Inr Let_def mk_gateway_request_def construct_eq_Inr
      offline_replay_adapter_def offline_leg_symbol_def make_xsp_fixture_def fixture_adapter_def fixture_lookup_def
      OFFLINE_SHORT_PUT_STRIKE_def replay_prices_def dest!: assembled_prices)

lemma resolved_price: "build_gateway_request (Inst c) t = Inr r \<Longrightarrow> resolved_limit_price r = Dec 50 (- 2)"
  using built_request [of c t r] by (simp add: resolved_limit_price_def replay_prices_def)

lemma prepared:
  "prepare env t = Inr p \<longleftrightarrow> (\<exists>c. load_xsp_candidate_fixture env = Inr c \<and> build_gateway_request (Inst c) t = Inr (pp_request p) \<and>
     build_routing_state = Inr (pp_routing p) \<and> build_local_paper_app_config = Inr (pp_config p))"
  by (cases p) (auto simp: prepare_def bind_res_eq_Inr)

lemma armed_config:
  "build_armed_local_paper_broker clock = Inr b \<Longrightarrow>
     armed_paper_broker_config = Inr (lp_config b) \<and> held b k = None"
  by (auto simp: build_armed_local_paper_broker_def map_res_eq_Inr new_local_paper_broker_def held_def new_fake_broker_def)

lemma armed_policy:
  "armed_paper_broker_config = Inr c \<Longrightarrow>
     pb_paper_require_human_confirm c \<and>
     (paper_policy_ok c i \<longleftrightarrow> bi_submit_mode i = submit_mode.PAPER \<and>
        ci_underlying (vi_candidate (ot_validated_intent (bi_ticket i))) = underlying.XSP \<and> requested i \<le> 1 \<and>
        ot_order_type (bi_ticket i) = order_type.LIMIT)"
  by (auto simp: armed_paper_broker_config_def mk_paper_broker_config_def construct_eq_Inr paper_policy_ok_def)


lemma loaded_fixture:
  "load_xsp_candidate_fixture env = Inr c \<longleftrightarrow>
     (let f = oe_fixture env; body = universal_newlines (fx_bytes f) in
      fx_resolved f = oe_canonical env \<and> \<not> fx_is_symlink f \<and> fx_is_file f \<and>
      sha256_hexdigest (fx_bytes f) = PINNED_FIXTURE_SHA256 \<and> utf8_ok (fx_bytes f) \<and>
      (\<exists>ms. json_loads body = Inr (JObj ms)) \<and> oe_model_validate_json env body = Inr c \<and>
      ci_underlying c = underlying.XSP \<and> sl_contracts (ci_short_leg c) = 1 \<and> sl_contracts (ci_long_leg c) = 1)"
  by (auto simp: load_xsp_candidate_fixture_def authenticate_canonical_fixture_path_def parse_candidate_from_path_def
      res_iffs Let_def split: sum.splits json.splits py_error.splits)

definition operator_order :: "operator_env \<Rightarrow> aware \<Rightarrow> broker_submit_intent \<Rightarrow> bool" where
  "operator_order env as_of i \<longleftrightarrow>
     (let c = vi_candidate (ot_validated_intent (bi_ticket i)) in
      load_xsp_candidate_fixture env = Inr c \<and> ci_underlying c = underlying.XSP \<and> requested i = 1 \<and>
      ot_order_type (bi_ticket i) = order_type.LIMIT \<and> bi_limit_price i = Some (Dec 50 (- 2)) \<and>
      bi_submitted_at i = as_of \<and> at_us as_of \<le> at_us (oe_real_clock env) \<and>
      oe_input env (shown env i) = Inr (code_of env i))"

lemma cycle_order:
  assumes "prepare env as_of = Inr p" and "build_armed_local_paper_broker clock = Inr b"
    and "operator_cycle env who as_of p b st = (res, s)" and "held (cy_broker s) k \<noteq> None"
  shows "\<exists>i. k = bi_idempotency_key i \<and> operator_order env as_of i \<and>
    Some k \<in> attempts (au_store s) - attempts st"
proof -
  obtain c where c: "load_xsp_candidate_fixture env = Inr c" "build_gateway_request (Inst c) as_of = Inr (pp_request p)"
    using assms(1) by (auto simp: prepared)
  note r = built_request [OF c(2)] and price = resolved_price [OF c(2)]
  have b: "armed_paper_broker_config = Inr (lp_config b)" "held b k = None" using armed_config [OF assms(2)] by auto
  let ?a = "operator_args env who as_of (pp_routing p)"
  have "run_paper_cycle ?a (pp_config p) b st [Inst \<lparr>pr_request = Inst (pp_request p), pr_limit_price = Some (Dec 50 (- 2))\<rparr>] = (res, s)"
    using assms(3) by (simp add: operator_cycle_def price)
  from order_from_item [OF this assms(4) b(2)] obtain i h confirm where
    k: "Some k \<in> attempts (au_store s)" "Some k \<notin> attempts st" and
    i: "bi_idempotency_key i = k" "from_item (pp_request p) (Some (Dec 50 (- 2))) i" "paper_policy_ok (lp_config b) i"
    and h: "make_typed_confirmer env who i = Inr (Some h)" "confirms (dump_intent (oe_codec env)) h i"
    using armed_policy [OF b(1)] by (auto simp: operator_args_def)
  have pol: "bi_submit_mode i = submit_mode.PAPER \<and>
        ci_underlying (vi_candidate (ot_validated_intent (bi_ticket i))) = underlying.XSP \<and> requested i \<le> 1 \<and>
        ot_order_type (bi_ticket i) = order_type.LIMIT"
    using armed_policy [OF b(1)] i(3) by blast
  have "vi_candidate (ot_validated_intent (bi_ticket i)) = c" "bi_submitted_at i = as_of" "bi_limit_price i = Some (Dec 50 (- 2))"
    using i(2) r pol by (auto simp: from_item_def)
  moreover have "sl_contracts (ci_short_leg c) = 1" using c(1) by (simp add: loaded_fixture Let_def)
  ultimately have "operator_order env as_of i"
    using confirmer_answer [OF h(1)] h(2) c(1) pol by (simp add: operator_order_def requested_def Let_def)
  then show ?thesis using i(1) k by auto
qed

section \<open>A fixture candidate\<close>

definition fixture_leg :: "leg_side \<Rightarrow> int \<Rightarrow> int \<Rightarrow> spread_leg" where
  "fixture_leg side strike delta =
     \<lparr>sl_side = side, sl_option_type = PUT, sl_strike = Dec strike 0, sl_delta = Dec delta (- 2), sl_contracts = 1\<rparr>"

definition fixture_candidate :: candidate_trade_intent where
  "fixture_candidate =
     \<lparr>ci_status = CANDIDATE, ci_underlying = underlying.XSP, ci_direction = PUT_CREDIT,
      ci_short_leg = fixture_leg SHORT 495 (- 8), ci_long_leg = fixture_leg LONG 490 (- 5),
      ci_net_credit = Dec 50 (- 2), ci_multiplier = 100, ci_dte = 2,
      ci_rationale_id = ''paper-operator-local-fixture-v1''\<rparr>"

text \<open>The request the operator builds for it at \<open>DEFAULT_AS_OF\<close>.\<close>

definition fixture_contract :: "int \<Rightarrow> string \<Rightarrow> contract_metadata" where
  "fixture_contract strike symbol =
     \<lparr>cm_underlying = underlying.XSP, cm_option_symbol = symbol, cm_expiration_date = utc 1781899200000000,
      cm_expiration_time = utc 1781899200000000, cm_last_trading_time = utc 1781899200000000,
      cm_settlement_style = CASH, cm_exercise_style = EUROPEAN, cm_multiplier = 100, cm_strike = Dec strike 0,
      cm_option_type = PUT\<rparr>"

definition fixture_request :: gateway_request where
  "fixture_request =
     \<lparr>gr_candidate = fixture_candidate, gr_as_of = utc 1781717400000000, gr_account = operator_account,
      gr_heat = \<lparr>ph_sum_defined_max_loss = Dec 45000 (- 2), ph_broker_margin_requirement = Dec 45000 (- 2),
        ph_net_liquidating_value = Dec 25000 0\<rparr>,
      gr_drawdown = \<lparr>dd_active_tier = drawdown_tier.NONE, dd_triggered_action = None, dd_rearm_mode = None,
        dd_human_rearm_granted = False\<rparr>,
      gr_instrument = \<lparr>in_underlying = underlying.XSP\<rparr>,
      gr_spread_contract = \<lparr>sc_short_contract = fixture_contract 495 ''XSP260619P00495000'',
        sc_long_contract = fixture_contract 490 ''XSP260619P00490000''\<rparr>,
      gr_underlying_policy = \<lparr>up_xsp_enabled = True, up_spx_phase_2_enabled = False, up_policy_version = ''2026.06'',
        up_source = CONSTITUTION_CONFIG, up_approved_by = None, up_effective_at = utc 1781631000000000,
        up_expires_at = Some (utc 1784309400000000)\<rparr>,
      gr_data_snapshot = \<lparr>ds_option_quote_ts = utc 1781717399800000, ds_underlying_price_ts = utc 1781717399800000,
        ds_vix_ts = utc 1781717399000000, ds_iv_rank_ts = utc 1781717398000000, ds_iv_rank_inputs_fresh = True,
        ds_iv_rank_value = Dec 85 0\<rparr>,
      gr_reconciliation = replay_prices,
      gr_liquidity = \<lparr>lg_bid = Dec 48 (- 2), lg_ask = Dec 52 (- 2), lg_open_interest = 500, lg_top_of_book_size = 20\<rparr>,
      gr_execution_quality = \<lparr>eq_rolling_avg_slippage_usd = Dec 1 (- 2), eq_failed_fill_attempts = 0,
        eq_trades_in_window = 10, eq_rearm_token = None\<rparr>,
      gr_concentration = \<lparr>cn_concurrent_spreads_total = 1, cn_open_spreads_same_expiry = 1,
        cn_same_direction_spreads = 1, cn_is_zero_dte = False, cn_zero_dte_concurrent_spreads = 0,
        cn_zero_dte_same_direction_spreads = 0, cn_aggregate_short_delta_abs = Dec 8 (- 2),
        cn_aggregate_gamma_notional_pct_equity = Dec 5 (- 1)\<rparr>,
      gr_protection = \<lparr>ps_long_leg_confirmed = True, ps_broker_native_stop_present = True,
        ps_agent_managed_stop_only = False, ps_is_emergency_close = False\<rparr>,
      gr_multi_leg = \<lparr>ml_broker_confirms_atomic_combo = True, ml_legging = False, ml_long_leg_first = True\<rparr>,
      gr_strategy_stage = \<lparr>ss_stage = strategy_stage.LIVE\<rparr>,
      gr_feed_certification = certified_feed (utc 1781717400000000), gr_event_calendar = \<lparr>ec_blackouts = []\<rparr>\<rparr>"

lemma fixture_request_built: "build_gateway_request (Inst fixture_candidate) DEFAULT_AS_OF = Inr fixture_request"
  by code_simp

lemma fixture_request_wf: "wf_gateway_request fixture_request"
  unfolding wf_gateway_request_def by (intro conjI; code_simp)

lemma fixture_ages: "elapsed_ms 200000 \<le> 500" "elapsed_ms 1000000 \<le> 5000" "elapsed_ms 2000000 \<le> 10000"
proof -
  have "elapsed_ms 200000 \<le> elapsed_ms 500000" by (rule elapsed_ms_mono) simp_all
  also have "elapsed_ms 500000 \<le> 500" by code_simp
  finally show "elapsed_ms 200000 \<le> 500" .
  show "elapsed_ms 1000000 \<le> 5000" "elapsed_ms 2000000 \<le> 10000" by code_simp+
qed

lemma fixture_fresh: "gate_data_freshness (gr_data_snapshot fixture_request) (Aware (gr_as_of fixture_request)) False = Inr None"
  using fixture_ages
  by (simp add: gate_data_freshness_def freshness_reason_def fixture_request_def age_ms_past utc_def Let_def
      MAX_QUOTE_AGE_MS_NORMAL_def MAX_UNDERLYING_PRICE_AGE_MS_def MAX_VIX_AGE_MS_def MAX_IV_RANK_AGE_MS_def)

lemma fixture_gates:
  "gate_account_mode (gr_account fixture_request) @
   opt_list (gate_delta_band (gr_candidate fixture_request)) @
   opt_list (gate_strategy_live (gr_strategy_stage fixture_request)) @
   opt_list (gate_portfolio_heat (gr_heat fixture_request)) @
   opt_list (gate_concentration (gr_concentration fixture_request)) = []"
  "opt_list (gate_liquidity (gr_liquidity fixture_request)) @
   opt_list (gate_execution_quality (gr_execution_quality fixture_request)) @
   gate_drawdown (gr_drawdown fixture_request) @
   opt_list (gate_protection (gr_protection fixture_request)) @
   opt_list (gate_multi_leg (gr_multi_leg fixture_request)) @
   opt_list (gate_entry_window (ct_minutes_since_midnight sample_ct_offset fixture_request)) = []"
  "gate_instrument_permitted (gr_instrument fixture_request) (gr_candidate fixture_request)
     (gr_underlying_policy fixture_request) (Aware (gr_as_of fixture_request)) = Inr None"
  "gate_contract_metadata (gr_spread_contract fixture_request) (gr_candidate fixture_request)
     (Aware (gr_as_of fixture_request)) = Inr []"
  "dte_matches_claim fixture_request = Inr True"
  "gate_event_blackout (gr_event_calendar fixture_request) (Aware (gr_as_of fixture_request)) = Inr None"
  "is_zero_dte_after_2pm_ct sample_ct_offset fixture_request = Inr False"
  "gate_reconciliation (gr_reconciliation fixture_request) = None"
  "gate_feed_certification (gr_feed_certification fixture_request) (Aware (gr_as_of fixture_request))
     (require_spx_feed_coverage fixture_request) = Inr None"
  by code_simp+

lemma fixture_request_clean: "gate_codes sample_ct_offset fixture_request = Inr []"
  using fixture_gates(1,2)
  by (simp add: gate_codes_def Let_def fixture_gates(3-) fixture_fresh gate_dte_match_def)

section \<open>Executing the request\<close>

lemma built_routing:
  "build_routing_state = Inr rs \<Longrightarrow> wf_order_routing_state rs \<and> rs_requested_order_type rs = None \<and>
     resolve_order_type rs = order_type.LIMIT"
  by (auto simp: build_routing_state_def bind_res_eq_Inr construct_eq_Inr mk_order_routing_state_def wf_defs
      resolve_order_type_def Let_def)

lemma built_safe:
  assumes "build_local_paper_app_config = Inr config" and "armed_paper_broker_config = Inr (lp_config b)"
  shows "require_paper_safe config b = Inr ()"
  using assms
  by (auto simp: build_local_paper_app_config_def mk_app_config_def armed_paper_broker_config_def mk_paper_broker_config_def
      construct_eq_Inr require_paper_safe_def require_def paper_submission_armed_def Let_def)

lemma armed_broker:
  "build_armed_local_paper_broker clock = Inr b \<Longrightarrow>
     fk_kind (lp_inner b) = FakeFillBroker \<and> fk_clock (lp_inner b) = clock \<and> fk_broker_name (lp_inner b) \<noteq> []"
  by (auto simp: build_armed_local_paper_broker_def map_res_eq_Inr new_local_paper_broker_def new_fake_broker_def)

lemma typed_code_confirms:
  assumes "oe_input env (shown env i) = Inr (code_of env i)" and "who \<noteq> []"
    and "length (bi_order_ticket_hash i) = 64" and "bi_idempotency_key i \<noteq> []"
    and "at_us (bi_submitted_at i) \<le> at_us (oe_real_clock env)"
  shows "\<exists>h. make_typed_confirmer env who i = Inr (Some h) \<and> confirms (dump_intent (oe_codec env)) h i"
proof -
  let ?d = "sha256_hexdigest (dump_intent (oe_codec env) i)"
  have "is_hex64 ?d"
    using subsetD [OF set_sha256_hexdigest [of "dump_intent (oe_codec env) i"]] by (simp only: is_hex64_def list_all_iff) simp
  then have "paper_submit_approval_for_intent (dump_intent (oe_codec env)) (Inst i) who (Aware (oe_real_clock env)) = Inr
    \<lparr>pa_order_ticket_hash = bi_order_ticket_hash i, pa_idempotency_key = bi_idempotency_key i, pa_approved_by = who,
     pa_approved_at = oe_real_clock env, pa_submit_mode = submit_mode.PAPER, pa_full_intent_digest = ?d\<rparr>"
    using assms(2-4) by (simp add: paper_submit_approval_for_intent_def compute_full_intent_digest_def
        mk_paper_submit_approval_def paper_submit_approval_guards_def)
  then show ?thesis
    using assms(1,5) by (simp add: make_typed_confirmer_def typed_confirm_fresh confirms_def)
qed

definition operator_intent :: "operator_env \<Rightarrow> string \<Rightarrow> aware \<Rightarrow> preparation \<Rightarrow> validated_trade_intent \<Rightarrow> broker_submit_intent" where
  "operator_intent env who as_of p v =
     intent_of (operator_args env who as_of (pp_routing p)) (pp_routing p) (Some (Dec 50 (- 2))) (pp_request p) v"

lemma operator_run:
  assumes built: "build_gateway_request (Inst c) as_of = Inr (pp_request p)" "build_routing_state = Inr (pp_routing p)"
      "build_local_paper_app_config = Inr (pp_config p)" "build_armed_local_paper_broker (Some (Aware as_of)) = Inr b"
    and scope: "ci_underlying c = underlying.XSP" "sl_contracts (ci_short_leg c) = 1"
    and approved: "wf_gateway_request (pp_request p)"
      "validate (oe_ct_offset env) (dump_request (oe_codec env)) (pp_request p) = Inr d" "gd_approved d = Some v"
    and store: "storing_codec (oe_codec env)" "0 \<le> st_last_seq st" "Some (bi_idempotency_key i) \<notin> attempts st"
    and typed: "i = operator_intent env who as_of p v" "oe_input env (shown env i) = Inr (code_of env i)" "who \<noteq> []"
      "at_us as_of \<le> at_us (oe_real_clock env)"
  shows "\<exists>cycle hb s f rows row. operator_cycle env who as_of p b st = (Inr (cycle, hb), s) \<and>
    pt_submitted cycle = 1 \<and> held (cy_broker s) (bi_idempotency_key i) = Some f \<and>
    bf_lifecycle_state f = order_lifecycle_state.FILLED \<and> bf_filled_contracts f = 1 \<and>
    Some (bi_idempotency_key i) \<in> attempts (au_store s) \<and>
    st_rows (au_store s) = rows @ [row] \<and> sr_record_type row = EXECUTION_REPORT \<and>
    sr_record_id row = bi_idempotency_key i"
proof -
  let ?a = "operator_args env who as_of (pp_routing p)"
  note r = built_request [OF built(1)] and rs = built_routing [OF built(2)] and b = armed_broker [OF built(4)]
  have cfg: "armed_paper_broker_config = Inr (lp_config b)" and empty: "held b (bi_idempotency_key i) = None"
    using armed_config [OF built(4)] by auto
  have i: "i = intent_of ?a (pp_routing p) (Some (Dec 50 (- 2))) (pp_request p) v" using typed(1) by (simp add: operator_intent_def)
  have fields: "bi_submitted_at i = as_of" "length (bi_order_ticket_hash i) = 64" "bi_idempotency_key i \<noteq> []"
    using i r by simp_all
  obtain h where h: "make_typed_confirmer env who i = Inr (Some h)" "confirms (dump_intent (oe_codec env)) h i"
    using typed_code_confirms [OF typed(2,3) fields(2,3)] typed(4) fields(1) by auto
  have cand: "vi_candidate v = c" using approvedD(2) [OF approved] r by simp
  have "ot_order_type (bi_ticket i) = order_type.LIMIT" "ot_validated_intent (bi_ticket i) = v" "bi_submit_mode i = submit_mode.PAPER"
    using rs by (simp_all add: i ticket_of_def routed_ticket_def) (simp add: intent_of_def Let_def minted_intent_def)
  then have policy: "paper_policy_ok (lp_config b) i"
    using armed_policy [OF cfg, of i] cand scope i by simp
  have now: "fake_now (lp_inner b) (pc_wall ?a 0) = Aware as_of" using b by (simp add: fake_now_def)
  have "\<exists>res hb s f rows row.
    run_paper_cycle ?a (pp_config p) b st [Inst \<lparr>pr_request = Inst (pp_request p), pr_limit_price = Some (Dec 50 (- 2))\<rparr>] =
      (Inr (res, hb), s) \<and>
    pt_submitted res = 1 \<and> held (cy_broker s) (bi_idempotency_key i) = Some f \<and>
    bf_lifecycle_state f = order_lifecycle_state.FILLED \<and>
    bf_filled_contracts f = sl_contracts (ci_short_leg (gr_candidate (pp_request p))) \<and>
    Some (bi_idempotency_key i) \<in> attempts (au_store s) \<and>
    st_rows (au_store s) = rows @ [row] \<and> sr_record_type row = EXECUTION_REPORT \<and>
    sr_record_id row = bi_idempotency_key i"
    by (rule executed_run [where rec = as_of and w = as_of and rs = "pp_routing p" and d = d and v = v
          and confirm = "make_typed_confirmer env who" and h = h, OF _ _ _ store(2,3) built_safe [OF built(3) cfg] _ now _ empty])
      (use store(1) r rs b approved i h policy in \<open>simp_all add: operator_args_def\<close>)
  then show ?thesis
    using r scope(2) resolved_price [OF built(1)] by (simp add: operator_cycle_def)
qed

section \<open>A sample session\<close>

definition echo_env :: operator_env where
  "echo_env =
     \<lparr>oe_canonical = ''fixture.json'',
      oe_fixture = \<lparr>fx_resolved = ''fixture.json'', fx_is_symlink = False, fx_is_file = True, fx_bytes = []\<rparr>,
      oe_model_validate_json = (\<lambda>_. Inr fixture_candidate), oe_codec = sample_codec, oe_ct_offset = sample_ct_offset,
      oe_wall = (\<lambda>_. DEFAULT_AS_OF), oe_nonce = ''n'', oe_real_clock = DEFAULT_AS_OF,
      oe_input = (\<lambda>d. Inr (cd_confirmation_code d)), oe_cancel_input = Inr ''CANCEL'', oe_plane_now = Aware DEFAULT_AS_OF,
      oe_dump_event = (\<lambda>_. [])\<rparr>"

lemma echo_types_code: "oe_input echo_env (shown echo_env i) = Inr (code_of echo_env i)"
  by (simp add: echo_env_def shown_def)

lemma replay_feed_valid: "gate_feed_certification (certified_feed t) (Aware t) False = Inr None"
  by (simp add: gate_feed_certification_def feed_rejection_reason_as_of_def is_valid_for_live_as_of_def certified_feed_def
      is_expired_as_of_def sf_expires_at_def CERTIFICATION_VALID_DAYS_def within_thresholds_def at_defs us_per_day_def)

lemma replay_fresh: "gate_data_freshness (fresh_snapshot t True) (Aware t) late = Inr None"
  using fixture_ages
  by (simp add: gate_data_freshness_def freshness_reason_def fresh_snapshot_def age_ms_past ms_def Let_def
      MAX_QUOTE_AGE_MS_NORMAL_def MAX_QUOTE_AGE_MS_0DTE_AFTER_2PM_CT_def MAX_UNDERLYING_PRICE_AGE_MS_def
      MAX_VIX_AGE_MS_def MAX_IV_RANK_AGE_MS_def)

lemma replay_gates:
  "gate_reconciliation replay_prices = None"
  "gate_liquidity \<lparr>lg_bid = Dec 48 (- 2), lg_ask = Dec 52 (- 2), lg_open_interest = 500, lg_top_of_book_size = 20\<rparr> = None"
  by code_simp+

section \<open>Properties\<close>

text \<open>C8. Whatever the operator environment and the store, every order a submit command leaves in the
  broker it built carries the key of an intent for the candidate of the pinned fixture, one XSP
  contract at LIMIT 0.50, the mid of the replay evidence, minted at the instant of the command; the
  operator typed the very code displayed for that intent, and the attempt is among the rows the
  command added.\<close>

theorem operator_orders_are_typed:
  "case run_local_paper_submit env who as_of None st of (res, st', b) \<Rightarrow>
     {k. \<exists>x. b = Some x \<and> held x k \<noteq> None} \<subseteq>
     {k. \<exists>i. k = bi_idempotency_key i \<and> operator_order env as_of i \<and> Some k \<in> attempts st' - attempts st}"
proof (cases "prepare env as_of")
  case (Inr p)
  show ?thesis
  proof (cases "build_armed_local_paper_broker (Some (Aware as_of))")
    case b: (Inr b)
    obtain r s where "operator_cycle env who as_of p b st = (r, s)" by force
    with cycle_order [OF Inr b this] show ?thesis
      by (auto simp: run_local_paper_submit_def Inr b split: sum.split)
  qed (simp add: run_local_paper_submit_def Inr)
qed (simp add: run_local_paper_submit_def)

text \<open>C22. A call of the fresh confirmer returns no approval exactly when the answer is empty, and an
  approval exactly when the operator typed the code displayed for this intent, in which case the
  approval confirms this intent and any other one only if hash, key and full digest agree; every
  other answer raises, and so does every further call.\<close>

theorem confirmer_wants_the_code:
  assumes "wf_broker_submit_intent dump i" and "who \<noteq> []" and "at_us (bi_submitted_at i) \<le> at_us (oe_real_clock env)"
    and "oe_input env (shown env i) = Inr typed"
  shows "case typed_confirm env who False (Inst i) of (res, used) \<Rightarrow> used \<and>
    (res = Inr None \<longleftrightarrow> typed = []) \<and>
    ((\<exists>a. res = Inr (Some a)) \<longleftrightarrow> typed = code_of env i) \<and>
    (\<forall>a. res = Inr (Some a) \<longrightarrow> confirms (dump_intent (oe_codec env)) (Inst a) i \<and>
      (\<forall>j. confirms (dump_intent (oe_codec env)) (Inst a) j \<longrightarrow>
         bi_order_ticket_hash j = bi_order_ticket_hash i \<and> bi_idempotency_key j = bi_idempotency_key i \<and>
         sha256_hexdigest (dump_intent (oe_codec env) j) = sha256_hexdigest (dump_intent (oe_codec env) i))) \<and>
    (\<exists>e. typed_confirm env who used (Inst j) = (Inl e, True))"
  using assms(3,4)
  by (auto simp: typed_confirm_fresh typed_confirm_again approval_for_intent_eq [OF assms(1,2)] confirms_def require_def)

theorem confirmer_wants_the_code_witness:
  "\<exists>a. fst (typed_confirm (echo_env\<lparr>oe_real_clock := sample_as_of\<rparr>) ''op'' False (Inst (sample_intent 1))) = Inr (Some a) \<and>
     confirms (dump_intent sample_codec) (Inst a) (sample_intent 1)"
proof -
  let ?e = "echo_env\<lparr>oe_real_clock := sample_as_of\<rparr>"
  have "at_us (bi_submitted_at (sample_intent 1)) \<le> at_us (oe_real_clock ?e)"
    by (simp add: sample_intent_def minted_intent_def)
  moreover have "oe_input ?e (shown ?e (sample_intent 1)) = Inr (code_of ?e (sample_intent 1))"
    by (simp add: echo_env_def shown_def)
  moreover have "oe_codec ?e = sample_codec" by (simp add: echo_env_def)
  ultimately show ?thesis
    using confirmer_wants_the_code [OF sample_intent_wf, of "''op''" ?e]
    by (cases "typed_confirm ?e ''op'' False (Inst (sample_intent 1))") fastforce
qed

text \<open>Whatever candidate is asked for, a request built by the operator prices the order at the
  mid of the replay evidence, never at a figure of the candidate, it carries the certified replay
  snapshot of the instant, and on its own evidence it is never refused for freshness, reconciliation,
  liquidity or feed certification.\<close>

theorem operator_price_is_reconciled:
  assumes "build_gateway_request (Inst c) t = Inr r"
  shows "gr_candidate r = c \<and> gr_as_of r = t \<and> resolved_limit_price r = Dec 50 (- 2) \<and>
    (\<forall>c' r'. build_gateway_request (Inst c') t = Inr r' \<longrightarrow>
       resolved_limit_price r' = resolved_limit_price r \<and> gr_reconciliation r' = gr_reconciliation r \<and>
       gr_data_snapshot r' = gr_data_snapshot r \<and> gr_liquidity r' = gr_liquidity r \<and>
       gr_feed_certification r' = gr_feed_certification r) \<and>
    gate_reconciliation (gr_reconciliation r) = None \<and> gate_liquidity (gr_liquidity r) = None \<and>
    (\<forall>late. gate_data_freshness (gr_data_snapshot r) (Aware t) late = Inr None) \<and>
    gate_feed_certification (gr_feed_certification r) (Aware t) False = Inr None"
  using built_request [OF assms] built_request [of _ t] resolved_price [OF assms] resolved_price [of _ t]
  by (auto simp: replay_gates replay_fresh replay_feed_valid)

theorem operator_price_is_reconciled_witness:
  "resolved_limit_price fixture_request = Dec 50 (- 2) \<and> gate_reconciliation (gr_reconciliation fixture_request) = None"
  using operator_price_is_reconciled [OF fixture_request_built] by blast

text \<open>C21. A submit of the operator executes: when the operator builds a well-formed request for an XSP
  candidate of one contract that the gateway approves, the armed broker is its own, and the displayed
  code of the minted intent is typed back, then the cycle does not raise, reports one submission, the
  broker holds a complete fill of one contract under the key of the intent, the attempt is persisted
  and the newest row is the execution report of that key.\<close>

theorem operator_submit_executes:
  assumes built: "build_gateway_request (Inst c) as_of = Inr (pp_request p)" "build_routing_state = Inr (pp_routing p)"
      "build_local_paper_app_config = Inr (pp_config p)" "build_armed_local_paper_broker (Some (Aware as_of)) = Inr b"
    and scope: "ci_underlying c = underlying.XSP" "sl_contracts (ci_short_leg c) = 1"
    and approved: "wf_gateway_request (pp_request p)"
      "validate (oe_ct_offset env) (dump_request (oe_codec env)) (pp_request p) = Inr d" "gd_approved d = Some v"
    and store: "storing_codec (oe_codec env)" "0 \<le> st_last_seq st" "Some (bi_idempotency_key i) \<notin> attempts st"
    and typed: "i = operator_intent env who as_of p v" "oe_input env (shown env i) = Inr (code_of env i)" "who \<noteq> []"
      "at_us as_of \<le> at_us (oe_real_clock env)"
  shows "\<exists>cycle hb s f rows row. operator_cycle env who as_of p b st = (Inr (cycle, hb), s) \<and>
    pt_submitted cycle = 1 \<and> held (cy_broker s) (bi_idempotency_key i) = Some f \<and>
    bf_lifecycle_state f = order_lifecycle_state.FILLED \<and> bf_filled_contracts f = 1 \<and>
    Some (bi_idempotency_key i) \<in> attempts (au_store s) \<and>
    st_rows (au_store s) = rows @ [row] \<and> sr_record_type row = EXECUTION_REPORT \<and>
    sr_record_id row = bi_idempotency_key i"
  using assms by (rule operator_run)

lemma operator_parts:
  obtains rs config b where "build_routing_state = Inr rs" "build_local_paper_app_config = Inr config"
    "build_armed_local_paper_broker clock = Inr b"
proof -
  have "is_ok build_routing_state" "is_ok build_local_paper_app_config" "is_ok armed_paper_broker_config" by code_simp+
  moreover from this have "is_ok (build_armed_local_paper_broker clock)"
    by (auto simp: is_ok_iff build_armed_local_paper_broker_def map_res_eq_Inr)
  ultimately show ?thesis using that by (auto simp: is_ok_iff)
qed

theorem operator_submit_executes_witness:
  "\<exists>p b cycle hb s. operator_cycle echo_env ''op'' DEFAULT_AS_OF p b new_audit_store = (Inr (cycle, hb), s) \<and>
     pp_request p = fixture_request \<and> pt_submitted cycle = 1"
proof -
  obtain rs config b where parts: "build_routing_state = Inr rs" "build_local_paper_app_config = Inr config"
    "build_armed_local_paper_broker (Some (Aware DEFAULT_AS_OF)) = Inr b" by (rule operator_parts)
  obtain d v where dv: "validate sample_ct_offset (dump_request sample_codec) fixture_request = Inr d" "gd_approved d = Some v"
    by (cases rule: validate_cases [OF fixture_request_wf, of sample_ct_offset "dump_request sample_codec"])
      (auto simp: fixture_request_clean)
  let ?p = "\<lparr>pp_request = fixture_request, pp_routing = rs, pp_config = config\<rparr>"
  have env: "oe_ct_offset echo_env = sample_ct_offset" "oe_codec echo_env = sample_codec" "oe_real_clock echo_env = DEFAULT_AS_OF"
    by (simp_all add: echo_env_def)
  have "\<exists>cycle hb s f rows row. operator_cycle echo_env ''op'' DEFAULT_AS_OF ?p b new_audit_store = (Inr (cycle, hb), s) \<and>
    pt_submitted cycle = 1 \<and> held (cy_broker s) (bi_idempotency_key (operator_intent echo_env ''op'' DEFAULT_AS_OF ?p v)) = Some f \<and>
    bf_lifecycle_state f = order_lifecycle_state.FILLED \<and> bf_filled_contracts f = 1 \<and>
    Some (bi_idempotency_key (operator_intent echo_env ''op'' DEFAULT_AS_OF ?p v)) \<in> attempts (au_store s) \<and>
    st_rows (au_store s) = rows @ [row] \<and> sr_record_type row = EXECUTION_REPORT \<and>
    sr_record_id row = bi_idempotency_key (operator_intent echo_env ''op'' DEFAULT_AS_OF ?p v)"
    by (rule operator_submit_executes [of fixture_candidate, OF _ _ _ parts(3) _ _ _ _ dv(2) _ _ _ refl echo_types_code])
      (simp_all add: parts fixture_request_built fixture_request_wf dv(1) env sample_storing_codec new_audit_store_def
        attempts_def, simp_all add: fixture_candidate_def fixture_leg_def)
  then show ?thesis by fastforce
qed

end
