(* ===== verification/Evidence.thy ===== *)
theory Evidence
  imports Routing Json Utf8
begin

text \<open>
  Offline market data evidence: the observation contracts with their sessions and freshness
  (\<open>data/market_data_contracts_v1.py\<close>) and the bundles, the loader and the synthetic bundle
  (\<open>data/market_data_evidence_fixtures_v1.py\<close>). A calendar date is its day number. The parsing of
  one record by Pydantic is a parameter. The theorems say what an accepted observation is, that a
  freshness override can only tighten, which documents the loader accepts and when the synthetic
  bundle exists.
\<close>

section \<open>Enumerations\<close>

datatype evidence_option_root = ROOT_XSP | ROOT_SPX | ROOT_SPXW

primrec OPTION_ROOT_UNDERLYING :: "evidence_option_root \<Rightarrow> underlying" where
  "OPTION_ROOT_UNDERLYING ROOT_XSP = underlying.XSP"
| "OPTION_ROOT_UNDERLYING ROOT_SPX = underlying.SPX"
| "OPTION_ROOT_UNDERLYING ROOT_SPXW = underlying.SPX"

definition EVIDENCE_TRADING_SCOPE :: "underlying list" where
  "EVIDENCE_TRADING_SCOPE = [underlying.XSP]"

datatype underlying_value_kind = OFFICIAL_INDEX_VALUE | ETF_PROXY | DERIVED_ESTIMATE

datatype sequence_status = IN_ORDER | GAP | DUPLICATE | OUT_OF_ORDER

datatype correction_status = NO_CORRECTION | CORRECTED | CANCELLED | PENDING_UNRESOLVED

datatype delivery_status = REAL_TIME | DELAYED | UNVERIFIED

datatype evidence_freshness_reason = STALE | FUTURE_TIMESTAMP

section \<open>Checks\<close>

definition not_utc :: "aware \<Rightarrow> bool" where
  "not_utc t \<longleftrightarrow> at_off t \<noteq> 0"

text \<open>An override is a plain integer or something else.\<close>

definition validated_freshness_ceiling_ms :: "int dyn option \<Rightarrow> int \<Rightarrow> int res" where
  "validated_freshness_ceiling_ms candidate ceiling_ms =
     (case candidate of
        None \<Rightarrow> Inr ceiling_ms
      | Some (NotInst t) \<Rightarrow> Inl (ValueError ''max_age_ms override must be a plain positive int'')
      | Some (Inst n) \<Rightarrow>
          if n \<le> 0 \<or> ceiling_ms < n
          then Inl (ValueError ''max_age_ms override must be no greater than the constitutional ceiling'')
          else Inr n)"

record evidence_session =
  es_session_date :: int
  es_rth_start :: aware
  es_rth_end :: aware
  es_provenance :: string

definition evidence_session_guards :: "evidence_session \<Rightarrow> (bool \<times> string) list" where
  "evidence_session_guards s =
     [(es_provenance s = [], ''provenance''),
      (all_space (es_provenance s), ''UNKNOWN_IDENTITY''),
      (not_utc (es_rth_start s), ''NON_UTC_TIMESTAMP''),
      (not_utc (es_rth_end s), ''NON_UTC_TIMESTAMP''),
      (at_le (es_rth_end s) (es_rth_start s), ''CONTRADICTORY_TIMESTAMPS''),
      (at_date (es_rth_start s) \<noteq> es_session_date s, ''SESSION_DATE_MISMATCH''),
      (at_date (es_rth_end s) \<noteq> es_session_date s, ''SESSION_DATE_MISMATCH'')]"

definition mk_evidence_session :: "evidence_session \<Rightarrow> evidence_session res" where
  "mk_evidence_session s = construct (evidence_session_guards s) s"

definition wf_evidence_session :: "evidence_session \<Rightarrow> bool" where
  [wf_defs]: "wf_evidence_session s \<longleftrightarrow> passes_guards (evidence_session_guards s)"

text \<open>An instant as an argument: naive, in another offset, or UTC.\<close>

definition utc_argument :: "string \<Rightarrow> datetime \<Rightarrow> aware res" where
  "utc_argument name ts =
     (case ts of
        Naive _ \<Rightarrow> Inl (ValueError (name @ '' must be timezone-aware (UTC)''))
      | Aware t \<Rightarrow> if not_utc t then Inl (ValueError ''NON_UTC_TIMESTAMP'') else Inr t)"

definition in_rth :: "evidence_session \<Rightarrow> aware \<Rightarrow> bool" where
  "in_rth s t \<longleftrightarrow> at_le (es_rth_start s) t \<and> at_le t (es_rth_end s)"

definition session_contains :: "evidence_session \<Rightarrow> datetime \<Rightarrow> bool res" where
  "session_contains s ts = map_res (in_rth s) (utc_argument ''timestamp'' ts)"

text \<open>What the two kinds of observation share: the identity, the instants and the attested statuses.\<close>

record observation =
  ob_provider :: string
  ob_source_product :: string
  ob_source_symbol :: string
  ob_underlying :: underlying
  ob_session :: evidence_session
  ob_event_ts :: aware
  ob_receive_ts :: aware
  ob_sequence_number :: int
  ob_sequence_status :: sequence_status
  ob_correction_status :: correction_status
  ob_delivery_status :: delivery_status

definition field_guards :: "'a observation_scheme \<Rightarrow> (bool \<times> string) list" where
  "field_guards o' =
     [(ob_provider o' = [], ''provider''), (ob_source_product o' = [], ''source_product''),
      (ob_source_symbol o' = [], ''source_symbol''), (ob_sequence_number o' < 0, ''sequence_number'')]"

definition identity_guards :: "'a observation_scheme \<Rightarrow> (bool \<times> string) list" where
  "identity_guards o' =
     [(all_space (ob_provider o'), ''UNKNOWN_IDENTITY''), (all_space (ob_source_product o'), ''UNKNOWN_IDENTITY''),
      (all_space (ob_source_symbol o'), ''UNKNOWN_IDENTITY''),
      (not_utc (ob_event_ts o'), ''NON_UTC_TIMESTAMP''), (not_utc (ob_receive_ts o'), ''NON_UTC_TIMESTAMP'')]"

definition order_guard :: "'a observation_scheme \<Rightarrow> (bool \<times> string) list" where
  "order_guard o' = [(at_lt (ob_receive_ts o') (ob_event_ts o'), ''CONTRADICTORY_TIMESTAMPS'')]"

definition session_guards :: "'a observation_scheme \<Rightarrow> (bool \<times> string) list" where
  "session_guards o' =
     [(\<not> in_rth (ob_session o') (ob_event_ts o'), ''OUT_OF_SESSION''),
      (\<not> in_rth (ob_session o') (ob_receive_ts o'), ''OUT_OF_SESSION'')]"

definition status_guards :: "'a observation_scheme \<Rightarrow> (bool \<times> string) list" where
  "status_guards o' =
     [(ob_sequence_status o' \<noteq> IN_ORDER, ''UNRESOLVED_SEQUENCE''),
      (ob_correction_status o' \<notin> {NO_CORRECTION, CORRECTED}, ''UNRESOLVED_CORRECTION''),
      (ob_delivery_status o' \<noteq> REAL_TIME,
       if ob_delivery_status o' = DELAYED then ''DELAYED_DELIVERY'' else ''UNVERIFIED_DELIVERY'')]"

type_synonym record_key = "string \<times> string \<times> string \<times> int \<times> int"

text \<open>The key compares datetimes, that is instants.\<close>

definition record_key_of :: "'a observation_scheme \<Rightarrow> record_key" where
  "record_key_of o' =
     (ob_provider o', ob_source_product o', ob_source_symbol o', at_us (ob_event_ts o'), ob_sequence_number o')"

definition is_within_trading_scope :: "'a observation_scheme \<Rightarrow> bool" where
  "is_within_trading_scope o' \<longleftrightarrow> ob_underlying o' \<in> set EVIDENCE_TRADING_SCOPE"

text \<open>The two freshness methods after the ceiling of the context is known.\<close>

definition freshness_under ::
  "'a observation_scheme \<Rightarrow> aware \<Rightarrow> int dyn option \<Rightarrow> int \<Rightarrow> evidence_freshness_reason option res" where
  "freshness_under o' as_of max_age_ms ceiling_ms =
     (if at_lt as_of (ob_event_ts o') \<or> at_lt as_of (ob_receive_ts o') then Inr (Some FUTURE_TIMESTAMP)
      else
        map_res (\<lambda>limit_ms.
          if limit_ms * 1000 < at_us as_of - at_us (ob_event_ts o') \<or>
             limit_ms * 1000 < at_us as_of - at_us (ob_receive_ts o') then Some STALE else None)
          (validated_freshness_ceiling_ms max_age_ms ceiling_ms))"

section \<open>Underlying evidence\<close>

record underlying_evidence = observation +
  ue_value_kind :: underlying_value_kind
  ue_value :: decimal

definition underlying_evidence_guards :: "underlying_evidence \<Rightarrow> (bool \<times> string) list" where
  "underlying_evidence_guards o' =
     field_guards o' @ [(dval (ue_value o') \<le> 0, ''value'')] @ identity_guards o' @
     [(ue_value_kind o' \<noteq> OFFICIAL_INDEX_VALUE, ''PROXY_SUBSTITUTION'')] @
     order_guard o' @ session_guards o' @ status_guards o'"

definition mk_underlying_evidence :: "underlying_evidence \<Rightarrow> underlying_evidence res" where
  "mk_underlying_evidence o' = construct (underlying_evidence_guards o') o'"

definition wf_underlying_evidence :: "underlying_evidence \<Rightarrow> bool" where
  [wf_defs]: "wf_underlying_evidence o' \<longleftrightarrow>
     passes_guards (underlying_evidence_guards o') \<and> wf_evidence_session (ob_session o')"

definition underlying_freshness_reason ::
  "underlying_evidence \<Rightarrow> datetime \<Rightarrow> int dyn option \<Rightarrow> evidence_freshness_reason option res" where
  "underlying_freshness_reason o' as_of max_age_ms =
     bind_res (utc_argument ''as_of'' as_of) (\<lambda>t. freshness_under o' t max_age_ms MAX_UNDERLYING_PRICE_AGE_MS)"

definition underlying_is_fresh_as_of :: "underlying_evidence \<Rightarrow> datetime \<Rightarrow> int dyn option \<Rightarrow> bool res" where
  "underlying_is_fresh_as_of o' as_of max_age_ms =
     map_res (\<lambda>r. r = None) (underlying_freshness_reason o' as_of max_age_ms)"

section \<open>Option evidence\<close>

record option_evidence = observation +
  oe_option_root :: evidence_option_root
  oe_option_type :: option_type
  oe_strike :: decimal
  oe_expiration_date :: aware
  oe_last_trading_time :: aware
  oe_bid :: "decimal option"
  oe_ask :: "decimal option"
  oe_bid_size :: "int option"
  oe_ask_size :: "int option"

definition out_of :: "('a \<Rightarrow> bool) \<Rightarrow> 'a option \<Rightarrow> bool" where
  "out_of bad x \<longleftrightarrow> (case x of None \<Rightarrow> False | Some v \<Rightarrow> bad v)"

definition nbbo_guards :: "option_evidence \<Rightarrow> (bool \<times> string) list" where
  "nbbo_guards o' =
     [(oe_bid o' = None \<or> oe_ask o' = None \<or> oe_bid_size o' = None \<or> oe_ask_size o' = None, ''INCOMPLETE_NBBO''),
      (case (oe_bid o', oe_ask o') of (Some b, Some a) \<Rightarrow> dval a < dval b | _ \<Rightarrow> False, ''CROSSED_NBBO'')]"

definition option_evidence_guards :: "option_evidence \<Rightarrow> (bool \<times> string) list" where
  "option_evidence_guards o' =
     field_guards o' @
     [(dval (oe_strike o') \<le> 0, ''strike''), (out_of (\<lambda>b. dval b < 0) (oe_bid o'), ''bid''),
      (out_of (\<lambda>a. dval a \<le> 0) (oe_ask o'), ''ask''), (out_of (\<lambda>n. n < 0) (oe_bid_size o'), ''bid_size''),
      (out_of (\<lambda>n. n < 0) (oe_ask_size o'), ''ask_size'')] @
     identity_guards o' @
     [(not_utc (oe_expiration_date o'), ''NON_UTC_TIMESTAMP''), (not_utc (oe_last_trading_time o'), ''NON_UTC_TIMESTAMP''),
      (ob_underlying o' \<noteq> OPTION_ROOT_UNDERLYING (oe_option_root o'), ''CONFLICTING_IDENTITY''),
      (at_lt (oe_expiration_date o') (oe_last_trading_time o'), ''CONTRADICTORY_TIMESTAMPS'')] @
     order_guard o' @
     [(at_lt (oe_last_trading_time o') (ob_event_ts o'), ''POST_EXPIRATION_OBSERVATION''),
      (at_lt (oe_last_trading_time o') (ob_receive_ts o'), ''POST_EXPIRATION_OBSERVATION'')] @
     session_guards o' @ nbbo_guards o' @ status_guards o'"

definition mk_option_evidence :: "option_evidence \<Rightarrow> option_evidence res" where
  "mk_option_evidence o' = construct (option_evidence_guards o') o'"

definition wf_option_evidence :: "option_evidence \<Rightarrow> bool" where
  [wf_defs]: "wf_option_evidence o' \<longleftrightarrow>
     passes_guards (option_evidence_guards o') \<and> wf_evidence_session (ob_session o')"

definition option_freshness_reason ::
  "option_evidence \<Rightarrow> datetime \<Rightarrow> bool dyn \<Rightarrow> int dyn option \<Rightarrow> evidence_freshness_reason option res" where
  "option_freshness_reason o' as_of zero_dte_after_2pm_ct max_age_ms =
     bind_res (utc_argument ''as_of'' as_of) (\<lambda>t.
     case zero_dte_after_2pm_ct of
       NotInst _ \<Rightarrow> Inl (ValueError ''zero_dte_after_2pm_ct must be an explicit bool'')
     | Inst late \<Rightarrow>
         freshness_under o' t max_age_ms (if late then MAX_QUOTE_AGE_MS_0DTE_AFTER_2PM_CT else MAX_QUOTE_AGE_MS_NORMAL))"

definition option_is_fresh_as_of :: "option_evidence \<Rightarrow> datetime \<Rightarrow> bool dyn \<Rightarrow> int dyn option \<Rightarrow> bool res" where
  "option_is_fresh_as_of o' as_of zero_dte_after_2pm_ct max_age_ms =
     map_res (\<lambda>r. r = None) (option_freshness_reason o' as_of zero_dte_after_2pm_ct max_age_ms)"

section \<open>Bundles\<close>

definition SUPPORTED_ENVELOPE_SCHEMA_VERSION :: int where "SUPPORTED_ENVELOPE_SCHEMA_VERSION = 1"

definition ALLOWED_TOP_LEVEL_FIELDS :: "string list" where
  "ALLOWED_TOP_LEVEL_FIELDS = [''schemaVersion'', ''description'', ''valid'', ''invalid'']"

definition ALLOWED_VALID_SECTION_FIELDS :: "string list" where
  "ALLOWED_VALID_SECTION_FIELDS = [''underlying_observations'', ''option_observations'']"

record evidence_bundle =
  eb_underlying_observations :: "underlying_evidence list"
  eb_option_observations :: "option_evidence list"

datatype evidence_certification_status = NOT_CERTIFIED_EVIDENCE

definition certification_status_of :: "evidence_bundle \<Rightarrow> evidence_certification_status" where
  "certification_status_of b = NOT_CERTIFIED_EVIDENCE"

definition option_observations_for_root :: "evidence_bundle \<Rightarrow> evidence_option_root \<Rightarrow> option_evidence list" where
  "option_observations_for_root b root' = filter (\<lambda>o'. oe_option_root o' = root') (eb_option_observations b)"

text \<open>\<open>EvidenceLoadError\<close> and its subclass are \<open>ValueError\<close>s.\<close>

definition evidence_load_error :: "string \<Rightarrow> py_error" where
  "evidence_load_error m = ValueError m"

fun check_no_ambiguous_duplicates :: "'a observation_scheme list \<Rightarrow> record_key set \<Rightarrow> unit res" where
  "check_no_ambiguous_duplicates [] seen = Inr ()"
| "check_no_ambiguous_duplicates (o' # os) seen =
     (if record_key_of o' \<in> seen then Inl (evidence_load_error ''AMBIGUOUS_DUPLICATE'')
      else check_no_ambiguous_duplicates os (insert (record_key_of o') seen))"

fun parse_all :: "('j \<Rightarrow> 'a res) \<Rightarrow> 'j list \<Rightarrow> 'a list res" where
  "parse_all parse [] = Inr []"
| "parse_all parse (j # js) = bind_res (parse j) (\<lambda>x. map_res (\<lambda>xs. x # xs) (parse_all parse js))"

text \<open>The parsers are \<open>model_validate_json(json.dumps(item))\<close> of the two classes.\<close>

definition build_evidence_bundle ::
  "(json \<Rightarrow> underlying_evidence res) \<Rightarrow> (json \<Rightarrow> option_evidence res) \<Rightarrow> json list \<Rightarrow> json list \<Rightarrow> evidence_bundle res" where
  "build_evidence_bundle parse_underlying parse_option underlying_observations option_observations =
     bind_res (parse_all parse_underlying underlying_observations) (\<lambda>us.
     bind_res (parse_all parse_option option_observations) (\<lambda>os.
     bind_res (check_no_ambiguous_duplicates us {}) (\<lambda>_.
     bind_res (check_no_ambiguous_duplicates os {}) (\<lambda>_.
     Inr \<lparr>eb_underlying_observations = us, eb_option_observations = os\<rparr>))))"

section \<open>The loader\<close>

text \<open>\<open>json.loads\<close> with the hook that refuses a repeated key in any object.\<close>

fun strict_value :: "nat \<Rightarrow> string \<Rightarrow> (json \<times> string) option"
  and strict_elements :: "nat \<Rightarrow> string \<Rightarrow> json list \<Rightarrow> (json \<times> string) option"
  and strict_members :: "nat \<Rightarrow> string \<Rightarrow> (string \<times> json) list \<Rightarrow> (json \<times> string) option" where
  "strict_value 0 s = None"
| "strict_value (Suc n) s =
     (case s of
        [] \<Rightarrow> None
      | c # cs \<Rightarrow>
          if c = CHR ''{'' then
            (case skip_ws cs of
               [] \<Rightarrow> None
             | d # r \<Rightarrow> if d = CHR ''}'' then Some (JObj [], r) else strict_members n (d # r) [])
          else if c = CHR ''['' then
            (case skip_ws cs of
               [] \<Rightarrow> None
             | d # r \<Rightarrow> if d = CHR '']'' then Some (JArr [], r) else strict_elements n (d # r) [])
          else json_value 1 s)"
| "strict_elements 0 s acc = None"
| "strict_elements (Suc n) s acc =
     (case strict_value n s of
        None \<Rightarrow> None
      | Some (v, r) \<Rightarrow>
          (case skip_ws r of
             [] \<Rightarrow> None
           | d # r' \<Rightarrow>
               if d = CHR '']'' then Some (JArr (acc @ [v]), r')
               else if d = CHR '','' then strict_elements n (skip_ws r') (acc @ [v])
               else None))"
| "strict_members 0 s acc = None"
| "strict_members (Suc n) s acc =
     (case s of
        [] \<Rightarrow> None
      | q # cs \<Rightarrow>
          if q \<noteq> CHR 0x22 then None
          else
            (case json_string cs of
               None \<Rightarrow> None
             | Some (key, r) \<Rightarrow>
                 (case skip_ws r of
                    [] \<Rightarrow> None
                  | d # r' \<Rightarrow>
                      if d \<noteq> CHR '':'' \<or> key \<in> fst ` set acc then None
                      else
                        (case strict_value n (skip_ws r') of
                           None \<Rightarrow> None
                         | Some (v, r2) \<Rightarrow>
                             (case skip_ws r2 of
                                [] \<Rightarrow> None
                              | d2 # r3 \<Rightarrow>
                                  if d2 = CHR ''}'' then Some (JObj (acc @ [(key, v)]), r3)
                                  else if d2 = CHR '','' then strict_members n (skip_ws r3) (acc @ [(key, v)])
                                  else None)))))"

definition strict_loads :: "string \<Rightarrow> json res" where
  "strict_loads s =
     (case strict_value (Suc (length s)) (skip_ws s) of
        Some (v, r) \<Rightarrow> if skip_ws r = [] then Inr v else Inl (evidence_load_error ''fixture file is not valid JSON'')
      | None \<Rightarrow> Inl (evidence_load_error ''fixture file is not valid JSON or repeats a key''))"

definition unknown_fields :: "(string \<times> json) list \<Rightarrow> string list \<Rightarrow> string list" where
  "unknown_fields members allowed = sort (filter (\<lambda>k. k \<notin> set allowed) (map fst members))"

definition load_evidence_bundle ::
  "(json \<Rightarrow> underlying_evidence res) \<Rightarrow> (json \<Rightarrow> option_evidence res) \<Rightarrow> string \<Rightarrow> evidence_bundle res" where
  "load_evidence_bundle parse_underlying parse_option file_bytes =
     require (utf8_ok file_bytes) (ValueError ''codec can not decode byte'') (
     bind_res (strict_loads (universal_newlines file_bytes)) (\<lambda>raw.
     case raw of
       JObj envelope \<Rightarrow>
         require (unknown_fields envelope ALLOWED_TOP_LEVEL_FIELDS = [])
           (evidence_load_error ''fixture file contains unknown/forged top-level field(s)'') (
         require (map_of envelope ''schemaVersion'' = Some (JInt SUPPORTED_ENVELOPE_SCHEMA_VERSION))
           (evidence_load_error ''unsupported fixture schemaVersion'') (
         case map_of envelope ''valid'' of
           Some (JObj valid) \<Rightarrow>
             require (unknown_fields valid ALLOWED_VALID_SECTION_FIELDS = [])
               (evidence_load_error ''fixture valid section contains unknown/forged field(s)'') (
             case (map_of valid ''underlying_observations'', map_of valid ''option_observations'') of
               (Some (JArr us), Some (JArr os)) \<Rightarrow> build_evidence_bundle parse_underlying parse_option us os
             | _ \<Rightarrow> Inl (evidence_load_error ''valid section must contain both arrays''))
         | _ \<Rightarrow> Inl (evidence_load_error ''fixture file is missing a valid evidence section'')))
     | _ \<Rightarrow> Inl (evidence_load_error ''fixture file must contain a top-level JSON object'')))"

section \<open>The synthetic bundle\<close>

definition rth_session :: "int \<Rightarrow> evidence_session res" where
  "rth_session day = mk_evidence_session
     \<lparr>es_session_date = day, es_rth_start = utc (day * us_per_day + 810 * us_per_min),
      es_rth_end = utc (day * us_per_day + 1200 * us_per_min),
      es_provenance = ''SYNTHETIC_FIXTURE_V1_HUMAN_SUPPLIED_RTH_BOUNDS''\<rparr>"

definition synthetic_underlying ::
  "aware \<Rightarrow> evidence_session \<Rightarrow> string \<Rightarrow> underlying \<Rightarrow> decimal \<Rightarrow> underlying_evidence res" where
  "synthetic_underlying as_of session symbol u value' = mk_underlying_evidence
     \<lparr>ob_provider = ''SYNTHETIC_TEST_VENDOR'', ob_source_product = ''SYNTHETIC.MAIN.CGIF'', ob_source_symbol = symbol,
      ob_underlying = u, ob_session = session, ob_event_ts = at_plus as_of (- 200000),
      ob_receive_ts = at_plus as_of (- 150000), ob_sequence_number = 1, ob_sequence_status = IN_ORDER,
      ob_correction_status = NO_CORRECTION, ob_delivery_status = REAL_TIME,
      ue_value_kind = OFFICIAL_INDEX_VALUE, ue_value = value'\<rparr>"

definition synthetic_option ::
  "aware \<Rightarrow> evidence_session \<Rightarrow> evidence_option_root \<Rightarrow> underlying \<Rightarrow> string \<Rightarrow> decimal \<Rightarrow> int \<Rightarrow> option_evidence res" where
  "synthetic_option as_of session root' u symbol strike seq = mk_option_evidence
     \<lparr>ob_provider = ''SYNTHETIC_TEST_VENDOR'', ob_source_product = ''SYNTHETIC.OPRA.PILLAR'', ob_source_symbol = symbol,
      ob_underlying = u, ob_session = session, ob_event_ts = at_plus as_of (- 200000),
      ob_receive_ts = at_plus as_of (- 100000), ob_sequence_number = seq, ob_sequence_status = IN_ORDER,
      ob_correction_status = NO_CORRECTION, ob_delivery_status = REAL_TIME,
      oe_option_root = root', oe_option_type = PUT, oe_strike = strike, oe_expiration_date = es_rth_end session,
      oe_last_trading_time = es_rth_end session, oe_bid = Some (Dec 48 (- 2)), oe_ask = Some (Dec 52 (- 2)),
      oe_bid_size = Some 20, oe_ask_size = Some 25\<rparr>"

definition build_synthetic_evidence_bundle :: "datetime \<Rightarrow> evidence_bundle res" where
  "build_synthetic_evidence_bundle as_of =
     (case as_of of
        Naive _ \<Rightarrow> Inl (ValueError ''as_of must be timezone-aware (UTC)'')
      | Aware t \<Rightarrow>
          bind_res (rth_session (at_date t)) (\<lambda>session.
          bind_res (synthetic_underlying t session ''SPX.IDX'' underlying.SPX (Dec 548732 (- 2))) (\<lambda>u1.
          bind_res (synthetic_underlying t session ''XSP.IDX'' underlying.XSP (Dec 54873 (- 2))) (\<lambda>u2.
          bind_res (synthetic_option t session ROOT_XSP underlying.XSP ''XSP_TEST_PUT_495'' (Dec 495 0) 101) (\<lambda>o1.
          bind_res (synthetic_option t session ROOT_SPX underlying.SPX ''SPX_TEST_PUT_4950'' (Dec 4950 0) 102) (\<lambda>o2.
          bind_res (synthetic_option t session ROOT_SPXW underlying.SPX ''SPXW_TEST_PUT_4950'' (Dec 4950 0) 103) (\<lambda>o3.
          Inr \<lparr>eb_underlying_observations = [u1, u2], eb_option_observations = [o1, o2, o3]\<rparr>)))))))"

section \<open>What an accepted observation is\<close>

text \<open>The instants of an observation in its session: in order, inside the session, on its date.\<close>

definition in_session_order :: "'a observation_scheme \<Rightarrow> bool" where
  "in_session_order o' \<longleftrightarrow>
     (let s = ob_session o' in
      at_us (es_rth_start s) \<le> at_us (ob_event_ts o') \<and> at_us (ob_event_ts o') \<le> at_us (ob_receive_ts o') \<and>
      at_us (ob_receive_ts o') \<le> at_us (es_rth_end s) \<and>
      at_date (ob_event_ts o') = es_session_date s \<and> at_date (ob_receive_ts o') = es_session_date s)"

definition is_attested :: "'a observation_scheme \<Rightarrow> bool" where
  "is_attested o' \<longleftrightarrow>
     ob_sequence_status o' = IN_ORDER \<and> ob_correction_status o' \<in> {NO_CORRECTION, CORRECTED} \<and>
     ob_delivery_status o' = REAL_TIME"

lemma session_wf_iff:
  "wf_evidence_session s \<longleftrightarrow>
     \<not> all_space (es_provenance s) \<and> at_off (es_rth_start s) = 0 \<and> at_off (es_rth_end s) = 0 \<and>
     at_us (es_rth_start s) < at_us (es_rth_end s) \<and>
     at_date (es_rth_start s) = es_session_date s \<and> at_date (es_rth_end s) = es_session_date s"
  by (auto simp: wf_evidence_session_def evidence_session_guards_def not_utc_def at_defs not_le)

lemma date_between:
  assumes "at_off a = 0" "at_off b = 0" "at_off c = 0" "at_us a \<le> at_us b" "at_us b \<le> at_us c"
    and "at_date a = d" "at_date c = d"
  shows "at_date b = d"
  using assms zdiv_mono1 [of "at_us a" "at_us b" us_per_day] zdiv_mono1 [of "at_us b" "at_us c" us_per_day]
  by (simp add: at_date_def us_per_day_def)

lemma in_session_orderI:
  assumes "wf_evidence_session (ob_session o')" "at_off (ob_event_ts o') = 0" "at_off (ob_receive_ts o') = 0"
    and "at_us (ob_event_ts o') \<le> at_us (ob_receive_ts o')"
    and "in_rth (ob_session o') (ob_event_ts o')" "in_rth (ob_session o') (ob_receive_ts o')"
  shows "in_session_order o'"
  using assms
    date_between [of "es_rth_start (ob_session o')" "ob_event_ts o'" "es_rth_end (ob_session o')" "es_session_date (ob_session o')"]
    date_between [of "es_rth_start (ob_session o')" "ob_receive_ts o'" "es_rth_end (ob_session o')" "es_session_date (ob_session o')"]
  by (simp add: in_session_order_def session_wf_iff in_rth_def at_defs Let_def)

lemmas observation_guard_defs =
  field_guards_def identity_guards_def order_guard_def session_guards_def status_guards_def
  not_utc_def at_defs

lemma wf_underlyingD:
  assumes "wf_underlying_evidence u"
  shows "in_session_order u \<and> is_attested u \<and> ue_value_kind u = OFFICIAL_INDEX_VALUE \<and> 0 < dval (ue_value u)"
proof -
  have g: "passes_guards (underlying_evidence_guards u)" and s: "wf_evidence_session (ob_session u)"
    using assms by (simp_all add: wf_underlying_evidence_def)
  have "in_session_order u"
    by (rule in_session_orderI [OF s]) (use g in \<open>auto simp: underlying_evidence_guards_def observation_guard_defs\<close>)
  then show ?thesis
    using g by (auto simp: underlying_evidence_guards_def observation_guard_defs is_attested_def)
qed

lemma wf_optionD:
  assumes "wf_option_evidence v"
  shows "in_session_order v \<and> is_attested v \<and> ob_underlying v = OPTION_ROOT_UNDERLYING (oe_option_root v) \<and>
    at_us (ob_receive_ts v) \<le> at_us (oe_last_trading_time v) \<and>
    at_us (oe_last_trading_time v) \<le> at_us (oe_expiration_date v) \<and>
    (\<exists>b a m n. oe_bid v = Some b \<and> oe_ask v = Some a \<and> oe_bid_size v = Some m \<and> oe_ask_size v = Some n \<and>
      0 \<le> dval b \<and> dval b \<le> dval a \<and> 0 < dval a \<and> 0 \<le> m \<and> 0 \<le> n)"
proof -
  have g: "passes_guards (option_evidence_guards v)" and s: "wf_evidence_session (ob_session v)"
    using assms by (simp_all add: wf_option_evidence_def)
  have "in_session_order v"
    by (rule in_session_orderI [OF s]) (use g in \<open>auto simp: option_evidence_guards_def observation_guard_defs\<close>)
  moreover have "is_attested v \<and> ob_underlying v = OPTION_ROOT_UNDERLYING (oe_option_root v) \<and>
    at_us (ob_receive_ts v) \<le> at_us (oe_last_trading_time v) \<and>
    at_us (oe_last_trading_time v) \<le> at_us (oe_expiration_date v)"
    using g by (auto simp: option_evidence_guards_def observation_guard_defs is_attested_def)
  moreover have "\<exists>b a m n. oe_bid v = Some b \<and> oe_ask v = Some a \<and> oe_bid_size v = Some m \<and> oe_ask_size v = Some n \<and>
      0 \<le> dval b \<and> dval b \<le> dval a \<and> 0 < dval a \<and> 0 \<le> m \<and> 0 \<le> n"
    using g by (auto simp: option_evidence_guards_def nbbo_guards_def out_of_def not_less not_le)
  ultimately show ?thesis by blast
qed

section \<open>Loading\<close>

lemma no_duplicates_iff:
  "check_no_ambiguous_duplicates os seen = Inr () \<longleftrightarrow>
     distinct (map record_key_of os) \<and> (\<forall>o'\<in>set os. record_key_of o' \<notin> seen)"
  by (induction os arbitrary: seen) (auto simp: rev_image_eqI)

lemma parse_all_eq_Inr:
  "parse_all p js = Inr xs \<longleftrightarrow> list_all2 (\<lambda>j x. p j = Inr x) js xs"
  by (induction js arbitrary: xs) (auto simp: res_iffs list_all2_Cons1)

lemma parse_all_mem:
  assumes "parse_all p js = Inr xs" "x \<in> set xs"
  shows "\<exists>j\<in>set js. p j = Inr x"
  using assms by (auto simp: parse_all_eq_Inr in_set_conv_nth list_all2_conv_all_nth) (metis nth_mem)

text \<open>The strict reader is the usual one on what it accepts.\<close>

lemma json_value_scalar:
  "c \<noteq> CHR ''{'' \<Longrightarrow> c \<noteq> CHR ''['' \<Longrightarrow> json_value (Suc n) (c # cs) = json_value (Suc m) (c # cs)"
  by simp

lemma AList_update_fresh: "k \<notin> fst ` set al \<Longrightarrow> AList.update k v al = al @ [(k, v)]"
  by (induction al) auto

lemma strict_agrees:
  "strict_value n s = Some p \<Longrightarrow> json_value n s = Some p"
  "strict_elements n s acc = Some p \<Longrightarrow> json_elements n s acc = Some p"
  "strict_members n s mem = Some p \<Longrightarrow> json_members n s mem = Some p"
proof (induction n s and n s acc and n s mem arbitrary: p and p and p
    rule: strict_value_strict_elements_strict_members.induct)
  case (2 n s)
  show ?case
  proof (cases s)
    case (Cons c cs)
    consider "c = CHR ''{''" | "c = CHR ''[''" | "c \<noteq> CHR ''{''" "c \<noteq> CHR ''[''" by blast
    then show ?thesis
    proof cases
      case 1
      then show ?thesis using 2 Cons by (auto split: list.splits if_splits)
    next
      case 2
      then show ?thesis using "2.IH" "2.prems" Cons by (auto split: list.splits if_splits)
    next
      case 3
      then show ?thesis using "2.prems" Cons json_value_scalar [of c 0 cs n] by simp
    qed
  qed (use 2 in simp)
next
  case (4 n s acc)
  then show ?case by (cases p) (auto split: option.splits list.splits if_splits)
next
  case (6 n s mem)
  then show ?case by (cases p) (auto simp: AList_update_fresh split: option.splits list.splits if_splits)
qed simp_all

lemma strict_loads_agrees: "strict_loads s = Inr j \<Longrightarrow> json_loads s = Inr j"
  using strict_agrees(1) [of "Suc (length s)" "skip_ws s"]
  by (auto simp add: strict_loads_def json_loads_def simp del: strict_value.simps json_value.simps split: option.splits prod.splits if_splits)

lemma no_unknown_fields: "unknown_fields ms allowed = [] \<Longrightarrow> set (map fst ms) \<subseteq> set allowed"
proof -
  assume "unknown_fields ms allowed = []"
  then have "set (sort (filter (\<lambda>k. k \<notin> set allowed) (map fst ms))) = {}" by (simp only: unknown_fields_def set_empty)
  then show ?thesis by auto
qed

lemma load_evidence_bundleD:
  assumes "load_evidence_bundle pu po file_bytes = Inr b"
  shows "\<exists>ms us os. utf8_ok file_bytes \<and> strict_loads (universal_newlines file_bytes) = Inr (JObj ms) \<and>
    unknown_fields ms ALLOWED_TOP_LEVEL_FIELDS = [] \<and> map_of ms ''schemaVersion'' = Some (JInt 1) \<and>
    build_evidence_bundle pu po us os = Inr b"
proof -
  obtain raw where raw: "utf8_ok file_bytes" "strict_loads (universal_newlines file_bytes) = Inr raw"
    using assms by (auto simp: load_evidence_bundle_def require_eq_Inr bind_res_eq_Inr)
  then show ?thesis
    using assms by (cases raw) (auto simp: load_evidence_bundle_def require_eq_Inr SUPPORTED_ENVELOPE_SCHEMA_VERSION_def
        split: option.split_asm json.split_asm)
qed

section \<open>Freshness\<close>

definition fresh_within :: "'a observation_scheme \<Rightarrow> aware \<Rightarrow> int \<Rightarrow> bool" where
  "fresh_within v t limit_ms \<longleftrightarrow>
     0 \<le> at_us t - at_us (ob_event_ts v) \<and> at_us t - at_us (ob_event_ts v) \<le> limit_ms * 1000 \<and>
     0 \<le> at_us t - at_us (ob_receive_ts v) \<and> at_us t - at_us (ob_receive_ts v) \<le> limit_ms * 1000"

text \<open>The limits an override can mean: the ceiling, or a positive integer up to it.\<close>

definition permitted_limit :: "int dyn option \<Rightarrow> int \<Rightarrow> int \<Rightarrow> bool" where
  "permitted_limit m cap limit \<longleftrightarrow>
     m = None \<and> limit = cap \<or> m = Some (Inst limit) \<and> 0 < limit \<and> limit \<le> cap"

lemma ceiling_eq_Inr: "validated_freshness_ceiling_ms m cap = Inr limit \<longleftrightarrow> permitted_limit m cap limit"
  by (auto simp: validated_freshness_ceiling_ms_def permitted_limit_def split: option.split dyn.split)

lemma freshness_under_None:
  "freshness_under v t m cap = Inr None \<longleftrightarrow> (\<exists>limit. permitted_limit m cap limit \<and> fresh_within v t limit)"
  by (auto simp: freshness_under_def at_defs map_res_eq_Inr ceiling_eq_Inr fresh_within_def not_less Let_def)

lemma utc_argument_eq_Inr: "utc_argument name ts = Inr t \<longleftrightarrow> ts = Aware t \<and> at_off t = 0"
  by (auto simp: utc_argument_def not_utc_def split: datetime.split)

section \<open>The synthetic bundle, evaluated\<close>

definition session_of :: "int \<Rightarrow> evidence_session" where
  "session_of day =
     \<lparr>es_session_date = day, es_rth_start = utc (day * us_per_day + 810 * us_per_min),
      es_rth_end = utc (day * us_per_day + 1200 * us_per_min),
      es_provenance = ''SYNTHETIC_FIXTURE_V1_HUMAN_SUPPLIED_RTH_BOUNDS''\<rparr>"

lemma synthetic_text:
  "\<not> all_space ''SYNTHETIC_FIXTURE_V1_HUMAN_SUPPLIED_RTH_BOUNDS''" "\<not> all_space ''SYNTHETIC_TEST_VENDOR''"
  "\<not> all_space ''SYNTHETIC.MAIN.CGIF''" "\<not> all_space ''SYNTHETIC.OPRA.PILLAR''" "\<not> all_space ''SPX.IDX''"
  "\<not> all_space ''XSP.IDX''" "\<not> all_space ''XSP_TEST_PUT_495''" "\<not> all_space ''SPX_TEST_PUT_4950''"
  "\<not> all_space ''SPXW_TEST_PUT_4950''"
  by code_simp+

lemma rth_session_eq: "rth_session day = Inr (session_of day)"
proof -
  have "wf_evidence_session (session_of day)"
    by (simp add: session_wf_iff session_of_def synthetic_text utc_def at_date_def us_per_day_def us_per_min_def
        del: all_space.simps)
  then show ?thesis
    by (simp add: rth_session_def mk_evidence_session_def session_of_def wf_evidence_session_def construct_ok)
qed

text \<open>The instants at which the observations of the bundle fall into its session.\<close>

definition bundle_time :: "aware \<Rightarrow> bool" where
  "bundle_time t \<longleftrightarrow>
     at_off t = 0 \<and> 48600200000 \<le> at_us t mod us_per_day \<and> at_us t mod us_per_day \<le> 72000100000"

lemma bundle_time_iff:
  "bundle_time t \<longleftrightarrow>
     at_off t = 0 \<and> at_us (es_rth_start (session_of (at_date t))) \<le> at_us t - 200000 \<and>
     at_us t - 100000 \<le> at_us (es_rth_end (session_of (at_date t)))"
proof -
  let ?q = "at_us t div us_per_day * us_per_day" and ?m = "at_us t mod us_per_day"
  have e: "at_us t = ?q + ?m" by simp
  have "(48600200000 \<le> ?m \<and> ?m \<le> 72000100000) \<longleftrightarrow>
      ?q + 48600000000 \<le> at_us t - 200000 \<and> at_us t - 100000 \<le> ?q + 72000000000"
    by (intro iffI conjI; elim conjE) (use e in linarith)+
  then show ?thesis
    by (auto simp: bundle_time_def session_of_def utc_def at_date_def us_per_min_def)
qed

lemma synthetic_underlying_ok:
  assumes "\<not> all_space symbol" and "0 < dval x"
  shows "(\<exists>u. synthetic_underlying t (session_of (at_date t)) symbol ul x = Inr u) \<longleftrightarrow>
    at_off t = 0 \<and> at_us (es_rth_start (session_of (at_date t))) \<le> at_us t - 200000 \<and>
    at_us t - 150000 \<le> at_us (es_rth_end (session_of (at_date t)))"
proof -
  have "symbol \<noteq> []" using assms(1) by auto
  then show ?thesis
    using assms by (auto simp: synthetic_underlying_def mk_underlying_evidence_def construct_eq_Inr
        underlying_evidence_guards_def observation_guard_defs in_rth_def synthetic_text simp del: all_space.simps)
qed

lemma synthetic_option_ok:
  assumes "\<not> all_space symbol" and "0 < dval strike" and "0 \<le> seq" and "ul = OPTION_ROOT_UNDERLYING root'"
  shows "(\<exists>v. synthetic_option t (session_of (at_date t)) root' ul symbol strike seq = Inr v) \<longleftrightarrow> bundle_time t"
proof -
  have "symbol \<noteq> []" using assms(1) by auto
  moreover have "dval (Dec 48 (- 2)) \<le> dval (Dec 52 (- 2))" "0 \<le> dval (Dec 48 (- 2))" "0 < dval (Dec 52 (- 2))" by code_simp+
  moreover have "at_off (es_rth_end (session_of d)) = 0" for d by (simp add: session_of_def utc_def)
  ultimately show ?thesis
    using assms unfolding bundle_time_iff
    by (auto simp: synthetic_option_def mk_option_evidence_def construct_eq_Inr option_evidence_guards_def
        observation_guard_defs in_rth_def synthetic_text nbbo_guards_def out_of_def not_less
        simp del: all_space.simps)
qed

lemma synthetic_option_fields:
  assumes "synthetic_option t (session_of (at_date t)) root' ul symbol strike seq = Inr v" and "at_off t = 0"
  shows "wf_option_evidence v \<and> oe_option_root v = root' \<and> record_key_of v =
      (''SYNTHETIC_TEST_VENDOR'', ''SYNTHETIC.OPRA.PILLAR'', symbol, at_us t - 200000, seq) \<and>
    option_freshness_reason v (Aware t) (Inst True) None = Inr None"
proof -
  have "wf_evidence_session (session_of d)" for d
    using rth_session_eq [of d] by (simp add: rth_session_def mk_evidence_session_def construct_eq_Inr wf_evidence_session_def)
  then show ?thesis
    using assms
    by (auto simp: synthetic_option_def mk_option_evidence_def construct_eq_Inr wf_option_evidence_def record_key_of_def
        option_freshness_reason_def bind_res_eq_Inr utc_argument_eq_Inr freshness_under_None permitted_limit_def
        fresh_within_def MAX_QUOTE_AGE_MS_0DTE_AFTER_2PM_CT_def)
qed

lemma synthetic_underlying_fields:
  assumes "synthetic_underlying t (session_of (at_date t)) symbol ul x = Inr u" and "at_off t = 0"
  shows "record_key_of u = (''SYNTHETIC_TEST_VENDOR'', ''SYNTHETIC.MAIN.CGIF'', symbol, at_us t - 200000, 1) \<and>
    underlying_freshness_reason u (Aware t) None = Inr None"
  using assms
  by (auto simp: synthetic_underlying_def mk_underlying_evidence_def construct_eq_Inr record_key_of_def
      underlying_freshness_reason_def bind_res_eq_Inr utc_argument_eq_Inr freshness_under_None permitted_limit_def
      fresh_within_def MAX_UNDERLYING_PRICE_AGE_MS_def)

lemma positive_prices:
  "0 < dval (Dec 548732 (- 2))" "0 < dval (Dec 54873 (- 2))" "0 < dval (Dec 495 0)" "0 < dval (Dec 4950 0)"
  by code_simp+

section \<open>Properties\<close>

text \<open>C37. What a loaded bundle is, given that the parsers return constructed instances only: the
  file is UTF-8 and, to an ordinary JSON reader, an object with no field outside the four of the
  envelope and schema version 1; every observation lies in order inside its session on the date of
  the session and is attested; an index value is official and positive; an option belongs to its
  root, is observed before its last trading time, which is not after its expiry, and has a complete
  uncrossed quote; and no two observations of one kind share their identity.\<close>

theorem loaded_bundle_is_well_formed:
  assumes "\<And>j u. parse_underlying j = Inr u \<Longrightarrow> wf_underlying_evidence u"
    and "\<And>j v. parse_option j = Inr v \<Longrightarrow> wf_option_evidence v"
    and "load_evidence_bundle parse_underlying parse_option file_bytes = Inr b"
  shows "(\<exists>ms. utf8_ok file_bytes \<and> json_loads (universal_newlines file_bytes) = Inr (JObj ms) \<and>
      set (map fst ms) \<subseteq> set ALLOWED_TOP_LEVEL_FIELDS \<and> map_of ms ''schemaVersion'' = Some (JInt 1)) \<and>
    list_all (\<lambda>u. in_session_order u \<and> is_attested u \<and> ue_value_kind u = OFFICIAL_INDEX_VALUE \<and> 0 < dval (ue_value u))
      (eb_underlying_observations b) \<and>
    list_all (\<lambda>v. in_session_order v \<and> is_attested v \<and> ob_underlying v = OPTION_ROOT_UNDERLYING (oe_option_root v) \<and>
        at_us (ob_receive_ts v) \<le> at_us (oe_last_trading_time v) \<and>
        at_us (oe_last_trading_time v) \<le> at_us (oe_expiration_date v) \<and>
        (\<exists>bid ask m n. oe_bid v = Some bid \<and> oe_ask v = Some ask \<and> oe_bid_size v = Some m \<and> oe_ask_size v = Some n \<and>
          0 \<le> dval bid \<and> dval bid \<le> dval ask \<and> 0 < dval ask \<and> 0 \<le> m \<and> 0 \<le> n))
      (eb_option_observations b) \<and>
    distinct (map record_key_of (eb_underlying_observations b)) \<and> distinct (map record_key_of (eb_option_observations b))"
proof -
  obtain ms us os where doc: "utf8_ok file_bytes" "strict_loads (universal_newlines file_bytes) = Inr (JObj ms)"
      "unknown_fields ms ALLOWED_TOP_LEVEL_FIELDS = []" "map_of ms ''schemaVersion'' = Some (JInt 1)"
    and b: "build_evidence_bundle parse_underlying parse_option us os = Inr b"
    using load_evidence_bundleD [OF assms(3)] by blast
  from b have obs: "parse_all parse_underlying us = Inr (eb_underlying_observations b)"
    "parse_all parse_option os = Inr (eb_option_observations b)"
    "distinct (map record_key_of (eb_underlying_observations b))" "distinct (map record_key_of (eb_option_observations b))"
    by (auto simp: build_evidence_bundle_def res_iffs no_duplicates_iff)
  have "json_loads (universal_newlines file_bytes) = Inr (JObj ms)" by (rule strict_loads_agrees [OF doc(2)])
  moreover have "set (map fst ms) \<subseteq> set ALLOWED_TOP_LEVEL_FIELDS" using doc(3) by (rule no_unknown_fields)
  moreover have "wf_underlying_evidence u" if "u \<in> set (eb_underlying_observations b)" for u
    using parse_all_mem [OF obs(1) that] assms(1) by blast
  moreover have "wf_option_evidence v" if "v \<in> set (eb_option_observations b)" for v
    using parse_all_mem [OF obs(2) that] assms(2) by blast
  ultimately show ?thesis
    using doc(1,4) obs(3,4) wf_underlyingD wf_optionD unfolding list_all_iff by blast
qed

definition sample_document :: string where
  "sample_document = ''{\"schemaVersion\": 1, \"valid\": {\"underlying_observations\": [], \"option_observations\": [{}]}}''"

lemma sample_document_reads:
  "utf8_ok sample_document"
  "strict_loads (universal_newlines sample_document) = Inr (JObj [(''schemaVersion'', JInt 1),
     (''valid'', JObj [(''underlying_observations'', JArr []), (''option_observations'', JArr [JObj []])])])"
  by code_simp+

theorem loaded_bundle_is_well_formed_witness:
  "\<exists>v b. load_evidence_bundle (\<lambda>_. Inl (ValidationError [])) (\<lambda>_. Inr v) sample_document = Inr b \<and>
     eb_option_observations b = [v] \<and> in_session_order v"
proof -
  let ?t = "utc 54000000000"
  have "bundle_time ?t" by (simp add: bundle_time_def utc_def us_per_day_def)
  then obtain v where v: "synthetic_option ?t (session_of (at_date ?t)) ROOT_XSP underlying.XSP ''XSP_TEST_PUT_495'' (Dec 495 0) 101 = Inr v"
    using synthetic_option_ok [of "''XSP_TEST_PUT_495''" "Dec 495 0" 101 underlying.XSP ROOT_XSP ?t] synthetic_text(7) positive_prices(3)
    by auto
  then have wf: "wf_option_evidence v" using synthetic_option_fields by (simp add: utc_def)
  have load: "load_evidence_bundle (\<lambda>_. Inl (ValidationError [])) (\<lambda>_. Inr v) sample_document =
      Inr \<lparr>eb_underlying_observations = [], eb_option_observations = [v]\<rparr>"
    by (simp add: load_evidence_bundle_def sample_document_reads unknown_fields_def ALLOWED_TOP_LEVEL_FIELDS_def
        ALLOWED_VALID_SECTION_FIELDS_def SUPPORTED_ENVELOPE_SCHEMA_VERSION_def build_evidence_bundle_def)
  have "in_session_order v" using loaded_bundle_is_well_formed [OF _ _ load] wf by simp
  then show ?thesis using load by fastforce
qed

text \<open>Freshness of an option observation is exact, and an override only tightens it: the
  observation is fresh precisely when the instant is in UTC, the override is absent or a positive
  integer up to the limit of the context (500 ms for 0-DTE after 14:00 Central, else 1000 ms), and
  neither its event nor its receipt is in the future or older than that limit.\<close>

theorem option_freshness_is_exact:
  "option_freshness_reason v (Aware t) (Inst late) m = Inr None \<longleftrightarrow>
     at_off t = 0 \<and> (\<exists>limit. permitted_limit m (if late then 500 else 1000) limit \<and>
       fresh_within v t limit \<and> fresh_within v t (if late then 500 else 1000))"
proof -
  have "fresh_within v t limit \<Longrightarrow> limit \<le> cap \<Longrightarrow> fresh_within v t cap" for limit cap
    by (simp add: fresh_within_def)
  moreover have "permitted_limit m cap limit \<Longrightarrow> limit \<le> cap" for cap limit by (auto simp: permitted_limit_def)
  ultimately show ?thesis
    by (auto simp: option_freshness_reason_def bind_res_eq_Inr utc_argument_eq_Inr freshness_under_None
        MAX_QUOTE_AGE_MS_0DTE_AFTER_2PM_CT_def MAX_QUOTE_AGE_MS_NORMAL_def)
qed

text \<open>The synthetic bundle exists exactly for instants in UTC from 13:30:00.200 to
  20:00:00.100; its options are of the three roots in order, no two observations share an identity,
  and at that instant every observation is fresh, even under the tightest limit.\<close>

theorem synthetic_bundle_is_exact:
  "case build_synthetic_evidence_bundle (Aware t) of
     Inl _ \<Rightarrow> \<not> bundle_time t
   | Inr b \<Rightarrow> bundle_time t \<and> map oe_option_root (eb_option_observations b) = [ROOT_XSP, ROOT_SPX, ROOT_SPXW] \<and>
       distinct (map record_key_of (eb_option_observations b)) \<and>
       distinct (map record_key_of (eb_underlying_observations b)) \<and>
       list_all (\<lambda>v. option_freshness_reason v (Aware t) (Inst True) None = Inr None) (eb_option_observations b) \<and>
       list_all (\<lambda>u. underlying_freshness_reason u (Aware t) None = Inr None) (eb_underlying_observations b)"
proof (cases "bundle_time t")
  case True
  then have off: "at_off t = 0" by (simp add: bundle_time_def)
  have under: "\<exists>u. synthetic_underlying t (session_of (at_date t)) symbol ul x = Inr u"
    if "\<not> all_space symbol" "0 < dval x" for symbol ul x
    using True unfolding synthetic_underlying_ok [OF that] bundle_time_iff by auto
  obtain u1 where u1: "synthetic_underlying t (session_of (at_date t)) ''SPX.IDX'' underlying.SPX (Dec 548732 (- 2)) = Inr u1"
    using under [OF synthetic_text(5) positive_prices(1)] by force
  obtain u2 where u2: "synthetic_underlying t (session_of (at_date t)) ''XSP.IDX'' underlying.XSP (Dec 54873 (- 2)) = Inr u2"
    using under [OF synthetic_text(6) positive_prices(2)] by force
  have opt: "\<exists>v. synthetic_option t (session_of (at_date t)) root' ul symbol strike seq = Inr v"
    if "\<not> all_space symbol" "0 < dval strike" "0 \<le> seq" "ul = OPTION_ROOT_UNDERLYING root'" for root' ul symbol strike seq
    using True synthetic_option_ok [OF that] by blast
  obtain o1 where o1: "synthetic_option t (session_of (at_date t)) ROOT_XSP underlying.XSP ''XSP_TEST_PUT_495'' (Dec 495 0) 101 = Inr o1"
    using opt [OF synthetic_text(7) positive_prices(3), of 101 underlying.XSP ROOT_XSP] by auto
  obtain o2 where o2: "synthetic_option t (session_of (at_date t)) ROOT_SPX underlying.SPX ''SPX_TEST_PUT_4950'' (Dec 4950 0) 102 = Inr o2"
    using opt [OF synthetic_text(8) positive_prices(4), of 102 underlying.SPX ROOT_SPX] by auto
  obtain o3 where o3: "synthetic_option t (session_of (at_date t)) ROOT_SPXW underlying.SPX ''SPXW_TEST_PUT_4950'' (Dec 4950 0) 103 = Inr o3"
    using opt [OF synthetic_text(9) positive_prices(4), of 103 underlying.SPX ROOT_SPXW] by auto
  note f = synthetic_option_fields [OF o1 off] synthetic_option_fields [OF o2 off] synthetic_option_fields [OF o3 off]
    synthetic_underlying_fields [OF u1 off] synthetic_underlying_fields [OF u2 off]
  show ?thesis using True f by (simp add: build_synthetic_evidence_bundle_def rth_session_eq u1 u2 o1 o2 o3)
next
  case False
  then have "\<nexists>v. synthetic_option t (session_of (at_date t)) ROOT_XSP underlying.XSP ''XSP_TEST_PUT_495'' (Dec 495 0) 101 = Inr v"
    using synthetic_option_ok [of "''XSP_TEST_PUT_495''" "Dec 495 0" 101 underlying.XSP ROOT_XSP t] synthetic_text(7) positive_prices(3)
    by simp
  then show ?thesis
    using False by (auto simp: build_synthetic_evidence_bundle_def rth_session_eq bind_res_eq_Inr split: sum.split)
qed

end
