(* ===== verification/Spec2Isabelle.thy ===== *)
theory Spec2Isabelle
  imports Pipeline Rehydration OperatorSafety ShadowCycle Strategies Reports ReplayTotality Agents Relay
    PaperOperatorSafety Evidence
begin

text \<open>
  Verification of the Hermes personal options program: a Python system that proposes, validates,
  routes, submits (to a paper broker) and audits vertical credit spreads on XSP and SPX.

  \<^bold>\<open>The program and its flow.\<close> A strategy reads market data and proposes a candidate. The
  gateway evaluates the candidate against some twenty gates over a bundle of safety state and
  either rejects it with reason codes or returns a validated intent that carries three capability
  tokens. Routing turns the intent into an order ticket, submission turns the ticket into a submit
  intent with an idempotency key, a human confirms it, the attempt is appended to the audit store,
  the paper broker fills it and the report is appended. Reconciliation compares the broker's
  positions with the ledger. The operator halts, resumes, cancels and flattens through the control
  plane, with one-command tokens. A shadow service runs the gateway without any submission.

  \<^bold>\<open>Foundations.\<close>
  \<^item> \<open>Prelude\<close>: results that carry an exception (\<open>Inl\<close>), guard tables of model validators,
    ordered collection of codes. \<open>Errors\<close>: the exceptions as a datatype. \<open>Steps\<close>: stateful
    code that may raise and keeps what it wrote; the locale \<open>step_relation\<close> lifts a reflexive
    transitive relation on states to every composed step.
  \<^item> \<open>Numerics\<close>: \<open>Decimal\<close> arithmetic rounded to 28 digits half-even and floats rounded to 53
    bits, both instances of the locale \<open>rounding\<close>. Exponent limits and the sign of zero are left
    out. A decimal field keeps coefficient and exponent, since they print differently.
  \<^item> \<open>Clock\<close>, \<open>Isoformat\<close>: aware and naive datetimes in microseconds, with their offsets.
    \<open>Sha256\<close>: the digest of \<open>hashlib\<close>. \<open>Json\<close>: \<open>json.loads\<close>, with fuel one more than the
    length of the text, which \<open>json_value_fuel\<close> proves to be enough.

  \<^bold>\<open>Components.\<close> A Pydantic model is a record, its constraints and validators are a guard table
  \<open>X_guards\<close>, and \<open>wf_X\<close> says that the record is a constructed instance. Of a failing
  construction the model keeps the first failed guard.
  \<^item> \<open>Enums\<close>, \<open>SafetyState\<close>, \<open>Capabilities\<close>, \<open>TradeIntent\<close>: the modules of \<open>schemas/\<close>. The
    locale \<open>capability_token\<close> says that a gate and the minting of its token agree, with portfolio
    heat, feed certification and strategy stage as its instances.
  \<^item> \<open>Gateway\<close> (\<open>gateway/request.py\<close>, \<open>gates.py\<close>, \<open>gateway.py\<close>): every gate and \<open>validate\<close>,
    refined against \<open>entry_violation\<close>, the rule book stated without the code's control flow.
  \<^item> \<open>Routing\<close> (\<open>gateway/order_routing.py\<close>), \<open>Submission\<close> (\<open>gateway/broker_submission.py\<close>):
    tickets, submit intents, keys and execution reports with their schemas. Ticket minting is stated
    exactly; a MARKET ticket carries both legs in every emergency state, also in BROKEN_SPREAD, where
    \<open>CONSTITUTION.md\<close> permits the risk-reduction leg only (a finding).
  \<^item> \<open>Allocation\<close>, \<open>Positions\<close> (\<open>schemas/position_state.py\<close>, \<open>gateway/reconciliation.py\<close>):
    the greedy protection check is exact with respect to the existence of an allocation, and
    reconciliation with respect to multisets of normalised legs.
  \<^item> \<open>Brokers\<close> (\<open>brokers/base.py\<close>, \<open>fake.py\<close>), \<open>PaperBroker\<close> (\<open>brokers/paper.py\<close>): the
    adapter interface as a locale over sequences of operations, the simulators and the confirmation
    gate in front of them. \<open>EnvConfig\<close> (\<open>config/app_config.py\<close>): configuration from the
    environment.
  \<^item> \<open>ReportRecords\<close>, \<open>AuditStore\<close>, \<open>Rehydration\<close> (\<open>storage/\<close>, \<open>reports/records.py\<close>): the
    append-only table with its unique index, secret refusal, submit attempts, recovery after a
    restart, provenance and the rebuilding of protected objects.
  \<^item> \<open>PaperCycle\<close>, \<open>Pipeline\<close> (\<open>services/paper_cycle.py\<close>): the whole cycle; an attempt is
    persisted before the broker is called, and a confirmed request is executed.
  \<^item> \<open>ShadowCycle\<close> (\<open>services/shadow_cycle.py\<close>, \<open>services/__main__.py\<close>): the read-only cycle,
    its gate flag by flag, its exact counters, and the exit codes of the process.
  \<^item> \<open>ControlPlane\<close>, \<open>OperatorSafety\<close> (\<open>ops/control_plane.py\<close>, \<open>status_report.py\<close>,
    \<open>commands.py\<close>): tokens, commands, the command line, and what they guarantee. \<open>authenticated\<close>
    says over the stored rows what a cancel demands of an open order, and
    \<open>resolve_iff_authenticated\<close> that the code resolves exactly that.
  \<^item> \<open>MarketData\<close> (\<open>data/\<close>), \<open>Strategies\<close> (\<open>strategies/\<close>): adapters behind the locale
    \<open>market_data_source\<close>, the two strategies and their ranking. \<open>Evidence\<close>
    (\<open>data/market_data_contracts_v1.py\<close>, \<open>market_data_evidence_fixtures_v1.py\<close>): observations,
    sessions and freshness, the loader over the strict JSON reader \<open>strict_value\<close>, which
    \<open>strict_agrees\<close> relates to \<open>json_value\<close>, and the synthetic bundle.
  \<^item> \<open>Reports\<close> (\<open>reports/\<close>): the reads of the store, both reports, persisting and the exports.
    A report states what the store holds, by the members of the stored payloads (\<open>says\<close>), and does
    not change with later events.
  \<^item> \<open>Replay\<close>, \<open>ReplaySafety\<close>, \<open>ReplayTotality\<close> (\<open>replay/\<close>): scenarios, every branch of the
    runner, results and the summary of a suite; attempts are persisted first, results are coherent
    (\<open>coherent_result\<close>: with the outcome, the decision, the minted intent and the broker's answer)
    and complete, and the exceptions that can leave the runner are listed.
  \<^item> \<open>Agents\<close> (\<open>agents/\<close>): tool policies, the guard on write paths, roles and their session
    options, the candidate boundary and the read-only tools.
  \<^item> \<open>Relay\<close> (\<open>storage/sqlite_readonly.py\<close>, \<open>ops/agent_os_relay.py\<close>, \<open>api.py\<close>,
    \<open>notifications.py\<close>): the read-only view of the table, the views of the relay with their routes,
    the notifications, and when relay and report agree.
  \<^item> \<open>PaperOperator\<close>, \<open>PaperOperatorSafety\<close> (\<open>ops/paper_operator.py\<close>): the pinned fixture, the
    request from replay evidence, the typed confirmation and the commands; only intents whose displayed
    code was typed reach the broker. \<open>Utf8\<close>: bytes that are text, line ends and white space.

  \<^bold>\<open>Parameters.\<close> What the sources only call is an argument of the definitions: the offset of
  the zone database at an instant (\<open>ct_offset\<close>), Pydantic's \<open>model_dump_json\<close> (\<open>dump\<close>) and the
  codec of the store with its parser of timestamps, the readings of the wall clock (\<open>wall\<close>, a
  function of the number of reads), the confirming human, the answers typed at a terminal, the
  strategy and the broker adapter of a replay. SQLite is the table with its primary key and its
  unique index; a file is its bytes with what the file system says of it. Text of messages and
  details is abbreviated where no code reads it; strings are sequences of bytes.

  \<^bold>\<open>Not modelled.\<close> Argument parsing, printing, directory and file creation, HTTP and the agents'
  SDK session are input and output only. The
  pinned digest of the operator's fixture is not evaluated: the concrete session of
  \<open>PaperOperatorSafety\<close> starts from the candidate of the fixture.
\<close>

end
